(* ===== verification/Prelude.thy ===== *)
theory Prelude
  imports Main "HOL-Library.Word"
begin

text \<open>
  What every component of the model shares: the machine integers of the Rust code, its
  \<open>Result\<close> type with the early return of the question mark operator, the checked and
  saturating integer operations, and the decimal printing and parsing of integers.

  A Rust function that returns \<open>Result<T, E>\<close> is a HOL function into
  \<open>('t, 'e) result\<close>. Beside an error value the result can be \<open>Panic\<close>: the release
  profile of the workspace sets \<open>overflow-checks = true\<close>, so a plain addition that
  overflows aborts the call, as does a slice at a position that is no character boundary.
  \<open>Uint128\<close> and \<open>Uint256\<close> are \<open>128 word\<close> and \<open>256 word\<close>, \<open>u64\<close> is \<open>64 word\<close>,
  and so on: the width is in the type and every bound is a fact about \<open>unat\<close>.
\<close>

section \<open>Results\<close>

type_synonym u8 = "8 word"
type_synonym u16 = "16 word"
type_synonym u32 = "32 word"
type_synonym u64 = "64 word"
type_synonym u128 = "128 word"
type_synonym u256 = "256 word"

datatype 'e fault = Fail 'e | Panic

type_synonym ('a, 'e) result = "'e fault + 'a"

abbreviation Ok :: "'a \<Rightarrow> ('a, 'e) result" where
  "Ok x \<equiv> Inr x"

abbreviation Err :: "'e \<Rightarrow> ('a, 'e) result" where
  "Err e \<equiv> Inl (Fail e)"

abbreviation Panicked :: "('a, 'e) result" where
  "Panicked \<equiv> Inl Panic"

text \<open>The question mark operator: go on with the value, or return the error.\<close>

definition and_then :: "('a, 'e) result \<Rightarrow> ('a \<Rightarrow> ('b, 'e) result) \<Rightarrow> ('b, 'e) result" where
  "and_then m k = (case m of Inl e \<Rightarrow> Inl e | Inr x \<Rightarrow> k x)"

text \<open>\<open>Result::map_err\<close>, and the \<open>From\<close> conversion the question mark operator applies.\<close>

definition map_err :: "('e \<Rightarrow> 'f) \<Rightarrow> ('a, 'e) result \<Rightarrow> ('a, 'f) result" where
  "map_err f m = (case m of Inl (Fail e) \<Rightarrow> Err (f e) | Inl Panic \<Rightarrow> Panicked | Inr x \<Rightarrow> Ok x)"

text \<open>\<open>Option::ok_or\<close>.\<close>

definition ok_or :: "'e \<Rightarrow> 'a option \<Rightarrow> ('a, 'e) result" where
  "ok_or e m = (case m of None \<Rightarrow> Err e | Some x \<Rightarrow> Ok x)"

named_theorems result_simps
  \<open>equations and equivalences that take a chain of results apart\<close>

named_theorems panic_simps
  \<open>equivalences that trace an abort to the step that aborts\<close>

lemma and_then_simps [simp, result_simps]:
  "and_then (Ok x) k = k x"
  "and_then (Inl e) k = Inl e"
  by (simp_all add: and_then_def)

lemma map_err_simps [simp, result_simps]:
  "map_err f (Ok x) = Ok x"
  "map_err f (Err e) = Err (f e)"
  "map_err f Panicked = Panicked"
  by (simp_all add: map_err_def)

lemma ok_or_simps [simp, result_simps]:
  "ok_or e None = Err e"
  "ok_or e (Some x) = Ok x"
  by (simp_all add: ok_or_def)

lemma and_then_Ok_iff [result_simps]:
  "and_then m k = Ok y \<longleftrightarrow> (\<exists>x. m = Ok x \<and> k x = Ok y)"
  by (cases m) simp_all

lemma and_then_Err_iff:
  "and_then m k = Inl e \<longleftrightarrow> m = Inl e \<or> (\<exists>x. m = Ok x \<and> k x = Inl e)"
  by (cases m) auto

lemma map_err_Ok_iff [result_simps]: "map_err f m = Ok x \<longleftrightarrow> m = Ok x"
  by (auto simp: map_err_def split: sum.splits fault.splits)

lemma and_then_Panic_iff [panic_simps]:
  "and_then m k = Panicked \<longleftrightarrow> m = Panicked \<or> (\<exists>x. m = Ok x \<and> k x = Panicked)"
  by (cases m) auto

lemma map_err_Panic_iff [result_simps, panic_simps]: "map_err f m = Panicked \<longleftrightarrow> m = Panicked"
  by (auto simp: map_err_def split: sum.splits fault.splits)

lemma map_err_Err_iff: "map_err f m = Err e \<longleftrightarrow> (\<exists>x. m = Err x \<and> e = f x)"
  by (auto simp: map_err_def split: sum.splits fault.splits)

lemmas error_iffs = and_then_Err_iff map_err_Err_iff

lemma ok_or_Ok_iff [result_simps]: "ok_or e m = Ok x \<longleftrightarrow> m = Some x"
  by (cases m) simp_all

lemma ok_or_ErrI: "(\<And>x. ok_or e m \<noteq> Ok x) \<Longrightarrow> ok_or e m = Err e"
  by (metis not_None_eq ok_or_simps)

lemma ok_or_not_Panic [simp, result_simps]: "ok_or e m \<noteq> Panicked"
  by (cases m) simp_all

lemma and_then_eqI: "m = Ok x \<Longrightarrow> k x = y \<Longrightarrow> and_then m k = y"
  by simp

lemma if_Err_eq_Ok [result_simps]:
  "(if b then Inl e else m) = Ok x \<longleftrightarrow> \<not> b \<and> m = Ok x"
  by simp

text \<open>No step of a chain panics, so the chain does not.\<close>

lemma and_then_no_panicI:
  "m \<noteq> Panicked \<Longrightarrow> (\<And>x. m = Ok x \<Longrightarrow> k x \<noteq> Panicked) \<Longrightarrow> and_then m k \<noteq> Panicked"
  by (cases m) auto

section \<open>Checked and saturating integers\<close>

datatype overflow_error = OverflowAdd | OverflowSub | OverflowMul

datatype divide_by_zero_error = DivideByZeroError

definition checked_add :: "'a::len word \<Rightarrow> 'a word \<Rightarrow> ('a word, overflow_error) result" where
  "checked_add a b = (if unat a + unat b < 2 ^ LENGTH('a) then Ok (a + b) else Err OverflowAdd)"

definition checked_sub :: "'a::len word \<Rightarrow> 'a word \<Rightarrow> ('a word, overflow_error) result" where
  "checked_sub a b = (if b \<le> a then Ok (a - b) else Err OverflowSub)"

definition checked_mul :: "'a::len word \<Rightarrow> 'a word \<Rightarrow> ('a word, overflow_error) result" where
  "checked_mul a b = (if unat a * unat b < 2 ^ LENGTH('a) then Ok (a * b) else Err OverflowMul)"

definition checked_div :: "'a::len word \<Rightarrow> 'a word \<Rightarrow> ('a word, divide_by_zero_error) result" where
  "checked_div a b = (if b = 0 then Err DivideByZeroError else Ok (a div b))"

text \<open>Plain addition under \<open>overflow-checks = true\<close>.\<close>

definition plain_add :: "'a::len word \<Rightarrow> 'a word \<Rightarrow> ('a word, 'e) result" where
  "plain_add a b = (if unat a + unat b < 2 ^ LENGTH('a) then Ok (a + b) else Panicked)"

definition saturating_sub :: "'a::len word \<Rightarrow> 'a word \<Rightarrow> 'a word" where
  "saturating_sub a b = (if b \<le> a then a - b else 0)"

definition saturating_mul :: "'a::len word \<Rightarrow> 'a word \<Rightarrow> 'a word" where
  "saturating_mul a b = (if unat a * unat b < 2 ^ LENGTH('a) then a * b else - 1)"

text \<open>Narrowing \<open>Uint256\<close> to \<open>Uint128\<close> (\<open>try_into\<close>).\<close>

definition u256_try_into_u128 :: "u256 \<Rightarrow> u128 option" where
  "u256_try_into_u128 w = (if unat w < 2 ^ 128 then Some (ucast w) else None)"

lemma unat_less_size [simp]: "unat (a :: 'a::len word) < 2 ^ LENGTH('a)"
  by simp

lemma word_eq_iff_unat_eq: "(a = b) \<longleftrightarrow> unat (a :: 'a::len word) = unat b"
  by (rule word_unat_eq_iff)

lemma unat_plus_if_fits:
  "unat (a :: 'a::len word) + unat b < 2 ^ LENGTH('a) \<Longrightarrow> unat (a + b) = unat a + unat b"
  by (rule unat_add_lem [THEN iffD1])

lemma unat_times_if_fits:
  "unat (a :: 'a::len word) * unat b < 2 ^ LENGTH('a) \<Longrightarrow> unat (a * b) = unat a * unat b"
  by (rule unat_mult_lem [THEN iffD1])

lemma unat_minus_if_le: "b \<le> a \<Longrightarrow> unat (a - b) = unat a - unat (b :: 'a::len word)"
  by (simp add: unat_sub word_le_nat_alt)

lemma checked_add_Ok_iff [result_simps]:
  "checked_add a b = Ok c \<longleftrightarrow>
     unat a + unat b < 2 ^ LENGTH('a) \<and> unat (c :: 'a::len word) = unat a + unat b"
  by (auto simp: checked_add_def word_eq_iff_unat_eq unat_plus_if_fits)

lemma checked_sub_Ok_iff [result_simps]:
  "checked_sub a b = Ok c \<longleftrightarrow>
     unat b \<le> unat a \<and> unat (c :: 'a::len word) = unat a - unat b"
  by (auto simp: checked_sub_def word_eq_iff_unat_eq unat_minus_if_le word_le_nat_alt)

lemma checked_sub_Ok_iff_le: "checked_sub a b = Ok c \<longleftrightarrow> b \<le> a \<and> c = a - b"
  by (auto simp: checked_sub_def)

lemma checked_mul_Ok_iff [result_simps]:
  "checked_mul a b = Ok c \<longleftrightarrow>
     unat a * unat b < 2 ^ LENGTH('a) \<and> unat (c :: 'a::len word) = unat a * unat b"
  by (auto simp: checked_mul_def word_eq_iff_unat_eq unat_times_if_fits)

lemma checked_div_Ok_iff [result_simps]:
  "checked_div a b = Ok c \<longleftrightarrow> b \<noteq> 0 \<and> unat (c :: 'a::len word) = unat a div unat b"
  by (auto simp: checked_div_def word_eq_iff_unat_eq unat_div)

lemma plain_add_Ok_iff [result_simps]:
  "plain_add a b = Ok c \<longleftrightarrow>
     unat a + unat b < 2 ^ LENGTH('a) \<and> unat (c :: 'a::len word) = unat a + unat b"
  by (auto simp: plain_add_def word_eq_iff_unat_eq unat_plus_if_fits)

lemma checked_not_Panic [simp]:
  "checked_add a b \<noteq> Panicked" "checked_sub a b \<noteq> Panicked"
  "checked_mul a b \<noteq> Panicked" "checked_div a b \<noteq> Panicked"
  by (simp_all add: checked_add_def checked_sub_def checked_mul_def checked_div_def)

lemma unat_saturating_sub [simp]: "unat (saturating_sub a b) = unat a - unat b"
  by (simp add: saturating_sub_def unat_minus_if_le word_le_nat_alt)

lemma unat_saturating_mul:
  "unat (saturating_mul a b) = min (unat a * unat b) (2 ^ LENGTH('a) - 1)"
  for a b :: "'a::len word"
proof (cases "unat a * unat b < 2 ^ LENGTH('a)")
  case True
  then show ?thesis
    by (simp add: saturating_mul_def unat_times_if_fits)
next
  case False
  then have "2 ^ LENGTH('a) - 1 \<le> unat a * unat b"
    by simp
  with False show ?thesis
    by (simp add: saturating_mul_def unsigned_minus_1_eq_mask mask_eq_exp_minus_1 min_absorb2)
qed

lemma u256_try_into_u128_Some_iff [result_simps]:
  "u256_try_into_u128 w = Some c \<longleftrightarrow> unat w < 2 ^ 128 \<and> unat c = unat w"
proof (cases "unat w < 2 ^ 128")
  case True
  then have "unat (ucast w :: u128) = unat w"
    by (simp add: unsigned_ucast_eq take_bit_nat_eq_self)
  with True show ?thesis
    by (auto simp: u256_try_into_u128_def word_eq_iff_unat_eq)
qed (simp add: u256_try_into_u128_def)

lemma unat_ucast_up [simp]:
  "LENGTH('a) \<le> LENGTH('b) \<Longrightarrow> unat (ucast (a :: 'a::len word) :: 'b::len word) = unat a"
  by (simp add: unsigned_ucast_eq take_bit_nat_eq_self order_less_le_trans[OF unat_less_size])

end
