(* ===== verification/Rust_Str.thy ===== *)
theory Rust_Str
  imports Prelude "HOL-Library.Sublist"
begin

text \<open>
  The parts of Rust's \<open>str\<close> and of its integer formatting that the source uses. A Rust
  string is UTF-8, so it is a list of bytes (\<open>char\<close> is a byte in HOL): lengths and
  slices count bytes, and \<open>trim\<close> removes the UTF-8 encodings of the code points with the
  White\_Space property.
\<close>

section \<open>Trimming, case, searching\<close>

definition white_space :: "string list" where
  "white_space =
     [[CHR 0x09], [CHR 0x0A], [CHR 0x0B], [CHR 0x0C], [CHR 0x0D], [CHR 0x20],
      [CHR 0xC2, CHR 0x85], [CHR 0xC2, CHR 0xA0], [CHR 0xE1, CHR 0x9A, CHR 0x80]] @
     map (\<lambda>c. [CHR 0xE2, CHR 0x80, c])
       [CHR 0x80, CHR 0x81, CHR 0x82, CHR 0x83, CHR 0x84, CHR 0x85, CHR 0x86, CHR 0x87,
        CHR 0x88, CHR 0x89, CHR 0x8A, CHR 0xA8, CHR 0xA9, CHR 0xAF] @
     [[CHR 0xE2, CHR 0x81, CHR 0x9F], [CHR 0xE3, CHR 0x80, CHR 0x80]]"

lemma white_space_nonempty: "find (\<lambda>w. prefix w s) white_space = Some w \<Longrightarrow> 0 < length w \<and> prefix w s"
  by (auto simp: find_Some_iff white_space_def nth_append nth_Cons split: if_splits nat.splits)

text \<open>Strip the encodings \<open>ws\<close> off the front, as long as one of them is there.\<close>

function strip_front :: "string list \<Rightarrow> string \<Rightarrow> string" where
  "strip_front ws s =
     (case find (\<lambda>w. w \<noteq> [] \<and> prefix w s) ws of
        None \<Rightarrow> s
      | Some w \<Rightarrow> strip_front ws (drop (length w) s))"
  by pat_completeness auto
termination
  by (relation "measure (\<lambda>(ws, s). length s)")
    (auto simp: find_Some_iff prefix_def)

declare strip_front.simps [simp del]

definition trim_start :: "string \<Rightarrow> string" where
  "trim_start s = strip_front white_space s"

definition trim_end :: "string \<Rightarrow> string" where
  "trim_end s = rev (strip_front (map rev white_space) (rev s))"

definition trim :: "string \<Rightarrow> string" where
  "trim s = trim_end (trim_start s)"

definition byte_of :: "char \<Rightarrow> nat" where
  "byte_of c = of_char c"

definition is_digit :: "char \<Rightarrow> bool" where
  "is_digit c \<longleftrightarrow> 48 \<le> byte_of c \<and> byte_of c \<le> 57"

definition is_upper :: "char \<Rightarrow> bool" where
  "is_upper c \<longleftrightarrow> 65 \<le> byte_of c \<and> byte_of c \<le> 90"

definition is_lower :: "char \<Rightarrow> bool" where
  "is_lower c \<longleftrightarrow> 97 \<le> byte_of c \<and> byte_of c \<le> 122"

definition is_ascii_alphanumeric :: "char \<Rightarrow> bool" where
  "is_ascii_alphanumeric c \<longleftrightarrow> is_digit c \<or> is_upper c \<or> is_lower c"

definition to_lower_char :: "char \<Rightarrow> char" where
  "to_lower_char c = (if is_upper c then char_of (byte_of c + 32) else c)"

definition to_ascii_lowercase :: "string \<Rightarrow> string" where
  "to_ascii_lowercase s = map to_lower_char s"

definition eq_ignore_ascii_case :: "string \<Rightarrow> string \<Rightarrow> bool" where
  "eq_ignore_ascii_case a b \<longleftrightarrow> to_ascii_lowercase a = to_ascii_lowercase b"

definition str_contains :: "string \<Rightarrow> string \<Rightarrow> bool" where
  "str_contains s pat \<longleftrightarrow> sublist pat s"

text \<open>\<open>str::find\<close>: the position of the first occurrence.\<close>

fun str_find :: "string \<Rightarrow> string \<Rightarrow> nat option" where
  "str_find s pat =
     (if prefix pat s then Some 0
      else case s of [] \<Rightarrow> None | _ # s' \<Rightarrow> map_option Suc (str_find s' pat))"

declare str_find.simps [simp del]

text \<open>\<open>str::split\<close> on a separator byte: one more part than separators.\<close>

fun str_split :: "char \<Rightarrow> string \<Rightarrow> string list" where
  "str_split sep [] = [[]]"
| "str_split sep (c # cs) =
     (if c = sep then [] # str_split sep cs
      else case str_split sep cs of [] \<Rightarrow> [[c]] | p # ps \<Rightarrow> (c # p) # ps)"

lemma eq_ignore_ascii_case_refl [simp]: "eq_ignore_ascii_case a a"
  by (simp add: eq_ignore_ascii_case_def)

lemma eq_ignore_ascii_case_sym: "eq_ignore_ascii_case a b \<longleftrightarrow> eq_ignore_ascii_case b a"
  by (auto simp: eq_ignore_ascii_case_def)

lemma length_to_ascii_lowercase [simp]: "length (to_ascii_lowercase s) = length s"
  by (simp add: to_ascii_lowercase_def)

section \<open>Decimal numbers\<close>

definition digit_char :: "nat \<Rightarrow> char" where
  "digit_char d = char_of (48 + d)"

text \<open>\<open>to_string\<close> of an unsigned integer.\<close>

fun show_nat :: "nat \<Rightarrow> string" where
  "show_nat n = (if n < 10 then [digit_char n] else show_nat (n div 10) @ [digit_char (n mod 10)])"

declare show_nat.simps [simp del]

fun digits_value :: "nat \<Rightarrow> string \<Rightarrow> nat option" where
  "digits_value acc [] = Some acc"
| "digits_value acc (c # cs) =
     (if is_digit c then digits_value (10 * acc + (byte_of c - 48)) cs else None)"

text \<open>
  \<open>str::parse\<close> into an unsigned integer of a given width: an optional plus sign, at least
  one digit, and no overflow.
\<close>

definition parse_uint :: "string \<Rightarrow> 'a::len word option" where
  "parse_uint s =
     (let ds = (case s of c # cs \<Rightarrow> if c = CHR ''+'' then cs else s | [] \<Rightarrow> []) in
      if ds = [] then None
      else case digits_value 0 ds of
             None \<Rightarrow> None
           | Some n \<Rightarrow> if n < 2 ^ LENGTH('a) then Some (of_nat n) else None)"

lemma is_digit_digit_char: "d < 10 \<Longrightarrow> is_digit (digit_char d)"
  by (simp add: is_digit_def digit_char_def byte_of_def of_char_of)

lemma byte_of_digit_char: "d < 10 \<Longrightarrow> byte_of (digit_char d) = 48 + d"
  by (simp add: digit_char_def byte_of_def of_char_of)

lemma show_nat_nonempty [simp]: "show_nat n \<noteq> []"
  by (subst show_nat.simps) simp

lemma digits_value_append:
  "digits_value acc (xs @ ys) = Option.bind (digits_value acc xs) (\<lambda>v. digits_value v ys)"
  by (induction xs arbitrary: acc) auto

lemma digits_value_show_nat: "digits_value 0 (show_nat n) = Some n"
proof (induction n rule: show_nat.induct)
  case (1 n)
  show ?case
  proof (cases "n < 10")
    case True
    then show ?thesis
      by (subst show_nat.simps) (simp add: is_digit_digit_char byte_of_digit_char)
  next
    case False
    with "1.IH" have "digits_value 0 (show_nat (n div 10)) = Some (n div 10)" by simp
    with False show ?thesis
      by (subst show_nat.simps)
        (simp add: digits_value_append is_digit_digit_char byte_of_digit_char)
  qed
qed

lemma set_show_nat: "c \<in> set (show_nat n) \<Longrightarrow> is_digit c"
proof (induction n rule: show_nat.induct)
  case (1 n)
  then show ?case
    by (subst (asm) (2) show_nat.simps)
      (auto simp: is_digit_digit_char split: if_splits)
qed

lemma parse_uint_show_nat_eq:
  "(parse_uint (show_nat n) :: 'a::len word option) =
     (if n < 2 ^ LENGTH('a) then Some (of_nat n) else None)"
proof -
  obtain c cs where s: "show_nat n = c # cs"
    by (cases "show_nat n") auto
  then have "is_digit c"
    by (metis set_show_nat list.set_intros(1))
  then have "c \<noteq> CHR ''+''"
    by (auto simp: is_digit_def byte_of_def)
  then show ?thesis
    using s digits_value_show_nat[of n] by (simp add: parse_uint_def)
qed

lemma parse_uint_show_nat: "parse_uint (show_nat (unat w)) = Some (w :: 'a::len word)"
  by (simp add: parse_uint_show_nat_eq)

lemma parse_uint_show_nat_iff: "parse_uint (show_nat n) = Some w \<longleftrightarrow> unat w = n"
  by (auto simp: parse_uint_show_nat_eq unsigned_of_nat take_bit_nat_eq_self)

lemma show_nat_inject: "show_nat m = show_nat n \<Longrightarrow> m = n"
  by (metis digits_value_show_nat option.inject)

text \<open>A decimal number has nothing to trim.\<close>

lemma strip_front_digit:
  assumes "is_digit c" and "\<And>w. w \<in> set ws \<Longrightarrow> w = [] \<or> \<not> is_digit (hd w)"
  shows "strip_front ws (c # cs) = c # cs"
proof -
  have "find (\<lambda>w. w \<noteq> [] \<and> prefix w (c # cs)) ws = None"
    using assms(1) by (auto simp: find_None_iff prefix_Cons dest!: assms(2))
  then show ?thesis by (subst strip_front.simps) simp
qed

lemma white_space_no_digit:
  "w \<in> set white_space \<Longrightarrow> w = [] \<or> \<not> is_digit (hd w)"
  "w \<in> set (map rev white_space) \<Longrightarrow> w = [] \<or> \<not> is_digit (hd w)"
  by (auto simp: white_space_def is_digit_def byte_of_def)

lemma trim_show_nat: "trim (show_nat n) = show_nat n"
proof -
  obtain c cs where s: "show_nat n = c # cs" by (cases "show_nat n") auto
  obtain d ds where r: "rev (show_nat n) = d # ds" by (cases "rev (show_nat n)") auto
  have "is_digit c" "is_digit d"
    using s r set_show_nat[of _ n] by (metis list.set_intros(1) set_rev)+
  then show ?thesis
    unfolding trim_def trim_start_def trim_end_def
    by (metis s r strip_front_digit white_space_no_digit rev_rev_ident)
qed

text \<open>A text of visible ASCII has nothing to trim.\<close>

definition visible :: "string \<Rightarrow> bool" where
  "visible s \<longleftrightarrow> list_all (\<lambda>c. 32 < byte_of c \<and> byte_of c < 127) s"

lemma strip_front_visible:
  assumes "s = [] \<or> 32 < byte_of (hd s) \<and> byte_of (hd s) < 127"
    and "\<And>w. w \<in> set ws \<Longrightarrow> w = [] \<or> \<not> (32 < byte_of (hd w) \<and> byte_of (hd w) < 127)"
  shows "strip_front ws s = s"
proof -
  have "find (\<lambda>w. w \<noteq> [] \<and> prefix w s) ws = None"
    using assms by (cases s) (auto simp: find_None_iff prefix_Cons dest!: assms(2))
  then show ?thesis by (subst strip_front.simps) simp
qed

lemma white_space_invisible:
  "w \<in> set white_space \<Longrightarrow> w = [] \<or> \<not> (32 < byte_of (hd w) \<and> byte_of (hd w) < 127)"
  "w \<in> set (map rev white_space) \<Longrightarrow> w = [] \<or> \<not> (32 < byte_of (hd w) \<and> byte_of (hd w) < 127)"
  by (auto simp: white_space_def byte_of_def)

lemma trim_visible: "visible s \<Longrightarrow> trim s = s"
proof -
  assume v: "visible s"
  then have "s = [] \<or> 32 < byte_of (hd s) \<and> byte_of (hd s) < 127"
    "rev s = [] \<or> 32 < byte_of (hd (rev s)) \<and> byte_of (hd (rev s)) < 127"
    by (auto simp: visible_def list_all_iff hd_rev)
  then have "strip_front white_space s = s" "strip_front (map rev white_space) (rev s) = rev s"
    using white_space_invisible by (blast intro: strip_front_visible)+
  then show ?thesis by (simp only: trim_def trim_start_def trim_end_def rev_rev_ident)
qed

end
