(* ===== verification/CosmWasm.thy ===== *)
theory CosmWasm
  imports Rust_Str
begin

text \<open>
  The interface between the contracts and the CosmWasm host. What the host and the
  libraries do is not under \<open>src/\<close>, so it enters the model as parameters: address
  validation, JSON encoding errors and the answers of queries are functions in the records
  \<open>api\<close> and the queriers of the components, and no theorem fixes them. The data the
  contracts exchange with the host (block time, sender, coins, messages, attributes) are
  records and datatypes.

  A handler is a function from the storage before the call to a result: the storage after
  the call and the response, or an error. The host drops every write of a call that returns
  an error or aborts, so an error carries no storage.
\<close>

type_synonym addr = string
type_synonym binary = string

datatype std_error = NotFound string | GenericErr string | OtherStdErr string

record coin =
  coin_denom :: string
  coin_amount :: u128

record message_info =
  sender :: addr
  funds :: "coin list"

record env =
  block_nanos :: u64
  contract_address :: addr

text \<open>
  \<open>env.block.time.seconds()\<close>: a \<open>Timestamp\<close> counts nanoseconds in a \<open>u64\<close>, so no
  block time in seconds exceeds \<open>2 ^ 64 div 10 ^ 9\<close>.
\<close>

definition block_seconds :: "env \<Rightarrow> u64" where
  "block_seconds e = block_nanos e div 1000000000"

definition SECONDS_PER_DAY :: u64 where
  "SECONDS_PER_DAY = 86400"

record 'p api =
  addr_validate :: "string \<Rightarrow> (addr, std_error) result"
  json_error :: "'p \<Rightarrow> std_error option"

text \<open>\<open>to_json_binary\<close>: the message stays the typed value that is encoded.\<close>

definition to_json_binary :: "'p api \<Rightarrow> 'p \<Rightarrow> ('p, std_error) result" where
  "to_json_binary a p = (case json_error a p of None \<Rightarrow> Ok p | Some e \<Rightarrow> Err e)"

record cw20_receive_msg =
  cw20_sender :: string
  cw20_amount :: u128
  cw20_msg :: binary

text \<open>The messages of the cw20 interface that the contracts send.\<close>

datatype cw20_execute_msg =
    Cw20Mint addr u128
  | Cw20Burn u128
  | Cw20Transfer addr u128

datatype 'p cosmos_msg =
    WasmExecute addr 'p "coin list"
  | BankSend addr "coin list"

record 'p response =
  messages :: "'p cosmos_msg list"
  attributes :: "(string \<times> string) list"

definition new_response :: "'p response" where
  "new_response = \<lparr>messages = [], attributes = []\<rparr>"

definition add_message :: "'p cosmos_msg \<Rightarrow> 'p response \<Rightarrow> 'p response" where
  "add_message m r = r\<lparr>messages := messages r @ [m]\<rparr>"

definition add_attribute :: "string \<Rightarrow> string \<Rightarrow> 'p response \<Rightarrow> 'p response" where
  "add_attribute k v r = r\<lparr>attributes := attributes r @ [(k, v)]\<rparr>"

text \<open>\<open>Item::load\<close> and \<open>Item::may_load\<close> on an item that may be absent.\<close>

definition item_load :: "string \<Rightarrow> 'a option \<Rightarrow> ('a, std_error) result" where
  "item_load key x = ok_or (NotFound key) x"

lemma item_load_simps [simp, result_simps]:
  "item_load k None = Err (NotFound k)"
  "item_load k (Some x) = Ok x"
  by (simp_all add: item_load_def)

lemma item_load_Ok_iff [result_simps]: "item_load k m = Ok x \<longleftrightarrow> m = Some x"
  by (simp add: item_load_def ok_or_Ok_iff)

lemma item_load_no_panic [simp]: "item_load k m \<noteq> Panicked"
  by (simp add: item_load_def)

lemma to_json_binary_Ok_iff [result_simps]:
  "to_json_binary a p = Ok q \<longleftrightarrow> json_error a p = None \<and> q = p"
  by (auto simp: to_json_binary_def split: option.splits)

lemma to_json_binary_no_panic [simp]: "to_json_binary a p \<noteq> Panicked"
  by (simp add: to_json_binary_def split: option.splits)

lemmas chain_simps =
  and_then_Ok_iff map_err_Ok_iff if_Err_eq_Ok item_load_Ok_iff to_json_binary_Ok_iff ok_or_Ok_iff

lemma unat_SECONDS_PER_DAY [simp]: "unat SECONDS_PER_DAY = 86400"
  by (simp add: SECONDS_PER_DAY_def)

lemma response_simps [simp]:
  "messages new_response = []" "attributes new_response = []"
  "messages (add_message m r) = messages r @ [m]"
  "attributes (add_message m r) = attributes r"
  "messages (add_attribute k v r) = messages r"
  "attributes (add_attribute k v r) = attributes r @ [(k, v)]"
  by (simp_all add: new_response_def add_message_def add_attribute_def)

lemma unat_block_seconds: "unat (block_seconds e) = unat (block_nanos e) div 1000000000"
  by (simp add: block_seconds_def unat_div)

lemma block_seconds_bound: "unat (block_seconds e) \<le> 18446744073"
proof -
  have "unat (block_nanos e) < 2 ^ 64"
    using unat_less_size[of "block_nanos e"] by simp
  then show ?thesis
    by (simp add: unat_block_seconds)
qed

lemma block_seconds_mono:
  "block_nanos e \<le> block_nanos e' \<Longrightarrow> block_seconds e \<le> block_seconds e'"
  by (simp add: word_le_nat_alt unat_block_seconds div_le_mono)

end
