(* ===== verification/Swap_Math.thy ===== *)
theory Swap_Math
  imports Prelude
begin

text \<open>
  The arithmetic of \<open>ust1-common\<close> (\<open>lib.rs\<close>, \<open>error.rs\<close>, \<open>math.rs\<close>, \<open>fee_split.rs\<close>):
  the constants, the fee in basis points, the two conversions between vFDUSD and UST1 and
  the split of the fee. Each function is translated with its checked operations; a
  characteristic equation then says on \<open>nat\<close> when it returns what.
\<close>

section \<open>Constants (lib.rs)\<close>

definition RATE_SCALE :: u128 where
  "RATE_SCALE = 1000000000000000000"

definition DEFAULT_FEE_BPS :: u16 where
  "DEFAULT_FEE_BPS = 100"

definition DEFAULT_PER_TX_UST1_LIMIT :: u128 where
  "DEFAULT_PER_TX_UST1_LIMIT = 1000000000"

definition DEFAULT_ROLLING_24H_UST1_LIMIT :: u128 where
  "DEFAULT_ROLLING_24H_UST1_LIMIT = 10000000000"

definition MAX_DAILY_INCREASE_BPS :: u16 where
  "MAX_DAILY_INCREASE_BPS = 200"

definition MIN_ORACLE_UPDATE_INTERVAL_SECS :: u64 where
  "MIN_ORACLE_UPDATE_INTERVAL_SECS = 4 * 60 * 60"

definition DEFAULT_MAX_ORACLE_AGE_SECS :: u64 where
  "DEFAULT_MAX_ORACLE_AGE_SECS = 6 * 60 * 60"

definition BPS_DENOM :: u128 where
  "BPS_DENOM = 10000"

lemma unat_consts [simp]:
  "unat RATE_SCALE = 10 ^ 18"
  "unat BPS_DENOM = 10000"
  "unat MIN_ORACLE_UPDATE_INTERVAL_SECS = 14400"
  "unat DEFAULT_MAX_ORACLE_AGE_SECS = 21600"
  "unat MAX_DAILY_INCREASE_BPS = 200"
  by (simp_all add: RATE_SCALE_def BPS_DENOM_def MIN_ORACLE_UPDATE_INTERVAL_SECS_def
      DEFAULT_MAX_ORACLE_AGE_SECS_def MAX_DAILY_INCREASE_BPS_def)

lemma consts_nonzero [simp]: "RATE_SCALE \<noteq> 0" "BPS_DENOM \<noteq> 0"
  by (simp_all add: RATE_SCALE_def BPS_DENOM_def)

section \<open>Errors (error.rs)\<close>

datatype math_error = Overflow overflow_error | DivisionByZero | InvalidFeeBps | TooLarge

text \<open>\<open>impl From<DivideByZeroError> for MathError\<close>.\<close>

definition math_error_from_div :: "divide_by_zero_error \<Rightarrow> math_error" where
  "math_error_from_div e = (case e of DivideByZeroError \<Rightarrow> DivisionByZero)"

section \<open>Conversions and fee (math.rs)\<close>

definition apply_fee_ust1 :: "u128 \<Rightarrow> u16 \<Rightarrow> (u128, math_error) result" where
  "apply_fee_ust1 amount fee_bps =
     (if BPS_DENOM < ucast fee_bps then Err InvalidFeeBps
      else and_then (map_err Overflow (checked_mul amount (BPS_DENOM - ucast fee_bps))) (\<lambda>num.
           map_err math_error_from_div (checked_div num BPS_DENOM)))"

definition fee_amount_ust1 :: "u128 \<Rightarrow> u16 \<Rightarrow> (u128, math_error) result" where
  "fee_amount_ust1 gross_ust1 fee_bps =
     and_then (apply_fee_ust1 gross_ust1 fee_bps) (\<lambda>after.
     map_err Overflow (checked_sub gross_ust1 after))"

definition vfdusd_to_ust1_before_fee :: "u128 \<Rightarrow> u128 \<Rightarrow> (u128, math_error) result" where
  "vfdusd_to_ust1_before_fee amount_vfdusd rate =
     and_then (map_err Overflow (checked_mul (ucast amount_vfdusd :: u256) (ucast rate))) (\<lambda>num.
     and_then (map_err math_error_from_div (checked_div num (ucast RATE_SCALE))) (\<lambda>scaled.
     ok_or TooLarge (u256_try_into_u128 scaled)))"

definition deposit_vfdusd_to_ust1 :: "u128 \<Rightarrow> u128 \<Rightarrow> u16 \<Rightarrow> (u128, math_error) result" where
  "deposit_vfdusd_to_ust1 amount_vfdusd rate fee_bps =
     and_then (vfdusd_to_ust1_before_fee amount_vfdusd rate) (\<lambda>before.
     apply_fee_ust1 before fee_bps)"

definition withdraw_ust1_after_fee :: "u128 \<Rightarrow> u16 \<Rightarrow> (u128, math_error) result" where
  "withdraw_ust1_after_fee gross_ust1 fee_bps = apply_fee_ust1 gross_ust1 fee_bps"

definition ust1_after_fee_to_vfdusd :: "u128 \<Rightarrow> u128 \<Rightarrow> (u128, math_error) result" where
  "ust1_after_fee_to_vfdusd ust1_after_fee rate =
     (if rate = 0 then Err DivisionByZero
      else and_then (map_err Overflow (checked_mul (ucast ust1_after_fee :: u256) (ucast RATE_SCALE)))
           (\<lambda>product.
           and_then (map_err math_error_from_div (checked_div product (ucast rate))) (\<lambda>num.
           ok_or TooLarge (u256_try_into_u128 num))))"

definition withdraw_gross_ust1_to_vfdusd :: "u128 \<Rightarrow> u128 \<Rightarrow> u16 \<Rightarrow> (u128, math_error) result" where
  "withdraw_gross_ust1_to_vfdusd gross_ust1 rate fee_bps =
     and_then (withdraw_ust1_after_fee gross_ust1 fee_bps) (\<lambda>after.
     ust1_after_fee_to_vfdusd after rate)"

definition max_rate_after_daily_cap :: "u128 \<Rightarrow> (u128, math_error) result" where
  "max_rate_after_daily_cap day_baseline =
     and_then (map_err Overflow (checked_mul day_baseline (10000 + ucast MAX_DAILY_INCREASE_BPS)))
       (\<lambda>num. map_err math_error_from_div (checked_div num 10000))"

section \<open>Fee split (fee_split.rs)\<close>

definition chain_tax_and_cmm_protocol :: "u16 \<Rightarrow> u16 \<times> u16" where
  "chain_tax_and_cmm_protocol fee_total_bps =
     (let chain = fee_total_bps div 2; cmm = fee_total_bps - chain in (chain, cmm))"

section \<open>What each function computes\<close>

lemma ucast_fee_le_iff: "(BPS_DENOM < ucast (f :: u16)) \<longleftrightarrow> 10000 < unat f"
  by (simp add: word_less_nat_alt)

lemma unat_fee_complement:
  "unat f \<le> 10000 \<Longrightarrow> unat (BPS_DENOM - ucast (f :: u16)) = 10000 - unat f"
  by (simp add: unat_minus_if_le word_le_nat_alt)

lemma div_less_pow: "n < 2 ^ k \<Longrightarrow> n div m < 2 ^ k" for n :: nat
  by (meson div_le_dividend le_less_trans)

lemma u128_product_less: "unat (a :: u128) * unat (b :: u128) < 2 ^ 256"
proof -
  have "unat a * unat b < 2 ^ 128 * 2 ^ 128"
    by (rule mult_strict_mono) (use unat_less_size[of a] unat_less_size[of b] in auto)
  then show ?thesis
    by (simp flip: power_add)
qed

lemma apply_fee_ust1_Ok_iff [result_simps]:
  "apply_fee_ust1 a f = Ok r \<longleftrightarrow>
     unat f \<le> 10000 \<and> unat a * (10000 - unat f) < 2 ^ 128 \<and>
     unat r = unat a * (10000 - unat f) div 10000"
proof (cases "10000 < unat f \<or> 2 ^ 128 \<le> unat a * (10000 - unat f)")
  case True
  then show ?thesis
    by (auto simp: apply_fee_ust1_def ucast_fee_le_iff checked_mul_def unat_fee_complement)
next
  case False
  then have "unat (a * (BPS_DENOM - ucast f)) = unat a * (10000 - unat f)"
    by (subst unat_times_if_fits) (simp_all add: unat_fee_complement)
  with False show ?thesis
    by (auto simp: apply_fee_ust1_def ucast_fee_le_iff checked_mul_def checked_div_def
        unat_fee_complement word_eq_iff_unat_eq unat_div)
qed

lemma apply_fee_ust1_InvalidFeeBps: "10000 < unat f \<Longrightarrow> apply_fee_ust1 a f = Err InvalidFeeBps"
  by (simp add: apply_fee_ust1_def ucast_fee_le_iff)

lemma apply_fee_ust1_Overflow:
  "unat f \<le> 10000 \<Longrightarrow> 2 ^ 128 \<le> unat a * (10000 - unat f) \<Longrightarrow>
   apply_fee_ust1 a f = Err (Overflow OverflowMul)"
  by (simp add: apply_fee_ust1_def ucast_fee_le_iff checked_mul_def unat_fee_complement)

lemma apply_fee_ust1_no_panic [simp]: "apply_fee_ust1 a f \<noteq> Panicked"
  by (simp add: apply_fee_ust1_def map_err_Panic_iff and_then_no_panicI)

lemma apply_fee_ust1_le: "apply_fee_ust1 a f = Ok r \<Longrightarrow> r \<le> a"
proof -
  assume "apply_fee_ust1 a f = Ok r"
  then have "unat r = unat a * (10000 - unat f) div 10000"
    by (simp add: apply_fee_ust1_Ok_iff)
  also have "\<dots> \<le> unat a * 10000 div 10000"
    by (intro div_le_mono mult_le_mono2) simp
  finally show ?thesis
    by (simp add: word_le_nat_alt)
qed

lemma fee_amount_ust1_Ok_iff [result_simps]:
  "fee_amount_ust1 g f = Ok r \<longleftrightarrow>
     (\<exists>after. apply_fee_ust1 g f = Ok after \<and> unat r = unat g - unat after)"
  by (auto simp: fee_amount_ust1_def and_then_Ok_iff map_err_Ok_iff checked_sub_Ok_iff
      dest: apply_fee_ust1_le [unfolded word_le_nat_alt])

lemma vfdusd_to_ust1_before_fee_eq:
  "vfdusd_to_ust1_before_fee x rate =
     ok_or TooLarge (u256_try_into_u128 ((ucast x * ucast rate) div ucast RATE_SCALE))"
  by (simp add: vfdusd_to_ust1_before_fee_def checked_mul_def checked_div_def
      u128_product_less [simplified] RATE_SCALE_def)

lemma vfdusd_to_ust1_before_fee_Ok_iff [result_simps]:
  "vfdusd_to_ust1_before_fee x rate = Ok r \<longleftrightarrow>
     unat x * unat rate div 10 ^ 18 < 2 ^ 128 \<and> unat r = unat x * unat rate div 10 ^ 18"
proof -
  have "unat (ucast x * ucast rate :: u256) = unat x * unat rate"
    by (subst unat_times_if_fits) (use u128_product_less[of x rate] in simp_all)
  then show ?thesis
    by (auto simp: vfdusd_to_ust1_before_fee_eq ok_or_Ok_iff u256_try_into_u128_Some_iff unat_div)
qed

lemma vfdusd_to_ust1_before_fee_TooLarge:
  "2 ^ 128 \<le> unat x * unat rate div 10 ^ 18 \<Longrightarrow> vfdusd_to_ust1_before_fee x rate = Err TooLarge"
  unfolding vfdusd_to_ust1_before_fee_eq
  by (rule ok_or_ErrI)
    (simp add: vfdusd_to_ust1_before_fee_Ok_iff flip: vfdusd_to_ust1_before_fee_eq)

lemma ust1_after_fee_to_vfdusd_eq:
  "ust1_after_fee_to_vfdusd u rate =
     (if rate = 0 then Err DivisionByZero
      else ok_or TooLarge (u256_try_into_u128 ((ucast u * ucast RATE_SCALE) div ucast rate)))"
proof -
  have "(ucast rate :: u256) \<noteq> 0" if "rate \<noteq> 0"
    using that by (simp add: word_eq_iff_unat_eq)
  then show ?thesis
    using u128_product_less[of u RATE_SCALE]
    by (simp add: ust1_after_fee_to_vfdusd_def checked_mul_def checked_div_def)
qed

lemma ust1_after_fee_to_vfdusd_Ok_iff [result_simps]:
  "ust1_after_fee_to_vfdusd u rate = Ok r \<longleftrightarrow>
     0 < unat rate \<and> unat u * 10 ^ 18 div unat rate < 2 ^ 128 \<and>
     unat r = unat u * 10 ^ 18 div unat rate"
proof -
  have "unat (ucast u * ucast RATE_SCALE :: u256) = unat u * unat RATE_SCALE"
    by (subst unat_times_if_fits) (use u128_product_less[of u RATE_SCALE] in simp_all)
  then show ?thesis
    by (auto simp: ust1_after_fee_to_vfdusd_eq ok_or_Ok_iff u256_try_into_u128_Some_iff unat_div
        unat_gt_0)
qed

lemma ust1_after_fee_to_vfdusd_TooLarge:
  "rate \<noteq> 0 \<Longrightarrow> 2 ^ 128 \<le> unat u * 10 ^ 18 div unat rate \<Longrightarrow>
   ust1_after_fee_to_vfdusd u rate = Err TooLarge"
  using ust1_after_fee_to_vfdusd_Ok_iff[of u rate] ok_or_ErrI
  unfolding ust1_after_fee_to_vfdusd_eq by (metis not_less)

lemma conversions_no_panic [simp]:
  "vfdusd_to_ust1_before_fee x rate \<noteq> Panicked"
  "ust1_after_fee_to_vfdusd u rate \<noteq> Panicked"
  by (simp_all add: vfdusd_to_ust1_before_fee_eq ust1_after_fee_to_vfdusd_eq)

lemma max_rate_after_daily_cap_Ok_iff [result_simps]:
  "max_rate_after_daily_cap b = Ok m \<longleftrightarrow>
     unat b * 10200 < 2 ^ 128 \<and> unat m = unat b * 10200 div 10000"
proof (cases "unat b * 10200 < 2 ^ 128")
  case True
  then have "unat (b * 10200) = unat b * 10200"
    by (subst unat_times_if_fits) simp_all
  with True show ?thesis
    by (auto simp: max_rate_after_daily_cap_def MAX_DAILY_INCREASE_BPS_def checked_mul_def
        checked_div_def word_eq_iff_unat_eq unat_div)
qed (simp add: max_rate_after_daily_cap_def MAX_DAILY_INCREASE_BPS_def checked_mul_def)

lemma max_rate_after_daily_cap_no_panic [simp]: "max_rate_after_daily_cap b \<noteq> Panicked"
  by (simp add: max_rate_after_daily_cap_def map_err_Panic_iff and_then_no_panicI)

text \<open>The two halves of the fee, on numbers.\<close>

lemma fee_halves: "unat (f div 2) = unat f div 2" "unat (f - f div 2) = unat f - unat f div 2" for f :: u16
proof -
  show d: "unat (f div 2) = unat f div 2" by (simp add: unat_div)
  have "f div 2 \<le> f" by (simp add: word_le_nat_alt d)
  then show "unat (f - f div 2) = unat f - unat f div 2" by (simp add: unat_sub d)
qed

end
