(* ===== verification/Oracle_Policy.thy ===== *)
theory Oracle_Policy
  imports CosmWasm Swap_Math
begin

text \<open>
  The rate update rules of \<open>ust1-common/src/oracle_policy.rs\<close>, shared by the oracle
  contract and by the oracle service: the roll-over of the UTC day and the check of a
  proposed rate (strictly positive, throttled to one update in four hours, never lower, at
  most 2 percent above the baseline of the day, with the first update exempt from the cap).
\<close>

definition roll_utc_day :: "u64 \<Rightarrow> u64 \<Rightarrow> u128 \<Rightarrow> u128 \<Rightarrow> u64 \<times> u128" where
  "roll_utc_day block_time_sec utc_day_id day_baseline_rate current_rate =
     (let day_id = block_time_sec div 86400 in
      if day_id \<noteq> utc_day_id then (day_id, current_rate)
      else (utc_day_id, day_baseline_rate))"

datatype oracle_policy_error =
    ZeroRate
  | RateDecreased
  | DailyCapExceeded
  | UpdateTooSoon u64

definition check_rate_update ::
  "u64 \<Rightarrow> u64 \<Rightarrow> u128 \<Rightarrow> u128 \<Rightarrow> u64 \<Rightarrow> u128 \<Rightarrow> (u64 \<times> u128, oracle_policy_error) result" where
  "check_rate_update now_sec last_update_sec old_rate new_rate utc_day_id day_baseline_rate =
     (if new_rate = 0 then Err ZeroRate
      else if 0 < last_update_sec \<and>
              saturating_sub now_sec last_update_sec < MIN_ORACLE_UPDATE_INTERVAL_SECS
           then Err (UpdateTooSoon MIN_ORACLE_UPDATE_INTERVAL_SECS)
      else if new_rate < old_rate then Err RateDecreased
      else let (day_id, baseline) = roll_utc_day now_sec utc_day_id day_baseline_rate old_rate in
        if last_update_sec = 0 then Ok (day_id, new_rate)
        else and_then (map_err (\<lambda>_. DailyCapExceeded) (max_rate_after_daily_cap baseline)) (\<lambda>max_r.
             if max_r < new_rate then Err DailyCapExceeded
             else Ok (day_id, baseline)))"

section \<open>When an update is accepted\<close>

text \<open>The guards of an update, on natural numbers: throttle, monotonicity, daily cap.\<close>

definition throttled :: "u64 \<Rightarrow> u64 \<Rightarrow> bool" where
  "throttled now_sec last_update_sec \<longleftrightarrow>
     0 < unat last_update_sec \<and> unat now_sec < unat last_update_sec + 14400"

definition within_daily_cap :: "u128 \<Rightarrow> u128 \<Rightarrow> bool" where
  "within_daily_cap baseline new_rate \<longleftrightarrow>
     unat baseline * 10200 < 2 ^ 128 \<and> unat new_rate * 10000 \<le> unat baseline * 10200"

lemma le_div_10000_iff: "n \<le> m div 10000 \<longleftrightarrow> n * 10000 \<le> m" for n m :: nat
  by (simp add: less_eq_div_iff_mult_less_eq)

lemma throttle_guard_iff:
  "0 < l \<and> saturating_sub t l < MIN_ORACLE_UPDATE_INTERVAL_SECS \<longleftrightarrow> throttled t l"
  by (auto simp: throttled_def word_less_nat_alt)

lemma not_throttled: "\<not> throttled t l \<Longrightarrow> l \<noteq> 0 \<Longrightarrow> unat l + 14400 \<le> unat t"
  by (auto simp: throttled_def unat_gt_0)

lemma cap_guard:
  "and_then (map_err (\<lambda>_. DailyCapExceeded) (max_rate_after_daily_cap b)) (\<lambda>m.
     if m < n then Err DailyCapExceeded else Ok d) =
   (if within_daily_cap b n then Ok d else Err DailyCapExceeded)"
proof (cases "unat b * 10200 < 2 ^ 128")
  case True
  have "max_rate_after_daily_cap b = Ok (of_nat (unat b * 10200 div 10000))"
  proof -
    have "unat b * 10200 div 10000 < 2 ^ 128"
      using True div_less_pow by blast
    then show ?thesis
      using True by (simp add: max_rate_after_daily_cap_Ok_iff unsigned_of_nat take_bit_nat_eq_self)
  qed
  moreover have "unat (of_nat (unat b * 10200 div 10000) :: u128) = unat b * 10200 div 10000"
    using True calculation by (simp add: max_rate_after_daily_cap_Ok_iff)
  ultimately show ?thesis
    using True le_div_10000_iff[of "unat n" "unat b * 10200"]
    by (auto simp: within_daily_cap_def word_less_nat_alt)
next
  case False
  then obtain e where "max_rate_after_daily_cap b = Err e"
    by (metis fault.exhaust max_rate_after_daily_cap_Ok_iff max_rate_after_daily_cap_no_panic
        sumE)
  with False show ?thesis
    by (simp add: within_daily_cap_def)
qed

text \<open>
  The whole check as one decision over the named guards: the first guard that fails
  names the error.
\<close>

lemma check_rate_update_eq:
  "check_rate_update now prev old new day base =
     (let (d, b) = roll_utc_day now day base old in
      if new = 0 then Err ZeroRate
      else if throttled now prev then Err (UpdateTooSoon 14400)
      else if new < old then Err RateDecreased
      else if prev = 0 then Ok (d, new)
      else if within_daily_cap b new then Ok (d, b)
      else Err DailyCapExceeded)"
  unfolding check_rate_update_def throttle_guard_iff
  by (simp add: cap_guard MIN_ORACLE_UPDATE_INTERVAL_SECS_def split: prod.splits)

lemma check_rate_update_no_panic [simp]:
  "check_rate_update now prev old new day base \<noteq> Panicked"
  by (simp add: check_rate_update_eq split: prod.splits)

lemma check_rate_update_Ok_iff:
  "check_rate_update now prev old new day base = Ok (d, b) \<longleftrightarrow>
     new \<noteq> 0 \<and> \<not> throttled now prev \<and> old \<le> new \<and> d = now div 86400 \<and>
     (let b0 = (if now div 86400 = day then base else old) in
      if prev = 0 then b = new else b = b0 \<and> within_daily_cap b0 new)"
  by (auto simp: check_rate_update_eq roll_utc_day_def Let_def not_less split: if_splits)

end
