(* ===== verification/Transitions.thy ===== *)
theory Transitions
  imports CosmWasm
begin

text \<open>
  Runs of a contract, and the two contracts of behaviour that several components promise.

  A contract is a labelled step relation: a label is one successful call with everything the
  caller and the host supplied and with the response, and a step leads from the storage
  before the call to the storage after it. A failed call changes nothing and is no step.

  \<^item> \<open>two_step_governance\<close>: governance changes hands only by a nomination that the acting
    governance made and an acceptance by the nominee. The oracle, the window and the native
    wrap contract all implement it.
  \<^item> \<open>rolling_limited\<close>: a volume counter over a window of 24 hours that restarts. The window
    and the native wrap contract implement it, the latter for each denom.

  Last, \<open>simulation\<close> lifts the refinement of an abstract system from steps to runs.
\<close>

section \<open>Calls and runs\<close>

text \<open>
  One successful call: what the host supplied (the querier it would answer with, the block,
  the sender and the funds), the message, and the response.
\<close>

record ('q, 'm, 'p) call =
  call_querier :: 'q
  call_env :: env
  call_info :: message_info
  call_msg :: 'm
  call_response :: "'p response"

definition call_time :: "('q, 'm, 'p) call \<Rightarrow> nat" where
  "call_time c = unat (block_seconds (call_env c))"

definition call_sender :: "('q, 'm, 'p) call \<Rightarrow> addr" where
  "call_sender c = sender (call_info c)"

inductive run :: "('e \<Rightarrow> 's \<Rightarrow> 's \<Rightarrow> bool) \<Rightarrow> 's \<Rightarrow> 'e list \<Rightarrow> 's \<Rightarrow> bool"
  for step where
  run_nil: "run step s [] s"
| run_cons: "step e s s1 \<Longrightarrow> run step s1 es s' \<Longrightarrow> run step s (e # es) s'"

inductive_cases run_nilE: "run step s [] s'"
inductive_cases run_consE: "run step s (e # es) s'"

inductive_simps run_nil_iff [simp]: "run step s [] s'"
inductive_simps run_cons_iff: "run step s (e # es) s'"

lemma run_append: "run step s (es @ fs) s' \<longleftrightarrow> (\<exists>s1. run step s es s1 \<and> run step s1 fs s')"
  by (induction es arbitrary: s) (auto simp: run_cons_iff)

lemma run_snoc_iff: "run step s (es @ [e]) s' \<longleftrightarrow> (\<exists>s1. run step s es s1 \<and> step e s1 s')"
  by (auto simp: run_append run_cons_iff)

text \<open>What every step keeps, a run keeps.\<close>

lemma run_invariant:
  assumes "run step s es s'" and "I s"
    and "\<And>e s s'. e \<in> set es \<Longrightarrow> step e s s' \<Longrightarrow> I s \<Longrightarrow> I s'"
  shows "I s'"
  using assms by (induction rule: run.induct) auto

text \<open>A reflexive and transitive relation that holds across each step holds across a run.\<close>

lemma run_relation:
  assumes "run step s es s'" and "\<And>s. R s s" and "\<And>a b c. R a b \<Longrightarrow> R b c \<Longrightarrow> R a c"
    and "\<And>e s s'. e \<in> set es \<Longrightarrow> step e s s' \<Longrightarrow> R s s'"
  shows "R s s'"
  using assms(1,4)
proof (induction rule: run.induct)
  case (run_nil s)
  show ?case by (rule assms(2))
next
  case (run_cons e s s1 es s')
  then have "R s s1" "R s1 s'" by auto
  then show ?case by (rule assms(3))
qed

section \<open>Handing over governance in two steps\<close>

locale two_step_governance =
  fixes step :: "'e \<Rightarrow> 's \<Rightarrow> 's \<Rightarrow> bool"
    and gov :: "'s \<Rightarrow> addr option"
    and pend :: "'s \<Rightarrow> addr option"
    and caller :: "'e \<Rightarrow> addr"
    and nominee :: "'e \<Rightarrow> addr option"
    and accepts :: "'e \<Rightarrow> bool"
  assumes gov_step: "step e s s' \<Longrightarrow> gov s' = gov s \<or>
      (accepts e \<and> pend s = Some (caller e) \<and> gov s' = Some (caller e))"
    and pend_step: "step e s s' \<Longrightarrow> pend s' = pend s \<or> pend s' = None \<or>
      (nominee e \<noteq> None \<and> pend s' = nominee e \<and> gov s = Some (caller e))"
begin

text \<open>A pending nominee was nominated, since the start of the run, by the governance of then.\<close>

lemma pending_was_nominated:
  assumes "run step s es s'" and "pend s' = Some a" and "pend s \<noteq> Some a"
  shows "\<exists>xs e ys s1. es = xs @ e # ys \<and> run step s xs s1 \<and> gov s1 = Some (caller e) \<and>
           nominee e = Some a"
  using assms
proof (induction rule: run.induct)
  case (run_nil s)
  then show ?case by simp
next
  case (run_cons e s s1 es s')
  show ?case
  proof (cases "pend s1 = Some a")
    case True
    with pend_step[OF run_cons.hyps(1)] run_cons.prems(2)
    have "gov s = Some (caller e) \<and> nominee e = Some a" by auto
    then have "e # es = [] @ e # es \<and> run step s [] s \<and> gov s = Some (caller e) \<and>
        nominee e = Some a" by simp
    then show ?thesis by blast
  next
    case False
    with run_cons.IH run_cons.prems(1) obtain xs f ys t where
      "es = xs @ f # ys" "run step s1 xs t" "gov t = Some (caller f)" "nominee f = Some a"
      by blast
    with run_cons.hyps(1) have "e # es = (e # xs) @ f # ys \<and> run step s (e # xs) t \<and>
        gov t = Some (caller f) \<and> nominee f = Some a"
      by (auto intro: run.run_cons)
    then show ?thesis by blast
  qed
qed

text \<open>A new governance accepted, after the governance of an earlier moment nominated it.\<close>

theorem handover:
  assumes "run step s es s'" and "gov s' = Some a" and "gov s \<noteq> Some a" and "pend s \<noteq> Some a"
  shows "\<exists>xs e ys f zs s1. es = xs @ e # ys @ f # zs \<and> run step s xs s1 \<and>
           gov s1 = Some (caller e) \<and> nominee e = Some a \<and> accepts f \<and> caller f = a"
proof -
  have split: "\<exists>us f zs t. es = us @ f # zs \<and> run step s us t \<and> pend t = Some a \<and>
      accepts f \<and> caller f = a"
    using assms(1,2,3)
  proof (induction rule: run.induct)
    case (run_nil s)
    then show ?case by simp
  next
    case (run_cons e s s1 es s')
    show ?case
    proof (cases "gov s1 = Some a")
      case True
      with gov_step[OF run_cons.hyps(1)] run_cons.prems(2)
      have "pend s = Some a \<and> accepts e \<and> caller e = a" by auto
      then have "e # es = [] @ e # es \<and> run step s [] s \<and> pend s = Some a \<and>
          accepts e \<and> caller e = a" by simp
      then show ?thesis by blast
    next
      case False
      with run_cons.IH run_cons.prems(1) obtain us f zs t where
        "es = us @ f # zs" "run step s1 us t" "pend t = Some a" "accepts f" "caller f = a"
        by blast
      with run_cons.hyps(1) have "e # es = (e # us) @ f # zs \<and> run step s (e # us) t \<and>
          pend t = Some a \<and> accepts f \<and> caller f = a"
        by (auto intro: run.run_cons)
      then show ?thesis by blast
    qed
  qed
  then obtain us f zs t where us: "es = us @ f # zs" "run step s us t" "pend t = Some a"
    and f: "accepts f" "caller f = a" by blast
  from pending_was_nominated[OF us(2,3) assms(4)] obtain xs e ys s1 where
    "us = xs @ e # ys" "run step s xs s1" "gov s1 = Some (caller e)" "nominee e = Some a"
    by blast
  with us(1) f show ?thesis by (metis append.assoc append_Cons)
qed

end

section \<open>A volume cap over a window of 24 hours\<close>

locale rolling_limited =
  fixes step :: "'e \<Rightarrow> 's \<Rightarrow> 's \<Rightarrow> bool"
    and time :: "'e \<Rightarrow> nat"
    and spent :: "'e \<Rightarrow> nat"
    and changes_limits :: "'e \<Rightarrow> bool"
    and start :: "'s \<Rightarrow> nat"
    and volume :: "'s \<Rightarrow> nat"
    and per_tx :: "'s \<Rightarrow> nat"
    and cap :: "'s \<Rightarrow> nat"
  assumes spent_per_tx: "step e s s' \<Longrightarrow> spent e \<le> per_tx s"
    and window_step: "step e s s' \<Longrightarrow>
      (spent e = 0 \<and> start s' = start s \<and> volume s' = volume s) \<or>
      (start s \<noteq> 0 \<and> time e < start s + 86400 \<and> start s' = start s \<and>
       volume s' = volume s + spent e \<and> volume s' \<le> cap s) \<or>
      ((start s = 0 \<or> start s + 86400 \<le> time e) \<and> start s' = time e \<and>
       volume s' = spent e \<and> spent e \<le> cap s)"
    and limits_step: "step e s s' \<Longrightarrow> \<not> changes_limits e \<Longrightarrow> cap s' = cap s \<and> per_tx s' = per_tx s"
begin

text \<open>While the window does not restart, the counter is exact.\<close>

lemma same_window_total:
  assumes "run step s es s'" and "start s \<noteq> 0" and "\<And>e. e \<in> set es \<Longrightarrow> \<not> changes_limits e"
    and "\<And>e. e \<in> set es \<Longrightarrow> time e < start s + 86400" and "volume s \<le> cap s"
  shows "sum_list (map spent es) + volume s \<le> cap s"
  using assms
proof (induction rule: run.induct)
  case (run_nil s)
  then show ?case by simp
next
  case (run_cons e s s1 es s')
  from run_cons.prems have e: "time e < start s + 86400" "\<not> changes_limits e" by simp_all
  from window_step[OF run_cons.hyps(1)] e(1) run_cons.prems(1,4)
  have "start s1 = start s \<and> volume s1 = volume s + spent e \<and> volume s1 \<le> cap s" by auto
  moreover have "cap s1 = cap s" using limits_step[OF run_cons.hyps(1) e(2)] by simp
  ultimately show ?case using run_cons.IH run_cons.prems by simp
qed

text \<open>
  Within any span of 24 hours the counter restarts at most once, so at most twice the cap
  passes.
\<close>

theorem span_total:
  assumes "run step s es s'" and "\<And>e. e \<in> set es \<Longrightarrow> \<not> changes_limits e"
    and "\<And>e. e \<in> set es \<Longrightarrow> 0 < time e \<and> t0 \<le> time e \<and> time e < t0 + 86400"
    and "volume s \<le> cap s"
  shows "sum_list (map spent es) + volume s \<le> 2 * cap s"
  using assms
proof (induction rule: run.induct)
  case (run_nil s)
  then show ?case by simp
next
  case (run_cons e s s1 es s')
  from run_cons.prems have e: "0 < time e" "t0 \<le> time e" "\<not> changes_limits e" by simp_all
  have cap: "cap s1 = cap s" using limits_step[OF run_cons.hyps(1) e(3)] by simp
  show ?case
  proof (cases "volume s1 = volume s + spent e \<and> volume s1 \<le> cap s")
    case True
    with run_cons.IH run_cons.prems cap show ?thesis by simp
  next
    case False
    with window_step[OF run_cons.hyps(1)] run_cons.prems(3)
    have restart: "start s1 = time e" "volume s1 = spent e" "spent e \<le> cap s" by auto
    have "sum_list (map spent es) + volume s1 \<le> cap s1"
    proof (rule same_window_total[OF run_cons.hyps(2)])
      show "start s1 \<noteq> 0" using restart e by simp
      fix f assume "f \<in> set es"
      then have "time f < t0 + 86400" using run_cons.prems(2) by simp
      with restart e show "time f < start s1 + 86400" by linarith
    qed (use run_cons.prems restart cap in auto)
    with restart cap run_cons.prems(3) show ?thesis by simp
  qed
qed

end

section \<open>Simulations\<close>

text \<open>
  A detailed system with steps \<open>step\<close> implements an abstract one with steps \<open>astep\<close>: each
  step with an event is one of the abstract system, the others are silent.
\<close>

locale simulation =
  fixes step :: "'c \<Rightarrow> 's \<Rightarrow> 's \<Rightarrow> bool"
    and astep :: "'e \<Rightarrow> 'x \<Rightarrow> 'x \<Rightarrow> bool"
    and event :: "'c \<Rightarrow> 'e option"
    and rel :: "'x \<Rightarrow> 's \<Rightarrow> bool"
    and admissible :: "'c \<Rightarrow> bool"
  assumes silent: "step c s s' \<Longrightarrow> admissible c \<Longrightarrow> event c = None \<Longrightarrow> rel x s \<Longrightarrow> rel x s'"
    and visible: "step c s s' \<Longrightarrow> admissible c \<Longrightarrow> event c = Some e \<Longrightarrow> rel x s \<Longrightarrow>
      \<exists>x'. astep e x x' \<and> rel x' s'"
begin

lemma run_simulated:
  assumes "run step s cs s'" and "rel x s" and "\<forall>c\<in>set cs. admissible c"
  shows "\<exists>x'. run astep x (List.map_filter event cs) x' \<and> rel x' s'"
  using assms
proof (induction arbitrary: x rule: run.induct)
  case (run_nil s)
  then show ?case by (auto simp: List.map_filter_simps)
next
  case (run_cons c s s1 cs s')
  show ?case
  proof (cases "event c")
    case None
    from silent[OF run_cons.hyps(1) _ None run_cons.prems(1)] run_cons.prems(2) have "rel x s1" by simp
    from run_cons.IH[OF this] run_cons.prems(2) None show ?thesis
      by (simp add: List.map_filter_simps)
  next
    case (Some e)
    from visible[OF run_cons.hyps(1) _ Some run_cons.prems(1)] run_cons.prems(2)
    obtain x1 where x1: "astep e x x1" "rel x1 s1" by auto
    from run_cons.IH[OF x1(2)] run_cons.prems(2) x1(1) Some show ?thesis
      by (auto simp: List.map_filter_simps run_cons_iff)
  qed
qed

end

end
