(* ===== verification/Oracle_Contract.thy ===== *)
theory Oracle_Contract
  imports Oracle_Policy Transitions
begin

text \<open>
  The contract \<open>ust1-oracle\<close> (\<open>contracts/ust1-oracle/src\<close>): its storage (\<open>state.rs\<close>),
  messages (\<open>msg.rs\<close>), errors (\<open>error.rs\<close>) and every entry point of \<open>contract.rs\<close>. The
  records and datatypes carry the source's fields and constructors; field names get the
  prefix of their struct where two structs share one.
\<close>

section \<open>Storage (state.rs)\<close>

record oracle_config =
  oc_governance :: addr
  oc_oracle_operator :: addr
  oc_paused :: bool

record oracle_state =
  os_rate :: u128
  os_last_update_sec :: u64
  os_utc_day_id :: u64
  os_day_baseline_rate :: u128

record pending_governance =
  new_address :: addr

record oracle_storage =
  o_contract_info :: "(string \<times> string) option"
  o_config :: "oracle_config option"
  o_oracle_state :: "oracle_state option"
  o_pending_governance :: "pending_governance option"

definition oracle_empty :: oracle_storage where
  "oracle_empty = \<lparr>o_contract_info = None, o_config = None, o_oracle_state = None,
     o_pending_governance = None\<rparr>"

definition ORACLE_CONTRACT_NAME :: string where
  "ORACLE_CONTRACT_NAME = ''crates.io:ust1-oracle''"

section \<open>Messages and errors (msg.rs, error.rs)\<close>

record oracle_instantiate_msg =
  oi_governance :: string
  oi_oracle_operator :: string
  oi_initial_rate :: u128

datatype oracle_execute_msg =
    UpdateRate u128
  | SetOracleOperator string
  | SetPaused bool
  | ProposeGovernance string
  | AcceptGovernance

datatype oracle_query_msg = Config | State

record oracle_config_response =
  ocr_governance :: string
  ocr_oracle_operator :: string
  ocr_paused :: bool

record state_response =
  sr_rate :: u128
  sr_last_update_sec :: u64
  sr_utc_day_id :: u64
  sr_day_baseline_rate :: u128
  sr_paused :: bool

text \<open>
  The JSON of \<open>StateResponse\<close> as a reader sees it: \<open>#[serde(default)]\<close> makes the field
  \<open>paused\<close> optional on the wire, and a missing field reads as \<open>false\<close>.
\<close>

record state_response_wire =
  sw_rate :: u128
  sw_last_update_sec :: u64
  sw_utc_day_id :: u64
  sw_day_baseline_rate :: u128
  sw_paused :: "bool option"

definition state_response_to_wire :: "state_response \<Rightarrow> state_response_wire" where
  "state_response_to_wire r =
     \<lparr>sw_rate = sr_rate r, sw_last_update_sec = sr_last_update_sec r,
      sw_utc_day_id = sr_utc_day_id r, sw_day_baseline_rate = sr_day_baseline_rate r,
      sw_paused = Some (sr_paused r)\<rparr>"

definition state_response_from_wire :: "state_response_wire \<Rightarrow> state_response" where
  "state_response_from_wire w =
     \<lparr>sr_rate = sw_rate w, sr_last_update_sec = sw_last_update_sec w,
      sr_utc_day_id = sw_utc_day_id w, sr_day_baseline_rate = sw_day_baseline_rate w,
      sr_paused = (case sw_paused w of None \<Rightarrow> False | Some b \<Rightarrow> b)\<rparr>"

lemma state_response_wire_roundtrip [simp]:
  "state_response_from_wire (state_response_to_wire r) = r"
  by (simp add: state_response_from_wire_def state_response_to_wire_def)

datatype oracle_query_response =
    ConfigResponse oracle_config_response
  | StateResponse state_response

datatype oracle_error =
    Std std_error
  | Unauthorized
  | Paused
  | ZeroRate
  | RateDecreased
  | DailyCapExceeded
  | UpdateTooSoon u64
  | NoPendingGovernance
  | InvalidGovernanceProposal

type_synonym oracle_result = "(oracle_storage \<times> unit response, oracle_error) result"

section \<open>Entry points (contract.rs)\<close>

text \<open>\<open>CONTRACT_VERSION\<close> is the crate version at build time: the parameter \<open>version\<close>.\<close>

definition oracle_set_contract_version :: "string \<Rightarrow> oracle_storage \<Rightarrow> oracle_storage" where
  "oracle_set_contract_version version s =
     s\<lparr>o_contract_info := Some (ORACLE_CONTRACT_NAME, version)\<rparr>"

definition oracle_instantiate ::
  "unit api \<Rightarrow> string \<Rightarrow> env \<Rightarrow> message_info \<Rightarrow> oracle_instantiate_msg \<Rightarrow> oracle_storage \<Rightarrow>
   oracle_result" where
  "oracle_instantiate a version e info msg s =
     (let s = oracle_set_contract_version version s in
      and_then (map_err Std (addr_validate a (oi_governance msg))) (\<lambda>governance.
      and_then (map_err Std (addr_validate a (oi_oracle_operator msg))) (\<lambda>oracle_operator.
      if oi_initial_rate msg = 0 then Err ZeroRate
      else
        let s = s\<lparr>o_config := Some \<lparr>oc_governance = governance,
                    oc_oracle_operator = oracle_operator, oc_paused = False\<rparr>\<rparr>;
            day_id = block_seconds e div 86400;
            s = s\<lparr>o_oracle_state := Some \<lparr>os_rate = oi_initial_rate msg, os_last_update_sec = 0,
                    os_utc_day_id = day_id, os_day_baseline_rate = oi_initial_rate msg\<rparr>\<rparr>
        in Ok (s, add_attribute ''governance'' governance
                 (add_attribute ''action'' ''instantiate'' new_response)))))"

definition policy_err :: "oracle_policy_error \<Rightarrow> oracle_error" where
  "policy_err e = (case e of
       oracle_policy_error.ZeroRate \<Rightarrow> ZeroRate
     | oracle_policy_error.RateDecreased \<Rightarrow> RateDecreased
     | oracle_policy_error.DailyCapExceeded \<Rightarrow> DailyCapExceeded
     | oracle_policy_error.UpdateTooSoon min_interval \<Rightarrow> UpdateTooSoon min_interval)"

definition execute_update_rate ::
  "env \<Rightarrow> message_info \<Rightarrow> u128 \<Rightarrow> oracle_storage \<Rightarrow> oracle_result" where
  "execute_update_rate e info new_rate s =
     and_then (map_err Std (item_load ''cfg'' (o_config s))) (\<lambda>cfg.
     if oc_paused cfg then Err Paused
     else if sender info \<noteq> oc_oracle_operator cfg then Err Unauthorized
     else and_then (map_err Std (item_load ''oracle'' (o_oracle_state s))) (\<lambda>st.
       let now = block_seconds e in
       and_then (map_err policy_err (check_rate_update now (os_last_update_sec st) (os_rate st)
                   new_rate (os_utc_day_id st) (os_day_baseline_rate st))) (\<lambda>(day_id, baseline).
         let st = st\<lparr>os_utc_day_id := day_id, os_day_baseline_rate := baseline,
                     os_rate := new_rate, os_last_update_sec := now\<rparr>
         in Ok (s\<lparr>o_oracle_state := Some st\<rparr>,
                add_attribute ''rate'' (show_nat (unat new_rate))
                  (add_attribute ''action'' ''update_rate'' new_response)))))"

definition execute_set_operator ::
  "unit api \<Rightarrow> message_info \<Rightarrow> string \<Rightarrow> oracle_storage \<Rightarrow> oracle_result" where
  "execute_set_operator a info address s =
     and_then (map_err Std (item_load ''cfg'' (o_config s))) (\<lambda>cfg.
     if sender info \<noteq> oc_governance cfg then Err Unauthorized
     else and_then (map_err Std (addr_validate a address)) (\<lambda>operator.
       Ok (s\<lparr>o_config := Some (cfg\<lparr>oc_oracle_operator := operator\<rparr>)\<rparr>,
           add_attribute ''address'' address
             (add_attribute ''action'' ''set_oracle_operator'' new_response))))"

definition show_bool :: "bool \<Rightarrow> string" where
  "show_bool b = (if b then ''true'' else ''false'')"

definition execute_set_paused ::
  "message_info \<Rightarrow> bool \<Rightarrow> oracle_storage \<Rightarrow> oracle_result" where
  "execute_set_paused info paused s =
     and_then (map_err Std (item_load ''cfg'' (o_config s))) (\<lambda>cfg.
     if sender info \<noteq> oc_governance cfg then Err Unauthorized
     else Ok (s\<lparr>o_config := Some (cfg\<lparr>oc_paused := paused\<rparr>)\<rparr>,
              add_attribute ''paused'' (show_bool paused)
                (add_attribute ''action'' ''set_paused'' new_response)))"

definition execute_propose_gov ::
  "unit api \<Rightarrow> message_info \<Rightarrow> string \<Rightarrow> oracle_storage \<Rightarrow> oracle_result" where
  "execute_propose_gov a info address s =
     and_then (map_err Std (item_load ''cfg'' (o_config s))) (\<lambda>cfg.
     if sender info \<noteq> oc_governance cfg then Err Unauthorized
     else and_then (map_err Std (addr_validate a address)) (\<lambda>new_addr.
       Ok (s\<lparr>o_pending_governance := Some \<lparr>new_address = new_addr\<rparr>\<rparr>,
           add_attribute ''action'' ''propose_governance'' new_response)))"

definition execute_accept_gov :: "message_info \<Rightarrow> oracle_storage \<Rightarrow> oracle_result" where
  "execute_accept_gov info s =
     and_then (ok_or NoPendingGovernance (o_pending_governance s)) (\<lambda>pending.
     if sender info \<noteq> new_address pending then Err InvalidGovernanceProposal
     else and_then (map_err Std (item_load ''cfg'' (o_config s))) (\<lambda>cfg.
       Ok (s\<lparr>o_config := Some (cfg\<lparr>oc_governance := new_address pending\<rparr>),
             o_pending_governance := None\<rparr>,
           add_attribute ''action'' ''accept_governance'' new_response)))"

definition oracle_execute ::
  "unit api \<Rightarrow> env \<Rightarrow> message_info \<Rightarrow> oracle_execute_msg \<Rightarrow> oracle_storage \<Rightarrow> oracle_result" where
  "oracle_execute a e info msg s = (case msg of
       UpdateRate new_rate \<Rightarrow> execute_update_rate e info new_rate s
     | SetOracleOperator address \<Rightarrow> execute_set_operator a info address s
     | SetPaused paused \<Rightarrow> execute_set_paused info paused s
     | ProposeGovernance address \<Rightarrow> execute_propose_gov a info address s
     | AcceptGovernance \<Rightarrow> execute_accept_gov info s)"

definition oracle_query_config ::
  "oracle_storage \<Rightarrow> (oracle_config_response, std_error) result" where
  "oracle_query_config s =
     and_then (item_load ''cfg'' (o_config s)) (\<lambda>cfg.
     Ok \<lparr>ocr_governance = oc_governance cfg, ocr_oracle_operator = oc_oracle_operator cfg,
         ocr_paused = oc_paused cfg\<rparr>)"

definition oracle_query_state :: "oracle_storage \<Rightarrow> (state_response, std_error) result" where
  "oracle_query_state s =
     and_then (item_load ''cfg'' (o_config s)) (\<lambda>cfg.
     and_then (item_load ''oracle'' (o_oracle_state s)) (\<lambda>st.
     Ok \<lparr>sr_rate = os_rate st, sr_last_update_sec = os_last_update_sec st,
         sr_utc_day_id = os_utc_day_id st, sr_day_baseline_rate = os_day_baseline_rate st,
         sr_paused = oc_paused cfg\<rparr>))"

definition oracle_query ::
  "oracle_query_response api \<Rightarrow> oracle_query_msg \<Rightarrow> oracle_storage \<Rightarrow>
   (oracle_query_response, std_error) result" where
  "oracle_query a msg s = (case msg of
       Config \<Rightarrow> and_then (oracle_query_config s) (\<lambda>r. to_json_binary a (ConfigResponse r))
     | State \<Rightarrow> and_then (oracle_query_state s) (\<lambda>r. to_json_binary a (StateResponse r)))"

definition oracle_migrate :: "string \<Rightarrow> oracle_storage \<Rightarrow> oracle_result" where
  "oracle_migrate version s = Ok (oracle_set_contract_version version s, new_response)"

end
