(* ===== verification/Window_Contract.thy ===== *)
theory Window_Contract
  imports Oracle_Contract
begin

text \<open>
  The swap window \<open>ust1-window\<close> (\<open>contracts/ust1-window/src\<close>): storage (\<open>state.rs\<close>),
  messages (\<open>msg.rs\<close>), errors (\<open>error.rs\<close>), the treasury client (\<open>treasury.rs\<close>) and every
  entry point of \<open>contract.rs\<close>. The answers of other contracts (oracle state, cw20 balance
  and decimals) come from the querier, and the decoding of the cw20 hook message is the
  parameter \<open>from_json\<close>.
\<close>

section \<open>Storage (state.rs)\<close>

record window_config =
  wc_governance :: addr
  wc_oracle :: addr
  wc_vfdusd_token :: addr
  wc_cmm_treasury :: addr
  wc_ust1_token :: addr
  wc_fee_bps :: u16
  wc_per_tx_ust1_limit :: u128
  wc_rolling_24h_ust1_limit :: u128
  wc_paused :: bool
  wc_max_oracle_age_sec :: u64

record rolling_volume =
  rv_window_start_sec :: u64
  rv_volume_ust1 :: u128

record window_storage =
  w_contract_info :: "(string \<times> string) option"
  w_config :: "window_config option"
  w_rolling :: "rolling_volume option"
  w_pending_governance :: "pending_governance option"

definition window_empty :: window_storage where
  "window_empty = \<lparr>w_contract_info = None, w_config = None, w_rolling = None,
     w_pending_governance = None\<rparr>"

definition WINDOW_CONTRACT_NAME :: string where
  "WINDOW_CONTRACT_NAME = ''crates.io:ust1-window''"

definition CMM_TREASURY_MAINNET :: string where
  "CMM_TREASURY_MAINNET = ''terra16j5u6ey7a84g40sr3gd94nzg5w5fm45046k9s2347qhfpwm5fr6sem3lr2''"

section \<open>Messages and errors (msg.rs, treasury.rs, error.rs)\<close>

record window_instantiate_msg =
  wi_governance :: string
  wi_oracle :: string
  wi_vfdusd_token :: string
  wi_cmm_treasury :: "string option"
  wi_ust1_token :: string
  wi_fee_bps :: u16
  wi_per_tx_ust1_limit :: u128
  wi_rolling_24h_ust1_limit :: u128
  wi_max_oracle_age_sec :: "u64 option"

datatype window_hook_msg = Deposit | Withdraw u128

datatype window_execute_msg =
    Receive cw20_receive_msg
  | SetLimits u128 u128
  | SetPaused bool
  | SetFeeBps u16
  | SetMaxOracleAge u64
  | ProposeGovernance string
  | AcceptGovernance

datatype window_query_msg = Config | EffectiveSwap

record window_config_response =
  wcr_governance :: string
  wcr_oracle :: string
  wcr_vfdusd_token :: string
  wcr_cmm_treasury :: string
  wcr_ust1_token :: string
  wcr_fee_bps :: u16
  wcr_per_tx_ust1_limit :: u128
  wcr_rolling_24h_ust1_limit :: u128
  wcr_paused :: bool
  wcr_max_oracle_age_sec :: u64

record effective_swap_response =
  es_fee_bps :: u16
  es_fee_chain_tax_bps :: u16
  es_fee_cmm_protocol_bps :: u16
  es_per_tx_ust1_limit :: u128
  es_rolling_24h_ust1_limit :: u128
  es_paused :: bool
  es_rolling_window_start_sec :: u64
  es_rolling_volume_ust1 :: u128
  es_oracle :: state_response
  es_max_oracle_age_sec :: u64

datatype window_query_response =
    ConfigResponse window_config_response
  | EffectiveSwapResponse effective_swap_response

text \<open>The one message of the treasury's interface that the window sends.\<close>

datatype treasury_execute_msg = InstantWithdrawCw20 addr addr u128

datatype window_payload =
    Cw20Payload cw20_execute_msg
  | TreasuryPayload treasury_execute_msg

datatype window_error =
    Std std_error
  | Unauthorized
  | Paused
  | InvalidCw20Hook
  | PerTxLimit
  | RollingLimit
  | InsufficientVfdusd
  | BelowMinimum
  | ZeroOutput
  | InvalidTokenDecimals u8 u8
  | OracleStale
  | OraclePaused
  | MaxOracleAgeTooShort u64
  | Math math_error
  | NoPendingGovernance
  | InvalidGovernanceProposal
  | Overflow overflow_error

text \<open>The answers of the contracts the window queries, by contract address.\<close>

record window_querier =
  wq_oracle_state :: "addr \<Rightarrow> (state_response_wire, std_error) result"
  wq_cw20_balance :: "addr \<Rightarrow> addr \<Rightarrow> (u128, std_error) result"
  wq_cw20_decimals :: "addr \<Rightarrow> (u8, std_error) result"

type_synonym window_result = "(window_storage \<times> window_payload response, window_error) result"
type_synonym window_from_json = "binary \<Rightarrow> (window_hook_msg, std_error) result"

section \<open>Queries of other contracts (contract.rs)\<close>

definition query_oracle_state :: "window_querier \<Rightarrow> addr \<Rightarrow> (state_response, std_error) result" where
  "query_oracle_state q oracle =
     and_then (wq_oracle_state q oracle) (\<lambda>w. Ok (state_response_from_wire w))"

definition query_cw20_balance ::
  "window_querier \<Rightarrow> addr \<Rightarrow> addr \<Rightarrow> (u128, std_error) result" where
  "query_cw20_balance q token holder = wq_cw20_balance q token holder"

definition query_cw20_token_info :: "window_querier \<Rightarrow> addr \<Rightarrow> (u8, std_error) result" where
  "query_cw20_token_info q token = wq_cw20_decimals q token"

definition validate_token_decimals ::
  "window_querier \<Rightarrow> addr \<Rightarrow> addr \<Rightarrow> (unit, window_error) result" where
  "validate_token_decimals q vfdusd_token ust1_token =
     and_then (map_err Std (query_cw20_token_info q vfdusd_token)) (\<lambda>vfdusd_decimals.
     and_then (map_err Std (query_cw20_token_info q ust1_token)) (\<lambda>ust1_decimals.
     if vfdusd_decimals < ust1_decimals
     then Err (InvalidTokenDecimals vfdusd_decimals ust1_decimals)
     else Ok ()))"

section \<open>Guards (contract.rs)\<close>

definition validate_max_oracle_age_sec :: "u64 \<Rightarrow> (unit, window_error) result" where
  "validate_max_oracle_age_sec max_age_sec =
     (if max_age_sec < MIN_ORACLE_UPDATE_INTERVAL_SECS
      then Err (MaxOracleAgeTooShort MIN_ORACLE_UPDATE_INTERVAL_SECS)
      else Ok ())"

definition ensure_oracle_usable ::
  "env \<Rightarrow> state_response \<Rightarrow> u64 \<Rightarrow> (unit, window_error) result" where
  "ensure_oracle_usable e oracle_state max_oracle_age_sec =
     (if sr_paused oracle_state then Err OraclePaused
      else if sr_last_update_sec oracle_state = 0 then Err OracleStale
      else let now = block_seconds e in
        if max_oracle_age_sec < saturating_sub now (sr_last_update_sec oracle_state)
        then Err OracleStale
        else Ok ())"

definition window_ensure_limits ::
  "env \<Rightarrow> rolling_volume \<Rightarrow> window_config \<Rightarrow> u128 \<Rightarrow> (rolling_volume, window_error) result" where
  "window_ensure_limits e rolling cfg ust1_notional =
     (if wc_per_tx_ust1_limit cfg < ust1_notional then Err PerTxLimit
      else let now = block_seconds e in
        and_then
          (if rv_window_start_sec rolling = 0 then Ok True
           else and_then (plain_add (rv_window_start_sec rolling) 86400) (\<lambda>end_sec.
                Ok (end_sec \<le> now)))
          (\<lambda>restart.
        let rolling = (if restart
                       then rolling\<lparr>rv_window_start_sec := now, rv_volume_ust1 := 0\<rparr>
                       else rolling) in
        and_then (map_err Overflow (checked_add (rv_volume_ust1 rolling) ust1_notional)) (\<lambda>next_vol.
        if wc_rolling_24h_ust1_limit cfg < next_vol then Err RollingLimit
        else Ok (rolling\<lparr>rv_volume_ust1 := next_vol\<rparr>))))"

definition with_fee_event_attrs ::
  "window_payload response \<Rightarrow> window_config \<Rightarrow> u128 \<Rightarrow> window_payload response" where
  "with_fee_event_attrs resp cfg fee_amount =
     (let (fee_chain_tax_bps, fee_cmm_protocol_bps) = chain_tax_and_cmm_protocol (wc_fee_bps cfg) in
      add_attribute ''fee_asset'' (wc_ust1_token cfg)
        (add_attribute ''fee_amount'' (show_nat (unat fee_amount))
        (add_attribute ''fee_cmm_protocol_bps'' (show_nat (unat fee_cmm_protocol_bps))
        (add_attribute ''fee_chain_tax_bps'' (show_nat (unat fee_chain_tax_bps))
        (add_attribute ''fee_total_bps'' (show_nat (unat (wc_fee_bps cfg))) resp)))))"

section \<open>The treasury client (treasury.rs)\<close>

definition instant_withdraw_cw20_msg ::
  "window_payload api \<Rightarrow> addr \<Rightarrow> addr \<Rightarrow> addr \<Rightarrow> u128 \<Rightarrow>
   (window_payload cosmos_msg, std_error) result" where
  "instant_withdraw_cw20_msg a treasury recipient token amount =
     and_then (to_json_binary a (TreasuryPayload (InstantWithdrawCw20 recipient token amount)))
       (\<lambda>msg. Ok (WasmExecute treasury msg []))"

section \<open>Instantiate (contract.rs)\<close>

definition window_set_contract_version :: "string \<Rightarrow> window_storage \<Rightarrow> window_storage" where
  "window_set_contract_version version s =
     s\<lparr>w_contract_info := Some (WINDOW_CONTRACT_NAME, version)\<rparr>"

definition cmm_treasury_raw :: "window_instantiate_msg \<Rightarrow> string" where
  "cmm_treasury_raw msg = (case map_option trim (wi_cmm_treasury msg) of
       None \<Rightarrow> CMM_TREASURY_MAINNET
     | Some t \<Rightarrow> if t = [] then CMM_TREASURY_MAINNET else t)"

definition window_instantiate ::
  "window_payload api \<Rightarrow> window_querier \<Rightarrow> string \<Rightarrow> env \<Rightarrow> message_info \<Rightarrow>
   window_instantiate_msg \<Rightarrow> window_storage \<Rightarrow> window_result" where
  "window_instantiate a q version e info msg s =
     (let s = window_set_contract_version version s in
      if BPS_DENOM < ucast (wi_fee_bps msg) then Err (Math InvalidFeeBps)
      else
        let max_oracle_age_sec = (case wi_max_oracle_age_sec msg of
              None \<Rightarrow> DEFAULT_MAX_ORACLE_AGE_SECS | Some m \<Rightarrow> m) in
        and_then (validate_max_oracle_age_sec max_oracle_age_sec) (\<lambda>_.
        and_then (map_err Std (addr_validate a (wi_governance msg))) (\<lambda>governance.
        and_then (map_err Std (addr_validate a (wi_oracle msg))) (\<lambda>oracle.
        and_then (map_err Std (addr_validate a (wi_vfdusd_token msg))) (\<lambda>vfdusd_token.
        and_then (map_err Std (addr_validate a (cmm_treasury_raw msg))) (\<lambda>cmm_treasury.
        and_then (map_err Std (addr_validate a (wi_ust1_token msg))) (\<lambda>ust1_token.
        let cfg = \<lparr>wc_governance = governance, wc_oracle = oracle,
              wc_vfdusd_token = vfdusd_token, wc_cmm_treasury = cmm_treasury,
              wc_ust1_token = ust1_token, wc_fee_bps = wi_fee_bps msg,
              wc_per_tx_ust1_limit = wi_per_tx_ust1_limit msg,
              wc_rolling_24h_ust1_limit = wi_rolling_24h_ust1_limit msg,
              wc_paused = False, wc_max_oracle_age_sec = max_oracle_age_sec\<rparr> in
        and_then (validate_token_decimals q (wc_vfdusd_token cfg) (wc_ust1_token cfg)) (\<lambda>_.
        Ok (s\<lparr>w_config := Some cfg,
              w_rolling := Some \<lparr>rv_window_start_sec = 0, rv_volume_ust1 = 0\<rparr>\<rparr>,
            add_attribute ''action'' ''instantiate'' new_response)))))))))"

section \<open>Deposit and withdraw (contract.rs)\<close>

definition deposit ::
  "window_payload api \<Rightarrow> window_querier \<Rightarrow> env \<Rightarrow> window_config \<Rightarrow> addr \<Rightarrow> u128 \<Rightarrow>
   window_hook_msg \<Rightarrow> window_storage \<Rightarrow> window_result" where
  "deposit a q e cfg beneficiary amount_vfdusd hook s =
     (if hook \<noteq> Deposit then Err InvalidCw20Hook
      else
        and_then (map_err Std (query_oracle_state q (wc_oracle cfg))) (\<lambda>oracle_state.
        and_then (ensure_oracle_usable e oracle_state (wc_max_oracle_age_sec cfg)) (\<lambda>_.
        let rate = sr_rate oracle_state in
        and_then (map_err Math (vfdusd_to_ust1_before_fee amount_vfdusd rate)) (\<lambda>before_fee_ust1.
        and_then (map_err Math (apply_fee_ust1 before_fee_ust1 (wc_fee_bps cfg))) (\<lambda>ust1_out.
        if ust1_out = 0 then Err ZeroOutput
        else
        and_then (map_err Overflow (checked_sub before_fee_ust1 ust1_out)) (\<lambda>fee_amount.
        and_then (map_err Std (item_load ''roll'' (w_rolling s))) (\<lambda>rolling.
        and_then (window_ensure_limits e rolling cfg ust1_out) (\<lambda>rolling.
        let s = s\<lparr>w_rolling := Some rolling\<rparr> in
        and_then (map_err Std (to_json_binary a (Cw20Payload (Cw20Mint beneficiary ust1_out))))
          (\<lambda>mint.
        and_then (map_err Std (to_json_binary a
                    (Cw20Payload (Cw20Transfer (wc_cmm_treasury cfg) amount_vfdusd))))
          (\<lambda>forward_vfdusd.
        Ok (s, with_fee_event_attrs
                 (add_attribute ''vfdusd_to_treasury'' (show_nat (unat amount_vfdusd))
                 (add_attribute ''ust1_out'' (show_nat (unat ust1_out))
                 (add_attribute ''action'' ''deposit''
                 (add_message (WasmExecute (wc_vfdusd_token cfg) forward_vfdusd [])
                 (add_message (WasmExecute (wc_ust1_token cfg) mint []) new_response)))))
                 cfg fee_amount)))))))))))"

definition withdraw ::
  "window_payload api \<Rightarrow> window_querier \<Rightarrow> env \<Rightarrow> window_config \<Rightarrow> addr \<Rightarrow> u128 \<Rightarrow>
   window_hook_msg \<Rightarrow> window_storage \<Rightarrow> window_result" where
  "withdraw a q e cfg user gross_ust1 hook s =
     (case hook of
        Deposit \<Rightarrow> Err InvalidCw20Hook
      | Withdraw min_out \<Rightarrow>
        and_then (map_err Std (query_oracle_state q (wc_oracle cfg))) (\<lambda>oracle_state.
        and_then (ensure_oracle_usable e oracle_state (wc_max_oracle_age_sec cfg)) (\<lambda>_.
        let rate = sr_rate oracle_state in
        and_then (map_err Math (withdraw_ust1_after_fee gross_ust1 (wc_fee_bps cfg))) (\<lambda>after_fee_ust1.
        and_then (map_err Math (ust1_after_fee_to_vfdusd after_fee_ust1 rate)) (\<lambda>v_out.
        if v_out = 0 then Err ZeroOutput
        else
        and_then (map_err Overflow (checked_sub gross_ust1 after_fee_ust1)) (\<lambda>fee_amount.
        if v_out < min_out then Err BelowMinimum
        else
        and_then (map_err Std (query_cw20_balance q (wc_vfdusd_token cfg) (wc_cmm_treasury cfg)))
          (\<lambda>treasury_bal.
        if treasury_bal < v_out then Err InsufficientVfdusd
        else
        and_then (map_err Std (item_load ''roll'' (w_rolling s))) (\<lambda>rolling.
        and_then (window_ensure_limits e rolling cfg gross_ust1) (\<lambda>rolling.
        let s = s\<lparr>w_rolling := Some rolling\<rparr> in
        and_then (map_err Std (to_json_binary a (Cw20Payload (Cw20Burn gross_ust1)))) (\<lambda>burn.
        and_then (map_err Std (instant_withdraw_cw20_msg a (wc_cmm_treasury cfg) user
                    (wc_vfdusd_token cfg) v_out)) (\<lambda>pull_v.
        Ok (s, with_fee_event_attrs
                 (add_attribute ''vfdusd_out'' (show_nat (unat v_out))
                 (add_attribute ''action'' ''withdraw''
                 (add_message pull_v
                 (add_message (WasmExecute (wc_ust1_token cfg) burn []) new_response))))
                 cfg fee_amount))))))))))))"

definition receive_cw20 ::
  "window_payload api \<Rightarrow> window_from_json \<Rightarrow> window_querier \<Rightarrow> env \<Rightarrow> message_info \<Rightarrow>
   cw20_receive_msg \<Rightarrow> window_storage \<Rightarrow> window_result" where
  "receive_cw20 a from_json q e info msg s =
     and_then (map_err Std (item_load ''cfg'' (w_config s))) (\<lambda>cfg.
     if wc_paused cfg then Err Paused
     else
     and_then (map_err Std (from_json (cw20_msg msg))) (\<lambda>hook.
     and_then (map_err Std (addr_validate a (cw20_sender msg))) (\<lambda>user.
     let amount = cw20_amount msg in
     if sender info = wc_vfdusd_token cfg then deposit a q e cfg user amount hook s
     else if sender info = wc_ust1_token cfg then withdraw a q e cfg user amount hook s
     else Err InvalidCw20Hook)))"

section \<open>Governance operations (contract.rs)\<close>

definition exec_set_limits ::
  "message_info \<Rightarrow> u128 \<Rightarrow> u128 \<Rightarrow> window_storage \<Rightarrow> window_result" where
  "exec_set_limits info per_tx rolling s =
     and_then (map_err Std (item_load ''cfg'' (w_config s))) (\<lambda>cfg.
     if sender info \<noteq> wc_governance cfg then Err Unauthorized
     else Ok (s\<lparr>w_config := Some (cfg\<lparr>wc_per_tx_ust1_limit := per_tx,
                wc_rolling_24h_ust1_limit := rolling\<rparr>)\<rparr>,
              add_attribute ''action'' ''set_limits'' new_response))"

definition exec_set_paused :: "message_info \<Rightarrow> bool \<Rightarrow> window_storage \<Rightarrow> window_result" where
  "exec_set_paused info paused s =
     and_then (map_err Std (item_load ''cfg'' (w_config s))) (\<lambda>cfg.
     if sender info \<noteq> wc_governance cfg then Err Unauthorized
     else Ok (s\<lparr>w_config := Some (cfg\<lparr>wc_paused := paused\<rparr>)\<rparr>,
              add_attribute ''action'' ''set_paused'' new_response))"

definition exec_set_fee_bps :: "message_info \<Rightarrow> u16 \<Rightarrow> window_storage \<Rightarrow> window_result" where
  "exec_set_fee_bps info fee_bps s =
     (if BPS_DENOM < ucast fee_bps then Err (Math InvalidFeeBps)
      else
        and_then (map_err Std (item_load ''cfg'' (w_config s))) (\<lambda>cfg.
        if sender info \<noteq> wc_governance cfg then Err Unauthorized
        else
          let old_fee_bps = wc_fee_bps cfg;
              s = s\<lparr>w_config := Some (cfg\<lparr>wc_fee_bps := fee_bps\<rparr>)\<rparr>;
              (fee_chain_tax_bps, fee_cmm_protocol_bps) = chain_tax_and_cmm_protocol fee_bps
          in Ok (s, add_attribute ''fee_cmm_protocol_bps'' (show_nat (unat fee_cmm_protocol_bps))
                      (add_attribute ''fee_chain_tax_bps'' (show_nat (unat fee_chain_tax_bps))
                      (add_attribute ''new_fee_bps'' (show_nat (unat fee_bps))
                      (add_attribute ''old_fee_bps'' (show_nat (unat old_fee_bps))
                      (add_attribute ''action'' ''set_fee_bps'' new_response)))))))"

definition exec_set_max_oracle_age :: "message_info \<Rightarrow> u64 \<Rightarrow> window_storage \<Rightarrow> window_result" where
  "exec_set_max_oracle_age info max_oracle_age_sec s =
     and_then (validate_max_oracle_age_sec max_oracle_age_sec) (\<lambda>_.
     and_then (map_err Std (item_load ''cfg'' (w_config s))) (\<lambda>cfg.
     if sender info \<noteq> wc_governance cfg then Err Unauthorized
     else Ok (s\<lparr>w_config := Some (cfg\<lparr>wc_max_oracle_age_sec := max_oracle_age_sec\<rparr>)\<rparr>,
              add_attribute ''action'' ''set_max_oracle_age'' new_response)))"

definition exec_propose_gov ::
  "window_payload api \<Rightarrow> message_info \<Rightarrow> string \<Rightarrow> window_storage \<Rightarrow> window_result" where
  "exec_propose_gov a info address s =
     and_then (map_err Std (item_load ''cfg'' (w_config s))) (\<lambda>cfg.
     if sender info \<noteq> wc_governance cfg then Err Unauthorized
     else and_then (map_err Std (addr_validate a address)) (\<lambda>new_addr.
       Ok (s\<lparr>w_pending_governance := Some \<lparr>new_address = new_addr\<rparr>\<rparr>,
           add_attribute ''action'' ''propose_governance'' new_response)))"

definition exec_accept_gov :: "message_info \<Rightarrow> window_storage \<Rightarrow> window_result" where
  "exec_accept_gov info s =
     and_then (ok_or NoPendingGovernance (w_pending_governance s)) (\<lambda>pending.
     if sender info \<noteq> new_address pending then Err InvalidGovernanceProposal
     else and_then (map_err Std (item_load ''cfg'' (w_config s))) (\<lambda>cfg.
       Ok (s\<lparr>w_config := Some (cfg\<lparr>wc_governance := new_address pending\<rparr>),
             w_pending_governance := None\<rparr>,
           add_attribute ''action'' ''accept_governance'' new_response)))"

definition window_execute ::
  "window_payload api \<Rightarrow> window_from_json \<Rightarrow> window_querier \<Rightarrow> env \<Rightarrow> message_info \<Rightarrow>
   window_execute_msg \<Rightarrow> window_storage \<Rightarrow> window_result" where
  "window_execute a from_json q e info msg s = (case msg of
       Receive m \<Rightarrow> receive_cw20 a from_json q e info m s
     | SetLimits per_tx rolling \<Rightarrow> exec_set_limits info per_tx rolling s
     | SetPaused paused \<Rightarrow> exec_set_paused info paused s
     | SetFeeBps fee_bps \<Rightarrow> exec_set_fee_bps info fee_bps s
     | SetMaxOracleAge max_oracle_age_sec \<Rightarrow> exec_set_max_oracle_age info max_oracle_age_sec s
     | ProposeGovernance address \<Rightarrow> exec_propose_gov a info address s
     | AcceptGovernance \<Rightarrow> exec_accept_gov info s)"

section \<open>Queries and migration (contract.rs)\<close>

definition window_query_config :: "window_storage \<Rightarrow> (window_config_response, std_error) result" where
  "window_query_config s =
     and_then (item_load ''cfg'' (w_config s)) (\<lambda>c.
     Ok \<lparr>wcr_governance = wc_governance c, wcr_oracle = wc_oracle c,
         wcr_vfdusd_token = wc_vfdusd_token c, wcr_cmm_treasury = wc_cmm_treasury c,
         wcr_ust1_token = wc_ust1_token c, wcr_fee_bps = wc_fee_bps c,
         wcr_per_tx_ust1_limit = wc_per_tx_ust1_limit c,
         wcr_rolling_24h_ust1_limit = wc_rolling_24h_ust1_limit c,
         wcr_paused = wc_paused c, wcr_max_oracle_age_sec = wc_max_oracle_age_sec c\<rparr>)"

definition query_effective_swap ::
  "window_querier \<Rightarrow> window_storage \<Rightarrow> (effective_swap_response, std_error) result" where
  "query_effective_swap q s =
     and_then (item_load ''cfg'' (w_config s)) (\<lambda>cfg.
     and_then (item_load ''roll'' (w_rolling s)) (\<lambda>rolling.
     and_then (query_oracle_state q (wc_oracle cfg)) (\<lambda>oracle.
     let (fee_chain_tax_bps, fee_cmm_protocol_bps) = chain_tax_and_cmm_protocol (wc_fee_bps cfg) in
     Ok \<lparr>es_fee_bps = wc_fee_bps cfg, es_fee_chain_tax_bps = fee_chain_tax_bps,
         es_fee_cmm_protocol_bps = fee_cmm_protocol_bps,
         es_per_tx_ust1_limit = wc_per_tx_ust1_limit cfg,
         es_rolling_24h_ust1_limit = wc_rolling_24h_ust1_limit cfg,
         es_paused = wc_paused cfg,
         es_rolling_window_start_sec = rv_window_start_sec rolling,
         es_rolling_volume_ust1 = rv_volume_ust1 rolling,
         es_oracle = oracle, es_max_oracle_age_sec = wc_max_oracle_age_sec cfg\<rparr>)))"

definition window_query ::
  "window_query_response api \<Rightarrow> window_querier \<Rightarrow> window_query_msg \<Rightarrow> window_storage \<Rightarrow>
   (window_query_response, std_error) result" where
  "window_query a q msg s = (case msg of
       Config \<Rightarrow> and_then (window_query_config s) (\<lambda>r. to_json_binary a (ConfigResponse r))
     | EffectiveSwap \<Rightarrow>
         and_then (query_effective_swap q s) (\<lambda>r. to_json_binary a (EffectiveSwapResponse r)))"

definition window_migrate ::
  "window_querier \<Rightarrow> string \<Rightarrow> window_storage \<Rightarrow> window_result" where
  "window_migrate q version s =
     (let s = window_set_contract_version version s in
      and_then (map_err Std (item_load ''cfg'' (w_config s))) (\<lambda>cfg.
      and_then (validate_token_decimals q (wc_vfdusd_token cfg) (wc_ust1_token cfg)) (\<lambda>_.
      Ok (s, new_response))))"

end
