(* ===== verification/Oracle_Safety.thy ===== *)
theory Oracle_Safety
  imports Complex_Main Oracle_Contract
begin

text \<open>
  What the oracle contract guarantees: the outcome of every operation, the invariant of the
  storages it can reach, and the effect of runs of calls by anybody, in any order, at any
  block times.
\<close>

section \<open>Outcomes of the operations\<close>

lemma execute_update_rate_Ok_iff:
  "execute_update_rate e info n s = Ok (s', r) \<longleftrightarrow>
     (\<exists>cfg st d b. o_config s = Some cfg \<and> \<not> oc_paused cfg \<and>
        sender info = oc_oracle_operator cfg \<and> o_oracle_state s = Some st \<and>
        check_rate_update (block_seconds e) (os_last_update_sec st) (os_rate st) n
          (os_utc_day_id st) (os_day_baseline_rate st) = Ok (d, b) \<and>
        s' = s\<lparr>o_oracle_state := Some (st\<lparr>os_utc_day_id := d, os_day_baseline_rate := b,
               os_rate := n, os_last_update_sec := block_seconds e\<rparr>)\<rparr> \<and>
        messages r = [] \<and>
        attributes r = [(''action'', ''update_rate''), (''rate'', show_nat (unat n))])"
  by (auto simp: execute_update_rate_def result_simps Let_def add_attribute_def new_response_def
      split: prod.splits)

lemma execute_set_operator_Ok_iff:
  "execute_set_operator a info addr s = Ok (s', r) \<longleftrightarrow>
     (\<exists>cfg op. o_config s = Some cfg \<and> sender info = oc_governance cfg \<and>
        addr_validate a addr = Ok op \<and>
        s' = s\<lparr>o_config := Some (cfg\<lparr>oc_oracle_operator := op\<rparr>)\<rparr> \<and>
        r = add_attribute ''address'' addr
              (add_attribute ''action'' ''set_oracle_operator'' new_response))"
  by (auto simp: execute_set_operator_def result_simps)

lemma execute_set_paused_Ok_iff:
  "execute_set_paused info p s = Ok (s', r) \<longleftrightarrow>
     (\<exists>cfg. o_config s = Some cfg \<and> sender info = oc_governance cfg \<and>
        s' = s\<lparr>o_config := Some (cfg\<lparr>oc_paused := p\<rparr>)\<rparr> \<and>
        r = add_attribute ''paused'' (show_bool p)
              (add_attribute ''action'' ''set_paused'' new_response))"
  by (auto simp: execute_set_paused_def result_simps)

lemma execute_propose_gov_Ok_iff:
  "execute_propose_gov a info addr s = Ok (s', r) \<longleftrightarrow>
     (\<exists>cfg x. o_config s = Some cfg \<and> sender info = oc_governance cfg \<and>
        addr_validate a addr = Ok x \<and> s' = s\<lparr>o_pending_governance := Some \<lparr>new_address = x\<rparr>\<rparr> \<and>
        r = add_attribute ''action'' ''propose_governance'' new_response)"
  by (auto simp: execute_propose_gov_def result_simps)

lemma execute_accept_gov_Ok_iff:
  "execute_accept_gov info s = Ok (s', r) \<longleftrightarrow>
     (\<exists>cfg p. o_config s = Some cfg \<and> o_pending_governance s = Some p \<and>
        sender info = new_address p \<and>
        s' = s\<lparr>o_config := Some (cfg\<lparr>oc_governance := new_address p\<rparr>),
               o_pending_governance := None\<rparr> \<and>
        r = add_attribute ''action'' ''accept_governance'' new_response)"
  by (auto simp: execute_accept_gov_def result_simps)

lemmas oracle_Ok_iffs =
  execute_update_rate_Ok_iff execute_set_operator_Ok_iff execute_set_paused_Ok_iff
  execute_propose_gov_Ok_iff execute_accept_gov_Ok_iff

lemma oracle_instantiate_Ok_iff:
  "oracle_instantiate a v e info m s = Ok (s', r) \<longleftrightarrow>
     (\<exists>g op. addr_validate a (oi_governance m) = Ok g \<and>
        addr_validate a (oi_oracle_operator m) = Ok op \<and> oi_initial_rate m \<noteq> 0 \<and>
        s' = s\<lparr>o_contract_info := Some (ORACLE_CONTRACT_NAME, v),
               o_config := Some \<lparr>oc_governance = g, oc_oracle_operator = op, oc_paused = False\<rparr>,
               o_oracle_state := Some \<lparr>os_rate = oi_initial_rate m, os_last_update_sec = 0,
                 os_utc_day_id = block_seconds e div 86400,
                 os_day_baseline_rate = oi_initial_rate m\<rparr>\<rparr> \<and>
        r = add_attribute ''governance'' g (add_attribute ''action'' ''instantiate'' new_response))"
  by (auto simp: oracle_instantiate_def oracle_set_contract_version_def result_simps Let_def)

lemma oracle_query_state_Ok_iff:
  "oracle_query_state s = Ok q \<longleftrightarrow>
     (\<exists>cfg st. o_config s = Some cfg \<and> o_oracle_state s = Some st \<and>
        q = \<lparr>sr_rate = os_rate st, sr_last_update_sec = os_last_update_sec st,
             sr_utc_day_id = os_utc_day_id st, sr_day_baseline_rate = os_day_baseline_rate st,
             sr_paused = oc_paused cfg\<rparr>)"
  by (auto simp: oracle_query_state_def result_simps)

section \<open>Steps and the invariant\<close>

type_synonym oracle_call = "(unit, oracle_execute_msg, unit) call"

definition oracle_step :: "unit api \<Rightarrow> oracle_call \<Rightarrow> oracle_storage \<Rightarrow> oracle_storage \<Rightarrow> bool" where
  "oracle_step a c s s' \<longleftrightarrow>
     oracle_execute a (call_env c) (call_info c) (call_msg c) s = Ok (s', call_response c)"

definition oracle_state_ok :: "oracle_state \<Rightarrow> bool" where
  "oracle_state_ok st \<longleftrightarrow>
     0 < unat (os_rate st) \<and>
     (if os_last_update_sec st = 0 then os_day_baseline_rate st = os_rate st
      else os_utc_day_id st = os_last_update_sec st div 86400 \<and>
           os_day_baseline_rate st \<le> os_rate st \<and>
           unat (os_rate st) * 10000 \<le> unat (os_day_baseline_rate st) * 10200)"

definition oracle_inv :: "oracle_storage \<Rightarrow> bool" where
  "oracle_inv s \<longleftrightarrow> o_config s \<noteq> None \<and>
     (case o_oracle_state s of None \<Rightarrow> False | Some st \<Rightarrow> oracle_state_ok st)"

text \<open>How one step changes the rate record: not at all, or by an accepted update.\<close>

definition rate_updated :: "oracle_call \<Rightarrow> oracle_state \<Rightarrow> oracle_state \<Rightarrow> bool" where
  "rate_updated c st st' \<longleftrightarrow>
     (case call_msg c of UpdateRate n \<Rightarrow>
        \<exists>d b. check_rate_update (block_seconds (call_env c)) (os_last_update_sec st) (os_rate st) n
                (os_utc_day_id st) (os_day_baseline_rate st) = Ok (d, b) \<and>
              st' = \<lparr>os_rate = n, os_last_update_sec = block_seconds (call_env c),
                     os_utc_day_id = d, os_day_baseline_rate = b\<rparr>
      | _ \<Rightarrow> False)"

definition is_update :: "oracle_call \<Rightarrow> bool" where
  "is_update c \<longleftrightarrow> (case call_msg c of UpdateRate n \<Rightarrow> True | _ \<Rightarrow> False)"

lemma oracle_step_cases:
  assumes "oracle_step a c s s'"
  obtains
    (update) st st' where "is_update c" "o_oracle_state s = Some st" "o_oracle_state s' = Some st'"
      "rate_updated c st st'" "o_config s' = o_config s"
      "o_pending_governance s' = o_pending_governance s"
  | (admin) "\<not> is_update c" "o_oracle_state s' = o_oracle_state s" "o_config s \<noteq> None"
      "o_config s' \<noteq> None"
  using assms
  by (cases "call_msg c")
    (auto simp: oracle_step_def oracle_execute_def oracle_Ok_iffs is_update_def rate_updated_def)

lemma rate_updatedE:
  assumes "rate_updated c st st'"
  obtains d b where
    "check_rate_update (block_seconds (call_env c)) (os_last_update_sec st) (os_rate st)
       (os_rate st') (os_utc_day_id st) (os_day_baseline_rate st) = Ok (d, b)"
    "os_last_update_sec st' = block_seconds (call_env c)" "os_utc_day_id st' = d"
    "os_day_baseline_rate st' = b"
  using assms by (auto simp: rate_updated_def split: oracle_execute_msg.splits)

text \<open>The guards of an accepted update, on the storage before and after it.\<close>

lemma rate_updated_facts:
  assumes "rate_updated c st st'"
  shows "os_rate st \<le> os_rate st'" "os_rate st' \<noteq> 0"
    "\<not> throttled (block_seconds (call_env c)) (os_last_update_sec st)"
    "os_last_update_sec st' = block_seconds (call_env c)"
    "os_utc_day_id st' = block_seconds (call_env c) div 86400"
    "os_last_update_sec st = 0 \<Longrightarrow> os_day_baseline_rate st' = os_rate st'"
    "os_last_update_sec st \<noteq> 0 \<Longrightarrow> os_day_baseline_rate st' =
       (if block_seconds (call_env c) div 86400 = os_utc_day_id st
        then os_day_baseline_rate st else os_rate st)"
    "os_last_update_sec st \<noteq> 0 \<Longrightarrow> within_daily_cap (os_day_baseline_rate st') (os_rate st')"
  using assms
  by (auto elim!: rate_updatedE simp: check_rate_update_Ok_iff Let_def split: if_splits)

lemma rate_updated_state_ok:
  assumes "rate_updated c st st'" and "oracle_state_ok st"
  shows "oracle_state_ok st'"
proof (cases "os_last_update_sec st = 0")
  case True
  with rate_updated_facts[OF assms(1)] show ?thesis
    by (auto simp: oracle_state_ok_def unat_gt_0)
next
  case False
  with not_throttled rate_updated_facts(3)[OF assms(1)]
  have "block_seconds (call_env c) \<noteq> 0" by fastforce
  with False assms(2) rate_updated_facts[OF assms(1)] show ?thesis
    by (auto simp: oracle_state_ok_def within_daily_cap_def word_le_nat_alt unat_gt_0
        split: if_splits)
qed

lemma oracle_step_inv: "oracle_step a c s s' \<Longrightarrow> oracle_inv s \<Longrightarrow> oracle_inv s'"
  by (elim oracle_step_cases)
    (auto simp: oracle_inv_def rate_updated_state_ok split: option.splits)

lemma oracle_instantiate_inv:
  "oracle_instantiate a v e info m s = Ok (s', r) \<Longrightarrow> oracle_inv s'"
  by (auto simp: oracle_instantiate_Ok_iff oracle_inv_def oracle_state_ok_def unat_gt_0)

lemma oracle_migrate_inv: "oracle_migrate v s = Ok (s', r) \<Longrightarrow> oracle_inv s \<Longrightarrow> oracle_inv s'"
  by (auto simp: oracle_migrate_def oracle_set_contract_version_def oracle_inv_def)

lemma oracle_run_inv: "run (oracle_step a) s es s' \<Longrightarrow> oracle_inv s \<Longrightarrow> oracle_inv s'"
  using run_invariant[where I = oracle_inv] oracle_step_inv by metis

section \<open>Runs: the rate never falls, and how fast it can grow\<close>

definition rate_of :: "oracle_storage \<Rightarrow> nat" where
  "rate_of s = (case o_oracle_state s of None \<Rightarrow> 0 | Some st \<Rightarrow> unat (os_rate st))"

definition last_update_of :: "oracle_storage \<Rightarrow> nat" where
  "last_update_of s = (case o_oracle_state s of None \<Rightarrow> 0 | Some st \<Rightarrow> unat (os_last_update_sec st))"

definition day_of :: "oracle_storage \<Rightarrow> nat" where
  "day_of s = (case o_oracle_state s of None \<Rightarrow> 0 | Some st \<Rightarrow> unat (os_utc_day_id st))"

definition baseline_of :: "oracle_storage \<Rightarrow> nat" where
  "baseline_of s =
     (case o_oracle_state s of None \<Rightarrow> 0 | Some st \<Rightarrow> unat (os_day_baseline_rate st))"

lemmas oracle_views = rate_of_def last_update_of_def day_of_def baseline_of_def

lemma admin_step_views:
  "o_oracle_state s' = o_oracle_state s \<Longrightarrow>
   rate_of s' = rate_of s \<and> last_update_of s' = last_update_of s \<and> day_of s' = day_of s \<and>
   baseline_of s' = baseline_of s"
  by (simp add: oracle_views)

lemma update_step_views:
  assumes "o_oracle_state s = Some st" "o_oracle_state s' = Some st'" "rate_updated c st st'"
  shows "rate_of s \<le> rate_of s'" "last_update_of s' = call_time c"
    "day_of s' = call_time c div 86400"
    "last_update_of s \<noteq> 0 \<Longrightarrow> last_update_of s + 14400 \<le> call_time c"
    "last_update_of s \<noteq> 0 \<Longrightarrow>
       baseline_of s' = (if day_of s' = day_of s then baseline_of s else rate_of s)"
    "last_update_of s \<noteq> 0 \<Longrightarrow> rate_of s' * 10000 \<le> baseline_of s' * 10200"
proof -
  note facts = rate_updated_facts[OF assms(3)]
  show "rate_of s \<le> rate_of s'" "last_update_of s' = call_time c"
    "day_of s' = call_time c div 86400"
    using assms facts(1,4,5) by (simp_all add: oracle_views word_le_nat_alt call_time_def unat_div)
  assume l: "last_update_of s \<noteq> 0"
  then have l': "os_last_update_sec st \<noteq> 0"
    using assms(1) by (auto simp: oracle_views)
  show "last_update_of s + 14400 \<le> call_time c"
    using not_throttled[OF facts(3) l'] assms(1) by (simp add: oracle_views call_time_def)
  show "baseline_of s' = (if day_of s' = day_of s then baseline_of s else rate_of s)"
    using facts(5) facts(7)[OF l'] assms(1,2)
    by (auto simp: oracle_views word_unat_eq_iff)
  show "rate_of s' * 10000 \<le> baseline_of s' * 10200"
    using facts(8)[OF l'] assms(2) by (auto simp: oracle_views within_daily_cap_def)
qed

lemma oracle_step_rate_mono: "oracle_step a c s s' \<Longrightarrow> rate_of s \<le> rate_of s'"
proof (erule oracle_step_cases)
  show "rate_of s \<le> rate_of s'" if "o_oracle_state s' = o_oracle_state s"
    using admin_step_views[OF that] by simp
qed (rule update_step_views)

lemma oracle_run_rate_mono: "run (oracle_step a) s es s' \<Longrightarrow> rate_of s \<le> rate_of s'"
  using run_relation[where R = "\<lambda>s s'. rate_of s \<le> rate_of s'"] oracle_step_rate_mono
  by (metis order.refl order.trans)

lemma oracle_step_last_update_mono:
  "oracle_step a c s s' \<Longrightarrow> last_update_of s \<le> last_update_of s'"
proof (erule oracle_step_cases)
  show "last_update_of s \<le> last_update_of s'" if "o_oracle_state s' = o_oracle_state s"
    using admin_step_views[OF that] by simp
next
  fix st st'
  assume "o_oracle_state s = Some st" "o_oracle_state s' = Some st'" "rate_updated c st st'"
  from update_step_views(2,4)[OF this] show "last_update_of s \<le> last_update_of s'"
    by (cases "last_update_of s = 0") simp_all
qed

lemma oracle_run_last_update_mono:
  "run (oracle_step a) s es s' \<Longrightarrow> last_update_of s \<le> last_update_of s'"
  using run_relation[where R = "\<lambda>s s'. last_update_of s \<le> last_update_of s'"]
    oracle_step_last_update_mono
  by (metis order.refl order.trans)

text \<open>Two successful updates of one run are at least four hours apart.\<close>

lemma oracle_updates_spaced:
  assumes "run (oracle_step a) s (c1 # cs @ [c2]) s'" and "is_update c1" and "is_update c2"
    and "0 < call_time c1"
  shows "call_time c1 + 14400 \<le> call_time c2"
proof -
  from assms(1) obtain s1 s2 where c1: "oracle_step a c1 s s1"
    and r: "run (oracle_step a) s1 cs s2" and c2: "oracle_step a c2 s2 s'"
    by (auto simp: run_cons_iff run_snoc_iff)
  have "last_update_of s1 = call_time c1"
    using c1 assms(2) by (elim oracle_step_cases) (simp_all add: update_step_views(2))
  then have "call_time c1 \<le> last_update_of s2"
    using oracle_run_last_update_mono[OF r] by simp
  moreover from this assms(4) have "last_update_of s2 + 14400 \<le> call_time c2"
    using c2 assms(3) by (elim oracle_step_cases) (simp_all add: update_step_views(4))
  ultimately show ?thesis by simp
qed

text \<open>
  The growth bound. \<open>growth s s'\<close> relates a storage that has seen its first update to a later
  one: with \<open>n\<close> UTC days between them the later rate is at most the baseline times
  \<open>1.02 ^ (n + 1)\<close>, and the later baseline at most the baseline times \<open>1.02 ^ n\<close>.
\<close>

definition growth :: "oracle_storage \<Rightarrow> oracle_storage \<Rightarrow> bool" where
  "growth s s' \<longleftrightarrow> last_update_of s' \<noteq> 0 \<and> day_of s \<le> day_of s' \<and>
     real (baseline_of s') \<le> real (baseline_of s) * (51 / 50) ^ (day_of s' - day_of s) \<and>
     real (rate_of s') \<le> real (baseline_of s) * (51 / 50) ^ (day_of s' - day_of s + 1)"

lemma power_51_50_mono: "m \<le> n \<Longrightarrow> (51 / 50 :: real) ^ m \<le> (51 / 50) ^ n"
  by (rule power_increasing) simp_all

lemma cap_real: "r * 10000 \<le> b * 10200 \<Longrightarrow> real r \<le> real b * (51 / 50)"
proof -
  assume "r * 10000 \<le> b * 10200"
  then have "real (r * 10000) \<le> real (b * 10200)" by (rule of_nat_mono)
  then show ?thesis by simp
qed

lemma oracle_inv_views:
  "oracle_inv s \<Longrightarrow> last_update_of s \<noteq> 0 \<Longrightarrow>
   day_of s = last_update_of s div 86400 \<and> baseline_of s \<le> rate_of s \<and>
   rate_of s * 10000 \<le> baseline_of s * 10200"
  by (auto simp: oracle_inv_def oracle_state_ok_def oracle_views unat_div word_le_nat_alt
      split: option.splits if_splits)

lemma oracle_step_growth:
  assumes "oracle_step a c s1 s2" and "growth s s1" and "oracle_inv s1"
  shows "growth s s2"
  using assms(1)
proof (cases rule: oracle_step_cases)
  case admin
  from admin_step_views[OF admin(2)] assms(2) show ?thesis by (simp add: growth_def)
next
  case (update st st')
  note v = update_step_views[OF update(2,3,4)]
  from assms(2) have l: "last_update_of s1 \<noteq> 0" and d: "day_of s \<le> day_of s1"
    by (simp_all add: growth_def)
  have day1: "day_of s1 = last_update_of s1 div 86400"
    using oracle_inv_views[OF assms(3) l] by simp
  have days: "day_of s1 \<le> day_of s2"
    using v(3) v(4)[OF l] day1 by (simp add: div_le_mono)
  have base: "real (baseline_of s2) \<le> real (baseline_of s) * (51 / 50) ^ (day_of s2 - day_of s)"
  proof (cases "day_of s2 = day_of s1")
    case True
    with v(5)[OF l] assms(2) show ?thesis by (simp add: growth_def)
  next
    case False
    with days d have "day_of s1 - day_of s + 1 \<le> day_of s2 - day_of s" by simp
    then have "real (baseline_of s) * (51 / 50) ^ (day_of s1 - day_of s + 1) \<le>
        real (baseline_of s) * (51 / 50) ^ (day_of s2 - day_of s)"
      by (intro mult_left_mono power_51_50_mono) simp_all
    with False v(5)[OF l] assms(2) show ?thesis by (simp add: growth_def)
  qed
  have "real (rate_of s2) \<le> real (baseline_of s2) * (51 / 50)"
    using v(6)[OF l] by (rule cap_real)
  also have "\<dots> \<le> real (baseline_of s) * (51 / 50) ^ (day_of s2 - day_of s) * (51 / 50)"
    using base by (rule mult_right_mono) simp
  finally have "real (rate_of s2) \<le> real (baseline_of s) * (51 / 50) ^ (day_of s2 - day_of s + 1)"
    by (simp add: mult.assoc)
  moreover have "last_update_of s2 \<noteq> 0" using v(2) v(4)[OF l] by simp
  ultimately show ?thesis using base days d by (simp add: growth_def)
qed

lemma oracle_inv_growth_refl:
  "oracle_inv s \<Longrightarrow> last_update_of s \<noteq> 0 \<Longrightarrow> growth s s"
  using oracle_inv_views[of s] cap_real[of "rate_of s" "baseline_of s"]
  by (simp add: growth_def)

lemma oracle_run_growth:
  assumes "run (oracle_step a) s es s'" and "oracle_inv s" and "last_update_of s \<noteq> 0"
  shows "growth s s'"
proof -
  have "oracle_inv s' \<and> growth s s'"
    using assms(1)
  proof (rule run_invariant)
    show "oracle_inv s \<and> growth s s" using assms oracle_inv_growth_refl by simp
  qed (use oracle_step_inv oracle_step_growth in blast)
  then show ?thesis ..
qed

text \<open>Without an update the rate stays; else the run has a first update, and grows from there.\<close>

lemma no_update_same_rate:
  assumes "run (oracle_step a) s es s'" and "\<not> list_ex is_update es"
  shows "rate_of s' = rate_of s"
proof (rule run_invariant[OF assms(1)])
  fix c t t' assume c: "c \<in> set es" "oracle_step a c t t'" and "rate_of t = rate_of s"
  from c(1) assms(2) have "\<not> is_update c" by (auto simp: list_ex_iff)
  have "rate_of t' = rate_of t"
    using c(2)
  proof (cases rule: oracle_step_cases)
    case admin
    with admin_step_views show ?thesis by blast
  qed (use \<open>\<not> is_update c\<close> in blast)
  with \<open>rate_of t = rate_of s\<close> show "rate_of t' = rate_of s" by simp
qed simp

lemma growth_from_first_update:
  assumes "run (oracle_step a) s es s'" and "oracle_inv s" and "list_ex is_update es"
    and "\<forall>c\<in>set es. 0 < call_time c"
  shows "\<exists>xs c ys s1. es = xs @ c # ys \<and> \<not> list_ex is_update xs \<and> is_update c \<and>
     run (oracle_step a) s (xs @ [c]) s1 \<and> day_of s1 \<le> day_of s' \<and>
     real (rate_of s') \<le> real (rate_of s1) * (51 / 50) ^ (day_of s' - day_of s1 + 1)"
proof -
  from assms(3) obtain xs c ys where es: "es = xs @ c # ys" "is_update c" "\<not> list_ex is_update xs"
    by (auto simp: list_ex_iff dest!: split_list_first_prop[of es is_update])
  with assms(1) obtain t s1 where r: "run (oracle_step a) s xs t" "oracle_step a c t s1"
    "run (oracle_step a) s1 ys s'"
    by (auto simp: run_append run_cons_iff)
  from r(2) es(2) have "last_update_of s1 = call_time c"
    by (elim oracle_step_cases) (simp_all add: update_step_views(2))
  with assms(4) es(1) have l: "last_update_of s1 \<noteq> 0" by auto
  have first: "run (oracle_step a) s (xs @ [c]) s1" using r(1,2) by (auto simp: run_snoc_iff)
  have inv: "oracle_inv s1" by (rule oracle_run_inv[OF first assms(2)])
  from oracle_run_growth[OF r(3) inv l] have g: "day_of s1 \<le> day_of s'"
    "real (rate_of s') \<le> real (baseline_of s1) * (51 / 50) ^ (day_of s' - day_of s1 + 1)"
    by (simp_all add: growth_def)
  have "real (baseline_of s1) \<le> real (rate_of s1)" using oracle_inv_views[OF inv l] by simp
  then have "real (baseline_of s1) * (51 / 50) ^ (day_of s' - day_of s1 + 1) \<le>
      real (rate_of s1) * (51 / 50) ^ (day_of s' - day_of s1 + 1)"
    by (rule mult_right_mono) simp
  with g(2) have "real (rate_of s') \<le> real (rate_of s1) * (51 / 50) ^ (day_of s' - day_of s1 + 1)"
    by (rule order_trans)
  with g(1) es first show ?thesis by blast
qed

section \<open>Governance\<close>

definition oracle_gov :: "oracle_storage \<Rightarrow> addr option" where
  "oracle_gov s = map_option oc_governance (o_config s)"

definition oracle_pend :: "oracle_storage \<Rightarrow> addr option" where
  "oracle_pend s = map_option new_address (o_pending_governance s)"

definition oracle_nominee :: "unit api \<Rightarrow> oracle_call \<Rightarrow> addr option" where
  "oracle_nominee a c = (case call_msg c of
       ProposeGovernance address \<Rightarrow>
         (case addr_validate a address of Inr x \<Rightarrow> Some x | Inl _ \<Rightarrow> None)
     | _ \<Rightarrow> None)"

definition oracle_accepts :: "oracle_call \<Rightarrow> bool" where
  "oracle_accepts c \<longleftrightarrow> call_msg c = AcceptGovernance"

lemmas oracle_gov_views = oracle_gov_def oracle_pend_def oracle_nominee_def oracle_accepts_def

interpretation oracle_handover: two_step_governance
  "oracle_step a" oracle_gov oracle_pend call_sender "oracle_nominee a" oracle_accepts
  for a
proof unfold_locales
  fix c s s'
  assume st: "oracle_step a c s s'"
  show "oracle_gov s' = oracle_gov s \<or> (oracle_accepts c \<and>
      oracle_pend s = Some (call_sender c) \<and> oracle_gov s' = Some (call_sender c))"
    using st by (cases "call_msg c")
      (auto simp: oracle_step_def oracle_execute_def oracle_Ok_iffs oracle_gov_views call_sender_def)
  show "oracle_pend s' = oracle_pend s \<or> oracle_pend s' = None \<or>
      (oracle_nominee a c \<noteq> None \<and> oracle_pend s' = oracle_nominee a c \<and>
       oracle_gov s = Some (call_sender c))"
    using st by (cases "call_msg c")
      (auto simp: oracle_step_def oracle_execute_def oracle_Ok_iffs oracle_gov_views call_sender_def)
qed

section \<open>Who may do what\<close>

lemma update_needs_operator:
  "oracle_step a c s s' \<Longrightarrow> is_update c \<Longrightarrow>
   \<exists>cfg. o_config s = Some cfg \<and> \<not> oc_paused cfg \<and> call_sender c = oc_oracle_operator cfg"
  by (cases "call_msg c")
    (auto simp: oracle_step_def oracle_execute_def oracle_Ok_iffs is_update_def call_sender_def)

lemma paused_update_rejected:
  "o_config s = Some cfg \<Longrightarrow> oc_paused cfg \<Longrightarrow> execute_update_rate e info n s = Err Paused"
  by (simp add: execute_update_rate_def)

lemma execute_update_rate_no_panic [simp]: "execute_update_rate e info n s \<noteq> Panicked"
  by (auto simp: execute_update_rate_def Let_def panic_simps split: if_splits)

end
