(* ===== verification/Rolling_Window.thy ===== *)
theory Rolling_Window
  imports Transitions
begin

text \<open>
  The volume window that \<open>ust1-window/src/contract.rs\<close> and \<open>cmm-native-wrap/src/limits.rs\<close>
  both implement, each on its own record: a start time and a volume, restarted when the
  start is zero or 24 hours old. \<open>passes_limits\<close> says on numbers when a notional passes
  and what the counters are afterwards; the two \<open>ensure_limits\<close> functions are shown equal to
  it, and it yields the laws of \<open>rolling_limited\<close>.
\<close>

definition window_restarts :: "u64 \<Rightarrow> u64 \<Rightarrow> bool" where
  "window_restarts now start \<longleftrightarrow> start = 0 \<or> unat start + 86400 \<le> unat now"

definition volume_base :: "u64 \<Rightarrow> u64 \<Rightarrow> u128 \<Rightarrow> nat" where
  "volume_base now start volume = (if window_restarts now start then 0 else unat volume)"

definition passes_limits ::
  "u64 \<Rightarrow> u64 \<Rightarrow> u128 \<Rightarrow> u128 \<Rightarrow> u128 \<Rightarrow> u128 \<Rightarrow> u64 \<Rightarrow> u128 \<Rightarrow> bool" where
  "passes_limits now start volume per_tx cap n start' volume' \<longleftrightarrow>
     n \<le> per_tx \<and> (start = 0 \<or> unat start + 86400 < 2 ^ 64) \<and>
     volume_base now start volume + unat n \<le> unat cap \<and>
     start' = (if window_restarts now start then now else start) \<and>
     unat volume' = volume_base now start volume + unat n"

text \<open>The guard \<open>start == 0 || now >= start + 86_400\<close>, with the addition checked.\<close>

lemma restart_guard:
  "(if start = 0 then Ok True
    else and_then (plain_add start 86400) (\<lambda>end_sec. Ok (end_sec \<le> now))) =
   (if start \<noteq> 0 \<and> 2 ^ 64 \<le> unat start + 86400 then Panicked
    else Ok (window_restarts now start))"
proof (cases "unat start + 86400 < 2 ^ 64")
  case True
  then have "unat (start + 86400) = unat start + 86400"
    by (subst unat_plus_if_fits) simp_all
  with True show ?thesis
    by (simp add: plain_add_def window_restarts_def word_le_nat_alt)
qed (simp add: plain_add_def window_restarts_def)

text \<open>The checked addition and the comparison with the cap, after the restart.\<close>

lemma passes_limits_iff:
  "passes_limits now start volume per_tx cap n start' volume' \<longleftrightarrow>
     n \<le> per_tx \<and> (start = 0 \<or> unat start + 86400 < 2 ^ 64) \<and>
     checked_add (if window_restarts now start then 0 else volume) n = Ok volume' \<and>
     volume' \<le> cap \<and> start' = (if window_restarts now start then now else start)"
  using unat_less_size[of cap]
  by (auto simp: passes_limits_def checked_add_Ok_iff volume_base_def word_le_nat_alt)

text \<open>The laws of \<open>rolling_limited\<close> for a step that passes the limits.\<close>

lemma passes_limits_window:
  assumes "passes_limits (block_seconds (call_env c)) start volume per_tx cap n start' volume'"
  shows "unat n \<le> unat per_tx"
    and "(unat start \<noteq> 0 \<and> call_time c < unat start + 86400 \<and> unat start' = unat start \<and>
          unat volume' = unat volume + unat n \<and> unat volume' \<le> unat cap) \<or>
         ((unat start = 0 \<or> unat start + 86400 \<le> call_time c) \<and> unat start' = call_time c \<and>
          unat volume' = unat n \<and> unat n \<le> unat cap)"
  using assms
  by (auto simp: passes_limits_def volume_base_def window_restarts_def call_time_def
      word_le_nat_alt unat_eq_0 split: if_splits)

text \<open>
  What a notional does to a counter with its start and volume, on numbers: the window restarts
  with the notional alone when it never started or is 24 hours old, else the notional adds up.
\<close>

definition counted :: "nat \<Rightarrow> nat \<times> nat \<Rightarrow> nat \<Rightarrow> nat \<times> nat" where
  "counted now counter n = (case counter of (start, volume) \<Rightarrow>
     if start = 0 \<or> start + 86400 \<le> now then (now, n) else (start, volume + n))"

lemma passes_limits_counted:
  assumes "passes_limits now start volume per_tx cap n start' volume'"
  shows "(unat start', unat volume') = counted (unat now) (unat start, unat volume) (unat n)"
    and "n \<le> per_tx" and "volume' \<le> cap"
  using assms
  by (auto simp: passes_limits_def volume_base_def window_restarts_def counted_def
      word_le_nat_alt unat_eq_0)

text \<open>A start time that came from a block stays one.\<close>

lemma passes_limits_start_bound:
  "passes_limits (block_seconds e) start volume per_tx cap n start' volume' \<Longrightarrow>
   unat start \<le> 18446744073 \<Longrightarrow> unat start' \<le> 18446744073"
  using block_seconds_bound[of e] by (auto simp: passes_limits_def)

text \<open>When there is room in the current window, the notional passes.\<close>

lemma passes_limitsI:
  assumes "n \<le> per_tx" and "unat start \<le> 18446744073"
    and "volume_base now start volume + unat n \<le> unat cap"
  obtains start' volume' where "passes_limits now start volume per_tx cap n start' volume'"
proof -
  define k where "k = volume_base now start volume + unat n"
  have "k < 2 ^ 128"
    using assms(3) unat_less_size[of cap] by (simp add: k_def)
  then have "unat (of_nat k :: u128) = k"
    by (simp add: unsigned_of_nat take_bit_nat_eq_self)
  with assms have "passes_limits now start volume per_tx cap n
      (if window_restarts now start then now else start) (of_nat k)"
    by (simp add: passes_limits_def flip: k_def)
  then show thesis by (rule that)
qed

end
