(* ===== verification/Window_Safety.thy ===== *)
theory Window_Safety
  imports Window_Contract Oracle_Safety Rolling_Window
begin

text \<open>
  What the swap window guarantees: the exact outcome of deposit and withdraw, the invariant
  of its storages, absence of aborts, the limits over runs (an interpretation of
  \<open>rolling_limited\<close>) and the hand-over of governance (an interpretation of
  \<open>two_step_governance\<close>).
\<close>

section \<open>Limits\<close>

definition window_limits_pass ::
  "env \<Rightarrow> rolling_volume \<Rightarrow> window_config \<Rightarrow> u128 \<Rightarrow> rolling_volume \<Rightarrow> bool" where
  "window_limits_pass e r cfg n r' \<longleftrightarrow>
     passes_limits (block_seconds e) (rv_window_start_sec r) (rv_volume_ust1 r)
       (wc_per_tx_ust1_limit cfg) (wc_rolling_24h_ust1_limit cfg) n
       (rv_window_start_sec r') (rv_volume_ust1 r')"

lemma window_ensure_limits_Ok_iff:
  "window_ensure_limits e r cfg n = Ok r' \<longleftrightarrow> window_limits_pass e r cfg n r'"
proof -
  have upd: "(if b then r\<lparr>rv_window_start_sec := now, rv_volume_ust1 := 0\<rparr>
      else r)\<lparr>rv_volume_ust1 := v\<rparr> =
    \<lparr>rv_window_start_sec = (if b then now else rv_window_start_sec r), rv_volume_ust1 = v\<rparr>"
    for b now v
    by simp
  have rv: "r' = \<lparr>rv_window_start_sec = st, rv_volume_ust1 = v\<rparr> \<longleftrightarrow>
      rv_window_start_sec r' = st \<and> rv_volume_ust1 r' = v" for st v
    by auto
  have "rv_volume_ust1 (if b then r\<lparr>rv_window_start_sec := now, rv_volume_ust1 := 0\<rparr> else r) =
      (if b then 0 else rv_volume_ust1 r)" for b now
    by simp
  then show ?thesis
    unfolding window_ensure_limits_def restart_guard Let_def window_limits_pass_def passes_limits_iff
    by (auto simp: chain_simps not_less not_le upd rv)
qed

lemma window_ensure_limits_Panic_iff:
  "window_ensure_limits e r cfg n = Panicked \<longleftrightarrow>
     n \<le> wc_per_tx_ust1_limit cfg \<and> rv_window_start_sec r \<noteq> 0 \<and>
     2 ^ 64 \<le> unat (rv_window_start_sec r) + 86400"
  unfolding window_ensure_limits_def restart_guard Let_def
  by (auto simp: panic_simps not_less)

section \<open>Guards\<close>

definition oracle_usable :: "env \<Rightarrow> state_response \<Rightarrow> u64 \<Rightarrow> bool" where
  "oracle_usable e os max_age \<longleftrightarrow>
     \<not> sr_paused os \<and> sr_last_update_sec os \<noteq> 0 \<and>
     unat (block_seconds e) \<le> unat (sr_last_update_sec os) + unat max_age"

lemma ensure_oracle_usable_Ok_iff:
  "ensure_oracle_usable e os max_age = Ok u \<longleftrightarrow> oracle_usable e os max_age"
  by (auto simp: ensure_oracle_usable_def oracle_usable_def Let_def word_less_nat_alt)

lemma validate_max_oracle_age_sec_Ok_iff:
  "validate_max_oracle_age_sec m = Ok u \<longleftrightarrow> 14400 \<le> unat m"
  by (auto simp: validate_max_oracle_age_sec_def word_less_nat_alt)

lemma with_fee_event_attrs_messages [simp]:
  "messages (with_fee_event_attrs r cfg f) = messages r"
  by (simp add: with_fee_event_attrs_def chain_tax_and_cmm_protocol_def Let_def)

lemma with_fee_event_attrs_attributes:
  "attributes (with_fee_event_attrs r cfg f) = attributes r @
     [(''fee_total_bps'', show_nat (unat (wc_fee_bps cfg))),
      (''fee_chain_tax_bps'', show_nat (unat (wc_fee_bps cfg div 2))),
      (''fee_cmm_protocol_bps'', show_nat (unat (wc_fee_bps cfg - wc_fee_bps cfg div 2))),
      (''fee_amount'', show_nat (unat f)), (''fee_asset'', wc_ust1_token cfg)]"
  by (simp add: with_fee_event_attrs_def chain_tax_and_cmm_protocol_def Let_def)

section \<open>Deposit and withdraw\<close>

text \<open>The swap of a deposit: what the guards establish and what the response holds.\<close>

definition deposit_swap ::
  "window_payload api \<Rightarrow> window_querier \<Rightarrow> env \<Rightarrow> window_config \<Rightarrow> addr \<Rightarrow> u128 \<Rightarrow>
   window_storage \<Rightarrow> window_storage \<Rightarrow> window_payload response \<Rightarrow>
   state_response \<Rightarrow> u128 \<Rightarrow> u128 \<Rightarrow> u128 \<Rightarrow> bool" where
  "deposit_swap a q e cfg user x s s' r os before out fee \<longleftrightarrow>
     query_oracle_state q (wc_oracle cfg) = Ok os \<and>
     oracle_usable e os (wc_max_oracle_age_sec cfg) \<and>
     vfdusd_to_ust1_before_fee x (sr_rate os) = Ok before \<and>
     apply_fee_ust1 before (wc_fee_bps cfg) = Ok out \<and> out \<noteq> 0 \<and>
     out \<le> before \<and> fee = before - out \<and>
     (\<exists>roll roll'. w_rolling s = Some roll \<and>
        window_ensure_limits e roll cfg out = Ok roll' \<and> s' = s\<lparr>w_rolling := Some roll'\<rparr>) \<and>
     json_error a (Cw20Payload (Cw20Mint user out)) = None \<and>
     json_error a (Cw20Payload (Cw20Transfer (wc_cmm_treasury cfg) x)) = None \<and>
     messages r =
       [WasmExecute (wc_ust1_token cfg) (Cw20Payload (Cw20Mint user out)) [],
        WasmExecute (wc_vfdusd_token cfg) (Cw20Payload (Cw20Transfer (wc_cmm_treasury cfg) x)) []] \<and>
     attributes r =
       [(''action'', ''deposit''), (''ust1_out'', show_nat (unat out)),
        (''vfdusd_to_treasury'', show_nat (unat x)),
        (''fee_total_bps'', show_nat (unat (wc_fee_bps cfg))),
        (''fee_chain_tax_bps'', show_nat (unat (wc_fee_bps cfg div 2))),
        (''fee_cmm_protocol_bps'', show_nat (unat (wc_fee_bps cfg - wc_fee_bps cfg div 2))),
        (''fee_amount'', show_nat (unat fee)), (''fee_asset'', wc_ust1_token cfg)]"

definition withdraw_swap ::
  "window_payload api \<Rightarrow> window_querier \<Rightarrow> env \<Rightarrow> window_config \<Rightarrow> addr \<Rightarrow> u128 \<Rightarrow> u128 \<Rightarrow>
   window_storage \<Rightarrow> window_storage \<Rightarrow> window_payload response \<Rightarrow>
   state_response \<Rightarrow> u128 \<Rightarrow> u128 \<Rightarrow> u128 \<Rightarrow> u128 \<Rightarrow> bool" where
  "withdraw_swap a q e cfg user g min_out s s' r os after v_out fee bal \<longleftrightarrow>
     query_oracle_state q (wc_oracle cfg) = Ok os \<and>
     oracle_usable e os (wc_max_oracle_age_sec cfg) \<and>
     apply_fee_ust1 g (wc_fee_bps cfg) = Ok after \<and>
     ust1_after_fee_to_vfdusd after (sr_rate os) = Ok v_out \<and> v_out \<noteq> 0 \<and>
     after \<le> g \<and> fee = g - after \<and> min_out \<le> v_out \<and>
     query_cw20_balance q (wc_vfdusd_token cfg) (wc_cmm_treasury cfg) = Ok bal \<and> v_out \<le> bal \<and>
     (\<exists>roll roll'. w_rolling s = Some roll \<and>
        window_ensure_limits e roll cfg g = Ok roll' \<and> s' = s\<lparr>w_rolling := Some roll'\<rparr>) \<and>
     json_error a (Cw20Payload (Cw20Burn g)) = None \<and>
     json_error a (TreasuryPayload (InstantWithdrawCw20 user (wc_vfdusd_token cfg) v_out)) = None \<and>
     messages r =
       [WasmExecute (wc_ust1_token cfg) (Cw20Payload (Cw20Burn g)) [],
        WasmExecute (wc_cmm_treasury cfg)
          (TreasuryPayload (InstantWithdrawCw20 user (wc_vfdusd_token cfg) v_out)) []] \<and>
     attributes r =
       [(''action'', ''withdraw''), (''vfdusd_out'', show_nat (unat v_out)),
        (''fee_total_bps'', show_nat (unat (wc_fee_bps cfg))),
        (''fee_chain_tax_bps'', show_nat (unat (wc_fee_bps cfg div 2))),
        (''fee_cmm_protocol_bps'', show_nat (unat (wc_fee_bps cfg - wc_fee_bps cfg div 2))),
        (''fee_amount'', show_nat (unat fee)), (''fee_asset'', wc_ust1_token cfg)]"

lemma response_eq_iff: "r = r' \<longleftrightarrow> messages r = messages r' \<and> attributes r = attributes r'"
  for r r' :: "'p response"
  by (cases r; cases r') simp

lemma deposit_Ok_iff:
  "deposit a q e cfg user x hook s = Ok (s', r) \<longleftrightarrow>
     hook = Deposit \<and> (\<exists>os before out fee. deposit_swap a q e cfg user x s s' r os before out fee)"
  (is "?L \<longleftrightarrow> ?R")
proof
  assume ?L
  then show ?R
    by (auto simp: deposit_def deposit_swap_def chain_simps checked_sub_Ok_iff_le Let_def
        ensure_oracle_usable_Ok_iff with_fee_event_attrs_attributes)
next
  assume ?R
  then obtain os before out fee where h: "hook = Deposit"
    and d: "deposit_swap a q e cfg user x s s' r os before out fee" by blast
  then show ?L
    by (auto simp: deposit_def deposit_swap_def chain_simps checked_sub_Ok_iff_le Let_def
        ensure_oracle_usable_Ok_iff with_fee_event_attrs_attributes response_eq_iff)
qed

lemma withdraw_Ok_iff:
  "withdraw a q e cfg user g hook s = Ok (s', r) \<longleftrightarrow>
     (\<exists>min_out os after v_out fee bal. hook = Withdraw min_out \<and>
        withdraw_swap a q e cfg user g min_out s s' r os after v_out fee bal)"
  (is "?L \<longleftrightarrow> ?R")
proof
  assume ?L
  then show ?R
    by (auto simp: withdraw_def withdraw_swap_def chain_simps checked_sub_Ok_iff_le Let_def
        withdraw_ust1_after_fee_def instant_withdraw_cw20_msg_def not_less
        ensure_oracle_usable_Ok_iff with_fee_event_attrs_attributes split: window_hook_msg.splits)
next
  assume ?R
  then obtain min_out os after v_out fee bal where h: "hook = Withdraw min_out"
    and d: "withdraw_swap a q e cfg user g min_out s s' r os after v_out fee bal" by blast
  then show ?L
    by (auto simp: withdraw_def withdraw_swap_def chain_simps checked_sub_Ok_iff_le Let_def
        withdraw_ust1_after_fee_def instant_withdraw_cw20_msg_def not_less
        ensure_oracle_usable_Ok_iff with_fee_event_attrs_attributes response_eq_iff)
qed

section \<open>Steps\<close>

type_synonym window_call = "(window_querier, window_execute_msg, window_payload) call"

definition window_step ::
  "window_payload api \<Rightarrow> window_from_json \<Rightarrow> window_call \<Rightarrow> window_storage \<Rightarrow> window_storage \<Rightarrow> bool" where
  "window_step a fj c s s' \<longleftrightarrow>
     window_execute a fj (call_querier c) (call_env c) (call_info c) (call_msg c) s =
       Ok (s', call_response c)"

lemma receive_cw20_Ok_iff:
  "receive_cw20 a fj q e info m s = Ok (s', r) \<longleftrightarrow>
     (\<exists>cfg hook user. w_config s = Some cfg \<and> \<not> wc_paused cfg \<and> fj (cw20_msg m) = Ok hook \<and>
        addr_validate a (cw20_sender m) = Ok user \<and>
        (if sender info = wc_vfdusd_token cfg
         then deposit a q e cfg user (cw20_amount m) hook s = Ok (s', r)
         else sender info = wc_ust1_token cfg \<and>
              withdraw a q e cfg user (cw20_amount m) hook s = Ok (s', r)))"
  by (auto simp: receive_cw20_def chain_simps Let_def split: if_splits)

lemma exec_set_limits_Ok_iff:
  "exec_set_limits info p l s = Ok (s', r) \<longleftrightarrow>
     (\<exists>cfg. w_config s = Some cfg \<and> sender info = wc_governance cfg \<and>
        s' = s\<lparr>w_config := Some (cfg\<lparr>wc_per_tx_ust1_limit := p, wc_rolling_24h_ust1_limit := l\<rparr>)\<rparr> \<and>
        r = add_attribute ''action'' ''set_limits'' new_response)"
  by (auto simp: exec_set_limits_def chain_simps)

lemma exec_set_paused_Ok_iff:
  "exec_set_paused info p s = Ok (s', r) \<longleftrightarrow>
     (\<exists>cfg. w_config s = Some cfg \<and> sender info = wc_governance cfg \<and>
        s' = s\<lparr>w_config := Some (cfg\<lparr>wc_paused := p\<rparr>)\<rparr> \<and>
        r = add_attribute ''action'' ''set_paused'' new_response)"
  by (auto simp: exec_set_paused_def chain_simps)

lemma exec_set_fee_bps_Ok:
  "exec_set_fee_bps info f s = Ok (s', r) \<Longrightarrow>
     \<exists>cfg. w_config s = Some cfg \<and> sender info = wc_governance cfg \<and> unat f \<le> 10000 \<and>
        s' = s\<lparr>w_config := Some (cfg\<lparr>wc_fee_bps := f\<rparr>)\<rparr> \<and> messages r = []"
  by (auto simp: exec_set_fee_bps_def chain_simps ucast_fee_le_iff Let_def
      chain_tax_and_cmm_protocol_def)

lemma exec_set_max_oracle_age_Ok_iff:
  "exec_set_max_oracle_age info m s = Ok (s', r) \<longleftrightarrow>
     (\<exists>cfg. w_config s = Some cfg \<and> sender info = wc_governance cfg \<and> 14400 \<le> unat m \<and>
        s' = s\<lparr>w_config := Some (cfg\<lparr>wc_max_oracle_age_sec := m\<rparr>)\<rparr> \<and>
        r = add_attribute ''action'' ''set_max_oracle_age'' new_response)"
  by (auto simp: exec_set_max_oracle_age_def chain_simps validate_max_oracle_age_sec_Ok_iff)

lemma exec_propose_gov_Ok_iff:
  "exec_propose_gov a info addr s = Ok (s', r) \<longleftrightarrow>
     (\<exists>cfg x. w_config s = Some cfg \<and> sender info = wc_governance cfg \<and>
        addr_validate a addr = Ok x \<and> s' = s\<lparr>w_pending_governance := Some \<lparr>new_address = x\<rparr>\<rparr> \<and>
        r = add_attribute ''action'' ''propose_governance'' new_response)"
  by (auto simp: exec_propose_gov_def chain_simps)

lemma exec_accept_gov_Ok_iff:
  "exec_accept_gov info s = Ok (s', r) \<longleftrightarrow>
     (\<exists>cfg p. w_config s = Some cfg \<and> w_pending_governance s = Some p \<and>
        sender info = new_address p \<and>
        s' = s\<lparr>w_config := Some (cfg\<lparr>wc_governance := new_address p\<rparr>),
               w_pending_governance := None\<rparr> \<and>
        r = add_attribute ''action'' ''accept_governance'' new_response)"
  by (auto simp: exec_accept_gov_def chain_simps)

lemmas window_admin_Ok_iffs =
  exec_set_limits_Ok_iff exec_set_paused_Ok_iff exec_set_max_oracle_age_Ok_iff
  exec_propose_gov_Ok_iff exec_accept_gov_Ok_iff

text \<open>The fields of the configuration that no message changes.\<close>

definition same_wiring :: "window_config \<Rightarrow> window_config \<Rightarrow> bool" where
  "same_wiring cfg cfg' \<longleftrightarrow>
     wc_oracle cfg' = wc_oracle cfg \<and> wc_vfdusd_token cfg' = wc_vfdusd_token cfg \<and>
     wc_cmm_treasury cfg' = wc_cmm_treasury cfg \<and> wc_ust1_token cfg' = wc_ust1_token cfg"

text \<open>The amounts a response moves: minted, burned, forwarded to and pulled from the treasury.\<close>

fun msg_minted :: "window_payload cosmos_msg \<Rightarrow> nat" where
  "msg_minted (WasmExecute _ (Cw20Payload (Cw20Mint _ n)) _) = unat n"
| "msg_minted _ = 0"

fun msg_burned :: "window_payload cosmos_msg \<Rightarrow> nat" where
  "msg_burned (WasmExecute _ (Cw20Payload (Cw20Burn n)) _) = unat n"
| "msg_burned _ = 0"

fun msg_forwarded :: "window_payload cosmos_msg \<Rightarrow> nat" where
  "msg_forwarded (WasmExecute _ (Cw20Payload (Cw20Transfer _ n)) _) = unat n"
| "msg_forwarded _ = 0"

fun msg_pulled :: "window_payload cosmos_msg \<Rightarrow> nat" where
  "msg_pulled (WasmExecute _ (TreasuryPayload (InstantWithdrawCw20 _ _ n)) _) = unat n"
| "msg_pulled _ = 0"

definition call_total :: "(window_payload cosmos_msg \<Rightarrow> nat) \<Rightarrow> window_call \<Rightarrow> nat" where
  "call_total f c = sum_list (map f (messages (call_response c)))"

abbreviation minted where "minted \<equiv> call_total msg_minted"
abbreviation burned where "burned \<equiv> call_total msg_burned"
abbreviation forwarded where "forwarded \<equiv> call_total msg_forwarded"
abbreviation pulled where "pulled \<equiv> call_total msg_pulled"

lemma window_step_cases:
  assumes "window_step a fj c s s'"
  obtains
    (deposit) cfg m user os before out fee where
      "call_msg c = Receive m" "w_config s = Some cfg" "\<not> wc_paused cfg" "w_config s' = Some cfg"
      "w_pending_governance s' = w_pending_governance s"
      "call_sender c = wc_vfdusd_token cfg"
      "deposit_swap a (call_querier c) (call_env c) cfg user (cw20_amount m) s s'
         (call_response c) os before out fee"
  | (withdraw) cfg m user min_out os after v_out fee bal where
      "call_msg c = Receive m" "w_config s = Some cfg" "\<not> wc_paused cfg" "w_config s' = Some cfg"
      "w_pending_governance s' = w_pending_governance s"
      "call_sender c = wc_ust1_token cfg"
      "withdraw_swap a (call_querier c) (call_env c) cfg user (cw20_amount m) min_out s s'
         (call_response c) os after v_out fee bal"
  | (admin) cfg cfg' where "\<forall>m. call_msg c \<noteq> Receive m" "w_config s = Some cfg"
      "w_config s' = Some cfg'" "same_wiring cfg cfg'" "w_rolling s' = w_rolling s"
      "messages (call_response c) = []"
      "unat (wc_fee_bps cfg) \<le> 10000 \<Longrightarrow> unat (wc_fee_bps cfg') \<le> 10000"
      "14400 \<le> unat (wc_max_oracle_age_sec cfg) \<Longrightarrow> 14400 \<le> unat (wc_max_oracle_age_sec cfg')"
      "(\<forall>p l. call_msg c \<noteq> SetLimits p l) \<Longrightarrow>
         wc_per_tx_ust1_limit cfg' = wc_per_tx_ust1_limit cfg \<and>
         wc_rolling_24h_ust1_limit cfg' = wc_rolling_24h_ust1_limit cfg"
proof (cases "call_msg c")
  case (Receive m)
  with assms have "receive_cw20 a fj (call_querier c) (call_env c) (call_info c) m s =
      Ok (s', call_response c)"
    by (simp add: window_step_def window_execute_def)
  then obtain cfg hook user where r: "w_config s = Some cfg" "\<not> wc_paused cfg"
    "if call_sender c = wc_vfdusd_token cfg
     then deposit a (call_querier c) (call_env c) cfg user (cw20_amount m) hook s =
            Ok (s', call_response c)
     else call_sender c = wc_ust1_token cfg \<and>
          withdraw a (call_querier c) (call_env c) cfg user (cw20_amount m) hook s =
            Ok (s', call_response c)"
    unfolding receive_cw20_Ok_iff call_sender_def by blast
  show ?thesis
  proof (cases "call_sender c = wc_vfdusd_token cfg")
    case True
    with r(3) obtain os before out fee where d:
      "deposit_swap a (call_querier c) (call_env c) cfg user (cw20_amount m) s s'
         (call_response c) os before out fee"
      by (auto simp: deposit_Ok_iff)
    then have "w_config s' = w_config s" "w_pending_governance s' = w_pending_governance s"
      by (auto simp: deposit_swap_def)
    with Receive r True d deposit show ?thesis by metis
  next
    case False
    with r(3) obtain min_out os after v_out fee bal where d:
      "withdraw_swap a (call_querier c) (call_env c) cfg user (cw20_amount m) min_out s s'
         (call_response c) os after v_out fee bal"
      by (auto simp: withdraw_Ok_iff)
    then have "w_config s' = w_config s" "w_pending_governance s' = w_pending_governance s"
      by (auto simp: withdraw_swap_def)
    with Receive r False d withdraw show ?thesis by metis
  qed
qed (use assms admin in \<open>auto simp: window_step_def window_execute_def window_admin_Ok_iffs
      same_wiring_def dest!: exec_set_fee_bps_Ok\<close>)

lemma deposit_swap_totals:
  assumes "deposit_swap a q e cfg user x s s' (call_response c) os before out fee"
  shows "minted c = unat out" "burned c = 0" "forwarded c = unat x" "pulled c = 0"
  using assms by (simp_all add: deposit_swap_def call_total_def)

lemma withdraw_swap_totals:
  assumes "withdraw_swap a q e cfg user g m s s' (call_response c) os after v fee bal"
  shows "minted c = 0" "burned c = unat g" "forwarded c = 0" "pulled c = unat v"
  using assms by (simp_all add: withdraw_swap_def call_total_def)

lemma no_messages_totals: "messages (call_response c) = [] \<Longrightarrow> call_total f c = 0"
  by (simp add: call_total_def)

section \<open>The invariant of the storages\<close>

definition rolling_ok :: "rolling_volume \<Rightarrow> bool" where
  "rolling_ok r \<longleftrightarrow> unat (rv_window_start_sec r) \<le> 18446744073"

definition window_config_ok :: "window_config \<Rightarrow> bool" where
  "window_config_ok cfg \<longleftrightarrow>
     unat (wc_fee_bps cfg) \<le> 10000 \<and> 14400 \<le> unat (wc_max_oracle_age_sec cfg)"

definition window_inv :: "window_storage \<Rightarrow> bool" where
  "window_inv s \<longleftrightarrow>
     (case w_config s of None \<Rightarrow> False | Some cfg \<Rightarrow> window_config_ok cfg) \<and>
     (case w_rolling s of None \<Rightarrow> False | Some r \<Rightarrow> rolling_ok r)"

lemma window_invE:
  assumes "window_inv s"
  obtains cfg r where "w_config s = Some cfg" "w_rolling s = Some r" "window_config_ok cfg"
    "rolling_ok r"
  using assms by (auto simp: window_inv_def split: option.splits)

lemma window_ensure_limits_rolling_ok:
  "window_ensure_limits e r cfg n = Ok r' \<Longrightarrow> rolling_ok r \<Longrightarrow> rolling_ok r'"
  using passes_limits_start_bound
  by (auto simp: window_ensure_limits_Ok_iff window_limits_pass_def rolling_ok_def)

lemma window_step_inv:
  assumes "window_step a fj c s s'" and "window_inv s"
  shows "window_inv s'"
  using assms(1)
proof (cases rule: window_step_cases)
  case (deposit cfg m user os before out fee)
  with assms(2) show ?thesis
    by (auto simp: window_inv_def deposit_swap_def dest: window_ensure_limits_rolling_ok)
next
  case (withdraw cfg m user min_out os after v_out fee bal)
  with assms(2) show ?thesis
    by (auto simp: window_inv_def withdraw_swap_def dest: window_ensure_limits_rolling_ok)
next
  case (admin cfg cfg')
  with assms(2) show ?thesis
    by (simp add: window_inv_def window_config_ok_def)
qed

lemma window_run_inv: "run (window_step a fj) s es s' \<Longrightarrow> window_inv s \<Longrightarrow> window_inv s'"
  using run_invariant[where I = window_inv] window_step_inv by metis

lemma window_instantiate_Ok:
  assumes "window_instantiate a q v e info m s = Ok (s', r)"
  shows "\<exists>cfg. w_config s' = Some cfg \<and> window_config_ok cfg \<and> \<not> wc_paused cfg \<and>
    w_rolling s' = Some \<lparr>rv_window_start_sec = 0, rv_volume_ust1 = 0\<rparr> \<and>
    w_pending_governance s' = w_pending_governance s \<and>
    w_contract_info s' = Some (WINDOW_CONTRACT_NAME, v) \<and>
    wc_fee_bps cfg = wi_fee_bps m \<and>
    addr_validate a (wi_governance m) = Ok (wc_governance cfg) \<and>
    addr_validate a (wi_oracle m) = Ok (wc_oracle cfg) \<and>
    addr_validate a (wi_vfdusd_token m) = Ok (wc_vfdusd_token cfg) \<and>
    addr_validate a (cmm_treasury_raw m) = Ok (wc_cmm_treasury cfg) \<and>
    addr_validate a (wi_ust1_token m) = Ok (wc_ust1_token cfg) \<and>
    validate_token_decimals q (wc_vfdusd_token cfg) (wc_ust1_token cfg) = Ok ()"
  using assms
  by (auto simp: window_instantiate_def window_set_contract_version_def Let_def chain_simps
      window_config_ok_def validate_max_oracle_age_sec_Ok_iff ucast_fee_le_iff not_less)

lemma window_instantiate_inv:
  "window_instantiate a q v e info m s = Ok (s', r) \<Longrightarrow> window_inv s'"
  by (drule window_instantiate_Ok) (auto simp: window_inv_def rolling_ok_def)

lemma window_migrate_Ok:
  "window_migrate q v s = Ok (s', r) \<Longrightarrow> s' = window_set_contract_version v s"
  by (auto simp: window_migrate_def Let_def chain_simps)

lemma window_migrate_inv: "window_migrate q v s = Ok (s', r) \<Longrightarrow> window_inv s \<Longrightarrow> window_inv s'"
  by (drule window_migrate_Ok) (simp add: window_inv_def window_set_contract_version_def)

section \<open>Absence of aborts\<close>

text \<open>The host's own functions return a value or an error; none of them aborts the call.\<close>

definition host_total ::
  "window_payload api \<Rightarrow> window_from_json \<Rightarrow> window_querier \<Rightarrow> bool" where
  "host_total a fj q \<longleftrightarrow>
     (\<forall>x. addr_validate a x \<noteq> Panicked) \<and> (\<forall>b. fj b \<noteq> Panicked) \<and>
     (\<forall>x. wq_oracle_state q x \<noteq> Panicked) \<and> (\<forall>t h. wq_cw20_balance q t h \<noteq> Panicked)"

lemma window_ensure_limits_no_panic: "rolling_ok r \<Longrightarrow> window_ensure_limits e r cfg n \<noteq> Panicked"
  by (auto simp: window_ensure_limits_Panic_iff rolling_ok_def)

lemma ensure_oracle_usable_no_panic [simp]: "ensure_oracle_usable e os m \<noteq> Panicked"
  by (simp add: ensure_oracle_usable_def Let_def)

lemma query_oracle_state_no_panic:
  "host_total a fj q \<Longrightarrow> query_oracle_state q x \<noteq> Panicked"
  by (simp add: query_oracle_state_def host_total_def panic_simps)

lemma deposit_no_panic:
  assumes "host_total a fj q" and "window_inv s"
  shows "deposit a q e cfg user x hook s \<noteq> Panicked"
proof -
  from assms(2) obtain r where r: "w_rolling s = Some r" "rolling_ok r"
    by (rule window_invE)
  show ?thesis
    by (auto simp: deposit_def panic_simps Let_def r query_oracle_state_no_panic[OF assms(1)]
        window_ensure_limits_no_panic)
qed

lemma withdraw_no_panic:
  assumes "host_total a fj q" and "window_inv s"
  shows "withdraw a q e cfg user x hook s \<noteq> Panicked"
proof -
  from assms(2) obtain r where r: "w_rolling s = Some r" "rolling_ok r"
    by (rule window_invE)
  from assms(1) have b: "query_cw20_balance q t h \<noteq> Panicked" for t h
    by (simp add: host_total_def query_cw20_balance_def)
  show ?thesis
    by (cases hook) (auto simp: withdraw_def panic_simps Let_def r b
        query_oracle_state_no_panic[OF assms(1)] window_ensure_limits_no_panic
        instant_withdraw_cw20_msg_def withdraw_ust1_after_fee_def)
qed

lemma window_execute_no_panic:
  assumes "host_total a fj q" and "window_inv s"
  shows "window_execute a fj q e info m s \<noteq> Panicked"
proof (cases m)
  case (Receive x)
  from assms(1) have "addr_validate a y \<noteq> Panicked" "fj b \<noteq> Panicked" for y b
    by (simp_all add: host_total_def)
  then show ?thesis
    by (auto simp: Receive window_execute_def receive_cw20_def panic_simps Let_def
        deposit_no_panic[OF assms] withdraw_no_panic[OF assms])
next
  case (ProposeGovernance x)
  with assms(1) show ?thesis
    by (auto simp: window_execute_def exec_propose_gov_def panic_simps host_total_def)
qed (auto simp: window_execute_def exec_set_limits_def exec_set_paused_def exec_set_fee_bps_def
    exec_set_max_oracle_age_def exec_accept_gov_def validate_max_oracle_age_sec_def Let_def
    chain_tax_and_cmm_protocol_def panic_simps)

section \<open>Wiring and limits over runs\<close>

text \<open>The oracle, the tokens and the treasury stay those of the instantiation.\<close>

lemma same_wiring_refl: "same_wiring cfg cfg"
  by (simp add: same_wiring_def)

lemma window_step_same_wiring:
  assumes "window_step a fj c s s'" and "w_config s = Some cfg"
  shows "\<exists>cfg'. w_config s' = Some cfg' \<and> same_wiring cfg cfg'"
  using assms(1) by (cases rule: window_step_cases) (use assms(2) same_wiring_refl in auto)

lemma window_run_same_wiring:
  assumes "run (window_step a fj) s es s'" and "w_config s = Some cfg"
  shows "\<exists>cfg'. w_config s' = Some cfg' \<and> same_wiring cfg cfg'"
  using assms(1)
proof (rule run_invariant)
  show "\<exists>cfg'. w_config s = Some cfg' \<and> same_wiring cfg cfg'"
    using assms(2) same_wiring_refl by blast
  fix c t t'
  assume "window_step a fj c t t'" "\<exists>cfg'. w_config t = Some cfg' \<and> same_wiring cfg cfg'"
  then show "\<exists>cfg'. w_config t' = Some cfg' \<and> same_wiring cfg cfg'"
    using window_step_same_wiring unfolding same_wiring_def by metis
qed

definition window_start :: "window_storage \<Rightarrow> nat" where
  "window_start s = (case w_rolling s of None \<Rightarrow> 0 | Some r \<Rightarrow> unat (rv_window_start_sec r))"

definition window_volume :: "window_storage \<Rightarrow> nat" where
  "window_volume s = (case w_rolling s of None \<Rightarrow> 0 | Some r \<Rightarrow> unat (rv_volume_ust1 r))"

definition window_per_tx :: "window_storage \<Rightarrow> nat" where
  "window_per_tx s =
     (case w_config s of None \<Rightarrow> 0 | Some cfg \<Rightarrow> unat (wc_per_tx_ust1_limit cfg))"

definition window_cap :: "window_storage \<Rightarrow> nat" where
  "window_cap s =
     (case w_config s of None \<Rightarrow> 0 | Some cfg \<Rightarrow> unat (wc_rolling_24h_ust1_limit cfg))"

definition window_spent :: "window_call \<Rightarrow> nat" where
  "window_spent c = minted c + burned c"

definition window_sets_limits :: "window_call \<Rightarrow> bool" where
  "window_sets_limits c \<longleftrightarrow> (\<exists>p l. call_msg c = SetLimits p l)"

lemmas window_views =
  window_start_def window_volume_def window_per_tx_def window_cap_def call_time_def

text \<open>What passing the limits means for the counters of a storage.\<close>

lemma limits_passed_views:
  assumes "w_config s = Some cfg" and "w_rolling s = Some r"
    and "window_ensure_limits (call_env c) r cfg n = Ok r'" and "s' = s\<lparr>w_rolling := Some r'\<rparr>"
  shows "unat n \<le> window_per_tx s"
    and "(window_start s \<noteq> 0 \<and> call_time c < window_start s + 86400 \<and>
          window_start s' = window_start s \<and> window_volume s' = window_volume s + unat n \<and>
          window_volume s' \<le> window_cap s) \<or>
         ((window_start s = 0 \<or> window_start s + 86400 \<le> call_time c) \<and>
          window_start s' = call_time c \<and> window_volume s' = unat n \<and> unat n \<le> window_cap s)"
    and "window_cap s' = window_cap s" "window_per_tx s' = window_per_tx s"
proof -
  note p = passes_limits_window[OF assms(3)[unfolded window_ensure_limits_Ok_iff
      window_limits_pass_def]]
  show "unat n \<le> window_per_tx s"
    using p(1) assms(1) by (simp add: window_per_tx_def)
  show "(window_start s \<noteq> 0 \<and> call_time c < window_start s + 86400 \<and>
          window_start s' = window_start s \<and> window_volume s' = window_volume s + unat n \<and>
          window_volume s' \<le> window_cap s) \<or>
         ((window_start s = 0 \<or> window_start s + 86400 \<le> call_time c) \<and>
          window_start s' = call_time c \<and> window_volume s' = unat n \<and> unat n \<le> window_cap s)"
    using p(2) assms(1,2,4) by (simp add: window_start_def window_volume_def window_cap_def)
  show "window_cap s' = window_cap s" "window_per_tx s' = window_per_tx s"
    using assms(4) by (simp_all add: window_cap_def window_per_tx_def)
qed

text \<open>A step either passes one amount through the limits, or leaves the counter alone.\<close>

lemma window_step_volume_cases:
  assumes "window_step a fj c s s'"
  obtains
    (passed) cfg r r' n where "w_config s = Some cfg" "w_rolling s = Some r" "window_spent c = unat n"
      "window_ensure_limits (call_env c) r cfg n = Ok r'" "s' = s\<lparr>w_rolling := Some r'\<rparr>"
  | (idle) cfg cfg' where "w_config s = Some cfg" "w_config s' = Some cfg'"
      "w_rolling s' = w_rolling s" "window_spent c = 0"
      "\<not> window_sets_limits c \<Longrightarrow> wc_per_tx_ust1_limit cfg' = wc_per_tx_ust1_limit cfg \<and>
         wc_rolling_24h_ust1_limit cfg' = wc_rolling_24h_ust1_limit cfg"
  using assms
proof (cases rule: window_step_cases)
  case (deposit cfg m user os before out fee)
  then obtain r r' where "w_rolling s = Some r" "window_ensure_limits (call_env c) r cfg out = Ok r'"
    "s' = s\<lparr>w_rolling := Some r'\<rparr>" by (auto simp: deposit_swap_def)
  with deposit passed deposit_swap_totals[OF deposit(7)] show thesis
    by (simp add: window_spent_def)
next
  case (withdraw cfg m user min_out os after v_out fee bal)
  then obtain r r' where "w_rolling s = Some r"
    "window_ensure_limits (call_env c) r cfg (cw20_amount m) = Ok r'"
    "s' = s\<lparr>w_rolling := Some r'\<rparr>" by (auto simp: withdraw_swap_def)
  with withdraw passed withdraw_swap_totals[OF withdraw(7)] show thesis
    by (simp add: window_spent_def)
next
  case (admin cfg cfg')
  with idle show thesis
    by (simp add: window_spent_def no_messages_totals window_sets_limits_def)
qed

interpretation window_limits: rolling_limited
  "window_step a fj" call_time window_spent window_sets_limits
  window_start window_volume window_per_tx window_cap
  for a fj
proof unfold_locales
  fix c s s'
  assume st: "window_step a fj c s s'"
  note passed = window_step_volume_cases[OF st]
  show "window_spent c \<le> window_per_tx s"
    by (rule passed) (metis limits_passed_views(1), simp)
  show "window_spent c = 0 \<and> window_start s' = window_start s \<and>
      window_volume s' = window_volume s \<or>
      window_start s \<noteq> 0 \<and> call_time c < window_start s + 86400 \<and>
      window_start s' = window_start s \<and> window_volume s' = window_volume s + window_spent c \<and>
      window_volume s' \<le> window_cap s \<or>
      (window_start s = 0 \<or> window_start s + 86400 \<le> call_time c) \<and>
      window_start s' = call_time c \<and> window_volume s' = window_spent c \<and>
      window_spent c \<le> window_cap s"
  proof (rule passed)
    fix cfg r r' n
    assume p: "w_config s = Some cfg" "w_rolling s = Some r" "window_spent c = unat n"
      "window_ensure_limits (call_env c) r cfg n = Ok r'" "s' = s\<lparr>w_rolling := Some r'\<rparr>"
    show ?thesis
      unfolding p(3) using limits_passed_views(2)[OF p(1,2,4,5)] by blast
  qed (simp add: window_start_def window_volume_def)
  show "window_cap s' = window_cap s \<and> window_per_tx s' = window_per_tx s"
    if "\<not> window_sets_limits c"
    by (rule passed) (use that limits_passed_views(3,4) in \<open>auto simp: window_cap_def window_per_tx_def\<close>)
qed

section \<open>Governance\<close>

definition window_gov :: "window_storage \<Rightarrow> addr option" where
  "window_gov s = map_option wc_governance (w_config s)"

definition window_pend :: "window_storage \<Rightarrow> addr option" where
  "window_pend s = map_option new_address (w_pending_governance s)"

definition window_nominee :: "window_payload api \<Rightarrow> window_call \<Rightarrow> addr option" where
  "window_nominee a c = (case call_msg c of
       ProposeGovernance address \<Rightarrow>
         (case addr_validate a address of Inr x \<Rightarrow> Some x | Inl _ \<Rightarrow> None)
     | _ \<Rightarrow> None)"

definition window_accepts :: "window_call \<Rightarrow> bool" where
  "window_accepts c \<longleftrightarrow> call_msg c = AcceptGovernance"

lemmas window_gov_views = window_gov_def window_pend_def window_nominee_def window_accepts_def

lemma receive_keeps_governance:
  "window_step a fj c s s' \<Longrightarrow> call_msg c = Receive m \<Longrightarrow>
   window_gov s' = window_gov s \<and> window_pend s' = window_pend s"
  by (erule window_step_cases) (auto simp: window_gov_views)

interpretation window_handover: two_step_governance
  "window_step a fj" window_gov window_pend call_sender "window_nominee a" window_accepts
  for a fj
proof unfold_locales
  fix c s s'
  assume st: "window_step a fj c s s'"
  show "window_gov s' = window_gov s \<or> (window_accepts c \<and>
      window_pend s = Some (call_sender c) \<and> window_gov s' = Some (call_sender c))"
    using st receive_keeps_governance[OF st]
    by (cases "call_msg c") (auto simp: window_step_def window_execute_def window_admin_Ok_iffs
        window_gov_views call_sender_def dest!: exec_set_fee_bps_Ok)
  show "window_pend s' = window_pend s \<or> window_pend s' = None \<or>
      (window_nominee a c \<noteq> None \<and> window_pend s' = window_nominee a c \<and>
       window_gov s = Some (call_sender c))"
    using st receive_keeps_governance[OF st]
    by (cases "call_msg c") (auto simp: window_step_def window_execute_def window_admin_Ok_iffs
        window_gov_views call_sender_def dest!: exec_set_fee_bps_Ok)
qed

text \<open>Only the governance of the storage changes the configuration, the nominee apart.\<close>

lemma window_admin_sender:
  assumes "window_step a fj c s s'" and "\<forall>m. call_msg c \<noteq> Receive m"
    and "call_msg c \<noteq> AcceptGovernance"
  shows "window_gov s = Some (call_sender c)"
  using assms
  by (cases "call_msg c") (auto simp: window_step_def window_execute_def window_admin_Ok_iffs
      window_gov_views call_sender_def dest!: exec_set_fee_bps_Ok)

section \<open>Failing closed\<close>

lemma window_receive_paused:
  "w_config s = Some cfg \<Longrightarrow> wc_paused cfg \<Longrightarrow> receive_cw20 a fj q e info m s = Err Paused"
  by (simp add: receive_cw20_def)

text \<open>
  A swap that goes through shows an unpaused window and a usable oracle answer, whichever
  direction it has.
\<close>

definition is_receive :: "window_call \<Rightarrow> bool" where
  "is_receive c \<longleftrightarrow> (\<exists>m. call_msg c = Receive m)"

lemma swap_needs_usable_oracle:
  assumes "window_step a fj c s s'" and "is_receive c"
  shows "\<exists>cfg os. w_config s = Some cfg \<and> \<not> wc_paused cfg \<and>
    query_oracle_state (call_querier c) (wc_oracle cfg) = Ok os \<and>
    oracle_usable (call_env c) os (wc_max_oracle_age_sec cfg)"
  using assms(1)
  by (cases rule: window_step_cases)
    (use assms(2) in \<open>auto simp: deposit_swap_def withdraw_swap_def is_receive_def\<close>)

section \<open>From calls to swaps\<close>

lemma deposit_call_swap:
  assumes "window_step a fj c s s'" and "call_msg c = Receive m" and "w_config s = Some cfg"
    and "call_sender c = wc_vfdusd_token cfg"
  shows "\<exists>user os before out fee. \<not> wc_paused cfg \<and> addr_validate a (cw20_sender m) = Ok user \<and>
     deposit_swap a (call_querier c) (call_env c) cfg user (cw20_amount m) s s' (call_response c)
       os before out fee"
proof -
  from assms have "receive_cw20 a fj (call_querier c) (call_env c) (call_info c) m s =
      Ok (s', call_response c)"
    by (simp add: window_step_def window_execute_def)
  with assms(3,4) show ?thesis
    unfolding receive_cw20_Ok_iff call_sender_def by (auto simp: deposit_Ok_iff) blast
qed

lemma withdraw_call_swap:
  assumes "window_step a fj c s s'" and "call_msg c = Receive m" and "w_config s = Some cfg"
    and "call_sender c \<noteq> wc_vfdusd_token cfg"
  shows "\<exists>user min_out os after v fee bal. call_sender c = wc_ust1_token cfg \<and> \<not> wc_paused cfg \<and>
     addr_validate a (cw20_sender m) = Ok user \<and> fj (cw20_msg m) = Ok (Withdraw min_out) \<and>
     withdraw_swap a (call_querier c) (call_env c) cfg user (cw20_amount m) min_out s s'
       (call_response c) os after v fee bal"
proof -
  from assms have "receive_cw20 a fj (call_querier c) (call_env c) (call_info c) m s =
      Ok (s', call_response c)"
    by (simp add: window_step_def window_execute_def)
  with assms(3,4) show ?thesis
    unfolding receive_cw20_Ok_iff call_sender_def by (auto simp: withdraw_Ok_iff) blast
qed

end
