(* ===== verification/Swap_Economics.thy ===== *)
theory Swap_Economics
  imports Swap_Math
begin

text \<open>
  What the swap arithmetic means in money: rounding always favours the protocol, round trips
  and splits never pay, the error of the integer division is less than two units, and the
  fee split adds up.
\<close>

section \<open>Rounding\<close>

lemma div_mult_le: "n div m * m \<le> n" for n m :: nat
  by simp

lemma less_Suc_div_mult: "0 < m \<Longrightarrow> n < (n div m + 1) * m" for n m :: nat
  by (metis Suc_eq_plus1 dividend_less_div_times mult.commute mult_Suc)

text \<open>A deposit mints at most the value of what it takes.\<close>

lemma before_fee_value:
  "vfdusd_to_ust1_before_fee x R = Ok b \<Longrightarrow> unat b * 10 ^ 18 \<le> unat x * unat R"
  using div_mult_le[of "unat x * unat R" "10 ^ 18"]
  by (simp only: vfdusd_to_ust1_before_fee_Ok_iff)

lemma after_fee_value:
  "apply_fee_ust1 a f = Ok r \<Longrightarrow> unat r * 10000 \<le> unat a * (10000 - unat f)"
  using div_mult_le[of "unat a * (10000 - unat f)" 10000]
  by (simp only: apply_fee_ust1_Ok_iff)

lemma to_vfdusd_value:
  "ust1_after_fee_to_vfdusd u R = Ok v \<Longrightarrow> unat v * unat R \<le> unat u * 10 ^ 18"
  using div_mult_le[of "unat u * 10 ^ 18" "unat R"]
  by (simp only: ust1_after_fee_to_vfdusd_Ok_iff)

lemma deposit_value:
  assumes "deposit_vfdusd_to_ust1 x R f = Ok out"
  shows "unat out * 10 ^ 18 \<le> unat x * unat R"
proof -
  from assms obtain b where b: "vfdusd_to_ust1_before_fee x R = Ok b" "apply_fee_ust1 b f = Ok out"
    by (auto simp: deposit_vfdusd_to_ust1_def and_then_Ok_iff)
  have "unat out * 10 ^ 18 \<le> unat b * 10 ^ 18"
    using apply_fee_ust1_le[OF b(2)] by (simp add: word_le_nat_alt)
  also have "\<dots> \<le> unat x * unat R" by (rule before_fee_value[OF b(1)])
  finally show ?thesis .
qed

text \<open>A withdrawal pays at most the value of what it burns.\<close>

lemma withdraw_value:
  assumes "withdraw_gross_ust1_to_vfdusd g R f = Ok v"
  shows "unat v * unat R \<le> unat g * 10 ^ 18"
proof -
  from assms obtain u where u: "apply_fee_ust1 g f = Ok u" "ust1_after_fee_to_vfdusd u R = Ok v"
    by (auto simp: withdraw_gross_ust1_to_vfdusd_def withdraw_ust1_after_fee_def and_then_Ok_iff)
  have "unat v * unat R \<le> unat u * 10 ^ 18" by (rule to_vfdusd_value[OF u(2)])
  also have "\<dots> \<le> unat g * 10 ^ 18"
    using apply_fee_ust1_le[OF u(1)] by (simp add: word_le_nat_alt)
  finally show ?thesis .
qed

section \<open>Round trips\<close>

lemma deposit_then_withdraw_le:
  assumes "deposit_vfdusd_to_ust1 x R f = Ok out"
    and "withdraw_gross_ust1_to_vfdusd g R' f' = Ok v" and "g \<le> out" and "R \<le> R'" and "0 < R'"
  shows "v \<le> x"
proof -
  have "unat v * unat R' \<le> unat g * 10 ^ 18" by (rule withdraw_value[OF assms(2)])
  also have "\<dots> \<le> unat out * 10 ^ 18" using assms(3) by (simp add: word_le_nat_alt)
  also have "\<dots> \<le> unat x * unat R" by (rule deposit_value[OF assms(1)])
  also have "\<dots> \<le> unat x * unat R'" using assms(4) by (simp add: word_le_nat_alt)
  finally show ?thesis using assms(5) by (simp add: word_le_nat_alt word_less_nat_alt)
qed

lemma withdraw_then_deposit_le:
  assumes "withdraw_gross_ust1_to_vfdusd g R f = Ok v" and "deposit_vfdusd_to_ust1 v R' f' = Ok out"
    and "R' \<le> R"
  shows "out \<le> g"
proof -
  have "unat out * 10 ^ 18 \<le> unat v * unat R'" by (rule deposit_value[OF assms(2)])
  also have "\<dots> \<le> unat v * unat R" using assms(3) by (simp add: word_le_nat_alt)
  also have "\<dots> \<le> unat g * 10 ^ 18" by (rule withdraw_value[OF assms(1)])
  finally show ?thesis by (simp add: word_le_nat_alt)
qed

section \<open>Amounts: monotone and superadditive\<close>

definition deposit_amount :: "nat \<Rightarrow> nat \<Rightarrow> nat \<Rightarrow> nat" where
  "deposit_amount x R f = x * R div 10 ^ 18 * (10000 - f) div 10000"

definition withdraw_amount :: "nat \<Rightarrow> nat \<Rightarrow> nat \<Rightarrow> nat" where
  "withdraw_amount g R f = g * (10000 - f) div 10000 * 10 ^ 18 div R"

lemma deposit_vfdusd_to_ust1_Ok_iff:
  "deposit_vfdusd_to_ust1 x R f = Ok out \<longleftrightarrow>
     unat x * unat R div 10 ^ 18 < 2 ^ 128 \<and> unat f \<le> 10000 \<and>
     unat x * unat R div 10 ^ 18 * (10000 - unat f) < 2 ^ 128 \<and>
     unat out = deposit_amount (unat x) (unat R) (unat f)"
  (is "?L \<longleftrightarrow> ?R")
proof
  assume ?L
  then obtain b where "vfdusd_to_ust1_before_fee x R = Ok b" "apply_fee_ust1 b f = Ok out"
    by (auto simp: deposit_vfdusd_to_ust1_def and_then_Ok_iff)
  then show ?R
    unfolding vfdusd_to_ust1_before_fee_Ok_iff apply_fee_ust1_Ok_iff deposit_amount_def by simp
next
  assume r: ?R
  then have "unat (of_nat (unat x * unat R div 10 ^ 18) :: u128) = unat x * unat R div 10 ^ 18"
    by (subst unsigned_of_nat) (simp add: take_bit_nat_eq_self)
  with r have "vfdusd_to_ust1_before_fee x R = Ok (of_nat (unat x * unat R div 10 ^ 18))"
    "apply_fee_ust1 (of_nat (unat x * unat R div 10 ^ 18)) f = Ok out"
    unfolding vfdusd_to_ust1_before_fee_Ok_iff apply_fee_ust1_Ok_iff deposit_amount_def by simp_all
  then show ?L by (simp only: deposit_vfdusd_to_ust1_def and_then_simps)
qed

lemma withdraw_gross_ust1_to_vfdusd_Ok_iff:
  "withdraw_gross_ust1_to_vfdusd g R f = Ok v \<longleftrightarrow>
     unat f \<le> 10000 \<and> unat g * (10000 - unat f) < 2 ^ 128 \<and> 0 < unat R \<and>
     withdraw_amount (unat g) (unat R) (unat f) < 2 ^ 128 \<and>
     unat v = withdraw_amount (unat g) (unat R) (unat f)"
  (is "?L \<longleftrightarrow> ?R")
proof
  assume ?L
  then obtain u where "apply_fee_ust1 g f = Ok u" "ust1_after_fee_to_vfdusd u R = Ok v"
    by (auto simp: withdraw_gross_ust1_to_vfdusd_def withdraw_ust1_after_fee_def and_then_Ok_iff)
  then show ?R
    unfolding ust1_after_fee_to_vfdusd_Ok_iff apply_fee_ust1_Ok_iff withdraw_amount_def by simp
next
  assume r: ?R
  define k where "k = unat g * (10000 - unat f) div 10000"
  have "k < 2 ^ 128" using r div_less_pow unfolding k_def by blast
  then have k: "unat (of_nat k :: u128) = k"
    by (simp add: unsigned_of_nat take_bit_nat_eq_self)
  from r have "apply_fee_ust1 g f = Ok (of_nat k)" "ust1_after_fee_to_vfdusd (of_nat k) R = Ok v"
    unfolding ust1_after_fee_to_vfdusd_Ok_iff apply_fee_ust1_Ok_iff withdraw_amount_def k
    by (simp_all add: k_def)
  then show ?L
    by (simp only: withdraw_gross_ust1_to_vfdusd_def withdraw_ust1_after_fee_def and_then_simps)
qed

lemma deposit_amount_eq:
  "deposit_vfdusd_to_ust1 x R f = Ok out \<Longrightarrow>
   unat out = deposit_amount (unat x) (unat R) (unat f)"
  by (simp only: deposit_vfdusd_to_ust1_Ok_iff)

lemma withdraw_amount_eq:
  "withdraw_gross_ust1_to_vfdusd g R f = Ok v \<Longrightarrow>
   unat v = withdraw_amount (unat g) (unat R) (unat f)"
  by (simp only: withdraw_gross_ust1_to_vfdusd_Ok_iff)

lemma div_superadd: "a div m + b div m \<le> (a + b) div m" for a b m :: nat
  by (cases "m = 0") (simp_all add: less_eq_div_iff_mult_less_eq add_mult_distrib add_mono)

lemma deposit_amount_superadd:
  "deposit_amount x R f + deposit_amount y R f \<le> deposit_amount (x + y) R f"
proof -
  let ?d = "\<lambda>z. z * R div 10 ^ 18"
  have "deposit_amount x R f + deposit_amount y R f \<le> (?d x + ?d y) * (10000 - f) div 10000"
    unfolding deposit_amount_def add_mult_distrib by (rule div_superadd)
  also have "\<dots> \<le> ?d (x + y) * (10000 - f) div 10000"
    unfolding add_mult_distrib[of x y R]
    by (intro div_le_mono mult_le_mono1 div_superadd)
  finally show ?thesis by (simp add: deposit_amount_def)
qed

lemma withdraw_amount_superadd:
  "withdraw_amount x R f + withdraw_amount y R f \<le> withdraw_amount (x + y) R f"
proof -
  let ?d = "\<lambda>z. z * (10000 - f) div 10000"
  have "withdraw_amount x R f + withdraw_amount y R f \<le> (?d x + ?d y) * 10 ^ 18 div R"
    unfolding withdraw_amount_def add_mult_distrib by (rule div_superadd)
  also have "\<dots> \<le> ?d (x + y) * 10 ^ 18 div R"
    unfolding add_mult_distrib[of x y "10000 - f"]
    by (intro div_le_mono mult_le_mono1 div_superadd)
  finally show ?thesis by (simp add: withdraw_amount_def)
qed

lemma deposit_amount_mono:
  "x \<le> y \<Longrightarrow> R \<le> R' \<Longrightarrow> f' \<le> f \<Longrightarrow> deposit_amount x R f \<le> deposit_amount y R' f'"
  unfolding deposit_amount_def by (intro div_le_mono mult_le_mono) auto

lemma withdraw_amount_mono:
  "x \<le> y \<Longrightarrow> f' \<le> f \<Longrightarrow> withdraw_amount x R f \<le> withdraw_amount y R f'"
  unfolding withdraw_amount_def by (intro div_le_mono mult_le_mono) auto

section \<open>The error of the divisions\<close>

text \<open>A deposit mints less than two units below the exact value after the fee.\<close>

lemma deposit_amount_error: "x * R * (10000 - f) < (deposit_amount x R f + 2) * (10000 * 10 ^ 18)"
proof -
  let ?b = "x * R div 10 ^ 18"
  have b: "x * R < (?b + 1) * 10 ^ 18" by (rule less_Suc_div_mult) simp
  have o: "?b * (10000 - f) < (deposit_amount x R f + 1) * 10000"
    unfolding deposit_amount_def by (rule less_Suc_div_mult) simp
  have "x * R * (10000 - f) \<le> (?b + 1) * 10 ^ 18 * (10000 - f)"
    using b by (intro mult_le_mono1) simp
  also have "\<dots> = (?b * (10000 - f) + (10000 - f)) * 10 ^ 18"
    by (simp add: algebra_simps)
  also have "\<dots> < ((deposit_amount x R f + 1) * 10000 + 10000) * 10 ^ 18"
    using o by (intro mult_strict_right_mono add_less_le_mono) simp_all
  finally show ?thesis by (simp add: algebra_simps)
qed

text \<open>A withdrawal pays less than one vFDUSD unit plus one UST1 unit below the exact value.\<close>

lemma withdraw_amount_error:
  assumes "0 < R"
  shows "g * (10000 - f) * 10 ^ 18 < ((withdraw_amount g R f + 1) * R + 10 ^ 18) * 10000"
proof -
  let ?u = "g * (10000 - f) div 10000"
  have u: "g * (10000 - f) < (?u + 1) * 10000" by (rule less_Suc_div_mult) simp
  have o: "?u * 10 ^ 18 < (withdraw_amount g R f + 1) * R"
    unfolding withdraw_amount_def by (rule less_Suc_div_mult) (rule assms)
  have "g * (10000 - f) * 10 ^ 18 < (?u + 1) * 10000 * 10 ^ 18"
    using u by (intro mult_strict_right_mono) simp_all
  also have "\<dots> = (?u * 10 ^ 18 + 10 ^ 18) * 10000" by (simp add: algebra_simps)
  also have "\<dots> \<le> ((withdraw_amount g R f + 1) * R + 10 ^ 18) * 10000"
    using o by (intro mult_le_mono1 add_le_mono) simp_all
  finally show ?thesis .
qed

section \<open>The fee\<close>

lemma minus_div_rounds_up:
  "p \<le> n * 10000 \<Longrightarrow> n - (n * 10000 - p) div 10000 = (p + 9999) div 10000" for n p :: nat
proof -
  assume p: "p \<le> n * 10000"
  define d where "d = (p + 9999) div 10000"
  have "p + 9999 < (d + 1) * 10000" "d * 10000 \<le> p + 9999"
    unfolding d_def by (rule less_Suc_div_mult, simp) (rule div_mult_le)
  then have pd: "p \<le> d * 10000" "d * 10000 \<le> p + 9999" by simp_all
  then have "d * 10000 < (n + 1) * 10000" using p by simp
  then have "d \<le> n" by simp
  then obtain k where k: "n = d + k" using less_eqE by blast
  have d: "d \<le> n" "(n - d) * 10000 \<le> n * 10000 - p" "n * 10000 - p < (n - d + 1) * 10000"
    using pd p by (simp_all add: k)
  then have "(n * 10000 - p) div 10000 = n - d"
    by (intro div_nat_eqI) (simp_all add: mult.commute)
  with d(1) show ?thesis unfolding d_def by simp
qed

text \<open>The fee kept is the exact percentage, rounded up.\<close>

lemma fee_amount_rounds_up:
  assumes "fee_amount_ust1 g f = Ok fee"
  shows "unat fee = (unat g * unat f + 9999) div 10000"
proof -
  from assms have f: "unat f \<le> 10000"
    and r: "unat fee = unat g - unat g * (10000 - unat f) div 10000"
    by (auto simp: fee_amount_ust1_Ok_iff apply_fee_ust1_Ok_iff)
  have "unat g * (10000 - unat f) = unat g * 10000 - unat g * unat f"
    by (simp add: diff_mult_distrib2)
  with r f show ?thesis by (simp add: minus_div_rounds_up)
qed

lemma fee_split_sum:
  assumes "chain_tax_and_cmm_protocol f = (chain, cmm)"
  shows "unat chain + unat cmm = unat f" "chain \<le> cmm" "unat cmm \<le> unat chain + 1"
proof -
  have c: "unat chain = unat f div 2" and m: "cmm = f - chain"
    using assms by (auto simp: chain_tax_and_cmm_protocol_def Let_def unat_div)
  have "chain \<le> f" using c by (simp add: word_le_nat_alt)
  then have "unat cmm = unat f - unat chain" using m by (simp add: unat_minus_if_le)
  with c show "unat chain + unat cmm = unat f" "chain \<le> cmm" "unat cmm \<le> unat chain + 1"
    by (simp_all add: word_le_nat_alt)
qed

end
