(* ===== verification/Window_System.thy ===== *)
theory Window_System
  imports Window_Safety Swap_Economics
begin

text \<open>
  The oracle and the window together. The window asks the oracle contract for its state at
  every swap (\<open>query_oracle_state\<close>, answered by \<open>query_state\<close> of \<open>ust1-oracle\<close>), mints and
  burns UST1 and moves vFDUSD to and from the treasury. The state of the system is the two
  storages with two amounts that the messages of the window change: the UST1 outstanding and
  the vFDUSD in the treasury. A call whose messages cannot be carried out (a burn of more
  than is outstanding, a payout of more than the treasury has) is reverted by the host and
  is no step.
\<close>

record system =
  sy_oracle :: oracle_storage
  sy_window :: window_storage
  sy_supply :: nat
  sy_treasury :: nat

text \<open>A querier that answers from the contracts of the system.\<close>

definition answers :: "window_querier \<Rightarrow> window_config \<Rightarrow> system \<Rightarrow> bool" where
  "answers q cfg y \<longleftrightarrow>
     wq_oracle_state q (wc_oracle cfg) =
       and_then (oracle_query_state (sy_oracle y)) (\<lambda>r. Ok (state_response_to_wire r)) \<and>
     (\<exists>b. wq_cw20_balance q (wc_vfdusd_token cfg) (wc_cmm_treasury cfg) = Ok b \<and>
        unat b = sy_treasury y)"

datatype system_event =
    OracleCall oracle_call
  | WindowCall window_call
  | TreasuryReceives nat

inductive system_step ::
  "unit api \<Rightarrow> window_payload api \<Rightarrow> window_from_json \<Rightarrow> system_event \<Rightarrow> system \<Rightarrow> system \<Rightarrow> bool"
  for ao aw fj where
  oracle_call: "oracle_step ao c (sy_oracle y) o' \<Longrightarrow>
    system_step ao aw fj (OracleCall c) y (y\<lparr>sy_oracle := o'\<rparr>)"
| window_call: "window_step aw fj c (sy_window y) w' \<Longrightarrow>
    w_config (sy_window y) = Some cfg \<Longrightarrow> answers (call_querier c) cfg y \<Longrightarrow>
    burned c \<le> sy_supply y \<Longrightarrow> pulled c \<le> sy_treasury y \<Longrightarrow>
    system_step ao aw fj (WindowCall c) y
      (y\<lparr>sy_window := w', sy_supply := sy_supply y + minted c - burned c,
         sy_treasury := sy_treasury y + forwarded c - pulled c\<rparr>)"
| treasury_receives: "system_step ao aw fj (TreasuryReceives n) y
      (y\<lparr>sy_treasury := sy_treasury y + n\<rparr>)"

inductive_cases system_stepE: "system_step ao aw fj ev y y'"

text \<open>The UST1 outstanding is covered by the treasury at the rate of the oracle.\<close>

definition solvent :: "system \<Rightarrow> bool" where
  "solvent y \<longleftrightarrow> sy_supply y * 10 ^ 18 \<le> sy_treasury y * rate_of (sy_oracle y)"

lemma answers_rate:
  assumes "answers q cfg y" and "query_oracle_state q (wc_oracle cfg) = Ok os"
  shows "unat (sr_rate os) = rate_of (sy_oracle y)"
    and "\<exists>oc st. o_config (sy_oracle y) = Some oc \<and> o_oracle_state (sy_oracle y) = Some st \<and>
           sr_paused os = oc_paused oc \<and> sr_last_update_sec os = os_last_update_sec st"
  using assms
  by (auto simp: answers_def query_oracle_state_def oracle_query_state_def chain_simps rate_of_def)

text \<open>The two directions of a swap keep the cover.\<close>

lemma deposit_keeps_cover:
  fixes S T R x out :: nat
  assumes "S * 10 ^ 18 \<le> T * R" and "out * 10 ^ 18 \<le> x * R"
  shows "(S + out) * 10 ^ 18 \<le> (T + x) * R"
  using assms by (simp add: add_mult_distrib add_mono)

lemma withdraw_keeps_cover:
  fixes S T R g v :: nat
  assumes "S * 10 ^ 18 \<le> T * R" and "v * R \<le> g * 10 ^ 18" and "g \<le> S" and "v \<le> T"
  shows "(S - g) * 10 ^ 18 \<le> (T - v) * R"
proof -
  have "S * 10 ^ 18 - g * 10 ^ 18 \<le> T * R - g * 10 ^ 18" by (rule diff_le_mono[OF assms(1)])
  also have "\<dots> \<le> T * R - v * R" by (rule diff_le_mono2[OF assms(2)])
  finally show ?thesis by (simp add: diff_mult_distrib)
qed

lemma window_call_solvent:
  assumes "window_step aw fj c (sy_window y) w'" and "w_config (sy_window y) = Some cfg"
    and "answers (call_querier c) cfg y" and "burned c \<le> sy_supply y" and "pulled c \<le> sy_treasury y"
    and "solvent y"
  shows "(sy_supply y + minted c - burned c) * 10 ^ 18 \<le>
     (sy_treasury y + forwarded c - pulled c) * rate_of (sy_oracle y)"
  using assms(1)
proof (cases rule: window_step_cases)
  case (deposit cfg' m user os before out fee)
  then have d: "query_oracle_state (call_querier c) (wc_oracle cfg) = Ok os"
    "vfdusd_to_ust1_before_fee (cw20_amount m) (sr_rate os) = Ok before" "out \<le> before"
    using assms(2) by (auto simp: deposit_swap_def)
  have "unat out * 10 ^ 18 \<le> unat before * 10 ^ 18" using d(3) by (simp add: word_le_nat_alt)
  also have "\<dots> \<le> unat (cw20_amount m) * rate_of (sy_oracle y)"
    using before_fee_value[OF d(2)] answers_rate(1)[OF assms(3) d(1)] by simp
  finally show ?thesis
    using deposit_swap_totals[OF deposit(7)] assms(6) deposit_keeps_cover
    unfolding solvent_def by simp
next
  case (withdraw cfg' m user min_out os after v_out fee bal)
  then have d: "query_oracle_state (call_querier c) (wc_oracle cfg) = Ok os"
    "ust1_after_fee_to_vfdusd after (sr_rate os) = Ok v_out" "after \<le> cw20_amount m"
    using assms(2) by (auto simp: withdraw_swap_def)
  have "unat v_out * rate_of (sy_oracle y) \<le> unat after * 10 ^ 18"
    using to_vfdusd_value[OF d(2)] answers_rate(1)[OF assms(3) d(1)] by simp
  also have "\<dots> \<le> unat (cw20_amount m) * 10 ^ 18" using d(3) by (simp add: word_le_nat_alt)
  finally show ?thesis
    using withdraw_swap_totals[OF withdraw(7)] assms(4,5,6) withdraw_keeps_cover
    unfolding solvent_def by simp
next
  case (admin cfg' cfg'')
  with assms(6) show ?thesis by (simp add: no_messages_totals solvent_def)
qed

lemma oracle_call_solvent:
  assumes "oracle_step ao c (sy_oracle y) o'" and "solvent y"
  shows "sy_supply y * 10 ^ 18 \<le> sy_treasury y * rate_of o'"
proof -
  have "sy_supply y * 10 ^ 18 \<le> sy_treasury y * rate_of (sy_oracle y)"
    using assms(2) by (simp add: solvent_def)
  also have "\<dots> \<le> sy_treasury y * rate_of o'"
    using oracle_step_rate_mono[OF assms(1)] by simp
  finally show ?thesis .
qed

lemma system_step_solvent:
  assumes "system_step ao aw fj ev y y'" and "solvent y"
  shows "solvent y'"
  using assms(1)
proof (elim system_stepE)
  fix c o'
  assume "y' = y\<lparr>sy_oracle := o'\<rparr>" and "oracle_step ao c (sy_oracle y) o'"
  with oracle_call_solvent[OF _ assms(2)] show ?thesis by (auto simp: solvent_def)
next
  fix c w' cfg
  assume y': "y' = y\<lparr>sy_window := w', sy_supply := sy_supply y + minted c - burned c,
         sy_treasury := sy_treasury y + forwarded c - pulled c\<rparr>"
    and st: "window_step aw fj c (sy_window y) w'" "w_config (sy_window y) = Some cfg"
      "answers (call_querier c) cfg y" "burned c \<le> sy_supply y" "pulled c \<le> sy_treasury y"
  show ?thesis
    using window_call_solvent[OF st assms(2)] by (simp add: y' solvent_def)
qed (use assms(2) in \<open>simp add: solvent_def add_mult_distrib\<close>)

lemma system_run_solvent: "run (system_step ao aw fj) y es y' \<Longrightarrow> solvent y \<Longrightarrow> solvent y'"
  using run_invariant[where I = solvent] system_step_solvent by metis

section \<open>A covered withdrawal is paid\<close>

lemma covered_payout:
  assumes "solvent y" and "unat g \<le> sy_supply y" and "0 < unat R"
    and "unat R = rate_of (sy_oracle y)" and "ust1_after_fee_to_vfdusd u R = Ok v" and "u \<le> g"
  shows "unat v \<le> sy_treasury y"
proof -
  have "unat v * unat R \<le> unat u * 10 ^ 18" by (rule to_vfdusd_value[OF assms(5)])
  also have "\<dots> \<le> unat g * 10 ^ 18" using assms(6) by (simp add: word_le_nat_alt)
  also have "\<dots> \<le> sy_supply y * 10 ^ 18" using assms(2) by simp
  also have "\<dots> \<le> sy_treasury y * unat R" using assms(1,4) by (simp add: solvent_def)
  finally show ?thesis using assms(3) by simp
qed

lemma window_ensure_limits_not_Insufficient: "window_ensure_limits e r cfg n \<noteq> Err InsufficientVfdusd"
  unfolding window_ensure_limits_def restart_guard Let_def by (auto simp: error_iffs)

lemma ensure_oracle_usable_not_Insufficient:
  "ensure_oracle_usable e os m \<noteq> Err InsufficientVfdusd"
  by (simp add: ensure_oracle_usable_def Let_def)

lemma deposit_not_Insufficient: "deposit a q e cfg user x hook s \<noteq> Err InsufficientVfdusd"
  by (simp add: deposit_def Let_def error_iffs window_ensure_limits_not_Insufficient
      ensure_oracle_usable_not_Insufficient)

lemma withdraw_not_Insufficient:
  assumes "solvent y" and "answers q cfg y" and "unat g \<le> sy_supply y"
  shows "withdraw a q e cfg user g hook s \<noteq> Err InsufficientVfdusd"
proof (cases hook)
  case (Withdraw min_out)
  obtain b where b: "query_cw20_balance q (wc_vfdusd_token cfg) (wc_cmm_treasury cfg) = Ok b"
    "unat b = sy_treasury y"
    using assms(2) by (auto simp: answers_def query_cw20_balance_def)
  have pay: "\<not> b < v" if "query_oracle_state q (wc_oracle cfg) = Ok os" "apply_fee_ust1 g f = Ok u"
    "ust1_after_fee_to_vfdusd u (sr_rate os) = Ok v" for os f u v
  proof -
    have "0 < unat (sr_rate os)" using that(3) by (simp add: ust1_after_fee_to_vfdusd_Ok_iff)
    from covered_payout[OF assms(1,3) this answers_rate(1)[OF assms(2) that(1)] that(3)
        apply_fee_ust1_le[OF that(2)]]
    show ?thesis using b(2) by (simp add: word_le_nat_alt not_less)
  qed
  show ?thesis
    by (auto simp: withdraw_def Let_def Withdraw withdraw_ust1_after_fee_def error_iffs b(1)
        map_err_Ok_iff window_ensure_limits_not_Insufficient ensure_oracle_usable_not_Insufficient
        dest: pay)
qed (simp add: withdraw_def)

lemma receive_not_Insufficient:
  assumes "solvent y" and "w_config (sy_window y) = Some cfg" and "answers q cfg y"
    and "unat (cw20_amount m) \<le> sy_supply y"
  shows "receive_cw20 a fj q e info m (sy_window y) \<noteq> Err InsufficientVfdusd"
  using assms(2)
  by (auto simp: receive_cw20_def Let_def deposit_not_Insufficient error_iffs
      withdraw_not_Insufficient[OF assms(1,3,4)])

end
