(* ===== verification/Scenario_Host.thy ===== *)
theory Scenario_Host
  imports Transitions
begin

text \<open>
  The host of the concrete deployments that the witnesses of the properties use: a block at
  a given second, a sender, and an \<open>api\<close> that accepts every address and encodes every
  message.
\<close>

definition at_time :: "nat \<Rightarrow> env" where
  "at_time t = \<lparr>block_nanos = of_nat (t * 1000000000), contract_address = ''self''\<rparr>"

definition sent_by :: "addr \<Rightarrow> message_info" where
  "sent_by a = \<lparr>sender = a, funds = []\<rparr>"

definition plain_api :: "'p api" where
  "plain_api = \<lparr>addr_validate = (\<lambda>x. Ok x), json_error = (\<lambda>_. None)\<rparr>"

lemma block_seconds_at:
  assumes "t \<le> 18446744073"
  shows "block_seconds (at_time t) = of_nat t"
proof -
  have n: "unat (of_nat n :: u64) = n" if "n \<le> 18446744073000000000" for n
    using that by (simp add: unsigned_of_nat take_bit_nat_eq_self)
  have "unat (block_seconds (at_time t)) = t"
    unfolding unat_block_seconds at_time_def using assms by (simp del: of_nat_mult add: n)
  moreover have "unat (of_nat t :: u64) = t"
    using assms by (intro n) simp
  ultimately show ?thesis by (simp add: word_unat_eq_iff)
qed

lemma host_simps [simp]:
  "sender (sent_by a) = a" "funds (sent_by a) = []"
  "addr_validate plain_api x = Ok x" "json_error plain_api p = None"
  "contract_address (at_time t) = ''self''"
  by (simp_all add: sent_by_def plain_api_def at_time_def)

end
