(* ===== verification/Window_Scenario.thy ===== *)
theory Window_Scenario
  imports Window_System Scenario_Host
begin

text \<open>
  A concrete deployment, used to show that the hypotheses of the properties can hold: an
  oracle whose rate is updated twice, and a window that takes a deposit and a withdrawal at
  that rate. Every step is the value of the model's own functions.
\<close>

section \<open>The oracle\<close>

definition oracle_0 :: oracle_storage where
  "oracle_0 = \<lparr>o_contract_info = Some (ORACLE_CONTRACT_NAME, ''0.1.0''),
     o_config = Some \<lparr>oc_governance = ''gov'', oc_oracle_operator = ''op'', oc_paused = False\<rparr>,
     o_oracle_state = Some \<lparr>os_rate = 1200000000000000000, os_last_update_sec = 0,
       os_utc_day_id = 11, os_day_baseline_rate = 1200000000000000000\<rparr>,
     o_pending_governance = None\<rparr>"

definition oracle_at :: "u128 \<Rightarrow> u64 \<Rightarrow> oracle_storage" where
  "oracle_at rate t = oracle_0\<lparr>o_oracle_state := Some \<lparr>os_rate = rate, os_last_update_sec = t,
     os_utc_day_id = 11, os_day_baseline_rate = 1210000000000000000\<rparr>\<rparr>"

definition update_call :: "nat \<Rightarrow> u128 \<Rightarrow> oracle_call" where
  "update_call t rate = \<lparr>call_querier = (), call_env = at_time t, call_info = sent_by ''op'',
     call_msg = UpdateRate rate,
     call_response = \<lparr>messages = [],
       attributes = [(''action'', ''update_rate''), (''rate'', show_nat (unat rate))]\<rparr>\<rparr>"

definition rate_1 :: u128 where "rate_1 = 1210000000000000000"
definition rate_2 :: u128 where "rate_2 = 1220000000000000000"


lemma oracle_instantiated:
  "oracle_instantiate plain_api ''0.1.0'' (at_time 1000000) (sent_by ''deployer'')
     \<lparr>oi_governance = ''gov'', oi_oracle_operator = ''op'', oi_initial_rate = 1200000000000000000\<rparr>
     oracle_empty =
   Ok (oracle_0, \<lparr>messages = [], attributes = [(''action'', ''instantiate''), (''governance'', ''gov'')]\<rparr>)"
  by (simp add: oracle_instantiate_def oracle_set_contract_version_def oracle_0_def oracle_empty_def
      block_seconds_at add_attribute_def new_response_def)

lemma oracle_first_update:
  "oracle_step plain_api (update_call 1000000 rate_1) oracle_0 (oracle_at rate_1 1000000)"
  by (simp add: oracle_step_def oracle_execute_def update_call_def oracle_0_def oracle_at_def
      execute_update_rate_Ok_iff check_rate_update_Ok_iff block_seconds_at throttled_def
      rate_1_def word_le_nat_alt)

lemma oracle_second_update:
  "oracle_step plain_api (update_call 1014400 rate_2) (oracle_at rate_1 1000000)
     (oracle_at rate_2 1014400)"
  by (simp add: oracle_step_def oracle_execute_def update_call_def oracle_0_def oracle_at_def
      execute_update_rate_Ok_iff check_rate_update_Ok_iff block_seconds_at throttled_def
      within_daily_cap_def rate_1_def rate_2_def word_le_nat_alt)

section \<open>The window\<close>

definition window_cfg :: window_config where
  "window_cfg = \<lparr>wc_governance = ''gov'', wc_oracle = ''oracle'', wc_vfdusd_token = ''vfdusd'',
     wc_cmm_treasury = ''treasury'', wc_ust1_token = ''ust1'', wc_fee_bps = 100,
     wc_per_tx_ust1_limit = 1000000000, wc_rolling_24h_ust1_limit = 10000000000,
     wc_paused = False, wc_max_oracle_age_sec = 21600\<rparr>"

definition window_at :: "u64 \<Rightarrow> u128 \<Rightarrow> window_storage" where
  "window_at start volume = \<lparr>w_contract_info = Some (WINDOW_CONTRACT_NAME, ''0.1.0''),
     w_config = Some window_cfg,
     w_rolling = Some \<lparr>rv_window_start_sec = start, rv_volume_ust1 = volume\<rparr>,
     w_pending_governance = None\<rparr>"

definition hook_json :: window_from_json where
  "hook_json b = (if b = ''deposit'' then Ok Deposit else Ok (Withdraw 1))"

definition system_querier :: "oracle_storage \<Rightarrow> u128 \<Rightarrow> window_querier" where
  "system_querier os treasury = \<lparr>
     wq_oracle_state =
       (\<lambda>_. and_then (oracle_query_state os) (\<lambda>r. Ok (state_response_to_wire r))),
     wq_cw20_balance = (\<lambda>_ _. Ok treasury), wq_cw20_decimals = (\<lambda>_. Ok 6)\<rparr>"

definition receive_call ::
  "window_querier \<Rightarrow> nat \<Rightarrow> addr \<Rightarrow> addr \<Rightarrow> u128 \<Rightarrow> binary \<Rightarrow> window_payload response \<Rightarrow> window_call" where
  "receive_call q t token user amount msg r = \<lparr>call_querier = q, call_env = at_time t,
     call_info = sent_by token,
     call_msg = Receive \<lparr>cw20_sender = user, cw20_amount = amount, cw20_msg = msg\<rparr>,
     call_response = r\<rparr>"

definition deposit_response :: "window_payload response" where
  "deposit_response = \<lparr>messages =
       [WasmExecute ''ust1'' (Cw20Payload (Cw20Mint ''alice'' 1207800)) [],
        WasmExecute ''vfdusd'' (Cw20Payload (Cw20Transfer ''treasury'' 1000000)) []],
     attributes = [(''action'', ''deposit''), (''ust1_out'', show_nat 1207800),
       (''vfdusd_to_treasury'', show_nat 1000000), (''fee_total_bps'', show_nat 100),
       (''fee_chain_tax_bps'', show_nat 50), (''fee_cmm_protocol_bps'', show_nat 50),
       (''fee_amount'', show_nat 12200), (''fee_asset'', ''ust1'')]\<rparr>"

definition withdraw_response :: "window_payload response" where
  "withdraw_response = \<lparr>messages =
       [WasmExecute ''ust1'' (Cw20Payload (Cw20Burn 1000000)) [],
        WasmExecute ''treasury''
          (TreasuryPayload (InstantWithdrawCw20 ''alice'' ''vfdusd'' 811475)) []],
     attributes = [(''action'', ''withdraw''), (''vfdusd_out'', show_nat 811475),
       (''fee_total_bps'', show_nat 100), (''fee_chain_tax_bps'', show_nat 50),
       (''fee_cmm_protocol_bps'', show_nat 50), (''fee_amount'', show_nat 10000), (''fee_asset'', ''ust1'')]\<rparr>"

definition deposit_call :: window_call where
  "deposit_call = receive_call (system_querier (oracle_at rate_2 1014400) 0) 1014500
     ''vfdusd'' ''alice'' 1000000 ''deposit'' deposit_response"

definition withdraw_call :: window_call where
  "withdraw_call = receive_call (system_querier (oracle_at rate_2 1014400) 1000000) 1014600
     ''ust1'' ''alice'' 1000000 ''withdraw'' withdraw_response"


lemma query_oracle_2:
  "query_oracle_state (system_querier (oracle_at rate_2 1014400) b) x =
     Ok \<lparr>sr_rate = rate_2, sr_last_update_sec = 1014400, sr_utc_day_id = 11,
        sr_day_baseline_rate = 1210000000000000000, sr_paused = False\<rparr>"
  by (simp add: query_oracle_state_def system_querier_def oracle_query_state_def oracle_at_def
      oracle_0_def)

lemma deposit_quote:
  "vfdusd_to_ust1_before_fee 1000000 rate_2 = Ok 1220000"
  "apply_fee_ust1 1220000 100 = Ok 1207800"
  by (simp_all add: vfdusd_to_ust1_before_fee_Ok_iff apply_fee_ust1_Ok_iff rate_2_def)

lemma withdraw_quote:
  "apply_fee_ust1 1000000 100 = Ok 990000"
  "ust1_after_fee_to_vfdusd 990000 rate_2 = Ok 811475"
  by (simp_all add: ust1_after_fee_to_vfdusd_Ok_iff apply_fee_ust1_Ok_iff rate_2_def)

lemma window_deposit:
  "window_step plain_api hook_json deposit_call (window_at 0 0) (window_at 1014500 1207800)"
proof -
  have "deposit_swap plain_api (system_querier (oracle_at rate_2 1014400) 0) (at_time 1014500)
      window_cfg ''alice'' 1000000 (window_at 0 0) (window_at 1014500 1207800) deposit_response
      \<lparr>sr_rate = rate_2, sr_last_update_sec = 1014400, sr_utc_day_id = 11,
        sr_day_baseline_rate = 1210000000000000000, sr_paused = False\<rparr> 1220000 1207800 12200"
    unfolding deposit_swap_def query_oracle_2
    by (simp add: window_cfg_def deposit_quote oracle_usable_def block_seconds_at window_at_def
        window_ensure_limits_Ok_iff window_limits_pass_def passes_limits_def volume_base_def
        window_restarts_def word_le_nat_alt deposit_response_def)
  then show ?thesis
    by (auto simp: window_step_def window_execute_def deposit_call_def receive_call_def
        receive_cw20_Ok_iff deposit_Ok_iff window_at_def window_cfg_def hook_json_def)
qed

lemma window_withdraw:
  "window_step plain_api hook_json withdraw_call (window_at 1014500 1207800)
     (window_at 1014500 2207800)"
proof -
  have "withdraw_swap plain_api (system_querier (oracle_at rate_2 1014400) 1000000) (at_time 1014600)
      window_cfg ''alice'' 1000000 1 (window_at 1014500 1207800) (window_at 1014500 2207800)
      withdraw_response
      \<lparr>sr_rate = rate_2, sr_last_update_sec = 1014400, sr_utc_day_id = 11,
        sr_day_baseline_rate = 1210000000000000000, sr_paused = False\<rparr> 990000 811475 10000 1000000"
    unfolding withdraw_swap_def query_oracle_2
    by (simp add: window_cfg_def withdraw_quote oracle_usable_def block_seconds_at window_at_def
        window_ensure_limits_Ok_iff window_limits_pass_def passes_limits_def volume_base_def
        window_restarts_def word_le_nat_alt withdraw_response_def query_cw20_balance_def
        system_querier_def)
  then have "withdraw plain_api (system_querier (oracle_at rate_2 1014400) 1000000)
      (at_time 1014600) window_cfg ''alice'' 1000000 (Withdraw 1) (window_at 1014500 1207800) =
      Ok (window_at 1014500 2207800, withdraw_response)"
    unfolding withdraw_Ok_iff by blast
  then show ?thesis
    by (simp add: window_step_def window_execute_def withdraw_call_def receive_call_def
        receive_cw20_Ok_iff window_at_def window_cfg_def hook_json_def)
qed

section \<open>The system\<close>

definition system_at :: "window_storage \<Rightarrow> nat \<Rightarrow> nat \<Rightarrow> system" where
  "system_at w supply treasury = \<lparr>sy_oracle = oracle_at rate_2 1014400, sy_window = w,
     sy_supply = supply, sy_treasury = treasury\<rparr>"

lemma system_at_simps [simp]:
  "sy_oracle (system_at w n m) = oracle_at rate_2 1014400" "sy_window (system_at w n m) = w"
  "sy_supply (system_at w n m) = n" "sy_treasury (system_at w n m) = m"
  by (simp_all add: system_at_def)

lemma rate_of_oracle_at [simp]: "rate_of (oracle_at r t) = unat r"
  by (simp add: rate_of_def oracle_at_def)

lemma window_at_config [simp]: "w_config (window_at st v) = Some window_cfg"
  by (simp add: window_at_def)

lemma system_querier_answers:
  "unat b = m \<Longrightarrow> answers (system_querier (oracle_at rate_2 1014400) b) cfg (system_at w n m)"
  by (simp add: answers_def system_querier_def)

lemma scenario_totals:
  "minted deposit_call = 1207800" "burned deposit_call = 0"
  "forwarded deposit_call = 1000000" "pulled deposit_call = 0"
  "minted withdraw_call = 0" "burned withdraw_call = 1000000"
  "forwarded withdraw_call = 0" "pulled withdraw_call = 811475"
  by (simp_all add: call_total_def deposit_call_def withdraw_call_def receive_call_def
      deposit_response_def withdraw_response_def)

lemma system_at_step:
  assumes "window_step aw fj c w w'" and "w_config w = Some cfg"
    and "answers (call_querier c) cfg (system_at w n m)" and "burned c \<le> n" and "pulled c \<le> m"
  shows "system_step ao aw fj (WindowCall c) (system_at w n m)
     (system_at w' (n + minted c - burned c) (m + forwarded c - pulled c))"
  using system_step.window_call[of aw fj c "system_at w n m" w' cfg ao] assms
  by (simp add: system_at_def)

lemma system_deposit:
  "system_step plain_api plain_api hook_json (WindowCall deposit_call)
     (system_at (window_at 0 0) 0 0) (system_at (window_at 1014500 1207800) 1207800 1000000)"
  using system_at_step[OF window_deposit window_at_config, of 0 0 plain_api]
  by (simp add: scenario_totals deposit_call_def[THEN arg_cong[where f = call_querier]]
      receive_call_def system_querier_answers)

lemma system_withdraw:
  "system_step plain_api plain_api hook_json (WindowCall withdraw_call)
     (system_at (window_at 1014500 1207800) 1207800 1000000)
     (system_at (window_at 1014500 2207800) 207800 188525)"
  using system_at_step[OF window_withdraw window_at_config, of 1207800 1000000 plain_api]
  by (simp add: scenario_totals withdraw_call_def[THEN arg_cong[where f = call_querier]]
      receive_call_def system_querier_answers)

lemma system_scenario:
  "run (system_step plain_api plain_api hook_json) (system_at (window_at 0 0) 0 0)
     [WindowCall deposit_call, WindowCall withdraw_call]
     (system_at (window_at 1014500 2207800) 207800 188525)"
  using system_deposit system_withdraw by (auto simp: run_cons_iff)

end
