(* ===== verification/Oracle_Feed.thy ===== *)
theory Oracle_Feed
  imports Oracle_Safety
begin

text \<open>
  What the oracle contract promises its readers, as a specification of its own: a feed of
  published rates, where the whole history is the state. The contract keeps four fields
  instead (rate, time of the last update, number of the UTC day, baseline of that day); the
  refinement says that these fields always stand for the history, that every update the
  contract takes is one the feed allows, and that it takes every update the feed allows from
  its operator.
\<close>

section \<open>The feed\<close>

text \<open>The published rates with their times in seconds, the newest first.\<close>

type_synonym feed = "(nat \<times> nat) list"

definition utc_day :: "nat \<Rightarrow> nat" where
  "utc_day t = t div 86400"

text \<open>
  The opening rate of a day: the last one published before that day, or the first of all when
  the feed began on the day itself.
\<close>

definition opening_rate :: "nat \<Rightarrow> feed \<Rightarrow> nat" where
  "opening_rate day h =
     (case filter (\<lambda>p. utc_day (fst p) < day) h of [] \<Rightarrow> snd (last h) | p # _ \<Rightarrow> snd p)"

text \<open>
  What may be published: a positive rate that does not fall, at least four hours after the
  last one, and at most 2 percent above the opening rate of its day. The first rate only has
  to reach the initial one.
\<close>

definition may_publish :: "nat \<Rightarrow> feed \<Rightarrow> nat \<Rightarrow> nat \<Rightarrow> bool" where
  "may_publish initial h t r \<longleftrightarrow> 0 < r \<and>
     (case h of [] \<Rightarrow> initial \<le> r
      | (t0, r0) # _ \<Rightarrow>
          t0 + 4 * 60 * 60 \<le> t \<and> r0 \<le> r \<and> r * 100 \<le> opening_rate (utc_day t) h * 102)"

definition publish :: "nat \<Rightarrow> nat \<times> nat \<Rightarrow> feed \<Rightarrow> feed \<Rightarrow> bool" where
  "publish initial e h h' \<longleftrightarrow> may_publish initial h (fst e) (snd e) \<and> h' = e # h"

text \<open>A new rate leaves the opening rate of its own day, and opens the days after it.\<close>

lemma opening_same_day:
  "h \<noteq> [] \<Longrightarrow> utc_day t = day \<Longrightarrow> opening_rate day ((t, r) # h) = opening_rate day h"
  by (cases "filter (\<lambda>p. utc_day (fst p) < day) h") (simp_all add: opening_rate_def)

lemma opening_later_day: "utc_day t < day \<Longrightarrow> opening_rate day ((t, r) # h) = r"
  by (simp add: opening_rate_def)

lemma opening_first: "utc_day t = day \<Longrightarrow> opening_rate day [(t, r)] = r"
  by (simp add: opening_rate_def)

section \<open>The fields of the contract stand for the feed\<close>

definition represents :: "nat \<Rightarrow> feed \<Rightarrow> oracle_state \<Rightarrow> bool" where
  "represents initial h st \<longleftrightarrow>
     (case h of
        [] \<Rightarrow> os_last_update_sec st = 0 \<and> unat (os_rate st) = initial
      | (t, r) # _ \<Rightarrow> 0 < t \<and> unat (os_last_update_sec st) = t \<and> unat (os_rate st) = r \<and>
          unat (os_utc_day_id st) = utc_day t \<and>
          unat (os_day_baseline_rate st) = opening_rate (utc_day t) h)"

text \<open>The baseline that an update is checked against is the opening rate of its day.\<close>

lemma represents_opening:
  assumes "represents initial ((t0, r0) # h) st" and "t0 \<le> unat t"
  shows "unat (if t div 86400 = os_utc_day_id st then os_day_baseline_rate st else os_rate st) =
    opening_rate (utc_day (unat t)) ((t0, r0) # h)"
proof (cases "t div 86400 = os_utc_day_id st")
  case True
  then have "unat (t div 86400) = unat (os_utc_day_id st)" by simp
  then have "utc_day (unat t) = utc_day t0"
    using assms(1) by (simp add: represents_def utc_day_def unat_div)
  with True assms(1) show ?thesis by (simp add: represents_def)
next
  case False
  then have "unat (t div 86400) \<noteq> unat (os_utc_day_id st)" by (simp add: word_unat_eq_iff)
  then have "utc_day (unat t) \<noteq> utc_day t0"
    using assms(1) by (simp add: represents_def utc_day_def unat_div)
  moreover have "utc_day t0 \<le> utc_day (unat t)"
    using assms(2) by (simp add: utc_day_def div_le_mono)
  ultimately show ?thesis
    using False assms(1) by (simp add: represents_def opening_later_day)
qed

text \<open>An update is accepted exactly when the feed allows it and its cap fits 128 bits.\<close>

definition cap_fits :: "feed \<Rightarrow> nat \<Rightarrow> bool" where
  "cap_fits h t \<longleftrightarrow> h = [] \<or> opening_rate (utc_day t) h * 10200 < 2 ^ 128"

lemma accepted_iff_may_publish:
  assumes "represents initial h st"
  shows "(\<exists>d b. check_rate_update t (os_last_update_sec st) (os_rate st) n (os_utc_day_id st)
        (os_day_baseline_rate st) = Ok (d, b)) \<longleftrightarrow>
    may_publish initial h (unat t) (unat n) \<and> cap_fits h (unat t)"
proof (cases h)
  case Nil
  with assms show ?thesis
    by (auto simp: check_rate_update_Ok_iff may_publish_def cap_fits_def represents_def throttled_def
        Let_def word_le_nat_alt unat_gt_0)
next
  case (Cons p h0)
  obtain t0 r0 where h: "h = (t0, r0) # h0" using Cons by (cases p) simp
  have last: "unat (os_last_update_sec st) = t0" "0 < t0" "unat (os_rate st) = r0"
    using assms by (simp_all add: h represents_def)
  have not0: "os_last_update_sec st \<noteq> 0" using last by auto
  have thr: "\<not> throttled t (os_last_update_sec st) \<longleftrightarrow> t0 + 14400 \<le> unat t"
    using last by (auto simp: throttled_def)
  have base: "within_daily_cap (if t div 86400 = os_utc_day_id st then os_day_baseline_rate st
        else os_rate st) n \<longleftrightarrow>
      opening_rate (utc_day (unat t)) h * 10200 < 2 ^ 128 \<and>
      unat n * 100 \<le> opening_rate (utc_day (unat t)) h * 102" if "t0 + 14400 \<le> unat t"
  proof -
    have "unat (if t div 86400 = os_utc_day_id st then os_day_baseline_rate st else os_rate st) =
        opening_rate (utc_day (unat t)) h"
      unfolding h by (rule represents_opening) (use assms h that in simp_all)
    then show ?thesis unfolding within_daily_cap_def by auto
  qed
  show ?thesis
    using thr base not0 last
    by (auto simp: check_rate_update_Ok_iff may_publish_def cap_fits_def h Let_def word_le_nat_alt
        unat_gt_0 simp del: if_split_asm)
qed

text \<open>After the update, the fields stand for the longer feed.\<close>

lemma rate_updated_represents:
  assumes "rate_updated c st st'" and "represents initial h st" and "0 < call_time c"
  shows "represents initial ((call_time c, unat (os_rate st')) # h) st'"
proof -
  note facts = rate_updated_facts[OF assms(1)]
  have t: "unat (block_seconds (call_env c)) = call_time c" by (simp add: call_time_def)
  have new: "unat (os_last_update_sec st') = call_time c" "unat (os_utc_day_id st') = utc_day (call_time c)"
    using facts(4,5) by (simp_all add: call_time_def utc_day_def unat_div)
  have "unat (os_day_baseline_rate st') =
      opening_rate (utc_day (call_time c)) ((call_time c, unat (os_rate st')) # h)"
  proof (cases h)
    case Nil
    with assms(2) facts(6) show ?thesis by (simp add: represents_def opening_first)
  next
    case (Cons p h0)
    obtain t0 r0 where h: "h = (t0, r0) # h0" using Cons by (cases p) simp
    have l: "os_last_update_sec st \<noteq> 0" using assms(2) by (auto simp: h represents_def)
    have "t0 \<le> unat (block_seconds (call_env c))"
      using not_throttled[OF facts(3) l] assms(2) by (simp add: h represents_def)
    from represents_opening[OF assms(2)[unfolded h] this] facts(7)[OF l] show ?thesis
      by (simp add: h t opening_same_day)
  qed
  with new assms(3) show ?thesis by (simp add: represents_def)
qed

section \<open>The contract refines the feed\<close>

text \<open>The publication a call makes, if it is an update.\<close>

definition publication :: "oracle_call \<Rightarrow> (nat \<times> nat) option" where
  "publication c = (case call_msg c of UpdateRate n \<Rightarrow> Some (call_time c, unat n) | _ \<Rightarrow> None)"

definition stands_for :: "nat \<Rightarrow> feed \<Rightarrow> oracle_storage \<Rightarrow> bool" where
  "stands_for initial h s \<longleftrightarrow> (\<exists>st. o_oracle_state s = Some st \<and> represents initial h st)"

lemma publication_None_iff: "publication c = None \<longleftrightarrow> \<not> is_update c"
  by (simp add: publication_def is_update_def split: oracle_execute_msg.splits)

interpretation feed_refinement: simulation
  "oracle_step a" "publish initial" publication "stands_for initial" "\<lambda>c. 0 < call_time c"
  for a initial
proof unfold_locales
  fix c s s' h
  assume "oracle_step a c s s'" "publication c = None" "stands_for initial h s"
  then show "stands_for initial h s'"
    by (elim oracle_step_cases) (auto simp: publication_None_iff stands_for_def)
next
  fix c s s' e h
  assume st: "oracle_step a c s s'" "0 < call_time c" "publication c = Some e" "stands_for initial h s"
  from st(1) show "\<exists>h'. publish initial e h h' \<and> stands_for initial h' s'"
  proof (cases rule: oracle_step_cases)
    case (update st st')
    with st(4) have rep: "represents initial h st" by (simp add: stands_for_def)
    have e: "e = (call_time c, unat (os_rate st'))"
      using st(3) update(4) by (auto simp: publication_def rate_updated_def split: oracle_execute_msg.splits)
    from update(4) obtain d b where "check_rate_update (block_seconds (call_env c)) (os_last_update_sec st)
        (os_rate st) (os_rate st') (os_utc_day_id st) (os_day_baseline_rate st) = Ok (d, b)"
      by (rule rate_updatedE)
    with accepted_iff_may_publish[OF rep] have "may_publish initial h (call_time c) (unat (os_rate st'))"
      by (metis call_time_def)
    with e update(3) rate_updated_represents[OF update(4) rep st(2)] show ?thesis
      by (auto simp: publish_def stands_for_def)
  next
    case admin
    with st(3) publication_None_iff[of c] show ?thesis by simp
  qed
qed

lemma instantiated_stands_for:
  "oracle_instantiate a v e info m s0 = Ok (s, r) \<Longrightarrow> stands_for (unat (oi_initial_rate m)) [] s"
  by (auto simp: oracle_instantiate_Ok_iff stands_for_def represents_def)

text \<open>Which update the operator can make next.\<close>

lemma stands_for_next_update:
  assumes "stands_for initial h s" and "o_config s = Some cfg" and "\<not> oc_paused cfg"
    and "sender info = oc_oracle_operator cfg"
  shows "(\<exists>s' r. oracle_execute a e info (UpdateRate n) s = Ok (s', r)) \<longleftrightarrow>
    may_publish initial h (unat (block_seconds e)) (unat n) \<and> cap_fits h (unat (block_seconds e))"
proof -
  from assms(1) obtain st where st: "o_oracle_state s = Some st" "represents initial h st"
    by (auto simp: stands_for_def)
  have "(\<exists>s' r. oracle_execute a e info (UpdateRate n) s = Ok (s', r)) \<longleftrightarrow>
      (\<exists>d b. check_rate_update (block_seconds e) (os_last_update_sec st) (os_rate st) n
        (os_utc_day_id st) (os_day_baseline_rate st) = Ok (d, b))"
    using st(1) assms(2-4)
    by (auto simp: oracle_execute_def execute_update_rate_def result_simps Let_def)
  with accepted_iff_may_publish[OF st(2)] show ?thesis by simp
qed

text \<open>The feed of a run is its publications, the newest first.\<close>

lemma publish_run: "run (publish initial) h es h' \<Longrightarrow> h' = rev es @ h"
  by (induction rule: run.induct) (auto simp: publish_def)

end
