(* ===== verification/Oracle_Properties.thy ===== *)
theory Oracle_Properties
  imports Window_Scenario Oracle_Feed
begin

text \<open>The properties of the oracle contract, each with a witness on the concrete deployment.\<close>

section \<open>A witness run of governance\<close>

definition propose_call :: "string \<Rightarrow> oracle_call" where
  "propose_call x = \<lparr>call_querier = (), call_env = at_time 1014500, call_info = sent_by ''gov'',
     call_msg = oracle_execute_msg.ProposeGovernance x,
     call_response = add_attribute ''action'' ''propose_governance'' new_response\<rparr>"

definition accept_call :: "string \<Rightarrow> oracle_call" where
  "accept_call x = \<lparr>call_querier = (), call_env = at_time 1014500, call_info = sent_by x,
     call_msg = oracle_execute_msg.AcceptGovernance,
     call_response = add_attribute ''action'' ''accept_governance'' new_response\<rparr>"

definition oracle_handed_over :: "addr \<Rightarrow> oracle_storage" where
  "oracle_handed_over x = oracle_0\<lparr>o_config := Some \<lparr>oc_governance = x,
     oc_oracle_operator = ''op'', oc_paused = False\<rparr>\<rparr>"

lemma governance_scenario:
  "run (oracle_step plain_api) oracle_0 [propose_call ''new'', accept_call ''new'']
     (oracle_handed_over ''new'')"
  by (simp add: run_cons_iff oracle_step_def oracle_execute_def propose_call_def accept_call_def
      execute_propose_gov_def execute_accept_gov_def oracle_0_def oracle_handed_over_def)

lemma oracle_update_scenario:
  "run (oracle_step plain_api) oracle_0 [update_call 1000000 rate_1, update_call 1014400 rate_2]
     (oracle_at rate_2 1014400)"
  using oracle_first_update oracle_second_update by (auto simp: run_cons_iff)

lemma oracle_0_inv: "oracle_inv oracle_0"
  using oracle_instantiate_inv[OF oracle_instantiated] .

lemma oracle_1_inv: "oracle_inv (oracle_at rate_1 1000000)"
  using oracle_step_inv[OF oracle_first_update oracle_0_inv] .

lemma updated_state_eq:
  "st\<lparr>os_utc_day_id := d, os_day_baseline_rate := b, os_rate := n, os_last_update_sec := t\<rparr> =
   \<lparr>os_rate = n, os_last_update_sec = t, os_utc_day_id = d, os_day_baseline_rate = b\<rparr>"
  by simp

section \<open>Properties\<close>

text \<open>
  C25: An update of the rate succeeds exactly when the contract is configured and not paused,
  the sender is the operator, the new rate is positive and not below the stored one, at least
  four hours have passed since the last update, and, unless it is the first update, the new
  rate is within 2 percent of the baseline of the UTC day. It then stores the rate, the block
  time, the day and the baseline, changes nothing else, and sends no message.
\<close>

theorem oracle_update_exact:
  "execute_update_rate e info n s = Ok (s', r) \<longleftrightarrow>
     (\<exists>cfg st. o_config s = Some cfg \<and> \<not> oc_paused cfg \<and> sender info = oc_oracle_operator cfg \<and>
        o_oracle_state s = Some st \<and> n \<noteq> 0 \<and> os_rate st \<le> n \<and>
        \<not> throttled (block_seconds e) (os_last_update_sec st) \<and>
        (let day = block_seconds e div 86400;
             base = (if day = os_utc_day_id st then os_day_baseline_rate st else os_rate st);
             first = (os_last_update_sec st = 0)
         in (if first then True else within_daily_cap base n) \<and>
            s' = s\<lparr>o_oracle_state := Some \<lparr>os_rate = n, os_last_update_sec = block_seconds e,
                   os_utc_day_id = day, os_day_baseline_rate = (if first then n else base)\<rparr>\<rparr>) \<and>
        r = \<lparr>messages = [],
             attributes = [(''action'', ''update_rate''), (''rate'', show_nat (unat n))]\<rparr>)"
proof (cases "o_config s = None \<or> o_oracle_state s = None")
  case True
  then show ?thesis unfolding execute_update_rate_Ok_iff by auto
next
  case False
  then obtain cfg st where "o_config s = Some cfg" "o_oracle_state s = Some st" by auto
  then show ?thesis
    unfolding execute_update_rate_Ok_iff check_rate_update_Ok_iff Let_def
    by (simp add: updated_state_eq response_eq_iff) blast
qed

text \<open>
  C14: Over any run of calls by anybody, the rate never falls, and the daily cap bounds its
  growth from the first update on, which the cap exempts. If there was an update before the
  run, the rate ends at most at the day's baseline at the start times \<open>1.02 ^ (days + 1)\<close>,
  where \<open>days\<close> is the number of UTC days between the last update before the run and the last
  one of it. If there was none, either the run has no update and the rate stays, or from the
  first update of the run on the rate ends at most at what that update set it to times
  \<open>1.02 ^ (days + 1)\<close>, the days counted from that update.
\<close>

theorem oracle_rate_growth_bound:
  assumes "run (oracle_step a) s es s'" and "oracle_inv s" and "\<forall>c\<in>set es. 0 < call_time c"
  shows "rate_of s \<le> rate_of s' \<and>
    (if last_update_of s \<noteq> 0 then
       day_of s \<le> day_of s' \<and>
       real (rate_of s') \<le> real (baseline_of s) * (51 / 50) ^ (day_of s' - day_of s + 1)
     else if list_ex is_update es then
       (\<exists>xs c ys s1. es = xs @ c # ys \<and> \<not> list_ex is_update xs \<and> is_update c \<and>
          run (oracle_step a) s (xs @ [c]) s1 \<and> day_of s1 \<le> day_of s' \<and>
          real (rate_of s') \<le> real (rate_of s1) * (51 / 50) ^ (day_of s' - day_of s1 + 1))
     else rate_of s' = rate_of s)"
  using oracle_run_rate_mono[OF assms(1)] oracle_run_growth[OF assms(1,2)]
    growth_from_first_update[OF assms(1,2) _ assms(3)] no_update_same_rate[OF assms(1)]
  by (simp add: growth_def)

theorem oracle_rate_growth_bound_witness:
  "rate_of oracle_0 \<le> rate_of (oracle_at rate_2 1014400) \<and>
   (\<exists>xs c ys s1. [update_call 1000000 rate_1, update_call 1014400 rate_2] = xs @ c # ys \<and>
      \<not> list_ex is_update xs \<and> is_update c \<and>
      run (oracle_step plain_api) oracle_0 (xs @ [c]) s1 \<and>
      day_of s1 \<le> day_of (oracle_at rate_2 1014400) \<and>
      real (rate_of (oracle_at rate_2 1014400)) \<le>
        real (rate_of s1) * (51 / 50) ^ (day_of (oracle_at rate_2 1014400) - day_of s1 + 1))"
proof -
  have "\<forall>c\<in>set [update_call 1000000 rate_1, update_call 1014400 rate_2]. 0 < call_time c"
    by (simp add: update_call_def call_time_def block_seconds_at)
  moreover have "last_update_of oracle_0 = 0" by (simp add: last_update_of_def oracle_0_def)
  moreover have "list_ex is_update [update_call 1000000 rate_1, update_call 1014400 rate_2]"
    by (simp add: is_update_def update_call_def)
  ultimately show ?thesis
    using oracle_rate_growth_bound[OF oracle_update_scenario oracle_0_inv] by (simp only: simp_thms if_True if_False)
qed

text \<open>
  C39: Two successful updates of a run, whatever happens between them, are at least four hours
  of block time apart.
\<close>

theorem oracle_updates_four_hours_apart:
  assumes "run (oracle_step a) s (c1 # cs @ [c2]) s'" and "is_update c1" and "is_update c2"
    and "0 < call_time c1"
  shows "call_time c1 + 4 * 60 * 60 \<le> call_time c2"
  using oracle_updates_spaced[OF assms] by simp

theorem oracle_updates_four_hours_apart_witness:
  "call_time (update_call 1000000 rate_1) + 4 * 60 * 60 \<le> call_time (update_call 1014400 rate_2)"
proof (rule oracle_updates_four_hours_apart)
  show "run (oracle_step plain_api) oracle_0 (update_call 1000000 rate_1 # [] @
      [update_call 1014400 rate_2]) (oracle_at rate_2 1014400)"
    using oracle_update_scenario by simp
qed (simp_all add: is_update_def update_call_def call_time_def block_seconds_at)

text \<open>
  C31: Every storage that calls can reach from an instantiation keeps the invariant: the
  configuration and the state exist, the rate and the baseline are positive, and once the
  rate was updated the stored day is that of the last update and the rate lies between the
  baseline and 2 percent above it.
\<close>

theorem oracle_reachable_invariant:
  assumes "oracle_instantiate a v e info m s = Ok (s0, r)" and "run (oracle_step a) s0 es s'"
  shows "\<exists>cfg st. o_config s' = Some cfg \<and> o_oracle_state s' = Some st \<and>
     0 < unat (os_rate st) \<and> 0 < unat (os_day_baseline_rate st) \<and>
     (if os_last_update_sec st = 0 then True
      else os_utc_day_id st = os_last_update_sec st div 86400 \<and>
           os_day_baseline_rate st \<le> os_rate st \<and>
           unat (os_rate st) * 10000 \<le> unat (os_day_baseline_rate st) * 10200)"
  using oracle_run_inv[OF assms(2) oracle_instantiate_inv[OF assms(1)]]
  by (auto simp: oracle_inv_def oracle_state_ok_def split: option.splits)

theorem oracle_reachable_invariant_witness:
  "\<exists>cfg st. o_config (oracle_at rate_2 1014400) = Some cfg \<and>
     o_oracle_state (oracle_at rate_2 1014400) = Some st \<and>
     0 < unat (os_rate st) \<and> 0 < unat (os_day_baseline_rate st) \<and>
     (if os_last_update_sec st = 0 then True
      else os_utc_day_id st = os_last_update_sec st div 86400 \<and>
           os_day_baseline_rate st \<le> os_rate st \<and>
           unat (os_rate st) * 10000 \<le> unat (os_day_baseline_rate st) * 10200)"
  by (rule oracle_reachable_invariant[OF oracle_instantiated oracle_update_scenario])

text \<open>
  When an address governs the oracle at the end of a run that neither governed it nor was
  nominated at the start, then the governance of some moment nominated it, and later that
  address itself accepted.
\<close>

theorem oracle_governance_in_two_steps:
  assumes "run (oracle_step a) s es s'" and "oracle_gov s' = Some x" and "oracle_gov s \<noteq> Some x"
    and "oracle_pend s \<noteq> Some x"
  shows "\<exists>xs c ys d zs s1. es = xs @ c # ys @ d # zs \<and> run (oracle_step a) s xs s1 \<and>
     oracle_gov s1 = Some (call_sender c) \<and> oracle_nominee a c = Some x \<and>
     call_msg d = oracle_execute_msg.AcceptGovernance \<and> call_sender d = x"
  using oracle_handover.handover[OF assms] unfolding oracle_accepts_def .

theorem oracle_governance_in_two_steps_witness:
  "\<exists>xs c ys d zs s1. [propose_call ''new'', accept_call ''new''] = xs @ c # ys @ d # zs \<and>
     run (oracle_step plain_api) oracle_0 xs s1 \<and>
     oracle_gov s1 = Some (call_sender c) \<and> oracle_nominee plain_api c = Some ''new'' \<and>
     call_msg d = oracle_execute_msg.AcceptGovernance \<and> call_sender d = ''new''"
  by (rule oracle_governance_in_two_steps[OF governance_scenario])
    (simp_all add: oracle_gov_views oracle_handed_over_def oracle_0_def)

text \<open>
  No message to the oracle aborts, whatever the storage, the sender and the block, as long
  as the host's address validation returns a value or an error.
\<close>

theorem oracle_never_aborts:
  assumes "\<And>x. addr_validate a x \<noteq> Panicked"
  shows "oracle_execute a e info m s \<noteq> Panicked"
  using assms
  by (cases m) (auto simp: oracle_execute_def execute_set_operator_def execute_set_paused_def
      execute_propose_gov_def execute_accept_gov_def panic_simps)

theorem oracle_never_aborts_witness:
  "oracle_execute plain_api (at_time 1014400) (sent_by ''op'') (UpdateRate rate_2)
     (oracle_at rate_1 1000000) \<noteq> Panicked"
  by (rule oracle_never_aborts) simp

text \<open>
  C3: The oracle contract implements the feed of published rates. From an instantiation, any
  run of calls by anybody makes a run of the feed: the publications of the run are all allowed
  ones, the four fields of the contract stand for the whole history, and the contract takes
  from its operator next exactly what the feed allows next (while the cap fits 128 bits).
\<close>

theorem oracle_refines_feed:
  assumes inst: "oracle_instantiate a v e info m s0 = Ok (s, r)"
    and run: "run (oracle_step a) s cs s'" and time: "\<forall>c\<in>set cs. 0 < call_time c"
  shows "let initial = unat (oi_initial_rate m); published = List.map_filter publication cs in
     run (publish initial) [] published (rev published) \<and>
     stands_for initial (rev published) s' \<and>
     (\<forall>cfg e2 info2 n. o_config s' = Some cfg \<and> \<not> oc_paused cfg \<and>
        sender info2 = oc_oracle_operator cfg \<longrightarrow>
        (\<exists>s2 r2. oracle_execute a e2 info2 (UpdateRate n) s' = Ok (s2, r2)) =
        (may_publish initial (rev published) (unat (block_seconds e2)) (unat n) \<and>
         cap_fits (rev published) (unat (block_seconds e2))))"
proof -
  from feed_refinement.run_simulated[OF run instantiated_stands_for[OF inst] time]
  obtain h where h: "run (publish (unat (oi_initial_rate m))) [] (List.map_filter publication cs) h"
    "stands_for (unat (oi_initial_rate m)) h s'" by auto
  moreover from publish_run[OF h(1)] have "h = rev (List.map_filter publication cs)" by simp
  ultimately show ?thesis unfolding Let_def using stands_for_next_update by blast
qed

theorem oracle_refines_feed_witness:
  "run (publish 1200000000000000000) []
     [(1000000, 1210000000000000000), (1014400, 1220000000000000000)]
     [(1014400, 1220000000000000000), (1000000, 1210000000000000000)] \<and>
   stands_for 1200000000000000000
     [(1014400, 1220000000000000000), (1000000, 1210000000000000000)] (oracle_at rate_2 1014400)"
proof -
  have p: "List.map_filter publication [update_call 1000000 rate_1, update_call 1014400 rate_2] =
      [(1000000, 1210000000000000000), (1014400, 1220000000000000000)]"
    by (simp add: List.map_filter_simps publication_def update_call_def call_time_def
        block_seconds_at rate_1_def rate_2_def)
  have t: "\<forall>c\<in>set [update_call 1000000 rate_1, update_call 1014400 rate_2]. 0 < call_time c"
    by (simp add: update_call_def call_time_def block_seconds_at)
  show ?thesis
    using oracle_refines_feed[OF oracle_instantiated oracle_update_scenario t] unfolding p Let_def
    by simp
qed

end
