(* ===== verification/Addresses.thy ===== *)
theory Addresses
  imports Transitions
begin

text \<open>
  The type \<open>Addr\<close> of the contracts. A string becomes an \<open>Addr\<close> only through
  \<open>addr_validate\<close>, or because the host names the caller; the type itself does not keep what
  was validated. This theory makes that promise explicit: which addresses a storage holds,
  which ones a response is sent to or pays, and that both stay validated over every run.
\<close>

section \<open>The promise\<close>

locale address_typing =
  fixes step :: "'c \<Rightarrow> 's \<Rightarrow> 's \<Rightarrow> bool"
    and stored :: "'s \<Rightarrow> addr set"
    and sent :: "'c \<Rightarrow> addr set"
    and caller :: "'c \<Rightarrow> addr"
    and valid :: "addr set"
  assumes stored_typed: "step c s s' \<Longrightarrow> stored s' \<subseteq> stored s \<union> valid"
    and sent_typed: "step c s s' \<Longrightarrow> sent c \<subseteq> stored s \<union> valid \<union> {caller c}"
begin

lemma run_typed:
  assumes "run step s cs s'" and "stored s \<subseteq> valid"
  shows "stored s' \<subseteq> valid \<and> (\<forall>c\<in>set cs. sent c \<subseteq> valid \<union> {caller c})"
  using assms
proof (induction rule: run.induct)
  case (run_cons c s s1 cs s')
  from stored_typed[OF run_cons.hyps(1)] run_cons.prems have "stored s1 \<subseteq> valid" by blast
  with run_cons.IH sent_typed[OF run_cons.hyps(1)] run_cons.prems show ?case by auto
qed simp

end

definition validated :: "'p api \<Rightarrow> addr set" where
  "validated a = {x. \<exists>raw. addr_validate a raw = Ok x}"

lemma validatedI: "addr_validate a raw = Ok x \<Longrightarrow> x \<in> validated a"
  by (auto simp: validated_def)

section \<open>Addresses in messages\<close>

fun cw20_addresses :: "cw20_execute_msg \<Rightarrow> addr set" where
  "cw20_addresses (Cw20Mint recipient _) = {recipient}"
| "cw20_addresses (Cw20Burn _) = {}"
| "cw20_addresses (Cw20Transfer recipient _) = {recipient}"

fun msg_addresses :: "('p \<Rightarrow> addr set) \<Rightarrow> 'p cosmos_msg \<Rightarrow> addr set" where
  "msg_addresses f (WasmExecute contract p _) = insert contract (f p)"
| "msg_addresses f (BankSend recipient _) = {recipient}"

definition sent_to :: "('p \<Rightarrow> addr set) \<Rightarrow> ('q, 'm, 'p) call \<Rightarrow> addr set" where
  "sent_to f c = (\<Union>m\<in>set (messages (call_response c)). msg_addresses f m)"

end
