(* ===== verification/Window_Addresses.thy ===== *)
theory Window_Addresses
  imports Addresses Window_Safety
begin

text \<open>Every address the oracle and the window store, or send a message to, is validated.\<close>

section \<open>The oracle\<close>

definition pending_addresses :: "pending_governance option \<Rightarrow> addr set" where
  "pending_addresses p = (case p of None \<Rightarrow> {} | Some p \<Rightarrow> {new_address p})"

definition oracle_addresses :: "oracle_storage \<Rightarrow> addr set" where
  "oracle_addresses s = (case o_config s of None \<Rightarrow> {}
     | Some cfg \<Rightarrow> {oc_governance cfg, oc_oracle_operator cfg}) \<union> pending_addresses (o_pending_governance s)"

lemmas address_defs = oracle_addresses_def pending_addresses_def sent_to_def

interpretation oracle_typing: address_typing
  "oracle_step a" oracle_addresses "sent_to (\<lambda>_. {})" call_sender "validated a" for a
proof unfold_locales
  fix c s s'
  assume st: "oracle_step a c s s'"
  then show "oracle_addresses s' \<subseteq> oracle_addresses s \<union> validated a"
    by (cases "call_msg c") (auto simp: oracle_step_def oracle_execute_def oracle_Ok_iffs
        address_defs validated_def split: option.splits)
  from st show "sent_to (\<lambda>_. {}) c \<subseteq> oracle_addresses s \<union> validated a \<union> {call_sender c}"
    by (cases "call_msg c")
      (auto simp: oracle_step_def oracle_execute_def oracle_Ok_iffs address_defs add_attribute_def
        new_response_def)
qed

section \<open>The window\<close>

fun payload_addresses :: "window_payload \<Rightarrow> addr set" where
  "payload_addresses (Cw20Payload m) = cw20_addresses m"
| "payload_addresses (TreasuryPayload (InstantWithdrawCw20 recipient token _)) = {recipient, token}"

definition window_addresses :: "window_storage \<Rightarrow> addr set" where
  "window_addresses s = (case w_config s of None \<Rightarrow> {}
     | Some cfg \<Rightarrow> {wc_governance cfg, wc_oracle cfg, wc_vfdusd_token cfg, wc_cmm_treasury cfg,
         wc_ust1_token cfg}) \<union> pending_addresses (w_pending_governance s)"

lemma window_admin_addresses:
  assumes "window_step a fj c s s'" and "\<forall>m. call_msg c \<noteq> Receive m"
  shows "window_addresses s' \<subseteq> window_addresses s \<union> validated a"
  using assms
  by (cases "call_msg c")
    (auto simp: window_step_def window_execute_def window_admin_Ok_iffs window_addresses_def
      pending_addresses_def validated_def split: option.splits dest!: exec_set_fee_bps_Ok)

lemma receive_addresses:
  assumes "window_step a fj c s s'" and "call_msg c = Receive m"
  shows "sent_to payload_addresses c \<subseteq> window_addresses s \<union> validated a"
proof -
  from assms obtain cfg where cfg: "w_config s = Some cfg"
    by (auto simp: window_step_def window_execute_def receive_cw20_Ok_iff)
  note defs = sent_to_def window_addresses_def cfg
  show ?thesis
  proof (cases "call_sender c = wc_vfdusd_token cfg")
    case True
    from deposit_call_swap[OF assms cfg this] validatedI show ?thesis
      by (fastforce simp: defs deposit_swap_def)
  next
    case False
    from withdraw_call_swap[OF assms cfg this] validatedI show ?thesis
      by (fastforce simp: defs withdraw_swap_def)
  qed
qed

interpretation window_typing: address_typing
  "window_step a fj" window_addresses "sent_to payload_addresses" call_sender "validated a" for a fj
proof unfold_locales
  fix c s s'
  assume st: "window_step a fj c s s'"
  show "window_addresses s' \<subseteq> window_addresses s \<union> validated a"
    using st
  proof (cases rule: window_step_cases)
    case (admin cfg cfg')
    with window_admin_addresses[OF st] show ?thesis by blast
  qed (auto simp: window_addresses_def)
  show "sent_to payload_addresses c \<subseteq> window_addresses s \<union> validated a \<union> {call_sender c}"
  proof (cases "\<exists>m. call_msg c = Receive m")
    case True
    with receive_addresses[OF st] show ?thesis by blast
  next
    case False
    from st show ?thesis
      by (cases rule: window_step_cases) (use False in \<open>auto simp: sent_to_def\<close>)
  qed
qed

lemma window_instantiate_addresses:
  "window_instantiate a q v e info m window_empty = Ok (s, r) \<Longrightarrow> window_addresses s \<subseteq> validated a"
  by (drule window_instantiate_Ok)
    (auto simp: window_addresses_def pending_addresses_def window_empty_def validated_def)

end
