(* ===== verification/Window_Properties.thy ===== *)
theory Window_Properties
  imports Window_Scenario Window_Addresses
begin

text \<open>
  The properties of the swap window and of its arithmetic, each with a witness on the
  concrete deployment.
\<close>

section \<open>Limits of a swap\<close>

definition window_counter :: "rolling_volume \<Rightarrow> nat \<times> nat" where
  "window_counter r = (unat (rv_window_start_sec r), unat (rv_volume_ust1 r))"

lemma window_limits_counted:
  assumes "window_ensure_limits (call_env c) roll cfg n = Ok roll'"
  shows "window_counter roll' = counted (call_time c) (window_counter roll) (unat n)"
    and "n \<le> wc_per_tx_ust1_limit cfg"
    and "rv_volume_ust1 roll' \<le> wc_rolling_24h_ust1_limit cfg"
  using passes_limits_counted[OF assms[unfolded window_ensure_limits_Ok_iff window_limits_pass_def]]
  by (simp_all add: window_counter_def call_time_def)

section \<open>Swaps\<close>

text \<open>
  C5: A deposit that goes through was priced by a fresh oracle answer and kept to the limits.
  Before the fee it is worth \<open>floor(x * R / 10^18)\<close> UST1; it mints to the sender that amount
  times \<open>(10000 - fee) / 10000\<close>, rounded down and never zero, and forwards all of the vFDUSD it
  took to the treasury. The response holds these two messages and the attributes of the fee and
  nothing else. Of the storage only the counter changes: it restarts with the minted amount
  when it never started or is 24 hours old, else the minted amount is added to it.
\<close>

theorem deposit_outcome:
  assumes "window_step a fj c s s'" and "call_msg c = Receive m" and "w_config s = Some cfg"
    and "call_sender c = wc_vfdusd_token cfg"
  shows "\<exists>os user before out roll roll'.
     query_oracle_state (call_querier c) (wc_oracle cfg) = Ok os \<and>
     oracle_usable (call_env c) os (wc_max_oracle_age_sec cfg) \<and> \<not> wc_paused cfg \<and>
     addr_validate a (cw20_sender m) = Ok user \<and>
     before = unat (cw20_amount m) * unat (sr_rate os) div 10 ^ 18 \<and>
     unat out = before * (10000 - unat (wc_fee_bps cfg)) div 10000 \<and> out \<noteq> 0 \<and>
     call_response c = \<lparr>
       messages =
         [WasmExecute (wc_ust1_token cfg) (Cw20Payload (Cw20Mint user out)) [],
          WasmExecute (wc_vfdusd_token cfg)
            (Cw20Payload (Cw20Transfer (wc_cmm_treasury cfg) (cw20_amount m))) []],
       attributes =
         [(''action'', ''deposit''), (''ust1_out'', show_nat (unat out)),
          (''vfdusd_to_treasury'', show_nat (unat (cw20_amount m))),
          (''fee_total_bps'', show_nat (unat (wc_fee_bps cfg))),
          (''fee_chain_tax_bps'', show_nat (unat (wc_fee_bps cfg) div 2)),
          (''fee_cmm_protocol_bps'', show_nat (unat (wc_fee_bps cfg) - unat (wc_fee_bps cfg) div 2)),
          (''fee_amount'', show_nat (before - unat out)), (''fee_asset'', wc_ust1_token cfg)]\<rparr> \<and>
     w_rolling s = Some roll \<and> s' = s\<lparr>w_rolling := Some roll'\<rparr> \<and>
     window_counter roll' = counted (call_time c) (window_counter roll) (unat out) \<and>
     out \<le> wc_per_tx_ust1_limit cfg \<and> rv_volume_ust1 roll' \<le> wc_rolling_24h_ust1_limit cfg"
proof -
  from deposit_call_swap[OF assms] obtain user os before out fee where
    u: "\<not> wc_paused cfg" "addr_validate a (cw20_sender m) = Ok user"
    and d: "deposit_swap a (call_querier c) (call_env c) cfg user (cw20_amount m) s s'
       (call_response c) os before out fee" by blast
  from d obtain roll roll' where r: "w_rolling s = Some roll" "s' = s\<lparr>w_rolling := Some roll'\<rparr>"
    "window_ensure_limits (call_env c) roll cfg out = Ok roll'"
    unfolding deposit_swap_def by blast
  from d have q: "unat before = unat (cw20_amount m) * unat (sr_rate os) div 10 ^ 18"
      "unat out = unat before * (10000 - unat (wc_fee_bps cfg)) div 10000"
    unfolding deposit_swap_def vfdusd_to_ust1_before_fee_Ok_iff apply_fee_ust1_Ok_iff by blast+
  from d have "unat fee = unat before - unat out"
    unfolding deposit_swap_def by (simp add: unat_sub)
  with d u q r window_limits_counted[OF r(3)] show ?thesis
    unfolding deposit_swap_def response_eq_iff fee_halves
    by (intro exI[of _ os] exI[of _ user] exI[of _ "unat before"] exI[of _ out] exI[of _ roll]
        exI[of _ roll']) simp
qed

theorem deposit_outcome_witness:
  "\<exists>os user before out roll roll'.
     query_oracle_state (call_querier deposit_call) ''oracle'' = Ok os \<and>
     oracle_usable (call_env deposit_call) os (wc_max_oracle_age_sec window_cfg) \<and>
     \<not> wc_paused window_cfg \<and> addr_validate (plain_api :: window_payload api) ''alice'' = Ok user \<and>
     before = 1000000 * unat (sr_rate os) div 10 ^ 18 \<and>
     unat out = before * (10000 - unat (wc_fee_bps window_cfg)) div 10000 \<and> out \<noteq> 0 \<and>
     messages (call_response deposit_call) =
       [WasmExecute ''ust1'' (Cw20Payload (Cw20Mint user out)) [],
        WasmExecute ''vfdusd'' (Cw20Payload (Cw20Transfer ''treasury'' 1000000)) []] \<and>
     w_rolling (window_at 0 0) = Some roll \<and>
     window_at 1014500 1207800 = (window_at 0 0)\<lparr>w_rolling := Some roll'\<rparr> \<and>
     window_counter roll' = counted (call_time deposit_call) (window_counter roll) (unat out) \<and>
     out \<le> wc_per_tx_ust1_limit window_cfg \<and>
     rv_volume_ust1 roll' \<le> wc_rolling_24h_ust1_limit window_cfg"
proof -
  have w: "w_config (window_at 0 0) = Some window_cfg" by (simp add: window_at_def)
  have c: "call_msg deposit_call = Receive \<lparr>cw20_sender = ''alice'', cw20_amount = 1000000,
      cw20_msg = ''deposit''\<rparr>" "call_sender deposit_call = wc_vfdusd_token window_cfg"
    by (simp_all add: deposit_call_def receive_call_def call_sender_def window_cfg_def)
  from deposit_outcome[OF window_deposit c(1) w c(2)] show ?thesis
    by (elim exE conjE) (intro exI conjI, (assumption | simp add: window_cfg_def)+)
qed

text \<open>
  C4: A withdrawal that goes through was priced by a fresh oracle answer and kept to the limits.
  It burns all of the UST1 it took and pays the sender, from the treasury, what is left after
  the fee, \<open>floor(g * (10000 - fee) / 10000)\<close>, times \<open>10^18 / R\<close>, rounded down: positive, at
  least the sender's minimum and at most the treasury's balance. The response holds these two
  messages and the attributes of the fee and nothing else. Of the storage only the counter
  changes: it restarts with the gross amount when it never started or is 24 hours old, else the
  gross amount is added to it.
\<close>

theorem withdraw_outcome:
  assumes "window_step a fj c s s'" and "call_msg c = Receive m" and "w_config s = Some cfg"
    and "call_sender c \<noteq> wc_vfdusd_token cfg"
  shows "\<exists>os user min_out after v bal roll roll'.
     call_sender c = wc_ust1_token cfg \<and> \<not> wc_paused cfg \<and>
     query_oracle_state (call_querier c) (wc_oracle cfg) = Ok os \<and>
     oracle_usable (call_env c) os (wc_max_oracle_age_sec cfg) \<and>
     addr_validate a (cw20_sender m) = Ok user \<and> fj (cw20_msg m) = Ok (Withdraw min_out) \<and>
     query_cw20_balance (call_querier c) (wc_vfdusd_token cfg) (wc_cmm_treasury cfg) = Ok bal \<and>
     after = unat (cw20_amount m) * (10000 - unat (wc_fee_bps cfg)) div 10000 \<and>
     unat v = after * 10 ^ 18 div unat (sr_rate os) \<and>
     v \<noteq> 0 \<and> min_out \<le> v \<and> v \<le> bal \<and>
     call_response c = \<lparr>
       messages =
         [WasmExecute (wc_ust1_token cfg) (Cw20Payload (Cw20Burn (cw20_amount m))) [],
          WasmExecute (wc_cmm_treasury cfg)
            (TreasuryPayload (InstantWithdrawCw20 user (wc_vfdusd_token cfg) v)) []],
       attributes =
         [(''action'', ''withdraw''), (''vfdusd_out'', show_nat (unat v)),
          (''fee_total_bps'', show_nat (unat (wc_fee_bps cfg))),
          (''fee_chain_tax_bps'', show_nat (unat (wc_fee_bps cfg) div 2)),
          (''fee_cmm_protocol_bps'', show_nat (unat (wc_fee_bps cfg) - unat (wc_fee_bps cfg) div 2)),
          (''fee_amount'', show_nat (unat (cw20_amount m) - after)),
          (''fee_asset'', wc_ust1_token cfg)]\<rparr> \<and>
     w_rolling s = Some roll \<and> s' = s\<lparr>w_rolling := Some roll'\<rparr> \<and>
     window_counter roll' = counted (call_time c) (window_counter roll) (unat (cw20_amount m)) \<and>
     cw20_amount m \<le> wc_per_tx_ust1_limit cfg \<and>
     rv_volume_ust1 roll' \<le> wc_rolling_24h_ust1_limit cfg"
proof -
  from withdraw_call_swap[OF assms] obtain user min_out os after v fee bal where
    u: "call_sender c = wc_ust1_token cfg" "\<not> wc_paused cfg"
      "addr_validate a (cw20_sender m) = Ok user" "fj (cw20_msg m) = Ok (Withdraw min_out)"
    and d: "withdraw_swap a (call_querier c) (call_env c) cfg user (cw20_amount m) min_out s s'
       (call_response c) os after v fee bal" by blast
  from d obtain roll roll' where r: "w_rolling s = Some roll" "s' = s\<lparr>w_rolling := Some roll'\<rparr>"
    "window_ensure_limits (call_env c) roll cfg (cw20_amount m) = Ok roll'"
    unfolding withdraw_swap_def by blast
  from d have q: "unat after = unat (cw20_amount m) * (10000 - unat (wc_fee_bps cfg)) div 10000"
      "unat v = unat after * 10 ^ 18 div unat (sr_rate os)"
    unfolding withdraw_swap_def ust1_after_fee_to_vfdusd_Ok_iff apply_fee_ust1_Ok_iff by blast+
  from d have "unat fee = unat (cw20_amount m) - unat after"
    unfolding withdraw_swap_def by (simp add: unat_sub)
  with d u q r window_limits_counted[OF r(3)] show ?thesis
    unfolding withdraw_swap_def response_eq_iff fee_halves
    by (intro exI[of _ os] exI[of _ user] exI[of _ min_out] exI[of _ "unat after"] exI[of _ v]
        exI[of _ bal] exI[of _ roll] exI[of _ roll']) simp
qed

theorem withdraw_outcome_witness:
  "\<exists>os user min_out after v bal roll roll'.
     call_sender withdraw_call = ''ust1'' \<and> \<not> wc_paused window_cfg \<and>
     query_oracle_state (call_querier withdraw_call) ''oracle'' = Ok os \<and>
     oracle_usable (call_env withdraw_call) os (wc_max_oracle_age_sec window_cfg) \<and>
     addr_validate (plain_api :: window_payload api) ''alice'' = Ok user \<and>
     hook_json ''withdraw'' = Ok (Withdraw min_out) \<and>
     query_cw20_balance (call_querier withdraw_call) ''vfdusd'' ''treasury'' = Ok bal \<and>
     after = 1000000 * (10000 - unat (wc_fee_bps window_cfg)) div 10000 \<and>
     unat v = after * 10 ^ 18 div unat (sr_rate os) \<and> v \<noteq> 0 \<and> min_out \<le> v \<and> v \<le> bal \<and>
     messages (call_response withdraw_call) =
       [WasmExecute ''ust1'' (Cw20Payload (Cw20Burn 1000000)) [],
        WasmExecute ''treasury'' (TreasuryPayload (InstantWithdrawCw20 user ''vfdusd'' v)) []] \<and>
     w_rolling (window_at 1014500 1207800) = Some roll \<and>
     window_at 1014500 2207800 = (window_at 1014500 1207800)\<lparr>w_rolling := Some roll'\<rparr> \<and>
     window_counter roll' = counted (call_time withdraw_call) (window_counter roll) 1000000 \<and>
     rv_volume_ust1 roll' \<le> wc_rolling_24h_ust1_limit window_cfg"
proof -
  have w: "w_config (window_at 1014500 1207800) = Some window_cfg" by (simp add: window_at_def)
  have c: "call_msg withdraw_call = Receive \<lparr>cw20_sender = ''alice'', cw20_amount = 1000000,
      cw20_msg = ''withdraw''\<rparr>" "call_sender withdraw_call \<noteq> wc_vfdusd_token window_cfg"
    by (simp_all add: withdraw_call_def receive_call_def call_sender_def window_cfg_def)
  from withdraw_outcome[OF window_withdraw c(1) w c(2)] show ?thesis
    by (elim exE conjE) (intro exI conjI, (assumption | simp add: window_cfg_def)+)
qed

text \<open>
  C17: No swap goes through on a paused window, with a paused or never updated oracle, or with
  an oracle answer older than the configured age, whatever the message and the sender.
\<close>

theorem swap_fails_closed:
  assumes "w_config s = Some cfg"
    and "wc_paused cfg \<or> (\<forall>os. \<not> (query_oracle_state q (wc_oracle cfg) = Ok os \<and>
           oracle_usable e os (wc_max_oracle_age_sec cfg)))"
  shows "\<nexists>s' r. receive_cw20 a fj q e info m s = Ok (s', r)"
proof
  assume "\<exists>s' r. receive_cw20 a fj q e info m s = Ok (s', r)"
  then obtain s' r where "window_step a fj \<lparr>call_querier = q, call_env = e, call_info = info,
      call_msg = Receive m, call_response = r\<rparr> s s'"
    by (auto simp: window_step_def window_execute_def)
  from swap_needs_usable_oracle[OF this] assms show False
    by (auto simp: is_receive_def)
qed

theorem swap_fails_closed_witness:
  "\<nexists>s' r. receive_cw20 plain_api hook_json (system_querier (oracle_at rate_2 1014400) 0)
     (at_time 1040000) (sent_by ''vfdusd'')
     \<lparr>cw20_sender = ''alice'', cw20_amount = 1000000, cw20_msg = ''deposit''\<rparr> (window_at 0 0) = Ok (s', r)"
  by (rule swap_fails_closed[OF window_at_config])
    (simp add: query_oracle_2 oracle_usable_def block_seconds_at window_cfg_def)

section \<open>Runs of the window\<close>

text \<open>
  C16: In any run within a span of 24 hours in which governance does not change the limits, no
  call exceeds the limit of a transaction and the volumes minted and burned add up to at most
  twice the 24 hour limit.
\<close>

theorem window_span_limit:
  assumes "run (window_step a fj) s es s'" and "\<And>c. c \<in> set es \<Longrightarrow> \<not> window_sets_limits c"
    and "\<And>c. c \<in> set es \<Longrightarrow> 0 < call_time c \<and> t0 \<le> call_time c \<and> call_time c < t0 + 86400"
    and "window_volume s \<le> window_cap s"
  shows "sum_list (map window_spent es) + window_volume s \<le> 2 * window_cap s"
  using window_limits.span_total[OF assms] .

theorem window_span_limit_witness:
  "sum_list (map window_spent [deposit_call, withdraw_call]) + window_volume (window_at 0 0) \<le>
     2 * window_cap (window_at 0 0)"
proof (rule window_span_limit)
  show "run (window_step plain_api hook_json) (window_at 0 0) [deposit_call, withdraw_call]
      (window_at 1014500 2207800)"
    using window_deposit window_withdraw by (auto simp: run_cons_iff)
  show "0 < call_time c \<and> 1014500 \<le> call_time c \<and> call_time c < 1014500 + 86400"
    if "c \<in> set [deposit_call, withdraw_call]" for c
    using that by (auto simp: deposit_call_def withdraw_call_def receive_call_def call_time_def
        block_seconds_at)
  show "window_volume (window_at 0 0) \<le> window_cap (window_at 0 0)"
    by (simp add: window_volume_def window_cap_def window_at_def)
qed (auto simp: window_sets_limits_def deposit_call_def withdraw_call_def receive_call_def)

text \<open>
  In a run of calls that all fall into the current volume window, the volumes minted and
  burned never add up to more than the 24 hour limit.
\<close>

theorem window_same_window_limit:
  assumes "run (window_step a fj) s es s'" and "window_start s \<noteq> 0"
    and "\<And>c. c \<in> set es \<Longrightarrow> \<not> window_sets_limits c"
    and "\<And>c. c \<in> set es \<Longrightarrow> call_time c < window_start s + 86400"
    and "window_volume s \<le> window_cap s"
  shows "sum_list (map window_spent es) + window_volume s \<le> window_cap s"
  using window_limits.same_window_total[OF assms] .

theorem window_same_window_limit_witness:
  "sum_list (map window_spent [withdraw_call]) + window_volume (window_at 1014500 1207800) \<le>
     window_cap (window_at 1014500 1207800)"
proof (rule window_same_window_limit)
  show "run (window_step plain_api hook_json) (window_at 1014500 1207800) [withdraw_call]
      (window_at 1014500 2207800)"
    using window_withdraw by (auto simp: run_cons_iff)
qed (auto simp: window_sets_limits_def withdraw_call_def receive_call_def call_time_def
    block_seconds_at window_start_def window_volume_def window_cap_def window_at_def window_cfg_def)

text \<open>
  C32: From an instantiation, whatever calls follow, the fee stays at most 100 percent, the
  maximal oracle age at least four hours, and the oracle, the two tokens and the treasury are
  the validated addresses of the instantiation message.
\<close>

theorem window_reachable_invariant:
  assumes "window_instantiate a q v e info m s = Ok (s0, r)" and "run (window_step a fj) s0 es s'"
  shows "\<exists>cfg. w_config s' = Some cfg \<and> unat (wc_fee_bps cfg) \<le> 10000 \<and>
     14400 \<le> unat (wc_max_oracle_age_sec cfg) \<and>
     addr_validate a (wi_oracle m) = Ok (wc_oracle cfg) \<and>
     addr_validate a (wi_vfdusd_token m) = Ok (wc_vfdusd_token cfg) \<and>
     addr_validate a (wi_ust1_token m) = Ok (wc_ust1_token cfg) \<and>
     addr_validate a (cmm_treasury_raw m) = Ok (wc_cmm_treasury cfg)"
proof -
  from window_instantiate_Ok[OF assms(1)] obtain cfg0 where c0: "w_config s0 = Some cfg0"
    "addr_validate a (wi_oracle m) = Ok (wc_oracle cfg0)"
    "addr_validate a (wi_vfdusd_token m) = Ok (wc_vfdusd_token cfg0)"
    "addr_validate a (wi_ust1_token m) = Ok (wc_ust1_token cfg0)"
    "addr_validate a (cmm_treasury_raw m) = Ok (wc_cmm_treasury cfg0)" by blast
  from window_run_same_wiring[OF assms(2) c0(1)] obtain cfg where
    "w_config s' = Some cfg" "same_wiring cfg0 cfg" by blast
  with c0 window_run_inv[OF assms(2) window_instantiate_inv[OF assms(1)]] show ?thesis
    by (simp add: same_wiring_def window_inv_def window_config_ok_def)
qed

definition window_msg :: window_instantiate_msg where
  "window_msg = \<lparr>wi_governance = ''gov'', wi_oracle = ''oracle'', wi_vfdusd_token = ''vfdusd'',
     wi_cmm_treasury = Some ''treasury'', wi_ust1_token = ''ust1'', wi_fee_bps = 100,
     wi_per_tx_ust1_limit = 1000000000, wi_rolling_24h_ust1_limit = 10000000000,
     wi_max_oracle_age_sec = None\<rparr>"

lemma window_instantiated_by:
  assumes "\<forall>x\<in>{''gov'', ''oracle'', ''vfdusd'', ''treasury'', ''ust1''}. addr_validate a x = Ok x"
  shows "window_instantiate a (system_querier oracle_0 0) ''0.1.0'' (at_time 1000000)
     (sent_by ''deployer'') window_msg window_empty =
   Ok (window_at 0 0, add_attribute ''action'' ''instantiate'' new_response)"
proof -
  have "cmm_treasury_raw window_msg = ''treasury''"
    by (simp add: cmm_treasury_raw_def window_msg_def) code_simp
  with assms show ?thesis
    by (simp add: window_instantiate_def window_set_contract_version_def window_empty_def
        window_at_def window_cfg_def validate_max_oracle_age_sec_def validate_token_decimals_def
        query_cw20_token_info_def system_querier_def Let_def BPS_DENOM_def
        MIN_ORACLE_UPDATE_INTERVAL_SECS_def)
      (simp add: window_msg_def DEFAULT_MAX_ORACLE_AGE_SECS_def)
qed

lemmas window_instantiated = window_instantiated_by[of plain_api, simplified]

theorem window_reachable_invariant_witness:
  "\<exists>cfg. w_config (window_at 1014500 1207800) = Some cfg \<and> unat (wc_fee_bps cfg) \<le> 10000 \<and>
     14400 \<le> unat (wc_max_oracle_age_sec cfg) \<and>
     addr_validate (plain_api :: window_payload api) (wi_oracle window_msg) = Ok (wc_oracle cfg) \<and>
     addr_validate (plain_api :: window_payload api) (wi_vfdusd_token window_msg) =
       Ok (wc_vfdusd_token cfg) \<and>
     addr_validate (plain_api :: window_payload api) (wi_ust1_token window_msg) =
       Ok (wc_ust1_token cfg) \<and>
     addr_validate (plain_api :: window_payload api) (cmm_treasury_raw window_msg) =
       Ok (wc_cmm_treasury cfg)"
proof (rule window_reachable_invariant[OF window_instantiated])
  show "run (window_step plain_api hook_json) (window_at 0 0) [deposit_call] (window_at 1014500 1207800)"
    using window_deposit by (simp add: run_cons_iff)
qed

text \<open>
  C34: In a storage that keeps the invariant no message aborts, as long as the host's own
  functions do not: no checked operation of the model runs over, for any amounts, rates and
  block times.
\<close>

theorem window_never_aborts:
  assumes "host_total a fj q" and "window_inv s"
  shows "window_execute a fj q e info m s \<noteq> Panicked"
  using window_execute_no_panic[OF assms] .

theorem window_never_aborts_witness:
  "window_execute plain_api hook_json (system_querier (oracle_at rate_2 1014400) 0)
     (at_time 1014500) (sent_by ''vfdusd'')
     (Receive \<lparr>cw20_sender = ''alice'', cw20_amount = - 1, cw20_msg = ''deposit''\<rparr>) (window_at 0 0)
   \<noteq> Panicked"
proof (rule window_never_aborts)
  show "host_total plain_api hook_json (system_querier (oracle_at rate_2 1014400) 0)"
    by (simp add: host_total_def hook_json_def system_querier_def oracle_query_state_def
        oracle_at_def oracle_0_def)
  show "window_inv (window_at 0 0)" by (rule window_instantiate_inv[OF window_instantiated])
qed

text \<open>
  Governance of the window changes hands only by a nomination that the governance of some
  moment made and a later acceptance by the nominee itself.
\<close>

definition window_gov_call :: "addr \<Rightarrow> window_execute_msg \<Rightarrow> string \<Rightarrow> window_call" where
  "window_gov_call x msg act = \<lparr>call_querier = system_querier oracle_0 0,
     call_env = at_time 1014500, call_info = sent_by x, call_msg = msg,
     call_response = add_attribute ''action'' act new_response\<rparr>"

definition window_gov_calls :: "window_call list" where
  "window_gov_calls =
     [window_gov_call ''gov'' (ProposeGovernance ''new'') ''propose_governance'',
      window_gov_call ''new'' AcceptGovernance ''accept_governance'']"

definition window_new_gov :: window_storage where
  "window_new_gov = (window_at 0 0)\<lparr>w_config := Some (window_cfg\<lparr>wc_governance := ''new''\<rparr>)\<rparr>"

theorem window_governance_in_two_steps:
  assumes "run (window_step a fj) s es s'" and "window_gov s' = Some x"
    and "window_gov s \<noteq> Some x" and "window_pend s \<noteq> Some x"
  shows "\<exists>xs c ys d zs s1. es = xs @ c # ys @ d # zs \<and> run (window_step a fj) s xs s1 \<and>
     window_gov s1 = Some (call_sender c) \<and> window_nominee a c = Some x \<and>
     call_msg d = AcceptGovernance \<and> call_sender d = x"
  using window_handover.handover[OF assms] unfolding window_accepts_def .

theorem window_governance_in_two_steps_witness:
  "\<exists>xs c ys d zs s1. window_gov_calls = xs @ c # ys @ d # zs \<and>
     run (window_step plain_api hook_json) (window_at 0 0) xs s1 \<and>
     window_gov s1 = Some (call_sender c) \<and> window_nominee plain_api c = Some ''new'' \<and>
     call_msg d = AcceptGovernance \<and> call_sender d = ''new''"
proof (rule window_governance_in_two_steps)
  show "run (window_step plain_api hook_json) (window_at 0 0) window_gov_calls window_new_gov"
    by (simp add: window_gov_calls_def window_gov_call_def run_cons_iff window_step_def
        window_execute_def exec_propose_gov_def exec_accept_gov_def window_new_gov_def
        window_at_def window_cfg_def)
qed (simp_all add: window_gov_views window_new_gov_def window_at_def window_cfg_def)

section \<open>Addresses\<close>

text \<open>
  C18: Addresses keep their type: from an instantiation on an empty storage, whatever calls
  follow, every address the window stores (in its configuration, and the nominee) is one that
  address validation returned, and so is every address that a call sends a message to, has
  tokens minted or transferred to, or orders a withdrawal for, the caller of that call apart.
\<close>

theorem window_addresses_validated:
  assumes "window_instantiate a q v e info m window_empty = Ok (s0, r)"
    and "run (window_step a fj) s0 cs s'"
  shows "window_addresses s' \<subseteq> validated a \<and>
     (\<forall>c\<in>set cs. sent_to payload_addresses c \<subseteq> validated a \<union> {call_sender c})"
  using window_typing.run_typed[OF assms(2) window_instantiate_addresses[OF assms(1)]] .

definition lower_api :: "'p api" where
  "lower_api = \<lparr>addr_validate = (\<lambda>x. if list_all (\<lambda>c. \<not> is_upper c) x then Ok x
       else Err (GenericErr ''Address is not normalized'')), json_error = (\<lambda>_. None)\<rparr>"

lemma lower_api_simps:
  "addr_validate lower_api ''gov'' = Ok ''gov''" "addr_validate lower_api ''new'' = Ok ''new''"
  "addr_validate lower_api ''oracle'' = Ok ''oracle''"
  "addr_validate lower_api ''vfdusd'' = Ok ''vfdusd''"
  "addr_validate lower_api ''treasury'' = Ok ''treasury''"
  "addr_validate lower_api ''ust1'' = Ok ''ust1''"
  by (simp_all add: lower_api_def) code_simp+

theorem window_addresses_validated_witness:
  "window_addresses window_new_gov \<subseteq> validated (lower_api :: window_payload api) \<and>
   sent_to payload_addresses (hd window_gov_calls) \<subseteq>
     validated (lower_api :: window_payload api) \<union> {call_sender (hd window_gov_calls)}"
proof -
  have "window_instantiate lower_api (system_querier oracle_0 0) ''0.1.0'' (at_time 1000000)
     (sent_by ''deployer'') window_msg window_empty =
   Ok (window_at 0 0, add_attribute ''action'' ''instantiate'' new_response)"
    by (rule window_instantiated_by) (simp add: lower_api_simps)
  moreover have "run (window_step lower_api hook_json) (window_at 0 0) window_gov_calls window_new_gov"
    by (simp add: window_gov_calls_def window_gov_call_def run_cons_iff window_step_def
        window_execute_def exec_propose_gov_def exec_accept_gov_def window_new_gov_def
        window_at_def window_cfg_def lower_api_simps)
  moreover have "hd window_gov_calls \<in> set window_gov_calls" by (simp add: window_gov_calls_def)
  ultimately show ?thesis using window_addresses_validated by blast
qed

section \<open>The arithmetic of a swap\<close>

text \<open>
  C35: Nobody gains by depositing and withdrawing again: whatever the fees, at the same or a
  higher rate, withdrawing no more UST1 than the deposit minted returns no more vFDUSD than
  the deposit took.
\<close>

theorem deposit_withdraw_no_gain:
  assumes "deposit_vfdusd_to_ust1 x R f = Ok out"
    and "withdraw_gross_ust1_to_vfdusd g R' f' = Ok v" and "g \<le> out" and "R \<le> R'"
  shows "v \<le> x"
  using deposit_then_withdraw_le[OF assms] assms(2)
  by (auto simp: withdraw_gross_ust1_to_vfdusd_def ust1_after_fee_to_vfdusd_def
      and_then_Ok_iff word_neq_0_conv split: if_splits)

theorem deposit_withdraw_no_gain_witness: "(801656 :: u128) \<le> 1000000"
proof (rule deposit_withdraw_no_gain)
  show "deposit_vfdusd_to_ust1 1000000 rate_2 100 = Ok 1207800"
    by (simp add: deposit_vfdusd_to_ust1_def deposit_quote)
  show "withdraw_gross_ust1_to_vfdusd 987900 rate_2 100 = Ok 801656"
    by (simp add: withdraw_gross_ust1_to_vfdusd_Ok_iff withdraw_amount_def rate_2_def)
qed simp_all

text \<open>
  Nobody gains by withdrawing and depositing again at the same or a lower rate: the
  deposit mints no more UST1 than the withdrawal burned.
\<close>

theorem withdraw_deposit_no_gain:
  assumes "withdraw_gross_ust1_to_vfdusd g R f = Ok v" and "deposit_vfdusd_to_ust1 v R' f' = Ok out"
    and "R' \<le> R"
  shows "out \<le> g"
  using withdraw_then_deposit_le[OF assms] .

theorem withdraw_deposit_no_gain_witness: "(980099 :: u128) \<le> 1000000"
proof (rule withdraw_deposit_no_gain)
  show "withdraw_gross_ust1_to_vfdusd 1000000 rate_2 100 = Ok 811475"
    by (simp add: withdraw_gross_ust1_to_vfdusd_def withdraw_ust1_after_fee_def withdraw_quote)
  show "deposit_vfdusd_to_ust1 811475 rate_2 100 = Ok 980099"
    by (simp add: deposit_vfdusd_to_ust1_Ok_iff deposit_amount_def rate_2_def)
qed simp

text \<open>
  Splitting an amount never pays: two deposits, or two withdrawals, at the same rate and
  fee together yield at most what one of the whole amount yields.
\<close>

theorem splitting_never_pays:
  assumes "deposit_vfdusd_to_ust1 x R f = Ok a" and "deposit_vfdusd_to_ust1 y R f = Ok b"
    and "deposit_vfdusd_to_ust1 xy R f = Ok c" and "unat xy = unat x + unat y"
    and "withdraw_gross_ust1_to_vfdusd g R f = Ok u" and "withdraw_gross_ust1_to_vfdusd h R f = Ok v"
    and "withdraw_gross_ust1_to_vfdusd gh R f = Ok w" and "unat gh = unat g + unat h"
  shows "unat a + unat b \<le> unat c \<and> unat u + unat v \<le> unat w"
  using assms deposit_amount_superadd withdraw_amount_superadd
  by (simp add: deposit_amount_eq withdraw_amount_eq)

theorem splitting_never_pays_witness:
  "unat (2 :: u128) + unat (3 :: u128) \<le> unat (7 :: u128) \<and>
   unat (1 :: u128) + unat (2 :: u128) \<le> unat (4 :: u128)"
proof (rule splitting_never_pays)
  show "deposit_vfdusd_to_ust1 3 rate_2 100 = Ok 2" "deposit_vfdusd_to_ust1 4 rate_2 100 = Ok 3"
    "deposit_vfdusd_to_ust1 7 rate_2 100 = Ok 7"
    by (simp_all add: deposit_vfdusd_to_ust1_Ok_iff deposit_amount_def rate_2_def)
  show "withdraw_gross_ust1_to_vfdusd 3 rate_2 100 = Ok 1"
    "withdraw_gross_ust1_to_vfdusd 4 rate_2 100 = Ok 2"
    "withdraw_gross_ust1_to_vfdusd 7 rate_2 100 = Ok 4"
    by (simp_all add: withdraw_gross_ust1_to_vfdusd_Ok_iff withdraw_amount_def rate_2_def)
qed simp_all

text \<open>
  The rounding error is bounded. The UST1 minted for \<open>x\<close> is at most the exact value
  after the fee and less than two units below it; the vFDUSD paid for \<open>g\<close> is at most the
  exact value after the fee and less than one vFDUSD unit and the value of one UST1 unit
  below it.
\<close>

theorem swap_rounding_bounds:
  assumes "deposit_vfdusd_to_ust1 x R f = Ok out" and "withdraw_gross_ust1_to_vfdusd g R f = Ok v"
  shows "unat out * (10000 * 10 ^ 18) \<le> unat x * unat R * (10000 - unat f) \<and>
     unat x * unat R * (10000 - unat f) < (unat out + 2) * (10000 * 10 ^ 18) \<and>
     unat v * unat R * 10000 \<le> unat g * (10000 - unat f) * 10 ^ 18 \<and>
     unat g * (10000 - unat f) * 10 ^ 18 < ((unat v + 1) * unat R + 10 ^ 18) * 10000"
proof (intro conjI)
  from assms(1) obtain b where b: "vfdusd_to_ust1_before_fee x R = Ok b" "apply_fee_ust1 b f = Ok out"
    by (auto simp: deposit_vfdusd_to_ust1_def and_then_Ok_iff)
  have "unat out * 10000 * 10 ^ 18 \<le> unat b * (10000 - unat f) * 10 ^ 18"
    by (intro mult_le_mono1 after_fee_value[OF b(2)])
  also have "\<dots> = unat b * 10 ^ 18 * (10000 - unat f)" by (simp only: mult_ac)
  also have "\<dots> \<le> unat x * unat R * (10000 - unat f)"
    by (intro mult_le_mono1 before_fee_value[OF b(1)])
  finally show "unat out * (10000 * 10 ^ 18) \<le> unat x * unat R * (10000 - unat f)"
    by (simp only: mult.assoc)
  show "unat x * unat R * (10000 - unat f) < (unat out + 2) * (10000 * 10 ^ 18)"
    unfolding deposit_amount_eq[OF assms(1)] by (rule deposit_amount_error)
  from assms(2) obtain u where u: "apply_fee_ust1 g f = Ok u" "ust1_after_fee_to_vfdusd u R = Ok v"
    by (auto simp: withdraw_gross_ust1_to_vfdusd_def withdraw_ust1_after_fee_def and_then_Ok_iff)
  have "unat v * unat R * 10000 \<le> unat u * 10 ^ 18 * 10000"
    by (intro mult_le_mono1 to_vfdusd_value[OF u(2)])
  also have "\<dots> = unat u * 10000 * 10 ^ 18" by (simp only: mult_ac)
  also have "\<dots> \<le> unat g * (10000 - unat f) * 10 ^ 18"
    by (intro mult_le_mono1 after_fee_value[OF u(1)])
  finally show "unat v * unat R * 10000 \<le> unat g * (10000 - unat f) * 10 ^ 18" .
  have "0 < unat R" using u(2) by (simp add: ust1_after_fee_to_vfdusd_Ok_iff)
  then show "unat g * (10000 - unat f) * 10 ^ 18 < ((unat v + 1) * unat R + 10 ^ 18) * 10000"
    unfolding withdraw_amount_eq[OF assms(2)] by (rule withdraw_amount_error)
qed

theorem swap_rounding_bounds_witness:
  "unat (7 :: u128) * (10000 * 10 ^ 18) \<le> unat (7 :: u128) * unat rate_2 * (10000 - unat (100 :: u16)) \<and>
   unat (7 :: u128) * unat rate_2 * (10000 - unat (100 :: u16)) <
     (unat (7 :: u128) + 2) * (10000 * 10 ^ 18) \<and>
   unat (4 :: u128) * unat rate_2 * 10000 \<le> unat (7 :: u128) * (10000 - unat (100 :: u16)) * 10 ^ 18 \<and>
   unat (7 :: u128) * (10000 - unat (100 :: u16)) * 10 ^ 18 <
     ((unat (4 :: u128) + 1) * unat rate_2 + 10 ^ 18) * 10000"
  by (rule swap_rounding_bounds) (simp_all add: deposit_vfdusd_to_ust1_Ok_iff
      deposit_amount_def withdraw_gross_ust1_to_vfdusd_Ok_iff withdraw_amount_def rate_2_def)

text \<open>
  The fee withheld from \<open>g\<close> is \<open>g * fee / 10000\<close> rounded up, and the two parts the
  fee is split into add up to it without wrap-around, the chain part being the smaller by at
  most one basis point.
\<close>

theorem fee_and_split:
  assumes "fee_amount_ust1 g f = Ok fee" and "chain_tax_and_cmm_protocol f = (chain, cmm)"
  shows "unat fee = (unat g * unat f + 9999) div 10000 \<and>
     unat chain + unat cmm = unat f \<and> chain \<le> cmm \<and> unat cmm \<le> unat chain + 1"
  using fee_amount_rounds_up[OF assms(1)] fee_split_sum[OF assms(2)] by simp

theorem fee_and_split_witness:
  "unat (1 :: u128) = (unat (7 :: u128) * unat (101 :: u16) + 9999) div 10000 \<and>
     unat (50 :: u16) + unat (51 :: u16) = unat (101 :: u16) \<and> (50 :: u16) \<le> 51 \<and>
     unat (51 :: u16) \<le> unat (50 :: u16) + 1"
  by (rule fee_and_split)
    (simp_all add: fee_amount_ust1_Ok_iff apply_fee_ust1_def BPS_DENOM_def checked_mul_def
      checked_div_def chain_tax_and_cmm_protocol_def)

end
