(* ===== verification/Native_Wrap.thy ===== *)
theory Native_Wrap
  imports Swap_Math Transitions
begin

text \<open>
  The native wrap contract \<open>cmm-native-wrap\<close> (\<open>contracts/cmm-native-wrap/src\<close>): storage
  (\<open>state.rs\<close>), messages and errors (\<open>msg.rs\<close>, \<open>error.rs\<close>), the check of the pairs
  (\<open>pairs.rs\<close>), the limits of each denom (\<open>limits.rs\<close>), wrap and unwrap (\<open>wrap.rs\<close>,
  \<open>unwrap.rs\<close>), the governance operations (\<open>gov.rs\<close>) and the entry points of
  \<open>contract.rs\<close>. The bank balance of the contract comes from the querier.
\<close>

section \<open>Storage (state.rs)\<close>

definition LUNC_DENOM :: string where
  "LUNC_DENOM = ''uluna''"

definition USTC_DENOM :: string where
  "USTC_DENOM = ''uusd''"

definition WRAP_CONTRACT_NAME :: string where
  "WRAP_CONTRACT_NAME = ''crates.io:cmm-native-wrap''"

record denom_pair =
  dp_native_denom :: string
  dp_wrapped_token :: addr
  dp_per_tx_wrap_limit :: u128
  dp_rolling_24h_wrap_limit :: u128

record wrap_config =
  nc_governance :: addr
  nc_fee_bps :: u16
  nc_paused :: bool
  nc_pairs :: "denom_pair list"

record wrap_rolling =
  wr_window_start_sec :: u64
  wr_volume_wrap :: u128

record wrap_pending =
  wp_new_address :: addr

record wrap_storage =
  n_contract_info :: "(string \<times> string) option"
  n_config :: "wrap_config option"
  n_rolling :: "string \<Rightarrow> wrap_rolling option"
  n_pending_governance :: "wrap_pending option"

definition wrap_empty :: wrap_storage where
  "wrap_empty = \<lparr>n_contract_info = None, n_config = None, n_rolling = (\<lambda>_. None),
     n_pending_governance = None\<rparr>"

section \<open>Messages and errors (msg.rs, error.rs)\<close>

record pair_instantiate_msg =
  pi_native_denom :: string
  pi_wrapped_token :: string
  pi_per_tx_wrap_limit :: u128
  pi_rolling_24h_wrap_limit :: u128

record wrap_instantiate_msg =
  ni_governance :: string
  ni_fee_bps :: u16
  ni_pairs :: "pair_instantiate_msg list"

datatype wrap_hook_msg = Unwrap u128

datatype wrap_execute_msg =
    Wrap
  | Receive cw20_receive_msg
  | SetPairLimits string u128 u128
  | SetPaused bool
  | SetFeeBps u16
  | ProposeGovernance string
  | AcceptGovernance

datatype wrap_query_msg = Config | EffectiveWrap string

record denom_pair_response =
  dpr_native_denom :: string
  dpr_wrapped_token :: string
  dpr_per_tx_wrap_limit :: u128
  dpr_rolling_24h_wrap_limit :: u128

record wrap_config_response =
  ncr_governance :: string
  ncr_fee_bps :: u16
  ncr_paused :: bool
  ncr_pairs :: "denom_pair_response list"

record effective_wrap_response =
  ew_denom :: string
  ew_fee_bps :: u16
  ew_fee_chain_tax_bps :: u16
  ew_fee_cmm_protocol_bps :: u16
  ew_paused :: bool
  ew_per_tx_wrap_limit :: u128
  ew_rolling_24h_wrap_limit :: u128
  ew_rolling_window_start_sec :: u64
  ew_rolling_volume_wrap :: u128
  ew_wrapped_token :: string

datatype wrap_query_response =
    ConfigResponse wrap_config_response
  | EffectiveWrapResponse effective_wrap_response

datatype wrap_error =
    Std std_error
  | Unauthorized
  | Paused
  | InvalidCw20Hook
  | PerTxLimit
  | RollingLimit
  | InsufficientNative
  | BelowMinimum
  | InvalidNativeFunds
  | UnknownNativeDenom
  | UnknownWrappedToken
  | InvalidPairCount nat
  | InvalidPairDenoms string string
  | DuplicateWrappedToken
  | Math math_error
  | NoPendingGovernance
  | InvalidGovernanceProposal
  | Overflow overflow_error

type_synonym wrap_result = "(wrap_storage \<times> cw20_execute_msg response, wrap_error) result"
type_synonym wrap_from_json = "binary \<Rightarrow> (wrap_hook_msg, std_error) result"

text \<open>\<open>query_balance\<close>: the bank balance of an account in a denom.\<close>

type_synonym bank_querier = "addr \<Rightarrow> string \<Rightarrow> (u128, std_error) result"

section \<open>The two pairs (pairs.rs)\<close>

definition validate_pairs :: "denom_pair list \<Rightarrow> (unit, wrap_error) result" where
  "validate_pairs pairs =
     (if length pairs \<noteq> 2 then Err (InvalidPairCount 2)
      else
        let d0 = dp_native_denom (pairs ! 0);
            d1 = dp_native_denom (pairs ! 1);
            valid = (d0 = LUNC_DENOM \<and> d1 = USTC_DENOM) \<or> (d0 = USTC_DENOM \<and> d1 = LUNC_DENOM)
        in if \<not> valid then Err (InvalidPairDenoms LUNC_DENOM USTC_DENOM)
           else if dp_wrapped_token (pairs ! 0) = dp_wrapped_token (pairs ! 1)
           then Err DuplicateWrappedToken
           else Ok ())"

section \<open>Limits (limits.rs) and fee attributes (fee_accounting.rs)\<close>

definition wrap_ensure_limits ::
  "env \<Rightarrow> wrap_rolling \<Rightarrow> denom_pair \<Rightarrow> u128 \<Rightarrow> (wrap_rolling, wrap_error) result" where
  "wrap_ensure_limits e rolling pair notional =
     (if dp_per_tx_wrap_limit pair < notional then Err PerTxLimit
      else let now = block_seconds e in
        and_then
          (if wr_window_start_sec rolling = 0 then Ok True
           else and_then (plain_add (wr_window_start_sec rolling) 86400) (\<lambda>end_sec.
                Ok (end_sec \<le> now)))
          (\<lambda>restart.
        let rolling = (if restart
                       then rolling\<lparr>wr_window_start_sec := now, wr_volume_wrap := 0\<rparr>
                       else rolling) in
        and_then (map_err Overflow (checked_add (wr_volume_wrap rolling) notional)) (\<lambda>next_vol.
        if dp_rolling_24h_wrap_limit pair < next_vol then Err RollingLimit
        else Ok (rolling\<lparr>wr_volume_wrap := next_vol\<rparr>))))"

definition with_fee_split_attributes ::
  "cw20_execute_msg response \<Rightarrow> u16 \<Rightarrow> cw20_execute_msg response" where
  "with_fee_split_attributes resp fee_bps =
     (let (fee_chain_tax_bps, fee_cmm_protocol_bps) = chain_tax_and_cmm_protocol fee_bps in
      add_attribute ''fee_cmm_protocol_bps'' (show_nat (unat fee_cmm_protocol_bps))
        (add_attribute ''fee_chain_tax_bps'' (show_nat (unat fee_chain_tax_bps))
        (add_attribute ''fee_total_bps'' (show_nat (unat fee_bps)) resp)))"

section \<open>Instantiate (contract.rs)\<close>

definition wrap_set_contract_version :: "string \<Rightarrow> wrap_storage \<Rightarrow> wrap_storage" where
  "wrap_set_contract_version version s =
     s\<lparr>n_contract_info := Some (WRAP_CONTRACT_NAME, version)\<rparr>"

text \<open>The loop over \<open>msg.pairs\<close> that validates the token addresses.\<close>

fun read_pairs ::
  "cw20_execute_msg api \<Rightarrow> pair_instantiate_msg list \<Rightarrow> (denom_pair list, std_error) result" where
  "read_pairs a [] = Ok []"
| "read_pairs a (p # ps) =
     and_then (addr_validate a (pi_wrapped_token p)) (\<lambda>wrapped_token.
     and_then (read_pairs a ps) (\<lambda>pairs.
     Ok (\<lparr>dp_native_denom = pi_native_denom p, dp_wrapped_token = wrapped_token,
          dp_per_tx_wrap_limit = pi_per_tx_wrap_limit p,
          dp_rolling_24h_wrap_limit = pi_rolling_24h_wrap_limit p\<rparr> # pairs)))"

definition wrap_instantiate ::
  "cw20_execute_msg api \<Rightarrow> string \<Rightarrow> env \<Rightarrow> message_info \<Rightarrow> wrap_instantiate_msg \<Rightarrow>
   wrap_storage \<Rightarrow> wrap_result" where
  "wrap_instantiate a version e info msg s =
     (let s = wrap_set_contract_version version s in
      if BPS_DENOM < ucast (ni_fee_bps msg) then Err (Math InvalidFeeBps)
      else
        and_then (map_err Std (read_pairs a (ni_pairs msg))) (\<lambda>pairs.
        and_then (validate_pairs pairs) (\<lambda>_.
        and_then (map_err Std (addr_validate a (ni_governance msg))) (\<lambda>governance.
        let cfg = \<lparr>nc_governance = governance, nc_fee_bps = ni_fee_bps msg,
                   nc_paused = False, nc_pairs = pairs\<rparr> in
        Ok (s\<lparr>n_config := Some cfg\<rparr>,
            with_fee_split_attributes (add_attribute ''action'' ''instantiate'' new_response)
              (nc_fee_bps cfg))))))"

section \<open>Wrap (wrap.rs) and unwrap (unwrap.rs)\<close>

definition load_rolling :: "wrap_storage \<Rightarrow> string \<Rightarrow> wrap_rolling" where
  "load_rolling s denom = (case n_rolling s denom of
       None \<Rightarrow> \<lparr>wr_window_start_sec = 0, wr_volume_wrap = 0\<rparr>
     | Some r \<Rightarrow> r)"

definition execute_wrap ::
  "cw20_execute_msg api \<Rightarrow> env \<Rightarrow> message_info \<Rightarrow> wrap_storage \<Rightarrow> wrap_result" where
  "execute_wrap a e info s =
     and_then (map_err Std (item_load ''cfg'' (n_config s))) (\<lambda>cfg.
     if nc_paused cfg then Err Paused
     else if length (funds info) \<noteq> 1 then Err InvalidNativeFunds
     else
       let c = funds info ! 0 in
       if coin_amount c = 0 then Err InvalidNativeFunds
       else
       and_then (ok_or UnknownNativeDenom
                   (List.find (\<lambda>p. dp_native_denom p = coin_denom c) (nc_pairs cfg))) (\<lambda>pair.
       and_then (map_err Math (apply_fee_ust1 (coin_amount c) (nc_fee_bps cfg))) (\<lambda>mint_amount.
       and_then (wrap_ensure_limits e (load_rolling s (dp_native_denom pair)) pair mint_amount)
         (\<lambda>rolling.
       let s = s\<lparr>n_rolling := (n_rolling s)(dp_native_denom pair := Some rolling)\<rparr> in
       and_then (map_err Std (to_json_binary a (Cw20Mint (sender info) mint_amount))) (\<lambda>mint.
       Ok (s, with_fee_split_attributes
                (add_attribute ''wrapped_out'' (show_nat (unat mint_amount))
                (add_attribute ''denom'' (coin_denom c)
                (add_attribute ''action'' ''wrap''
                (add_message (WasmExecute (dp_wrapped_token pair) mint []) new_response))))
                (nc_fee_bps cfg)))))))"

definition wrap_receive_cw20 ::
  "cw20_execute_msg api \<Rightarrow> wrap_from_json \<Rightarrow> bank_querier \<Rightarrow> env \<Rightarrow> message_info \<Rightarrow>
   cw20_receive_msg \<Rightarrow> wrap_storage \<Rightarrow> wrap_result" where
  "wrap_receive_cw20 a from_json q e info m s =
     and_then (map_err Std (item_load ''cfg'' (n_config s))) (\<lambda>cfg.
     if nc_paused cfg then Err Paused
     else
       and_then (ok_or UnknownWrappedToken
                   (List.find (\<lambda>p. dp_wrapped_token p = sender info) (nc_pairs cfg))) (\<lambda>pair.
       and_then (map_err Std (from_json (cw20_msg m))) (\<lambda>hook.
       let min_out = (case hook of Unwrap min_native_out \<Rightarrow> min_native_out) in
       and_then (map_err Std (addr_validate a (cw20_sender m))) (\<lambda>beneficiary.
       let gross = cw20_amount m in
       and_then (map_err Math (apply_fee_ust1 gross (nc_fee_bps cfg))) (\<lambda>native_out.
       if native_out < min_out then Err BelowMinimum
       else
       and_then (map_err Std (q (contract_address e) (dp_native_denom pair))) (\<lambda>bal.
       if bal < native_out then Err InsufficientNative
       else
       and_then (wrap_ensure_limits e (load_rolling s (dp_native_denom pair)) pair gross) (\<lambda>rolling.
       let s = s\<lparr>n_rolling := (n_rolling s)(dp_native_denom pair := Some rolling)\<rparr> in
       and_then (map_err Std (to_json_binary a (Cw20Burn gross))) (\<lambda>burn.
       let send = BankSend beneficiary
                    [\<lparr>coin_denom = dp_native_denom pair, coin_amount = native_out\<rparr>] in
       Ok (s, with_fee_split_attributes
                (add_attribute ''native_out'' (show_nat (unat native_out))
                (add_attribute ''denom'' (dp_native_denom pair)
                (add_attribute ''action'' ''unwrap''
                (add_message send
                (add_message (WasmExecute (dp_wrapped_token pair) burn []) new_response)))))
                (nc_fee_bps cfg))))))))))"

section \<open>Governance operations (gov.rs)\<close>

text \<open>\<open>iter_mut().find(..)\<close> and the two assignments through the reference it returns.\<close>

fun set_limits_of_first ::
  "string \<Rightarrow> u128 \<Rightarrow> u128 \<Rightarrow> denom_pair list \<Rightarrow> denom_pair list option" where
  "set_limits_of_first denom per_tx rolling [] = None"
| "set_limits_of_first denom per_tx rolling (p # ps) =
     (if dp_native_denom p = denom
      then Some (p\<lparr>dp_per_tx_wrap_limit := per_tx, dp_rolling_24h_wrap_limit := rolling\<rparr> # ps)
      else map_option ((#) p) (set_limits_of_first denom per_tx rolling ps))"

definition exec_set_pair_limits ::
  "message_info \<Rightarrow> string \<Rightarrow> u128 \<Rightarrow> u128 \<Rightarrow> wrap_storage \<Rightarrow> wrap_result" where
  "exec_set_pair_limits info native_denom per_tx rolling s =
     and_then (map_err Std (item_load ''cfg'' (n_config s))) (\<lambda>cfg.
     if sender info \<noteq> nc_governance cfg then Err Unauthorized
     else and_then (ok_or UnknownNativeDenom
                      (set_limits_of_first native_denom per_tx rolling (nc_pairs cfg))) (\<lambda>pairs.
       Ok (s\<lparr>n_config := Some (cfg\<lparr>nc_pairs := pairs\<rparr>)\<rparr>,
           add_attribute ''action'' ''set_pair_limits'' new_response)))"

definition wrap_set_paused :: "message_info \<Rightarrow> bool \<Rightarrow> wrap_storage \<Rightarrow> wrap_result" where
  "wrap_set_paused info paused s =
     and_then (map_err Std (item_load ''cfg'' (n_config s))) (\<lambda>cfg.
     if sender info \<noteq> nc_governance cfg then Err Unauthorized
     else Ok (s\<lparr>n_config := Some (cfg\<lparr>nc_paused := paused\<rparr>)\<rparr>,
              add_attribute ''action'' ''set_paused'' new_response))"

definition wrap_set_fee_bps :: "message_info \<Rightarrow> u16 \<Rightarrow> wrap_storage \<Rightarrow> wrap_result" where
  "wrap_set_fee_bps info fee_bps s =
     (if BPS_DENOM < ucast fee_bps then Err (Math InvalidFeeBps)
      else
        and_then (map_err Std (item_load ''cfg'' (n_config s))) (\<lambda>cfg.
        if sender info \<noteq> nc_governance cfg then Err Unauthorized
        else
          let old = nc_fee_bps cfg in
          Ok (s\<lparr>n_config := Some (cfg\<lparr>nc_fee_bps := fee_bps\<rparr>)\<rparr>,
              with_fee_split_attributes
                (add_attribute ''new_fee_bps'' (show_nat (unat fee_bps))
                (add_attribute ''old_fee_bps'' (show_nat (unat old))
                (add_attribute ''action'' ''set_fee_bps'' new_response)))
                fee_bps)))"

definition wrap_propose_gov ::
  "cw20_execute_msg api \<Rightarrow> message_info \<Rightarrow> string \<Rightarrow> wrap_storage \<Rightarrow> wrap_result" where
  "wrap_propose_gov a info address s =
     and_then (map_err Std (item_load ''cfg'' (n_config s))) (\<lambda>cfg.
     if sender info \<noteq> nc_governance cfg then Err Unauthorized
     else and_then (map_err Std (addr_validate a address)) (\<lambda>new_addr.
       Ok (s\<lparr>n_pending_governance := Some \<lparr>wp_new_address = new_addr\<rparr>\<rparr>,
           add_attribute ''action'' ''propose_governance'' new_response)))"

definition wrap_accept_gov :: "message_info \<Rightarrow> wrap_storage \<Rightarrow> wrap_result" where
  "wrap_accept_gov info s =
     and_then (ok_or NoPendingGovernance (n_pending_governance s)) (\<lambda>pending.
     if sender info \<noteq> wp_new_address pending then Err InvalidGovernanceProposal
     else and_then (map_err Std (item_load ''cfg'' (n_config s))) (\<lambda>cfg.
       Ok (s\<lparr>n_config := Some (cfg\<lparr>nc_governance := wp_new_address pending\<rparr>),
             n_pending_governance := None\<rparr>,
           add_attribute ''action'' ''accept_governance'' new_response)))"

section \<open>Dispatch, queries and migration (contract.rs)\<close>

definition wrap_execute ::
  "cw20_execute_msg api \<Rightarrow> wrap_from_json \<Rightarrow> bank_querier \<Rightarrow> env \<Rightarrow> message_info \<Rightarrow>
   wrap_execute_msg \<Rightarrow> wrap_storage \<Rightarrow> wrap_result" where
  "wrap_execute a from_json q e info msg s = (case msg of
       Wrap \<Rightarrow> execute_wrap a e info s
     | Receive m \<Rightarrow> wrap_receive_cw20 a from_json q e info m s
     | SetPairLimits native_denom per_tx rolling \<Rightarrow>
         exec_set_pair_limits info native_denom per_tx rolling s
     | SetPaused paused \<Rightarrow> wrap_set_paused info paused s
     | SetFeeBps fee_bps \<Rightarrow> wrap_set_fee_bps info fee_bps s
     | ProposeGovernance address \<Rightarrow> wrap_propose_gov a info address s
     | AcceptGovernance \<Rightarrow> wrap_accept_gov info s)"

definition wrap_query_config :: "wrap_storage \<Rightarrow> (wrap_config_response, std_error) result" where
  "wrap_query_config s =
     and_then (item_load ''cfg'' (n_config s)) (\<lambda>c.
     Ok \<lparr>ncr_governance = nc_governance c, ncr_fee_bps = nc_fee_bps c, ncr_paused = nc_paused c,
         ncr_pairs = map (\<lambda>p. \<lparr>dpr_native_denom = dp_native_denom p,
            dpr_wrapped_token = dp_wrapped_token p,
            dpr_per_tx_wrap_limit = dp_per_tx_wrap_limit p,
            dpr_rolling_24h_wrap_limit = dp_rolling_24h_wrap_limit p\<rparr>) (nc_pairs c)\<rparr>)"

definition query_effective_wrap ::
  "string \<Rightarrow> wrap_storage \<Rightarrow> (effective_wrap_response, std_error) result" where
  "query_effective_wrap denom s =
     and_then (item_load ''cfg'' (n_config s)) (\<lambda>cfg.
     and_then (ok_or (GenericErr ''unknown denom'')
                 (List.find (\<lambda>p. dp_native_denom p = denom) (nc_pairs cfg))) (\<lambda>pair.
     let rolling = load_rolling s (dp_native_denom pair);
         (fee_chain_tax_bps, fee_cmm_protocol_bps) = chain_tax_and_cmm_protocol (nc_fee_bps cfg)
     in Ok \<lparr>ew_denom = dp_native_denom pair, ew_fee_bps = nc_fee_bps cfg,
         ew_fee_chain_tax_bps = fee_chain_tax_bps,
         ew_fee_cmm_protocol_bps = fee_cmm_protocol_bps, ew_paused = nc_paused cfg,
         ew_per_tx_wrap_limit = dp_per_tx_wrap_limit pair,
         ew_rolling_24h_wrap_limit = dp_rolling_24h_wrap_limit pair,
         ew_rolling_window_start_sec = wr_window_start_sec rolling,
         ew_rolling_volume_wrap = wr_volume_wrap rolling,
         ew_wrapped_token = dp_wrapped_token pair\<rparr>))"

definition wrap_query ::
  "wrap_query_response api \<Rightarrow> wrap_query_msg \<Rightarrow> wrap_storage \<Rightarrow>
   (wrap_query_response, std_error) result" where
  "wrap_query a msg s = (case msg of
       Config \<Rightarrow> and_then (wrap_query_config s) (\<lambda>r. to_json_binary a (ConfigResponse r))
     | EffectiveWrap denom \<Rightarrow>
         and_then (query_effective_wrap denom s)
           (\<lambda>r. to_json_binary a (EffectiveWrapResponse r)))"

definition wrap_migrate :: "string \<Rightarrow> wrap_storage \<Rightarrow> wrap_result" where
  "wrap_migrate version s = Ok (wrap_set_contract_version version s, new_response)"

end
