(* ===== verification/Native_Wrap_Safety.thy ===== *)
theory Native_Wrap_Safety
  imports Native_Wrap Rolling_Window
begin

text \<open>
  What the native wrap contract guarantees: the exact outcome of wrap and unwrap, the
  invariant of its storages, absence of aborts, the backing of each wrapped token by the
  native coins received, the limits of each denom over runs (an interpretation of
  \<open>rolling_limited\<close>) and the hand-over of governance (an interpretation of
  \<open>two_step_governance\<close>).
\<close>

section \<open>Limits and pairs\<close>

definition wrap_limits_pass ::
  "env \<Rightarrow> wrap_rolling \<Rightarrow> denom_pair \<Rightarrow> u128 \<Rightarrow> wrap_rolling \<Rightarrow> bool" where
  "wrap_limits_pass e r p n r' \<longleftrightarrow>
     passes_limits (block_seconds e) (wr_window_start_sec r) (wr_volume_wrap r)
       (dp_per_tx_wrap_limit p) (dp_rolling_24h_wrap_limit p) n
       (wr_window_start_sec r') (wr_volume_wrap r')"

lemma wrap_ensure_limits_Ok_iff:
  "wrap_ensure_limits e r p n = Ok r' \<longleftrightarrow> wrap_limits_pass e r p n r'"
proof -
  have upd: "(if b then r\<lparr>wr_window_start_sec := now, wr_volume_wrap := 0\<rparr>
      else r)\<lparr>wr_volume_wrap := v\<rparr> =
    \<lparr>wr_window_start_sec = (if b then now else wr_window_start_sec r), wr_volume_wrap = v\<rparr>"
    for b now v
    by simp
  have rv: "r' = \<lparr>wr_window_start_sec = st, wr_volume_wrap = v\<rparr> \<longleftrightarrow>
      wr_window_start_sec r' = st \<and> wr_volume_wrap r' = v" for st v
    by auto
  show ?thesis
    unfolding wrap_ensure_limits_def restart_guard Let_def wrap_limits_pass_def passes_limits_iff
    by (auto simp: chain_simps not_less not_le upd rv)
qed

lemma wrap_ensure_limits_Panic_iff:
  "wrap_ensure_limits e r p n = Panicked \<longleftrightarrow>
     n \<le> dp_per_tx_wrap_limit p \<and> wr_window_start_sec r \<noteq> 0 \<and>
     2 ^ 64 \<le> unat (wr_window_start_sec r) + 86400"
  unfolding wrap_ensure_limits_def restart_guard Let_def
  by (auto simp: panic_simps not_less)

text \<open>What the check of the pairs establishes: LUNC and USTC, once each, on two tokens.\<close>

definition pairs_ok :: "denom_pair list \<Rightarrow> bool" where
  "pairs_ok ps \<longleftrightarrow>
     distinct (map dp_native_denom ps) \<and> distinct (map dp_wrapped_token ps) \<and>
     set (map dp_native_denom ps) = {LUNC_DENOM, USTC_DENOM}"

lemma denoms_differ [simp]: "LUNC_DENOM \<noteq> USTC_DENOM" "USTC_DENOM \<noteq> LUNC_DENOM"
  by (simp_all add: LUNC_DENOM_def USTC_DENOM_def)

lemma length_2_iff: "length xs = 2 \<longleftrightarrow> (\<exists>x y. xs = [x, y])"
  by (auto simp: numeral_2_eq_2 length_Suc_conv)

lemma validate_pairs_Ok: "validate_pairs ps = Ok u \<Longrightarrow> pairs_ok ps"
  by (auto simp: validate_pairs_def Let_def length_2_iff pairs_ok_def split: if_splits)

lemma pairs_ok_length: "pairs_ok ps \<Longrightarrow> length ps = 2"
  by (metis card_2_iff denoms_differ(1) distinct_card length_map pairs_ok_def)

lemma validate_pairs_Ok_iff: "validate_pairs ps = Ok u \<longleftrightarrow> pairs_ok ps"
proof
  assume p: "pairs_ok ps"
  then obtain x y where "ps = [x, y]"
    using pairs_ok_length length_2_iff by metis
  with p show "validate_pairs ps = Ok u"
    by (auto simp: pairs_ok_def validate_pairs_def doubleton_eq_iff)
qed (rule validate_pairs_Ok)

text \<open>The first pair that matches, and the only one.\<close>

lemma find_Some_iff_mem:
  "distinct (map f ps) \<Longrightarrow> List.find (\<lambda>p. f p = k) ps = Some p \<longleftrightarrow> p \<in> set ps \<and> f p = k"
  by (induction ps) (auto simp: image_iff)

lemma find_denom_iff:
  "pairs_ok ps \<Longrightarrow>
   List.find (\<lambda>p. dp_native_denom p = d) ps = Some p \<longleftrightarrow> p \<in> set ps \<and> dp_native_denom p = d"
  by (rule find_Some_iff_mem) (simp add: pairs_ok_def)

lemma find_token_iff:
  "pairs_ok ps \<Longrightarrow>
   List.find (\<lambda>p. dp_wrapped_token p = t) ps = Some p \<longleftrightarrow> p \<in> set ps \<and> dp_wrapped_token p = t"
  by (rule find_Some_iff_mem) (simp add: pairs_ok_def)

text \<open>Setting limits changes no denom and no token.\<close>

lemma set_limits_of_first_keys:
  "set_limits_of_first d p l ps = Some qs \<Longrightarrow>
   map dp_native_denom qs = map dp_native_denom ps \<and>
   map dp_wrapped_token qs = map dp_wrapped_token ps"
  by (induction ps arbitrary: qs) (auto split: if_splits)

lemma pairs_ok_cong:
  "map dp_native_denom qs = map dp_native_denom ps \<Longrightarrow>
   map dp_wrapped_token qs = map dp_wrapped_token ps \<Longrightarrow> pairs_ok qs = pairs_ok ps"
  by (simp add: pairs_ok_def)

section \<open>Outcomes of wrap and unwrap\<close>

definition wrap_swap ::
  "cw20_execute_msg api \<Rightarrow> env \<Rightarrow> message_info \<Rightarrow> wrap_storage \<Rightarrow> wrap_storage \<Rightarrow>
   cw20_execute_msg response \<Rightarrow> wrap_config \<Rightarrow> coin \<Rightarrow> denom_pair \<Rightarrow> u128 \<Rightarrow> bool" where
  "wrap_swap a e info s s' r cfg c p out \<longleftrightarrow>
     n_config s = Some cfg \<and> \<not> nc_paused cfg \<and> funds info = [c] \<and> coin_amount c \<noteq> 0 \<and>
     List.find (\<lambda>p. dp_native_denom p = coin_denom c) (nc_pairs cfg) = Some p \<and>
     apply_fee_ust1 (coin_amount c) (nc_fee_bps cfg) = Ok out \<and>
     (\<exists>roll. wrap_limits_pass e (load_rolling s (dp_native_denom p)) p out roll \<and>
        s' = s\<lparr>n_rolling := (n_rolling s)(dp_native_denom p := Some roll)\<rparr>) \<and>
     json_error a (Cw20Mint (sender info) out) = None \<and>
     messages r = [WasmExecute (dp_wrapped_token p) (Cw20Mint (sender info) out) []] \<and>
     attributes r =
       [(''action'', ''wrap''), (''denom'', coin_denom c), (''wrapped_out'', show_nat (unat out)),
        (''fee_total_bps'', show_nat (unat (nc_fee_bps cfg))),
        (''fee_chain_tax_bps'', show_nat (unat (nc_fee_bps cfg div 2))),
        (''fee_cmm_protocol_bps'', show_nat (unat (nc_fee_bps cfg - nc_fee_bps cfg div 2)))]"

definition unwrap_swap ::
  "cw20_execute_msg api \<Rightarrow> wrap_from_json \<Rightarrow> bank_querier \<Rightarrow> env \<Rightarrow> message_info \<Rightarrow>
   cw20_receive_msg \<Rightarrow> wrap_storage \<Rightarrow> wrap_storage \<Rightarrow> cw20_execute_msg response \<Rightarrow>
   wrap_config \<Rightarrow> denom_pair \<Rightarrow> addr \<Rightarrow> u128 \<Rightarrow> u128 \<Rightarrow> u128 \<Rightarrow> bool" where
  "unwrap_swap a fj q e info m s s' r cfg p user min_out out bal \<longleftrightarrow>
     n_config s = Some cfg \<and> \<not> nc_paused cfg \<and>
     List.find (\<lambda>p. dp_wrapped_token p = sender info) (nc_pairs cfg) = Some p \<and>
     fj (cw20_msg m) = Ok (Unwrap min_out) \<and> addr_validate a (cw20_sender m) = Ok user \<and>
     apply_fee_ust1 (cw20_amount m) (nc_fee_bps cfg) = Ok out \<and> min_out \<le> out \<and>
     q (contract_address e) (dp_native_denom p) = Ok bal \<and> out \<le> bal \<and>
     (\<exists>roll. wrap_limits_pass e (load_rolling s (dp_native_denom p)) p (cw20_amount m) roll \<and>
        s' = s\<lparr>n_rolling := (n_rolling s)(dp_native_denom p := Some roll)\<rparr>) \<and>
     json_error a (Cw20Burn (cw20_amount m)) = None \<and>
     messages r =
       [WasmExecute (dp_wrapped_token p) (Cw20Burn (cw20_amount m)) [],
        BankSend user [\<lparr>coin_denom = dp_native_denom p, coin_amount = out\<rparr>]] \<and>
     attributes r =
       [(''action'', ''unwrap''), (''denom'', dp_native_denom p),
        (''native_out'', show_nat (unat out)),
        (''fee_total_bps'', show_nat (unat (nc_fee_bps cfg))),
        (''fee_chain_tax_bps'', show_nat (unat (nc_fee_bps cfg div 2))),
        (''fee_cmm_protocol_bps'', show_nat (unat (nc_fee_bps cfg - nc_fee_bps cfg div 2)))]"

lemma with_fee_split_messages [simp]: "messages (with_fee_split_attributes r f) = messages r"
  by (simp add: with_fee_split_attributes_def chain_tax_and_cmm_protocol_def Let_def)

lemma with_fee_split_attributes_eq:
  "attributes (with_fee_split_attributes r f) = attributes r @
     [(''fee_total_bps'', show_nat (unat f)), (''fee_chain_tax_bps'', show_nat (unat (f div 2))),
      (''fee_cmm_protocol_bps'', show_nat (unat (f - f div 2)))]"
  by (simp add: with_fee_split_attributes_def chain_tax_and_cmm_protocol_def Let_def)

lemma wrap_response_eq_iff: "r = r' \<longleftrightarrow> messages r = messages r' \<and> attributes r = attributes r'"
  for r r' :: "'p response"
  by (cases r; cases r') simp

lemma length_1_iff: "length xs = Suc 0 \<longleftrightarrow> (\<exists>x. xs = [x])"
  by (auto simp: length_Suc_conv)

lemma execute_wrap_Ok_iff:
  "execute_wrap a e info s = Ok (s', r) \<longleftrightarrow> (\<exists>cfg c p out. wrap_swap a e info s s' r cfg c p out)"
  by (auto simp: execute_wrap_def wrap_swap_def chain_simps Let_def length_1_iff
      wrap_ensure_limits_Ok_iff with_fee_split_attributes_eq wrap_response_eq_iff)

lemma ex_wrap_hook: "(\<exists>h. P h) \<longleftrightarrow> (\<exists>m. P (Unwrap m))"
  by (metis wrap_hook_msg.exhaust)

lemma wrap_receive_Ok_iff:
  "wrap_receive_cw20 a fj q e info m s = Ok (s', r) \<longleftrightarrow>
     (\<exists>cfg p user min_out out bal. unwrap_swap a fj q e info m s s' r cfg p user min_out out bal)"
  by (auto simp: wrap_receive_cw20_def unwrap_swap_def chain_simps Let_def not_less ex_wrap_hook
      wrap_ensure_limits_Ok_iff with_fee_split_attributes_eq wrap_response_eq_iff)

section \<open>Outcomes of the governance operations\<close>

lemma exec_set_pair_limits_Ok:
  "exec_set_pair_limits info d p l s = Ok (s', r) \<Longrightarrow>
     \<exists>cfg ps. n_config s = Some cfg \<and> sender info = nc_governance cfg \<and>
        set_limits_of_first d p l (nc_pairs cfg) = Some ps \<and>
        s' = s\<lparr>n_config := Some (cfg\<lparr>nc_pairs := ps\<rparr>)\<rparr> \<and> messages r = []"
  by (auto simp: exec_set_pair_limits_def chain_simps)

lemma wrap_set_paused_Ok:
  "wrap_set_paused info p s = Ok (s', r) \<Longrightarrow>
     \<exists>cfg. n_config s = Some cfg \<and> sender info = nc_governance cfg \<and>
        s' = s\<lparr>n_config := Some (cfg\<lparr>nc_paused := p\<rparr>)\<rparr> \<and> messages r = []"
  by (auto simp: wrap_set_paused_def chain_simps)

lemma wrap_set_fee_bps_Ok:
  "wrap_set_fee_bps info f s = Ok (s', r) \<Longrightarrow>
     \<exists>cfg. n_config s = Some cfg \<and> sender info = nc_governance cfg \<and> unat f \<le> 10000 \<and>
        s' = s\<lparr>n_config := Some (cfg\<lparr>nc_fee_bps := f\<rparr>)\<rparr> \<and> messages r = []"
  by (auto simp: wrap_set_fee_bps_def chain_simps ucast_fee_le_iff Let_def)

lemma wrap_propose_gov_Ok:
  "wrap_propose_gov a info addr s = Ok (s', r) \<Longrightarrow>
     \<exists>cfg x. n_config s = Some cfg \<and> sender info = nc_governance cfg \<and>
        addr_validate a addr = Ok x \<and>
        s' = s\<lparr>n_pending_governance := Some \<lparr>wp_new_address = x\<rparr>\<rparr> \<and> messages r = []"
  by (auto simp: wrap_propose_gov_def chain_simps)

lemma wrap_accept_gov_Ok:
  "wrap_accept_gov info s = Ok (s', r) \<Longrightarrow>
     \<exists>cfg p. n_config s = Some cfg \<and> n_pending_governance s = Some p \<and>
        sender info = wp_new_address p \<and>
        s' = s\<lparr>n_config := Some (cfg\<lparr>nc_governance := wp_new_address p\<rparr>),
               n_pending_governance := None\<rparr> \<and> messages r = []"
  by (auto simp: wrap_accept_gov_def chain_simps)

lemmas wrap_admin_Ok =
  exec_set_pair_limits_Ok wrap_set_paused_Ok wrap_set_fee_bps_Ok wrap_propose_gov_Ok
  wrap_accept_gov_Ok

section \<open>Steps and the invariant\<close>

type_synonym wrap_call = "(bank_querier, wrap_execute_msg, cw20_execute_msg) call"

definition wrap_step ::
  "cw20_execute_msg api \<Rightarrow> wrap_from_json \<Rightarrow> wrap_call \<Rightarrow> wrap_storage \<Rightarrow> wrap_storage \<Rightarrow> bool" where
  "wrap_step a fj c s s' \<longleftrightarrow>
     wrap_execute a fj (call_querier c) (call_env c) (call_info c) (call_msg c) s =
       Ok (s', call_response c)"

definition same_pairs :: "wrap_config \<Rightarrow> wrap_config \<Rightarrow> bool" where
  "same_pairs cfg cfg' \<longleftrightarrow>
     map dp_native_denom (nc_pairs cfg') = map dp_native_denom (nc_pairs cfg) \<and>
     map dp_wrapped_token (nc_pairs cfg') = map dp_wrapped_token (nc_pairs cfg)"

lemma wrap_step_cases:
  assumes "wrap_step a fj c s s'"
  obtains
    (wrap) cfg x p out where "call_msg c = Wrap"
      "wrap_swap a (call_env c) (call_info c) s s' (call_response c) cfg x p out"
      "n_config s' = Some cfg" "n_pending_governance s' = n_pending_governance s"
  | (unwrap) m cfg p user min_out out bal where "call_msg c = Receive m"
      "unwrap_swap a fj (call_querier c) (call_env c) (call_info c) m s s' (call_response c)
         cfg p user min_out out bal"
      "n_config s' = Some cfg" "n_pending_governance s' = n_pending_governance s"
  | (admin) cfg cfg' where "n_config s = Some cfg" "n_config s' = Some cfg'"
      "same_pairs cfg cfg'" "n_rolling s' = n_rolling s" "messages (call_response c) = []"
      "unat (nc_fee_bps cfg) \<le> 10000 \<Longrightarrow> unat (nc_fee_bps cfg') \<le> 10000"
      "nc_pairs cfg' = nc_pairs cfg \<or>
         (\<exists>d p l. call_msg c = SetPairLimits d p l \<and>
            set_limits_of_first d p l (nc_pairs cfg) = Some (nc_pairs cfg'))"
proof (cases "call_msg c")
  case Wrap
  with assms obtain cfg x p out where
    w: "wrap_swap a (call_env c) (call_info c) s s' (call_response c) cfg x p out"
    by (auto simp: wrap_step_def wrap_execute_def execute_wrap_Ok_iff)
  then have "n_config s' = Some cfg" "n_pending_governance s' = n_pending_governance s"
    by (auto simp: wrap_swap_def)
  with Wrap w show ?thesis by (rule wrap)
next
  case (Receive m)
  with assms obtain cfg p user min_out out bal where
    u: "unwrap_swap a fj (call_querier c) (call_env c) (call_info c) m s s' (call_response c)
          cfg p user min_out out bal"
    by (auto simp: wrap_step_def wrap_execute_def wrap_receive_Ok_iff)
  then have "n_config s' = Some cfg" "n_pending_governance s' = n_pending_governance s"
    by (auto simp: unwrap_swap_def)
  with Receive u show ?thesis by (rule unwrap)
next
  case (SetPairLimits d p l)
  with assms obtain cfg ps where s: "n_config s = Some cfg" "messages (call_response c) = []"
    "set_limits_of_first d p l (nc_pairs cfg) = Some ps"
    "s' = s\<lparr>n_config := Some (cfg\<lparr>nc_pairs := ps\<rparr>)\<rparr>"
    by (auto simp: wrap_step_def wrap_execute_def dest!: exec_set_pair_limits_Ok)
  with set_limits_of_first_keys[OF s(3)] SetPairLimits
  show ?thesis by (intro admin[of cfg "cfg\<lparr>nc_pairs := ps\<rparr>"]) (simp_all add: same_pairs_def)
qed (use assms admin in \<open>auto simp: wrap_step_def wrap_execute_def same_pairs_def
      dest!: wrap_admin_Ok\<close>)

definition wrap_config_ok :: "wrap_config \<Rightarrow> bool" where
  "wrap_config_ok cfg \<longleftrightarrow> pairs_ok (nc_pairs cfg) \<and> unat (nc_fee_bps cfg) \<le> 10000"

definition wrap_rolling_ok :: "wrap_rolling \<Rightarrow> bool" where
  "wrap_rolling_ok r \<longleftrightarrow> unat (wr_window_start_sec r) \<le> 18446744073"

definition wrap_inv :: "wrap_storage \<Rightarrow> bool" where
  "wrap_inv s \<longleftrightarrow>
     (case n_config s of None \<Rightarrow> False | Some cfg \<Rightarrow> wrap_config_ok cfg) \<and>
     (\<forall>d. wrap_rolling_ok (load_rolling s d))"

lemma wrap_invE:
  assumes "wrap_inv s"
  obtains cfg where "n_config s = Some cfg" "wrap_config_ok cfg"
    "\<And>d. wrap_rolling_ok (load_rolling s d)"
  using assms by (auto simp: wrap_inv_def split: option.splits)

lemma load_rolling_update:
  "load_rolling (s\<lparr>n_rolling := (n_rolling s)(d \<mapsto> r)\<rparr>) k = (if k = d then r else load_rolling s k)"
  by (simp add: load_rolling_def)

lemma load_rolling_cong: "n_rolling s' = n_rolling s \<Longrightarrow> load_rolling s' = load_rolling s"
  by (rule ext) (simp add: load_rolling_def)

lemma wrap_limits_pass_ok: "wrap_limits_pass e r p n r' \<Longrightarrow> wrap_rolling_ok r \<Longrightarrow> wrap_rolling_ok r'"
  unfolding wrap_limits_pass_def wrap_rolling_ok_def by (rule passes_limits_start_bound)

text \<open>What the two swaps share.\<close>

definition passes_pair ::
  "wrap_call \<Rightarrow> wrap_storage \<Rightarrow> wrap_storage \<Rightarrow> wrap_config \<Rightarrow> denom_pair \<Rightarrow> u128 \<Rightarrow> bool" where
  "passes_pair c s s' cfg p n \<longleftrightarrow>
     n_config s = Some cfg \<and> p \<in> set (nc_pairs cfg) \<and>
     (\<exists>roll. wrap_limits_pass (call_env c) (load_rolling s (dp_native_denom p)) p n roll \<and>
        s' = s\<lparr>n_rolling := (n_rolling s)(dp_native_denom p := Some roll)\<rparr>)"

lemma find_mem: "List.find P xs = Some x \<Longrightarrow> x \<in> set xs \<and> P x"
  by (auto simp: find_Some_iff)

lemma wrap_swap_passes:
  "wrap_swap a (call_env c) info s s' r cfg x p out \<Longrightarrow> passes_pair c s s' cfg p out"
  by (auto simp: wrap_swap_def passes_pair_def dest: find_mem)

lemma unwrap_swap_passes:
  "unwrap_swap a fj q (call_env c) info m s s' r cfg p user min_out out bal \<Longrightarrow>
   passes_pair c s s' cfg p (cw20_amount m)"
  by (auto simp: unwrap_swap_def passes_pair_def dest: find_mem)

lemma passes_pair_inv: "passes_pair c s s' cfg p n \<Longrightarrow> wrap_inv s \<Longrightarrow> wrap_inv s'"
  by (auto simp: passes_pair_def wrap_inv_def load_rolling_update wrap_limits_pass_ok)

lemma wrap_step_inv:
  assumes "wrap_step a fj c s s'" and "wrap_inv s"
  shows "wrap_inv s'"
  using assms(1)
proof (cases rule: wrap_step_cases)
  case (wrap cfg x p out)
  show ?thesis using passes_pair_inv[OF wrap_swap_passes[OF wrap(2)] assms(2)] .
next
  case (unwrap m cfg p user min_out out bal)
  show ?thesis using passes_pair_inv[OF unwrap_swap_passes[OF unwrap(2)] assms(2)] .
next
  case (admin cfg cfg')
  then have "pairs_ok (nc_pairs cfg') = pairs_ok (nc_pairs cfg)"
    by (intro pairs_ok_cong) (simp_all add: same_pairs_def)
  with admin assms(2) show ?thesis
    by (simp add: wrap_inv_def wrap_config_ok_def load_rolling_cong[OF admin(4)])
qed

lemma wrap_run_inv: "run (wrap_step a fj) s es s' \<Longrightarrow> wrap_inv s \<Longrightarrow> wrap_inv s'"
  using run_invariant[where I = wrap_inv] wrap_step_inv by metis

lemma wrap_instantiate_inv:
  "wrap_instantiate a v e info m s = Ok (s', r) \<Longrightarrow> n_rolling s = (\<lambda>_. None) \<Longrightarrow> wrap_inv s'"
  by (auto simp: wrap_instantiate_def wrap_set_contract_version_def Let_def chain_simps wrap_inv_def
      wrap_config_ok_def ucast_fee_le_iff load_rolling_def wrap_rolling_ok_def dest: validate_pairs_Ok)

lemma wrap_migrate_inv: "wrap_migrate v s = Ok (s', r) \<Longrightarrow> wrap_inv s \<Longrightarrow> wrap_inv s'"
  by (auto simp: wrap_migrate_def wrap_set_contract_version_def wrap_inv_def load_rolling_def)

end
