(* ===== verification/Native_Wrap_Runs.thy ===== *)
theory Native_Wrap_Runs
  imports Native_Wrap_Safety
begin

text \<open>
  Runs of the native wrap contract: what each call mints, burns, receives and sends, the
  backing of the wrapped tokens, the limits of each denom and the hand-over of governance.
\<close>

section \<open>What a call moves\<close>

fun mint_of :: "addr \<Rightarrow> cw20_execute_msg cosmos_msg \<Rightarrow> nat" where
  "mint_of t (WasmExecute t' (Cw20Mint _ n) _) = (if t' = t then unat n else 0)"
| "mint_of t _ = 0"

fun burn_of :: "addr \<Rightarrow> cw20_execute_msg cosmos_msg \<Rightarrow> nat" where
  "burn_of t (WasmExecute t' (Cw20Burn n) _) = (if t' = t then unat n else 0)"
| "burn_of t _ = 0"

definition coins_total :: "string \<Rightarrow> coin list \<Rightarrow> nat" where
  "coins_total d cs =
     sum_list (map (\<lambda>c. if coin_denom c = d then unat (coin_amount c) else 0) cs)"

fun send_of :: "string \<Rightarrow> cw20_execute_msg cosmos_msg \<Rightarrow> nat" where
  "send_of d (BankSend _ cs) = coins_total d cs"
| "send_of d _ = 0"

definition minted_of :: "addr \<Rightarrow> wrap_call \<Rightarrow> nat" where
  "minted_of t c = sum_list (map (mint_of t) (messages (call_response c)))"

definition burned_of :: "addr \<Rightarrow> wrap_call \<Rightarrow> nat" where
  "burned_of t c = sum_list (map (burn_of t) (messages (call_response c)))"

definition native_received :: "string \<Rightarrow> wrap_call \<Rightarrow> nat" where
  "native_received d c = coins_total d (funds (call_info c))"

definition native_sent :: "string \<Rightarrow> wrap_call \<Rightarrow> nat" where
  "native_sent d c = sum_list (map (send_of d) (messages (call_response c)))"

definition wrap_spent :: "addr \<Rightarrow> wrap_call \<Rightarrow> nat" where
  "wrap_spent t c = minted_of t c + burned_of t c"

lemmas wrap_totals = minted_of_def burned_of_def native_received_def native_sent_def coins_total_def

lemma wrap_swap_totals:
  assumes "wrap_swap a e (call_info c) s s' (call_response c) cfg x p out"
  shows "minted_of t c = (if dp_wrapped_token p = t then unat out else 0)" "burned_of t c = 0"
    "native_sent d c = 0"
    "native_received d c = (if dp_native_denom p = d then unat (coin_amount x) else 0)"
  using assms by (auto simp: wrap_swap_def wrap_totals dest: find_mem)

lemma unwrap_swap_totals:
  assumes "unwrap_swap a fj q e (call_info c) m s s' (call_response c) cfg p user min_out out bal"
  shows "minted_of t c = 0"
    "burned_of t c = (if dp_wrapped_token p = t then unat (cw20_amount m) else 0)"
    "native_sent d c = (if dp_native_denom p = d then unat out else 0)"
  using assms by (auto simp: unwrap_swap_def wrap_totals)

lemma wrap_admin_totals:
  assumes "messages (call_response c) = []"
  shows "minted_of t c = 0" "burned_of t c = 0" "native_sent d c = 0"
  using assms by (simp_all add: wrap_totals)

section \<open>The pair of a denom\<close>

definition wired :: "string \<Rightarrow> addr \<Rightarrow> wrap_storage \<Rightarrow> bool" where
  "wired d t s \<longleftrightarrow> (case n_config s of None \<Rightarrow> False
     | Some cfg \<Rightarrow> \<exists>p\<in>set (nc_pairs cfg). dp_native_denom p = d \<and> dp_wrapped_token p = t)"

lemma wired_iff_zip:
  "(\<exists>p\<in>set ps. dp_native_denom p = d \<and> dp_wrapped_token p = t) \<longleftrightarrow>
   (d, t) \<in> set (zip (map dp_native_denom ps) (map dp_wrapped_token ps))"
  by (induction ps) auto

lemma wired_same_pairs:
  "same_pairs cfg cfg' \<Longrightarrow> n_config s = Some cfg \<Longrightarrow> n_config s' = Some cfg' \<Longrightarrow>
   wired d t s' = wired d t s"
  by (simp add: wired_def wired_iff_zip same_pairs_def)

lemma wrap_step_wired:
  assumes "wrap_step a fj c s s'"
  shows "wired d t s' = wired d t s"
  using assms
proof (cases rule: wrap_step_cases)
  case (admin cfg cfg')
  then show ?thesis using wired_same_pairs by blast
qed (auto simp: wired_def wrap_swap_def unwrap_swap_def)

lemma pair_unique:
  assumes "pairs_ok ps" and "p \<in> set ps" and "q \<in> set ps"
  shows "dp_native_denom p = dp_native_denom q \<longleftrightarrow> dp_wrapped_token p = dp_wrapped_token q"
proof -
  have "inj_on dp_native_denom (set ps)" "inj_on dp_wrapped_token (set ps)"
    using assms(1) by (simp_all add: pairs_ok_def distinct_map)
  with assms(2,3) show ?thesis by (auto dest: inj_onD)
qed

text \<open>A swap on the pair \<open>p\<close>, seen from the denom and token of a pair of the configuration.\<close>

lemma wired_pair_iff:
  assumes "wrap_inv s" and "wired d t s" and "passes_pair c s s' cfg p n"
  shows "dp_native_denom p = d \<longleftrightarrow> dp_wrapped_token p = t"
proof -
  from assms(2,3) obtain q where "q \<in> set (nc_pairs cfg)" "dp_native_denom q = d"
    "dp_wrapped_token q = t" by (auto simp: wired_def passes_pair_def)
  moreover from assms(1,3) have "pairs_ok (nc_pairs cfg)"
    by (auto simp: wrap_inv_def wrap_config_ok_def passes_pair_def)
  moreover have "p \<in> set (nc_pairs cfg)" using assms(3) by (simp add: passes_pair_def)
  ultimately show ?thesis using pair_unique by metis
qed

section \<open>Backing\<close>

text \<open>
  Each call leaves at least as many native coins behind as it adds to the wrapped supply.
\<close>

lemma wrap_step_backing:
  assumes "wrap_step a fj c s s'" and "wrap_inv s" and "wired d t s"
  shows "minted_of t c + native_sent d c \<le> native_received d c + burned_of t c"
  using assms(1)
proof (cases rule: wrap_step_cases)
  case (wrap cfg x p out)
  have "dp_native_denom p = d \<longleftrightarrow> dp_wrapped_token p = t"
    by (rule wired_pair_iff[OF assms(2,3) wrap_swap_passes[OF wrap(2)]])
  moreover have "out \<le> coin_amount x"
    using wrap(2) by (auto simp: wrap_swap_def intro: apply_fee_ust1_le)
  ultimately show ?thesis
    using wrap_swap_totals[OF wrap(2)] by (simp add: word_le_nat_alt)
next
  case (unwrap m cfg p user min_out out bal)
  have "dp_native_denom p = d \<longleftrightarrow> dp_wrapped_token p = t"
    by (rule wired_pair_iff[OF assms(2,3) unwrap_swap_passes[OF unwrap(2)]])
  moreover have "out \<le> cw20_amount m"
    using unwrap(2) by (auto simp: unwrap_swap_def intro: apply_fee_ust1_le)
  ultimately show ?thesis
    using unwrap_swap_totals[OF unwrap(2)] by (simp add: word_le_nat_alt)
next
  case (admin cfg cfg')
  then show ?thesis by (simp add: wrap_admin_totals)
qed

lemma wrap_run_backing:
  assumes "run (wrap_step a fj) s es s'" and "wrap_inv s" and "wired d t s"
  shows "sum_list (map (minted_of t) es) + sum_list (map (native_sent d) es) \<le>
     sum_list (map (native_received d) es) + sum_list (map (burned_of t) es)"
  using assms
proof (induction rule: run.induct)
  case (run_cons c s s1 es s')
  have "wrap_inv s1" "wired d t s1"
    using run_cons wrap_step_inv wrap_step_wired by blast+
  with run_cons.IH wrap_step_backing[OF run_cons.hyps(1) run_cons.prems] show ?case by simp
qed simp

section \<open>Limits of a denom\<close>

definition denom_pair_of :: "string \<Rightarrow> wrap_storage \<Rightarrow> denom_pair option" where
  "denom_pair_of d s = (case n_config s of None \<Rightarrow> None
     | Some cfg \<Rightarrow> List.find (\<lambda>p. dp_native_denom p = d) (nc_pairs cfg))"

definition denom_per_tx :: "string \<Rightarrow> wrap_storage \<Rightarrow> nat" where
  "denom_per_tx d s =
     (case denom_pair_of d s of None \<Rightarrow> 0 | Some p \<Rightarrow> unat (dp_per_tx_wrap_limit p))"

definition denom_cap :: "string \<Rightarrow> wrap_storage \<Rightarrow> nat" where
  "denom_cap d s =
     (case denom_pair_of d s of None \<Rightarrow> 0 | Some p \<Rightarrow> unat (dp_rolling_24h_wrap_limit p))"

definition denom_start :: "string \<Rightarrow> wrap_storage \<Rightarrow> nat" where
  "denom_start d s = unat (wr_window_start_sec (load_rolling s d))"

definition denom_volume :: "string \<Rightarrow> wrap_storage \<Rightarrow> nat" where
  "denom_volume d s = unat (wr_volume_wrap (load_rolling s d))"

definition sets_limits_of :: "string \<Rightarrow> wrap_call \<Rightarrow> bool" where
  "sets_limits_of d c \<longleftrightarrow> (\<exists>p l. call_msg c = SetPairLimits d p l)"

lemma find_set_limits_of_other:
  "set_limits_of_first d p l ps = Some qs \<Longrightarrow> k \<noteq> d \<Longrightarrow>
   List.find (\<lambda>x. dp_native_denom x = k) qs = List.find (\<lambda>x. dp_native_denom x = k) ps"
  by (induction ps arbitrary: qs) (auto split: if_splits)

text \<open>A step from a storage that keeps the invariant and has the pair of \<open>d\<close> and \<open>t\<close>.\<close>

definition wired_step ::
  "cw20_execute_msg api \<Rightarrow> wrap_from_json \<Rightarrow> string \<Rightarrow> addr \<Rightarrow> wrap_call \<Rightarrow>
   wrap_storage \<Rightarrow> wrap_storage \<Rightarrow> bool" where
  "wired_step a fj d t c s s' \<longleftrightarrow> wrap_step a fj c s s' \<and> wrap_inv s \<and> wired d t s"

lemma wired_run:
  assumes "run (wrap_step a fj) s es s'" and "wrap_inv s" and "wired d t s"
  shows "run (wired_step a fj d t) s es s'"
  using assms
proof (induction rule: run.induct)
  case (run_cons c s s1 es s')
  then have "wrap_inv s1" "wired d t s1"
    using wrap_step_inv wrap_step_wired by blast+
  with run_cons show ?case
    by (auto simp: wired_step_def intro: run.run_cons)
qed (simp add: run_nil)

text \<open>The counters of the denom after a swap on its pair, and on another.\<close>

lemma passes_pair_denom:
  assumes "passes_pair c s s' cfg p n" and "wrap_inv s" and "dp_native_denom p = d"
  shows "unat n \<le> denom_per_tx d s"
    and "(denom_start d s \<noteq> 0 \<and> call_time c < denom_start d s + 86400 \<and>
          denom_start d s' = denom_start d s \<and> denom_volume d s' = denom_volume d s + unat n \<and>
          denom_volume d s' \<le> denom_cap d s) \<or>
         ((denom_start d s = 0 \<or> denom_start d s + 86400 \<le> call_time c) \<and>
          denom_start d s' = call_time c \<and> denom_volume d s' = unat n \<and>
          unat n \<le> denom_cap d s)"
proof -
  from assms(1) obtain roll where cfg: "n_config s = Some cfg" "p \<in> set (nc_pairs cfg)"
    and l: "wrap_limits_pass (call_env c) (load_rolling s d) p n roll"
    and s': "s' = s\<lparr>n_rolling := (n_rolling s)(d \<mapsto> roll)\<rparr>"
    unfolding passes_pair_def assms(3) by blast
  from assms(2) cfg(1) have "pairs_ok (nc_pairs cfg)"
    by (simp add: wrap_inv_def wrap_config_ok_def)
  with cfg assms(3) have p: "denom_pair_of d s = Some p"
    by (simp add: denom_pair_of_def find_denom_iff)
  have roll: "load_rolling s' d = roll"
    by (simp add: s' load_rolling_update)
  note w = passes_limits_window[OF l[unfolded wrap_limits_pass_def]]
  show "unat n \<le> denom_per_tx d s"
    using w(1) by (simp add: denom_per_tx_def p)
  show "(denom_start d s \<noteq> 0 \<and> call_time c < denom_start d s + 86400 \<and>
          denom_start d s' = denom_start d s \<and> denom_volume d s' = denom_volume d s + unat n \<and>
          denom_volume d s' \<le> denom_cap d s) \<or>
         ((denom_start d s = 0 \<or> denom_start d s + 86400 \<le> call_time c) \<and>
          denom_start d s' = call_time c \<and> denom_volume d s' = unat n \<and> unat n \<le> denom_cap d s)"
    using w(2) by (simp add: denom_start_def denom_volume_def denom_cap_def p roll)
qed

lemma passes_pair_other:
  "passes_pair c s s' cfg p n \<Longrightarrow> dp_native_denom p \<noteq> d \<Longrightarrow>
   denom_start d s' = denom_start d s \<and> denom_volume d s' = denom_volume d s"
  by (auto simp: passes_pair_def denom_start_def denom_volume_def load_rolling_update)

text \<open>Every step, seen from one denom: a swap on its pair, or no change of its counters.\<close>

lemma wired_step_cases:
  assumes "wired_step a fj d t c s s'"
  obtains (swap) cfg p n where "passes_pair c s s' cfg p n" "dp_native_denom p = d"
      "wrap_spent t c = unat n"
  | (other) "wrap_spent t c = 0" "denom_start d s' = denom_start d s"
      "denom_volume d s' = denom_volume d s"
proof -
  have step: "wrap_step a fj c s s'" and inv: "wrap_inv s" and w: "wired d t s"
    using assms by (simp_all add: wired_step_def)
  have pass: thesis if pp: "passes_pair c s s' cfg p n"
    and sp: "wrap_spent t c = (if dp_wrapped_token p = t then unat n else 0)" for cfg p n
    using swap[OF pp] other passes_pair_other[OF pp] wired_pair_iff[OF inv w pp] sp by metis
  from step show thesis
  proof (cases rule: wrap_step_cases)
    case (wrap cfg x p out)
    show thesis
      by (rule pass[OF wrap_swap_passes[OF wrap(2)]])
        (simp add: wrap_spent_def wrap_swap_totals[OF wrap(2)])
  next
    case (unwrap m cfg p user min_out out bal)
    show thesis
      by (rule pass[OF unwrap_swap_passes[OF unwrap(2)]])
        (simp add: wrap_spent_def unwrap_swap_totals[OF unwrap(2)])
  next
    case (admin cfg cfg')
    show thesis
      by (rule other) (simp_all add: wrap_spent_def wrap_admin_totals[OF admin(5)]
          denom_start_def denom_volume_def load_rolling_cong[OF admin(4)])
  qed
qed

lemma wrap_step_denom_pair:
  assumes "wrap_step a fj c s s'" and "\<not> sets_limits_of d c"
  shows "denom_pair_of d s' = denom_pair_of d s"
  using assms(1)
proof (cases rule: wrap_step_cases)
  case (admin cfg cfg')
  have "List.find (\<lambda>p. dp_native_denom p = d) (nc_pairs cfg') =
      List.find (\<lambda>p. dp_native_denom p = d) (nc_pairs cfg)"
    using admin(7) assms(2) find_set_limits_of_other unfolding sets_limits_of_def by metis
  with admin show ?thesis by (simp add: denom_pair_of_def)
qed (auto simp: denom_pair_of_def wrap_swap_def unwrap_swap_def)

interpretation wrap_limits: rolling_limited
  "wired_step a fj d t" call_time "wrap_spent t" "sets_limits_of d"
  "denom_start d" "denom_volume d" "denom_per_tx d" "denom_cap d"
  for a fj d t
proof unfold_locales
  fix c s s'
  assume st: "wired_step a fj d t c s s'"
  then have inv: "wrap_inv s" by (simp add: wired_step_def)
  show "wrap_spent t c \<le> denom_per_tx d s"
    using st by (cases rule: wired_step_cases) (simp_all add: passes_pair_denom(1)[OF _ inv])
  show "wrap_spent t c = 0 \<and> denom_start d s' = denom_start d s \<and>
      denom_volume d s' = denom_volume d s \<or>
      denom_start d s \<noteq> 0 \<and> call_time c < denom_start d s + 86400 \<and>
      denom_start d s' = denom_start d s \<and> denom_volume d s' = denom_volume d s + wrap_spent t c \<and>
      denom_volume d s' \<le> denom_cap d s \<or>
      (denom_start d s = 0 \<or> denom_start d s + 86400 \<le> call_time c) \<and>
      denom_start d s' = call_time c \<and> denom_volume d s' = wrap_spent t c \<and>
      wrap_spent t c \<le> denom_cap d s"
    using st
  proof (cases rule: wired_step_cases)
    case (swap cfg p n)
    show ?thesis
      unfolding swap(3) using passes_pair_denom(2)[OF swap(1) inv swap(2)] by blast
  qed simp
  show "denom_cap d s' = denom_cap d s \<and> denom_per_tx d s' = denom_per_tx d s"
    if "\<not> sets_limits_of d c"
    using wrap_step_denom_pair[OF _ that] st
    by (auto simp: wired_step_def denom_cap_def denom_per_tx_def)
qed

section \<open>Absence of aborts\<close>

definition wrap_host_total ::
  "cw20_execute_msg api \<Rightarrow> wrap_from_json \<Rightarrow> bank_querier \<Rightarrow> bool" where
  "wrap_host_total a fj q \<longleftrightarrow>
     (\<forall>x. addr_validate a x \<noteq> Panicked) \<and> (\<forall>b. fj b \<noteq> Panicked) \<and> (\<forall>x d. q x d \<noteq> Panicked)"

lemma wrap_ensure_limits_no_panic:
  "wrap_rolling_ok r \<Longrightarrow> wrap_ensure_limits e r p n \<noteq> Panicked"
  by (auto simp: wrap_ensure_limits_Panic_iff wrap_rolling_ok_def)

lemma wrap_execute_no_panic:
  assumes "wrap_host_total a fj q" and "wrap_inv s"
  shows "wrap_execute a fj q e info m s \<noteq> Panicked"
proof -
  have r: "wrap_rolling_ok (load_rolling s d)" for d
    using assms(2) by (simp add: wrap_inv_def)
  have h: "addr_validate a x \<noteq> Panicked" "fj b \<noteq> Panicked" "q x d \<noteq> Panicked" for x b d
    using assms(1) by (simp_all add: wrap_host_total_def)
  show ?thesis
  proof (cases m)
    case Wrap
    then show ?thesis
      by (auto simp: wrap_execute_def execute_wrap_def panic_simps Let_def
          wrap_ensure_limits_no_panic[OF r])
  next
    case (Receive x)
    then show ?thesis
      by (auto simp: wrap_execute_def wrap_receive_cw20_def panic_simps Let_def h
          wrap_ensure_limits_no_panic[OF r])
  qed (auto simp: wrap_execute_def exec_set_pair_limits_def wrap_set_paused_def
      wrap_set_fee_bps_def wrap_propose_gov_def wrap_accept_gov_def Let_def panic_simps h)
qed

section \<open>Governance\<close>

definition wrap_gov :: "wrap_storage \<Rightarrow> addr option" where
  "wrap_gov s = map_option nc_governance (n_config s)"

definition wrap_pend :: "wrap_storage \<Rightarrow> addr option" where
  "wrap_pend s = map_option wp_new_address (n_pending_governance s)"

definition wrap_nominee :: "cw20_execute_msg api \<Rightarrow> wrap_call \<Rightarrow> addr option" where
  "wrap_nominee a c = (case call_msg c of
       ProposeGovernance address \<Rightarrow>
         (case addr_validate a address of Inr x \<Rightarrow> Some x | Inl _ \<Rightarrow> None)
     | _ \<Rightarrow> None)"

definition wrap_accepts :: "wrap_call \<Rightarrow> bool" where
  "wrap_accepts c \<longleftrightarrow> call_msg c = AcceptGovernance"

lemmas wrap_gov_views = wrap_gov_def wrap_pend_def wrap_nominee_def wrap_accepts_def

lemma wrap_swap_keeps_governance:
  assumes "wrap_step a fj c s s'" and "call_msg c = Wrap \<or> (\<exists>m. call_msg c = Receive m)"
  shows "wrap_gov s' = wrap_gov s \<and> wrap_pend s' = wrap_pend s"
  using assms
  by (auto simp: wrap_step_def wrap_execute_def execute_wrap_Ok_iff wrap_receive_Ok_iff wrap_swap_def
      unwrap_swap_def wrap_gov_views)

interpretation wrap_handover: two_step_governance
  "wrap_step a fj" wrap_gov wrap_pend call_sender "wrap_nominee a" wrap_accepts
  for a fj
proof unfold_locales
  fix c s s'
  assume st: "wrap_step a fj c s s'"
  show "wrap_gov s' = wrap_gov s \<or> (wrap_accepts c \<and>
      wrap_pend s = Some (call_sender c) \<and> wrap_gov s' = Some (call_sender c))"
    using st wrap_swap_keeps_governance[OF st]
    by (cases "call_msg c") (auto simp: wrap_step_def wrap_execute_def wrap_gov_views
        call_sender_def dest!: wrap_admin_Ok)
  show "wrap_pend s' = wrap_pend s \<or> wrap_pend s' = None \<or>
      (wrap_nominee a c \<noteq> None \<and> wrap_pend s' = wrap_nominee a c \<and>
       wrap_gov s = Some (call_sender c))"
    using st wrap_swap_keeps_governance[OF st]
    by (cases "call_msg c") (auto simp: wrap_step_def wrap_execute_def wrap_gov_views
        call_sender_def dest!: wrap_admin_Ok)
qed

section \<open>A backed unwrap goes through\<close>

text \<open>
  With the bank balance at least the amount unwrapped, nothing but the pause, the limits and
  the caller's own minimum stands in the way.
\<close>

lemma unwrap_succeeds:
  assumes "wrap_inv s" and "n_config s = Some cfg" and "\<not> nc_paused cfg"
    and "p \<in> set (nc_pairs cfg)" and "sender info = dp_wrapped_token p"
    and "fj (cw20_msg m) = Ok (Unwrap min_out)" and "addr_validate a (cw20_sender m) = Ok user"
    and "json_error a (Cw20Burn (cw20_amount m)) = None"
    and "q (contract_address e) (dp_native_denom p) = Ok bal" and "cw20_amount m \<le> bal"
    and "unat (cw20_amount m) * (10000 - unat (nc_fee_bps cfg)) < 2 ^ 128"
    and "unat min_out \<le> unat (cw20_amount m) * (10000 - unat (nc_fee_bps cfg)) div 10000"
    and "cw20_amount m \<le> dp_per_tx_wrap_limit p"
    and "unat (wr_volume_wrap (load_rolling s (dp_native_denom p))) + unat (cw20_amount m) \<le>
           unat (dp_rolling_24h_wrap_limit p)"
  shows "\<exists>s' r out. wrap_receive_cw20 a fj q e info m s = Ok (s', r) \<and>
     messages r =
       [WasmExecute (dp_wrapped_token p) (Cw20Burn (cw20_amount m)) [],
        BankSend user [\<lparr>coin_denom = dp_native_denom p, coin_amount = out\<rparr>]] \<and>
     unat out = unat (cw20_amount m) * (10000 - unat (nc_fee_bps cfg)) div 10000"
proof -
  define roll where "roll = load_rolling s (dp_native_denom p)"
  from assms(1,2) have cfg: "wrap_config_ok cfg" "wrap_rolling_ok roll"
    by (simp_all add: wrap_inv_def roll_def)
  define k where "k = unat (cw20_amount m) * (10000 - unat (nc_fee_bps cfg)) div 10000"
  have k_lt: "k < 2 ^ 128" using assms(11) div_less_pow unfolding k_def by blast
  define out :: u128 where "out = of_nat k"
  have out: "unat out = k"
    using k_lt by (simp add: out_def unsigned_of_nat take_bit_nat_eq_self)
  have fee: "apply_fee_ust1 (cw20_amount m) (nc_fee_bps cfg) = Ok out"
    using cfg(1) assms(11) out by (simp add: apply_fee_ust1_Ok_iff wrap_config_ok_def k_def)
  have le: "out \<le> bal" "min_out \<le> out"
    using apply_fee_ust1_le[OF fee] assms(10,12) out by (auto simp: word_le_nat_alt k_def)
  have room: "volume_base (block_seconds e) (wr_window_start_sec roll) (wr_volume_wrap roll) +
      unat (cw20_amount m) \<le> unat (dp_rolling_24h_wrap_limit p)"
    using assms(14) by (simp add: volume_base_def roll_def)
  obtain st v where "passes_limits (block_seconds e) (wr_window_start_sec roll)
      (wr_volume_wrap roll) (dp_per_tx_wrap_limit p) (dp_rolling_24h_wrap_limit p)
      (cw20_amount m) st v"
    by (rule passes_limitsI[OF assms(13) cfg(2)[unfolded wrap_rolling_ok_def] room])
  then have lim: "wrap_limits_pass e roll p (cw20_amount m)
      \<lparr>wr_window_start_sec = st, wr_volume_wrap = v\<rparr>"
    by (simp add: wrap_limits_pass_def)
  have find: "List.find (\<lambda>p. dp_wrapped_token p = sender info) (nc_pairs cfg) = Some p"
    using cfg(1) assms(4,5) by (simp add: find_token_iff wrap_config_ok_def)
  let ?r = "\<lparr>messages = [WasmExecute (dp_wrapped_token p) (Cw20Burn (cw20_amount m)) [],
        BankSend user [\<lparr>coin_denom = dp_native_denom p, coin_amount = out\<rparr>]],
      attributes = [(''action'', ''unwrap''), (''denom'', dp_native_denom p),
        (''native_out'', show_nat (unat out)),
        (''fee_total_bps'', show_nat (unat (nc_fee_bps cfg))),
        (''fee_chain_tax_bps'', show_nat (unat (nc_fee_bps cfg div 2))),
        (''fee_cmm_protocol_bps'', show_nat (unat (nc_fee_bps cfg - nc_fee_bps cfg div 2)))]\<rparr>"
  have "unwrap_swap a fj q e info m s
      (s\<lparr>n_rolling := (n_rolling s)(dp_native_denom p \<mapsto>
          \<lparr>wr_window_start_sec = st, wr_volume_wrap = v\<rparr>)\<rparr>) ?r cfg p user min_out out bal"
    using assms find fee le lim by (auto simp: unwrap_swap_def roll_def)
  then have "wrap_receive_cw20 a fj q e info m s = Ok (s\<lparr>n_rolling := (n_rolling s)
      (dp_native_denom p \<mapsto> \<lparr>wr_window_start_sec = st, wr_volume_wrap = v\<rparr>)\<rparr>, ?r)"
    unfolding wrap_receive_Ok_iff by blast
  moreover have "unat out = unat (cw20_amount m) * (10000 - unat (nc_fee_bps cfg)) div 10000"
    by (simp only: out k_def)
  ultimately show ?thesis by fastforce
qed

end
