(* ===== verification/Wrap_Scenario.thy ===== *)
theory Wrap_Scenario
  imports Native_Wrap_Runs Scenario_Host
begin

text \<open>
  A concrete native wrap contract, used to show that the hypotheses of the properties can
  hold: it is instantiated, takes a wrap of LUNC and then an unwrap.
\<close>

definition lunc_pair :: denom_pair where
  "lunc_pair = \<lparr>dp_native_denom = ''uluna'', dp_wrapped_token = ''wlunc'',
     dp_per_tx_wrap_limit = 2000000, dp_rolling_24h_wrap_limit = 3000000\<rparr>"

definition ustc_pair :: denom_pair where
  "ustc_pair = \<lparr>dp_native_denom = ''uusd'', dp_wrapped_token = ''wustc'',
     dp_per_tx_wrap_limit = 2000000, dp_rolling_24h_wrap_limit = 3000000\<rparr>"

definition wrap_cfg :: wrap_config where
  "wrap_cfg = \<lparr>nc_governance = ''gov'', nc_fee_bps = 100, nc_paused = False,
     nc_pairs = [lunc_pair, ustc_pair]\<rparr>"

definition wrap_at :: "wrap_rolling option \<Rightarrow> wrap_storage" where
  "wrap_at r = \<lparr>n_contract_info = Some (WRAP_CONTRACT_NAME, ''0.1.0''), n_config = Some wrap_cfg,
     n_rolling = (\<lambda>_. None)(''uluna'' := r), n_pending_governance = None\<rparr>"

definition lunc_rolling :: "u128 \<Rightarrow> wrap_rolling option" where
  "lunc_rolling v = Some \<lparr>wr_window_start_sec = 1000000, wr_volume_wrap = v\<rparr>"

definition wrap_msg :: wrap_instantiate_msg where
  "wrap_msg = \<lparr>ni_governance = ''gov'', ni_fee_bps = 100, ni_pairs =
     [\<lparr>pi_native_denom = ''uluna'', pi_wrapped_token = ''wlunc'',
       pi_per_tx_wrap_limit = 2000000, pi_rolling_24h_wrap_limit = 3000000\<rparr>,
      \<lparr>pi_native_denom = ''uusd'', pi_wrapped_token = ''wustc'',
       pi_per_tx_wrap_limit = 2000000, pi_rolling_24h_wrap_limit = 3000000\<rparr>]\<rparr>"

definition unwrap_json :: wrap_from_json where
  "unwrap_json b = Ok (Unwrap 1)"

definition wrap_response :: "cw20_execute_msg response" where
  "wrap_response = \<lparr>messages = [WasmExecute ''wlunc'' (Cw20Mint ''alice'' 990000) []],
     attributes = [(''action'', ''wrap''), (''denom'', ''uluna''), (''wrapped_out'', show_nat 990000),
       (''fee_total_bps'', show_nat 100), (''fee_chain_tax_bps'', show_nat 50),
       (''fee_cmm_protocol_bps'', show_nat 50)]\<rparr>"

definition unwrap_response :: "cw20_execute_msg response" where
  "unwrap_response = \<lparr>messages = [WasmExecute ''wlunc'' (Cw20Burn 500000) [],
       BankSend ''alice'' [\<lparr>coin_denom = ''uluna'', coin_amount = 495000\<rparr>]],
     attributes = [(''action'', ''unwrap''), (''denom'', ''uluna''), (''native_out'', show_nat 495000),
       (''fee_total_bps'', show_nat 100), (''fee_chain_tax_bps'', show_nat 50),
       (''fee_cmm_protocol_bps'', show_nat 50)]\<rparr>"

definition lunc_coin :: "u128 \<Rightarrow> coin" where
  "lunc_coin n = \<lparr>coin_denom = ''uluna'', coin_amount = n\<rparr>"

definition unwrap_msg :: cw20_receive_msg where
  "unwrap_msg = \<lparr>cw20_sender = ''alice'', cw20_amount = 500000, cw20_msg = ''unwrap''\<rparr>"

definition bank :: bank_querier where
  "bank x d = Ok 1000000"

definition wrap_call_1 :: wrap_call where
  "wrap_call_1 = \<lparr>call_querier = bank, call_env = at_time 1000000,
     call_info = \<lparr>sender = ''alice'', funds = [lunc_coin 1000000]\<rparr>, call_msg = Wrap,
     call_response = wrap_response\<rparr>"

definition wrap_call_2 :: wrap_call where
  "wrap_call_2 = \<lparr>call_querier = bank, call_env = at_time 1000100, call_info = sent_by ''wlunc'',
     call_msg = Receive unwrap_msg, call_response = unwrap_response\<rparr>"

lemma wrap_at_simps [simp]:
  "n_config (wrap_at r) = Some wrap_cfg" "nc_paused wrap_cfg = False"
  "nc_pairs wrap_cfg = [lunc_pair, ustc_pair]" "nc_fee_bps wrap_cfg = 100"
  "dp_native_denom lunc_pair = ''uluna''" "dp_wrapped_token lunc_pair = ''wlunc''"
  "dp_native_denom ustc_pair = ''uusd''" "dp_wrapped_token ustc_pair = ''wustc''"
  "(wrap_at r)\<lparr>n_rolling := (n_rolling (wrap_at r))(''uluna'' := r')\<rparr> = wrap_at r'"
  "load_rolling (wrap_at (Some x)) ''uluna'' = x"
  "load_rolling (wrap_at None) d = \<lparr>wr_window_start_sec = 0, wr_volume_wrap = 0\<rparr>"
  by (simp_all add: wrap_at_def wrap_cfg_def lunc_pair_def ustc_pair_def load_rolling_def
      lunc_rolling_def)

lemma wrap_instantiated:
  "\<exists>r. wrap_instantiate plain_api ''0.1.0'' (at_time 1000000) (sent_by ''deployer'') wrap_msg
     wrap_empty = Ok (wrap_at None, r)"
  by (simp add: wrap_instantiate_def wrap_set_contract_version_def wrap_empty_def wrap_msg_def
      wrap_at_def wrap_cfg_def lunc_pair_def ustc_pair_def validate_pairs_def LUNC_DENOM_def
      USTC_DENOM_def BPS_DENOM_def)

lemma wrap_at_inv: "wrap_inv (wrap_at None)"
  using wrap_instantiated wrap_instantiate_inv by (auto simp: wrap_empty_def)

lemma wrap_at_wired: "wired ''uluna'' ''wlunc'' (wrap_at r)"
  by (simp add: wired_def)

lemma wrap_step_1:
  "wrap_step plain_api unwrap_json wrap_call_1 (wrap_at None) (wrap_at (lunc_rolling 990000))"
proof -
  have "wrap_limits_pass (at_time 1000000) \<lparr>wr_window_start_sec = 0, wr_volume_wrap = 0\<rparr> lunc_pair
      990000 \<lparr>wr_window_start_sec = 1000000, wr_volume_wrap = 990000\<rparr>"
    by (simp add: wrap_limits_pass_def passes_limits_def volume_base_def window_restarts_def
        lunc_pair_def block_seconds_at word_le_nat_alt)
  moreover have "apply_fee_ust1 1000000 100 = Ok 990000"
    by (simp add: apply_fee_ust1_Ok_iff)
  ultimately have "wrap_swap plain_api (at_time 1000000)
      \<lparr>sender = ''alice'', funds = [lunc_coin 1000000]\<rparr> (wrap_at None)
      (wrap_at (lunc_rolling 990000)) wrap_response wrap_cfg (lunc_coin 1000000) lunc_pair 990000"
    by (auto simp: wrap_swap_def lunc_coin_def wrap_response_def lunc_rolling_def)
  then have "execute_wrap plain_api (at_time 1000000)
      \<lparr>sender = ''alice'', funds = [lunc_coin 1000000]\<rparr> (wrap_at None) =
      Ok (wrap_at (lunc_rolling 990000), wrap_response)"
    unfolding execute_wrap_Ok_iff by blast
  then show ?thesis by (simp add: wrap_step_def wrap_execute_def wrap_call_1_def)
qed

lemma wrap_step_2:
  "wrap_step plain_api unwrap_json wrap_call_2 (wrap_at (lunc_rolling 990000))
     (wrap_at (lunc_rolling 1490000))"
proof -
  have "wrap_limits_pass (at_time 1000100)
      \<lparr>wr_window_start_sec = 1000000, wr_volume_wrap = 990000\<rparr> lunc_pair
      500000 \<lparr>wr_window_start_sec = 1000000, wr_volume_wrap = 1490000\<rparr>"
    by (simp add: wrap_limits_pass_def passes_limits_def volume_base_def window_restarts_def
        lunc_pair_def block_seconds_at word_le_nat_alt)
  moreover have "apply_fee_ust1 500000 100 = Ok 495000"
    by (simp add: apply_fee_ust1_Ok_iff)
  ultimately have "unwrap_swap plain_api unwrap_json bank (at_time 1000100) (sent_by ''wlunc'')
      unwrap_msg (wrap_at (lunc_rolling 990000)) (wrap_at (lunc_rolling 1490000)) unwrap_response
      wrap_cfg lunc_pair ''alice'' 1 495000 1000000"
    by (auto simp: unwrap_swap_def unwrap_msg_def unwrap_json_def bank_def unwrap_response_def
        lunc_rolling_def word_le_nat_alt)
  then have "wrap_receive_cw20 plain_api unwrap_json bank (at_time 1000100) (sent_by ''wlunc'')
      unwrap_msg (wrap_at (lunc_rolling 990000)) =
      Ok (wrap_at (lunc_rolling 1490000), unwrap_response)"
    unfolding wrap_receive_Ok_iff by blast
  then show ?thesis by (simp add: wrap_step_def wrap_execute_def wrap_call_2_def)
qed

lemma wrap_scenario:
  "run (wrap_step plain_api unwrap_json) (wrap_at None) [wrap_call_1, wrap_call_2]
     (wrap_at (lunc_rolling 1490000))"
  using wrap_step_1 wrap_step_2 by (auto simp: run_cons_iff)

end
