(* ===== verification/Wrap_Addresses.thy ===== *)
theory Wrap_Addresses
  imports Addresses Native_Wrap_Runs
begin

text \<open>Every address the native wrap contract stores, or sends a message to, is validated.\<close>

definition wrap_addresses :: "wrap_storage \<Rightarrow> addr set" where
  "wrap_addresses s = (case n_config s of None \<Rightarrow> {}
     | Some cfg \<Rightarrow> insert (nc_governance cfg) (dp_wrapped_token ` set (nc_pairs cfg))) \<union>
     (case n_pending_governance s of None \<Rightarrow> {} | Some p \<Rightarrow> {wp_new_address p})"

interpretation wrap_typing: address_typing
  "wrap_step a fj" wrap_addresses "sent_to cw20_addresses" call_sender "validated a" for a fj
proof unfold_locales
  fix c s s'
  assume st: "wrap_step a fj c s s'"
  show "wrap_addresses s' \<subseteq> wrap_addresses s \<union> validated a"
  proof (cases "call_msg c")
    case (SetPairLimits d p l)
    with st obtain cfg ps where "n_config s = Some cfg" and
      "set_limits_of_first d p l (nc_pairs cfg) = Some ps" and
      "s' = s\<lparr>n_config := Some (cfg\<lparr>nc_pairs := ps\<rparr>)\<rparr>"
      by (auto simp: wrap_step_def wrap_execute_def dest!: exec_set_pair_limits_Ok)
    moreover from this(2) have "dp_wrapped_token ` set ps = dp_wrapped_token ` set (nc_pairs cfg)"
      by (metis list.set_map set_limits_of_first_keys)
    ultimately show ?thesis by (auto simp: wrap_addresses_def)
  qed (use st in \<open>auto simp: wrap_step_def wrap_execute_def execute_wrap_Ok_iff wrap_receive_Ok_iff
      wrap_swap_def unwrap_swap_def wrap_addresses_def validated_def dest!: wrap_admin_Ok
      split: option.splits\<close>)
  show "sent_to cw20_addresses c \<subseteq> wrap_addresses s \<union> validated a \<union> {call_sender c}"
    using st
  proof (cases rule: wrap_step_cases)
    case (wrap cfg x p out)
    then show ?thesis
      by (auto simp: sent_to_def wrap_swap_def wrap_addresses_def call_sender_def dest: find_mem)
  next
    case (unwrap m cfg p user min_out out bal)
    then show ?thesis
      by (auto simp: sent_to_def unwrap_swap_def wrap_addresses_def call_sender_def
          dest: validatedI dest: find_mem)
  qed (simp add: sent_to_def)
qed

end
