(* ===== verification/Wrap_Properties.thy ===== *)
theory Wrap_Properties
  imports Wrap_Scenario Wrap_Addresses
begin

text \<open>The properties of the native wrap contract, each with a witness on the concrete deployment.\<close>

definition wrap_counter :: "wrap_rolling \<Rightarrow> nat \<times> nat" where
  "wrap_counter r = (unat (wr_window_start_sec r), unat (wr_volume_wrap r))"

text \<open>
  C28: A wrap that goes through received exactly one coin, of a configured denom and not zero,
  and kept to the limits of that denom. It mints to the sender, on the token of that denom and
  on no other, the amount less the fee, rounded down; the response holds this message and the
  attributes of the fee and nothing else. Of the storage only the counter of that denom
  changes: it restarts with the minted amount when it never started or is 24 hours old, else
  the minted amount is added to it.
\<close>

theorem wrap_outcome:
  assumes "wrap_step a fj c s s'" and "call_msg c = Wrap"
  shows "\<exists>cfg x p out roll. n_config s = Some cfg \<and> \<not> nc_paused cfg \<and>
     funds (call_info c) = [x] \<and> coin_amount x \<noteq> 0 \<and> p \<in> set (nc_pairs cfg) \<and>
     dp_native_denom p = coin_denom x \<and>
     unat out = unat (coin_amount x) * (10000 - unat (nc_fee_bps cfg)) div 10000 \<and>
     call_response c = \<lparr>
       messages = [WasmExecute (dp_wrapped_token p) (Cw20Mint (call_sender c) out) []],
       attributes =
         [(''action'', ''wrap''), (''denom'', coin_denom x), (''wrapped_out'', show_nat (unat out)),
          (''fee_total_bps'', show_nat (unat (nc_fee_bps cfg))),
          (''fee_chain_tax_bps'', show_nat (unat (nc_fee_bps cfg) div 2)),
          (''fee_cmm_protocol_bps'', show_nat (unat (nc_fee_bps cfg) - unat (nc_fee_bps cfg) div 2))]\<rparr> \<and>
     s' = s\<lparr>n_rolling := (n_rolling s)(coin_denom x := Some roll)\<rparr> \<and>
     wrap_counter roll =
       counted (call_time c) (wrap_counter (load_rolling s (coin_denom x))) (unat out) \<and>
     out \<le> dp_per_tx_wrap_limit p \<and> wr_volume_wrap roll \<le> dp_rolling_24h_wrap_limit p"
proof -
  from assms(1,2) obtain cfg x p out where
    w: "wrap_swap a (call_env c) (call_info c) s s' (call_response c) cfg x p out"
    by (auto simp: wrap_step_def wrap_execute_def execute_wrap_Ok_iff)
  then obtain roll where p: "p \<in> set (nc_pairs cfg)" "dp_native_denom p = coin_denom x"
    and l: "wrap_limits_pass (call_env c) (load_rolling s (dp_native_denom p)) p out roll"
    and s': "s' = s\<lparr>n_rolling := (n_rolling s)(dp_native_denom p := Some roll)\<rparr>"
    by (auto simp: wrap_swap_def dest: find_mem)
  note counted = passes_limits_counted[OF l[unfolded wrap_limits_pass_def]]
  from w p s' counted show ?thesis
    unfolding wrap_swap_def apply_fee_ust1_Ok_iff call_sender_def wrap_response_eq_iff fee_halves
    by (intro exI[of _ cfg] exI[of _ x] exI[of _ p] exI[of _ out] exI[of _ roll])
      (simp add: wrap_counter_def call_time_def)
qed

theorem wrap_outcome_witness:
  "\<exists>cfg x p out roll. n_config (wrap_at None) = Some cfg \<and> \<not> nc_paused cfg \<and>
     funds (call_info wrap_call_1) = [x] \<and> coin_amount x \<noteq> 0 \<and> p \<in> set (nc_pairs cfg) \<and>
     dp_native_denom p = coin_denom x \<and>
     unat out = unat (coin_amount x) * (10000 - unat (nc_fee_bps cfg)) div 10000 \<and>
     messages (call_response wrap_call_1) =
       [WasmExecute (dp_wrapped_token p) (Cw20Mint (call_sender wrap_call_1) out) []] \<and>
     wrap_at (lunc_rolling 990000) =
       (wrap_at None)\<lparr>n_rolling := (n_rolling (wrap_at None))(coin_denom x := Some roll)\<rparr> \<and>
     wrap_counter roll =
       counted (call_time wrap_call_1) (wrap_counter (load_rolling (wrap_at None) (coin_denom x))) (unat out) \<and>
     out \<le> dp_per_tx_wrap_limit p \<and> wr_volume_wrap roll \<le> dp_rolling_24h_wrap_limit p"
proof -
  have "call_msg wrap_call_1 = Wrap" by (simp add: wrap_call_1_def)
  from wrap_outcome[OF wrap_step_1 this] show ?thesis
    by (elim exE conjE) (intro exI conjI, (assumption | simp)+)
qed

text \<open>
  C15: The wrapped tokens stay backed. Over any run, the native coins of a denom received and
  not sent out again cover the tokens of its pair minted and not burned.
\<close>

theorem wrapped_tokens_backed:
  assumes "run (wrap_step a fj) s es s'" and "wrap_inv s" and "wired d t s"
  shows "sum_list (map (minted_of t) es) + sum_list (map (native_sent d) es) \<le>
     sum_list (map (native_received d) es) + sum_list (map (burned_of t) es)"
  using wrap_run_backing[OF assms] .

theorem wrapped_tokens_backed_witness:
  "sum_list (map (minted_of ''wlunc'') [wrap_call_1, wrap_call_2]) +
     sum_list (map (native_sent ''uluna'') [wrap_call_1, wrap_call_2]) \<le>
   sum_list (map (native_received ''uluna'') [wrap_call_1, wrap_call_2]) +
     sum_list (map (burned_of ''wlunc'') [wrap_call_1, wrap_call_2])"
  by (rule wrapped_tokens_backed[OF wrap_scenario wrap_at_inv wrap_at_wired])

text \<open>
  C26: A backed unwrap goes through. When the contract is not paused, its balance of the denom
  is at least the amount unwrapped, the limits leave room and the sender's minimum is at most
  the amount after the fee, then the call succeeds, burns the whole amount and sends the
  amount after the fee to the sender.
\<close>

theorem backed_unwrap_succeeds:
  assumes "wrap_inv s" and "n_config s = Some cfg" and "\<not> nc_paused cfg"
    and "p \<in> set (nc_pairs cfg)" and "sender info = dp_wrapped_token p"
    and "fj (cw20_msg m) = Ok (Unwrap min_out)" and "addr_validate a (cw20_sender m) = Ok user"
    and "json_error a (Cw20Burn (cw20_amount m)) = None"
    and "q (contract_address e) (dp_native_denom p) = Ok bal" and "cw20_amount m \<le> bal"
    and "unat (cw20_amount m) * (10000 - unat (nc_fee_bps cfg)) < 2 ^ 128"
    and "unat min_out \<le> unat (cw20_amount m) * (10000 - unat (nc_fee_bps cfg)) div 10000"
    and "cw20_amount m \<le> dp_per_tx_wrap_limit p"
    and "unat (wr_volume_wrap (load_rolling s (dp_native_denom p))) + unat (cw20_amount m) \<le>
           unat (dp_rolling_24h_wrap_limit p)"
  shows "\<exists>s' r out. wrap_receive_cw20 a fj q e info m s = Ok (s', r) \<and>
     messages r =
       [WasmExecute (dp_wrapped_token p) (Cw20Burn (cw20_amount m)) [],
        BankSend user [\<lparr>coin_denom = dp_native_denom p, coin_amount = out\<rparr>]] \<and>
     unat out = unat (cw20_amount m) * (10000 - unat (nc_fee_bps cfg)) div 10000"
  by (rule unwrap_succeeds[where fj = fj and q = q]) (rule assms)+

theorem backed_unwrap_succeeds_witness:
  "\<exists>s' r out. wrap_receive_cw20 plain_api unwrap_json bank (at_time 1000100) (sent_by ''wlunc'')
       unwrap_msg (wrap_at None) = Ok (s', r) \<and>
     messages r =
       [WasmExecute (dp_wrapped_token lunc_pair) (Cw20Burn (cw20_amount unwrap_msg)) [],
        BankSend ''alice'' [\<lparr>coin_denom = dp_native_denom lunc_pair, coin_amount = out\<rparr>]] \<and>
     unat out = unat (cw20_amount unwrap_msg) * (10000 - unat (nc_fee_bps wrap_cfg)) div 10000"
  by (rule backed_unwrap_succeeds[OF wrap_at_inv, where bal = 1000000 and min_out = 1])
    (simp_all add: unwrap_msg_def unwrap_json_def bank_def lunc_pair_def)

text \<open>
  C27: The limits hold for each denom apart. In any run within a span of 24 hours in which
  governance does not change the limits of the denom, the tokens of its pair minted and
  burned add up to at most twice its 24 hour limit, whatever happens on the other pair.
\<close>

theorem wrap_span_limit:
  assumes "run (wrap_step a fj) s es s'" and "wrap_inv s" and "wired d t s"
    and "\<And>c. c \<in> set es \<Longrightarrow> \<not> sets_limits_of d c"
    and "\<And>c. c \<in> set es \<Longrightarrow> 0 < call_time c \<and> t0 \<le> call_time c \<and> call_time c < t0 + 86400"
    and "denom_volume d s \<le> denom_cap d s"
  shows "sum_list (map (wrap_spent t) es) + denom_volume d s \<le> 2 * denom_cap d s"
  using wrap_limits.span_total[OF wired_run[OF assms(1-3)] assms(4-6)] .

theorem wrap_span_limit_witness:
  "sum_list (map (wrap_spent ''wlunc'') [wrap_call_1, wrap_call_2]) +
     denom_volume ''uluna'' (wrap_at None) \<le> 2 * denom_cap ''uluna'' (wrap_at None)"
proof (rule wrap_span_limit[OF wrap_scenario wrap_at_inv wrap_at_wired])
  show "0 < call_time c \<and> 1000000 \<le> call_time c \<and> call_time c < 1000000 + 86400"
    if "c \<in> set [wrap_call_1, wrap_call_2]" for c
    using that by (auto simp: wrap_call_1_def wrap_call_2_def call_time_def block_seconds_at)
qed (auto simp: sets_limits_of_def wrap_call_1_def wrap_call_2_def denom_volume_def denom_cap_def)

text \<open>
  C33: From an instantiation on an empty storage, whatever calls follow, the configuration has
  exactly the pairs of LUNC and USTC on two different tokens, the fee is at most 100 percent,
  and no message aborts.
\<close>

theorem wrap_reachable_invariant:
  assumes "wrap_instantiate a v e info m wrap_empty = Ok (s0, r)" and "run (wrap_step a fj) s0 es s"
    and "wrap_host_total a fj q"
  shows "wrap_execute a fj q e' info' msg s \<noteq> Panicked \<and>
     (\<exists>cfg. n_config s = Some cfg \<and> unat (nc_fee_bps cfg) \<le> 10000 \<and> length (nc_pairs cfg) = 2 \<and>
        set (map dp_native_denom (nc_pairs cfg)) = {LUNC_DENOM, USTC_DENOM} \<and>
        distinct (map dp_wrapped_token (nc_pairs cfg)))"
proof -
  have "wrap_inv s"
    by (rule wrap_run_inv[OF assms(2) wrap_instantiate_inv[OF assms(1)]]) (simp add: wrap_empty_def)
  then show ?thesis
    using wrap_execute_no_panic[OF assms(3)] pairs_ok_length
    by (auto simp: wrap_inv_def wrap_config_ok_def pairs_ok_def split: option.splits)
qed

theorem wrap_reachable_invariant_witness:
  "wrap_execute plain_api unwrap_json bank (at_time 1000200) (sent_by ''wlunc'') Wrap
     (wrap_at (lunc_rolling 1490000)) \<noteq> Panicked \<and>
     (\<exists>cfg. n_config (wrap_at (lunc_rolling 1490000)) = Some cfg \<and>
        unat (nc_fee_bps cfg) \<le> 10000 \<and> length (nc_pairs cfg) = 2 \<and>
        set (map dp_native_denom (nc_pairs cfg)) = {LUNC_DENOM, USTC_DENOM} \<and>
        distinct (map dp_wrapped_token (nc_pairs cfg)))"
proof -
  obtain r where "wrap_instantiate plain_api ''0.1.0'' (at_time 1000000) (sent_by ''deployer'')
      wrap_msg wrap_empty = Ok (wrap_at None, r)"
    using wrap_instantiated by blast
  then show ?thesis
    by (rule wrap_reachable_invariant[OF _ wrap_scenario])
      (simp add: wrap_host_total_def unwrap_json_def bank_def)
qed

text \<open>
  Addresses keep their type in the wrap contract too: the governance, the nominee and the
  tokens of the pairs stay validated, and a call sends messages and coins to validated
  addresses or to its caller.
\<close>

theorem wrap_addresses_validated:
  assumes "wrap_addresses s \<subseteq> validated a" and "run (wrap_step a fj) s cs s'"
  shows "wrap_addresses s' \<subseteq> validated a \<and>
     (\<forall>c\<in>set cs. sent_to cw20_addresses c \<subseteq> validated a \<union> {call_sender c})"
  using wrap_typing.run_typed[OF assms(2,1)] .

text \<open>
  Governance of the wrap contract changes hands only by a nomination that the governance
  of some moment made and a later acceptance by the nominee itself.
\<close>

definition wrap_gov_call :: "addr \<Rightarrow> wrap_execute_msg \<Rightarrow> string \<Rightarrow> wrap_call" where
  "wrap_gov_call x msg act = \<lparr>call_querier = bank, call_env = at_time 1000000,
     call_info = sent_by x, call_msg = msg,
     call_response = add_attribute ''action'' act new_response\<rparr>"

definition wrap_gov_calls :: "wrap_call list" where
  "wrap_gov_calls = [wrap_gov_call ''gov'' (ProposeGovernance ''new'') ''propose_governance'',
     wrap_gov_call ''new'' AcceptGovernance ''accept_governance'']"

definition wrap_new_gov :: wrap_storage where
  "wrap_new_gov = (wrap_at None)\<lparr>n_config := Some (wrap_cfg\<lparr>nc_governance := ''new''\<rparr>)\<rparr>"

theorem wrap_governance_in_two_steps:
  assumes "run (wrap_step a fj) s es s'" and "wrap_gov s' = Some x"
    and "wrap_gov s \<noteq> Some x" and "wrap_pend s \<noteq> Some x"
  shows "\<exists>xs c ys d zs s1. es = xs @ c # ys @ d # zs \<and> run (wrap_step a fj) s xs s1 \<and>
     wrap_gov s1 = Some (call_sender c) \<and> wrap_nominee a c = Some x \<and>
     call_msg d = AcceptGovernance \<and> call_sender d = x"
  using wrap_handover.handover[OF assms] unfolding wrap_accepts_def .

theorem wrap_governance_in_two_steps_witness:
  "\<exists>xs c ys d zs s1. wrap_gov_calls = xs @ c # ys @ d # zs \<and>
     run (wrap_step plain_api unwrap_json) (wrap_at None) xs s1 \<and>
     wrap_gov s1 = Some (call_sender c) \<and> wrap_nominee plain_api c = Some ''new'' \<and>
     call_msg d = AcceptGovernance \<and> call_sender d = ''new''"
proof (rule wrap_governance_in_two_steps)
  show "run (wrap_step plain_api unwrap_json) (wrap_at None) wrap_gov_calls wrap_new_gov"
    by (simp add: wrap_gov_calls_def wrap_gov_call_def run_cons_iff wrap_step_def
        wrap_execute_def wrap_propose_gov_def wrap_accept_gov_def wrap_new_gov_def
        wrap_at_def wrap_cfg_def)
qed (simp_all add: wrap_gov_views wrap_new_gov_def wrap_at_def wrap_cfg_def)

end
