(* ===== verification/Service_Rates.thy ===== *)
theory Service_Rates
  imports Oracle_Contract
begin

text \<open>
  How the oracle service obtains a rate: the agreement of several BSC providers
  (\<open>oracle-service/src/evm_rpc.rs\<close>) and the read of one of them, with the check and the
  cache of chain ids and the conversion of the Venus exchange rate
  (\<open>oracle-service/src/bsc.rs\<close>). The JSON-RPC client, address and URL parsing and the
  256 bit power function are third-party code, so they are parameters.
\<close>

section \<open>Agreement of providers (evm\_rpc.rs)\<close>

definition parse_comma_separated_rpc_urls :: "string \<Rightarrow> string list" where
  "parse_comma_separated_rpc_urls raw =
     filter (\<lambda>s. s \<noteq> []) (map trim (str_split CHR '','' raw))"

definition rates_agree_within_point_zero_one_percent :: "u128 \<Rightarrow> u128 \<Rightarrow> bool" where
  "rates_agree_within_point_zero_one_percent a b =
     (let (hi, lo) = (if b \<le> a then (a, b) else (b, a)) in
      if hi = 0 then lo = 0
      else let diff = hi - lo in
        (case checked_mul diff 10000 of
           Inr x \<Rightarrow> x \<le> hi
         | Inl _ \<Rightarrow> False))"

text \<open>The errors, with the error of a failed read inside where the source wraps it.\<close>

datatype 'e consensus_error =
    NeedTwoUrls
  | FirstTwoDisagree u128 u128
  | ThirdReadFailed 'e
  | NoTwoOfThreeAgree u128 u128 u128
  | OnlyFirstSuccessful u128 'e
  | OnlySecondSuccessful u128 'e
  | FirstThirdDisagree u128 u128
  | SecondThirdDisagree u128 u128
  | SecondAndThirdFailed u128 'e
  | FirstAndThirdFailed u128 'e
  | FirstBothFailed 'e 'e
  | OnlyThirdResponded
  | AllThreeFailed 'e 'e

text \<open>
  \<open>read k url\<close> is the answer of the call number \<open>k\<close> of the tick: two calls may go to the
  same URL and still differ. The first two calls run concurrently and do not interact.
\<close>

definition run_with_evm_rpc_rate_consensus ::
  "string list \<Rightarrow> (nat \<Rightarrow> string \<Rightarrow> (u128, 'e) result) \<Rightarrow> (u128, 'e consensus_error) result" where
  "run_with_evm_rpc_rate_consensus urls read =
     (if length urls < 2 then Err NeedTwoUrls
      else
        (case (read 0 (urls ! 0), read 1 (urls ! 1)) of
           (Inl Panic, _) \<Rightarrow> Panicked
         | (_, Inl Panic) \<Rightarrow> Panicked
         | (Inr a, Inr b) \<Rightarrow>
             if rates_agree_within_point_zero_one_percent a b then Ok a
             else if length urls < 3 then Err (FirstTwoDisagree a b)
             else and_then (map_err ThirdReadFailed (read 2 (urls ! 2))) (\<lambda>c.
               if rates_agree_within_point_zero_one_percent a c then Ok a
               else if rates_agree_within_point_zero_one_percent b c then Ok b
               else Err (NoTwoOfThreeAgree a b c))
         | (Inr a, Inl (Fail e1)) \<Rightarrow>
             if length urls < 3 then Err (OnlyFirstSuccessful a e1)
             else and_then (map_err (SecondAndThirdFailed a) (read 2 (urls ! 2))) (\<lambda>c.
               if rates_agree_within_point_zero_one_percent a c then Ok a
               else Err (FirstThirdDisagree a c))
         | (Inl (Fail e0), Inr b) \<Rightarrow>
             if length urls < 3 then Err (OnlySecondSuccessful b e0)
             else and_then (map_err (FirstAndThirdFailed b) (read 2 (urls ! 2))) (\<lambda>c.
               if rates_agree_within_point_zero_one_percent b c then Ok b
               else Err (SecondThirdDisagree b c))
         | (Inl (Fail e0), Inl (Fail e1)) \<Rightarrow>
             if length urls < 3 then Err (FirstBothFailed e0 e1)
             else and_then (map_err (AllThreeFailed e1) (read 2 (urls ! 2))) (\<lambda>_.
               Err OnlyThirdResponded)))"

section \<open>Conversion of the Venus rate (bsc.rs)\<close>

datatype venus_error =
    UnderlyingDecimalsTooFew u8 u8
  | ZeroDivisor
  | RateDoesNotFit u256

text \<open>\<open>pow\<close> is the power function of the third-party type \<open>U256\<close>.\<close>

definition venus_exchange_rate_to_oracle_r ::
  "(u256 \<Rightarrow> u256 \<Rightarrow> u256) \<Rightarrow> u256 \<Rightarrow> u8 \<Rightarrow> u8 \<Rightarrow> (u128, venus_error) result" where
  "venus_exchange_rate_to_oracle_r pow exchange_rate_stored underlying_decimals vtoken_decimals =
     (if underlying_decimals < vtoken_decimals
      then Err (UnderlyingDecimalsTooFew underlying_decimals vtoken_decimals)
      else
        let shift = (ucast (underlying_decimals - vtoken_decimals) :: u32);
            divisor = pow 10 (ucast shift)
        in if divisor = 0 then Err ZeroDivisor
           else let r = exchange_rate_stored div divisor in
             (case parse_uint (show_nat (unat r)) of
                Some w \<Rightarrow> Ok w
              | None \<Rightarrow> Err (RateDoesNotFit r)))"

section \<open>One provider (bsc.rs)\<close>

datatype bsc_error =
    InvalidRpcUrl string string
  | PreviouslyReported string u64 "u64 list"
  | ChainIdRead string
  | ChainIdNotAllowed u64 "u64 list"
  | BlockNumberRead string
  | InvalidVTokenAddress string
  | ExchangeRateRead string
  | UnderlyingRead string
  | VTokenDecimalsRead string
  | UnderlyingDecimalsRead string
  | Venus venus_error

text \<open>The answers of one JSON-RPC provider; the contract calls name the block they read.\<close>

record 'a provider =
  get_chain_id :: "(u64, string) result"
  get_block_number :: "(u64, string) result"
  exchange_rate_stored_at :: "'a \<Rightarrow> u64 \<Rightarrow> (u256, string) result"
  underlying_at :: "'a \<Rightarrow> u64 \<Rightarrow> ('a, string) result"
  decimals_at :: "'a \<Rightarrow> u64 \<Rightarrow> (u8, string) result"

text \<open>The third-party code: providers by URL, address parsing, powers of \<open>U256\<close>.\<close>

record 'a bsc_client =
  build_http_provider :: "string \<Rightarrow> u64 \<Rightarrow> ('a provider, string) result"
  parse_address :: "string \<Rightarrow> ('a, string) result"
  u256_pow :: "u256 \<Rightarrow> u256 \<Rightarrow> u256"

text \<open>\<open>CHAIN_ID_CACHE\<close>: the chain id each URL reported once it was allowed.\<close>

type_synonym chain_id_cache = "string \<Rightarrow> u64 option"

definition verify_bsc_rpc_chain_id ::
  "string \<Rightarrow> 'a provider \<Rightarrow> u64 list \<Rightarrow> chain_id_cache \<Rightarrow> (unit, bsc_error) result \<times> chain_id_cache"
  where
  "verify_bsc_rpc_chain_id rpc_url p allowed cache =
     (case cache rpc_url of
        Some i \<Rightarrow>
          ((if List.member allowed i then Ok () else Err (PreviouslyReported rpc_url i allowed)), cache)
      | None \<Rightarrow>
          (case map_err ChainIdRead (get_chain_id p) of
             Inl e \<Rightarrow> (Inl e, cache)
           | Inr chain_id \<Rightarrow>
               if \<not> List.member allowed chain_id then (Err (ChainIdNotAllowed chain_id allowed), cache)
               else (Ok (), cache(rpc_url \<mapsto> chain_id))))"

fun verify_all_bsc_rpc_urls ::
  "'a bsc_client \<Rightarrow> string list \<Rightarrow> u64 list \<Rightarrow> u64 \<Rightarrow> chain_id_cache \<Rightarrow>
   (unit, bsc_error) result \<times> chain_id_cache" where
  "verify_all_bsc_rpc_urls cl [] allowed timeout_secs cache = (Ok (), cache)"
| "verify_all_bsc_rpc_urls cl (url # urls) allowed timeout_secs cache =
     (case map_err (InvalidRpcUrl url) (build_http_provider cl url timeout_secs) of
        Inl e \<Rightarrow> (Inl e, cache)
      | Inr p \<Rightarrow>
          (case verify_bsc_rpc_chain_id url p allowed cache of
             (Inl e, cache) \<Rightarrow> (Inl e, cache)
           | (Inr _, cache) \<Rightarrow> verify_all_bsc_rpc_urls cl urls allowed timeout_secs cache))"

text \<open>The part of \<open>read_exchange_rate_stored\<close> after the chain id was verified.\<close>

definition read_rate_at_block ::
  "'a bsc_client \<Rightarrow> 'a provider \<Rightarrow> string \<Rightarrow> u64 \<Rightarrow> (u128, bsc_error) result" where
  "read_rate_at_block cl p vtoken confirmation_blocks =
     and_then (map_err BlockNumberRead (get_block_number p)) (\<lambda>latest.
     let at_block = saturating_sub latest confirmation_blocks in
     and_then (map_err InvalidVTokenAddress (parse_address cl vtoken)) (\<lambda>addr.
     and_then (map_err ExchangeRateRead (exchange_rate_stored_at p addr at_block)) (\<lambda>er.
     and_then (map_err UnderlyingRead (underlying_at p addr at_block)) (\<lambda>underlying.
     and_then (map_err VTokenDecimalsRead (decimals_at p addr at_block)) (\<lambda>v_dec.
     and_then (map_err UnderlyingDecimalsRead (decimals_at p underlying at_block)) (\<lambda>u_dec.
     map_err Venus (venus_exchange_rate_to_oracle_r (u256_pow cl) er u_dec v_dec)))))))"

definition read_exchange_rate_stored ::
  "'a bsc_client \<Rightarrow> string \<Rightarrow> string \<Rightarrow> u64 \<Rightarrow> u64 list \<Rightarrow> u64 \<Rightarrow> chain_id_cache \<Rightarrow>
   (u128, bsc_error) result \<times> chain_id_cache" where
  "read_exchange_rate_stored cl rpc_url vtoken confirmation_blocks allowed timeout_secs cache =
     (case map_err (InvalidRpcUrl rpc_url) (build_http_provider cl rpc_url timeout_secs) of
        Inl e \<Rightarrow> (Inl e, cache)
      | Inr p \<Rightarrow>
          (case verify_bsc_rpc_chain_id rpc_url p allowed cache of
             (Inl e, cache) \<Rightarrow> (Inl e, cache)
           | (Inr _, cache) \<Rightarrow> (read_rate_at_block cl p vtoken confirmation_blocks, cache)))"

section \<open>What agreement means\<close>

lemma agree_iff:
  "rates_agree_within_point_zero_one_percent a b \<longleftrightarrow>
     (max (unat a) (unat b) - min (unat a) (unat b)) * 10000 \<le> max (unat a) (unat b)"
proof -
  have core: "(case checked_mul (hi - lo) 10000 of Inr x \<Rightarrow> x \<le> hi | Inl _ \<Rightarrow> False) \<longleftrightarrow>
      (unat hi - unat lo) * 10000 \<le> unat hi" if "lo \<le> hi" for hi lo :: u128
  proof (cases "(unat hi - unat lo) * 10000 < 2 ^ 128")
    case True
    have d: "unat (hi - lo) = unat hi - unat lo"
      using that by (rule unat_minus_if_le)
    with True have "unat ((hi - lo) * 10000) = (unat hi - unat lo) * 10000"
      by (subst unat_times_if_fits) simp_all
    with True d show ?thesis by (simp add: checked_mul_def word_le_nat_alt)
  next
    case False
    have "unat (hi - lo) = unat hi - unat lo"
      using that by (rule unat_minus_if_le)
    moreover have "unat hi < 2 ^ 128" using unat_less_size[of hi] by simp
    ultimately show ?thesis using False by (simp add: checked_mul_def)
  qed
  show ?thesis
  proof (cases "b \<le> a")
    case True
    then have "max (unat a) (unat b) = unat a" "min (unat a) (unat b) = unat b"
      by (simp_all add: word_le_nat_alt)
    with True core[OF True] show ?thesis
      by (auto simp: rates_agree_within_point_zero_one_percent_def Let_def word_eq_iff_unat_eq
          word_le_nat_alt)
  next
    case False
    then have m: "max (unat a) (unat b) = unat b" "min (unat a) (unat b) = unat a" and le: "a \<le> b"
      by (simp_all add: word_le_nat_alt)
    with False core[OF le] show ?thesis
      by (auto simp: rates_agree_within_point_zero_one_percent_def Let_def word_eq_iff_unat_eq
          word_le_nat_alt)
  qed
qed

lemma agree_refl [simp]: "rates_agree_within_point_zero_one_percent a a"
  by (simp add: agree_iff)

lemma agree_sym:
  "rates_agree_within_point_zero_one_percent a b \<longleftrightarrow> rates_agree_within_point_zero_one_percent b a"
  by (simp add: agree_iff max.commute min.commute)

definition two_calls_agree ::
  "string list \<Rightarrow> (nat \<Rightarrow> string \<Rightarrow> (u128, 'e) result) \<Rightarrow> u128 \<Rightarrow> nat \<Rightarrow> nat \<Rightarrow> bool" where
  "two_calls_agree urls read r i j \<longleftrightarrow>
     j < length urls \<and> read i (urls ! i) = Ok r \<and>
     (\<exists>v. read j (urls ! j) = Ok v \<and> rates_agree_within_point_zero_one_percent r v)"

lemma consensus_cases:
  assumes "run_with_evm_rpc_rate_consensus urls read = Ok r"
  shows "two_calls_agree urls read r 0 1 \<or> two_calls_agree urls read r 0 2 \<or>
     two_calls_agree urls read r 1 2"
  using assms
  by (cases "read 0 (urls ! 0)"; cases "read 1 (urls ! 1)")
    (auto simp: run_with_evm_rpc_rate_consensus_def two_calls_agree_def chain_simps not_less
      split: fault.splits if_splits)

text \<open>With three providers, one of which may answer anything or fail, the others decide.\<close>

lemma consensus_one_faulty:
  assumes "3 \<le> length urls" and "f < 3"
    and "\<And>k. k < 3 \<Longrightarrow> k \<noteq> f \<Longrightarrow> read k (urls ! k) = Ok R"
    and "read f (urls ! f) \<noteq> Panicked"
  shows "\<exists>r. run_with_evm_rpc_rate_consensus urls read = Ok r \<and>
     rates_agree_within_point_zero_one_percent r R"
proof -
  have len: "\<not> length urls < 2" "\<not> length urls < 3" using assms(1) by simp_all
  have read: "read 0 (urls ! 0) = (if f = 0 then read f (urls ! f) else Ok R)"
    "read 1 (urls ! 1) = (if f = 1 then read f (urls ! f) else Ok R)"
    "read 2 (urls ! 2) = (if f = 2 then read f (urls ! f) else Ok R)"
    using assms(3) by auto
  from assms(2) consider "f = 0" | "f = 1" | "f = 2" by linarith
  then show ?thesis
    using assms(4) agree_sym[of R] unfolding run_with_evm_rpc_rate_consensus_def read
    by cases (auto simp: len split: sum.splits fault.splits if_splits)
qed

section \<open>What a read establishes\<close>

lemma venus_rate_Ok_iff:
  assumes "unat (pow 10 (ucast (ucast (ud - vd) :: u32))) = 10 ^ (unat ud - unat vd)"
  shows "venus_exchange_rate_to_oracle_r pow er ud vd = Ok R \<longleftrightarrow>
     unat vd \<le> unat ud \<and> unat R = unat er div 10 ^ (unat ud - unat vd)"
proof (cases "ud < vd")
  case True
  then show ?thesis by (simp add: venus_exchange_rate_to_oracle_r_def word_less_nat_alt)
next
  case False
  define dv where "dv = pow 10 (ucast (ucast (ud - vd) :: u32))"
  have dv: "unat dv = 10 ^ (unat ud - unat vd)" using assms by (simp add: dv_def)
  then have "dv \<noteq> 0" by (metis power_not_zero unat_0 zero_neq_numeral)
  moreover have "parse_uint (show_nat (unat (er div dv))) = Some R \<longleftrightarrow>
      unat R = unat er div 10 ^ (unat ud - unat vd)"
  proof -
    have "parse_uint (show_nat (unat (er div dv))) = Some R \<longleftrightarrow> unat R = unat (er div dv)"
      by (rule parse_uint_show_nat_iff)
    then show ?thesis by (simp add: unat_div dv)
  qed
  ultimately show ?thesis
    using False unfolding venus_exchange_rate_to_oracle_r_def Let_def dv_def[symmetric]
    by (auto simp: word_less_nat_alt not_less split: option.splits)
qed

lemma verify_Ok:
  "verify_bsc_rpc_chain_id url p allowed cache = (Ok u, cache') \<Longrightarrow>
   \<exists>i. List.member allowed i \<and> cache' url = Some i \<and>
     (cache url = Some i \<and> cache' = cache \<or> get_chain_id p = Ok i)"
  by (auto simp: verify_bsc_rpc_chain_id_def map_err_Ok_iff split: option.splits sum.splits if_splits)

lemma read_rate_Ok_iff:
  "read_rate_at_block cl p vtoken confs = Ok R \<longleftrightarrow>
     (\<exists>latest addr er und vd ud. get_block_number p = Ok latest \<and> parse_address cl vtoken = Ok addr \<and>
        exchange_rate_stored_at p addr (saturating_sub latest confs) = Ok er \<and>
        underlying_at p addr (saturating_sub latest confs) = Ok und \<and>
        decimals_at p addr (saturating_sub latest confs) = Ok vd \<and>
        decimals_at p und (saturating_sub latest confs) = Ok ud \<and>
        venus_exchange_rate_to_oracle_r (u256_pow cl) er ud vd = Ok R)"
  by (auto simp: read_rate_at_block_def chain_simps Let_def)

lemma read_exchange_rate_Ok:
  assumes "read_exchange_rate_stored cl url vtoken confs allowed tmo cache = (Ok R, cache')"
  obtains p i where "build_http_provider cl url tmo = Ok p" "List.member allowed i"
    "cache' url = Some i" "cache url = Some i \<or> get_chain_id p = Ok i"
    "read_rate_at_block cl p vtoken confs = Ok R"
  using assms
  by (auto simp: read_exchange_rate_stored_def map_err_Ok_iff split: sum.splits prod.splits
      dest!: verify_Ok)

text \<open>The cache only holds chain ids of the list it was filled under.\<close>

definition cache_allowed :: "u64 list \<Rightarrow> chain_id_cache \<Rightarrow> bool" where
  "cache_allowed allowed cache \<longleftrightarrow> ran cache \<subseteq> set allowed"

lemma cache_allowed_upd:
  "cache_allowed allowed cache \<Longrightarrow> i \<in> set allowed \<Longrightarrow> cache_allowed allowed (cache(x \<mapsto> i))"
  unfolding cache_allowed_def ran_def by auto

lemma verify_keeps_allowed:
  "verify_bsc_rpc_chain_id url p allowed cache = (x, cache') \<Longrightarrow> cache_allowed allowed cache \<Longrightarrow>
   cache_allowed allowed cache' \<and> (\<forall>y. cache y \<noteq> None \<longrightarrow> cache' y = cache y)"
  by (auto simp: verify_bsc_rpc_chain_id_def cache_allowed_upd List.member_iff
      split: option.splits sum.splits if_splits)

lemma verify_all_Ok:
  "verify_all_bsc_rpc_urls cl urls allowed tmo cache = (Ok u, cache') \<Longrightarrow>
   cache_allowed allowed cache \<Longrightarrow>
   cache_allowed allowed cache' \<and> (\<forall>x\<in>set urls. cache' x \<noteq> None) \<and>
   (\<forall>y. cache y \<noteq> None \<longrightarrow> cache' y = cache y)"
proof (induction urls arbitrary: cache)
  case (Cons url urls)
  from Cons.prems(1) obtain p c1 where "build_http_provider cl url tmo = Ok p"
    and v: "verify_bsc_rpc_chain_id url p allowed cache = (Ok (), c1)"
    and rest: "verify_all_bsc_rpc_urls cl urls allowed tmo c1 = (Ok u, cache')"
    by (auto simp: map_err_Ok_iff split: sum.splits prod.splits)
  have "c1 url \<noteq> None" using verify_Ok[OF v] by auto
  with verify_keeps_allowed[OF v Cons.prems(2)] Cons.IH[OF rest] show ?case by auto
qed simp

end
