(* ===== verification/Rust_F64.thy ===== *)
theory Rust_F64
  imports Complex_Main "HOL-Library.Log_Nat" Rust_Str
begin

text \<open>
  Rust's \<open>f64\<close>, as far as the gas price of the oracle service uses it: IEEE 754 binary64
  with rounding to the nearest, ties to even. A finite number is the rational it stands for;
  the two zeros are one value, because no operation used here tells them apart. Every
  operation is the exact one followed by \<open>f64_round\<close>.
\<close>

datatype f64 = NaN | Infinite bool | Finite rat

section \<open>Rounding\<close>

text \<open>The integer part of the binary logarithm of a positive rational.\<close>

definition rat_log2 :: "rat \<Rightarrow> int" where
  "rat_log2 x =
     (let (n, d) = quotient_of x; k = bitlen n - bitlen d
      in if 2 powi k \<le> x then k else k - 1)"

definition round_half_even :: "rat \<Rightarrow> int" where
  "round_half_even x =
     (let n = \<lfloor>x\<rfloor>; r = x - of_int n
      in if r < 1 / 2 then n else if 1 / 2 < r then n + 1 else if even n then n else n + 1)"

text \<open>The distance of two neighbours: 53 significant bits, and never below the subnormals.\<close>

definition f64_ulp :: "rat \<Rightarrow> rat" where
  "f64_ulp x = 2 powi max (- 1074) (rat_log2 x - 52)"

definition round_positive :: "rat \<Rightarrow> rat" where
  "round_positive x = of_int (round_half_even (x / f64_ulp x)) * f64_ulp x"

definition f64_round :: "rat \<Rightarrow> f64" where
  "f64_round x =
     (if x = 0 then Finite 0
      else let y = round_positive \<bar>x\<bar> in
        if 2 ^ 1024 \<le> y then Infinite (x < 0) else Finite (if x < 0 then - y else y))"

section \<open>The operations used\<close>

definition f64_of_u64 :: "u64 \<Rightarrow> f64" where
  "f64_of_u64 n = f64_round (of_nat (unat n))"

definition f64_negative :: "f64 \<Rightarrow> bool" where
  "f64_negative a = (case a of NaN \<Rightarrow> False | Infinite s \<Rightarrow> s | Finite x \<Rightarrow> x < 0)"

fun f64_mul :: "f64 \<Rightarrow> f64 \<Rightarrow> f64" where
  "f64_mul (Finite x) (Finite y) = f64_round (x * y)"
| "f64_mul NaN b = NaN"
| "f64_mul a NaN = NaN"
| "f64_mul a b =
     (if a = Finite 0 \<or> b = Finite 0 then NaN
      else Infinite (f64_negative a \<noteq> f64_negative b))"

fun f64_ceil :: "f64 \<Rightarrow> f64" where
  "f64_ceil (Finite x) = Finite (of_int \<lceil>x\<rceil>)"
| "f64_ceil a = a"

text \<open>The cast \<open>as u128\<close>: truncation, saturating, and zero for NaN.\<close>

fun f64_as_u128 :: "f64 \<Rightarrow> u128" where
  "f64_as_u128 NaN = 0"
| "f64_as_u128 (Infinite neg) = (if neg then 0 else - 1)"
| "f64_as_u128 (Finite x) =
     (if x \<le> 0 then 0 else if 2 ^ 128 \<le> \<lfloor>x\<rfloor> then - 1 else of_int \<lfloor>x\<rfloor>)"

text \<open>Comparisons: every one with a NaN is false.\<close>

fun f64_le :: "f64 \<Rightarrow> f64 \<Rightarrow> bool" where
  "f64_le (Finite x) (Finite y) = (x \<le> y)"
| "f64_le NaN b = False"
| "f64_le a NaN = False"
| "f64_le (Infinite neg) b = (neg \<or> b = Infinite False)"
| "f64_le a (Infinite neg) = (\<not> neg)"

fun f64_less :: "f64 \<Rightarrow> f64 \<Rightarrow> bool" where
  "f64_less a b = (f64_le a b \<and> a \<noteq> b)"

section \<open>Parsing\<close>

text \<open>
  The grammar of \<open>f64::from_str\<close>: an optional sign, then \<open>inf\<close>, \<open>infinity\<close> or \<open>nan\<close>
  in any case, or digits with at most one point and at least one digit, and an optional
  exponent. The result is the nearest number.
\<close>

definition split_sign :: "string \<Rightarrow> bool \<times> string" where
  "split_sign s = (case s of
       c # cs \<Rightarrow> if c = CHR ''-'' then (True, cs) else if c = CHR ''+'' then (False, cs) else (False, s)
     | [] \<Rightarrow> (False, []))"

definition parse_exponent :: "string \<Rightarrow> int option" where
  "parse_exponent s = (case s of
       [] \<Rightarrow> Some 0
     | c # cs \<Rightarrow>
         if c = CHR ''e'' \<or> c = CHR ''E'' then
           (let (neg, ds) = split_sign cs in
            if ds = [] then None
            else map_option (\<lambda>n. if neg then - int n else int n) (digits_value 0 ds))
         else None)"

definition parse_decimal :: "string \<Rightarrow> rat option" where
  "parse_decimal s =
     (let whole = takeWhile is_digit s; rest = dropWhile is_digit s;
          (frac, rest) = (case rest of
             c # cs \<Rightarrow> if c = CHR ''.'' then (takeWhile is_digit cs, dropWhile is_digit cs)
                      else ([], rest)
           | [] \<Rightarrow> ([], []))
      in if whole @ frac = [] then None
         else (case (digits_value 0 (whole @ frac), parse_exponent rest) of
             (Some n, Some e) \<Rightarrow> Some (of_nat n * 10 powi (e - int (length frac)))
           | _ \<Rightarrow> None))"

definition f64_neg :: "f64 \<Rightarrow> f64" where
  "f64_neg a = (case a of NaN \<Rightarrow> NaN | Infinite s \<Rightarrow> Infinite (\<not> s) | Finite x \<Rightarrow> Finite (- x))"

definition f64_parse :: "string \<Rightarrow> f64 option" where
  "f64_parse s =
     (let (neg, body) = split_sign s;
          low = to_ascii_lowercase body;
          v = (if low = ''inf'' \<or> low = ''infinity'' then Some (Infinite False)
               else if low = ''nan'' then Some NaN
               else map_option f64_round (parse_decimal body))
      in map_option (if neg then f64_neg else id) v)"

section \<open>Rounding is monotone\<close>

lemma rat_log2_bounds:
  assumes "0 < x" shows "2 powi rat_log2 x \<le> x" "x < 2 powi (rat_log2 x + 1)"
proof -
  obtain n d where q: "quotient_of x = (n, d)" by fastforce
  then have d: "0 < d" by (rule quotient_of_denom_pos)
  have x: "x = of_int n / of_int d" by (rule quotient_of_div[OF q])
  with assms d have n: "0 < n" by (simp add: zero_less_divide_iff)
  define a where "a = nat (bitlen n - 1)"
  define b where "b = nat (bitlen d - 1)"
  have an: "bitlen n = int a + 1" and bd: "bitlen d = int b + 1"
    using n d bitlen_bounds[of n] bitlen_bounds[of d]
    by (auto simp: a_def b_def bitlen_alt_def)
  have "2 ^ a \<le> n" "n < 2 ^ Suc a" "2 ^ b \<le> d" "d < 2 ^ Suc b"
    using bitlen_bounds[OF n] bitlen_bounds[OF d] unfolding an bd by (simp_all add: nat_add_distrib)
  then have r: "2 ^ a \<le> (of_int n :: rat)" "(of_int n :: rat) < 2 ^ Suc a"
    "2 ^ b \<le> (of_int d :: rat)" "(of_int d :: rat) < 2 ^ Suc b"
    by (metis of_int_le_iff of_int_less_iff of_int_numeral of_int_power)+
  have lo: "2 powi (int a - int b - 1) \<le> x"
  proof -
    have "2 powi (int a - int b - 1) = (2 ^ a / 2 ^ Suc b :: rat)"
      by (simp add: power_int_diff)
    also have "\<dots> \<le> of_int n / of_int d"
      using r d less_imp_le[OF n] by (intro frac_le) auto
    finally show ?thesis unfolding x .
  qed
  have hi: "x < 2 powi (int a - int b + 1)"
  proof -
    have "of_int n / of_int d < (2 ^ Suc a / 2 ^ b :: rat)"
      using r d less_imp_le[OF n] by (intro frac_less) auto
    also have "\<dots> = 2 powi (int a - int b + 1)"
      by (simp add: power_int_diff power_int_add)
    finally show ?thesis unfolding x .
  qed
  show "2 powi rat_log2 x \<le> x" "x < 2 powi (rat_log2 x + 1)"
    using lo hi by (auto simp: rat_log2_def q an bd Let_def)
qed

lemma rat_log2_eqI:
  assumes "2 powi k \<le> x" "x < 2 powi (k + 1)" shows "rat_log2 x = k"
proof -
  have pos: "0 < x" using assms(1) by (rule less_le_trans[rotated]) simp
  have "j < i + 1" if "2 powi j \<le> x" "x < 2 powi (i + 1)" for i j :: int
  proof (rule ccontr)
    assume "\<not> j < i + 1"
    then have "(2 :: rat) powi (i + 1) \<le> 2 powi j" by (intro power_int_increasing) auto
    with that show False by simp
  qed
  from this[OF assms(1) rat_log2_bounds(2)[OF pos]] this[OF rat_log2_bounds(1)[OF pos] assms(2)]
  show ?thesis by simp
qed

lemma rat_log2_mono: "0 < x \<Longrightarrow> x \<le> y \<Longrightarrow> rat_log2 x \<le> rat_log2 y"
proof (rule ccontr)
  assume x: "0 < x" and xy: "x \<le> y" and "\<not> rat_log2 x \<le> rat_log2 y"
  then have "(2 :: rat) powi (rat_log2 y + 1) \<le> 2 powi rat_log2 x"
    by (intro power_int_increasing) auto
  with rat_log2_bounds[OF x] rat_log2_bounds[of y] x xy show False by simp
qed

lemma round_half_even_mono:
  assumes "x \<le> y" shows "round_half_even x \<le> round_half_even y"
proof (cases "\<lfloor>x\<rfloor> = \<lfloor>y\<rfloor>")
  case True
  with assms show ?thesis by (auto simp: round_half_even_def Let_def)
next
  case False
  with assms have "\<lfloor>x\<rfloor> + 1 \<le> \<lfloor>y\<rfloor>" using floor_mono[OF assms] by linarith
  moreover have "round_half_even x \<le> \<lfloor>x\<rfloor> + 1" "\<lfloor>y\<rfloor> \<le> round_half_even y"
    by (simp_all add: round_half_even_def Let_def)
  ultimately show ?thesis by linarith
qed

lemma round_half_even_of_int [simp]: "round_half_even (of_int n) = n"
  by (simp add: round_half_even_def)

text \<open>A power of two between two arguments stays between their roundings.\<close>

lemma f64_ulp_positive [simp]: "0 < f64_ulp x"
  by (simp add: f64_ulp_def)

lemma round_positive_mono:
  assumes x: "0 < x" and xy: "x \<le> y"
  shows "round_positive x \<le> round_positive y"
proof (cases "f64_ulp x = f64_ulp y")
  case True
  have "round_half_even (x / f64_ulp y) \<le> round_half_even (y / f64_ulp y)"
    using xy by (intro round_half_even_mono divide_right_mono) (auto simp: less_imp_le)
  with True show ?thesis
    by (simp add: round_positive_def mult_right_mono less_imp_le)
next
  case False
  define L where "L = rat_log2 y"
  define e where "e = max (- 1074) (rat_log2 x - 52)"
  have "rat_log2 x \<le> L" unfolding L_def using x xy by (rule rat_log2_mono)
  moreover have "e \<noteq> max (- 1074) (L - 52)"
    using False by (metis f64_ulp_def L_def e_def)
  ultimately have e: "e < L - 52" and lt: "rat_log2 x < L" and top: "- 1074 < L - 52"
    unfolding e_def by linarith+
  then have uy: "f64_ulp y = 2 powi (L - 52)" by (simp add: f64_ulp_def L_def[symmetric] max_absorb2)
  have ux: "f64_ulp x = 2 powi e" by (simp add: f64_ulp_def e_def)
  have "x < 2 powi (rat_log2 x + 1)" by (rule rat_log2_bounds(2)[OF x])
  also have "\<dots> \<le> 2 powi L" using lt by (intro power_int_increasing) auto
  finally have "x \<le> 2 powi L" by simp
  then have "x / f64_ulp x \<le> 2 powi L / 2 powi e" unfolding ux by (intro divide_right_mono) auto
  also have "\<dots> = 2 powi (L - e)" by (simp add: power_int_diff)
  also have "\<dots> = of_int (2 ^ nat (L - e))" using e by (simp add: power_int_def)
  finally have "round_half_even (x / f64_ulp x) \<le> 2 ^ nat (L - e)"
    by (metis round_half_even_mono round_half_even_of_int)
  then have "round_positive x \<le> of_int (2 ^ nat (L - e)) * 2 powi e"
    unfolding round_positive_def ux by (intro mult_right_mono) (auto simp del: of_int_power)
  also have "\<dots> = 2 powi L"
    using e power_int_add[of "2 :: rat" "L - e" e] by (simp add: power_int_def)
  finally have lo: "round_positive x \<le> 2 powi L" .
  have "2 powi L \<le> y" using rat_log2_bounds(1)[of y] x xy by (simp add: L_def)
  then have "2 powi L / f64_ulp y \<le> y / f64_ulp y" by (intro divide_right_mono) (auto simp: less_imp_le)
  moreover have "2 powi L / f64_ulp y = of_int (2 ^ 52)"
    unfolding uy by (simp add: power_int_diff)
  ultimately have "2 ^ 52 \<le> round_half_even (y / f64_ulp y)"
    by (metis round_half_even_mono round_half_even_of_int)
  then have "of_int (2 ^ 52) * f64_ulp y \<le> round_positive y"
    unfolding round_positive_def by (intro mult_right_mono) (auto simp del: of_int_power simp: less_imp_le)
  moreover have "of_int (2 ^ 52) * f64_ulp y = 2 powi L"
    unfolding uy by (simp add: power_int_diff)
  ultimately show ?thesis using lo by simp
qed

lemma round_positive_nonneg: "0 < x \<Longrightarrow> 0 \<le> round_positive x"
proof -
  assume "0 < x"
  then have "0 \<le> round_half_even (x / f64_ulp x)"
    using round_half_even_mono[of 0 "x / f64_ulp x"] round_half_even_of_int[of 0]
    by (simp add: zero_le_divide_iff less_imp_le)
  then show ?thesis by (simp add: round_positive_def less_imp_le)
qed

lemma f64_round_mono:
  assumes "0 \<le> x" and "x \<le> y"
  shows "f64_le (f64_round x) (f64_round y)"
  using assms round_positive_mono[of x y] round_positive_nonneg[of y]
  by (auto simp: f64_round_def Let_def)

lemma f64_round_nonneg: "0 \<le> x \<Longrightarrow> \<exists>y. (f64_round x = Finite y \<and> 0 \<le> y) \<or> f64_round x = Infinite False"
  using round_positive_nonneg[of x] by (auto simp: f64_round_def Let_def)

end
