(* ===== verification/Service_Lib.thy ===== *)
theory Service_Lib
  imports Rust_F64
begin

text \<open>
  What the oracle service shares: JSON values as \<open>serde_json\<close> presents them, URLs, UTF-8,
  the texts of \<open>std\<close> that reach an error message, and the shape of an asynchronous
  function. Third-party code is a field of a record of parameters.
\<close>

section \<open>JSON values\<close>

datatype json_number = PosInt u64 | NegInt "64 word" | FloatNum f64

datatype json =
    JNull
  | JBool bool
  | JNumber json_number
  | JString string
  | JArray "json list"
  | JObject "(string \<times> json) list"

definition json_get :: "string \<Rightarrow> json \<Rightarrow> json option" where
  "json_get key j = (case j of JObject kvs \<Rightarrow> map_of kvs key | _ \<Rightarrow> None)"

definition as_str :: "json \<Rightarrow> string option" where
  "as_str j = (case j of JString s \<Rightarrow> Some s | _ \<Rightarrow> None)"

definition as_u64 :: "json \<Rightarrow> u64 option" where
  "as_u64 j = (case j of JNumber (PosInt n) \<Rightarrow> Some n | _ \<Rightarrow> None)"

definition as_array :: "json \<Rightarrow> json list option" where
  "as_array j = (case j of JArray js \<Rightarrow> Some js | _ \<Rightarrow> None)"

definition get_str_or_empty :: "string \<Rightarrow> json \<Rightarrow> string" where
  "get_str_or_empty key j = (case Option.bind (json_get key j) as_str of None \<Rightarrow> [] | Some s \<Rightarrow> s)"

lemma json_get_simps [simp]:
  "json_get k JNull = None" "json_get k (JBool b) = None" "json_get k (JNumber n) = None"
  "json_get k (JString s) = None" "json_get k (JArray js) = None"
  "json_get k (JObject kvs) = map_of kvs k"
  by (simp_all add: json_get_def)

lemma as_simps [simp]:
  "as_str (JString s) = Some s" "as_u64 (JNumber (PosInt n)) = Some n"
  "as_array (JArray js) = Some js"
  by (simp_all add: as_str_def as_u64_def as_array_def)

lemma map_of_size: "map_of kvs k = Some v \<Longrightarrow> size v \<le> size_list (size_prod (\<lambda>_. 0) size) kvs"
proof (induction kvs)
  case (Cons a kvs)
  then show ?case by (cases a) (auto split: if_splits)
qed simp

lemma json_get_size: "json_get k j = Some v \<Longrightarrow> size v < size j"
  by (cases j) (auto dest!: map_of_size simp: less_Suc_eq_le)

section \<open>URLs\<close>

record 'u url_lib =
  url_parse :: "string \<Rightarrow> ('u, string) result"
  url_scheme :: "'u \<Rightarrow> string"
  url_host_str :: "'u \<Rightarrow> string option"
  url_set_username :: "string \<Rightarrow> 'u \<Rightarrow> 'u"
  url_set_password :: "string option \<Rightarrow> 'u \<Rightarrow> 'u"
  url_set_query :: "string option \<Rightarrow> 'u \<Rightarrow> 'u"
  url_set_fragment :: "string option \<Rightarrow> 'u \<Rightarrow> 'u"
  url_to_string :: "'u \<Rightarrow> string"

section \<open>Asynchronous functions\<close>

text \<open>
  An asynchronous function takes the world \<open>'w\<close> it runs in. It may never return
  (\<open>None\<close>), it may be dropped by its caller while it waits (\<open>Dropped\<close>, what a timeout or
  a shutdown does to it at one of its \<open>await\<close> points), or it is done with a result.
\<close>

datatype ('a, 'e) outcome = Done "('a, 'e) result" | Dropped

type_synonym ('a, 'e, 'w) io = "'w \<Rightarrow> (('a, 'e) outcome \<times> 'w) option"

definition io_return :: "('a, 'e) result \<Rightarrow> ('a, 'e, 'w) io" where
  "io_return r w = Some (Done r, w)"

text \<open>Await a future and look at its result; a drop or an abort ends the caller as well.\<close>

definition io_await :: "('a, 'e, 'w) io \<Rightarrow> (('a, 'e) result \<Rightarrow> ('b, 'f, 'w) io) \<Rightarrow> ('b, 'f, 'w) io" where
  "io_await m k w = (case m w of
       None \<Rightarrow> None
     | Some (Dropped, w') \<Rightarrow> Some (Dropped, w')
     | Some (Done (Inl Panic), w') \<Rightarrow> Some (Done Panicked, w')
     | Some (Done (Inl (Fail e)), w') \<Rightarrow> k (Err e) w'
     | Some (Done (Inr x), w') \<Rightarrow> k (Ok x) w')"

text \<open>Await a future with the question mark operator.\<close>

definition io_then :: "('a, 'e, 'w) io \<Rightarrow> ('a \<Rightarrow> ('b, 'e, 'w) io) \<Rightarrow> ('b, 'e, 'w) io" where
  "io_then m k = io_await m (\<lambda>r. case r of Inl e \<Rightarrow> io_return (Inl e) | Inr x \<Rightarrow> k x)"

definition io_map_err :: "('e \<Rightarrow> 'f) \<Rightarrow> ('a, 'e, 'w) io \<Rightarrow> ('a, 'f, 'w) io" where
  "io_map_err f m = io_await m (\<lambda>r. io_return (map_err f r))"

lemma io_return_iff [simp]: "io_return r w = Some (Done r', w') \<longleftrightarrow> r = r' \<and> w = w'"
  by (auto simp: io_return_def)

lemma io_return_not_Dropped [simp]: "io_return r w \<noteq> Some (Dropped, w')" "io_return r w \<noteq> None"
  by (auto simp: io_return_def)

lemma io_await_Done_Ok_iff:
  "io_await m k w = Some (Done (Ok y), w') \<longleftrightarrow>
     (\<exists>r w1. m w = Some (Done r, w1) \<and> r \<noteq> Panicked \<and> k r w1 = Some (Done (Ok y), w'))"
  by (cases "m w") (auto simp: io_await_def split: outcome.splits sum.splits fault.splits)

lemma io_then_Ok_iff:
  "io_then m k w = Some (Done (Ok y), w') \<longleftrightarrow>
     (\<exists>x w1. m w = Some (Done (Ok x), w1) \<and> k x w1 = Some (Done (Ok y), w'))"
  by (cases "m w") (auto simp: io_then_def io_await_def split: outcome.splits sum.splits fault.splits)

lemma io_map_err_Ok_iff:
  "io_map_err f m w = Some (Done (Ok y), w') \<longleftrightarrow> m w = Some (Done (Ok y), w')"
  by (auto simp: io_map_err_def io_await_Done_Ok_iff map_err_Ok_iff)

lemmas io_Ok_iffs = io_then_Ok_iff io_map_err_Ok_iff

text \<open>A step that is done leaves the rest to do.\<close>

lemma io_then_Ok: "m w = Some (Done (Ok x), w1) \<Longrightarrow> io_then m k w = k x w1"
  by (simp add: io_then_def io_await_def)

lemma io_then_Err: "m w = Some (Done (Err e), w1) \<Longrightarrow> io_then m k w = Some (Done (Err e), w1)"
  by (simp add: io_then_def io_await_def io_return_def)

lemma io_map_err_Done: "m w = Some (Done r, w1) \<Longrightarrow> io_map_err f m w = Some (Done (map_err f r), w1)"
  by (auto simp: io_map_err_def io_await_def io_return_def split: sum.splits fault.splits)

text \<open>The effect on the world of a chain: a relation that every step keeps.\<close>

definition io_keeps :: "('w \<Rightarrow> 'w \<Rightarrow> bool) \<Rightarrow> ('a, 'e, 'w) io \<Rightarrow> bool" where
  "io_keeps R m \<longleftrightarrow> (\<forall>w r w'. m w = Some (r, w') \<longrightarrow> R w w')"

lemma io_keeps_return: "(\<And>w. R w w) \<Longrightarrow> io_keeps R (io_return r)"
  by (auto simp: io_keeps_def io_return_def)

lemma io_keeps_await:
  assumes "io_keeps R m" "\<And>r. io_keeps R (k r)" "\<And>a b c. R a b \<Longrightarrow> R b c \<Longrightarrow> R a c"
  shows "io_keeps R (io_await m k)"
  using assms unfolding io_keeps_def io_await_def
  by (auto split: option.splits prod.splits outcome.splits sum.splits fault.splits) blast+

lemma io_keeps_then:
  assumes "io_keeps R m" "\<And>x. io_keeps R (k x)" "\<And>w. R w w" "\<And>a b c. R a b \<Longrightarrow> R b c \<Longrightarrow> R a c"
  shows "io_keeps R (io_then m k)"
  unfolding io_then_def using assms
  by (intro io_keeps_await) (auto split: sum.splits intro: io_keeps_return)

lemma io_keeps_map_err:
  assumes "io_keeps R m" "\<And>w. R w w" "\<And>a b c. R a b \<Longrightarrow> R b c \<Longrightarrow> R a c"
  shows "io_keeps R (io_map_err f m)"
  unfolding io_map_err_def using assms by (intro io_keeps_await io_keeps_return)

section \<open>UTF-8 and control characters\<close>

definition continuation :: "nat \<Rightarrow> bool" where
  "continuation b \<longleftrightarrow> 128 \<le> b \<and> b < 192"

text \<open>\<open>String::from_utf8\<close>: the code points of well-formed UTF-8 (no overlong form, no surrogate).\<close>

fun utf8_decode :: "nat list \<Rightarrow> nat list option" where
  "utf8_decode [] = Some []"
| "utf8_decode (a # s) =
     (if a < 128 then map_option (Cons a) (utf8_decode s)
      else case s of
        [] \<Rightarrow> None
      | b # s \<Rightarrow>
          if \<not> continuation b then None
          else if 194 \<le> a \<and> a < 224 then
            map_option (Cons ((a - 192) * 64 + (b - 128))) (utf8_decode s)
          else (case s of
            [] \<Rightarrow> None
          | c # s \<Rightarrow>
              if \<not> continuation c then None
              else if 224 \<le> a \<and> a < 240 then
                (let p = (a - 224) * 4096 + (b - 128) * 64 + (c - 128) in
                 if p < 2048 \<or> 55296 \<le> p \<and> p < 57344 then None
                 else map_option (Cons p) (utf8_decode s))
              else (case s of
                [] \<Rightarrow> None
              | d # s \<Rightarrow>
                  (let p = (a - 240) * 262144 + (b - 128) * 4096 + (c - 128) * 64 + (d - 128) in
                   if \<not> continuation d \<or> a < 240 \<or> 245 \<le> a \<or> p < 65536 \<or> 1114112 \<le> p then None
                   else map_option (Cons p) (utf8_decode s)))))"

definition chars_of :: "string \<Rightarrow> nat list option" where
  "chars_of s = utf8_decode (map byte_of s)"

definition is_control :: "nat \<Rightarrow> bool" where
  "is_control p \<longleftrightarrow> p < 32 \<or> 127 \<le> p \<and> p < 160"

text \<open>\<open>str::is_char_boundary\<close> at a position inside the string.\<close>

definition is_char_boundary :: "string \<Rightarrow> nat \<Rightarrow> bool" where
  "is_char_boundary s i \<longleftrightarrow>
     i = 0 \<or> i = length s \<or> i < length s \<and> \<not> continuation (byte_of (s ! i))"

lemma utf8_decode_ascii: "\<forall>b\<in>set bs. b < 128 \<Longrightarrow> utf8_decode bs = Some bs"
  by (induction bs) auto

section \<open>Texts of the standard library\<close>

text \<open>\<open>ParseIntError\<close> of \<open>str::parse::<u64>\<close>: the first character that fails decides.\<close>

fun parse_int_error_from :: "nat \<Rightarrow> string \<Rightarrow> string" where
  "parse_int_error_from acc [] = []"
| "parse_int_error_from acc (c # cs) =
     (if \<not> is_digit c then ''invalid digit found in string''
      else let acc = 10 * acc + (byte_of c - 48) in
        if 2 ^ 64 \<le> acc then ''number too large to fit in target type''
        else parse_int_error_from acc cs)"

definition parse_u64_error :: "string \<Rightarrow> string" where
  "parse_u64_error s = (case s of
       [] \<Rightarrow> ''cannot parse integer from empty string''
     | [c] \<Rightarrow> parse_int_error_from 0 [c]
     | c # cs \<Rightarrow> parse_int_error_from 0 (if c = CHR ''+'' then cs else s))"

text \<open>\<open>{:?}\<close> of a \<open>Duration\<close>; a duration is a number of nanoseconds.\<close>

definition pad_zeros :: "nat \<Rightarrow> nat \<Rightarrow> string" where
  "pad_zeros width n = (let s = show_nat n in replicate (width - length s) CHR ''0'' @ s)"

definition decimal_fraction :: "nat \<Rightarrow> nat \<Rightarrow> nat \<Rightarrow> string" where
  "decimal_fraction whole part width =
     show_nat whole @
     (if part = 0 then [] else CHR ''.'' # rev (dropWhile (\<lambda>c. c = CHR ''0'') (rev (pad_zeros width part))))"

definition debug_duration :: "nat \<Rightarrow> string" where
  "debug_duration d =
     (if 1000000000 \<le> d then decimal_fraction (d div 1000000000) (d mod 1000000000) 9 @ ''s''
      else if 1000000 \<le> d then decimal_fraction (d div 1000000) (d mod 1000000) 6 @ ''ms''
      else if 1000 \<le> d then decimal_fraction (d div 1000) (d mod 1000) 3 @ [CHR 0xC2, CHR 0xB5, CHR ''s'']
      else show_nat d @ ''ns'')"

definition duration_from_secs :: "u64 \<Rightarrow> nat" where
  "duration_from_secs s = unat s * 1000000000"

definition duration_from_millis :: "u64 \<Rightarrow> nat" where
  "duration_from_millis m = unat m * 1000000"

end
