(* ===== verification/Service_Config.thy ===== *)
theory Service_Config
  imports Service_Rates Service_Lib
begin

text \<open>
  The configuration of the oracle service from its environment
  (\<open>oracle-service/src/config.rs\<close>): every variable with its default, the checks that
  refuse a configuration, and the operator warnings. The environment (after the third-party
  \<open>dotenv\<close>) is a function from names to values; URL and address parsing are third-party
  code and parameters.
\<close>

definition CANONICAL_VENUS_VFDUSD_BSC_MAINNET :: string where
  "CANONICAL_VENUS_VFDUSD_BSC_MAINNET = ''0xC4eF4229FEc74Ccfe17B2bdeF7715fAC740BA0ba''"

definition DEFAULT_POLL_INTERVAL_SECS :: u64 where
  "DEFAULT_POLL_INTERVAL_SECS = 3600"

definition DEFAULT_ORACLE_MAX_SILENCE_SECS :: u64 where
  "DEFAULT_ORACLE_MAX_SILENCE_SECS = DEFAULT_MAX_ORACLE_AGE_SECS"

text \<open>Two constants of \<open>terra_tx.rs\<close>; the literal is rounded by the compiler.\<close>

definition DEFAULT_GAS_LIMIT :: u64 where
  "DEFAULT_GAS_LIMIT = 500000"

definition DEFAULT_GAS_PRICE :: f64 where
  "DEFAULT_GAS_PRICE = f64_round (15 / 1000)"

text \<open>
  \<open>env_var\<close> is \<open>std::env::var\<close> after the third-party \<open>dotenv\<close> ran; \<open>address_from_str\<close>
  is the third-party address parser.
\<close>

record ('a, 'u) config_deps =
  env_var :: "string \<Rightarrow> string option"
  address_from_str :: "string \<Rightarrow> ('a, string) result"
  env_urls :: "'u url_lib"

datatype config_error =
    VTokenInvalid string
  | CanonicalInvalid
  | VTokenNotCanonical string
  | InvalidChainId string
  | NoChainId
  | UrlInvalid string string string
  | HttpOnlyLocal string string
  | MustUseHttps string string string
  | Required string
  | AtLeastTwoRpcUrls
  | GasPriceNotPositive

section \<open>Validation\<close>

definition validate_venus_vtoken_address ::
  "('a, 'u) config_deps \<Rightarrow> string \<Rightarrow> u64 list \<Rightarrow> (unit, config_error) result" where
  "validate_venus_vtoken_address d addr allowed_bsc_chain_ids =
     and_then (map_err VTokenInvalid (address_from_str d (trim addr))) (\<lambda>got.
     let mainnet_only = (length allowed_bsc_chain_ids = 1 \<and>
           (case allowed_bsc_chain_ids of i # _ \<Rightarrow> i = 56 | [] \<Rightarrow> False)) in
     if \<not> mainnet_only then Ok ()
     else and_then (map_err (\<lambda>_. CanonicalInvalid)
            (address_from_str d CANONICAL_VENUS_VFDUSD_BSC_MAINNET)) (\<lambda>want.
       if got \<noteq> want then Err (VTokenNotCanonical (trim addr)) else Ok ()))"

fun parse_chain_ids :: "string list \<Rightarrow> (u64 list, config_error) result" where
  "parse_chain_ids [] = Ok []"
| "parse_chain_ids (s # ss) =
     and_then (ok_or (InvalidChainId s) (parse_uint s)) (\<lambda>i.
     and_then (parse_chain_ids ss) (\<lambda>is. Ok (i # is)))"

definition parse_allowed_bsc_chain_ids ::
  "('a, 'u) config_deps \<Rightarrow> (u64 list, config_error) result" where
  "parse_allowed_bsc_chain_ids d =
     (let raw = (case env_var d ''BSC_ALLOWED_CHAIN_IDS'' of None \<Rightarrow> ''56'' | Some r \<Rightarrow> r) in
      and_then (parse_chain_ids (filter (\<lambda>s. s \<noteq> []) (map trim (str_split CHR '','' raw)))) (\<lambda>ids.
      if ids = [] then Err NoChainId else Ok ids))"

definition parse_healthz_bind :: "('a, 'u) config_deps \<Rightarrow> string" where
  "parse_healthz_bind d = (case env_var d ''HEALTHZ_BIND'' of
       Some raw \<Rightarrow>
         let trimmed = trim raw in
         if trimmed = [] \<or> eq_ignore_ascii_case trimmed ''off'' \<or>
            eq_ignore_ascii_case trimmed ''disabled'' \<or> eq_ignore_ascii_case trimmed ''none''
         then [] else trimmed
     | None \<Rightarrow> ''0.0.0.0:8080'')"

definition dev_allow_http :: "('a, 'u) config_deps \<Rightarrow> bool" where
  "dev_allow_http d = (case env_var d ''DEV_ALLOW_HTTP'' of
       Some v \<Rightarrow> v = ''1'' \<or> v = ''true'' \<or> v = ''yes''
     | None \<Rightarrow> False)"

definition validate_https_url ::
  "('a, 'u) config_deps \<Rightarrow> string \<Rightarrow> string \<Rightarrow> bool \<Rightarrow> (unit, config_error) result" where
  "validate_https_url d url_str field allow_dev_http =
     and_then (map_err (UrlInvalid field url_str) (url_parse (env_urls d) url_str)) (\<lambda>url.
     if url_scheme (env_urls d) url = ''https'' then Ok ()
     else if url_scheme (env_urls d) url = ''http'' \<and> allow_dev_http then
       (case url_host_str (env_urls d) url of
          Some h \<Rightarrow> if h = ''localhost'' \<or> h = ''127.0.0.1'' \<or> h = ''::1'' then Ok ()
                   else Err (HttpOnlyLocal field url_str)
        | None \<Rightarrow> Err (HttpOnlyLocal field url_str))
     else Err (MustUseHttps field (url_scheme (env_urls d) url) url_str))"

fun validate_https_urls ::
  "('a, 'u) config_deps \<Rightarrow> string list \<Rightarrow> string \<Rightarrow> bool \<Rightarrow> (unit, config_error) result" where
  "validate_https_urls d [] field allow = Ok ()"
| "validate_https_urls d (u # us) field allow =
     and_then (validate_https_url d u field allow) (\<lambda>_. validate_https_urls d us field allow)"

section \<open>Numbers with a default\<close>

definition parse_or :: "'w::len word \<Rightarrow> string option \<Rightarrow> 'w word" where
  "parse_or dflt v = (case Option.bind v parse_uint of None \<Rightarrow> dflt | Some n \<Rightarrow> n)"

definition resolve_poll_interval_secs :: "string option \<Rightarrow> u64" where
  "resolve_poll_interval_secs env_val = parse_or DEFAULT_POLL_INTERVAL_SECS env_val"

definition resolve_max_silence_secs :: "string option \<Rightarrow> u64" where
  "resolve_max_silence_secs env_val = parse_or DEFAULT_ORACLE_MAX_SILENCE_SECS env_val"

text \<open>The operator warnings; a warning carries the numbers its text shows.\<close>

datatype timing_warning =
    PollZero
  | PollNotBelowMaxAge u64 u64
  | SilenceAboveMaxAge u64 u64
  | SilenceLoose u64 u64

definition ops_timing_warnings :: "u64 \<Rightarrow> u64 \<Rightarrow> timing_warning list" where
  "ops_timing_warnings poll_interval_secs max_silence_secs =
     (let max_age = DEFAULT_MAX_ORACLE_AGE_SECS in
      (if poll_interval_secs = 0 then [PollZero]
       else if max_age \<le> poll_interval_secs then [PollNotBelowMaxAge poll_interval_secs max_age]
       else []) @
      (if max_age < max_silence_secs then [SilenceAboveMaxAge max_silence_secs max_age] else []) @
      (if 0 < poll_interval_secs \<and> saturating_mul poll_interval_secs 8 < max_silence_secs
       then [SilenceLoose max_silence_secs poll_interval_secs] else []))"

section \<open>The configuration\<close>

record service_config =
  sc_bsc_rpc_urls :: "string list"
  sc_bsc_confirmation_blocks :: u64
  sc_bsc_rpc_timeout_secs :: u64
  sc_allowed_bsc_chain_ids :: "u64 list"
  sc_venus_vtoken_address :: string
  sc_terra_lcd_url :: string
  sc_terra_chain_id :: string
  sc_terra_mnemonic :: string
  sc_terra_gas_price :: f64
  sc_oracle_contract :: string
  sc_poll_interval_secs :: u64
  sc_tick_timeout_secs :: u64
  sc_max_silence_since_broadcast_secs :: u64
  sc_tx_confirm_timeout_secs :: u64
  sc_tx_confirm_poll_interval_ms :: u64
  sc_healthz_bind :: string

definition required :: "('a, 'u) config_deps \<Rightarrow> string \<Rightarrow> (string, config_error) result" where
  "required d key = ok_or (Required key) (env_var d key)"

definition gas_price_setting :: "('a, 'u) config_deps \<Rightarrow> f64" where
  "gas_price_setting d =
     (let v = (case env_var d ''TERRA_GAS_PRICE'' of
                 Some s \<Rightarrow> Some s | None \<Rightarrow> env_var d ''TERRA_GAS_PRICE_ULUNA'') in
      (case Option.bind v f64_parse of None \<Rightarrow> DEFAULT_GAS_PRICE | Some p \<Rightarrow> p))"

definition config_from_env :: "('a, 'u) config_deps \<Rightarrow> (service_config, config_error) result" where
  "config_from_env d =
     (let allow_dev_http = dev_allow_http d in
      and_then (required d ''BSC_RPC_URLS'') (\<lambda>bsc_raw.
      let bsc_rpc_urls = parse_comma_separated_rpc_urls bsc_raw in
      if length bsc_rpc_urls < 2 then Err AtLeastTwoRpcUrls
      else
      and_then (validate_https_urls d bsc_rpc_urls ''BSC_RPC_URLS entry'' allow_dev_http) (\<lambda>_.
      and_then (parse_allowed_bsc_chain_ids d) (\<lambda>allowed_bsc_chain_ids.
      and_then (required d ''VENUS_VTOKEN_ADDRESS'') (\<lambda>venus_vtoken_address.
      and_then (validate_venus_vtoken_address d venus_vtoken_address allowed_bsc_chain_ids) (\<lambda>_.
      and_then (required d ''TERRA_LCD_URL'') (\<lambda>terra_lcd_url.
      and_then (validate_https_url d terra_lcd_url ''TERRA_LCD_URL'' allow_dev_http) (\<lambda>_.
      let healthz_bind = parse_healthz_bind d;
          terra_gas_price = gas_price_setting d in
      if f64_le terra_gas_price (Finite 0) then Err GasPriceNotPositive
      else
      and_then (required d ''TERRA_MNEMONIC'') (\<lambda>terra_mnemonic.
      and_then (required d ''ORACLE_CONTRACT'') (\<lambda>oracle_contract.
      Ok \<lparr>sc_bsc_rpc_urls = bsc_rpc_urls,
          sc_bsc_confirmation_blocks = parse_or 15 (env_var d ''BSC_CONFIRMATION_BLOCKS''),
          sc_bsc_rpc_timeout_secs = parse_or 30 (env_var d ''BSC_RPC_TIMEOUT_SECS''),
          sc_allowed_bsc_chain_ids = allowed_bsc_chain_ids,
          sc_venus_vtoken_address = venus_vtoken_address,
          sc_terra_lcd_url = terra_lcd_url,
          sc_terra_chain_id =
            (case env_var d ''TERRA_CHAIN_ID'' of None \<Rightarrow> ''columbus-5'' | Some c \<Rightarrow> c),
          sc_terra_mnemonic = terra_mnemonic,
          sc_terra_gas_price = terra_gas_price,
          sc_oracle_contract = oracle_contract,
          sc_poll_interval_secs = resolve_poll_interval_secs (env_var d ''POLL_INTERVAL_SECS''),
          sc_tick_timeout_secs = parse_or 120 (env_var d ''TICK_TIMEOUT_SECS''),
          sc_max_silence_since_broadcast_secs =
            resolve_max_silence_secs (env_var d ''ORACLE_MAX_SILENCE_SECS''),
          sc_tx_confirm_timeout_secs = parse_or 90 (env_var d ''ORACLE_TX_CONFIRM_TIMEOUT_SECS''),
          sc_tx_confirm_poll_interval_ms =
            parse_or 2000 (env_var d ''ORACLE_TX_CONFIRM_POLL_INTERVAL_MS''),
          sc_healthz_bind = healthz_bind\<rparr>))))))))))"

section \<open>What an accepted configuration guarantees\<close>

text \<open>A URL that is encrypted, or local and allowed for development.\<close>

definition url_acceptable :: "('a, 'u) config_deps \<Rightarrow> string \<Rightarrow> bool" where
  "url_acceptable d u \<longleftrightarrow> (case url_parse (env_urls d) u of Inl _ \<Rightarrow> False
     | Inr p \<Rightarrow> url_scheme (env_urls d) p = ''https'' \<or>
         url_scheme (env_urls d) p = ''http'' \<and> dev_allow_http d \<and>
           (url_host_str (env_urls d) p = Some ''localhost'' \<or> url_host_str (env_urls d) p = Some ''127.0.0.1'' \<or>
            url_host_str (env_urls d) p = Some ''::1''))"

lemma validate_https_url_Ok_iff:
  "validate_https_url d u field (dev_allow_http d) = Ok x \<longleftrightarrow> url_acceptable d u"
proof (cases "url_parse (env_urls d) u")
  case (Inl e)
  then show ?thesis
    by (cases e) (simp_all add: validate_https_url_def url_acceptable_def)
next
  case (Inr p)
  then show ?thesis
    unfolding validate_https_url_def url_acceptable_def
    by (cases "url_host_str (env_urls d) p"; cases "dev_allow_http d";
        cases "url_scheme (env_urls d) p = ''http''") simp_all
qed

lemma validate_https_urls_Ok_iff:
  "validate_https_urls d us field (dev_allow_http d) = Ok x \<longleftrightarrow> (\<forall>u\<in>set us. url_acceptable d u)"
  by (induction us) (auto simp: chain_simps validate_https_url_Ok_iff)

lemma validate_venus_Ok:
  assumes "validate_venus_vtoken_address d addr ids = Ok u"
  shows "\<exists>a. address_from_str d (trim addr) = Ok a \<and>
     (ids = [56] \<longrightarrow> address_from_str d CANONICAL_VENUS_VFDUSD_BSC_MAINNET = Ok a)"
proof -
  from assms obtain got where got: "address_from_str d (trim addr) = Ok got"
    and rest: "(if \<not> (length ids = 1 \<and> (case ids of i # _ \<Rightarrow> i = 56 | [] \<Rightarrow> False)) then Ok ()
       else and_then (map_err (\<lambda>_. CanonicalInvalid)
              (address_from_str d CANONICAL_VENUS_VFDUSD_BSC_MAINNET)) (\<lambda>want.
         if got \<noteq> want then Err (VTokenNotCanonical (trim addr)) else Ok ())) = Ok u"
    unfolding validate_venus_vtoken_address_def Let_def and_then_Ok_iff map_err_Ok_iff by blast
  have "address_from_str d CANONICAL_VENUS_VFDUSD_BSC_MAINNET = Ok got" if "ids = [56]"
    using rest unfolding that by (simp add: and_then_Ok_iff map_err_Ok_iff split: if_splits)
  with got show ?thesis by blast
qed

lemma parse_chain_ids_Ok:
  "parse_chain_ids ss = Ok ids \<Longrightarrow> map (Some :: u64 \<Rightarrow> u64 option) ids = map parse_uint ss"
  by (induction ss arbitrary: ids) (auto simp: chain_simps)

lemma parse_urls_nonempty:
  "u \<in> set (parse_comma_separated_rpc_urls raw) \<Longrightarrow> u \<noteq> []"
  by (auto simp: parse_comma_separated_rpc_urls_def)

definition service_config_ok :: "('a, 'u) config_deps \<Rightarrow> service_config \<Rightarrow> bool" where
  "service_config_ok d c \<longleftrightarrow>
     2 \<le> length (sc_bsc_rpc_urls c) \<and>
     (\<forall>u\<in>set (sc_terra_lcd_url c # sc_bsc_rpc_urls c). url_acceptable d u) \<and>
     sc_allowed_bsc_chain_ids c \<noteq> [] \<and>
     (\<exists>a. address_from_str d (trim (sc_venus_vtoken_address c)) = Ok a \<and>
        (sc_allowed_bsc_chain_ids c = [56] \<longrightarrow>
           address_from_str d CANONICAL_VENUS_VFDUSD_BSC_MAINNET = Ok a)) \<and>
     \<not> f64_le (sc_terra_gas_price c) (Finite 0)"

lemma and_then_OkE:
  assumes "and_then r f = Ok y" obtains x where "r = Ok x" "f x = Ok y"
  using assms by (auto simp: and_then_Ok_iff)

lemma if_ErrE:
  assumes "(if b then Err e else r) = Ok y" obtains "\<not> b" "r = Ok y"
  using assms by (auto split: if_splits)

lemma config_from_env_steps:
  assumes "config_from_env d = Ok c"
  shows "2 \<le> length (sc_bsc_rpc_urls c) \<and>
    validate_https_urls d (sc_bsc_rpc_urls c) ''BSC_RPC_URLS entry'' (dev_allow_http d) = Ok () \<and>
    parse_allowed_bsc_chain_ids d = Ok (sc_allowed_bsc_chain_ids c) \<and>
    validate_venus_vtoken_address d (sc_venus_vtoken_address c) (sc_allowed_bsc_chain_ids c) = Ok () \<and>
    validate_https_url d (sc_terra_lcd_url c) ''TERRA_LCD_URL'' (dev_allow_http d) = Ok () \<and>
    \<not> f64_le (sc_terra_gas_price c) (Finite 0)"
  using assms unfolding config_from_env_def Let_def
  apply (elim and_then_OkE if_ErrE)
  apply (drule sum.inject(2)[THEN iffD1])
  apply hypsubst
  apply (intro conjI)
  apply (simp_all only: service_config.select_convs not_less not_False_eq_True)
  apply (rule arg_cong[where f = Inr], rule unit_eq)+
  done

lemma config_from_env_ok: "config_from_env d = Ok c \<Longrightarrow> service_config_ok d c"
proof -
  assume c: "config_from_env d = Ok c"
  note st = config_from_env_steps[OF c]
  have "sc_allowed_bsc_chain_ids c \<noteq> []"
    using st by (auto simp: parse_allowed_bsc_chain_ids_def chain_simps Let_def)
  with st show ?thesis
    by (auto simp: service_config_ok_def validate_https_url_Ok_iff validate_https_urls_Ok_iff
        dest!: validate_venus_Ok)
qed

text \<open>No warning means the timing the service documents, on numbers.\<close>

lemma ops_timing_no_warning_iff:
  "ops_timing_warnings p s = [] \<longleftrightarrow>
     0 < unat p \<and> unat p < 21600 \<and> unat s \<le> 21600 \<and> unat s \<le> unat p * 8"
proof -
  have p: "p = 0 \<longleftrightarrow> unat p = 0" "0 < p \<longleftrightarrow> unat p \<noteq> 0" by (simp_all add: unat_eq_0 word_neq_0_conv)
  have le: "DEFAULT_MAX_ORACLE_AGE_SECS \<le> p \<longleftrightarrow> 21600 \<le> unat p"
    "DEFAULT_MAX_ORACLE_AGE_SECS < s \<longleftrightarrow> 21600 < unat s"
    by (simp_all add: word_le_nat_alt word_less_nat_alt)
  have m: "saturating_mul p 8 < s \<longleftrightarrow> min (unat p * 8) (2 ^ 64 - 1) < unat s"
    by (simp add: word_less_nat_alt unat_saturating_mul)
  have "unat s < 2 ^ 64" using unat_less_size[of s] by simp
  then show ?thesis unfolding ops_timing_warnings_def Let_def p le m by auto
qed

end
