(* ===== verification/Service_Terra.thy ===== *)
theory Service_Terra
  imports Service_Config
begin

text \<open>
  The pure part of the Terra client of the oracle service
  (\<open>oracle-service/src/terra_tx.rs\<close>): reading the answers of an LCD node (smart queries,
  transactions and their events, accounts, the minimum gas price), the texts of errors, and
  the fee. An error is the text it displays, because the client decides by that text whether
  it tries again.
\<close>

section \<open>Third-party code\<close>

text \<open>
  Base64, the text of a JSON value, URLs, and the display of an HTTP status; \<open>str_debug\<close> is
  the quoted form of a string, which depends on the Unicode tables.
\<close>

record 'u lcd_lib =
  base64_decode :: "string \<Rightarrow> (string, string) result"
  base64_encode :: "string \<Rightarrow> string"
  json_to_string :: "json \<Rightarrow> string"
  str_debug :: "string \<Rightarrow> string"
  lcd_urls :: "'u url_lib"
  status_text :: "u16 \<Rightarrow> string"

text \<open>Deserialisation of a type: from the bytes of a JSON text, and from a JSON value.\<close>

record 't deserializer =
  from_slice :: "string \<Rightarrow> ('t, string) result"
  from_value :: "json \<Rightarrow> ('t, string) result"

section \<open>Smart query data\<close>

definition parse_wasm_smart_query_data ::
  "'u lcd_lib \<Rightarrow> 't deserializer \<Rightarrow> json \<Rightarrow> ('t, string) result" where
  "parse_wasm_smart_query_data L de data = (case data of
       JString s \<Rightarrow>
         and_then (map_err (\<lambda>_. ''wasm smart query data: invalid base64'')
                     (base64_decode L (trim s))) (\<lambda>raw.
         map_err (\<lambda>_. ''wasm smart query data: JSON decode after base64'') (from_slice de raw))
     | JObject _ \<Rightarrow>
         map_err (\<lambda>e. ''wasm smart query data: JSON object decode: '' @ e @ '' (body='' @
                       json_to_string L data @ '')'') (from_value de data)
     | JNull \<Rightarrow> Err ''wasm smart query data: expected base64 string or JSON object, got null''
     | JBool _ \<Rightarrow> Err ''wasm smart query data: expected base64 string or JSON object, got bool''
     | JNumber _ \<Rightarrow> Err ''wasm smart query data: expected base64 string or JSON object, got number''
     | JArray _ \<Rightarrow> Err ''wasm smart query data: expected base64 string or JSON object, got array'')"

section \<open>Data\<close>

text \<open>Durations are numbers of nanoseconds.\<close>

record confirm_config =
  timeout :: nat
  poll_interval :: nat

definition from_secs_and_ms :: "u64 \<Rightarrow> u64 \<Rightarrow> confirm_config" where
  "from_secs_and_ms timeout_secs poll_interval_ms =
     \<lparr>timeout = duration_from_secs timeout_secs,
      poll_interval = duration_from_millis (max poll_interval_ms 1)\<rparr>"

record account_info =
  ai_sequence :: u64
  ai_account_number :: u64

record tx_event_attribute =
  key :: string
  attr_value :: string

record tx_event =
  ty :: string
  ev_attributes :: "tx_event_attribute list"

record tx_response_summary =
  txhash :: string
  code :: u64
  raw_log :: string
  events :: "tx_event list"

section \<open>Errors by their text\<close>

definition is_account_sequence_mismatch :: "string \<Rightarrow> bool" where
  "is_account_sequence_mismatch message =
     (let lower = to_ascii_lowercase message in
      str_contains lower ''account sequence mismatch'' \<or>
      str_contains lower ''incorrect account sequence'' \<or>
      (str_contains lower ''sequence'' \<and> str_contains lower ''mismatch''))"

definition is_transient_lcd_error :: "string \<Rightarrow> bool" where
  "is_transient_lcd_error message =
     (let lower = to_ascii_lowercase message in
      str_contains lower ''timeout'' \<or> str_contains lower ''timed out'' \<or>
      str_contains lower ''connection'' \<or> str_contains lower ''temporarily'' \<or>
      str_contains lower ''429'' \<or> str_contains lower ''502'' \<or>
      str_contains lower ''503'' \<or> str_contains lower ''504'')"

definition before_question_mark :: "string \<Rightarrow> string option" where
  "before_question_mark s =
     (if CHR ''?'' \<in> set s then Some (takeWhile (\<lambda>c. c \<noteq> CHR ''?'') s) else None)"

definition redact_url_credentials :: "'u lcd_lib \<Rightarrow> string \<Rightarrow> string" where
  "redact_url_credentials L url = (case url_parse (lcd_urls L) url of
       Inr u \<Rightarrow>
         let u = url_set_username (lcd_urls L) [] u;
             u = url_set_password (lcd_urls L) None u;
             u = url_set_query (lcd_urls L) None u;
             u = url_set_fragment (lcd_urls L) None u
         in url_to_string (lcd_urls L) u
     | Inl _ \<Rightarrow>
         (case before_question_mark url of Some base \<Rightarrow> base | None \<Rightarrow> ''<invalid-url>''))"

definition is_success :: "u16 \<Rightarrow> bool" where
  "is_success status \<longleftrightarrow> 200 \<le> status \<and> status < 300"

definition http_status_is_not_found :: "u16 \<Rightarrow> bool" where
  "http_status_is_not_found status \<longleftrightarrow> status = 404"

definition tx_body_looks_not_found :: "'u lcd_lib \<Rightarrow> json \<Rightarrow> bool" where
  "tx_body_looks_not_found L body =
     (let blob = to_ascii_lowercase (json_to_string L body) in
      str_contains blob ''not found'' \<or> str_contains blob ''tx not found'' \<or>
      str_contains blob ''not_found'')"

text \<open>A slice at a position that is no character boundary aborts.\<close>

definition truncate_for_error :: "'u lcd_lib \<Rightarrow> json \<Rightarrow> (string, 'e) result" where
  "truncate_for_error L body =
     (let s = json_to_string L body in
      if length s \<le> 256 then Ok s
      else if is_char_boundary s 256 then Ok (take 256 s @ [CHR 0xE2, CHR 0x80, CHR 0xA6])
      else Panicked)"

section \<open>Transactions and their events\<close>

definition KNOWN :: "string list" where
  "KNOWN = [''_contract_address'', ''action'', ''rate'', ''update_rate'']"

definition decode_tendermint_attr :: "'u lcd_lib \<Rightarrow> string \<Rightarrow> string" where
  "decode_tendermint_attr L raw =
     (let trimmed = trim raw in
      if trimmed = [] then []
      else if List.member KNOWN trimmed then trimmed
      else if \<not> list_all (\<lambda>b. is_ascii_alphanumeric b \<or> b = CHR ''+'' \<or> b = CHR ''/'' \<or> b = CHR ''='') trimmed
        then trimmed
      else (case base64_decode L trimmed of
          Inr bytes \<Rightarrow>
            (case chars_of bytes of
               Some chars \<Rightarrow>
                 if bytes \<noteq> [] \<and> list_all (\<lambda>c. \<not> is_control c) chars then bytes else trimmed
             | None \<Rightarrow> trimmed)
        | Inl _ \<Rightarrow> trimmed))"

definition parse_event_attribute :: "'u lcd_lib \<Rightarrow> json \<Rightarrow> tx_event_attribute option" where
  "parse_event_attribute L a =
     Option.bind (Option.bind (json_get ''key'' a) as_str) (\<lambda>k.
     Some \<lparr>key = decode_tendermint_attr L k,
           attr_value = decode_tendermint_attr L (get_str_or_empty ''value'' a)\<rparr>)"

definition parse_event_attributes :: "'u lcd_lib \<Rightarrow> json list \<Rightarrow> tx_event_attribute list" where
  "parse_event_attributes L attrs = List.map_filter (parse_event_attribute L) attrs"

definition parse_event :: "'u lcd_lib \<Rightarrow> json \<Rightarrow> tx_event option" where
  "parse_event L ev =
     Option.bind (Option.bind (json_get ''type'' ev) as_str) (\<lambda>t.
     Some \<lparr>ty = t,
           ev_attributes = (case Option.bind (json_get ''attributes'' ev) as_array of
              None \<Rightarrow> [] | Some arr \<Rightarrow> parse_event_attributes L arr)\<rparr>)"

definition parse_events_array :: "'u lcd_lib \<Rightarrow> json list \<Rightarrow> tx_event list" where
  "parse_events_array L evs = List.map_filter (parse_event L) evs"

definition events_of :: "'u lcd_lib \<Rightarrow> json \<Rightarrow> tx_event list" where
  "events_of L j = (case Option.bind (json_get ''events'' j) as_array of
       None \<Rightarrow> [] | Some evs \<Rightarrow> parse_events_array L evs)"

definition parse_tx_events :: "'u lcd_lib \<Rightarrow> json \<Rightarrow> tx_event list" where
  "parse_tx_events L tx_response =
     (let out = events_of L tx_response in
      if out \<noteq> [] then out
      else (case Option.bind (json_get ''logs'' tx_response) as_array of
          None \<Rightarrow> out
        | Some logs \<Rightarrow> out @ concat (map (events_of L) logs)))"

definition parse_tx_query_body ::
  "'u lcd_lib \<Rightarrow> u16 \<Rightarrow> json \<Rightarrow> (tx_response_summary option, string) result" where
  "parse_tx_query_body L status body =
     (if http_status_is_not_found status \<or> tx_body_looks_not_found L body then Ok None
      else if \<not> is_success status then
        and_then (truncate_for_error L body) (\<lambda>t.
        Err (''tx query http '' @ show_nat (unat status) @ '': '' @ t))
      else
        and_then (ok_or ''tx query missing tx_response'' (json_get ''tx_response'' body)) (\<lambda>tx_response.
        let c = (case Option.bind (json_get ''code'' tx_response) as_u64 of None \<Rightarrow> 1 | Some c \<Rightarrow> c);
            h = get_str_or_empty ''txhash'' tx_response;
            l = get_str_or_empty ''raw_log'' tx_response
        in if h = [] then Err ''tx query missing txhash''
           else Ok (Some \<lparr>txhash = h, code = c, raw_log = l, events = parse_tx_events L tx_response\<rparr>)))"

section \<open>Accounts\<close>

definition account_wrappers :: "string list" where
  "account_wrappers =
     [''base_account'', ''base_vesting_account'', ''base_delayed_vesting_account'',
      ''base_continuous_vesting_account'', ''base_periodic_vesting_account'']"

fun first_nested :: "string list \<Rightarrow> json \<Rightarrow> json option" where
  "first_nested [] account = None"
| "first_nested (k # ks) account =
     (case json_get k account of Some nested \<Rightarrow> Some nested | None \<Rightarrow> first_nested ks account)"

lemma first_nested_size: "first_nested ks j = Some v \<Longrightarrow> size v < size j"
  by (induction ks) (auto split: option.splits intro: json_get_size)

function resolve_account_object :: "json \<Rightarrow> (json, string) result" where
  "resolve_account_object account =
     (if json_get ''sequence'' account \<noteq> None \<or> json_get ''account_number'' account \<noteq> None
      then Ok account
      else (case first_nested account_wrappers account of
          Some nested \<Rightarrow> resolve_account_object nested
        | None \<Rightarrow> Err (''could not locate sequence/account_number in account JSON (type='' @
            (case Option.bind (json_get ''@type'' account) as_str of
               None \<Rightarrow> ''unknown'' | Some t \<Rightarrow> t) @ '')'')))"
  by pat_completeness auto
termination
  by (relation "measure size") (auto intro: first_nested_size)

declare resolve_account_object.simps [simp del]

definition parse_json_u64 :: "'u lcd_lib \<Rightarrow> json \<Rightarrow> string \<Rightarrow> (u64, string) result" where
  "parse_json_u64 L v field = (case v of
       JNumber n \<Rightarrow> ok_or (field @ '' is not a valid u64 number'') (as_u64 v)
     | JString s \<Rightarrow>
         ok_or (field @ '' string '' @ str_debug L s @ '' is not a valid u64: '' @ parse_u64_error s)
           (parse_uint s)
     | _ \<Rightarrow> Err (field @ '' must be a string or number, got '' @ json_to_string L v))"

definition extract_u64_field :: "'u lcd_lib \<Rightarrow> json \<Rightarrow> string \<Rightarrow> (u64, string) result" where
  "extract_u64_field L obj field =
     and_then (ok_or (''missing account field '' @ field) (json_get field obj)) (\<lambda>v.
     parse_json_u64 L v field)"

definition parse_account_info :: "'u lcd_lib \<Rightarrow> json \<Rightarrow> (account_info, string) result" where
  "parse_account_info L v =
     and_then (ok_or ''missing account field in LCD response'' (json_get ''account'' v)) (\<lambda>account.
     and_then (resolve_account_object account) (\<lambda>inner.
     and_then (extract_u64_field L inner ''sequence'') (\<lambda>sequence.
     and_then (extract_u64_field L inner ''account_number'') (\<lambda>account_number.
     Ok \<lparr>ai_sequence = sequence, ai_account_number = account_number\<rparr>))))"

section \<open>Gas price and fee\<close>

definition parse_gas_price_denom :: "string \<Rightarrow> f64 option" where
  "parse_gas_price_denom raw =
     (let trimmed = trim raw in
      if trimmed = [] then None
      else
        let (num, denom) =
          (case str_find trimmed ''uluna'' of
             Some idx \<Rightarrow> (take idx trimmed, ''uluna'')
           | None \<Rightarrow> (case str_find trimmed ''uusd'' of
               Some idx \<Rightarrow> (take idx trimmed, ''uusd'')
             | None \<Rightarrow> (trimmed, [])))
        in if denom \<noteq> [] \<and> num = [] then None else f64_parse num)"

definition parse_minimum_gas_price :: "json \<Rightarrow> f64 option" where
  "parse_minimum_gas_price v =
     (let raw = (case Option.bind (json_get ''config'' v) (json_get ''minimum_gas_price'') of
                   Some p \<Rightarrow> Some p | None \<Rightarrow> json_get ''minimum_gas_price'' v)
      in Option.bind (Option.bind raw as_str) parse_gas_price_denom)"

definition effective_gas_price :: "f64 \<Rightarrow> f64 option \<Rightarrow> f64" where
  "effective_gas_price configured network_min = (case network_min of
       Some network \<Rightarrow> if f64_less configured network then network else configured
     | None \<Rightarrow> configured)"

definition compute_fee_amount :: "u64 \<Rightarrow> f64 \<Rightarrow> u128" where
  "compute_fee_amount gas_limit gas_price =
     f64_as_u128 (f64_ceil (f64_mul (f64_of_u64 gas_limit) gas_price))"

end
