(* ===== verification/Service_Fee.thy ===== *)
theory Service_Fee
  imports Service_Terra
begin

text \<open>
  The fee of a transaction (\<open>effective_gas_price\<close>, \<open>compute_fee_amount\<close> of
  \<open>terra_tx.rs\<close>) never decreases with the gas price, rounding included, so the fee at the
  effective price covers the fee at the network's minimum; and the account query finds the
  account through every wrapper the source lists.
\<close>

section \<open>The fee grows with the price\<close>

lemma f64_as_u128_mono: "f64_le a b \<Longrightarrow> f64_as_u128 (f64_ceil a) \<le> f64_as_u128 (f64_ceil b)"
proof (cases a; cases b)
  fix x y assume le: "f64_le a b" and a: "a = Finite x" and b: "b = Finite y"
  then have xy: "x \<le> y" by simp
  then have "\<lceil>x\<rceil> \<le> \<lceil>y\<rceil>" by (rule ceiling_mono)
  moreover have "(of_int m :: u128) \<le> of_int n" if "0 \<le> m" "m \<le> n" "n < 2 ^ 128" for m n :: int
    using that by (simp add: word_le_nat_alt unsigned_of_int take_bit_int_eq_self nat_mono)
  ultimately show ?thesis
    using xy by (auto simp: a b not_less)
qed auto

lemma f64_mul_mono:
  assumes "0 \<le> x" and "f64_le (Finite 0) p" and "f64_le p q"
  shows "f64_le (f64_mul (Finite x) p) (f64_mul (Finite x) q) \<or> f64_mul (Finite x) q = NaN \<and> x = 0"
proof (cases p; cases q)
  fix y z assume "p = Finite y" "q = Finite z"
  with assms show ?thesis by (simp add: f64_round_mono mult_left_mono)
next
  fix y s assume "p = Finite y" "q = Infinite s"
  with assms f64_round_nonneg[of "x * y"] show ?thesis
    by (auto simp: f64_negative_def)
qed (use assms in \<open>auto simp: f64_negative_def\<close>)

lemma f64_of_u64_cases:
  obtains x where "f64_of_u64 g = Finite x" "0 \<le> x"
proof (cases "g = 0")
  case True
  then show thesis using that[of 0] by (simp add: f64_of_u64_def f64_round_def)
next
  case False
  define n :: rat where "n = of_nat (unat g)"
  have "0 < unat g" using False by (simp add: unat_gt_0)
  then have pos: "0 < n" unfolding n_def by (simp only: of_nat_0_less_iff)
  have "unat g \<le> 2 ^ 64" using unat_less_size[of g] by simp
  then have le: "n \<le> 2 ^ 64" unfolding n_def by (metis of_nat_le_iff of_nat_numeral of_nat_power)
  have "rat_log2 (2 ^ 64) = 64" by (rule rat_log2_eqI) simp_all
  then have "f64_ulp (2 ^ 64) = 4096" by (simp add: f64_ulp_def)
  then have "round_positive (2 ^ 64) = 2 ^ 64"
    unfolding round_positive_def using round_half_even_of_int[of "2 ^ 52"] by simp
  with round_positive_mono[OF pos le] have "round_positive n \<le> 2 ^ 64" by simp
  then have "\<not> 2 ^ 1024 \<le> round_positive n" by (simp add: not_le)
  with pos have "f64_of_u64 g = Finite (round_positive n)"
    unfolding f64_of_u64_def n_def[symmetric] f64_round_def Let_def by simp
  then show thesis using round_positive_nonneg[OF pos] by (rule that)
qed

theorem compute_fee_mono:
  assumes "f64_le (Finite 0) p" and "f64_le p q"
  shows "compute_fee_amount g p \<le> compute_fee_amount g q"
proof -
  obtain x where x: "f64_of_u64 g = Finite x" "0 \<le> x" by (rule f64_of_u64_cases)
  from f64_mul_mono[OF x(2) assms] show ?thesis
  proof
    assume "f64_le (f64_mul (Finite x) p) (f64_mul (Finite x) q)"
    then show ?thesis unfolding compute_fee_amount_def x(1) by (rule f64_as_u128_mono)
  next
    assume "f64_mul (Finite x) q = NaN \<and> x = 0"
    then have "compute_fee_amount g p = 0"
      unfolding compute_fee_amount_def x(1) by (cases p) (simp_all add: f64_round_def)
    then show ?thesis by simp
  qed
qed

text \<open>A price that is not positive costs nothing.\<close>

lemma f64_round_nonpos: "x \<le> 0 \<Longrightarrow> f64_as_u128 (f64_ceil (f64_round x)) = 0"
proof (cases "x = 0")
  case True
  then show ?thesis by (simp add: f64_round_def)
next
  case False
  assume "x \<le> 0"
  with False have neg: "x < 0" by simp
  then have "0 \<le> round_positive (- x)" by (intro round_positive_nonneg) simp
  then have "\<lceil>- round_positive (- x)\<rceil> \<le> 0" by (simp add: ceiling_le_iff)
  then have "(of_int \<lceil>- round_positive (- x)\<rceil> :: rat) \<le> 0" by (simp only: of_int_le_0_iff)
  with neg show ?thesis
    unfolding f64_round_def Let_def by (simp add: abs_if del: of_int_le_0_iff)
qed

lemma compute_fee_nonpos:
  assumes "\<not> f64_le (Finite 0) p" shows "compute_fee_amount g p = 0"
proof -
  obtain x where x: "f64_of_u64 g = Finite x" "0 \<le> x" by (rule f64_of_u64_cases)
  show ?thesis
  proof (cases p)
    case (Finite y)
    with assms x(2) have "x * y \<le> 0" by (simp add: mult_nonneg_nonpos)
    then show ?thesis by (simp add: compute_fee_amount_def x(1) Finite f64_round_nonpos)
  next
    case (Infinite s)
    with assms x(2) show ?thesis
      by (auto simp: compute_fee_amount_def x(1) f64_negative_def)
  qed (simp add: compute_fee_amount_def x(1))
qed

lemma effective_fee_covers:
  assumes "f64_le (Finite 0) c"
  shows "compute_fee_amount g c \<le> compute_fee_amount g (effective_gas_price c n)"
    and "n = Some p \<Longrightarrow> compute_fee_amount g p \<le> compute_fee_amount g (effective_gas_price c n)"
proof -
  have nan: "f64_le c q \<or> f64_less q c \<or> q = NaN" for q
    using assms by (cases c; cases q) auto
  show "compute_fee_amount g c \<le> compute_fee_amount g (effective_gas_price c n)"
    using assms compute_fee_mono[OF assms]
    by (auto simp: effective_gas_price_def split: option.splits)
  show "compute_fee_amount g p \<le> compute_fee_amount g (effective_gas_price c n)" if "n = Some p"
  proof (cases "f64_le (Finite 0) p")
    case True
    show ?thesis
      using that nan[of p] compute_fee_mono[OF True, of c g] True
      by (auto simp: effective_gas_price_def)
  qed (simp add: compute_fee_nonpos)
qed

text \<open>The default price is 0.015 rounded to 53 bits, and costs 7500 for the default limit.\<close>

lemma default_gas_price: "DEFAULT_GAS_PRICE = Finite (8646911284551352 / 576460752303423488)"
proof -
  have "rat_log2 (3 / 200) = - 7" by (rule rat_log2_eqI) (simp_all add: power_int_def power_one_over)
  then have u: "f64_ulp (3 / 200) = 1 / 576460752303423488" by (simp add: f64_ulp_def power_int_def power_one_over)
  have "\<lfloor>(216172782113783808 / 25 :: rat)\<rfloor> = 8646911284551352" by (simp add: floor_eq_iff)
  then have "round_half_even (216172782113783808 / 25) = 8646911284551352"
    unfolding round_half_even_def by simp
  then have "round_positive (3 / 200) = 8646911284551352 / 576460752303423488"
    unfolding round_positive_def u by simp
  then show ?thesis by (simp add: DEFAULT_GAS_PRICE_def f64_round_def)
qed

lemma default_fee: "compute_fee_amount DEFAULT_GAS_LIMIT DEFAULT_GAS_PRICE = 7500"
proof -
  have "rat_log2 500000 = 18" by (rule rat_log2_eqI) (simp_all add: power_int_def)
  then have u: "f64_ulp 500000 = 1 / 17179869184" by (simp add: f64_ulp_def power_int_def power_one_over)
  have "round_half_even (500000 * 17179869184) = 500000 * 17179869184"
    using round_half_even_of_int[of "500000 * 17179869184"] by simp
  then have "round_positive 500000 = 500000" unfolding round_positive_def u by simp
  then have g: "f64_of_u64 DEFAULT_GAS_LIMIT = Finite 500000"
    by (simp add: f64_of_u64_def f64_round_def DEFAULT_GAS_LIMIT_def)
  let ?x = "500000 * (8646911284551352 / 576460752303423488) :: rat"
  have "rat_log2 ?x = 12" by (rule rat_log2_eqI) (simp_all add: power_int_def)
  then have v: "f64_ulp ?x = 1 / 1099511627776" by (simp add: f64_ulp_def power_int_def power_one_over)
  have "\<lfloor>(500000 * 8646911284551352 / 524288 :: rat)\<rfloor> = 8246337208319999" by (simp add: floor_eq_iff)
  then have "round_half_even (?x / (1 / 1099511627776)) = 8246337208320000"
    unfolding round_half_even_def Let_def by simp
  then have "round_positive ?x = 7500" unfolding round_positive_def v by simp
  then have "f64_mul (Finite 500000) DEFAULT_GAS_PRICE = Finite 7500"
    unfolding default_gas_price f64_mul.simps f64_round_def Let_def by simp
  then show ?thesis by (simp add: compute_fee_amount_def g)
qed

section \<open>Accounts through their wrappers\<close>

text \<open>The account object of an LCD answer, inside the wrappers named from the outside in.\<close>

definition account_object :: "account_info \<Rightarrow> json" where
  "account_object i = JObject
     [(''account_number'', JString (show_nat (unat (ai_account_number i)))),
      (''sequence'', JString (show_nat (unat (ai_sequence i))))]"

fun wrap_account :: "string list \<Rightarrow> json \<Rightarrow> json" where
  "wrap_account [] j = j"
| "wrap_account (k # ks) j = JObject [(''@type'', JString k), (k, wrap_account ks j)]"

definition account_answer :: "json \<Rightarrow> json" where
  "account_answer j = JObject [(''account'', j)]"

lemma wrapper_neq:
  "k \<in> set account_wrappers \<Longrightarrow> k \<noteq> ''sequence'' \<and> k \<noteq> ''account_number'' \<and> k \<noteq> ''@type''"
  by (auto simp: account_wrappers_def)

lemma first_nested_single:
  "k \<in> set ks \<Longrightarrow> ''@type'' \<notin> set ks \<Longrightarrow>
   first_nested ks (JObject [(''@type'', t), (k, j)]) = Some j"
  by (induction ks) auto

lemma resolve_wrapped:
  "set ks \<subseteq> set account_wrappers \<Longrightarrow>
   resolve_account_object (wrap_account ks (account_object i)) = Ok (account_object i)"
proof (induction ks)
  case Nil
  show ?case by (subst resolve_account_object.simps) (simp add: account_object_def)
next
  case (Cons k ks)
  then have k: "k \<in> set account_wrappers" by simp
  have "''@type'' \<notin> set account_wrappers" by (simp add: account_wrappers_def)
  with first_nested_single[OF k this] wrapper_neq[OF k] Cons show ?case
    by (subst resolve_account_object.simps) auto
qed

lemma parse_account_wrapped:
  assumes "set ks \<subseteq> set account_wrappers"
  shows "parse_account_info L (account_answer (wrap_account ks (account_object i))) = Ok i"
proof -
  have "extract_u64_field L (account_object i) ''sequence'' = Ok (ai_sequence i)"
    "extract_u64_field L (account_object i) ''account_number'' = Ok (ai_account_number i)"
    by (simp_all add: extract_u64_field_def parse_json_u64_def account_object_def parse_uint_show_nat)
  moreover have "json_get ''account'' (account_answer j) = Some j" for j
    by (simp add: account_answer_def)
  ultimately show ?thesis
    unfolding parse_account_info_def by (simp only: resolve_wrapped[OF assms] and_then_simps ok_or_simps) simp
qed

text \<open>The cut of a long text aborts exactly in the middle of a character.\<close>

lemma truncate_panics_iff:
  "truncate_for_error L body = Panicked \<longleftrightarrow>
     256 < length (json_to_string L body) \<and> continuation (byte_of (json_to_string L body ! 256))"
  by (auto simp: truncate_for_error_def Let_def is_char_boundary_def)

end
