(* ===== verification/Service_Signer.thy ===== *)
theory Service_Signer
  imports Service_Fee
begin

text \<open>
  \<open>TerraSigner\<close> (\<open>oracle-service/src/terra_tx.rs\<close>): the account query, the gas price probe,
  smart queries, signing and broadcasting a call of a contract, and the loop that waits for
  the transaction to be included. The world is what the service reaches through HTTP and the
  clock; keys, mnemonics and the encoding of a transaction are third-party code.
\<close>

section \<open>Parameters\<close>

record http_response =
  status :: u16
  body_json :: "(json, string) result"

text \<open>
  \<open>clock\<close> is \<open>Instant::now\<close> in nanoseconds and \<open>instant_limit\<close> the last instant that can be
  represented; \<open>sleep_for\<close> says whether the sleep came to its end or its future was dropped;
  \<open>unix_time\<close> is the wall clock, \<open>None\<close> before 1970.
\<close>

record 'w service_io =
  http_get :: "string \<Rightarrow> (http_response, string, 'w) io"
  http_post :: "string \<Rightarrow> json \<Rightarrow> (http_response, string, 'w) io"
  clock :: "'w \<Rightarrow> nat \<times> 'w"
  instant_limit :: nat
  sleep_for :: "nat \<Rightarrow> 'w \<Rightarrow> bool \<times> 'w"
  unix_time :: "'w \<Rightarrow> u64 option \<times> 'w"

record execute_contract =
  ec_sender :: string
  ec_contract :: string
  ec_msg :: string
  ec_funds :: "coin list"

record tx_body =
  tb_messages :: "string list"
  tb_memo :: string
  tb_timeout_height :: u32

record auth_info =
  au_public_key :: string
  au_sequence :: u64
  au_fee_denom :: string
  au_fee_amount :: u128
  au_gas_limit :: u64

record 'k wallet_lib =
  build_client :: "nat \<Rightarrow> (unit, string) result"
  mnemonic_parse :: "string \<Rightarrow> (string, string) result"
  to_seed :: "string \<Rightarrow> string \<Rightarrow> string"
  path_parse :: "string \<Rightarrow> (string, string) result"
  derive_from_path :: "string \<Rightarrow> string \<Rightarrow> ('k, string) result"
  public_key :: "'k \<Rightarrow> string"
  account_id :: "string \<Rightarrow> string \<Rightarrow> (string, string) result"
  account_id_parse :: "string \<Rightarrow> (string, string) result"
  denom_parse :: "string \<Rightarrow> (string, string) result"
  chain_id_parse :: "string \<Rightarrow> (string, string) result"
  to_any :: "execute_contract \<Rightarrow> (string, string) result"
  sign_doc_new :: "tx_body \<Rightarrow> auth_info \<Rightarrow> string \<Rightarrow> u64 \<Rightarrow> (string, string) result"
  sign_doc_sign :: "string \<Rightarrow> 'k \<Rightarrow> (string, string) result"
  tx_to_bytes :: "string \<Rightarrow> (string, string) result"

section \<open>The signer\<close>

definition TERRA_DERIVATION_PATH :: string where
  "TERRA_DERIVATION_PATH = ''m/44'' @ [CHR 0x27] @ ''/330'' @ [CHR 0x27] @ ''/0'' @ [CHR 0x27] @ ''/0/0''"

record terra_signer_config =
  tsc_lcd_url :: string
  tsc_chain_id :: string
  tsc_mnemonic :: string
  tsc_gas_limit :: "u64 option"
  tsc_gas_price :: f64

record 'k terra_signer =
  signing_key :: 'k
  ts_address :: string
  ts_lcd_url :: string
  ts_chain_id :: string
  ts_gas_limit :: u64
  ts_gas_price :: f64

definition trim_end_slashes :: "string \<Rightarrow> string" where
  "trim_end_slashes s = rev (dropWhile (\<lambda>c. c = CHR ''/'') (rev s))"

definition terra_signer_new ::
  "'k wallet_lib \<Rightarrow> terra_signer_config \<Rightarrow> ('k terra_signer, string) result" where
  "terra_signer_new W config =
     and_then (map_err (\<lambda>_. ''HTTP client'') (build_client W 30000000000)) (\<lambda>_.
     and_then (map_err (\<lambda>e. ''mnemonic: '' @ e) (mnemonic_parse W (tsc_mnemonic config))) (\<lambda>mnemonic.
     let seed = to_seed W mnemonic [] in
     and_then (map_err (\<lambda>e. ''derivation path: '' @ e) (path_parse W TERRA_DERIVATION_PATH)) (\<lambda>path.
     and_then (map_err (\<lambda>e. ''derive key: '' @ e) (derive_from_path W seed path)) (\<lambda>k.
     and_then (map_err (\<lambda>e. ''account id: '' @ e) (account_id W (public_key W k) ''terra'')) (\<lambda>address.
     Ok \<lparr>signing_key = k, ts_address = address,
         ts_lcd_url = trim_end_slashes (tsc_lcd_url config),
         ts_chain_id = tsc_chain_id config,
         ts_gas_limit = (case tsc_gas_limit config of None \<Rightarrow> DEFAULT_GAS_LIMIT | Some g \<Rightarrow> g),
         ts_gas_price = tsc_gas_price config\<rparr>)))))"

definition lcd_url_redacted :: "'u lcd_lib \<Rightarrow> 'k terra_signer \<Rightarrow> string" where
  "lcd_url_redacted L sg = redact_url_credentials L (ts_lcd_url sg)"

section \<open>Queries\<close>

definition get_account_info ::
  "'u lcd_lib \<Rightarrow> 'w service_io \<Rightarrow> 'k terra_signer \<Rightarrow> (account_info, string, 'w) io" where
  "get_account_info L io sg =
     io_then (http_get io (ts_lcd_url sg @ ''/cosmos/auth/v1beta1/accounts/'' @ ts_address sg)) (\<lambda>response.
     if \<not> is_success (status response) then
       io_return (Err (''account query '' @ status_text L (status response) @ '' (lcd '' @
         lcd_url_redacted L sg @ '')''))
     else io_then (io_return (body_json response)) (\<lambda>data.
       io_return (parse_account_info L data)))"

definition query_network_min_gas_price ::
  "'u lcd_lib \<Rightarrow> 'w service_io \<Rightarrow> 'k terra_signer \<Rightarrow> (f64 option, string, 'w) io" where
  "query_network_min_gas_price L io sg =
     io_then (http_get io (ts_lcd_url sg @ ''/cosmos/base/node/v1beta1/config'')) (\<lambda>response.
     if \<not> is_success (status response) then
       io_return (Err (''node config query '' @ status_text L (status response) @
         '' (fallback to configured TERRA_GAS_PRICE)''))
     else io_then (io_return (body_json response)) (\<lambda>data.
       io_return (Ok (parse_minimum_gas_price data))))"

definition resolve_gas_price ::
  "'u lcd_lib \<Rightarrow> 'w service_io \<Rightarrow> 'k terra_signer \<Rightarrow> (f64, string, 'w) io" where
  "resolve_gas_price L io sg =
     io_await (query_network_min_gas_price L io sg) (\<lambda>r. case r of
       Inr network_min \<Rightarrow> io_return (Ok (effective_gas_price (ts_gas_price sg) network_min))
     | Inl _ \<Rightarrow> io_return (Ok (ts_gas_price sg)))"

definition query_wasm_smart ::
  "'u lcd_lib \<Rightarrow> 'w service_io \<Rightarrow> ('q \<Rightarrow> (string, string) result) \<Rightarrow> 't deserializer \<Rightarrow>
   'k terra_signer \<Rightarrow> string \<Rightarrow> 'q \<Rightarrow> ('t, string, 'w) io" where
  "query_wasm_smart L io to_vec de sg contract query_msg =
     io_then (io_return (to_vec query_msg)) (\<lambda>q.
     io_then (http_get io (ts_lcd_url sg @ ''/cosmwasm/wasm/v1/contract/'' @ contract @ ''/smart/'' @
                base64_encode L q)) (\<lambda>response.
     if \<not> is_success (status response) then
       io_return (Err (''wasm query '' @ status_text L (status response) @ '' (lcd '' @
         lcd_url_redacted L sg @ '')''))
     else io_then (io_return (body_json response)) (\<lambda>body.
       io_then (io_return (ok_or ''missing data field'' (json_get ''data'' body))) (\<lambda>data.
       io_return (parse_wasm_smart_query_data L de data)))))"

definition query_tx_by_hash ::
  "'u lcd_lib \<Rightarrow> 'w service_io \<Rightarrow> 'k terra_signer \<Rightarrow> string \<Rightarrow>
   (tx_response_summary option, string, 'w) io" where
  "query_tx_by_hash L io sg hash =
     io_then (io_map_err (\<lambda>e. ''tx query transport error (lcd '' @ lcd_url_redacted L sg @ ''): '' @ e)
                (http_get io (ts_lcd_url sg @ ''/cosmos/tx/v1beta1/txs/'' @ hash))) (\<lambda>response.
     let body = (case body_json response of Inr b \<Rightarrow> b | Inl _ \<Rightarrow> JNull) in
     io_return (parse_tx_query_body L (status response) body))"

section \<open>Signing and broadcasting\<close>

text \<open>The transaction that is signed, as the text that goes into the request.\<close>

definition signed_tx ::
  "'u lcd_lib \<Rightarrow> 'k wallet_lib \<Rightarrow> 'k terra_signer \<Rightarrow> account_info \<Rightarrow> f64 \<Rightarrow> string \<Rightarrow>
   (string, string) result \<Rightarrow> (string, string) result" where
  "signed_tx L W sg info gas_price contract msg =
     (let fee_amount = compute_fee_amount (ts_gas_limit sg) gas_price in
      and_then msg (\<lambda>msg_json.
      and_then (account_id_parse W contract) (\<lambda>contract_id.
      let execute_msg = \<lparr>ec_sender = ts_address sg, ec_contract = contract_id, ec_msg = msg_json,
                         ec_funds = []\<rparr> in
      and_then (map_err (\<lambda>e. ''to_any: '' @ e) (to_any W execute_msg)) (\<lambda>any.
      let body = \<lparr>tb_messages = [any], tb_memo = [], tb_timeout_height = 0\<rparr> in
      and_then (denom_parse W ''uluna'') (\<lambda>denom.
      let auth = \<lparr>au_public_key = public_key W (signing_key sg), au_sequence = ai_sequence info,
                  au_fee_denom = denom, au_fee_amount = fee_amount, au_gas_limit = ts_gas_limit sg\<rparr> in
      and_then (chain_id_parse W (ts_chain_id sg)) (\<lambda>chain_id.
      and_then (map_err (\<lambda>e. ''sign doc: '' @ e)
                 (sign_doc_new W body auth chain_id (ai_account_number info))) (\<lambda>sign_doc.
      and_then (map_err (\<lambda>e. ''sign: '' @ e) (sign_doc_sign W sign_doc (signing_key sg))) (\<lambda>tx_raw.
      and_then (map_err (\<lambda>e. ''bytes: '' @ e) (tx_to_bytes W tx_raw)) (\<lambda>tx_bytes.
      Ok (base64_encode L tx_bytes))))))))))"

text \<open>The hash in the answer of the broadcast, when the node admitted the transaction.\<close>

definition check_tx_hash :: "'u lcd_lib \<Rightarrow> http_response \<Rightarrow> (string, string) result" where
  "check_tx_hash L response =
     (let body = (case body_json response of Inr b \<Rightarrow> b | Inl _ \<Rightarrow> JNull) in
      if \<not> is_success (status response) then
        and_then (truncate_for_error L body) (\<lambda>t.
        Err (''broadcast http '' @ status_text L (status response) @ '': '' @ t))
      else
        let tx_response = (case json_get ''tx_response'' body of None \<Rightarrow> JNull | Some t \<Rightarrow> t);
            c = (case Option.bind (json_get ''code'' tx_response) as_u64 of None \<Rightarrow> 1 | Some c \<Rightarrow> c);
            h = get_str_or_empty ''txhash'' tx_response
        in if c \<noteq> 0 then
             Err (''broadcast tx failed code '' @ show_nat (unat c) @ '': '' @
               get_str_or_empty ''raw_log'' tx_response)
           else if h = [] then Err ''broadcast succeeded CheckTx but missing txhash''
           else Ok h)"

definition sign_and_broadcast_execute_inner ::
  "'u lcd_lib \<Rightarrow> 'k wallet_lib \<Rightarrow> 'w service_io \<Rightarrow> ('m \<Rightarrow> (string, string) result) \<Rightarrow>
   'k terra_signer \<Rightarrow> string \<Rightarrow> 'm \<Rightarrow> (string, string, 'w) io" where
  "sign_and_broadcast_execute_inner L W io to_vec sg contract msg =
     io_then (get_account_info L io sg) (\<lambda>account_info.
     io_then (resolve_gas_price L io sg) (\<lambda>gas_price.
     io_then (io_return (signed_tx L W sg account_info gas_price contract (to_vec msg))) (\<lambda>tx_b64.
     let request = JObject [(''mode'', JString ''BROADCAST_MODE_SYNC''), (''tx_bytes'', JString tx_b64)] in
     io_then (io_map_err (\<lambda>e. ''broadcast transport error (lcd '' @ lcd_url_redacted L sg @ ''): '' @ e)
                (http_post io (ts_lcd_url sg @ ''/cosmos/tx/v1beta1/txs'') request)) (\<lambda>response.
     io_return (check_tx_hash L response)))))"

text \<open>Once more, with a fresh account query, when the sequence did not match.\<close>

definition sign_and_broadcast_execute ::
  "'u lcd_lib \<Rightarrow> 'k wallet_lib \<Rightarrow> 'w service_io \<Rightarrow> ('m \<Rightarrow> (string, string) result) \<Rightarrow>
   'k terra_signer \<Rightarrow> string \<Rightarrow> 'm \<Rightarrow> (string, string, 'w) io" where
  "sign_and_broadcast_execute L W io to_vec sg contract msg =
     io_await (sign_and_broadcast_execute_inner L W io to_vec sg contract msg) (\<lambda>first. case first of
       Inr txh \<Rightarrow> io_return (Ok txh)
     | Inl (Fail e) \<Rightarrow>
         if is_account_sequence_mismatch e
         then sign_and_broadcast_execute_inner L W io to_vec sg contract msg
         else io_return (Err e)
     | Inl Panic \<Rightarrow> io_return Panicked)"

section \<open>Waiting for inclusion\<close>

definition saturating_add :: "'a::len word \<Rightarrow> 'a word \<Rightarrow> 'a word" where
  "saturating_add a b = (if unat a + unat b < 2 ^ LENGTH('a) then a + b else - 1)"

text \<open>What the answer of one query means for the wait: a final result, or go on.\<close>

definition confirm_verdict ::
  "string \<Rightarrow> (tx_response_summary option, string) result \<Rightarrow> (tx_response_summary, string) result option"
  where
  "confirm_verdict expected r = (case r of
       Inr (Some summary) \<Rightarrow> Some (
         if \<not> eq_ignore_ascii_case (txhash summary) expected then
           Err (''tx hash mismatch during confirmation: expected '' @ expected @ '', got '' @
             txhash summary @ '' (fail-closed)'')
         else if code summary = 0 then Ok summary
         else Err (''DeliverTx failed code '' @ show_nat (unat (code summary)) @ '': '' @ raw_log summary))
     | Inr None \<Rightarrow> None
     | Inl (Fail msg) \<Rightarrow>
         if is_transient_lcd_error msg then None else Some (Err ''tx confirmation query failed'')
     | Inl Panic \<Rightarrow> Some Panicked)"

text \<open>How long to sleep before the next query: the interval and some jitter, within the rest.\<close>

definition confirm_pause :: "confirm_config \<Rightarrow> u32 \<Rightarrow> nat \<Rightarrow> nat" where
  "confirm_pause confirm attempt remaining =
     (let jitter_ms = saturating_mul (250 :: u64) (ucast (attempt mod 4));
          pause = poll_interval confirm + duration_from_millis jitter_ms
      in max (min pause remaining) 1000000)"

definition confirm_timeout_error :: "confirm_config \<Rightarrow> string \<Rightarrow> string" where
  "confirm_timeout_error confirm expected =
     ''tx confirmation timeout after '' @ debug_duration (timeout confirm) @
     '' waiting for DeliverTx of '' @ expected @ '' (fail-closed)''"

partial_function (option) confirm_loop ::
  "'u lcd_lib \<Rightarrow> 'w service_io \<Rightarrow> 'k terra_signer \<Rightarrow> string \<Rightarrow> confirm_config \<Rightarrow> nat \<Rightarrow> u32 \<Rightarrow> 'w \<Rightarrow>
   ((tx_response_summary, string) outcome \<times> 'w) option" where
  "confirm_loop L io sg expected confirm deadline attempt w =
     (let attempt = saturating_add attempt 1 in
      Option.bind (query_tx_by_hash L io sg expected w) (\<lambda>(answer, w). case answer of
        Dropped \<Rightarrow> Some (Dropped, w)
      | Done r \<Rightarrow> (case confirm_verdict expected r of
          Some v \<Rightarrow> Some (Done v, w)
        | None \<Rightarrow>
            (let (now, w) = clock io w in
             if deadline \<le> now then Some (Done (Err (confirm_timeout_error confirm expected)), w)
             else
               let (now, w) = clock io w;
                   (ended, w) = sleep_for io (confirm_pause confirm attempt (deadline - now)) w
               in if ended then confirm_loop L io sg expected confirm deadline attempt w
                  else Some (Dropped, w)))))"

definition wait_for_deliver_tx_success ::
  "'u lcd_lib \<Rightarrow> 'w service_io \<Rightarrow> 'k terra_signer \<Rightarrow> string \<Rightarrow> confirm_config \<Rightarrow>
   (tx_response_summary, string, 'w) io" where
  "wait_for_deliver_tx_success L io sg expected confirm w =
     (if expected = [] then Some (Done (Err ''empty tx hash cannot be confirmed''), w)
      else
        let (now, w) = clock io w in
        if instant_limit io < now + timeout confirm then Some (Done Panicked, w)
        else confirm_loop L io sg expected confirm (now + timeout confirm) 0 w)"

end
