(* ===== verification/Service_Confirm.thy ===== *)
theory Service_Confirm
  imports Service_Signer
begin

text \<open>
  How the oracle service decides that its update reached the chain
  (\<open>oracle-service/src/confirm.rs\<close>): by the wasm events of the included transaction, or by
  the state of the oracle contract where a node strips the events.
\<close>

definition STATE_CONFIRM_RETRY_ATTEMPTS :: nat where
  "STATE_CONFIRM_RETRY_ATTEMPTS = 3"

definition STATE_CONFIRM_RETRY_INTERVAL_MS :: u64 where
  "STATE_CONFIRM_RETRY_INTERVAL_MS = 100"

datatype oracle_tx_event_match = Matched | EventsAbsent

definition oracle_state_matches_intended_update ::
  "u64 \<Rightarrow> state_response \<Rightarrow> u128 \<Rightarrow> (unit, string) result" where
  "oracle_state_matches_intended_update prior_last_update_sec state proposed_rate =
     (if sr_rate state \<noteq> proposed_rate then
        Err (''oracle state rate mismatch after inclusion: expected '' @
          show_nat (unat proposed_rate) @ '', got '' @ show_nat (unat (sr_rate state)) @ '' (fail-closed)'')
      else if sr_last_update_sec state \<le> prior_last_update_sec then
        Err (''oracle last_update_sec did not advance after inclusion: prior '' @
          show_nat (unat prior_last_update_sec) @ '', got '' @
          show_nat (unat (sr_last_update_sec state)) @ '' (fail-closed)'')
      else Ok ())"

section \<open>Groups of wasm attributes\<close>

type_synonym attr_group = "(string \<times> string) list"

definition finish_group :: "attr_group option \<Rightarrow> attr_group list" where
  "finish_group current = (case current of None \<Rightarrow> [] | Some g \<Rightarrow> [g])"

fun split_groups :: "tx_event_attribute list \<Rightarrow> attr_group option \<Rightarrow> attr_group list" where
  "split_groups [] current = finish_group current"
| "split_groups (a # as) current =
     (if key a = ''_contract_address''
      then finish_group current @ split_groups as (Some [(key a, attr_value a)])
      else split_groups as (map_option (\<lambda>g. g @ [(key a, attr_value a)]) current))"

definition wasm_attr_groups :: "tx_event list \<Rightarrow> attr_group list" where
  "wasm_attr_groups evs =
     concat (map (\<lambda>ev. if eq_ignore_ascii_case (ty ev) ''wasm''
                       then split_groups (ev_attributes ev) None else []) evs)"

section \<open>Matching an update\<close>

definition values_of :: "string \<Rightarrow> attr_group \<Rightarrow> string list" where
  "values_of k grp = map snd (filter (\<lambda>a. fst a = k) grp)"

datatype group_verdict =
    NotOurContract
  | NotUpdateRate
  | RateUnparseable
  | RateMismatch
  | RateMatches

definition judge_group :: "string \<Rightarrow> u128 \<Rightarrow> attr_group \<Rightarrow> group_verdict" where
  "judge_group contract proposed_rate grp =
     (case find (\<lambda>a. fst a = ''_contract_address'') grp of
        None \<Rightarrow> NotOurContract
      | Some (_, address) \<Rightarrow>
          if \<not> eq_ignore_ascii_case address contract then NotOurContract
          else
            let actions = filter (\<lambda>v. v \<noteq> []) (values_of ''action'' grp) in
            if \<not> List.member actions ''update_rate'' then NotUpdateRate
            else
              let rates = values_of ''rate'' grp in
              if rates = [] \<or> List.member rates [] then RateUnparseable
              else (case those (map (\<lambda>r. parse_uint (trim r)) rates) of
                  None \<Rightarrow> RateUnparseable
                | Some parsed \<Rightarrow>
                    if list_ex (\<lambda>r. r \<noteq> parsed ! 0) parsed then RateUnparseable
                    else if parsed ! 0 = proposed_rate then RateMatches
                    else RateMismatch))"

text \<open>The four flags of the loop over the groups.\<close>

record match_flags =
  saw_our_contract :: bool
  saw_update_rate :: bool
  rate_mismatch :: bool
  rate_unparseable :: bool

definition note_verdict :: "group_verdict \<Rightarrow> match_flags \<Rightarrow> match_flags" where
  "note_verdict v f = (case v of
       NotOurContract \<Rightarrow> f
     | NotUpdateRate \<Rightarrow> f\<lparr>saw_our_contract := True\<rparr>
     | RateUnparseable \<Rightarrow>
         f\<lparr>saw_our_contract := True, saw_update_rate := True, rate_unparseable := True\<rparr>
     | RateMismatch \<Rightarrow>
         f\<lparr>saw_our_contract := True, saw_update_rate := True, rate_mismatch := True\<rparr>
     | RateMatches \<Rightarrow> f\<lparr>saw_our_contract := True, saw_update_rate := True\<rparr>)"

text \<open>The loop: \<open>None\<close> is the early return of a match.\<close>

fun scan_groups :: "string \<Rightarrow> u128 \<Rightarrow> attr_group list \<Rightarrow> match_flags \<Rightarrow> match_flags option" where
  "scan_groups contract proposed_rate [] f = Some f"
| "scan_groups contract proposed_rate (g # gs) f =
     (let v = judge_group contract proposed_rate g in
      if v = RateMatches then None
      else scan_groups contract proposed_rate gs (note_verdict v f))"

definition oracle_tx_events_match_update ::
  "string \<Rightarrow> u128 \<Rightarrow> tx_event list \<Rightarrow> (oracle_tx_event_match, string) result" where
  "oracle_tx_events_match_update contract proposed_rate evs =
     (let groups = wasm_attr_groups evs in
      if groups = [] then Ok EventsAbsent
      else (case scan_groups contract proposed_rate groups
              \<lparr>saw_our_contract = False, saw_update_rate = False, rate_mismatch = False,
               rate_unparseable = False\<rparr> of
          None \<Rightarrow> Ok Matched
        | Some f \<Rightarrow>
            if \<not> saw_our_contract f then
              Err (''DeliverTx wasm events did not include _contract_address='' @ contract @
                '' (fail-closed)'')
            else if \<not> saw_update_rate f then
              Err ''DeliverTx wasm events for oracle contract missing action=update_rate (fail-closed)''
            else if rate_mismatch f then
              Err (''DeliverTx wasm event rate does not match proposed '' @
                show_nat (unat proposed_rate) @ '' (fail-closed)'')
            else if rate_unparseable f then
              Err ''DeliverTx wasm event rate missing, empty, or unparseable (fail-closed)''
            else Err ''DeliverTx wasm events did not prove oracle update_rate (fail-closed)''))"

section \<open>What a match proves\<close>

lemma scan_groups_None_iff:
  "scan_groups c r gs f = None \<longleftrightarrow> (\<exists>g\<in>set gs. judge_group c r g = RateMatches)"
  by (induction gs arbitrary: f) (auto simp: Let_def)

lemma match_iff:
  "oracle_tx_events_match_update c r evs = Ok Matched \<longleftrightarrow>
     (\<exists>g\<in>set (wasm_attr_groups evs). judge_group c r g = RateMatches)"
proof -
  have "oracle_tx_events_match_update c r evs = Ok Matched \<longleftrightarrow>
      wasm_attr_groups evs \<noteq> [] \<and>
      scan_groups c r (wasm_attr_groups evs)
        \<lparr>saw_our_contract = False, saw_update_rate = False, rate_mismatch = False,
         rate_unparseable = False\<rparr> = None"
    unfolding oracle_tx_events_match_update_def Let_def by (simp split: option.splits)
  then show ?thesis by (auto simp: scan_groups_None_iff)
qed

lemma events_absent_iff:
  "oracle_tx_events_match_update c r evs = Ok EventsAbsent \<longleftrightarrow> wasm_attr_groups evs = []"
  unfolding oracle_tx_events_match_update_def Let_def by (simp split: option.splits)

lemma match_no_panic [simp]: "oracle_tx_events_match_update c r evs \<noteq> Panicked"
  unfolding oracle_tx_events_match_update_def Let_def by (simp split: option.splits)

text \<open>A group that proves the update: our contract, the action, and only this rate.\<close>

definition proves_update :: "string \<Rightarrow> u128 \<Rightarrow> attr_group \<Rightarrow> bool" where
  "proves_update contract rate grp \<longleftrightarrow>
     (\<exists>address. find (\<lambda>a. fst a = ''_contract_address'') grp = Some (''_contract_address'', address) \<and>
        eq_ignore_ascii_case address contract) \<and>
     (''action'', ''update_rate'') \<in> set grp \<and>
     values_of ''rate'' grp \<noteq> [] \<and>
     (\<forall>v\<in>set (values_of ''rate'' grp). parse_uint (trim v) = Some rate)"

lemma those_Some_iff: "those xs = Some ys \<longleftrightarrow> xs = map Some ys"
  by (induction xs arbitrary: ys) (auto split: option.splits)

lemma map_eq_map_Some: "map f xs = map Some ys \<Longrightarrow> x \<in> set xs \<Longrightarrow> \<exists>y\<in>set ys. f x = Some y"
  by (metis (no_types, lifting) imageE image_eqI list.set_map)

lemma find_SomeD: "find P xs = Some x \<Longrightarrow> P x \<and> x \<in> set xs"
  by (auto simp: find_Some_iff)

lemma judge_matchesD:
  assumes "judge_group c r g = RateMatches" shows "proves_update c r g"
proof -
  obtain k address where f: "find (\<lambda>a. fst a = ''_contract_address'') g = Some (k, address)"
    using assms unfolding judge_group_def by (cases "find (\<lambda>a. fst a = ''_contract_address'') g") auto
  from find_SomeD[OF f] have k: "k = ''_contract_address''" by simp
  define rates where "rates = values_of ''rate'' g"
  have addr: "eq_ignore_ascii_case address c"
    using assms f unfolding judge_group_def by (simp split: if_splits)
  have act: "List.member (filter (\<lambda>v. v \<noteq> []) (values_of ''action'' g)) ''update_rate''"
    using assms f addr unfolding judge_group_def by (simp split: if_splits)
  have "rates \<noteq> []"
    using assms f addr act unfolding judge_group_def rates_def Let_def by (simp split: if_splits)
  obtain ps where ps: "those (map (\<lambda>r. parse_uint (trim r)) rates) = Some ps"
      "\<not> list_ex (\<lambda>r. r \<noteq> ps ! 0) ps" "ps ! 0 = r"
    using assms f addr act unfolding judge_group_def rates_def Let_def
    by (simp split: if_splits option.splits)
  then have all: "\<forall>p\<in>set ps. p = r" by (auto simp: list_ex_iff)
  from ps(1) have "map (\<lambda>r. parse_uint (trim r)) rates = map Some ps" by (simp add: those_Some_iff)
  from map_eq_map_Some[OF this] all have "\<forall>v\<in>set rates. parse_uint (trim v) = Some r" by fastforce
  moreover have "(''action'', ''update_rate'') \<in> set g"
    using act by (auto simp: List.member_iff values_of_def)
  ultimately show ?thesis
    unfolding proves_update_def rates_def[symmetric] using f k addr \<open>rates \<noteq> []\<close> by blast
qed

lemma judge_matchesI:
  assumes "proves_update c r g" and "\<And>v. v \<in> set (values_of ''rate'' g) \<Longrightarrow> v \<noteq> []"
  shows "judge_group c r g = RateMatches"
proof -
  define rates where "rates = values_of ''rate'' g"
  from assms(1) obtain address where f: "find (\<lambda>a. fst a = ''_contract_address'') g = Some (''_contract_address'', address)"
    and addr: "eq_ignore_ascii_case address c" and act: "(''action'', ''update_rate'') \<in> set g"
    and r: "rates \<noteq> []" "\<forall>v\<in>set rates. parse_uint (trim v) = Some r"
    unfolding proves_update_def rates_def by blast
  have "those (map (\<lambda>r. parse_uint (trim r)) rates) = Some (map (\<lambda>_. r) rates)"
    using r(2) by (simp add: those_Some_iff)
  moreover have "map (\<lambda>_. r) rates ! 0 = r" using r(1) by (cases rates) simp_all
  moreover have "List.member (filter (\<lambda>v. v \<noteq> []) (values_of ''action'' g)) ''update_rate''"
    using act by (force simp: List.member_iff values_of_def)
  moreover have "\<not> List.member rates []" using assms(2) by (auto simp: List.member_iff rates_def)
  moreover have "\<not> list_ex (\<lambda>x. x \<noteq> r) (map (\<lambda>_. r) rates)" by (auto simp: list_ex_iff)
  ultimately show ?thesis
    using f addr r(1) unfolding judge_group_def rates_def[symmetric] Let_def by simp
qed

text \<open>
  The wasm event the chain reports for a call that returned the attributes \<open>attrs\<close>: the
  address of the contract first, then the attributes in their order. A node shows keys and
  values either as they are or in base64, the function \<open>enc\<close>.
\<close>

definition attribute_json :: "(string \<Rightarrow> string) \<Rightarrow> string \<times> string \<Rightarrow> json" where
  "attribute_json enc a =
     JObject [(''key'', JString (enc (fst a))), (''value'', JString (enc (snd a)))]"

definition wasm_event_json :: "(string \<Rightarrow> string) \<Rightarrow> string \<Rightarrow> (string \<times> string) list \<Rightarrow> json" where
  "wasm_event_json enc contract attrs =
     JObject [(''type'', JString ''wasm''),
       (''attributes'', JArray (map (attribute_json enc) ((''_contract_address'', contract) # attrs)))]"

lemma parse_attributes_json:
  assumes "\<forall>a\<in>set attrs. decode_tendermint_attr L (enc (fst a)) = fst a \<and>
      decode_tendermint_attr L (enc (snd a)) = snd a"
  shows "parse_event_attributes L (map (attribute_json enc) attrs) =
     map (\<lambda>(k, v). \<lparr>key = k, attr_value = v\<rparr>) attrs"
  using assms
  by (induction attrs)
    (auto simp: parse_event_attributes_def List.map_filter_simps parse_event_attribute_def
      attribute_json_def get_str_or_empty_def)

lemma split_groups_single:
  assumes "\<forall>k\<in>fst ` set attrs. k \<noteq> ''_contract_address''"
  shows "split_groups (map (\<lambda>(k, v). \<lparr>key = k, attr_value = v\<rparr>) attrs) (Some g) = [g @ attrs]"
  using assms by (induction attrs arbitrary: g) (auto simp: finish_group_def)

lemma group_of_wasm_event:
  assumes dec: "\<forall>a\<in>set ((''_contract_address'', c) # attrs).
      decode_tendermint_attr L (enc (fst a)) = fst a \<and> decode_tendermint_attr L (enc (snd a)) = snd a"
    and keys: "\<forall>k\<in>fst ` set attrs. k \<noteq> ''_contract_address''"
    and ev: "json_get ''events'' txr = Some (JArray evs)" "wasm_event_json enc c attrs \<in> set evs"
  shows "(''_contract_address'', c) # attrs \<in> set (wasm_attr_groups (parse_tx_events L txr))"
proof -
  let ?as = "(''_contract_address'', c) # attrs"
  define e where "e = \<lparr>ty = ''wasm'', ev_attributes = map (\<lambda>(k, v). \<lparr>key = k, attr_value = v\<rparr>) ?as\<rparr>"
  have "parse_event_attributes L (map (attribute_json enc) ?as) = ev_attributes e"
    unfolding e_def by (simp only: parse_attributes_json[OF dec] tx_event.select_convs)
  then have "parse_event L (wasm_event_json enc c attrs) = Some e"
    by (simp add: parse_event_def wasm_event_json_def e_def)
  then have "e \<in> set (parse_events_array L evs)"
    using ev(2) unfolding parse_events_array_def List.map_filter_def by force
  then have "e \<in> set (parse_tx_events L txr)"
    using ev(1) by (auto simp: parse_tx_events_def events_of_def Let_def)
  moreover have "split_groups (ev_attributes e) None = [?as]"
    using split_groups_single[OF keys] by (simp add: e_def finish_group_def)
  moreover have "eq_ignore_ascii_case (ty e) ''wasm''" by (simp add: e_def)
  ultimately show ?thesis unfolding wasm_attr_groups_def by force
qed

text \<open>The event of a successful update of the oracle contract proves that update.\<close>

lemma update_attributes:
  assumes "execute_update_rate e info rate s = Ok (s', r)"
  shows "attributes r = [(''action'', ''update_rate''), (''rate'', show_nat (unat rate))]"
  using assms by (auto simp: execute_update_rate_def chain_simps Let_def split: prod.splits if_splits)

lemma update_event_matches:
  assumes up: "execute_update_rate e info rate s = Ok (s', r)"
    and dec: "\<And>x. x \<in> {contract, show_nat (unat rate), ''_contract_address'', ''action'', ''update_rate'', ''rate''}
       \<Longrightarrow> decode_tendermint_attr L (enc x) = x"
    and ev: "json_get ''events'' txr = Some (JArray evs)"
      "wasm_event_json enc contract (attributes r) \<in> set evs"
  shows "oracle_tx_events_match_update contract rate (parse_tx_events L txr) = Ok Matched"
proof -
  let ?g = "[(''_contract_address'', contract), (''action'', ''update_rate''), (''rate'', show_nat (unat rate))]"
  have "?g \<in> set (wasm_attr_groups (parse_tx_events L txr))"
    using group_of_wasm_event[OF _ _ ev(1), of contract "attributes r" L enc] ev(2) dec
    unfolding update_attributes[OF up] by auto
  moreover have "values_of ''rate'' ?g = [show_nat (unat rate)]" by (simp add: values_of_def)
  then have "judge_group contract rate ?g = RateMatches"
    by (intro judge_matchesI) (simp_all add: proves_update_def trim_show_nat parse_uint_show_nat)
  ultimately show ?thesis by (auto simp: match_iff)
qed

end
