(* ===== verification/Service_Wait.thy ===== *)
theory Service_Wait
  imports Service_Confirm
begin

text \<open>
  What the wait for inclusion guarantees: success only on an included transaction with the
  awaited hash and code 0, and an end for every clock that advances.
\<close>

section \<open>Success\<close>

lemma confirm_verdict_Ok_iff:
  "confirm_verdict h r = Some (Ok s) \<longleftrightarrow>
     r = Ok (Some s) \<and> eq_ignore_ascii_case (txhash s) h \<and> code s = 0"
  by (auto simp: confirm_verdict_def split: sum.splits fault.splits option.splits)

lemma confirm_loop_result:
  assumes "confirm_loop L io sg h confirm deadline attempt w = Some y"
  shows "\<forall>s w'. y = (Done (Ok s), w') \<longrightarrow>
     (\<exists>w1. query_tx_by_hash L io sg h w1 = Some (Done (Ok (Some s)), w') \<and>
        eq_ignore_ascii_case (txhash s) h \<and> code s = 0)"
proof (rule confirm_loop.raw_induct[where
      P = "\<lambda>L io sg h confirm deadline attempt w y. \<forall>s w'. y = (Done (Ok s), w') \<longrightarrow>
        (\<exists>w1. query_tx_by_hash L io sg h w1 = Some (Done (Ok (Some s)), w') \<and>
           eq_ignore_ascii_case (txhash s) h \<and> code s = 0)", OF _ assms], goal_cases)
  case (1 loop L io sg h confirm deadline attempt w y)
  note IH = 1(1) and eq = 1(2)
  show ?case
  proof (intro allI impI)
    fix s w' assume y: "y = (Done (Ok s), w')"
    show "\<exists>w1. query_tx_by_hash L io sg h w1 = Some (Done (Ok (Some s)), w') \<and>
       eq_ignore_ascii_case (txhash s) h \<and> code s = 0"
    proof (cases "query_tx_by_hash L io sg h w")
      case (Some a)
      obtain o1 w1 where q: "query_tx_by_hash L io sg h w = Some (o1, w1)" using Some by (cases a) auto
      show ?thesis
      proof (cases o1)
        case (Done r)
        show ?thesis
        proof (cases "confirm_verdict h r")
          case None
          with eq y q Done show ?thesis
            by (auto simp: Let_def split: prod.splits if_splits dest!: IH)
        next
          case (Some v)
          with eq y q Done have "v = Ok s" "w1 = w'" by (simp_all add: Let_def)
          with q Done Some show ?thesis by (auto simp: confirm_verdict_Ok_iff)
        qed
      qed (use eq y q in \<open>simp add: Let_def\<close>)
    qed (use eq y in \<open>simp add: Let_def\<close>)
  qed
qed

lemma wait_Ok:
  assumes "wait_for_deliver_tx_success L io sg h confirm w = Some (Done (Ok s), w')"
  shows "h \<noteq> [] \<and> eq_ignore_ascii_case (txhash s) h \<and> code s = 0 \<and>
    (\<exists>w1. query_tx_by_hash L io sg h w1 = Some (Done (Ok (Some s)), w'))"
  using assms unfolding wait_for_deliver_tx_success_def
  by (auto simp: Let_def split: if_splits prod.splits dest!: confirm_loop_result)

section \<open>The wait ends\<close>

text \<open>
  A world whose requests come back and whose clock \<open>T\<close> runs: reading it does not turn it
  back, and a sleep that ends lasted as long as asked. The HTTP client of the service has a
  timeout of its own, so a request does come back.
\<close>

definition time_advances :: "'w service_io \<Rightarrow> ('w \<Rightarrow> nat) \<Rightarrow> bool" where
  "time_advances io T \<longleftrightarrow>
     (\<forall>u w. \<exists>r w'. http_get io u w = Some (r, w') \<and> T w \<le> T w') \<and>
     (\<forall>u b w. \<exists>r w'. http_post io u b w = Some (r, w') \<and> T w \<le> T w') \<and>
     (\<forall>w. T w \<le> fst (clock io w) \<and> T w \<le> T (snd (clock io w))) \<and>
     (\<forall>d w. T w \<le> T (snd (sleep_for io d w)) \<and>
        (fst (sleep_for io d w) \<longrightarrow> T w + d \<le> T (snd (sleep_for io d w))))"

text \<open>A future that returns and does not turn the clock back.\<close>

definition returns :: "('w \<Rightarrow> nat) \<Rightarrow> ('a, 'e, 'w) io \<Rightarrow> bool" where
  "returns T m \<longleftrightarrow> (\<forall>w. \<exists>r w'. m w = Some (r, w') \<and> T w \<le> T w')"

lemma returnsE:
  assumes "returns T m" obtains r w' where "m w = Some (r, w')" "T w \<le> T w'"
  using assms unfolding returns_def by meson

lemma returns_return [intro, simp]: "returns T (io_return r)"
  by (simp add: returns_def io_return_def)

lemma returns_await [intro]:
  assumes "returns T m" and "\<And>r. returns T (k r)"
  shows "returns T (io_await m k)"
  unfolding returns_def
proof
  fix w
  from assms(1) obtain r w1 where m: "m w = Some (r, w1)" "T w \<le> T w1" by (rule returnsE)
  have k: "\<exists>r' w'. k x w1 = Some (r', w') \<and> T w \<le> T w'" for x
    using assms(2)[of x] m(2) unfolding returns_def by (meson order_trans)
  show "\<exists>r w'. io_await m k w = Some (r, w') \<and> T w \<le> T w'"
    using m k by (auto simp: io_await_def split: outcome.splits sum.splits fault.splits)
qed

lemma returns_then [intro]:
  assumes "returns T m" and "\<And>x. returns T (k x)"
  shows "returns T (io_then m k)"
  unfolding io_then_def using assms by (intro returns_await) (auto split: sum.splits)

lemma returns_map_err [intro]: "returns T m \<Longrightarrow> returns T (io_map_err f m)"
  unfolding io_map_err_def by (intro returns_await returns_return)

lemma returns_http:
  assumes "time_advances io T"
  shows "returns T (http_get io u)" "returns T (http_post io u b)"
  using assms by (simp_all add: time_advances_def returns_def)

lemma returns_query_tx: "time_advances io T \<Longrightarrow> returns T (query_tx_by_hash L io sg h)"
  unfolding query_tx_by_hash_def Let_def
  by (intro returns_then returns_map_err returns_http returns_return)

lemma confirm_pause_ge: "1000000 \<le> confirm_pause confirm attempt remaining"
  by (simp add: confirm_pause_def Let_def)

lemma confirm_loop_returns:
  assumes adv: "time_advances io T"
  shows "\<exists>r w'. confirm_loop L io sg h confirm deadline attempt w = Some (r, w') \<and> T w \<le> T w'"
proof (induction "deadline - T w" arbitrary: w attempt rule: less_induct)
  case less
  obtain o1 w1 where q: "query_tx_by_hash L io sg h w = Some (o1, w1)" "T w \<le> T w1"
    using returns_query_tx[OF adv, of L sg h] by (rule returnsE)
  obtain t2 w2 where c2: "clock io w1 = (t2, w2)" by fastforce
  obtain t3 w3 where c3: "clock io w2 = (t3, w3)" by fastforce
  let ?d = "confirm_pause confirm (saturating_add attempt 1) (deadline - t3)"
  obtain b w4 where s: "sleep_for io ?d w3 = (b, w4)" by fastforce
  from adv c2 c3 have t: "T w1 \<le> t2" "T w1 \<le> T w2" "T w2 \<le> T w3"
    unfolding time_advances_def by (metis fst_conv snd_conv)+
  from adv s have t4: "T w3 \<le> T w4" "b \<Longrightarrow> T w3 + ?d \<le> T w4"
    unfolding time_advances_def by (metis fst_conv snd_conv)+
  have unfold: "confirm_loop L io sg h confirm deadline attempt w =
     (case o1 of Dropped \<Rightarrow> Some (Dropped, w1)
      | Done r \<Rightarrow> (case confirm_verdict h r of
          Some v \<Rightarrow> Some (Done v, w1)
        | None \<Rightarrow> if deadline \<le> t2 then Some (Done (Err (confirm_timeout_error confirm h)), w2)
            else if b then confirm_loop L io sg h confirm deadline (saturating_add attempt 1) w4
            else Some (Dropped, w4)))"
    by (subst confirm_loop.simps) (simp add: Let_def q c2 c3 s split: outcome.split option.split)
  have rest: "\<exists>r w'. confirm_loop L io sg h confirm deadline (saturating_add attempt 1) w4 = Some (r, w') \<and>
      T w \<le> T w'" if "b" "\<not> deadline \<le> t2"
  proof -
    have "T w < T w4" using q t t4(2)[OF that(1)] confirm_pause_ge[of confirm "saturating_add attempt 1" "deadline - t3"]
      by linarith
    moreover have "T w < deadline" using q t that(2) by linarith
    ultimately have "deadline - T w4 < deadline - T w" "T w \<le> T w4" by linarith+
    with less[of w4 "saturating_add attempt 1"] show ?thesis by (meson order_trans)
  qed
  show ?case
    unfolding unfold using rest q t t4 by (auto split: outcome.split option.split)
qed

lemma wait_returns:
  "time_advances io T \<Longrightarrow> returns T (wait_for_deliver_tx_success L io sg h confirm)"
  unfolding returns_def
proof
  fix w assume adv: "time_advances io T"
  obtain t w1 where c: "clock io w = (t, w1)" by fastforce
  with adv have "T w \<le> T w1" unfolding time_advances_def by (metis snd_conv)
  with confirm_loop_returns[OF adv, of L sg h confirm "t + timeout confirm" 0 w1]
  show "\<exists>r w'. wait_for_deliver_tx_success L io sg h confirm w = Some (r, w') \<and> T w \<le> T w'"
    unfolding wait_for_deliver_tx_success_def by (auto simp: c Let_def intro: order_trans)
qed

lemma returns_broadcast:
  assumes "time_advances io T"
  shows "returns T (sign_and_broadcast_execute L W io to_vec sg contract msg)"
proof -
  have "returns T (get_account_info L io sg)" "returns T (query_network_min_gas_price L io sg)"
    unfolding get_account_info_def query_network_min_gas_price_def
    using returns_http[OF assms] by (auto intro!: returns_then)
  then have "returns T (sign_and_broadcast_execute_inner L W io to_vec sg contract msg)"
    unfolding sign_and_broadcast_execute_inner_def resolve_gas_price_def Let_def
    using returns_http[OF assms]
    by (intro returns_then returns_await returns_map_err) (auto split: sum.splits)
  then show ?thesis
    unfolding sign_and_broadcast_execute_def
    by (intro returns_await) (auto split: sum.splits fault.splits)
qed

lemma returns_smart:
  "time_advances io T \<Longrightarrow> returns T (query_wasm_smart L io to_vec de sg contract msg)"
  unfolding query_wasm_smart_def using returns_http[of io T] by (auto intro!: returns_then)

end
