(* ===== verification/Service_Loop.thy ===== *)
theory Service_Loop
  imports Service_Wait
begin

text \<open>
  The oracle service itself (\<open>oracle-service/src/main.rs\<close>, \<open>liveness.rs\<close>, \<open>healthz.rs\<close>):
  the decision of a tick, the tick, the start-up, and the operator loop as a step relation.
  Log lines are not modelled, except the liveness alert and the outcome of a tick.
\<close>

section \<open>Liveness (liveness.rs)\<close>

text \<open>Instants and durations are nanoseconds; \<open>elapsed\<close> saturates.\<close>

record liveness_tracker =
  started :: nat
  last_successful_broadcast :: "nat option"

definition liveness_new :: "nat \<Rightarrow> liveness_tracker" where
  "liveness_new now = \<lparr>started = now, last_successful_broadcast = None\<rparr>"

definition record_successful_broadcast :: "nat \<Rightarrow> liveness_tracker \<Rightarrow> liveness_tracker" where
  "record_successful_broadcast now t = t\<lparr>last_successful_broadcast := Some now\<rparr>"

definition silence_since_last_broadcast :: "nat \<Rightarrow> liveness_tracker \<Rightarrow> nat" where
  "silence_since_last_broadcast now t =
     (case last_successful_broadcast t of Some i \<Rightarrow> now - i | None \<Rightarrow> now - started t)"

definition should_alert :: "nat \<Rightarrow> nat \<Rightarrow> liveness_tracker \<Rightarrow> bool" where
  "should_alert now max_silence t \<longleftrightarrow> max_silence < silence_since_last_broadcast now t"

text \<open>A mutex that a panicking holder poisoned still gives its value.\<close>

record 'a mutex =
  poisoned :: bool
  guarded :: 'a

definition mutex_lock :: "'a mutex \<Rightarrow> 'a + 'a" where
  "mutex_lock m = (if poisoned m then Inl (guarded m) else Inr (guarded m))"

definition lock_liveness :: "liveness_tracker mutex \<Rightarrow> liveness_tracker" where
  "lock_liveness m = (case mutex_lock m of Inr guard \<Rightarrow> guard | Inl inner \<Rightarrow> inner)"

section \<open>Health probe (healthz.rs)\<close>

definition healthz :: u16 where
  "healthz = 200"

text \<open>The one route: method, path and handler.\<close>

definition healthz_router :: "(string \<times> string \<times> u16) list" where
  "healthz_router = [(''GET'', ''/healthz'', healthz)]"

record 'l tcp_lib =
  tcp_bind :: "string \<Rightarrow> ('l, string) result"
  local_addr :: "'l \<Rightarrow> (string, string) result"

definition spawn_healthz_server :: "'l tcp_lib \<Rightarrow> string \<Rightarrow> ('l, string) result" where
  "spawn_healthz_server tcp bind_to =
     and_then (map_err (\<lambda>e. ''HEALTHZ_BIND '' @ bind_to @ '': '' @ e) (tcp_bind tcp bind_to)) (\<lambda>listener.
     and_then (map_err (\<lambda>e. ''healthz local_addr: '' @ e) (local_addr tcp listener)) (\<lambda>_.
     Ok listener))"

section \<open>The decision of a tick (main.rs)\<close>

datatype tick_action =
    SkipPaused
  | SkipEqualRate
  | SkipPolicy oracle_policy_error
  | Submit u64 u128 bool

definition decide_tick_action :: "u128 \<Rightarrow> state_response \<Rightarrow> u64 \<Rightarrow> (tick_action, 'e) result" where
  "decide_tick_action proposed state now =
     (if sr_paused state then Ok SkipPaused
      else (case check_rate_update now (sr_last_update_sec state) (sr_rate state) proposed
                   (sr_utc_day_id state) (sr_day_baseline_rate state) of
          Inr (day_id, baseline) \<Rightarrow> Ok (Submit day_id baseline (proposed = sr_rate state))
        | Inl (Fail e) \<Rightarrow>
            if proposed = sr_rate state \<and> (case e of oracle_policy_error.UpdateTooSoon _ \<Rightarrow> True | _ \<Rightarrow> False)
            then Ok SkipEqualRate
            else Ok (SkipPolicy e)
        | Inl Panic \<Rightarrow> Panicked))"

section \<open>The service\<close>

text \<open>
  The answers of the BSC providers in one tick, by the number of the call; whether the second
  call looked at the cache of chain ids before the first had filled it (the two run at the
  same time); and whether the tick was dropped after so many calls.
\<close>

record 'a bsc_answers =
  ba_client :: "nat \<Rightarrow> 'a bsc_client"
  ba_overlap :: bool
  ba_dropped :: "nat option"

record ('a, 'u, 'k, 'w) service =
  sv_lcd :: "'u lcd_lib"
  sv_wallet :: "'k wallet_lib"
  sv_io :: "'w service_io"
  sv_bsc :: "'w \<Rightarrow> 'a bsc_answers \<times> 'w"
  sv_query_to_vec :: "oracle_query_msg \<Rightarrow> (string, string) result"
  sv_execute_to_vec :: "oracle_execute_msg \<Rightarrow> (string, string) result"
  sv_state_de :: "state_response deserializer"

record service_state =
  ss_chain_ids :: chain_id_cache
  ss_liveness :: "liveness_tracker mutex"

datatype tick_error = RateError "bsc_error consensus_error" | LcdError string

section \<open>The rate of a tick\<close>

text \<open>The results and caches of the reads of one tick; see \<open>run_with_evm_rpc_rate_consensus\<close>.\<close>

definition bsc_read ::
  "service_config \<Rightarrow> 'a bsc_client \<Rightarrow> string \<Rightarrow> chain_id_cache \<Rightarrow> (u128, bsc_error) result \<times> chain_id_cache"
  where
  "bsc_read cfg cl url cache =
     read_exchange_rate_stored cl url (sc_venus_vtoken_address cfg) (sc_bsc_confirmation_blocks cfg)
       (sc_allowed_bsc_chain_ids cfg) (sc_bsc_rpc_timeout_secs cfg) cache"

definition first_reads ::
  "service_config \<Rightarrow> 'a bsc_answers \<Rightarrow> chain_id_cache \<Rightarrow>
   ((u128, bsc_error) result \<times> chain_id_cache) \<times> ((u128, bsc_error) result \<times> chain_id_cache)" where
  "first_reads cfg ans cache =
     (let first = bsc_read cfg (ba_client ans 0) (sc_bsc_rpc_urls cfg ! 0) cache;
          second = bsc_read cfg (ba_client ans 1) (sc_bsc_rpc_urls cfg ! 1)
                     (if ba_overlap ans then cache else snd first)
      in (first, second))"

definition read_of_call ::
  "service_config \<Rightarrow> 'a bsc_answers \<Rightarrow> chain_id_cache \<Rightarrow> nat \<Rightarrow> (u128, bsc_error) result \<times> chain_id_cache"
  where
  "read_of_call cfg ans cache k =
     (let (first, second) = first_reads cfg ans cache;
          joined = snd first ++ snd second
      in if k = 0 then first
         else if k = 1 then (fst second, joined)
         else bsc_read cfg (ba_client ans k) (sc_bsc_rpc_urls cfg ! k) joined)"

text \<open>The third provider is asked unless the first two agree.\<close>

definition third_read_needed :: "string list \<Rightarrow> (nat \<Rightarrow> string \<Rightarrow> (u128, 'e) result) \<Rightarrow> bool" where
  "third_read_needed urls read \<longleftrightarrow> 3 \<le> length urls \<and>
     (case (read 0 (urls ! 0), read 1 (urls ! 1)) of
        (Inr a, Inr b) \<Rightarrow> \<not> rates_agree_within_point_zero_one_percent a b
      | _ \<Rightarrow> True)"

definition cache_after_calls ::
  "service_config \<Rightarrow> 'a bsc_answers \<Rightarrow> chain_id_cache \<Rightarrow> nat \<Rightarrow> chain_id_cache" where
  "cache_after_calls cfg ans cache n =
     (if n = 0 \<or> length (sc_bsc_rpc_urls cfg) < 2 then cache
      else if n = 1 then snd (read_of_call cfg ans cache 0)
      else if n = 2 \<or> \<not> third_read_needed (sc_bsc_rpc_urls cfg)
                        (\<lambda>k url. fst (read_of_call cfg ans cache k))
        then snd (read_of_call cfg ans cache 1)
      else snd (read_of_call cfg ans cache 2))"

definition proposed_rate ::
  "('a, 'u, 'k, 'w) service \<Rightarrow> service_config \<Rightarrow>
   (u128, bsc_error consensus_error, service_state \<times> 'w) io" where
  "proposed_rate sv cfg x =
     (let (s, w) = x;
          (ans, w) = sv_bsc sv w;
          cache = ss_chain_ids s
      in (case ba_dropped ans of
            Some n \<Rightarrow>
              Some (Dropped, (s\<lparr>ss_chain_ids := cache_after_calls cfg ans cache n\<rparr>, w))
          | None \<Rightarrow>
              Some (Done (run_with_evm_rpc_rate_consensus (sc_bsc_rpc_urls cfg)
                            (\<lambda>k url. fst (read_of_call cfg ans cache k))),
                    (s\<lparr>ss_chain_ids := cache_after_calls cfg ans cache 3\<rparr>, w))))"

section \<open>Submitting an update\<close>

definition query_state ::
  "('a, 'u, 'k, 'w) service \<Rightarrow> service_config \<Rightarrow> 'k terra_signer \<Rightarrow> (state_response, string, 'w) io" where
  "query_state sv cfg sg =
     query_wasm_smart (sv_lcd sv) (sv_io sv) (sv_query_to_vec sv) (sv_state_de sv) sg
       (sc_oracle_contract cfg) State"

definition io_sleep :: "'w service_io \<Rightarrow> nat \<Rightarrow> (unit, 'e, 'w) io" where
  "io_sleep io d w =
     (let (ended, w) = sleep_for io d w in Some ((if ended then Done (Ok ()) else Dropped), w))"

text \<open>After an update that the events prove, the state is looked at for the log only.\<close>

definition observe_state_after_event_ok ::
  "('a, 'u, 'k, 'w) service \<Rightarrow> service_config \<Rightarrow> 'k terra_signer \<Rightarrow> (unit, string, 'w) io" where
  "observe_state_after_event_ok sv cfg sg =
     io_await (query_state sv cfg sg) (\<lambda>_. io_return (Ok ()))"

text \<open>The loop of \<open>confirm_state_with_retry\<close>; \<open>n\<close> counts the attempts that are left.\<close>

fun confirm_state_attempts ::
  "('a, 'u, 'k, 'w) service \<Rightarrow> service_config \<Rightarrow> 'k terra_signer \<Rightarrow> state_response \<Rightarrow> u128 \<Rightarrow>
   nat \<Rightarrow> string option \<Rightarrow> (unit, string, 'w) io" where
  "confirm_state_attempts sv cfg sg prior proposed 0 last_err =
     io_return (Err (case last_err of
       Some e \<Rightarrow> e | None \<Rightarrow> ''oracle State fallback exhausted retries''))"
| "confirm_state_attempts sv cfg sg prior proposed (Suc n) last_err =
     io_await (query_state sv cfg sg) (\<lambda>r.
     case and_then r (\<lambda>state.
            oracle_state_matches_intended_update (sr_last_update_sec prior) state proposed) of
       Inr _ \<Rightarrow> io_return (Ok ())
     | Inl Panic \<Rightarrow> io_return Panicked
     | Inl (Fail e) \<Rightarrow>
         if 0 < n then
           io_then (io_sleep (sv_io sv) (duration_from_millis STATE_CONFIRM_RETRY_INTERVAL_MS)) (\<lambda>_.
           confirm_state_attempts sv cfg sg prior proposed n (Some e))
         else confirm_state_attempts sv cfg sg prior proposed n (Some e))"

definition confirm_state_with_retry ::
  "('a, 'u, 'k, 'w) service \<Rightarrow> service_config \<Rightarrow> 'k terra_signer \<Rightarrow> state_response \<Rightarrow> u128 \<Rightarrow>
   (unit, string, 'w) io" where
  "confirm_state_with_retry sv cfg sg prior proposed =
     confirm_state_attempts sv cfg sg prior proposed STATE_CONFIRM_RETRY_ATTEMPTS None"

definition submit_and_confirm_oracle_update ::
  "('a, 'u, 'k, 'w) service \<Rightarrow> service_config \<Rightarrow> 'k terra_signer \<Rightarrow> u128 \<Rightarrow> state_response \<Rightarrow>
   (string, string, 'w) io" where
  "submit_and_confirm_oracle_update sv cfg sg proposed prior =
     io_then (sign_and_broadcast_execute (sv_lcd sv) (sv_wallet sv) (sv_io sv) (sv_execute_to_vec sv) sg
                (sc_oracle_contract cfg) (UpdateRate proposed)) (\<lambda>txh.
     let confirm = from_secs_and_ms (sc_tx_confirm_timeout_secs cfg) (sc_tx_confirm_poll_interval_ms cfg) in
     io_then (wait_for_deliver_tx_success (sv_lcd sv) (sv_io sv) sg txh confirm) (\<lambda>summary.
     io_then (io_return (oracle_tx_events_match_update (sc_oracle_contract cfg) proposed (events summary)))
       (\<lambda>m. case m of
          Matched \<Rightarrow>
            io_then (observe_state_after_event_ok sv cfg sg) (\<lambda>_. io_return (Ok txh))
        | EventsAbsent \<Rightarrow>
            io_then (confirm_state_with_retry sv cfg sg prior proposed) (\<lambda>_. io_return (Ok txh)))))"

section \<open>A tick\<close>

definition now_unix :: "'w service_io \<Rightarrow> 'w \<Rightarrow> u64 \<times> 'w" where
  "now_unix io w = (case unix_time io w of (t, w) \<Rightarrow> (case t of None \<Rightarrow> 0 | Some s \<Rightarrow> s, w))"

text \<open>A future over the world alone, inside the service.\<close>

definition io_lift :: "('a, 'e, 'w) io \<Rightarrow> ('a, 'e, 's \<times> 'w) io" where
  "io_lift m x = (case m (snd x) of None \<Rightarrow> None | Some (r, w) \<Rightarrow> Some (r, (fst x, w)))"

definition record_liveness :: "'w service_io \<Rightarrow> (unit, 'e, service_state \<times> 'w) io" where
  "record_liveness io x =
     (let (s, w) = x;
          (now, w) = clock io w;
          tracker = record_successful_broadcast now (lock_liveness (ss_liveness s))
      in Some (Done (Ok ()), (s\<lparr>ss_liveness := (ss_liveness s)\<lparr>guarded := tracker\<rparr>\<rparr>, w)))"

definition run_once ::
  "('a, 'u, 'k, 'w) service \<Rightarrow> service_config \<Rightarrow> 'k terra_signer \<Rightarrow>
   (unit, tick_error, service_state \<times> 'w) io" where
  "run_once sv cfg sg =
     io_then (io_map_err RateError (proposed_rate sv cfg)) (\<lambda>proposed.
     io_then (io_map_err LcdError (io_lift (query_state sv cfg sg))) (\<lambda>state (s, w).
     let (now, w) = now_unix (sv_io sv) w in
     (case decide_tick_action proposed state now of
        Inr (Submit day_id baseline heartbeat) \<Rightarrow>
          io_then (io_map_err LcdError (io_lift (submit_and_confirm_oracle_update sv cfg sg proposed state)))
            (\<lambda>txh. record_liveness (sv_io sv)) (s, w)
      | Inr _ \<Rightarrow> io_return (Ok ()) (s, w)
      | Inl e \<Rightarrow> io_return (Inl e) (s, w))))"

section \<open>Start-up and the operator loop\<close>

datatype main_error =
    ConfigError config_error
  | BscError bsc_error
  | SignerError string
  | HealthzError string

record 'k started_service =
  st_config :: service_config
  st_warnings :: "timing_warning list"
  st_chain_ids :: chain_id_cache
  st_signer :: "'k terra_signer"

text \<open>\<open>main\<close> up to the operator loop; \<open>client\<close> answers the chain id checks.\<close>

definition start_service ::
  "('a, 'u) config_deps \<Rightarrow> 'a bsc_client \<Rightarrow> 'k wallet_lib \<Rightarrow> 'l tcp_lib \<Rightarrow>
   ('k started_service, main_error) result" where
  "start_service d client W tcp =
     and_then (map_err ConfigError (config_from_env d)) (\<lambda>cfg.
     let warnings = ops_timing_warnings (sc_poll_interval_secs cfg)
                      (sc_max_silence_since_broadcast_secs cfg);
         (verified, cache) = verify_all_bsc_rpc_urls client (sc_bsc_rpc_urls cfg)
                      (sc_allowed_bsc_chain_ids cfg) (sc_bsc_rpc_timeout_secs cfg) Map.empty
     in and_then (map_err BscError verified) (\<lambda>_.
        and_then (map_err SignerError (terra_signer_new W
          \<lparr>tsc_lcd_url = sc_terra_lcd_url cfg, tsc_chain_id = sc_terra_chain_id cfg,
           tsc_mnemonic = sc_terra_mnemonic cfg, tsc_gas_limit = None,
           tsc_gas_price = sc_terra_gas_price cfg\<rparr>)) (\<lambda>signer.
        and_then (if sc_healthz_bind cfg \<noteq> []
                  then and_then (map_err HealthzError (spawn_healthz_server tcp (sc_healthz_bind cfg))) (\<lambda>_. Ok ())
                  else Ok ()) (\<lambda>_.
        Ok \<lparr>st_config = cfg, st_warnings = warnings, st_chain_ids = cache, st_signer = signer\<rparr>))))"

datatype operator_event =
    LivenessAlert nat nat
  | TickFailed tick_error
  | TickTimedOut u64

record 'w operator_state =
  op_service :: service_state
  op_world :: 'w
  op_log :: "operator_event list"
  op_running :: bool

definition initial_service_state :: "chain_id_cache \<Rightarrow> nat \<Rightarrow> service_state" where
  "initial_service_state cache now =
     \<lparr>ss_chain_ids = cache, ss_liveness = \<lparr>poisoned = False, guarded = liveness_new now\<rparr>\<rparr>"

text \<open>The alert before a tick.\<close>

definition liveness_check ::
  "'w service_io \<Rightarrow> service_config \<Rightarrow> service_state \<Rightarrow> 'w \<Rightarrow> operator_event list \<times> 'w" where
  "liveness_check io cfg s w =
     (let max_silence = duration_from_secs (sc_max_silence_since_broadcast_secs cfg);
          tracker = lock_liveness (ss_liveness s);
          (now, w) = clock io w
      in if should_alert now max_silence tracker then
           (let (now, w) = clock io w in
            ([LivenessAlert (silence_since_last_broadcast now tracker div 1000000000)
                (unat (sc_max_silence_since_broadcast_secs cfg))], w))
         else ([], w))"

definition tick_log :: "service_config \<Rightarrow> (unit, tick_error) outcome \<Rightarrow> operator_event list" where
  "tick_log cfg r = (case r of
       Done (Inr _) \<Rightarrow> []
     | Done (Inl (Fail e)) \<Rightarrow> [TickFailed e]
     | Done (Inl Panic) \<Rightarrow> []
     | Dropped \<Rightarrow> [TickTimedOut (sc_tick_timeout_secs cfg)])"

text \<open>
  One turn of the loop. A tick that is dropped timed out, and the loop goes on; the shutdown
  signal ends the loop at any point: before the body, in a tick (which is dropped), or in
  the sleep after it. An abort ends the process.
\<close>

inductive operator_step ::
  "('a, 'u, 'k, 'w) service \<Rightarrow> service_config \<Rightarrow> 'k terra_signer \<Rightarrow>
   'w operator_state \<Rightarrow> 'w operator_state \<Rightarrow> bool"
  for sv cfg sg where
  tick:
    "\<lbrakk>op_running x;
      liveness_check (sv_io sv) cfg (op_service x) (op_world x) = (alert, w1);
      run_once sv cfg sg (op_service x, w1) = Some (r, (s2, w2)); r \<noteq> Done Panicked;
      sleep_for (sv_io sv) (duration_from_secs (sc_poll_interval_secs cfg)) w2 = (ended, w3)\<rbrakk> \<Longrightarrow>
     operator_step sv cfg sg x
       \<lparr>op_service = s2, op_world = w3, op_log = op_log x @ alert @ tick_log cfg r, op_running = ended\<rparr>"
| shutdown:
    "op_running x \<Longrightarrow> operator_step sv cfg sg x (x\<lparr>op_running := False\<rparr>)"
| shutdown_in_tick:
    "\<lbrakk>op_running x;
      liveness_check (sv_io sv) cfg (op_service x) (op_world x) = (alert, w1);
      run_once sv cfg sg (op_service x, w1) = Some (Dropped, (s2, w2))\<rbrakk> \<Longrightarrow>
     operator_step sv cfg sg x
       \<lparr>op_service = s2, op_world = w2, op_log = op_log x @ alert, op_running = False\<rparr>"
| abort:
    "\<lbrakk>op_running x;
      liveness_check (sv_io sv) cfg (op_service x) (op_world x) = (alert, w1);
      run_once sv cfg sg (op_service x, w1) = Some (Done Panicked, (s2, w2))\<rbrakk> \<Longrightarrow>
     operator_step sv cfg sg x
       \<lparr>op_service = s2, op_world = w2, op_log = op_log x @ alert, op_running = False\<rparr>"

inductive_cases operator_stepE: "operator_step sv cfg sg x y"

end
