(* ===== verification/Service_Loop_Safety.thy ===== *)
theory Service_Loop_Safety
  imports Service_Loop Oracle_Safety
begin

text \<open>
  What the ticks of the oracle service guarantee: a tick submits exactly the updates the
  contract accepts, it always ends, and the liveness record moves only after an update was
  proven on chain.
\<close>

section \<open>The decision agrees with the contract\<close>

lemma decide_Submit_iff:
  "decide_tick_action proposed state now = Ok (Submit d b hb) \<longleftrightarrow>
     \<not> sr_paused state \<and> hb = (proposed = sr_rate state) \<and>
     check_rate_update now (sr_last_update_sec state) (sr_rate state) proposed
       (sr_utc_day_id state) (sr_day_baseline_rate state) = Ok (d, b)"
  unfolding decide_tick_action_def by (auto split: sum.splits fault.splits prod.splits)

lemma decide_no_panic [simp]: "decide_tick_action proposed state now \<noteq> Panicked"
proof -
  have "check_rate_update now (sr_last_update_sec state) (sr_rate state) proposed
       (sr_utc_day_id state) (sr_day_baseline_rate state) \<noteq> Panicked" by simp
  then show ?thesis
    unfolding decide_tick_action_def by (auto split: sum.splits fault.splits prod.splits)
qed

lemma submit_iff_contract:
  assumes "oracle_query_state s = Ok state" and "o_config s = Some cfg"
    and "sender info = oc_oracle_operator cfg"
  shows "(\<exists>d b hb. decide_tick_action proposed state (block_seconds e) = Ok (Submit d b hb)) \<longleftrightarrow>
    (\<exists>s' r. execute_update_rate e info proposed s = Ok (s', r))"
proof -
  from assms(1,2) obtain st where st: "o_oracle_state s = Some st"
    and state: "state = \<lparr>sr_rate = os_rate st, sr_last_update_sec = os_last_update_sec st,
       sr_utc_day_id = os_utc_day_id st, sr_day_baseline_rate = os_day_baseline_rate st,
       sr_paused = oc_paused cfg\<rparr>"
    by (auto simp: oracle_query_state_Ok_iff)
  have resp: "\<exists>r :: unit response. messages r = [] \<and> attributes r = as" for as
    by (rule exI[of _ "\<lparr>messages = [], attributes = as\<rparr>"]) simp
  show ?thesis
    unfolding decide_Submit_iff execute_update_rate_Ok_iff state
    using assms(2,3) st resp by (simp add: state_response.simps)
qed

text \<open>While the storage stays as it is, waiting does not make an acceptable rate unacceptable.\<close>

lemma check_rate_update_later:
  assumes ok: "oracle_state_ok st"
    and now: "check_rate_update now (os_last_update_sec st) (os_rate st) new
       (os_utc_day_id st) (os_day_baseline_rate st) = Ok (d, b)"
    and t: "now \<le> t" and fits: "unat new * 10200 < 2 ^ 128"
  shows "\<exists>d b. check_rate_update t (os_last_update_sec st) (os_rate st) new
       (os_utc_day_id st) (os_day_baseline_rate st) = Ok (d, b)"
proof -
  let ?p = "os_last_update_sec st" and ?old = "os_rate st" and ?base = "os_day_baseline_rate st"
  note n = now[unfolded check_rate_update_Ok_iff]
  have thr: "\<not> throttled t ?p"
    using n t by (auto simp: throttled_def word_le_nat_alt)
  show ?thesis
  proof (cases "?p = 0")
    case True
    with n thr show ?thesis by (auto simp: check_rate_update_Ok_iff Let_def)
  next
    case False
    with ok have day: "os_utc_day_id st = ?p div 86400" and base: "?base \<le> ?old"
      by (auto simp: oracle_state_ok_def)
    have "unat ?p + 14400 \<le> unat now" using n False by (intro not_throttled) auto
    then have "unat (os_utc_day_id st) \<le> unat (now div 86400)" "unat (now div 86400) \<le> unat (t div 86400)"
      using t unfolding day by (simp_all add: unat_div div_le_mono word_le_nat_alt)
    then have same: "now div 86400 = os_utc_day_id st" if "t div 86400 = os_utc_day_id st"
      using that by (simp add: word_eq_iff_unat_eq)
    have cap: "within_daily_cap (if now div 86400 = os_utc_day_id st then ?base else ?old) new"
      using n False by (auto simp: Let_def)
    have "unat ?old \<le> unat new" using n by (simp add: word_le_nat_alt)
    then have "within_daily_cap ?old new"
      using cap fits base by (auto simp: within_daily_cap_def word_le_nat_alt split: if_splits)
    with cap same have "within_daily_cap (if t div 86400 = os_utc_day_id st then ?base else ?old) new" by auto
    with n thr False show ?thesis by (auto simp: check_rate_update_Ok_iff Let_def)
  qed
qed

lemma submit_accepted_later:
  assumes inv: "oracle_inv s" and q: "oracle_query_state s = Ok state" and c: "o_config s = Some cfg"
    and s: "sender info = oc_oracle_operator cfg"
    and d: "decide_tick_action proposed state now = Ok (Submit d b hb)"
    and t: "now \<le> block_seconds e" and fits: "unat proposed * 10200 < 2 ^ 128"
  shows "\<exists>s' r. execute_update_rate e info proposed s = Ok (s', r)"
proof -
  from q c obtain st where st: "o_oracle_state s = Some st"
    and state: "state = \<lparr>sr_rate = os_rate st, sr_last_update_sec = os_last_update_sec st,
       sr_utc_day_id = os_utc_day_id st, sr_day_baseline_rate = os_day_baseline_rate st,
       sr_paused = oc_paused cfg\<rparr>"
    by (auto simp: oracle_query_state_Ok_iff)
  from inv st have ok: "oracle_state_ok st" by (simp add: oracle_inv_def)
  from d[unfolded decide_Submit_iff state] have np: "\<not> oc_paused cfg"
    and chk: "check_rate_update now (os_last_update_sec st) (os_rate st) proposed
       (os_utc_day_id st) (os_day_baseline_rate st) = Ok (d, b)"
    by simp_all
  from check_rate_update_later[OF ok chk t fits] np
  have "\<exists>d b hb. decide_tick_action proposed state (block_seconds e) = Ok (Submit d b hb)"
    unfolding decide_Submit_iff state by simp
  then show ?thesis unfolding submit_iff_contract[OF q c s] .
qed

section \<open>A tick ends\<close>

lemma returns_any: "returns T m \<Longrightarrow> returns (\<lambda>_. 0) m"
  unfolding returns_def by blast

lemma returns_lift: "returns (\<lambda>_. 0) m \<Longrightarrow> returns (\<lambda>_. 0) (io_lift m)"
  unfolding returns_def io_lift_def by (auto split: option.splits)

lemma returns_sleep: "returns (\<lambda>_. 0) (io_sleep io d)"
  unfolding returns_def io_sleep_def by (auto simp: Let_def split: prod.splits)

lemma returns_query_state: "time_advances (sv_io sv) T \<Longrightarrow> returns (\<lambda>_. 0) (query_state sv cfg sg)"
  unfolding query_state_def by (rule returns_any[OF returns_smart])

lemma returns_confirm_attempts:
  assumes "time_advances (sv_io sv) T"
  shows "returns (\<lambda>_. 0) (confirm_state_attempts sv cfg sg prior proposed n e)"
proof (induction n arbitrary: e)
  case (Suc n)
  then show ?case
    using returns_query_state[OF assms] returns_sleep
    by (auto intro!: returns_await returns_then split: sum.splits fault.splits)
qed simp

lemma returns_submit:
  assumes "time_advances (sv_io sv) T"
  shows "returns (\<lambda>_. 0) (submit_and_confirm_oracle_update sv cfg sg proposed prior)"
  unfolding submit_and_confirm_oracle_update_def observe_state_after_event_ok_def
    confirm_state_with_retry_def Let_def
  using returns_any[OF returns_broadcast[OF assms]] returns_any[OF wait_returns[OF assms]]
    returns_query_state[OF assms] returns_confirm_attempts[OF assms]
  by (auto intro!: returns_then returns_await split: oracle_tx_event_match.splits)

lemma run_once_returns:
  fixes sv :: "('a, 'u, 'k, 'd) service"
  assumes "time_advances (sv_io sv) T"
  shows "\<exists>r y. run_once sv cfg sg x = Some (r, y)"
proof -
  have rate: "returns (\<lambda>_. 0) (proposed_rate sv cfg)"
    unfolding returns_def proposed_rate_def Let_def by (auto split: prod.splits option.splits)
  have rec: "returns (\<lambda>_. 0) (record_liveness io :: (unit, tick_error, service_state \<times> 'd) io)"
    for io :: "'d service_io"
    unfolding returns_def record_liveness_def Let_def by (auto split: prod.splits)
  have submit: "returns (\<lambda>_. 0) (io_then (io_map_err LcdError
      (io_lift (submit_and_confirm_oracle_update sv cfg sg p st))) (\<lambda>txh. record_liveness (sv_io sv)))"
    for p st
    using returns_submit[OF assms] rec by (intro returns_then returns_map_err returns_lift)
  have "returns (\<lambda>_. 0) (run_once sv cfg sg)"
    unfolding run_once_def
  proof (intro returns_then returns_map_err returns_lift returns_query_state[OF assms] rate)
    fix p st
    show "returns (\<lambda>_. 0) (\<lambda>(s, w). let (now, w) = now_unix (sv_io sv) w in
       (case decide_tick_action p st now of
          Inr (Submit day_id baseline heartbeat) \<Rightarrow>
            io_then (io_map_err LcdError (io_lift (submit_and_confirm_oracle_update sv cfg sg p st)))
              (\<lambda>txh. record_liveness (sv_io sv)) (s, w)
        | Inr _ \<Rightarrow> io_return (Ok ()) (s, w)
        | Inl e \<Rightarrow> io_return (Inl e) (s, w)))"
      using submit[of p st] unfolding returns_def
      by (auto simp: Let_def io_return_def split: prod.splits sum.splits tick_action.splits)
  qed
  then show ?thesis by (meson returnsE)
qed

section \<open>Liveness moves only after a proven update\<close>

text \<open>
  An included transaction with code 0 whose events prove the update, or have no wasm event at
  all while the state of the contract shows the rate and a later update than before.
\<close>

definition update_evidence ::
  "('a, 'u, 'k, 'w) service \<Rightarrow> service_config \<Rightarrow> 'k terra_signer \<Rightarrow> state_response \<Rightarrow> u128 \<Rightarrow>
   tx_event list \<Rightarrow> bool" where
  "update_evidence sv cfg sg prior proposed evs \<longleftrightarrow>
     (\<exists>g\<in>set (wasm_attr_groups evs). proves_update (sc_oracle_contract cfg) proposed g) \<or>
     wasm_attr_groups evs = [] \<and>
     (\<exists>state w w'. query_state sv cfg sg w = Some (Done (Ok state), w') \<and>
        sr_rate state = proposed \<and> sr_last_update_sec prior < sr_last_update_sec state)"

definition update_proven ::
  "('a, 'u, 'k, 'w) service \<Rightarrow> service_config \<Rightarrow> 'k terra_signer \<Rightarrow> state_response \<Rightarrow> u128 \<Rightarrow>
   'w \<Rightarrow> bool" where
  "update_proven sv cfg sg prior proposed w \<longleftrightarrow>
     (\<exists>h w1 s w2.
        sign_and_broadcast_execute (sv_lcd sv) (sv_wallet sv) (sv_io sv) (sv_execute_to_vec sv) sg
          (sc_oracle_contract cfg) (UpdateRate proposed) w = Some (Done (Ok h), w1) \<and>
        wait_for_deliver_tx_success (sv_lcd sv) (sv_io sv) sg h
          (from_secs_and_ms (sc_tx_confirm_timeout_secs cfg) (sc_tx_confirm_poll_interval_ms cfg)) w1 =
          Some (Done (Ok s), w2) \<and>
        eq_ignore_ascii_case (txhash s) h \<and> code s = 0 \<and>
        update_evidence sv cfg sg prior proposed (events s))"

text \<open>
  A tick from \<open>x\<close> that proposes a rate, reads the state of the contract, decides to submit,
  and has its update proven.
\<close>

definition tick_proven ::
  "('a, 'u, 'k, 'w) service \<Rightarrow> service_config \<Rightarrow> 'k terra_signer \<Rightarrow> service_state \<times> 'w \<Rightarrow> bool" where
  "tick_proven sv cfg sg x \<longleftrightarrow>
     (\<exists>proposed x1 prior w2 now w3 d b hb.
        proposed_rate sv cfg x = Some (Done (Ok proposed), x1) \<and>
        query_state sv cfg sg (snd x1) = Some (Done (Ok prior), w2) \<and>
        now_unix (sv_io sv) w2 = (now, w3) \<and>
        decide_tick_action proposed prior now = (Ok (Submit d b hb) :: (tick_action, tick_error) result) \<and>
        update_proven sv cfg sg prior proposed w3)"

lemma state_matches_Ok_iff:
  "oracle_state_matches_intended_update t state r = Ok u \<longleftrightarrow>
     sr_rate state = r \<and> t < sr_last_update_sec state"
  by (auto simp: oracle_state_matches_intended_update_def not_le)

lemma confirm_attempts_Ok:
  "confirm_state_attempts sv cfg sg prior proposed n e w = Some (Done (Ok u), w') \<Longrightarrow>
   \<exists>state w1 w2. query_state sv cfg sg w1 = Some (Done (Ok state), w2) \<and>
     sr_rate state = proposed \<and> sr_last_update_sec prior < sr_last_update_sec state"
proof (induction n arbitrary: e w)
  case (Suc n)
  from Suc.prems obtain r w1 where q: "query_state sv cfg sg w = Some (Done r, w1)"
    and rest: "(case and_then r (\<lambda>state.
            oracle_state_matches_intended_update (sr_last_update_sec prior) state proposed) of
       Inr _ \<Rightarrow> io_return (Ok ())
     | Inl Panic \<Rightarrow> io_return Panicked
     | Inl (Fail e) \<Rightarrow>
         if 0 < n then
           io_then (io_sleep (sv_io sv) (duration_from_millis STATE_CONFIRM_RETRY_INTERVAL_MS)) (\<lambda>_.
           confirm_state_attempts sv cfg sg prior proposed n (Some e))
         else confirm_state_attempts sv cfg sg prior proposed n (Some e)) w1 = Some (Done (Ok u), w')"
    by (auto simp: io_await_Done_Ok_iff)
  show ?case
  proof (cases "and_then r (\<lambda>state.
            oracle_state_matches_intended_update (sr_last_update_sec prior) state proposed)")
    case (Inl f)
    with rest Suc.IH show ?thesis
      by (cases f) (auto simp: io_then_Ok_iff split: if_splits)
  next
    case (Inr v)
    with q show ?thesis by (auto simp: and_then_Ok_iff state_matches_Ok_iff)
  qed
qed simp

lemma submit_Ok:
  assumes "submit_and_confirm_oracle_update sv cfg sg proposed prior w = Some (Done (Ok txh), w')"
  shows "update_proven sv cfg sg prior proposed w"
proof -
  from assms obtain h w1 s w2 m w3 where
    send: "sign_and_broadcast_execute (sv_lcd sv) (sv_wallet sv) (sv_io sv) (sv_execute_to_vec sv) sg
       (sc_oracle_contract cfg) (UpdateRate proposed) w = Some (Done (Ok h), w1)"
    and wait: "wait_for_deliver_tx_success (sv_lcd sv) (sv_io sv) sg h
      (from_secs_and_ms (sc_tx_confirm_timeout_secs cfg) (sc_tx_confirm_poll_interval_ms cfg)) w1 =
      Some (Done (Ok s), w2)"
    and m: "oracle_tx_events_match_update (sc_oracle_contract cfg) proposed (events s) = Ok m"
    and rest: "(case m of
          Matched \<Rightarrow> io_then (observe_state_after_event_ok sv cfg sg) (\<lambda>_. io_return (Ok h))
        | EventsAbsent \<Rightarrow>
            io_then (confirm_state_with_retry sv cfg sg prior proposed) (\<lambda>_. io_return (Ok h))) w3 =
       Some (Done (Ok txh), w')"
    unfolding submit_and_confirm_oracle_update_def Let_def by (auto simp: io_then_Ok_iff)
  have "update_evidence sv cfg sg prior proposed (events s)"
  proof (cases m)
    case Matched
    with m show ?thesis by (auto simp: update_evidence_def match_iff dest: judge_matchesD)
  next
    case EventsAbsent
    with m rest show ?thesis
      unfolding update_evidence_def
      by (auto simp: events_absent_iff io_then_Ok_iff confirm_state_with_retry_def
          dest!: confirm_attempts_Ok)
  qed
  with send wait wait_Ok[OF wait] show ?thesis unfolding update_proven_def by blast
qed

text \<open>The outcome of a chain: the first step ends it, or the rest goes on from its value.\<close>

lemma io_then_cases:
  assumes "io_then m k w = Some (r, w')"
  shows "(\<exists>x w1. m w = Some (Done (Ok x), w1) \<and> k x w1 = Some (r, w')) \<or>
    (\<exists>r1. m w = Some (r1, w') \<and> (\<forall>x. r \<noteq> Done (Ok x)))"
  using assms unfolding io_then_def io_await_def
  by (auto simp: io_return_def split: option.splits prod.splits outcome.splits sum.splits fault.splits)

lemma io_map_err_cases:
  "io_map_err f m w = Some (r, w') \<Longrightarrow> \<exists>r1. m w = Some (r1, w') \<and> (\<forall>x. r = Done (Ok x) \<longleftrightarrow> r1 = Done (Ok x))"
  unfolding io_map_err_def io_await_def
  by (auto simp: io_return_def split: option.splits prod.splits outcome.splits sum.splits fault.splits)

lemma io_lift_Some_iff:
  "io_lift m x = Some (r, y) \<longleftrightarrow> fst y = fst x \<and> m (snd x) = Some (r, snd y)"
  by (cases y) (auto simp: io_lift_def split: option.splits)

definition liveness_of :: "service_state \<Rightarrow> nat option" where
  "liveness_of s = last_successful_broadcast (guarded (ss_liveness s))"

lemma proposed_rate_keeps:
  "proposed_rate sv cfg x = Some (r, y) \<Longrightarrow> ss_liveness (fst y) = ss_liveness (fst x)"
  unfolding proposed_rate_def Let_def by (auto split: prod.splits option.splits)

text \<open>A tick after its two reads.\<close>

definition decide_and_submit ::
  "('a, 'u, 'k, 'w) service \<Rightarrow> service_config \<Rightarrow> 'k terra_signer \<Rightarrow> u128 \<Rightarrow> state_response \<Rightarrow>
   (unit, tick_error, service_state \<times> 'w) io" where
  "decide_and_submit sv cfg sg proposed state = (\<lambda>(s, w). let (now, w) = now_unix (sv_io sv) w in
     (case decide_tick_action proposed state now of
        Inr (Submit day_id baseline heartbeat) \<Rightarrow>
          io_then (io_map_err LcdError (io_lift (submit_and_confirm_oracle_update sv cfg sg proposed state)))
            (\<lambda>txh. record_liveness (sv_io sv)) (s, w)
      | Inr _ \<Rightarrow> io_return (Ok ()) (s, w)
      | Inl e \<Rightarrow> io_return (Inl e) (s, w)))"

lemma run_once_eq:
  "run_once sv cfg sg = io_then (io_map_err RateError (proposed_rate sv cfg)) (\<lambda>proposed.
     io_then (io_map_err LcdError (io_lift (query_state sv cfg sg))) (decide_and_submit sv cfg sg proposed))"
  unfolding run_once_def decide_and_submit_def by simp

lemma decide_and_submit_liveness:
  assumes "decide_and_submit sv cfg sg p st (s, w) = Some (q, y)"
  shows "ss_liveness (fst y) = ss_liveness s \<or>
    q = Done (Ok ()) \<and> (\<exists>now w1 d bl hb. now_unix (sv_io sv) w = (now, w1) \<and>
      decide_tick_action p st now = (Ok (Submit d bl hb) :: (tick_action, tick_error) result) \<and>
      update_proven sv cfg sg st p w1)"
proof -
  obtain now w1 where n: "now_unix (sv_io sv) w = (now, w1)" by fastforce
  show ?thesis
  proof (cases "\<exists>d bl hb. (decide_tick_action p st now :: (tick_action, tick_error) result) =
      Ok (Submit d bl hb)")
    case True
    let ?sub = "io_map_err LcdError (io_lift (submit_and_confirm_oracle_update sv cfg sg p st))"
    from True assms have "io_then ?sub (\<lambda>txh. record_liveness (sv_io sv)) (s, w1) = Some (q, y)"
      by (auto simp: decide_and_submit_def n Let_def)
    from io_then_cases[OF this] show ?thesis
    proof (elim disjE exE conjE)
      fix h c assume sub: "?sub (s, w1) = Some (Done (Ok h), c)" and "record_liveness (sv_io sv) c = Some (q, y)"
      then have "q = Done (Ok ())" by (auto simp: record_liveness_def Let_def split: prod.splits)
      moreover from sub have "update_proven sv cfg sg st p w1"
        by (auto simp: io_map_err_Ok_iff io_lift_Some_iff dest!: submit_Ok)
      ultimately show ?thesis using n True by auto
    next
      fix r1 assume "?sub (s, w1) = Some (r1, y)"
      then show ?thesis by (auto dest!: io_map_err_cases simp: io_lift_Some_iff)
    qed
  next
    case False
    with assms show ?thesis
      by (auto simp: decide_and_submit_def n Let_def io_return_def split: sum.splits tick_action.splits)
  qed
qed

lemma rate_read_keeps:
  "io_map_err f (proposed_rate sv cfg) x = Some (q, y) \<Longrightarrow> ss_liveness (fst y) = ss_liveness (fst x)"
  by (auto dest!: io_map_err_cases proposed_rate_keeps)

lemma state_read_keeps: "io_map_err f (io_lift m) x = Some (q, y) \<Longrightarrow> fst y = fst x"
  by (auto dest!: io_map_err_cases simp: io_lift_Some_iff)

lemma run_once_liveness:
  assumes "run_once sv cfg sg x = Some (r, y)"
  shows "ss_liveness (fst y) = ss_liveness (fst x) \<or>
    r = Done (Ok ()) \<and> tick_proven sv cfg sg x"
proof -
  let ?rate = "io_map_err RateError (proposed_rate sv cfg)"
  let ?state = "io_map_err LcdError (io_lift (query_state sv cfg sg))"
  from io_then_cases[OF assms[unfolded run_once_eq]] show ?thesis
  proof (elim disjE exE conjE)
    fix p x1 assume r1: "?rate x = Some (Done (Ok p), x1)"
      and rest: "io_then ?state (decide_and_submit sv cfg sg p) x1 = Some (r, y)"
    from io_then_cases[OF rest] show ?thesis
    proof (elim disjE exE conjE)
      fix st x2 assume q: "?state x1 = Some (Done (Ok st), x2)"
        and t: "decide_and_submit sv cfg sg p st x2 = Some (r, y)"
      from r1 have "proposed_rate sv cfg x = Some (Done (Ok p), x1)" by (simp add: io_map_err_Ok_iff)
      moreover from q have "query_state sv cfg sg (snd x1) = Some (Done (Ok st), snd x2)"
        by (simp add: io_map_err_Ok_iff io_lift_Some_iff)
      ultimately have "tick_proven sv cfg sg x" if "now_unix (sv_io sv) (snd x2) = (now, w1)"
          "decide_tick_action p st now = (Ok (Submit d bl hb) :: (tick_action, tick_error) result)"
          "update_proven sv cfg sg st p w1" for now w1 d bl hb
        using that unfolding tick_proven_def by blast
      with decide_and_submit_liveness[of sv cfg sg p st "fst x2" "snd x2"] t state_read_keeps[OF q]
        rate_read_keeps[OF r1] show ?thesis by (metis prod.collapse)
    next
      fix q assume "?state x1 = Some (q, y)"
      with state_read_keeps[of _ _ x1 q y] rate_read_keeps[OF r1] show ?thesis by metis
    qed
  next
    fix q assume "?rate x = Some (q, y)"
    with rate_read_keeps[of _ _ _ x q y] show ?thesis by metis
  qed
qed

text \<open>The liveness record of the operator loop, over any run.\<close>

lemma operator_step_liveness:
  assumes "operator_step sv cfg sg x y"
  shows "liveness_of (op_service y) = liveness_of (op_service x) \<or>
    (\<exists>w. snd (liveness_check (sv_io sv) cfg (op_service x) (op_world x)) = w \<and>
       tick_proven sv cfg sg (op_service x, w))"
  using assms
proof (cases rule: operator_step.cases)
  case (tick alert w1 r s2 w2 ended w3)
  with run_once_liveness[OF tick(4)] show ?thesis by (auto simp: liveness_of_def)
next
  case (shutdown_in_tick alert w1 s2 w2)
  with run_once_liveness[OF shutdown_in_tick(4)] show ?thesis by (auto simp: liveness_of_def)
next
  case (abort alert w1 s2 w2)
  with run_once_liveness[OF abort(4)] show ?thesis by (auto simp: liveness_of_def)
qed (simp add: liveness_of_def)

lemma operator_run_liveness:
  assumes "(operator_step sv cfg sg)\<^sup>*\<^sup>* x y" and "liveness_of (op_service y) \<noteq> liveness_of (op_service x)"
  shows "\<exists>z w. (operator_step sv cfg sg)\<^sup>*\<^sup>* x z \<and> (operator_step sv cfg sg)\<^sup>*\<^sup>* z y \<and>
     snd (liveness_check (sv_io sv) cfg (op_service z) (op_world z)) = w \<and>
     tick_proven sv cfg sg (op_service z, w)"
  using assms
proof (induction rule: rtranclp_induct)
  case (step y z)
  show ?case
  proof (cases "liveness_of (op_service y) = liveness_of (op_service x)")
    case True
    with operator_step_liveness[OF step.hyps(2)] step.hyps step.prems show ?thesis by auto
  qed (use step.IH step.hyps(2) rtranclp.rtrancl_into_rtrancl in metis)
qed simp

section \<open>The state after an executed update\<close>

text \<open>The state that the contract reports after an executed update confirms it as well.\<close>

lemma executed_update_state_matches:
  assumes "execute_update_rate e info rate s = Ok (s', r)" and "oracle_query_state s = Ok prior"
    and "0 < block_seconds e"
  shows "\<exists>st. oracle_query_state s' = Ok st \<and>
     oracle_state_matches_intended_update (sr_last_update_sec prior) st rate = Ok ()"
proof -
  from assms(1) obtain cfg st d b where s: "o_config s = Some cfg" "o_oracle_state s = Some st"
    and chk: "check_rate_update (block_seconds e) (os_last_update_sec st) (os_rate st) rate
      (os_utc_day_id st) (os_day_baseline_rate st) = Ok (d, b)"
    and s': "s' = s\<lparr>o_oracle_state := Some (st\<lparr>os_utc_day_id := d, os_day_baseline_rate := b,
      os_rate := rate, os_last_update_sec := block_seconds e\<rparr>)\<rparr>"
    by (auto simp: execute_update_rate_Ok_iff)
  have prior: "sr_last_update_sec prior = os_last_update_sec st"
    using assms(2) s by (auto simp: oracle_query_state_Ok_iff)
  have "os_last_update_sec st < block_seconds e"
    using chk assms(3) not_throttled[of "block_seconds e" "os_last_update_sec st"]
    by (cases "os_last_update_sec st = 0") (auto simp: check_rate_update_Ok_iff word_less_nat_alt)
  then show ?thesis
    by (simp add: s s' prior oracle_query_state_def item_load_def
        oracle_state_matches_intended_update_def)
qed

end
