(* ===== verification/Service_Provenance.thy ===== *)
theory Service_Provenance
  imports Service_Loop_Safety
begin

text \<open>
  Where the rate of a tick comes from, and what a start of the service established: the
  configuration, the chain ids of the providers, and that they stay known over every run.
\<close>

section \<open>Start-up\<close>

text \<open>An entry of the cache of chain ids is what the provider of that URL answered.\<close>

definition answered_chain_id :: "'a bsc_client \<Rightarrow> u64 \<Rightarrow> string \<Rightarrow> u64 \<Rightarrow> bool" where
  "answered_chain_id cl tmo url i \<longleftrightarrow>
     (\<exists>p. build_http_provider cl url tmo = Ok p \<and> get_chain_id p = Ok i)"

lemma verify_all_answered:
  assumes "verify_all_bsc_rpc_urls cl us allowed tmo cache = (r, cache')"
    and "\<And>url i. cache url = Some i \<Longrightarrow> answered_chain_id cl tmo url i"
    and "cache' url = Some i"
  shows "answered_chain_id cl tmo url i"
  using assms
proof (induction us arbitrary: cache)
  case (Cons u us)
  show ?case
  proof (cases "build_http_provider cl u tmo")
    case (Inl f)
    with Cons.prems show ?thesis by (cases f) auto
  next
    case (Inr p)
    obtain v c1 where v: "verify_bsc_rpc_chain_id u p allowed cache = (v, c1)" by fastforce
    then have c1: "answered_chain_id cl tmo x j" if "c1 x = Some j" for x j
      using that Cons.prems(2) Inr
      by (auto simp: verify_bsc_rpc_chain_id_def answered_chain_id_def map_err_Ok_iff
          split: option.splits sum.splits if_splits)
    show ?thesis
    proof (cases v)
      case (Inl e)
      with Cons.prems Inr v c1 show ?thesis by auto
    next
      case ok: (Inr w)
      with Cons.prems Inr v have "verify_all_bsc_rpc_urls cl us allowed tmo c1 = (r, cache')" by simp
      from Cons.IH[OF this c1 Cons.prems(3)] show ?thesis by simp
    qed
  qed
qed simp

text \<open>Every configured provider is known, under an allowed chain id.\<close>

definition providers_known :: "service_config \<Rightarrow> chain_id_cache \<Rightarrow> bool" where
  "providers_known cfg cache \<longleftrightarrow>
     (\<forall>url\<in>set (sc_bsc_rpc_urls cfg). \<exists>i\<in>set (sc_allowed_bsc_chain_ids cfg). cache url = Some i)"

lemma start_service_Ok:
  assumes "start_service d cl W tcp = Ok st"
  shows "config_from_env d = Ok (st_config st)"
    and "verify_all_bsc_rpc_urls cl (sc_bsc_rpc_urls (st_config st)) (sc_allowed_bsc_chain_ids (st_config st))
       (sc_bsc_rpc_timeout_secs (st_config st)) Map.empty = (Ok (), st_chain_ids st)"
    and "st_warnings st = ops_timing_warnings (sc_poll_interval_secs (st_config st))
       (sc_max_silence_since_broadcast_secs (st_config st))"
    and "ts_gas_limit (st_signer st) = DEFAULT_GAS_LIMIT"
    and "ts_gas_price (st_signer st) = sc_terra_gas_price (st_config st)"
proof -
  from assms obtain cfg where cfg: "config_from_env d = Ok cfg"
    and rest: "(let warnings = ops_timing_warnings (sc_poll_interval_secs cfg)
                      (sc_max_silence_since_broadcast_secs cfg);
         (verified, cache) = verify_all_bsc_rpc_urls cl (sc_bsc_rpc_urls cfg)
                      (sc_allowed_bsc_chain_ids cfg) (sc_bsc_rpc_timeout_secs cfg) Map.empty
     in and_then (map_err BscError verified) (\<lambda>_.
        and_then (map_err SignerError (terra_signer_new W
          \<lparr>tsc_lcd_url = sc_terra_lcd_url cfg, tsc_chain_id = sc_terra_chain_id cfg,
           tsc_mnemonic = sc_terra_mnemonic cfg, tsc_gas_limit = None,
           tsc_gas_price = sc_terra_gas_price cfg\<rparr>)) (\<lambda>signer.
        and_then (if sc_healthz_bind cfg \<noteq> []
                  then and_then (map_err HealthzError (spawn_healthz_server tcp (sc_healthz_bind cfg))) (\<lambda>_. Ok ())
                  else Ok ()) (\<lambda>_.
        Ok \<lparr>st_config = cfg, st_warnings = warnings, st_chain_ids = cache, st_signer = signer\<rparr>)))) = Ok st"
    unfolding start_service_def and_then_Ok_iff map_err_Ok_iff by blast
  obtain v cache where v: "verify_all_bsc_rpc_urls cl (sc_bsc_rpc_urls cfg)
      (sc_allowed_bsc_chain_ids cfg) (sc_bsc_rpc_timeout_secs cfg) Map.empty = (v, cache)" by fastforce
  from rest v obtain sg where ok: "v = Ok ()"
    and sg: "terra_signer_new W
          \<lparr>tsc_lcd_url = sc_terra_lcd_url cfg, tsc_chain_id = sc_terra_chain_id cfg,
           tsc_mnemonic = sc_terra_mnemonic cfg, tsc_gas_limit = None,
           tsc_gas_price = sc_terra_gas_price cfg\<rparr> = Ok sg"
    and st: "st = \<lparr>st_config = cfg, st_warnings = ops_timing_warnings (sc_poll_interval_secs cfg)
         (sc_max_silence_since_broadcast_secs cfg), st_chain_ids = cache, st_signer = sg\<rparr>"
    by (auto simp: Let_def and_then_Ok_iff map_err_Ok_iff)
  from sg have "ts_gas_limit sg = DEFAULT_GAS_LIMIT" "ts_gas_price sg = sc_terra_gas_price cfg"
    by (auto simp: terra_signer_new_def Let_def and_then_Ok_iff map_err_Ok_iff)
  with cfg v ok st show "config_from_env d = Ok (st_config st)"
    "verify_all_bsc_rpc_urls cl (sc_bsc_rpc_urls (st_config st)) (sc_allowed_bsc_chain_ids (st_config st))
       (sc_bsc_rpc_timeout_secs (st_config st)) Map.empty = (Ok (), st_chain_ids st)"
    "st_warnings st = ops_timing_warnings (sc_poll_interval_secs (st_config st))
       (sc_max_silence_since_broadcast_secs (st_config st))"
    "ts_gas_limit (st_signer st) = DEFAULT_GAS_LIMIT"
    "ts_gas_price (st_signer st) = sc_terra_gas_price (st_config st)"
    by simp_all
qed

lemma start_providers_known:
  assumes "start_service d cl W tcp = Ok st"
  shows "providers_known (st_config st) (st_chain_ids st)"
    and "cache_allowed (sc_allowed_bsc_chain_ids (st_config st)) (st_chain_ids st)"
    and "st_chain_ids st url = Some i \<Longrightarrow>
      answered_chain_id cl (sc_bsc_rpc_timeout_secs (st_config st)) url i"
proof -
  note v = start_service_Ok(2)[OF assms]
  have e: "cache_allowed (sc_allowed_bsc_chain_ids (st_config st)) Map.empty"
    by (simp add: cache_allowed_def)
  note va = verify_all_Ok[OF v e]
  then show "cache_allowed (sc_allowed_bsc_chain_ids (st_config st)) (st_chain_ids st)" by simp
  show "providers_known (st_config st) (st_chain_ids st)"
    unfolding providers_known_def
  proof
    fix url assume "url \<in> set (sc_bsc_rpc_urls (st_config st))"
    with va obtain i where i: "st_chain_ids st url = Some i" by auto
    with va have "i \<in> set (sc_allowed_bsc_chain_ids (st_config st))"
      unfolding cache_allowed_def by (auto dest: ranI)
    with i show "\<exists>i\<in>set (sc_allowed_bsc_chain_ids (st_config st)). st_chain_ids st url = Some i" by blast
  qed
  show "answered_chain_id cl (sc_bsc_rpc_timeout_secs (st_config st)) url i" if "st_chain_ids st url = Some i"
    using verify_all_answered[OF v _ that] by simp
qed

section \<open>The cache over a run\<close>

lemma bsc_read_keeps:
  assumes "bsc_read cfg cl url cache = (r, cache')"
  shows "cache \<subseteq>\<^sub>m cache'"
proof -
  have "cache \<subseteq>\<^sub>m c" if "verify_bsc_rpc_chain_id url p allowed cache = (v, c)" for p allowed v c
    using that by (auto simp: verify_bsc_rpc_chain_id_def map_le_def
        split: option.splits sum.splits if_splits)
  with assms show ?thesis
    unfolding bsc_read_def read_exchange_rate_stored_def
    by (auto split: sum.splits prod.splits)
qed

lemma map_le_add: "c \<subseteq>\<^sub>m a \<Longrightarrow> c \<subseteq>\<^sub>m b \<Longrightarrow> c \<subseteq>\<^sub>m a ++ b"
  by (auto simp: map_le_def map_add_def split: option.splits)

lemma first_reads_keep:
  assumes "first_reads cfg ans cache = (a, b)"
  shows "cache \<subseteq>\<^sub>m snd a" "cache \<subseteq>\<^sub>m snd b"
proof -
  show a: "cache \<subseteq>\<^sub>m snd a"
    using assms bsc_read_keeps[of cfg _ _ cache] unfolding first_reads_def Let_def
    by (metis fst_conv prod.collapse)
  have b: "b = bsc_read cfg (ba_client ans 1) (sc_bsc_rpc_urls cfg ! 1)
      (if ba_overlap ans then cache else snd a)"
    using assms unfolding first_reads_def Let_def by auto
  then have "(if ba_overlap ans then cache else snd a) \<subseteq>\<^sub>m snd b"
    by (metis bsc_read_keeps prod.collapse)
  with a show "cache \<subseteq>\<^sub>m snd b" by (auto split: if_splits intro: map_le_trans)
qed

lemma read_of_call_keeps: "cache \<subseteq>\<^sub>m snd (read_of_call cfg ans cache k)"
proof -
  obtain a b where f: "first_reads cfg ans cache = (a, b)" by (rule prod.exhaust)
  note keep = first_reads_keep[OF f]
  have j: "cache \<subseteq>\<^sub>m snd a ++ snd b" using keep by (rule map_le_add)
  have "snd a ++ snd b \<subseteq>\<^sub>m snd (bsc_read cfg (ba_client ans k) (sc_bsc_rpc_urls cfg ! k) (snd a ++ snd b))"
    by (metis bsc_read_keeps prod.collapse)
  with j have "cache \<subseteq>\<^sub>m snd (bsc_read cfg (ba_client ans k) (sc_bsc_rpc_urls cfg ! k) (snd a ++ snd b))"
    by (rule map_le_trans)
  with keep j show ?thesis by (simp add: read_of_call_def f Let_def)
qed

lemma cache_after_calls_keeps: "cache \<subseteq>\<^sub>m cache_after_calls cfg ans cache n"
  by (simp add: cache_after_calls_def read_of_call_keeps)

lemma proposed_rate_cache:
  "proposed_rate sv cfg x = Some (r, y) \<Longrightarrow> ss_chain_ids (fst x) \<subseteq>\<^sub>m ss_chain_ids (fst y)"
  unfolding proposed_rate_def Let_def
  by (auto simp: cache_after_calls_keeps split: prod.splits option.splits)

lemma record_liveness_cache:
  "record_liveness io x = Some (r, y) \<Longrightarrow> ss_chain_ids (fst y) = ss_chain_ids (fst x)"
  by (auto simp: record_liveness_def Let_def split: prod.splits)

lemma io_keeps_chain_ids:
  fixes R :: "service_state \<times> 'w \<Rightarrow> service_state \<times> 'w \<Rightarrow> bool"
  defines "R \<equiv> \<lambda>x y. ss_chain_ids (fst x) \<subseteq>\<^sub>m ss_chain_ids (fst y)"
  shows "io_keeps R (io_return r)"
    and "io_keeps R m \<Longrightarrow> (\<And>x. io_keeps R (k x)) \<Longrightarrow> io_keeps R (io_then m k)"
    and "io_keeps R m \<Longrightarrow> io_keeps R (io_map_err f m)"
    and "io_keeps R (io_lift l)"
    and "io_keeps R (proposed_rate sv cfg)"
    and "io_keeps R (record_liveness io)"
proof -
  have refl: "R w w" for w by (simp add: R_def)
  have trans: "R a b \<Longrightarrow> R b c \<Longrightarrow> R a c" for a b c unfolding R_def by (rule map_le_trans)
  show "io_keeps R (io_return r)" by (rule io_keeps_return[OF refl])
  show "io_keeps R m \<Longrightarrow> (\<And>x. io_keeps R (k x)) \<Longrightarrow> io_keeps R (io_then m k)"
    by (rule io_keeps_then[OF _ _ refl trans])
  show "io_keeps R m \<Longrightarrow> io_keeps R (io_map_err f m)" by (rule io_keeps_map_err[OF _ refl trans])
  show "io_keeps R (io_lift l)" by (simp add: io_keeps_def io_lift_Some_iff R_def)
  show "io_keeps R (proposed_rate sv cfg)"
    unfolding io_keeps_def R_def by (auto dest: proposed_rate_cache)
  show "io_keeps R (record_liveness io)"
    unfolding io_keeps_def R_def by (auto dest: record_liveness_cache)
qed

lemma run_once_cache:
  fixes x y :: "service_state \<times> 'w"
  assumes "run_once sv cfg sg x = Some (r, y)"
  shows "ss_chain_ids (fst x) \<subseteq>\<^sub>m ss_chain_ids (fst y)"
proof -
  let ?R = "\<lambda>x y :: service_state \<times> 'w. ss_chain_ids (fst x) \<subseteq>\<^sub>m ss_chain_ids (fst y)"
  note keeps = io_keeps_chain_ids[where 'w = 'w]
  have submit: "io_keeps ?R (io_then (io_map_err LcdError
      (io_lift (submit_and_confirm_oracle_update sv cfg sg p st))) (\<lambda>txh. record_liveness (sv_io sv)))"
    for p st by (intro keeps)
  have ret: "io_return q z = Some (q', z') \<Longrightarrow> ?R z z'" for q :: "(unit, tick_error) result" and q' z z'
    by (auto simp: io_return_def)
  have "io_keeps ?R (run_once sv cfg sg)"
    unfolding run_once_def
  proof (intro keeps)
    fix p st
    show "io_keeps ?R (\<lambda>(s, w). let (now, w) = now_unix (sv_io sv) w in
       (case decide_tick_action p st now of
          Inr (Submit day_id baseline heartbeat) \<Rightarrow>
            io_then (io_map_err LcdError (io_lift (submit_and_confirm_oracle_update sv cfg sg p st)))
              (\<lambda>txh. record_liveness (sv_io sv)) (s, w)
        | Inr _ \<Rightarrow> io_return (Ok ()) (s, w)
        | Inl e \<Rightarrow> io_return (Inl e) (s, w)))"
      using submit[of p st] ret unfolding io_keeps_def
      by (fastforce simp: Let_def io_return_def split: prod.splits sum.splits tick_action.splits)
  qed
  with assms show ?thesis unfolding io_keeps_def by blast
qed

lemma operator_step_cache:
  assumes "operator_step sv cfg sg x y"
  shows "ss_chain_ids (op_service x) \<subseteq>\<^sub>m ss_chain_ids (op_service y)"
  using assms
proof (cases rule: operator_step.cases)
  case (tick alert w1 r s2 w2 ended w3)
  with run_once_cache[OF tick(4)] show ?thesis by simp
next
  case (shutdown_in_tick alert w1 s2 w2)
  with run_once_cache[OF shutdown_in_tick(4)] show ?thesis by simp
next
  case (abort alert w1 s2 w2)
  with run_once_cache[OF abort(4)] show ?thesis by simp
qed simp

lemma operator_run_cache:
  assumes "(operator_step sv cfg sg)\<^sup>*\<^sup>* x y"
  shows "ss_chain_ids (op_service x) \<subseteq>\<^sub>m ss_chain_ids (op_service y)"
  using assms by (induction rule: rtranclp_induct) (auto intro: map_le_trans operator_step_cache)

lemma providers_known_mono: "providers_known cfg c \<Longrightarrow> c \<subseteq>\<^sub>m c' \<Longrightarrow> providers_known cfg c'"
  unfolding providers_known_def map_le_def by (metis domI)

section \<open>The rate of a tick\<close>

text \<open>The rate a provider's answers stand for; beyond a shift of 77 decimals the power wraps.\<close>

definition pow_exact :: "'a bsc_client \<Rightarrow> bool" where
  "pow_exact cl \<longleftrightarrow> (\<forall>n\<le>77. unat (u256_pow cl 10 (of_nat n)) = 10 ^ n)"

definition provider_rate :: "'a bsc_client \<Rightarrow> service_config \<Rightarrow> string \<Rightarrow> u128 \<Rightarrow> bool" where
  "provider_rate cl cfg url R \<longleftrightarrow>
     (\<exists>p latest block addr er und vd ud.
        build_http_provider cl url (sc_bsc_rpc_timeout_secs cfg) = Ok p \<and>
        get_block_number p = Ok latest \<and>
        unat block = unat latest - unat (sc_bsc_confirmation_blocks cfg) \<and>
        parse_address cl (sc_venus_vtoken_address cfg) = Ok addr \<and>
        exchange_rate_stored_at p addr block = Ok er \<and>
        underlying_at p addr block = Ok und \<and>
        decimals_at p addr block = Ok vd \<and> decimals_at p und block = Ok ud \<and>
        unat vd \<le> unat ud \<and>
        (unat ud - unat vd \<le> 77 \<longrightarrow> unat R = unat er div 10 ^ (unat ud - unat vd)))"

lemma bsc_read_rate:
  assumes "bsc_read cfg cl url cache = (Ok R, cache')" and pow: "pow_exact cl"
  shows "provider_rate cl cfg url R"
proof -
  from assms(1)[unfolded bsc_read_def] obtain p i where
    p: "build_http_provider cl url (sc_bsc_rpc_timeout_secs cfg) = Ok p"
    and r: "read_rate_at_block cl p (sc_venus_vtoken_address cfg) (sc_bsc_confirmation_blocks cfg) = Ok R"
    by (rule read_exchange_rate_Ok)
  from r obtain latest addr er und vd ud where
    a: "get_block_number p = Ok latest" "parse_address cl (sc_venus_vtoken_address cfg) = Ok addr"
      "exchange_rate_stored_at p addr (saturating_sub latest (sc_bsc_confirmation_blocks cfg)) = Ok er"
      "underlying_at p addr (saturating_sub latest (sc_bsc_confirmation_blocks cfg)) = Ok und"
      "decimals_at p addr (saturating_sub latest (sc_bsc_confirmation_blocks cfg)) = Ok vd"
      "decimals_at p und (saturating_sub latest (sc_bsc_confirmation_blocks cfg)) = Ok ud"
    and v: "venus_exchange_rate_to_oracle_r (u256_pow cl) er ud vd = Ok R"
    by (auto simp: read_rate_Ok_iff)
  have le: "unat vd \<le> unat ud"
    using v by (auto simp: venus_exchange_rate_to_oracle_r_def word_less_nat_alt not_less split: if_splits)
  have "unat R = unat er div 10 ^ (unat ud - unat vd)" if s: "unat ud - unat vd \<le> 77"
  proof -
    have "unat (ud - vd) = unat ud - unat vd" using le by (simp add: unat_minus_if_le word_le_nat_alt)
    moreover have tb: "take_bit 256 (unat ud - unat vd) = unat ud - unat vd"
      using s by (intro take_bit_nat_eq_self) simp
    ultimately have "unat (ucast (ucast (ud - vd) :: u32) :: u256) = unat ud - unat vd" by simp
    then have "(ucast (ucast (ud - vd) :: u32) :: u256) = of_nat (unat ud - unat vd)"
      by (simp add: word_eq_iff_unat_eq unsigned_of_nat tb)
    with pow s have "unat (u256_pow cl 10 (ucast (ucast (ud - vd) :: u32))) = 10 ^ (unat ud - unat vd)"
      by (simp add: pow_exact_def)
    from venus_rate_Ok_iff[where pow = "u256_pow cl", OF this] v show ?thesis by simp
  qed
  with p a le show ?thesis
    unfolding provider_rate_def by (metis unat_saturating_sub)
qed

lemma read_of_call_rate:
  assumes "fst (read_of_call cfg ans cache k) = Ok R" and "pow_exact (ba_client ans k)"
  shows "provider_rate (ba_client ans k) cfg (sc_bsc_rpc_urls cfg ! k) R"
proof -
  have "\<exists>c. fst (bsc_read cfg (ba_client ans k) (sc_bsc_rpc_urls cfg ! k) c) = Ok R"
    using assms(1) by (auto simp: read_of_call_def first_reads_def Let_def split: if_splits)
  with assms(2) show ?thesis by (metis bsc_read_rate prod.collapse)
qed

lemma proposed_rate_Ok:
  assumes "proposed_rate sv cfg x = Some (Done (Ok R), y)" and "sv_bsc sv (snd x) = (ans, w)"
    and "\<And>k. pow_exact (ba_client ans k)"
  shows "\<exists>i j v. i < j \<and> j < 3 \<and> j < length (sc_bsc_rpc_urls cfg) \<and>
     rates_agree_within_point_zero_one_percent R v \<and>
     provider_rate (ba_client ans i) cfg (sc_bsc_rpc_urls cfg ! i) R \<and>
     provider_rate (ba_client ans j) cfg (sc_bsc_rpc_urls cfg ! j) v"
proof -
  let ?read = "\<lambda>k (url :: string). fst (read_of_call cfg ans (ss_chain_ids (fst x)) k)"
  have "run_with_evm_rpc_rate_consensus (sc_bsc_rpc_urls cfg) ?read = Ok R"
    using assms(1,2) unfolding proposed_rate_def Let_def by (auto split: prod.splits option.splits)
  from consensus_cases[OF this] obtain i j where "i < j" "j < 3"
    and t: "two_calls_agree (sc_bsc_rpc_urls cfg) ?read R i j"
    by (metis less_numeral_extra(1) numeral_2_eq_2 numeral_3_eq_3 lessI less_SucI zero_less_Suc one_less_numeral_iff semiring_norm(76))
  then show ?thesis
    unfolding two_calls_agree_def using read_of_call_rate assms(3) by blast
qed

end
