(* ===== verification/Service_Broadcast.thy ===== *)
theory Service_Broadcast
  imports Service_Signer
begin

text \<open>
  What a successful broadcast means (\<open>TerraSigner::sign_and_broadcast_execute\<close> of
  \<open>terra_tx.rs\<close>): which transaction was signed, for which account state, at which fee, and
  that a node admitted it.
\<close>

section \<open>A broadcast\<close>

text \<open>
  The price a transaction is to have, by what the probe of the node's configuration brought:
  the minimum of the network if the node named one and it is higher, else the configured price.
\<close>

definition price_after_probe :: "f64 \<Rightarrow> (http_response, string) result \<Rightarrow> f64" where
  "price_after_probe configured answer = (case answer of
       Inr response \<Rightarrow>
         if \<not> is_success (status response) then configured
         else (case body_json response of
             Inr data \<Rightarrow> (case parse_minimum_gas_price data of
                 Some network \<Rightarrow> if f64_less configured network then network else configured
               | None \<Rightarrow> configured)
           | Inl _ \<Rightarrow> configured)
     | Inl _ \<Rightarrow> configured)"

lemma resolve_gas_price_Ok:
  assumes "resolve_gas_price L io sg w = Some (Done (Ok p), w')"
  shows "\<exists>answer. http_get io (ts_lcd_url sg @ ''/cosmos/base/node/v1beta1/config'') w =
      Some (Done answer, w') \<and> p = price_after_probe (ts_gas_price sg) answer"
  using assms
  unfolding resolve_gas_price_def query_network_min_gas_price_def io_then_def io_await_def
    price_after_probe_def effective_gas_price_def io_return_def
  by (auto split: option.splits prod.splits outcome.splits sum.splits fault.splits if_splits)

lemma get_account_info_Ok:
  assumes "get_account_info L io sg w = Some (Done (Ok info), w')"
  shows "\<exists>response data. http_get io (ts_lcd_url sg @ ''/cosmos/auth/v1beta1/accounts/'' @ ts_address sg) w =
      Some (Done (Ok response), w') \<and> is_success (status response) \<and> body_json response = Ok data \<and>
      parse_account_info L data = Ok info"
  using assms unfolding get_account_info_def by (auto simp: io_then_Ok_iff split: if_splits)

text \<open>What the node is asked to admit: one call of the contract, signed for the account.\<close>

definition signs_call ::
  "'k wallet_lib \<Rightarrow> 'k terra_signer \<Rightarrow> account_info \<Rightarrow> u128 \<Rightarrow> string \<Rightarrow> string \<Rightarrow> string \<Rightarrow> bool" where
  "signs_call W sg info fee contract_id msg tx_bytes \<longleftrightarrow>
     (\<exists>any denom chain_id doc raw.
        to_any W \<lparr>ec_sender = ts_address sg, ec_contract = contract_id, ec_msg = msg, ec_funds = []\<rparr> = Ok any \<and>
        denom_parse W ''uluna'' = Ok denom \<and> chain_id_parse W (ts_chain_id sg) = Ok chain_id \<and>
        sign_doc_new W \<lparr>tb_messages = [any], tb_memo = [], tb_timeout_height = 0\<rparr>
          \<lparr>au_public_key = public_key W (signing_key sg), au_sequence = ai_sequence info,
           au_fee_denom = denom, au_fee_amount = fee, au_gas_limit = ts_gas_limit sg\<rparr>
          chain_id (ai_account_number info) = Ok doc \<and>
        sign_doc_sign W doc (signing_key sg) = Ok raw \<and> tx_to_bytes W raw = Ok tx_bytes)"

lemma signed_tx_Ok:
  assumes "signed_tx L W sg info price contract msg = Ok tx"
  shows "\<exists>m c bytes. msg = Ok m \<and> account_id_parse W contract = Ok c \<and> tx = base64_encode L bytes \<and>
    signs_call W sg info (compute_fee_amount (ts_gas_limit sg) price) c m bytes"
  using assms unfolding signed_tx_def Let_def and_then_Ok_iff map_err_Ok_iff sum.inject signs_call_def
  by (elim exE conjE) (intro exI conjI, (assumption | erule sym)+)

lemma check_tx_hash_Ok:
  assumes "check_tx_hash L r = Ok h"
  shows "is_success (status r) \<and> h \<noteq> [] \<and>
    (\<exists>body tx_response. body_json r = Ok body \<and> json_get ''tx_response'' body = Some tx_response \<and>
       Option.bind (json_get ''code'' tx_response) as_u64 = Some 0 \<and>
       get_str_or_empty ''txhash'' tx_response = h)"
proof (cases "body_json r")
  case (Inr body)
  show ?thesis
  proof (cases "json_get ''tx_response'' body")
    case None
    with assms Inr show ?thesis
      by (auto simp: check_tx_hash_def Let_def and_then_Ok_iff split: if_splits)
  next
    case (Some t)
    with assms Inr show ?thesis
      by (auto simp: check_tx_hash_def Let_def and_then_Ok_iff split: if_splits option.splits)
  qed
qed (use assms in \<open>auto simp: check_tx_hash_def Let_def and_then_Ok_iff split: if_splits\<close>)

text \<open>
  One admitted attempt, from the world \<open>w\<close>: the answers of the node to its three requests, the
  account, the configuration and the broadcast, and what they have to do with each other.
\<close>

definition admitted ::
  "'u lcd_lib \<Rightarrow> 'k wallet_lib \<Rightarrow> 'w service_io \<Rightarrow> ('m \<Rightarrow> (string, string) result) \<Rightarrow>
   'k terra_signer \<Rightarrow> string \<Rightarrow> 'm \<Rightarrow> string \<Rightarrow> 'w \<Rightarrow> 'w \<Rightarrow> bool" where
  "admitted L W io to_vec sg contract msg h w w' \<longleftrightarrow>
     (\<exists>account data info w1 probe w2 m c bytes r body tx_response.
        http_get io (ts_lcd_url sg @ ''/cosmos/auth/v1beta1/accounts/'' @ ts_address sg) w =
          Some (Done (Ok account), w1) \<and>
        is_success (status account) \<and> body_json account = Ok data \<and> parse_account_info L data = Ok info \<and>
        http_get io (ts_lcd_url sg @ ''/cosmos/base/node/v1beta1/config'') w1 = Some (Done probe, w2) \<and>
        to_vec msg = Ok m \<and> account_id_parse W contract = Ok c \<and>
        signs_call W sg info (compute_fee_amount (ts_gas_limit sg)
          (price_after_probe (ts_gas_price sg) probe)) c m bytes \<and>
        http_post io (ts_lcd_url sg @ ''/cosmos/tx/v1beta1/txs'')
          (JObject [(''mode'', JString ''BROADCAST_MODE_SYNC''), (''tx_bytes'', JString (base64_encode L bytes))]) w2 =
          Some (Done (Ok r), w') \<and>
        is_success (status r) \<and> body_json r = Ok body \<and> json_get ''tx_response'' body = Some tx_response \<and>
        Option.bind (json_get ''code'' tx_response) as_u64 = Some 0 \<and>
        get_str_or_empty ''txhash'' tx_response = h \<and> h \<noteq> [])"

lemma broadcast_inner_Ok:
  assumes "sign_and_broadcast_execute_inner L W io to_vec sg contract msg w = Some (Done (Ok h), w')"
  shows "admitted L W io to_vec sg contract msg h w w'"
proof -
  from assms obtain info w1 p w2 tx r w3 where
    a: "get_account_info L io sg w = Some (Done (Ok info), w1)"
    and p: "resolve_gas_price L io sg w1 = Some (Done (Ok p), w2)"
    and tx: "signed_tx L W sg info p contract (to_vec msg) = Ok tx"
    and post: "http_post io (ts_lcd_url sg @ ''/cosmos/tx/v1beta1/txs'')
          (JObject [(''mode'', JString ''BROADCAST_MODE_SYNC''), (''tx_bytes'', JString tx)]) w2 =
          Some (Done (Ok r), w3)"
    and h: "check_tx_hash L r = Ok h" "w3 = w'"
    unfolding sign_and_broadcast_execute_inner_def Let_def io_Ok_iffs io_return_iff by blast
  moreover obtain m c bytes where "to_vec msg = Ok m" "account_id_parse W contract = Ok c"
    "tx = base64_encode L bytes" "signs_call W sg info (compute_fee_amount (ts_gas_limit sg) p) c m bytes"
    using signed_tx_Ok[OF tx] by blast
  ultimately show ?thesis
    using get_account_info_Ok[OF a] resolve_gas_price_Ok[OF p] check_tx_hash_Ok[OF h(1)] post h(2)
    unfolding admitted_def by blast
qed

text \<open>The second attempt follows a first one that failed on the account sequence.\<close>

lemma broadcast_Ok:
  assumes "sign_and_broadcast_execute L W io to_vec sg contract msg w = Some (Done (Ok h), w')"
  shows "admitted L W io to_vec sg contract msg h w w' \<or>
    (\<exists>e w1. sign_and_broadcast_execute_inner L W io to_vec sg contract msg w = Some (Done (Err e), w1) \<and>
       is_account_sequence_mismatch e \<and> admitted L W io to_vec sg contract msg h w1 w')"
proof -
  let ?inner = "sign_and_broadcast_execute_inner L W io to_vec sg contract msg"
  from assms obtain r w1 where first: "?inner w = Some (Done r, w1)"
    and rest: "(case r of
       Inr txh \<Rightarrow> io_return (Ok txh)
     | Inl (Fail e) \<Rightarrow> if is_account_sequence_mismatch e then ?inner else io_return (Err e)
     | Inl Panic \<Rightarrow> io_return Panicked) w1 = Some (Done (Ok h), w')"
    unfolding sign_and_broadcast_execute_def io_await_Done_Ok_iff by blast
  show ?thesis
  proof (cases r)
    case (Inl f)
    with first rest show ?thesis
      by (cases f) (auto simp: broadcast_inner_Ok split: if_splits)
  next
    case (Inr txh)
    with first rest show ?thesis by (auto intro: broadcast_inner_Ok)
  qed
qed

end
