(* ===== verification/Service_Authentic.thy ===== *)
theory Service_Authentic
  imports Service_Loop_Safety
begin

text \<open>
  Does a moved liveness record mean that the rate moved on chain? The service trusts what its
  node answers. This theory states what a node does that reports one chain truthfully, in
  terms of the oracle contract, and shows that the proof the service asks for is then enough.
\<close>

section \<open>What the attributes of a call say\<close>

lemma update_rate_attribute:
  assumes "oracle_step a c s s'" and "(''action'', ''update_rate'') \<in> set (attributes (call_response c))"
  shows "\<exists>r. call_msg c = UpdateRate r \<and>
     attributes (call_response c) = [(''action'', ''update_rate''), (''rate'', show_nat (unat r))]"
  using assms
  by (cases "call_msg c") (auto simp: oracle_step_def oracle_execute_def oracle_Ok_iffs
      execute_set_operator_def execute_set_paused_def execute_propose_gov_def
      execute_accept_gov_def chain_simps add_attribute_def new_response_def
      eq_commute[of _ "call_response c"] dest: update_attributes)

lemma update_call_rate:
  assumes "oracle_step a c s s'" and "call_msg c = UpdateRate r"
  shows "rate_of s' = unat r"
  using assms
  by (auto simp: oracle_step_def oracle_execute_def execute_update_rate_Ok_iff rate_of_def)

text \<open>When the last update of a run moved, a call of the run set the rate the run ends with.\<close>

lemma last_update_moved:
  assumes "run (oracle_step a) s cs s'" and "last_update_of s \<noteq> last_update_of s'"
  shows "\<exists>xs c ys s1 s2. cs = xs @ c # ys \<and> run (oracle_step a) s xs s1 \<and> oracle_step a c s1 s2 \<and>
     is_update c \<and> rate_of s2 = rate_of s'"
  using assms
proof (induction cs arbitrary: s' rule: rev_induct)
  case (snoc c cs)
  from snoc.prems(1) obtain t where t: "run (oracle_step a) s cs t" "oracle_step a c t s'"
    by (auto simp: run_snoc_iff)
  from t(2) show ?case
  proof (cases rule: oracle_step_cases)
    case update
    with t show ?thesis by blast
  next
    case admin
    from admin_step_views[OF admin(2)] snoc.prems(2) have "last_update_of s \<noteq> last_update_of t" by simp
    from snoc.IH[OF t(1) this] obtain xs d ys s1 s2 where
      "cs = xs @ d # ys" "run (oracle_step a) s xs s1" "oracle_step a d s1 s2" "is_update d"
      "rate_of s2 = rate_of t"
      by blast
    moreover from calculation(1) have "cs @ [c] = xs @ d # (ys @ [c])" by simp
    ultimately show ?thesis using admin_step_views[OF admin(2)] by metis
  qed
qed simp

text \<open>A call is a function of the storage.\<close>

lemma run_oracle_unique:
  "run (oracle_step a) s cs s1 \<Longrightarrow> run (oracle_step a) s cs s2 \<Longrightarrow> s1 = s2"
  by (induction arbitrary: s2 rule: run.induct) (auto simp: oracle_step_def run_cons_iff)

section \<open>A node that reports one chain\<close>

text \<open>
  The events in the answer about a transaction: those of the transaction and those of its logs.
\<close>

definition event_list :: "json \<Rightarrow> json list" where
  "event_list j = (case Option.bind (json_get ''events'' j) as_array of None \<Rightarrow> [] | Some evs \<Rightarrow> evs)"

definition reported_events :: "json \<Rightarrow> json set" where
  "reported_events tx = set (event_list tx) \<union>
     (case Option.bind (json_get ''logs'' tx) as_array of None \<Rightarrow> {}
      | Some logs \<Rightarrow> \<Union> (set ` event_list ` set logs))"

text \<open>
  An event as the chain reports it: no wasm event, or the wasm event of a call, in some
  encoding that the service can read back, whose attributes are those the call returned. The
  chain keeps contracts from naming an attribute \<open>_contract_address\<close> themselves. If the
  contract is the oracle, the attributes are those of an executed call, the set \<open>executed\<close>.
\<close>

definition is_wasm_json :: "json \<Rightarrow> bool" where
  "is_wasm_json ev = (case Option.bind (json_get ''type'' ev) as_str of
       None \<Rightarrow> False | Some t \<Rightarrow> eq_ignore_ascii_case t ''wasm'')"

definition readable_event ::
  "'u lcd_lib \<Rightarrow> (string \<Rightarrow> string) \<Rightarrow> string \<Rightarrow> (string \<times> string) list \<Rightarrow> bool" where
  "readable_event L enc address attrs \<longleftrightarrow>
     (\<forall>x\<in>set ((''_contract_address'', address) # attrs).
        decode_tendermint_attr L (enc (fst x)) = fst x \<and> decode_tendermint_attr L (enc (snd x)) = snd x) \<and>
     (\<forall>k\<in>fst ` set attrs. k \<noteq> ''_contract_address'')"

definition faithful_event ::
  "'u lcd_lib \<Rightarrow> string \<Rightarrow> (string \<times> string) list set \<Rightarrow> json \<Rightarrow> bool" where
  "faithful_event L contract executed ev \<longleftrightarrow> \<not> is_wasm_json ev \<or>
     (\<exists>enc address attrs. ev = wasm_event_json enc address attrs \<and> readable_event L enc address attrs \<and>
        (eq_ignore_ascii_case address contract \<longrightarrow> attrs \<in> executed))"

lemma faithful_eventI:
  assumes "ev = wasm_event_json enc address attrs" and "readable_event L enc address attrs"
    and "attrs \<in> executed"
  shows "faithful_event L contract executed ev"
  using assms unfolding faithful_event_def by blast

lemma parsed_event_of:
  "e \<in> set (events_of L j) \<Longrightarrow> \<exists>ev\<in>set (event_list j). parse_event L ev = Some e"
  by (auto simp: events_of_def event_list_def parse_events_array_def List.map_filter_def
      split: option.splits)

lemma parsed_events_reported:
  assumes "e \<in> set (parse_tx_events L tx)"
  shows "\<exists>ev\<in>reported_events tx. parse_event L ev = Some e"
  using assms parsed_event_of[of e L]
  by (fastforce simp: parse_tx_events_def reported_events_def Let_def split: option.splits if_splits)

lemma parsed_is_wasm:
  "parse_event L ev = Some e \<Longrightarrow> is_wasm_json ev = eq_ignore_ascii_case (ty e) ''wasm''"
  unfolding parse_event_def is_wasm_json_def
  by (cases "Option.bind (json_get ''type'' ev) as_str") auto

lemma readable_groups:
  assumes "readable_event L enc address attrs" and "parse_event L (wasm_event_json enc address attrs) = Some e"
  shows "split_groups (ev_attributes e) None = [(''_contract_address'', address) # attrs]"
proof -
  note r = assms(1)[unfolded readable_event_def]
  have "ev_attributes e = parse_event_attributes L (map (attribute_json enc) ((''_contract_address'', address) # attrs))"
    using assms(2) unfolding parse_event_def wasm_event_json_def by auto
  then show ?thesis
    unfolding parse_attributes_json[OF conjunct1[OF r]]
    by (simp add: split_groups_single[OF conjunct2[OF r]] finish_group_def)
qed

lemma wasm_group_event:
  assumes "g \<in> set (wasm_attr_groups evs)"
  shows "\<exists>e\<in>set evs. eq_ignore_ascii_case (ty e) ''wasm'' \<and> g \<in> set (split_groups (ev_attributes e) None)"
  using assms unfolding wasm_attr_groups_def by (auto split: if_split_asm)

lemma faithful_group:
  assumes "g \<in> set (wasm_attr_groups (parse_tx_events L tx))"
    and "\<forall>ev\<in>reported_events tx. faithful_event L contract executed ev"
    and "proves_update contract rate g"
  shows "\<exists>address attrs. g = (''_contract_address'', address) # attrs \<and> attrs \<in> executed"
proof -
  from wasm_group_event[OF assms(1)] obtain e where e: "e \<in> set (parse_tx_events L tx)"
    "eq_ignore_ascii_case (ty e) ''wasm''" "g \<in> set (split_groups (ev_attributes e) None)" by blast
  from parsed_events_reported[OF e(1)] assms(2) obtain ev where ev: "parse_event L ev = Some e"
    "faithful_event L contract executed ev" by blast
  from ev e(2) parsed_is_wasm[OF ev(1)] obtain enc address attrs where w:
    "ev = wasm_event_json enc address attrs" "readable_event L enc address attrs"
    "eq_ignore_ascii_case address contract \<longrightarrow> attrs \<in> executed"
    unfolding faithful_event_def by blast
  from readable_groups[OF w(2) ev(1)[unfolded w(1)]] e(3)
  have g: "g = (''_contract_address'', address) # attrs" by simp
  moreover have "eq_ignore_ascii_case address contract"
    using assms(3) unfolding proves_update_def g by simp
  ultimately show ?thesis using w(3) by blast
qed

text \<open>
  The chain as seen from a world: the calls of the oracle contract that its node has executed,
  oldest first, each with the hash of its transaction.
\<close>

type_synonym history = "(string \<times> oracle_call) list"

definition state_after :: "unit api \<Rightarrow> oracle_storage \<Rightarrow> history \<Rightarrow> oracle_storage \<Rightarrow> bool" where
  "state_after a s0 hist s \<longleftrightarrow> run (oracle_step a) s0 (map snd hist) s"

lemma state_after_append:
  "state_after a s0 h s \<Longrightarrow> state_after a s0 (h @ h') s' \<Longrightarrow> run (oracle_step a) s (map snd h') s'"
  by (auto simp: state_after_def run_append dest: run_oracle_unique)

text \<open>
  What the service relies on. All histories are parts of one chain, the later ones longer, and
  reading the clock does not turn the chain back; a state query answers with the state of the
  contract; an admitted transaction was not executed before; the events reported for a
  transaction are those of its calls.
\<close>

definition reports_chain ::
  "('a, 'u, 'k, 'w) service \<Rightarrow> service_config \<Rightarrow> 'k terra_signer \<Rightarrow> unit api \<Rightarrow> oracle_storage \<Rightarrow>
   ('w \<Rightarrow> history) \<Rightarrow> bool" where
  "reports_chain sv cfg sg a s0 past \<longleftrightarrow>
     (\<forall>w w'. prefix (past w) (past w') \<or> prefix (past w') (past w)) \<and>
     (\<forall>w. Ex (state_after a s0 (past w))) \<and>
     (\<forall>w. prefix (past w) (past (snd (now_unix (sv_io sv) w)))) \<and>
     (\<forall>w st w'. query_state sv cfg sg w = Some (Done (Ok st), w') \<longrightarrow>
        (\<exists>s. state_after a s0 (past w') s \<and> oracle_query_state s = Ok st)) \<and>
     (\<forall>w r h w'. sign_and_broadcast_execute (sv_lcd sv) (sv_wallet sv) (sv_io sv) (sv_execute_to_vec sv)
          sg (sc_oracle_contract cfg) (UpdateRate r) w = Some (Done (Ok h), w') \<longrightarrow>
        (\<forall>x\<in>set (past w). \<not> eq_ignore_ascii_case (fst x) h)) \<and>
     (\<forall>h w resp w' body tx ev.
        http_get (sv_io sv) (ts_lcd_url sg @ ''/cosmos/tx/v1beta1/txs/'' @ h) w = Some (Done (Ok resp), w') \<longrightarrow>
        body_json resp = Ok body \<longrightarrow> json_get ''tx_response'' body = Some tx \<longrightarrow> ev \<in> reported_events tx \<longrightarrow>
        faithful_event (sv_lcd sv) (sc_oracle_contract cfg)
          {attributes (call_response c) | h' c. (h', c) \<in> set (past w') \<and> eq_ignore_ascii_case h' h} ev)"

section \<open>A proven update was executed\<close>

text \<open>After \<open>before\<close>, the chain went on and a call set the rate.\<close>

definition rate_set_after ::
  "unit api \<Rightarrow> oracle_storage \<Rightarrow> ('w \<Rightarrow> history) \<Rightarrow> history \<Rightarrow> u128 \<Rightarrow> bool" where
  "rate_set_after a s0 past before rate \<longleftrightarrow>
     (\<exists>w xs h c ys s1 s2. past w = before @ xs @ (h, c) # ys \<and>
        state_after a s0 (before @ xs) s1 \<and> oracle_step a c s1 s2 \<and> is_update c \<and>
        rate_of s2 = unat rate)"

lemma query_tx_events:
  assumes "query_tx_by_hash L io sg h w = Some (Done (Ok (Some s)), w')"
  shows "\<exists>resp body tx. http_get io (ts_lcd_url sg @ ''/cosmos/tx/v1beta1/txs/'' @ h) w =
       Some (Done (Ok resp), w') \<and> body_json resp = Ok body \<and> json_get ''tx_response'' body = Some tx \<and>
     events s = parse_tx_events L tx"
proof -
  from assms obtain resp where g: "http_get io (ts_lcd_url sg @ ''/cosmos/tx/v1beta1/txs/'' @ h) w =
       Some (Done (Ok resp), w')"
    and p: "parse_tx_query_body L (status resp) (case body_json resp of Inr b \<Rightarrow> b | Inl _ \<Rightarrow> JNull) = Ok (Some s)"
    unfolding query_tx_by_hash_def Let_def by (auto simp: io_then_Ok_iff io_map_err_Ok_iff)
  from p obtain tx where tx: "json_get ''tx_response'' (case body_json resp of Inr b \<Rightarrow> b | Inl _ \<Rightarrow> JNull) = Some tx"
    "events s = parse_tx_events L tx"
    unfolding parse_tx_query_body_def Let_def
    by (auto simp: and_then_Ok_iff ok_or_Ok_iff split: if_splits)
  from tx(1) obtain body where "body_json resp = Ok body" "json_get ''tx_response'' body = Some tx"
    by (cases "body_json resp") auto
  with g tx(2) show ?thesis by blast
qed

lemma call_in_history:
  assumes "state_after a s0 hist s" and "(h, c) \<in> set hist"
  shows "\<exists>xs ys s1 s2. hist = xs @ (h, c) # ys \<and> state_after a s0 xs s1 \<and> oracle_step a c s1 s2"
proof -
  from assms(2) obtain xs ys where h: "hist = xs @ (h, c) # ys" by (meson split_list)
  with assms(1) show ?thesis by (auto simp: state_after_def run_append run_cons_iff)
qed


lemma event_evidence:
  assumes "reports_chain sv cfg sg a s0 past"
    and "query_tx_by_hash (sv_lcd sv) (sv_io sv) sg h w = Some (Done (Ok (Some s)), w')"
    and "g \<in> set (wasm_attr_groups (events s))" and "proves_update (sc_oracle_contract cfg) rate g"
  shows "\<exists>h' c. (h', c) \<in> set (past w') \<and> eq_ignore_ascii_case h' h \<and> call_msg c = UpdateRate rate"
proof -
  let ?ex = "{attributes (call_response c) | h' c. (h', c) \<in> set (past w') \<and> eq_ignore_ascii_case h' h}"
  from query_tx_events[OF assms(2)] obtain resp body tx where
    q: "http_get (sv_io sv) (ts_lcd_url sg @ ''/cosmos/tx/v1beta1/txs/'' @ h) w = Some (Done (Ok resp), w')"
    "body_json resp = Ok body" "json_get ''tx_response'' body = Some tx"
    and ev: "events s = parse_tx_events (sv_lcd sv) tx" by blast
  from assms(1) q have "\<forall>ev\<in>reported_events tx. faithful_event (sv_lcd sv) (sc_oracle_contract cfg) ?ex ev"
    unfolding reports_chain_def by blast
  from faithful_group[OF assms(3)[unfolded ev] this assms(4)] obtain address h' c where
    g: "g = (''_contract_address'', address) # attributes (call_response c)"
    and c: "(h', c) \<in> set (past w')" "eq_ignore_ascii_case h' h" by blast
  from assms(1) obtain t where "state_after a s0 (past w') t" unfolding reports_chain_def by meson
  from call_in_history[OF this c(1)] obtain s1 s2 where step: "oracle_step a c s1 s2" by blast
  from assms(4) have "(''action'', ''update_rate'') \<in> set (attributes (call_response c))"
    unfolding proves_update_def g by simp
  from update_rate_attribute[OF step this] obtain r where r: "call_msg c = UpdateRate r"
    "attributes (call_response c) = [(''action'', ''update_rate''), (''rate'', show_nat (unat r))]" by blast
  from assms(4) have "parse_uint (trim (show_nat (unat r))) = Some rate"
    unfolding proves_update_def g r(2) by (simp add: values_of_def)
  with r(1) c show ?thesis by (auto simp: trim_show_nat parse_uint_show_nat)
qed

lemma executed_after:
  assumes chain: "reports_chain sv cfg sg a s0 past" and "prefix before (past w)"
    and "(h, c) \<in> set (past w)" and "(h, c) \<notin> set before" and "call_msg c = UpdateRate rate"
  shows "rate_set_after a s0 past before rate"
proof -
  from assms(2) obtain new where new: "past w = before @ new" by (auto simp: prefix_def)
  with assms(3,4) obtain xs ys where "new = xs @ (h, c) # ys" by (auto dest!: split_list)
  with new have p: "past w = before @ xs @ (h, c) # ys" by simp
  from chain obtain t where "state_after a s0 (past w) t" unfolding reports_chain_def by meson
  then obtain s1 s2 where "state_after a s0 (before @ xs) s1" "oracle_step a c s1 s2"
    unfolding state_after_def p by (auto simp: run_append run_cons_iff)
  moreover from update_call_rate[OF this(2) assms(5)] have "rate_of s2 = unat rate" .
  moreover have "is_update c" using assms(5) by (simp add: is_update_def)
  ultimately show ?thesis using p unfolding rate_set_after_def by blast
qed

lemma state_evidence:
  assumes chain: "reports_chain sv cfg sg a s0 past"
    and prior: "query_state sv cfg sg w1 = Some (Done (Ok prior), w2)"
    and now: "query_state sv cfg sg w3 = Some (Done (Ok st), w4)"
    and later: "sr_last_update_sec prior < sr_last_update_sec st"
  shows "rate_set_after a s0 past (past w2) (sr_rate st)"
proof -
  from chain prior obtain s1 where s1: "state_after a s0 (past w2) s1" "oracle_query_state s1 = Ok prior"
    unfolding reports_chain_def by meson
  from chain now obtain s2 where s2: "state_after a s0 (past w4) s2" "oracle_query_state s2 = Ok st"
    unfolding reports_chain_def by meson
  from s1(2) s2(2) have views: "last_update_of s1 = unat (sr_last_update_sec prior)"
    "last_update_of s2 = unat (sr_last_update_sec st)" "rate_of s2 = unat (sr_rate st)"
    by (auto simp: oracle_query_state_Ok_iff oracle_views)
  with later have l: "last_update_of s1 < last_update_of s2" by (simp add: word_less_nat_alt)
  have "prefix (past w2) (past w4)"
  proof (rule ccontr)
    assume "\<not> prefix (past w2) (past w4)"
    with chain have "prefix (past w4) (past w2)" unfolding reports_chain_def by blast
    then obtain zs where "past w2 = past w4 @ zs" by (auto simp: prefix_def)
    with s1(1) s2(1) have "run (oracle_step a) s2 (map snd zs) s1" by (metis state_after_append)
    from oracle_run_last_update_mono[OF this] l show False by simp
  qed
  then obtain new where new: "past w4 = past w2 @ new" by (auto simp: prefix_def)
  with s1(1) s2(1) have r: "run (oracle_step a) s1 (map snd new) s2" by (metis state_after_append)
  from last_update_moved[OF r] l obtain cs c ds t1 t2 where
    u: "map snd new = cs @ c # ds" "run (oracle_step a) s1 cs t1" "oracle_step a c t1 t2"
      "is_update c" "rate_of t2 = rate_of s2" by (metis less_irrefl)
  from u(1) obtain xs h ys where n: "new = xs @ (h, c) # ys" "cs = map snd xs"
    by (auto simp: map_eq_append_conv map_eq_Cons_conv)
  with new have "past w4 = past w2 @ xs @ (h, c) # ys" by simp
  moreover from s1(1) u(2) n(2) have "state_after a s0 (past w2 @ xs) t1"
    by (auto simp: state_after_def run_append)
  ultimately show ?thesis
    unfolding rate_set_after_def using u(3-5) views(3) by metis
qed

lemma proven_update_executed:
  assumes chain: "reports_chain sv cfg sg a s0 past"
    and prior: "query_state sv cfg sg w1 = Some (Done (Ok prior), w2)"
    and now: "now_unix (sv_io sv) w2 = (now, w3)"
    and proven: "update_proven sv cfg sg prior rate w3"
  shows "rate_set_after a s0 past (past w2) rate"
proof -
  from proven obtain h w4 s w5 where
    send: "sign_and_broadcast_execute (sv_lcd sv) (sv_wallet sv) (sv_io sv) (sv_execute_to_vec sv) sg
        (sc_oracle_contract cfg) (UpdateRate rate) w3 = Some (Done (Ok h), w4)"
    and wait: "wait_for_deliver_tx_success (sv_lcd sv) (sv_io sv) sg h
        (from_secs_and_ms (sc_tx_confirm_timeout_secs cfg) (sc_tx_confirm_poll_interval_ms cfg)) w4 =
        Some (Done (Ok s), w5)"
    and ev: "update_evidence sv cfg sg prior rate (events s)"
    unfolding update_proven_def by blast
  from ev consider (event) g where "g \<in> set (wasm_attr_groups (events s))"
      "proves_update (sc_oracle_contract cfg) rate g"
    | (state) st w w' where "query_state sv cfg sg w = Some (Done (Ok st), w')" "sr_rate st = rate"
        "sr_last_update_sec prior < sr_last_update_sec st"
    unfolding update_evidence_def by blast
  then show ?thesis
  proof cases
    case event
    from wait_Ok[OF wait] obtain w where
      "query_tx_by_hash (sv_lcd sv) (sv_io sv) sg h w = Some (Done (Ok (Some s)), w5)" by blast
    from event_evidence[OF chain this event] obtain h' c where
      c: "(h', c) \<in> set (past w5)" "eq_ignore_ascii_case h' h" "call_msg c = UpdateRate rate" by blast
    from chain send c(2) have fresh: "(h', c) \<notin> set (past w3)" unfolding reports_chain_def by fastforce
    have "prefix (past w2) (past w3)"
      using chain now unfolding reports_chain_def by (metis snd_conv)
    with fresh have old: "(h', c) \<notin> set (past w2)" by (auto simp: prefix_def)
    then have "\<not> prefix (past w5) (past w2)" using c(1) by (auto simp: prefix_def)
    with chain have "prefix (past w2) (past w5)" unfolding reports_chain_def by blast
    from executed_after[OF chain this c(1) old c(3)] show ?thesis .
  next
    case state
    from state_evidence[OF chain prior state(1,3)] state(2) show ?thesis by simp
  qed
qed

end
