(* ===== verification/Service_Scenario.thy ===== *)
theory Service_Scenario
  imports Service_Provenance Service_Broadcast Window_Scenario Service_Authentic
begin

text \<open>
  A concrete run of the oracle service, used to show that the hypotheses of its properties can
  hold: an environment, two BSC providers, an LCD node whose contract is the oracle of
  \<open>Window_Scenario\<close> before its second update, and the tick that submits that update.
\<close>

section \<open>Third-party code\<close>

definition plain_urls :: "string url_lib" where
  "plain_urls = \<lparr>url_parse = (\<lambda>s. Ok s), url_scheme = (\<lambda>_. ''https''), url_host_str = (\<lambda>_. None),
     url_set_username = (\<lambda>_ u. u), url_set_password = (\<lambda>_ u. u), url_set_query = (\<lambda>_ u. u),
     url_set_fragment = (\<lambda>_ u. u), url_to_string = (\<lambda>u. u)\<rparr>"

definition plain_lcd :: "string lcd_lib" where
  "plain_lcd = \<lparr>base64_decode = (\<lambda>_. Err ''not base64''), base64_encode = (\<lambda>s. s),
     json_to_string = (\<lambda>_. ''{}''), str_debug = (\<lambda>s. s), lcd_urls = plain_urls,
     status_text = (\<lambda>_. ''status'')\<rparr>"

definition plain_wallet :: "string wallet_lib" where
  "plain_wallet = \<lparr>build_client = (\<lambda>_. Ok ()), mnemonic_parse = (\<lambda>s. Ok s), to_seed = (\<lambda>s _. s),
     path_parse = (\<lambda>s. Ok s), derive_from_path = (\<lambda>s _. Ok s), public_key = (\<lambda>k. k),
     account_id = (\<lambda>_ _. Ok ''terra1op''), account_id_parse = (\<lambda>s. Ok s), denom_parse = (\<lambda>s. Ok s),
     chain_id_parse = (\<lambda>s. Ok s), to_any = (\<lambda>m. Ok (ec_msg m)), sign_doc_new = (\<lambda>_ _ _ _. Ok ''doc''),
     sign_doc_sign = (\<lambda>d _. Ok d), tx_to_bytes = (\<lambda>r. Ok r)\<rparr>"

definition plain_tcp :: "string tcp_lib" where
  "plain_tcp = \<lparr>tcp_bind = (\<lambda>s. Ok s), local_addr = (\<lambda>l. Ok l)\<rparr>"

section \<open>Providers\<close>

definition plain_provider :: "string provider" where
  "plain_provider = \<lparr>get_chain_id = Ok 56, get_block_number = Ok 1000,
     exchange_rate_stored_at = (\<lambda>_ _. Ok 12200000000000000000000000000),
     underlying_at = (\<lambda>_ _. Ok ''fdusd''),
     decimals_at = (\<lambda>a _. Ok (if a = ''fdusd'' then 18 else 8))\<rparr>"

definition plain_client :: "string bsc_client" where
  "plain_client = \<lparr>build_http_provider = (\<lambda>_ _. Ok plain_provider), parse_address = (\<lambda>s. Ok s),
     u256_pow = (\<lambda>b e. b ^ unat e)\<rparr>"

lemma ten_to_77: "n \<le> 77 \<Longrightarrow> (10 :: nat) ^ n < 2 ^ 256"
proof -
  assume "n \<le> 77"
  then have "(10 :: nat) ^ n \<le> 10 ^ 77" by (rule power_increasing) simp
  also have "\<dots> < 2 ^ 256" by simp
  finally show ?thesis .
qed

lemma plain_pow: "pow_exact plain_client"
  unfolding pow_exact_def
proof (intro allI impI)
  fix n :: nat assume n: "n \<le> 77"
  then have "unat (of_nat n :: u256) = n" by (simp add: unsigned_of_nat take_bit_nat_eq_self)
  moreover have "unat ((10 :: u256) ^ n) = 10 ^ n"
  proof -
    have "(10 :: u256) ^ n = of_nat (10 ^ n)" by simp
    then have "unat ((10 :: u256) ^ n) = take_bit 256 (10 ^ n)" by (simp add: unsigned_of_nat del: of_nat_power)
    with ten_to_77[OF n] show ?thesis by (simp add: take_bit_nat_eq_self)
  qed
  ultimately show "unat (u256_pow plain_client 10 (of_nat n)) = 10 ^ n" by (simp add: plain_client_def)
qed

section \<open>Configuration and start\<close>

definition env_map :: "string \<Rightarrow> string option" where
  "env_map k =
     (if k = ''BSC_RPC_URLS'' then Some ''a,b'' else if k = ''VENUS_VTOKEN_ADDRESS'' then Some ''v''
      else if k = ''TERRA_LCD_URL'' then Some ''lcd'' else if k = ''TERRA_MNEMONIC'' then Some ''words''
      else if k = ''ORACLE_CONTRACT'' then Some ''oracle'' else None)"

definition plain_env :: "(string, string) config_deps" where
  "plain_env = \<lparr>env_var = env_map, address_from_str = (\<lambda>_. Ok []), env_urls = plain_urls\<rparr>"

definition plain_config :: service_config where
  "plain_config = \<lparr>sc_bsc_rpc_urls = [''a'', ''b''], sc_bsc_confirmation_blocks = 15,
     sc_bsc_rpc_timeout_secs = 30, sc_allowed_bsc_chain_ids = [56], sc_venus_vtoken_address = ''v'',
     sc_terra_lcd_url = ''lcd'', sc_terra_chain_id = ''columbus-5'', sc_terra_mnemonic = ''words'',
     sc_terra_gas_price = DEFAULT_GAS_PRICE, sc_oracle_contract = ''oracle'',
     sc_poll_interval_secs = 3600, sc_tick_timeout_secs = 120,
     sc_max_silence_since_broadcast_secs = 21600, sc_tx_confirm_timeout_secs = 90,
     sc_tx_confirm_poll_interval_ms = 2000, sc_healthz_bind = ''0.0.0.0:8080''\<rparr>"

lemma env_values:
  "env_map ''BSC_RPC_URLS'' = Some ''a,b''" "env_map ''VENUS_VTOKEN_ADDRESS'' = Some ''v''"
  "env_map ''TERRA_LCD_URL'' = Some ''lcd''" "env_map ''TERRA_MNEMONIC'' = Some ''words''"
  "env_map ''ORACLE_CONTRACT'' = Some ''oracle''" "env_map ''DEV_ALLOW_HTTP'' = None"
  "env_map ''BSC_ALLOWED_CHAIN_IDS'' = None" "env_map ''HEALTHZ_BIND'' = None"
  "env_map ''TERRA_GAS_PRICE'' = None" "env_map ''TERRA_GAS_PRICE_ULUNA'' = None"
  "env_map ''BSC_CONFIRMATION_BLOCKS'' = None" "env_map ''BSC_RPC_TIMEOUT_SECS'' = None"
  "env_map ''TERRA_CHAIN_ID'' = None" "env_map ''POLL_INTERVAL_SECS'' = None"
  "env_map ''TICK_TIMEOUT_SECS'' = None" "env_map ''ORACLE_MAX_SILENCE_SECS'' = None"
  "env_map ''ORACLE_TX_CONFIRM_TIMEOUT_SECS'' = None"
  "env_map ''ORACLE_TX_CONFIRM_POLL_INTERVAL_MS'' = None"
  by (simp_all add: env_map_def)

lemma visible_texts:
  "trim ''a'' = ''a''" "trim ''b'' = ''b''" "trim ''v'' = ''v''" "trim ''56'' = ''56''"
  "trim ''oracle'' = ''oracle''" "trim ''_contract_address'' = ''_contract_address''"
  "trim ''action'' = ''action''" "trim ''update_rate'' = ''update_rate''" "trim ''rate'' = ''rate''"
  by (rule trim_visible, simp add: visible_def byte_of_def)+

lemma plain_config_from_env: "config_from_env plain_env = Ok plain_config"
proof -
  have e: "env_var plain_env = env_map" by (simp add: plain_env_def)
  have urls: "parse_comma_separated_rpc_urls ''a,b'' = [''a'', ''b'']"
    by (simp add: parse_comma_separated_rpc_urls_def visible_texts)
  have ids: "parse_allowed_bsc_chain_ids plain_env = Ok [56]"
  proof -
    have "(parse_uint ''56'' :: u64 option) = Some 56"
      by (simp add: parse_uint_def is_digit_def byte_of_def)
    then show ?thesis
      by (simp add: parse_allowed_bsc_chain_ids_def e env_values visible_texts)
  qed
  have url: "validate_https_url plain_env u f b = Ok ()" for u f b
    by (simp add: validate_https_url_def plain_env_def plain_urls_def)
  have venus: "validate_venus_vtoken_address plain_env a i = Ok ()" for a i
    by (simp add: validate_venus_vtoken_address_def plain_env_def)
  have dev: "dev_allow_http plain_env = False" by (simp add: dev_allow_http_def e env_values)
  have gas: "gas_price_setting plain_env = DEFAULT_GAS_PRICE"
    by (simp add: gas_price_setting_def e env_values)
  have pos: "\<not> f64_le DEFAULT_GAS_PRICE (Finite 0)" by (simp add: default_gas_price)
  have req: "required plain_env k = ok_or (Required k) (env_map k)" for k
    by (simp add: required_def e)
  have or: "parse_or n None = n" for n :: "'n::len word" by (simp add: parse_or_def)
  have resolve: "resolve_poll_interval_secs None = 3600" "resolve_max_silence_secs None = 21600"
    by (simp_all add: resolve_poll_interval_secs_def resolve_max_silence_secs_def or
        DEFAULT_POLL_INTERVAL_SECS_def DEFAULT_ORACLE_MAX_SILENCE_SECS_def DEFAULT_MAX_ORACLE_AGE_SECS_def)
  have hz: "parse_healthz_bind plain_env = ''0.0.0.0:8080''"
    by (simp add: parse_healthz_bind_def e env_values)
  show ?thesis
    unfolding config_from_env_def Let_def req env_values e ok_or_simps and_then_simps urls dev ids
      venus url gas hz or resolve plain_config_def
    using pos by (simp add: url)
qed

definition plain_signer :: "string terra_signer" where
  "plain_signer = \<lparr>signing_key = ''words'', ts_address = ''terra1op'', ts_lcd_url = ''lcd'',
     ts_chain_id = ''columbus-5'', ts_gas_limit = DEFAULT_GAS_LIMIT, ts_gas_price = DEFAULT_GAS_PRICE\<rparr>"

definition plain_started :: "string started_service" where
  "plain_started = \<lparr>st_config = plain_config, st_warnings = [],
     st_chain_ids = [''a'' \<mapsto> 56, ''b'' \<mapsto> 56], st_signer = plain_signer\<rparr>"

lemma plain_start: "start_service plain_env plain_client plain_wallet plain_tcp = Ok plain_started"
proof -
  have w: "ops_timing_warnings 3600 21600 = []"
    unfolding ops_timing_no_warning_iff by simp
  have v: "verify_all_bsc_rpc_urls plain_client [''a'', ''b''] [56] 30 Map.empty =
      (Ok (), [''a'' \<mapsto> 56, ''b'' \<mapsto> 56])"
    by (simp add: plain_client_def plain_provider_def verify_bsc_rpc_chain_id_def)
  have sg: "terra_signer_new plain_wallet
          \<lparr>tsc_lcd_url = ''lcd'', tsc_chain_id = ''columbus-5'', tsc_mnemonic = ''words'',
           tsc_gas_limit = None, tsc_gas_price = DEFAULT_GAS_PRICE\<rparr> = Ok plain_signer"
    by (simp add: terra_signer_new_def plain_wallet_def plain_signer_def trim_end_slashes_def)
  have h: "spawn_healthz_server plain_tcp b = Ok b" for b
    by (simp add: spawn_healthz_server_def plain_tcp_def)
  show ?thesis
    unfolding start_service_def plain_config_from_env map_err_simps and_then_simps Let_def
    by (simp add: plain_config_def w v sg h plain_started_def del: verify_all_bsc_rpc_urls.simps)
qed

section \<open>The chain as the service sees it\<close>

text \<open>
  The world is the clock and whether the transaction was posted. A request takes a
  millisecond; a sleep takes as long as asked.
\<close>

definition state_before :: state_response where
  "state_before = \<lparr>sr_rate = rate_1, sr_last_update_sec = 1000000, sr_utc_day_id = 11,
     sr_day_baseline_rate = 1210000000000000000, sr_paused = False\<rparr>"

definition state_updated :: state_response where
  "state_updated = \<lparr>sr_rate = rate_2, sr_last_update_sec = 1014400, sr_utc_day_id = 11,
     sr_day_baseline_rate = 1210000000000000000, sr_paused = False\<rparr>"

definition update_attrs :: "(string \<times> string) list" where
  "update_attrs = [(''action'', ''update_rate''), (''rate'', show_nat (unat rate_2))]"

definition tx_answer :: json where
  "tx_answer = JObject
     [(''code'', JNumber (PosInt 0)), (''txhash'', JString ''AB12''), (''raw_log'', JString []),
      (''events'', JArray [wasm_event_json (\<lambda>s. s) ''oracle'' update_attrs])]"

definition account_7 :: account_info where
  "account_7 = \<lparr>ai_sequence = 7, ai_account_number = 3\<rparr>"

definition plain_get :: "string \<Rightarrow> (http_response, string, nat \<times> bool) io" where
  "plain_get u w =
     Some (Done (Ok (
       if u = ''lcd/cosmos/auth/v1beta1/accounts/terra1op'' then
         \<lparr>status = 200, body_json = Ok (account_answer (account_object account_7))\<rparr>
       else if u = ''lcd/cosmwasm/wasm/v1/contract/oracle/smart/state'' then
         \<lparr>status = 200, body_json = Ok (JObject [(''data'', JObject [(''updated'', JBool (snd w))])])\<rparr>
       else if u = ''lcd/cosmos/tx/v1beta1/txs/AB12'' \<and> snd w then
         \<lparr>status = 200, body_json = Ok (JObject [(''tx_response'', tx_answer)])\<rparr>
       else \<lparr>status = 404, body_json = Ok JNull\<rparr>)),
       (fst w + 1000000, snd w))"

definition plain_post :: "string \<Rightarrow> json \<Rightarrow> (http_response, string, nat \<times> bool) io" where
  "plain_post u b w =
     Some (Done (Ok \<lparr>status = 200, body_json = Ok (JObject [(''tx_response'',
       JObject [(''code'', JNumber (PosInt (if snd w then 19 else 0))), (''txhash'', JString ''AB12'')])])\<rparr>),
       (fst w + 1000000, True))"

definition plain_io :: "(nat \<times> bool) service_io" where
  "plain_io = \<lparr>http_get = plain_get, http_post = plain_post, clock = (\<lambda>w. (fst w, w)),
     instant_limit = 2 ^ 93, sleep_for = (\<lambda>d w. (True, (fst w + d, snd w))),
     unix_time = (\<lambda>w. (Some 1014400, w))\<rparr>"

definition plain_answers :: "string bsc_answers" where
  "plain_answers = \<lparr>ba_client = (\<lambda>_. plain_client), ba_overlap = True, ba_dropped = None\<rparr>"

definition plain_service :: "(string, string, string, nat \<times> bool) service" where
  "plain_service = \<lparr>sv_lcd = plain_lcd, sv_wallet = plain_wallet, sv_io = plain_io,
     sv_bsc = (\<lambda>w. (plain_answers, w)), sv_query_to_vec = (\<lambda>_. Ok ''state''),
     sv_execute_to_vec = (\<lambda>_. Ok ''update''),
     sv_state_de = \<lparr>from_slice = (\<lambda>_. Err ''no''), from_value = (\<lambda>j.
       Ok (if json_get ''updated'' j = Some (JBool True) then state_updated else state_before))\<rparr>\<rparr>"

lemma plain_time: "time_advances plain_io fst"
  by (simp add: time_advances_def plain_io_def plain_get_def plain_post_def)

section \<open>The tick\<close>

definition started_at :: "nat \<Rightarrow> (nat \<times> bool) operator_state" where
  "started_at t = \<lparr>op_service = initial_service_state (st_chain_ids plain_started) t,
     op_world = (t, False), op_log = [], op_running = True\<rparr>"

lemma plain_bsc_read:
  assumes "url \<in> {''a'', ''b''}"
  shows "bsc_read plain_config plain_client url [''a'' \<mapsto> 56, ''b'' \<mapsto> 56] =
     (Ok rate_2, [''a'' \<mapsto> 56, ''b'' \<mapsto> 56])"
proof -
  have "venus_exchange_rate_to_oracle_r (u256_pow plain_client) 12200000000000000000000000000 18 8 = Ok rate_2"
  proof (subst venus_rate_Ok_iff)
    show "unat (u256_pow plain_client 10 (ucast (ucast (18 - 8 :: u8) :: u32))) = 10 ^ (unat (18 :: u8) - unat (8 :: u8))"
      by (simp add: plain_client_def)
    show "unat (8 :: u8) \<le> unat (18 :: u8) \<and>
      unat rate_2 = unat (12200000000000000000000000000 :: u256) div 10 ^ (unat (18 :: u8) - unat (8 :: u8))"
      by (simp add: rate_2_def)
  qed
  then have "read_rate_at_block plain_client plain_provider ''v'' 15 = Ok rate_2"
    unfolding read_rate_Ok_iff by (auto simp: plain_provider_def plain_client_def)
  with assms show ?thesis
    by (auto simp: bsc_read_def read_exchange_rate_stored_def plain_config_def
        verify_bsc_rpc_chain_id_def plain_client_def)
qed

lemma plain_rate:
  assumes "ss_chain_ids s = [''a'' \<mapsto> 56, ''b'' \<mapsto> 56]"
  shows "proposed_rate plain_service plain_config (s, w) = Some (Done (Ok rate_2), (s, w))"
proof -
  let ?c = "[''a'' \<mapsto> 56, ''b'' \<mapsto> 56] :: chain_id_cache"
  have u: "sc_bsc_rpc_urls plain_config = [''a'', ''b'']" by (simp add: plain_config_def)
  have f: "first_reads plain_config plain_answers ?c = ((Ok rate_2, ?c), (Ok rate_2, ?c))"
    by (simp add: first_reads_def u plain_bsc_read plain_answers_def)
  then have r: "read_of_call plain_config plain_answers ?c 0 = (Ok rate_2, ?c)"
    "read_of_call plain_config plain_answers ?c (Suc 0) = (Ok rate_2, ?c)"
    by (simp_all add: read_of_call_def)
  have "run_with_evm_rpc_rate_consensus [''a'', ''b'']
      (\<lambda>k url. fst (read_of_call plain_config plain_answers ?c k)) = Ok rate_2"
    by (simp add: run_with_evm_rpc_rate_consensus_def r)
  moreover have "cache_after_calls plain_config plain_answers ?c 3 = ?c"
    by (simp add: cache_after_calls_def u third_read_needed_def r)
  moreover have "s\<lparr>ss_chain_ids := ?c\<rparr> = s" using assms by simp
  ultimately show ?thesis
    using assms by (simp add: proposed_rate_def plain_service_def plain_answers_def u)
qed

lemma plain_query_state:
  "query_state plain_service plain_config plain_signer w =
     Some (Done (Ok (if snd w then state_updated else state_before)), (fst w + 1000000, snd w))"
  by (simp add: query_state_def query_wasm_smart_def plain_service_def plain_signer_def plain_config_def
      io_then_def io_await_def io_return_def plain_io_def plain_get_def plain_lcd_def is_success_def
      word_le_nat_alt word_less_nat_alt parse_wasm_smart_query_data_def)

lemma plain_decide:
  "decide_tick_action rate_2 state_before 1014400 = Ok (Submit 11 1210000000000000000 False)"
  unfolding decide_Submit_iff
  by (simp add: state_before_def check_rate_update_Ok_iff throttled_def within_daily_cap_def
      rate_1_def rate_2_def word_le_nat_alt)

lemma plain_account:
  "get_account_info plain_lcd plain_io plain_signer w =
     Some (Done (Ok account_7), (fst w + 1000000, snd w))"
proof -
  have "parse_account_info L (account_answer (account_object account_7)) = Ok account_7"
    for L :: "string lcd_lib"
    using parse_account_wrapped[of "[]" L account_7] by simp
  then show ?thesis
    by (simp add: get_account_info_def plain_signer_def io_then_def io_await_def io_return_def
        plain_io_def plain_get_def is_success_def word_le_nat_alt word_less_nat_alt)
qed

lemma plain_gas_price:
  "resolve_gas_price plain_lcd plain_io plain_signer w =
     Some (Done (Ok DEFAULT_GAS_PRICE), (fst w + 1000000, snd w))"
  by (simp add: resolve_gas_price_def query_network_min_gas_price_def plain_signer_def io_then_def
      io_await_def io_return_def plain_io_def plain_get_def is_success_def word_less_nat_alt
      word_le_nat_alt)

lemma plain_broadcast:
  "sign_and_broadcast_execute plain_lcd plain_wallet plain_io (\<lambda>_. Ok ''update'') plain_signer
     ''oracle'' (UpdateRate r) (t, False) = Some (Done (Ok ''AB12''), (t + 3000000, True))"
proof -
  have tx: "signed_tx plain_lcd plain_wallet plain_signer account_7 DEFAULT_GAS_PRICE ''oracle'' (Ok ''update'') =
      Ok ''doc''"
    by (simp add: signed_tx_def plain_wallet_def plain_lcd_def)
  have "sign_and_broadcast_execute_inner plain_lcd plain_wallet plain_io (\<lambda>_. Ok ''update'') plain_signer
      ''oracle'' (UpdateRate r) (t, False) = Some (Done (Ok ''AB12''), (t + 3000000, True))"
    unfolding sign_and_broadcast_execute_inner_def io_then_Ok[OF plain_account] io_then_Ok[OF plain_gas_price] tx
    by (simp add: io_then_def io_map_err_def io_await_def io_return_def plain_io_def plain_post_def
        check_tx_hash_def is_success_def word_le_nat_alt word_less_nat_alt get_str_or_empty_def)
  then show ?thesis
    by (simp add: sign_and_broadcast_execute_def io_await_def io_return_def)
qed

definition plain_summary :: tx_response_summary where
  "plain_summary = \<lparr>txhash = ''AB12'', code = 0, raw_log = [],
     events = parse_tx_events plain_lcd tx_answer\<rparr>"

lemma plain_query_tx:
  "query_tx_by_hash plain_lcd plain_io plain_signer ''AB12'' (t, True) =
     Some (Done (Ok (Some plain_summary)), (t + 1000000, True))"
proof -
  have nf: "\<not> tx_body_looks_not_found plain_lcd b" for b
    by (simp add: tx_body_looks_not_found_def plain_lcd_def str_contains_def to_ascii_lowercase_def
        to_lower_char_def is_upper_def byte_of_def sublist_Cons_right)
  have "parse_tx_query_body plain_lcd 200 (JObject [(''tx_response'', tx_answer)]) = Ok (Some plain_summary)"
    by (simp add: parse_tx_query_body_def nf http_status_is_not_found_def is_success_def word_le_nat_alt
        word_less_nat_alt plain_summary_def tx_answer_def get_str_or_empty_def Let_def)
  then show ?thesis
    by (simp add: query_tx_by_hash_def plain_signer_def io_then_def io_map_err_def io_await_def io_return_def
        plain_io_def plain_get_def)
qed

lemma plain_wait:
  "wait_for_deliver_tx_success plain_lcd plain_io plain_signer ''AB12'' (from_secs_and_ms 90 2000) (t, True) =
     Some (Done (Ok plain_summary), (t + 1000000, True))"
  if "t < 2 ^ 92"
proof -
  have v: "confirm_verdict ''AB12'' (Ok (Some plain_summary)) = Some (Ok plain_summary)"
    by (simp add: confirm_verdict_def plain_summary_def)
  have c: "clock plain_io (t, True) = (t, (t, True))" "instant_limit plain_io = 2 ^ 93"
    by (simp_all add: plain_io_def)
  have "confirm_loop plain_lcd plain_io plain_signer ''AB12'' conf d 0 (t, True) =
      Some (Done (Ok plain_summary), (t + 1000000, True))" for conf d
    by (subst confirm_loop.simps) (simp add: plain_query_tx v Let_def)
  then show ?thesis
    using that
    by (simp add: wait_for_deliver_tx_success_def c from_secs_and_ms_def duration_from_secs_def)
qed

lemma plain_decode:
  "decode_tendermint_attr plain_lcd x = trim x"
  by (simp add: decode_tendermint_attr_def plain_lcd_def Let_def)

lemma plain_match:
  "oracle_tx_events_match_update ''oracle'' rate_2 (events plain_summary) = Ok Matched"
proof -
  obtain s' r where up: "execute_update_rate (at_time 1014400) (sent_by ''op'') rate_2 (oracle_at rate_1 1000000) = Ok (s', r)"
    using oracle_second_update by (auto simp: oracle_step_def oracle_execute_def update_call_def)
  have "decode_tendermint_attr plain_lcd x = x"
    if "x \<in> {''oracle'', show_nat (unat rate_2), ''_contract_address'', ''action'', ''update_rate'', ''rate''}" for x
    using that unfolding plain_decode by (auto simp: visible_texts trim_show_nat)
  with update_event_matches[OF up, of "''oracle''" plain_lcd "\<lambda>s. s" tx_answer
      "[wasm_event_json (\<lambda>s. s) ''oracle'' update_attrs]"]
  show ?thesis
    by (simp add: tx_answer_def plain_summary_def update_attributes[OF up] update_attrs_def)
qed

lemma plain_submit:
  assumes "t < 2 ^ 90"
  shows "submit_and_confirm_oracle_update plain_service plain_config plain_signer rate_2 state_before (t, False) =
    Some (Done (Ok ''AB12''), (t + 5000000, True))"
proof -
  have small: "t + 3000000 < 2 ^ 92" using assms by simp
  have fields: "sv_lcd plain_service = plain_lcd" "sv_wallet plain_service = plain_wallet"
    "sv_io plain_service = plain_io" "sv_execute_to_vec plain_service = (\<lambda>_. Ok ''update'')"
    "sc_oracle_contract plain_config = ''oracle''" "sc_tx_confirm_timeout_secs plain_config = 90"
    "sc_tx_confirm_poll_interval_ms plain_config = 2000"
    by (simp_all add: plain_service_def plain_config_def)
  have send: "io_then (sign_and_broadcast_execute plain_lcd plain_wallet plain_io (\<lambda>_. Ok ''update'') plain_signer
      ''oracle'' (UpdateRate rate_2)) k (t, False) = k ''AB12'' (t + 3000000, True)"
    for k :: "string \<Rightarrow> (string, string, nat \<times> bool) io"
    by (simp add: io_then_def io_await_def plain_broadcast)
  have wait: "io_then (wait_for_deliver_tx_success plain_lcd plain_io plain_signer ''AB12'' (from_secs_and_ms 90 2000))
      k (t + 3000000, True) = k plain_summary (t + 4000000, True)"
    for k :: "tx_response_summary \<Rightarrow> (string, string, nat \<times> bool) io"
    using plain_wait[OF small] by (simp add: io_then_def io_await_def add.commute)
  have rest: "io_then (observe_state_after_event_ok plain_service plain_config plain_signer) (\<lambda>_. io_return (Ok h)) w =
      Some (Done (Ok h), (fst w + 1000000, snd w))" for h w
    unfolding observe_state_after_event_ok_def by (simp add: io_then_def io_await_def io_return_def plain_query_state)
  have ret: "io_then (io_return (Ok x)) k w = k x w"
    for k :: "oracle_tx_event_match \<Rightarrow> (string, string, nat \<times> bool) io" and x w
    by (simp add: io_then_def io_await_def io_return_def)
  show ?thesis
    unfolding submit_and_confirm_oracle_update_def Let_def fields send wait plain_match ret
    by (simp add: rest)
qed

definition after_tick :: "nat \<Rightarrow> service_state" where
  "after_tick t = \<lparr>ss_chain_ids = st_chain_ids plain_started,
     ss_liveness = \<lparr>poisoned = False, guarded = \<lparr>started = t, last_successful_broadcast = Some (t + 6000000)\<rparr>\<rparr>\<rparr>"

lemma plain_run_once:
  assumes "t < 2 ^ 89"
  shows "run_once plain_service plain_config plain_signer
     (initial_service_state (st_chain_ids plain_started) t, (t, False)) =
     Some (Done (Ok ()), (after_tick t, (t + 6000000, True)))"
proof -
  let ?s = "initial_service_state (st_chain_ids plain_started) t"
  have c: "ss_chain_ids ?s = [''a'' \<mapsto> 56, ''b'' \<mapsto> 56]"
    by (simp add: initial_service_state_def plain_started_def)
  have r: "io_map_err RateError (proposed_rate plain_service plain_config) (?s, (t, False)) =
      Some (Done (Ok rate_2), (?s, (t, False)))"
    by (simp add: io_map_err_Ok_iff plain_rate[OF c])
  have q: "io_map_err LcdError (io_lift (query_state plain_service plain_config plain_signer)) (?s, (t, False)) =
      Some (Done (Ok state_before), (?s, (t + 1000000, False)))"
    by (simp add: io_map_err_Ok_iff io_lift_Some_iff plain_query_state)
  have n: "now_unix (sv_io plain_service) w = (1014400, w)" for w
    by (simp add: now_unix_def plain_service_def plain_io_def)
  have "t + 1000000 < 2 ^ 90" using assms by simp
  from plain_submit[OF this] have sub: "io_map_err LcdError (io_lift (submit_and_confirm_oracle_update plain_service
      plain_config plain_signer rate_2 state_before)) (?s, (t + 1000000, False)) =
      Some (Done (Ok ''AB12''), (?s, (t + 6000000, True)))"
    by (simp add: io_map_err_Ok_iff io_lift_Some_iff)
  have rec: "record_liveness (sv_io plain_service) (?s, (t + 6000000, True)) =
      Some (Done (Ok () :: (unit, tick_error) result), (after_tick t, (t + 6000000, True)))"
    by (simp add: record_liveness_def plain_service_def plain_io_def after_tick_def initial_service_state_def
        lock_liveness_def mutex_lock_def liveness_new_def record_successful_broadcast_def)
  show ?thesis
    unfolding run_once_def
    using r q sub rec by (simp add: io_then_def io_await_def n plain_decide)
qed

lemma plain_operator_step:
  "operator_step plain_service plain_config plain_signer (started_at 1000)
     \<lparr>op_service = after_tick 1000, op_world = (3600000000000 + 6001000, True), op_log = [], op_running = True\<rparr>"
proof -
  have l: "liveness_check (sv_io plain_service) plain_config (op_service (started_at 1000))
      (op_world (started_at 1000)) = ([], (1000, False))"
    by (simp add: liveness_check_def started_at_def initial_service_state_def lock_liveness_def mutex_lock_def
        plain_service_def plain_io_def should_alert_def silence_since_last_broadcast_def liveness_new_def)
  have s: "sleep_for (sv_io plain_service) (duration_from_secs (sc_poll_interval_secs plain_config)) (6001000, True) =
      (True, (3600000000000 + 6001000, True))"
    by (simp add: plain_service_def plain_io_def plain_config_def duration_from_secs_def)
  have "run_once plain_service plain_config plain_signer (op_service (started_at 1000), (1000, False)) =
      Some (Done (Ok ()), (after_tick 1000, (6001000, True)))"
    using plain_run_once[of 1000] by (simp add: started_at_def)
  from operator_step.tick[OF _ l this _ s] show ?thesis
    by (simp add: started_at_def tick_log_def)
qed


section \<open>The chain behind the node\<close>

definition plain_past :: "nat \<times> bool \<Rightarrow> history" where
  "plain_past w = (if snd w then [(''AB12'', update_call 1014400 rate_2)] else [])"

lemma plain_no_second_broadcast:
  "sign_and_broadcast_execute plain_lcd plain_wallet plain_io (\<lambda>_. Ok ''update'') plain_signer ''oracle''
     (UpdateRate r) (t, True) \<noteq> Some (Done (Ok h), w')"
proof -
  have tx: "signed_tx plain_lcd plain_wallet plain_signer account_7 DEFAULT_GAS_PRICE ''oracle'' (Ok ''update'') =
      Ok ''doc''"
    by (simp add: signed_tx_def plain_wallet_def plain_lcd_def)
  let ?inner = "sign_and_broadcast_execute_inner plain_lcd plain_wallet plain_io (\<lambda>_. Ok ''update'')
     plain_signer ''oracle'' (UpdateRate r)"
  have inner: "\<exists>e. ?inner (t, True) = Some (Done (Err e), (t + 3000000, True))" for t
    unfolding sign_and_broadcast_execute_inner_def io_then_Ok[OF plain_account] io_then_Ok[OF plain_gas_price] tx
    by (simp add: io_then_def io_map_err_def io_await_def io_return_def plain_io_def plain_post_def
        check_tx_hash_def is_success_def word_le_nat_alt word_less_nat_alt get_str_or_empty_def)
  obtain e1 e2 where "?inner (t, True) = Some (Done (Err e1), (t + 3000000, True))"
    "?inner (t + 3000000, True) = Some (Done (Err e2), (t + 3000000 + 3000000, True))"
    using inner by meson
  then show ?thesis
    by (simp add: sign_and_broadcast_execute_def io_await_def io_return_def)
qed

lemma plain_reports_chain:
  "reports_chain plain_service plain_config plain_signer plain_api (oracle_at rate_1 1000000) plain_past"
  unfolding reports_chain_def
proof (intro conjI allI impI)
  fix w w' :: "nat \<times> bool"
  show "prefix (plain_past w) (plain_past w') \<or> prefix (plain_past w') (plain_past w)"
    by (simp add: plain_past_def)
  show "Ex (state_after plain_api (oracle_at rate_1 1000000) (plain_past w))"
    using oracle_second_update by (auto simp: plain_past_def state_after_def run_cons_iff)
  show "prefix (plain_past w) (plain_past (snd (now_unix (sv_io plain_service) w)))"
    by (simp add: now_unix_def plain_service_def plain_io_def)
next
  fix w st w' assume "query_state plain_service plain_config plain_signer w = Some (Done (Ok st), w')"
  then have st: "st = (if snd w then state_updated else state_before)" "snd w' = snd w"
    unfolding plain_query_state by auto
  let ?s = "if snd w then oracle_at rate_2 1014400 else oracle_at rate_1 1000000"
  have "state_after plain_api (oracle_at rate_1 1000000) (plain_past w') ?s"
    using st(2) oracle_second_update by (auto simp: plain_past_def state_after_def run_cons_iff)
  moreover have "oracle_query_state ?s = Ok st"
    by (simp add: st oracle_query_state_Ok_iff oracle_at_def oracle_0_def state_before_def state_updated_def)
  ultimately show "\<exists>s. state_after plain_api (oracle_at rate_1 1000000) (plain_past w') s \<and> oracle_query_state s = Ok st"
    by blast
next
  fix w r h w'
  assume "sign_and_broadcast_execute (sv_lcd plain_service) (sv_wallet plain_service) (sv_io plain_service)
      (sv_execute_to_vec plain_service) plain_signer (sc_oracle_contract plain_config) (UpdateRate r) w =
      Some (Done (Ok h), w')" 
  then have "\<not> snd w"
    using plain_no_second_broadcast[of r "fst w" h w']
    by (cases w) (auto simp: plain_service_def plain_config_def)
  then show "\<forall>x\<in>set (plain_past w). \<not> eq_ignore_ascii_case (fst x) h"
    by (simp add: plain_past_def)
next
  fix h w resp w' body tx ev
  assume "http_get (sv_io plain_service) (ts_lcd_url plain_signer @ ''/cosmos/tx/v1beta1/txs/'' @ h) w =
      Some (Done (Ok resp), w')"
    and "body_json resp = Ok body" "json_get ''tx_response'' body = Some tx" "ev \<in> reported_events tx"
  then have tx: "tx = tx_answer" "h = ''AB12''" "snd w'"
    by (auto simp: plain_service_def plain_io_def plain_get_def plain_signer_def account_answer_def
        split: if_splits)
  with \<open>ev \<in> reported_events tx\<close> have ev: "ev = wasm_event_json (\<lambda>s. s) ''oracle'' update_attrs"
    by (simp add: reported_events_def event_list_def tx_answer_def)
  have "readable_event plain_lcd (\<lambda>s. s) ''oracle'' update_attrs"
    unfolding readable_event_def plain_decode
    by (simp add: update_attrs_def visible_texts trim_show_nat)
  moreover have "update_attrs \<in> {attributes (call_response c) |h' c.
      (h', c) \<in> set (plain_past w') \<and> eq_ignore_ascii_case h' h}"
    using tx by (auto simp: plain_past_def update_call_def update_attrs_def)
  ultimately show "faithful_event (sv_lcd plain_service) (sc_oracle_contract plain_config)
     {attributes (call_response c) |h' c. (h', c) \<in> set (plain_past w') \<and> eq_ignore_ascii_case h' h} ev"
    by (intro faithful_eventI[OF ev]) (simp_all add: plain_service_def)
qed

end
