(* ===== verification/Service_Freshness.thy ===== *)
theory Service_Freshness
  imports Service_Loop_Safety Window_Safety
begin

text \<open>
  The service, the oracle and the window together: ticks on a quiet market, where the providers
  keep answering the rate that the contract has, are heartbeats that keep the oracle fresh
  enough for the window.
\<close>

section \<open>Ticks and the contract\<close>

text \<open>
  What a tick does to the contract when nothing fails on the way: it decides on the state the
  contract reports at \<open>now\<close>, and an update it submits is executed in a later block.
\<close>

definition tick_effect ::
  "unit api \<Rightarrow> message_info \<Rightarrow> u128 \<Rightarrow> u64 \<times> env \<Rightarrow> oracle_storage \<Rightarrow> oracle_storage" where
  "tick_effect a info proposed t s =
     (case oracle_query_state s of
        Inl _ \<Rightarrow> s
      | Inr state \<Rightarrow>
          (case (decide_tick_action proposed state (fst t) :: (tick_action, tick_error) result) of
             Inr (Submit d b hb) \<Rightarrow>
               (case oracle_execute a (snd t) info (UpdateRate proposed) s of
                  Inr (s', r) \<Rightarrow> s' | Inl _ \<Rightarrow> s)
           | _ \<Rightarrow> s))"

text \<open>The contract runs, its operator is the service, and it has the rate of the market.\<close>

definition quiet :: "addr \<Rightarrow> u128 \<Rightarrow> oracle_storage \<Rightarrow> bool" where
  "quiet operator rate s \<longleftrightarrow> oracle_inv s \<and>
     (\<exists>cfg st. o_config s = Some cfg \<and> \<not> oc_paused cfg \<and> oc_oracle_operator cfg = operator \<and>
        o_oracle_state s = Some st \<and> os_rate st = rate)"

text \<open>No more than four hours of the update behind the tick at \<open>now\<close>.\<close>

definition fresh_at :: "u64 \<Rightarrow> oracle_storage \<Rightarrow> bool" where
  "fresh_at now s \<longleftrightarrow> 0 < last_update_of s \<and> unat now < last_update_of s + 4 * 60 * 60"

lemma heartbeat_allowed:
  assumes "oracle_state_ok st" and "\<not> throttled now (os_last_update_sec st)"
    and "unat (os_rate st) * 10200 < 2 ^ 128"
  shows "\<exists>d b. check_rate_update now (os_last_update_sec st) (os_rate st) (os_rate st)
    (os_utc_day_id st) (os_day_baseline_rate st) = Ok (d, b)"
proof -
  have "os_rate st \<noteq> 0" using assms(1) by (auto simp: oracle_state_ok_def)
  moreover have "within_daily_cap (if now div 86400 = os_utc_day_id st then os_day_baseline_rate st
      else os_rate st) (os_rate st)" if "os_last_update_sec st \<noteq> 0"
    using assms(1,3) that by (auto simp: oracle_state_ok_def within_daily_cap_def word_le_nat_alt)
  ultimately show ?thesis
    using assms(2) by (cases "os_last_update_sec st = 0") (auto simp: check_rate_update_Ok_iff Let_def)
qed

lemma tick_effect_quiet:
  assumes "quiet operator rate s" and "sender info = operator" and "unat rate * 10200 < 2 ^ 128"
    and "0 < fst t" and "fst t \<le> block_seconds (snd t)"
  shows "quiet operator rate (tick_effect a info rate t s) \<and> fresh_at (fst t) (tick_effect a info rate t s)"
proof -
  obtain now e where t: "t = (now, e)" by fastforce
  from assms(1) obtain cfg st where s: "o_config s = Some cfg" "\<not> oc_paused cfg"
    "oc_oracle_operator cfg = operator" "o_oracle_state s = Some st" "os_rate st = rate"
    and inv: "oracle_inv s" by (auto simp: quiet_def)
  then have ok: "oracle_state_ok st" by (simp add: oracle_inv_def)
  define state where "state = \<lparr>sr_rate = rate, sr_last_update_sec = os_last_update_sec st,
    sr_utc_day_id = os_utc_day_id st, sr_day_baseline_rate = os_day_baseline_rate st,
    sr_paused = False\<rparr>"
  have q: "oracle_query_state s = Ok state"
    using s by (simp add: oracle_query_state_Ok_iff state_def)
  show ?thesis
  proof (cases "throttled now (os_last_update_sec st)")
    case True
    then have "check_rate_update now (os_last_update_sec st) rate rate (os_utc_day_id st)
        (os_day_baseline_rate st) = Err (oracle_policy_error.UpdateTooSoon 14400)"
      using ok s(5) by (auto simp: check_rate_update_eq oracle_state_ok_def roll_utc_day_def Let_def)
    then have "tick_effect a info rate t s = s"
      by (simp add: tick_effect_def q t decide_tick_action_def state_def)
    with True assms(1) s(4) show ?thesis
      by (auto simp: t fresh_at_def throttled_def last_update_of_def)
  next
    case False
    from heartbeat_allowed[OF ok False] assms(3) s(5) obtain d b where
      "check_rate_update now (os_last_update_sec st) rate rate (os_utc_day_id st)
        (os_day_baseline_rate st) = Ok (d, b)" by auto
    then have sub: "decide_tick_action rate state now = (Ok (Submit d b True) :: (tick_action, tick_error) result)"
      by (simp add: decide_tick_action_def state_def)
    from submit_accepted_later[OF inv q s(1) _ sub, of info e] assms(2,3,5) s(3) t
    obtain s' r where ex: "execute_update_rate e info rate s = Ok (s', r)" by auto
    then have eff: "tick_effect a info rate t s = s'"
      by (simp add: tick_effect_def q t sub oracle_execute_def)
    have "oracle_inv s'"
      by (rule oracle_step_inv[of a "\<lparr>call_querier = (), call_env = e, call_info = info,
            call_msg = UpdateRate rate, call_response = r\<rparr>", OF _ inv])
        (simp add: oracle_step_def oracle_execute_def ex)
    moreover have "0 < unat (block_seconds e)" "unat now \<le> unat (block_seconds e)"
      using assms(4,5) by (simp_all add: t word_le_nat_alt word_less_nat_alt)
    ultimately show ?thesis
      using ex s unfolding eff
      by (auto simp: t execute_update_rate_Ok_iff quiet_def fresh_at_def last_update_of_def)
  qed
qed

section \<open>Heartbeats keep the window open\<close>

lemma ticks_keep_fresh:
  assumes "quiet operator rate s" and "sender info = operator" and "unat rate * 10200 < 2 ^ 128"
    and "ts \<noteq> []" and "\<forall>t\<in>set ts. 0 < fst t \<and> fst t \<le> block_seconds (snd t)"
  shows "quiet operator rate (fold (tick_effect a info rate) ts s) \<and>
    fresh_at (fst (last ts)) (fold (tick_effect a info rate) ts s)"
  using assms(4,1,5)
proof (induction ts arbitrary: s rule: list_nonempty_induct)
  case (single t)
  then show ?case using tick_effect_quiet[OF _ assms(2,3)] by simp
next
  case (cons t ts)
  from cons.prems have "quiet operator rate (tick_effect a info rate t s)"
    using tick_effect_quiet[OF _ assms(2,3)] by simp
  with cons show ?case by simp
qed

lemma fresh_usable:
  assumes "quiet operator rate s" and "fresh_at now s"
    and "unat (block_seconds e) \<le> unat now + w" and "4 * 60 * 60 + w \<le> unat max_age"
  shows "\<exists>state. oracle_query_state s = Ok state \<and> sr_rate state = rate \<and>
    ensure_oracle_usable e state max_age = Ok ()"
proof -
  from assms(1) obtain cfg st where s: "o_config s = Some cfg" "\<not> oc_paused cfg"
    "o_oracle_state s = Some st" "os_rate st = rate" by (auto simp: quiet_def)
  have l: "os_last_update_sec st \<noteq> 0" "unat now < unat (os_last_update_sec st) + 14400"
    using assms(2) s(3) by (auto simp: fresh_at_def last_update_of_def)
  have "unat (saturating_sub (block_seconds e) (os_last_update_sec st)) \<le> unat max_age"
    using l assms(3,4) by simp
  then have "\<not> max_age < saturating_sub (block_seconds e) (os_last_update_sec st)"
    by (simp add: word_less_nat_alt del: unat_saturating_sub)
  with s l show ?thesis
    by (simp add: oracle_query_state_Ok_iff ensure_oracle_usable_def)
qed

section \<open>A tick inside the throttle\<close>

text \<open>It does nothing, however old the state gets before the next tick.\<close>

lemma throttled_tick_skips:
  assumes "quiet operator rate s" and "0 < last_update_of s"
    and "unat (fst t) < last_update_of s + 4 * 60 * 60"
  shows "tick_effect a info rate t s = s"
proof -
  obtain now e where t: "t = (now, e)" by fastforce
  from assms(1) obtain cfg st where s: "o_config s = Some cfg" "\<not> oc_paused cfg"
    "o_oracle_state s = Some st" "os_rate st = rate" and ok: "oracle_state_ok st"
    by (auto simp: quiet_def oracle_inv_def)
  have "throttled now (os_last_update_sec st)"
    using assms(2,3) s(3) by (simp add: t throttled_def last_update_of_def)
  then have "check_rate_update now (os_last_update_sec st) rate rate (os_utc_day_id st)
      (os_day_baseline_rate st) = Err (oracle_policy_error.UpdateTooSoon 14400)"
    using ok s(4) by (auto simp: check_rate_update_eq oracle_state_ok_def roll_utc_day_def Let_def)
  with s(1-4) show ?thesis
    by (simp add: tick_effect_def oracle_query_state_def item_load_def t decide_tick_action_def)
qed

lemma old_state_stale:
  assumes "quiet operator rate s" and "last_update_of s + unat max_age < unat (block_seconds e)"
  shows "\<exists>state. oracle_query_state s = Ok state \<and> ensure_oracle_usable e state max_age = Err OracleStale"
proof -
  from assms(1) obtain cfg st where s: "o_config s = Some cfg" "\<not> oc_paused cfg"
    "o_oracle_state s = Some st" by (auto simp: quiet_def)
  have "unat max_age < unat (saturating_sub (block_seconds e) (os_last_update_sec st))"
    using assms(2) s(3) by (simp add: last_update_of_def)
  then have "max_age < saturating_sub (block_seconds e) (os_last_update_sec st)"
    by (simp add: word_less_nat_alt del: unat_saturating_sub)
  with s show ?thesis
    by (auto simp: oracle_query_state_Ok_iff ensure_oracle_usable_def)
qed

end
