(* ===== verification/Service_Market.thy ===== *)
theory Service_Market
  imports Service_Freshness
begin

text \<open>
  The service, the oracle and the window on a market that moves: as long as the rate rises by
  no more than 2 percent within any two days, the daily cap never holds an update back, the
  contract follows the market, and the ticks keep the oracle fresh for the window.
\<close>

section \<open>A market\<close>

text \<open>The rate of the providers as a function of the time in seconds.\<close>

type_synonym market = "nat \<Rightarrow> u128"

definition slow_market :: "market \<Rightarrow> bool" where
  "slow_market m \<longleftrightarrow>
     (\<forall>t. m t \<noteq> 0 \<and> unat (m t) * 10200 < 2 ^ 128) \<and>
     (\<forall>t t'. t \<le> t' \<longrightarrow> m t \<le> m t') \<and>
     (\<forall>t t'. t \<le> t' \<longrightarrow> t' \<le> t + 2 * 86400 \<longrightarrow> unat (m t') * 10000 \<le> unat (m t) * 10200)"

lemma slow_marketD:
  assumes "slow_market m"
  shows "m t \<noteq> 0" "unat (m t) * 10200 < 2 ^ 128" "t \<le> t' \<Longrightarrow> m t \<le> m t'"
    "t \<le> t' \<Longrightarrow> t' \<le> t + 2 * 86400 \<Longrightarrow> within_daily_cap (m t) (m t')"
  using assms unfolding slow_market_def within_daily_cap_def by blast+

definition market_tick ::
  "unit api \<Rightarrow> message_info \<Rightarrow> market \<Rightarrow> u64 \<times> env \<Rightarrow> oracle_storage \<Rightarrow> oracle_storage" where
  "market_tick a info m t = tick_effect a info (m (unat (fst t))) t"

section \<open>The contract follows the market\<close>

text \<open>
  Either the contract waits for its first update, with a rate below the market, or its rate
  and its baseline are rates that the market had: the rate at most \<open>delay\<close> seconds before
  the block of the last update, the baseline on the day of that block or the day before.
\<close>

definition follows_state :: "nat \<Rightarrow> market \<Rightarrow> oracle_state \<Rightarrow> bool" where
  "follows_state delay m st \<longleftrightarrow>
     (let last = unat (os_last_update_sec st) in
      if last = 0 then \<forall>t. os_rate st \<le> m t
      else (\<exists>t\<le>last. last \<le> t + delay \<and> os_rate st = m t) \<and>
           (\<exists>t\<le>last. last div 86400 \<le> t div 86400 + 1 \<and> os_day_baseline_rate st = m t))"

definition follows :: "addr \<Rightarrow> nat \<Rightarrow> market \<Rightarrow> oracle_storage \<Rightarrow> bool" where
  "follows operator delay m s \<longleftrightarrow> oracle_inv s \<and>
     (\<exists>cfg st. o_config s = Some cfg \<and> \<not> oc_paused cfg \<and> oc_oracle_operator cfg = operator \<and>
        o_oracle_state s = Some st \<and> follows_state delay m st)"

lemma within_days:
  fixes t t' :: nat
  assumes "t' div 86400 \<le> t div 86400 + 1" shows "t' \<le> t + 2 * 86400"
  using assms div_mult_mod_eq[of t 86400] div_mult_mod_eq[of t' 86400]
    mod_less_divisor[of 86400 t'] by linarith

lemma market_rate_accepted:
  assumes slow: "slow_market m" and fol: "follows_state delay m st" and ok: "oracle_state_ok st"
    and thr: "\<not> throttled now (os_last_update_sec st)"
    and gap: "os_last_update_sec st \<noteq> 0 \<Longrightarrow> unat now + delay \<le> unat (os_last_update_sec st) + 86400"
  shows "\<exists>d b. check_rate_update now (os_last_update_sec st) (os_rate st) (m (unat now))
    (os_utc_day_id st) (os_day_baseline_rate st) = Ok (d, b)"
proof (cases "os_last_update_sec st = 0")
  case True
  with slow fol thr show ?thesis
    by (simp add: check_rate_update_Ok_iff follows_state_def slow_marketD(1))
next
  case False
  define last where "last = unat (os_last_update_sec st)"
  have nz: "last \<noteq> 0" using False by (simp add: last_def unat_eq_0)
  from fol nz obtain t0 tb where t0: "t0 \<le> last" "last \<le> t0 + delay" "os_rate st = m t0"
    and tb: "tb \<le> last" "last div 86400 \<le> tb div 86400 + 1" "os_day_baseline_rate st = m tb"
    by (auto simp: follows_state_def last_def Let_def)
  from not_throttled[OF thr False] have now: "last + 14400 \<le> unat now" by (simp add: last_def)
  from gap[OF False] have g: "unat now + delay \<le> last + 86400" by (simp add: last_def)
  from False ok have day: "unat (os_utc_day_id st) = last div 86400"
    by (simp add: oracle_state_ok_def last_def unat_div)
  have "within_daily_cap (m tb) (m (unat now))" if "now div 86400 = os_utc_day_id st"
  proof -
    from arg_cong[OF that, of unat] day have "unat now div 86400 = last div 86400"
      by (simp add: unat_div)
    with tb(2) have "unat now \<le> tb + 2 * 86400" by (intro within_days) simp
    with tb(1) now slow_marketD(4)[OF slow, of tb "unat now"] show ?thesis by simp
  qed
  moreover have "within_daily_cap (m t0) (m (unat now))" "m t0 \<le> m (unat now)"
    using t0 g now by (auto intro!: slow_marketD[OF slow])
  ultimately show ?thesis
    using False thr t0(3) tb(3) slow_marketD(1)[OF slow] by (simp add: check_rate_update_Ok_iff Let_def)
qed


text \<open>What an executed update with the rate of the market at \<open>t\<close> makes of the state.\<close>

lemma executed_update_follows:
  assumes fol: "follows_state delay m st" and ok: "oracle_state_ok st"
    and chk: "check_rate_update e (os_last_update_sec st) (os_rate st) (m t) (os_utc_day_id st)
      (os_day_baseline_rate st) = Ok (d, b)"
    and t: "t \<le> unat e" "unat e \<le> t + delay" and e: "0 < unat e" "delay \<le> 86400"
    and gap: "os_last_update_sec st \<noteq> 0 \<Longrightarrow> unat e + delay \<le> unat (os_last_update_sec st) + 86400"
  shows "follows_state delay m \<lparr>os_rate = m t, os_last_update_sec = e, os_utc_day_id = d,
    os_day_baseline_rate = b\<rparr>"
proof -
  have day_before: "unat e div 86400 \<le> u div 86400 + 1" if "unat e \<le> u + 86400" for u
    using div_le_mono[OF that, of 86400] by simp
  have "\<exists>u\<le>unat e. unat e div 86400 \<le> u div 86400 + 1 \<and> b = m u"
  proof (cases "os_last_update_sec st = 0")
    case True
    with chk have "b = m t" by (simp add: check_rate_update_Ok_iff)
    moreover have "unat e div 86400 \<le> t div 86400 + 1" using t e by (intro day_before) simp
    ultimately show ?thesis using t(1) by blast
  next
    case False
    define last where "last = unat (os_last_update_sec st)"
    have nz: "last \<noteq> 0" using False by (simp add: last_def unat_eq_0)
    from fol nz obtain t0 tb where t0: "t0 \<le> last" "last \<le> t0 + delay" "os_rate st = m t0"
      and tb: "tb \<le> last" "last div 86400 \<le> tb div 86400 + 1" "os_day_baseline_rate st = m tb"
      by (auto simp: follows_state_def last_def Let_def)
    from chk have "\<not> throttled e (os_last_update_sec st)" by (simp add: check_rate_update_Ok_iff)
    from not_throttled[OF this False] have le: "last \<le> unat e" by (simp add: last_def)
    show ?thesis
    proof (cases "e div 86400 = os_utc_day_id st")
      case True
      with False ok have "e div 86400 = os_last_update_sec st div 86400" by (simp add: oracle_state_ok_def)
      from arg_cong[OF this, of unat] have "unat e div 86400 = last div 86400"
        by (simp add: last_def unat_div)
      moreover from chk False True have "b = m tb" by (simp add: check_rate_update_Ok_iff Let_def tb(3))
      ultimately show ?thesis using tb(1,2) le by (metis order.trans)
    next
      case other: False
      from chk False other have "b = m t0" by (simp add: check_rate_update_Ok_iff Let_def t0(3))
      moreover have "unat e \<le> t0 + 86400" using gap[OF False] t0(2) by (simp add: last_def)
      ultimately show ?thesis using day_before[of t0] t0(1) le by (metis order.trans)
    qed
  qed
  with t e(1) show ?thesis by (auto simp: follows_state_def Let_def)
qed

text \<open>A tick that does not decide to submit leaves the contract alone.\<close>

lemma no_submit_no_effect:
  assumes "oracle_query_state s = Ok state"
    and "\<And>d b hb. decide_tick_action p state (fst t) \<noteq> (Ok (Submit d b hb) :: (tick_action, tick_error) result)"
  shows "tick_effect a info p t s = s"
  using assms by (simp add: tick_effect_def split: sum.splits tick_action.splits)

definition tick_timing :: "nat \<Rightarrow> u64 \<times> env \<Rightarrow> bool" where
  "tick_timing delay t \<longleftrightarrow> 0 < fst t \<and> fst t \<le> block_seconds (snd t) \<and>
     unat (block_seconds (snd t)) \<le> unat (fst t) + delay"

lemma market_tick_follows:
  assumes slow: "slow_market m" and fol: "follows operator delay m s" and op: "sender info = operator"
    and t: "tick_timing delay t" and d: "delay \<le> 86400"
    and gap: "last_update_of s \<noteq> 0 \<Longrightarrow>
      unat (block_seconds (snd t)) + delay \<le> last_update_of s + 86400"
  shows "follows operator delay m (market_tick a info m t s) \<and> fresh_at (fst t) (market_tick a info m t s)"
proof -
  obtain now e where te: "t = (now, e)" by fastforce
  from fol obtain cfg st where s: "o_config s = Some cfg" "\<not> oc_paused cfg"
    "oc_oracle_operator cfg = operator" "o_oracle_state s = Some st" "follows_state delay m st"
    and inv: "oracle_inv s" by (auto simp: follows_def)
  then have ok: "oracle_state_ok st" by (simp add: oracle_inv_def)
  from t have now: "0 < unat now" "unat now \<le> unat (block_seconds e)"
    "unat (block_seconds e) \<le> unat now + delay" "now \<le> block_seconds e"
    by (simp_all add: tick_timing_def te word_less_nat_alt word_le_nat_alt)
  have gap': "unat (block_seconds e) + delay \<le> unat (os_last_update_sec st) + 86400"
    if "os_last_update_sec st \<noteq> 0"
    using gap that s(4) by (simp add: te last_update_of_def unat_eq_0)
  define state where "state = \<lparr>sr_rate = os_rate st, sr_last_update_sec = os_last_update_sec st,
    sr_utc_day_id = os_utc_day_id st, sr_day_baseline_rate = os_day_baseline_rate st,
    sr_paused = False\<rparr>"
  have q: "oracle_query_state s = Ok state" using s by (simp add: oracle_query_state_Ok_iff state_def)
  show ?thesis
  proof (cases "throttled now (os_last_update_sec st)")
    case True
    then have "market_tick a info m t s = s"
      unfolding market_tick_def
      by (intro no_submit_no_effect[OF q]) (simp add: decide_Submit_iff check_rate_update_Ok_iff state_def te)
    with True fol s(4) show ?thesis by (auto simp: te fresh_at_def throttled_def last_update_of_def)
  next
    case False
    from market_rate_accepted[OF slow s(5) ok False] gap' now(2) obtain d b where
      "check_rate_update now (os_last_update_sec st) (os_rate st) (m (unat now)) (os_utc_day_id st)
        (os_day_baseline_rate st) = Ok (d, b)" by fastforce
    then have sub: "decide_tick_action (m (unat now)) state now =
        (Ok (Submit d b (m (unat now) = sr_rate state)) :: (tick_action, tick_error) result)"
      by (simp add: decide_Submit_iff state_def)
    from submit_accepted_later[OF inv q s(1) _ sub now(4) slow_marketD(2)[OF slow], of info] op s(3)
    obtain s' r where ex: "execute_update_rate e info (m (unat now)) s = Ok (s', r)" by auto
    then have eff: "market_tick a info m t s = s'"
      by (simp add: market_tick_def tick_effect_def q te sub oracle_execute_def)
    from ex s(4) obtain d' b' where
      chk: "check_rate_update (block_seconds e) (os_last_update_sec st) (os_rate st) (m (unat now))
        (os_utc_day_id st) (os_day_baseline_rate st) = Ok (d', b')"
      and s': "s' = s\<lparr>o_oracle_state := Some \<lparr>os_rate = m (unat now), os_last_update_sec = block_seconds e,
        os_utc_day_id = d', os_day_baseline_rate = b'\<rparr>\<rparr>"
      by (auto simp: execute_update_rate_Ok_iff)
    have "oracle_inv s'"
      by (rule oracle_step_inv[of a "\<lparr>call_querier = (), call_env = e, call_info = info,
            call_msg = UpdateRate (m (unat now)), call_response = r\<rparr>", OF _ inv])
        (simp add: oracle_step_def oracle_execute_def ex)
    with executed_update_follows[OF s(5) ok chk now(2,3) _ d gap'] now(1,2) s(1-3) show ?thesis
      unfolding eff by (simp add: follows_def s' fresh_at_def last_update_of_def te)
  qed
qed

section \<open>Ticks in a row\<close>

text \<open>Each tick decides at most \<open>pause\<close> seconds after the one before it.\<close>

definition paced :: "nat \<Rightarrow> (u64 \<times> env) list \<Rightarrow> bool" where
  "paced pause ts \<longleftrightarrow> successively (\<lambda>t t'. unat (fst t') \<le> unat (fst t) + pause) ts"

lemma market_ticks_follow:
  assumes slow: "slow_market m" and op: "sender info = operator"
    and rest: "pause + 2 * delay \<le> 20 * 60 * 60" and "ts \<noteq> []" and "paced pause ts"
    and "\<forall>t\<in>set ts. tick_timing delay t" and "follows operator delay m s"
    and "last_update_of s \<noteq> 0 \<Longrightarrow>
      unat (block_seconds (snd (hd ts))) + delay \<le> last_update_of s + 86400"
  shows "follows operator delay m (fold (market_tick a info m) ts s) \<and>
    fresh_at (fst (last ts)) (fold (market_tick a info m) ts s)"
  using assms(4-)
proof (induction ts arbitrary: s rule: list_nonempty_induct)
  case (single t)
  then show ?case using market_tick_follows[OF slow _ op] rest by simp
next
  case (cons t ts)
  let ?s = "market_tick a info m t s"
  from cons.prems rest have f: "follows operator delay m ?s" "fresh_at (fst t) ?s"
    using market_tick_follows[OF slow cons.prems(3) op] by simp_all
  have "unat (block_seconds (snd (hd ts))) + delay \<le> last_update_of ?s + 86400"
  proof -
    from cons.hyps cons.prems(1,2) have "unat (fst (hd ts)) \<le> unat (fst t) + pause"
      "unat (block_seconds (snd (hd ts))) \<le> unat (fst (hd ts)) + delay"
      by (auto simp: paced_def successively_Cons tick_timing_def)
    with f(2) rest show ?thesis by (simp add: fresh_at_def)
  qed
  with cons.IH[of ?s] cons.hyps cons.prems(1,2) f(1) show ?case
    by (simp add: paced_def successively_Cons)
qed

lemma follows_usable:
  assumes "follows operator delay m s" and "fresh_at now s"
    and "unat (block_seconds e) \<le> unat now + w" and "4 * 60 * 60 + w \<le> unat max_age"
  shows "\<exists>state t. oracle_query_state s = Ok state \<and> ensure_oracle_usable e state max_age = Ok () \<and>
    sr_rate state = m t \<and> unat now < t + 4 * 60 * 60 + delay"
proof -
  from assms(1) obtain cfg st where s: "o_config s = Some cfg" "\<not> oc_paused cfg"
    "o_oracle_state s = Some st" "follows_state delay m st" by (auto simp: follows_def)
  have l: "os_last_update_sec st \<noteq> 0" "unat now < unat (os_last_update_sec st) + 14400"
    using assms(2) s(3) by (auto simp: fresh_at_def last_update_of_def)
  have "unat (saturating_sub (block_seconds e) (os_last_update_sec st)) \<le> unat max_age"
    using l assms(3,4) by simp
  then have "\<not> max_age < saturating_sub (block_seconds e) (os_last_update_sec st)"
    by (simp add: word_less_nat_alt del: unat_saturating_sub)
  moreover from s(4) l obtain t where "unat (os_last_update_sec st) \<le> t + delay" "os_rate st = m t"
    by (auto simp: follows_state_def Let_def unat_eq_0)
  ultimately show ?thesis
    using s l by (auto simp: oracle_query_state_Ok_iff ensure_oracle_usable_def intro!: exI[of _ t])
qed

end
