(* ===== verification/Service_Attributes.thy ===== *)
theory Service_Attributes
  imports Service_Confirm
begin

text \<open>
  How the service reads the attribute texts of a node (\<open>decode_tendermint_attr\<close> of
  \<open>terra_tx.rs\<close>), on top of what the \<open>STANDARD\<close> engine of the base64 crate promises: it
  decodes exactly the texts that RFC 4648 assigns to some bytes, to these bytes. That base64
  of any printable text is read back is derived here, and which texts in the clear are taken
  for base64.
\<close>

section \<open>Base64 (RFC 4648, section 4)\<close>

definition base64_digit :: "nat \<Rightarrow> char" where
  "base64_digit n = char_of
     (if n < 26 then 65 + n else if n < 52 then 71 + n else if n < 62 then n - 4
      else if n = 62 then 43 else 47)"

fun base64_text :: "string \<Rightarrow> string" where
  "base64_text [] = []"
| "base64_text [a] =
     [base64_digit (byte_of a div 4), base64_digit (byte_of a mod 4 * 16), CHR ''='', CHR ''='']"
| "base64_text [a, b] =
     [base64_digit (byte_of a div 4), base64_digit (byte_of a mod 4 * 16 + byte_of b div 16),
      base64_digit (byte_of b mod 16 * 4), CHR ''='']"
| "base64_text (a # b # c # s) =
     base64_digit (byte_of a div 4) # base64_digit (byte_of a mod 4 * 16 + byte_of b div 16) #
     base64_digit (byte_of b mod 16 * 4 + byte_of c div 64) # base64_digit (byte_of c mod 64) #
     base64_text s"

text \<open>
  What is relied on of \<open>STANDARD.decode\<close>: padding is required and the bits after the last
  byte are zero, so a text decodes to bytes exactly if it is the text of these bytes.
\<close>

definition standard_base64 :: "'u lcd_lib \<Rightarrow> bool" where
  "standard_base64 L \<longleftrightarrow> (\<forall>t b. base64_decode L t = Ok b \<longleftrightarrow> base64_text b = t)"

text \<open>A decoder that does so: it reads the digits and accepts only the text of the result.\<close>

definition base64_value :: "char \<Rightarrow> nat" where
  "base64_value c =
     (let n = byte_of c in
      if 97 \<le> n then n - 71 else if 65 \<le> n then n - 65 else if 48 \<le> n then n + 4
      else if n = 43 then 62 else 63)"

fun base64_bytes :: "string \<Rightarrow> string" where
  "base64_bytes (p # q # r # s # t) =
     (let a = base64_value p; b = base64_value q; c = base64_value r; d = base64_value s;
          x = char_of (a * 4 + b div 16); y = char_of (b mod 16 * 16 + c div 4);
          z = char_of (c mod 4 * 64 + d)
      in if r = CHR ''='' then [x] else if s = CHR ''='' then [x, y]
         else x # y # z # base64_bytes t)"
| "base64_bytes _ = []"

definition base64_standard :: "string \<Rightarrow> (string, string) result" where
  "base64_standard t =
     (if base64_text (base64_bytes t) = t then Ok (base64_bytes t) else Err ''Invalid base64'')"

lemma byte_less [simp]: "byte_of c < 256"
  by (simp add: byte_of_def)

lemma byte_of_char_of: "n < 256 \<Longrightarrow> byte_of (char_of n) = n"
  by (simp add: byte_of_def of_char_of)

lemma char_of_byte [simp]: "char_of (byte_of c) = c"
  by (simp add: byte_of_def)

lemma byte_of_base64_digit:
  "n < 64 \<Longrightarrow> byte_of (base64_digit n) =
     (if n < 26 then 65 + n else if n < 52 then 71 + n else if n < 62 then n - 4
      else if n = 62 then 43 else 47)"
  by (simp add: base64_digit_def byte_of_char_of)

lemma base64_value_digit: "n < 64 \<Longrightarrow> base64_value (base64_digit n) = n"
  unfolding base64_value_def Let_def byte_of_base64_digit by (auto split: if_splits)

lemma base64_digit_no_pad: "n < 64 \<Longrightarrow> base64_digit n \<noteq> CHR ''=''"
proof
  assume "n < 64" "base64_digit n = CHR ''=''"
  then have "(if n < 26 then 65 + n else if n < 52 then 71 + n else if n < 62 then n - 4
      else if n = 62 then 43 else 47) = 61"
    using byte_of_base64_digit[of n] by (simp add: byte_of_def)
  then show False by (simp split: if_splits)
qed

text \<open>The bits of neighbouring bytes in a digit.\<close>

lemma sextet_bounds:
  "byte_of a div 4 < 64" "n mod 4 * 16 < (64 :: nat)" "n mod 4 * 16 + byte_of a div 16 < 64"
  "n mod 16 * 4 < (64 :: nat)" "n mod 16 * 4 + byte_of a div 64 < 64" "n mod 64 < (64 :: nat)"
proof -
  have "byte_of a div 64 < 4" "byte_of a div 16 < 16"
    by (simp_all add: less_mult_imp_div_less)
  moreover have "n mod 4 < 4" "n mod 16 < 16" by simp_all
  ultimately show "byte_of a div 4 < 64" "n mod 4 * 16 < 64" "n mod 4 * 16 + byte_of a div 16 < 64"
    "n mod 16 * 4 < 64" "n mod 16 * 4 + byte_of a div 64 < 64" "n mod 64 < 64"
    by simp_all
qed

lemma sextet_parts:
  "byte_of a div 16 div 16 = 0" "byte_of a div 64 div 4 = 0"
  "byte_of a div 16 mod 16 = byte_of a div 16" "byte_of a div 64 mod 4 = byte_of a div 64"
  "char_of (byte_of a div n * n + byte_of a mod n) = a"
proof -
  have "byte_of a div 64 < 4" "byte_of a div 16 < 16"
    by (simp_all add: less_mult_imp_div_less)
  then show "byte_of a div 16 div 16 = 0" "byte_of a div 64 div 4 = 0"
    "byte_of a div 16 mod 16 = byte_of a div 16" "byte_of a div 64 mod 4 = byte_of a div 64"
    by simp_all
qed simp

lemma base64_bytes_text: "base64_bytes (base64_text x) = x"
  by (induction x rule: base64_text.induct)
    (simp_all add: base64_value_digit base64_digit_no_pad sextet_bounds sextet_parts Let_def)

lemma base64_standard_Ok_iff: "base64_standard t = Ok b \<longleftrightarrow> base64_text b = t"
  using base64_bytes_text by (auto simp: base64_standard_def)

section \<open>The shape of a base64 text\<close>

lemma base64_text_length: "length (base64_text x) mod 4 = 0"
  by (induction x rule: base64_text.induct) simp_all

lemma base64_text_Nil_iff [simp]: "base64_text x = [] \<longleftrightarrow> x = []"
  by (cases x rule: base64_text.cases) simp_all

lemma base64_text_hd: "x \<noteq> [] \<Longrightarrow> hd (base64_text x) = base64_digit (byte_of (hd x) div 4)"
  by (cases x rule: base64_text.cases) simp_all

definition base64_char :: "char \<Rightarrow> bool" where
  "base64_char c \<longleftrightarrow> is_ascii_alphanumeric c \<or> c = CHR ''+'' \<or> c = CHR ''/'' \<or> c = CHR ''=''"

lemma base64_char_iff: "base64_char c \<longleftrightarrow> is_ascii_alphanumeric c \<or> byte_of c \<in> {43, 47, 61}"
proof -
  have "byte_of c = byte_of d \<longleftrightarrow> c = d" for d by (simp add: byte_of_def)
  from this[of "CHR ''+''"] this[of "CHR ''/''"] this[of "CHR ''=''"] show ?thesis
    by (simp add: base64_char_def byte_of_def)
qed

lemma base64_digit_char: "n < 64 \<Longrightarrow> base64_char (base64_digit n)"
  using byte_of_base64_digit[of n]
  by (auto simp: base64_char_iff is_ascii_alphanumeric_def is_digit_def is_upper_def is_lower_def
      split: if_splits)

lemma base64_text_chars: "list_all base64_char (base64_text x)"
  by (induction x rule: base64_text.induct)
    (simp_all add: base64_digit_char sextet_bounds, simp_all add: base64_char_def)

lemma base64_char_visible: "base64_char c \<Longrightarrow> 32 < byte_of c \<and> byte_of c < 127"
  by (auto simp: base64_char_def is_ascii_alphanumeric_def is_digit_def is_upper_def is_lower_def byte_of_def)

lemma trim_base64_text: "trim (base64_text x) = base64_text x"
  by (rule trim_visible)
    (use base64_text_chars[of x] base64_char_visible in \<open>auto simp: visible_def list_all_iff\<close>)

text \<open>Text that the service shows as a character string: not empty, UTF-8, no control character.\<close>

definition printable :: "string \<Rightarrow> bool" where
  "printable x \<longleftrightarrow> x \<noteq> [] \<and>
     (case chars_of x of None \<Rightarrow> False | Some chars \<Rightarrow> list_all (\<lambda>c. \<not> is_control c) chars)"

lemma visible_printable:
  assumes "visible x" and "x \<noteq> []" shows "printable x"
proof -
  have b: "32 < b \<and> b < 127" if "b \<in> set (map byte_of x)" for b
    using assms(1) that by (auto simp: visible_def list_all_iff)
  then have "chars_of x = Some (map byte_of x)"
    unfolding chars_of_def by (intro utf8_decode_ascii) fastforce
  with assms(2) b show ?thesis by (fastforce simp: printable_def list_all_iff is_control_def)
qed

text \<open>A printable text does not start with a continuation byte.\<close>

lemma utf8_decode_continuation: "continuation a \<Longrightarrow> utf8_decode (a # s) = None"
  by (auto simp: continuation_def Let_def split: list.splits)

lemma printable_hd: "printable x \<Longrightarrow> \<not> continuation (byte_of (hd x))"
  by (cases x) (auto simp: printable_def chars_of_def utf8_decode_continuation
      simp del: utf8_decode.simps)

text \<open>The four words that are never decoded are not base64 of printable text.\<close>

lemma known_not_base64:
  assumes "printable x" shows "base64_text x \<notin> set KNOWN"
proof
  assume "base64_text x \<in> set KNOWN"
  then have "base64_text x = ''rate''"
    using base64_text_length[of x] by (auto simp: KNOWN_def) presburger+
  then have "x = base64_bytes ''rate''" using base64_bytes_text[of x] by simp
  then have "continuation (byte_of (hd x))"
    by (simp add: base64_value_def byte_of_def continuation_def of_char_of)
  with printable_hd[OF assms] show False by simp
qed

section \<open>What is read\<close>

theorem base64_read_back:
  assumes "standard_base64 L" and "printable x"
  shows "decode_tendermint_attr L (base64_text x) = x"
proof -
  have "base64_text x \<noteq> []" using assms(2) by (auto simp: printable_def)
  moreover have "\<not> List.member KNOWN (base64_text x)"
    using known_not_base64[OF assms(2)] by (simp add: List.member_iff)
  moreover have "base64_decode L (base64_text x) = Ok x"
    using assms(1) by (simp add: standard_base64_def)
  moreover have "list_all (\<lambda>b. is_ascii_alphanumeric b \<or> b = CHR ''+'' \<or> b = CHR ''/'' \<or> b = CHR ''='') (base64_text x)"
    using base64_text_chars[of x] unfolding base64_char_def .
  ultimately show ?thesis
    using assms(2) unfolding decode_tendermint_attr_def trim_base64_text Let_def
    by (auto simp: printable_def split: option.splits)
qed

text \<open>In the clear a text is read as it is, unless it is the base64 of a printable text.\<close>

lemma base64_text_longer: "x \<noteq> [] \<Longrightarrow> length x < length (base64_text x)"
proof (induction x rule: base64_text.induct)
  case (4 a b c s)
  then show ?case by (cases s) auto
qed simp_all

theorem clear_read_iff:
  assumes "standard_base64 L" and t: "trim t = t"
  shows "decode_tendermint_attr L t = t \<longleftrightarrow> \<not> (\<exists>x. printable x \<and> base64_text x = t)"
proof (cases "\<exists>x. printable x \<and> base64_text x = t")
  case True
  then obtain x where x: "printable x" "base64_text x = t" by blast
  then have "x \<noteq> []" by (simp add: printable_def)
  from base64_text_longer[OF this] x(2) have "t \<noteq> x" by force
  with base64_read_back[OF assms(1) x(1)] x show ?thesis by auto
next
  case False
  have "decode_tendermint_attr L t = t"
  proof (cases "base64_decode L t")
    case (Inr b)
    with assms(1) have "base64_text b = t" by (simp add: standard_base64_def)
    with False have "\<not> printable b" by blast
    then have "(case chars_of b of
        Some chars \<Rightarrow> if b \<noteq> [] \<and> list_all (\<lambda>c. \<not> is_control c) chars then b else t
      | None \<Rightarrow> t) = t"
      by (auto simp: printable_def split: option.splits)
    then show ?thesis
      unfolding decode_tendermint_attr_def t Let_def Inr by simp
  next
    case (Inl f)
    show ?thesis unfolding decode_tendermint_attr_def t Let_def Inl by simp
  qed
  with False show ?thesis by simp
qed

text \<open>
  In the clear, an address of Terra is safe: base64 of some bytes that starts with a \<open>t\<close> starts
  with a continuation byte. So is a number whose digits are not a multiple of four.
\<close>

lemma terra_not_base64:
  assumes "printable x" shows "base64_text x \<noteq> CHR ''t'' # s"
proof
  assume t: "base64_text x = CHR ''t'' # s"
  have "x \<noteq> []" using assms by (simp add: printable_def)
  from base64_text_hd[OF this] t have "base64_digit (byte_of (hd x) div 4) = CHR ''t''" by simp
  with base64_value_digit[OF sextet_bounds(1)[of "hd x"]] have "byte_of (hd x) div 4 = 45"
    by (simp add: base64_value_def byte_of_def)
  then have "continuation (byte_of (hd x))" by (auto simp: continuation_def)
  with printable_hd[OF assms] show False by simp
qed

text \<open>How a node may show a text: in the clear or in base64, where the clear is not taken for base64.\<close>

definition shown_as :: "string \<Rightarrow> string \<Rightarrow> bool" where
  "shown_as x t \<longleftrightarrow> t = base64_text x \<or> t = x \<and> \<not> (\<exists>y. printable y \<and> base64_text y = x)"

lemma shown_read_back:
  assumes "standard_base64 L" and "visible x" and "x \<noteq> []" and "shown_as x t"
  shows "decode_tendermint_attr L t = x"
  using assms base64_read_back[OF assms(1) visible_printable[OF assms(2,3)]]
    clear_read_iff[OF assms(1) trim_visible[OF assms(2)]]
  by (auto simp: shown_as_def)

lemma visible_show_nat: "visible (show_nat n)"
  using set_show_nat[of _ n] by (fastforce simp: visible_def list_all_iff is_digit_def)

text \<open>The texts of the event of an update, each in the clear or in base64.\<close>

lemma event_texts_read_back:
  assumes "standard_base64 L" and "\<And>x. enc x = x \<or> enc x = base64_text x"
    and "visible d"
    and "enc (show_nat n) = base64_text (show_nat n) \<or> \<not> 4 dvd length (show_nat n)"
    and "x \<in> {''terra1'' @ d, show_nat n, ''_contract_address'', ''action'', ''update_rate'', ''rate''}"
  shows "decode_tendermint_attr L (enc x) = x"
proof (rule shown_read_back[OF assms(1)])
  have "\<not> (printable y \<and> base64_text y = x)" if "enc x = x" for y
  proof
    assume y: "printable y \<and> base64_text y = x"
    then have "x \<notin> set KNOWN" using known_not_base64 by blast
    with assms(5) have "x = ''terra1'' @ d \<or> x = show_nat n" by (auto simp: KNOWN_def)
    then show False
    proof
      assume "x = ''terra1'' @ d"
      with y terra_not_base64[of y "''erra1'' @ d"] show False by simp
    next
      assume x: "x = show_nat n"
      with y base64_text_length[of y] have "4 dvd length (show_nat n)" by (simp add: mod_0_imp_dvd)
      moreover have "length (base64_text x) \<noteq> length x"
        using base64_text_longer[of x] x by simp
      ultimately show False using assms(4) that x by auto
    qed
  qed
  with assms(2)[of x] show "shown_as x (enc x)" unfolding shown_as_def by blast
  show "visible x" "x \<noteq> []"
    using assms(3,5) visible_show_nat[of n] show_nat_nonempty[of n]
    by (auto simp: visible_def byte_of_def simp del: show_nat_nonempty)
qed

end
