(* ===== verification/Service_Properties.thy ===== *)
theory Service_Properties
  imports Service_Scenario Service_Market Service_Attributes
begin

text \<open>
  The properties of the oracle service, each with a witness in the run of
  \<open>Service_Scenario\<close>.
\<close>

section \<open>Ticks\<close>

text \<open>
  C8: The liveness record of the operator loop moves only when an update was proven. Over
  any run of the loop, with ticks that fail, time out or are cut by a shutdown, the record
  differs from the one at the start only if some tick on the way from the start to the end of
  the run read a rate and the state of the contract, decided to submit, broadcast the transaction, saw exactly that transaction
  included with code 0, and found its wasm events to prove the update (or, with no wasm event
  at all, the state of the contract to show it).
\<close>

theorem liveness_moves_after_proof:
  assumes "(operator_step sv cfg sg)\<^sup>*\<^sup>* x y"
    and "last_successful_broadcast (guarded (ss_liveness (op_service y))) \<noteq>
      last_successful_broadcast (guarded (ss_liveness (op_service x)))"
  shows "\<exists>z. (operator_step sv cfg sg)\<^sup>*\<^sup>* x z \<and> (operator_step sv cfg sg)\<^sup>*\<^sup>* z y \<and>
     tick_proven sv cfg sg (op_service z, snd (liveness_check (sv_io sv) cfg (op_service z) (op_world z)))"
  using operator_run_liveness[OF assms(1)] assms(2) unfolding liveness_of_def by blast

theorem liveness_moves_after_proof_witness:
  "\<exists>z. (operator_step plain_service plain_config plain_signer)\<^sup>*\<^sup>* (started_at 1000) z \<and>
     (operator_step plain_service plain_config plain_signer)\<^sup>*\<^sup>* z
       \<lparr>op_service = after_tick 1000, op_world = (3600000000000 + 6001000, True), op_log = [],
         op_running = True\<rparr> \<and>
     tick_proven plain_service plain_config plain_signer
       (op_service z, snd (liveness_check (sv_io plain_service) plain_config (op_service z) (op_world z)))"
proof (rule liveness_moves_after_proof)
  show "(operator_step plain_service plain_config plain_signer)\<^sup>*\<^sup>* (started_at 1000)
      \<lparr>op_service = after_tick 1000, op_world = (3600000000000 + 6001000, True), op_log = [],
        op_running = True\<rparr>"
    using plain_operator_step by (rule r_into_rtranclp)
qed (simp add: started_at_def initial_service_state_def liveness_new_def after_tick_def)

text \<open>
  C9: A moved liveness record means a moved rate on chain. When the node of the service
  reports one chain truthfully, in events whose texts the service reads back as the chain has
  them, the record differs from the one at the start only if some tick on the way from the
  start to the end of the run read a rate and a state of the contract, and on the chain, after the history
  that this state stands for, a call was executed that set the rate of the contract to exactly
  the rate the tick had read.
\<close>

theorem moved_liveness_means_moved_rate:
  assumes "(operator_step sv cfg sg)\<^sup>*\<^sup>* x y"
    and "last_successful_broadcast (guarded (ss_liveness (op_service y))) \<noteq>
      last_successful_broadcast (guarded (ss_liveness (op_service x)))"
    and "reports_chain sv cfg sg a s0 past"
  shows "\<exists>z rate prior x1 w2. (operator_step sv cfg sg)\<^sup>*\<^sup>* x z \<and> (operator_step sv cfg sg)\<^sup>*\<^sup>* z y \<and>
     proposed_rate sv cfg (op_service z, snd (liveness_check (sv_io sv) cfg (op_service z) (op_world z))) =
       Some (Done (Ok rate), x1) \<and>
     query_state sv cfg sg (snd x1) = Some (Done (Ok prior), w2) \<and>
     rate_set_after a s0 past (past w2) rate"
proof -
  from operator_run_liveness[OF assms(1)] assms(2) obtain z where z: "(operator_step sv cfg sg)\<^sup>*\<^sup>* x z"
    "(operator_step sv cfg sg)\<^sup>*\<^sup>* z y"
    "tick_proven sv cfg sg (op_service z, snd (liveness_check (sv_io sv) cfg (op_service z) (op_world z)))"
    unfolding liveness_of_def by blast
  from z(3) obtain rate x1 prior w2 now w3 where
    "proposed_rate sv cfg (op_service z, snd (liveness_check (sv_io sv) cfg (op_service z) (op_world z))) =
       Some (Done (Ok rate), x1)"
    and prior: "query_state sv cfg sg (snd x1) = Some (Done (Ok prior), w2)"
    and "now_unix (sv_io sv) w2 = (now, w3)" "update_proven sv cfg sg prior rate w3"
    unfolding tick_proven_def by blast
  with proven_update_executed[OF assms(3) prior] z(1,2) show ?thesis by blast
qed

theorem moved_liveness_means_moved_rate_witness:
  "\<exists>z rate prior x1 w2. (operator_step plain_service plain_config plain_signer)\<^sup>*\<^sup>* (started_at 1000) z \<and>
     (operator_step plain_service plain_config plain_signer)\<^sup>*\<^sup>* z
       \<lparr>op_service = after_tick 1000, op_world = (3600000000000 + 6001000, True), op_log = [],
         op_running = True\<rparr> \<and>
     proposed_rate plain_service plain_config (op_service z,
       snd (liveness_check (sv_io plain_service) plain_config (op_service z) (op_world z))) =
       Some (Done (Ok rate), x1) \<and>
     query_state plain_service plain_config plain_signer (snd x1) = Some (Done (Ok prior), w2) \<and>
     rate_set_after plain_api (oracle_at rate_1 1000000) plain_past (plain_past w2) rate"
proof (rule moved_liveness_means_moved_rate[OF _ _ plain_reports_chain])
  show "(operator_step plain_service plain_config plain_signer)\<^sup>*\<^sup>* (started_at 1000)
      \<lparr>op_service = after_tick 1000, op_world = (3600000000000 + 6001000, True), op_log = [],
        op_running = True\<rparr>"
    using plain_operator_step by (rule r_into_rtranclp)
qed (simp add: started_at_def initial_service_state_def liveness_new_def after_tick_def)

text \<open>
  C10: A tick decides to submit exactly the rates that the oracle contract accepts from its
  operator at that time: the decision of the service, on the state the contract reports,
  agrees with the execution of the contract.
\<close>

theorem tick_submits_iff_contract_accepts:
  assumes "oracle_query_state s = Ok state" and "o_config s = Some cfg"
    and "sender info = oc_oracle_operator cfg"
  shows "(\<exists>d b hb. decide_tick_action proposed state (block_seconds e) =
        (Ok (Submit d b hb) :: (tick_action, tick_error) result)) \<longleftrightarrow>
    (\<exists>s' r. oracle_execute a e info (UpdateRate proposed) s = Ok (s', r))"
  using submit_iff_contract[OF assms] by (simp add: oracle_execute_def)

theorem tick_submits_iff_contract_accepts_witness:
  "\<exists>s' r. oracle_execute plain_api (at_time 1014400) (sent_by ''op'') (UpdateRate rate_2)
     (oracle_at rate_1 1000000) = Ok (s', r)"
proof (rule tick_submits_iff_contract_accepts[where state = state_before, THEN iffD1])
  show "oracle_query_state (oracle_at rate_1 1000000) = Ok state_before"
    by (simp add: oracle_query_state_Ok_iff oracle_at_def oracle_0_def state_before_def)
  show "o_config (oracle_at rate_1 1000000) =
      Some \<lparr>oc_governance = ''gov'', oc_oracle_operator = ''op'', oc_paused = False\<rparr>"
    by (simp add: oracle_at_def oracle_0_def)
  show "sender (sent_by ''op'') =
      oc_oracle_operator \<lparr>oc_governance = ''gov'', oc_oracle_operator = ''op'', oc_paused = False\<rparr>"
    by simp
  show "\<exists>d b hb. decide_tick_action rate_2 state_before (block_seconds (at_time 1014400)) =
      (Ok (Submit d b hb) :: (tick_action, tick_error) result)"
    by (simp add: block_seconds_at plain_decide) (rule exI[of _ False], simp)
qed

text \<open>
  C24: A rate the service decided to submit stays acceptable: as long as nobody changes the
  contract, it accepts the update in any later block, across the change of the UTC day too.
\<close>

theorem submitted_rate_stays_acceptable:
  assumes "oracle_inv s" and "oracle_query_state s = Ok state" and "o_config s = Some cfg"
    and "sender info = oc_oracle_operator cfg"
    and "decide_tick_action proposed state now =
      (Ok (Submit d b hb) :: (tick_action, tick_error) result)"
    and "now \<le> block_seconds e" and "unat proposed * 10200 < 2 ^ 128"
  shows "\<exists>s' r. oracle_execute a e info (UpdateRate proposed) s = Ok (s', r)"
  using submit_accepted_later[OF assms] by (simp add: oracle_execute_def)

theorem submitted_rate_stays_acceptable_witness:
  "\<exists>s' r. oracle_execute plain_api (at_time 1100000) (sent_by ''op'') (UpdateRate rate_2)
     (oracle_at rate_1 1000000) = Ok (s', r)"
proof (rule submitted_rate_stays_acceptable[where state = state_before and now = 1014400])
  show "oracle_inv (oracle_at rate_1 1000000)"
    by (simp add: oracle_inv_def oracle_state_ok_def oracle_at_def oracle_0_def rate_1_def)
  show "oracle_query_state (oracle_at rate_1 1000000) = Ok state_before"
    by (simp add: oracle_query_state_Ok_iff oracle_at_def oracle_0_def state_before_def)
  show "decide_tick_action rate_2 state_before 1014400 = 
      (Ok (Submit 11 1210000000000000000 False) :: (tick_action, tick_error) result)"
    by (rule plain_decide)
  show "o_config (oracle_at rate_1 1000000) =
      Some \<lparr>oc_governance = ''gov'', oc_oracle_operator = ''op'', oc_paused = False\<rparr>"
    by (simp add: oracle_at_def oracle_0_def)
  show "sender (sent_by ''op'') =
      oc_oracle_operator \<lparr>oc_governance = ''gov'', oc_oracle_operator = ''op'', oc_paused = False\<rparr>"
    by simp
  show "(1014400 :: u64) \<le> block_seconds (at_time 1100000)"
    by (simp add: block_seconds_at word_le_nat_alt)
  show "unat rate_2 * 10200 < 2 ^ 128"
    by (simp add: rate_2_def)
qed

text \<open>
  C21: A tick ends, even without its timeout: when requests come back and sleeping lets the
  clock advance, the loop that waits for the transaction, the retries and the tick around
  them return.
\<close>

theorem tick_terminates:
  assumes "time_advances (sv_io sv) T"
  shows "\<exists>r y. run_once sv cfg sg x = Some (r, y)"
  using run_once_returns[OF assms] .

theorem tick_terminates_witness:
  "\<exists>r y. run_once plain_service plain_config plain_signer
     (initial_service_state Map.empty 0, (0, False)) = Some (r, y)"
  by (rule tick_terminates[where T = fst]) (simp add: plain_service_def plain_time)

section \<open>Freshness\<close>

lemma plain_quiet: "quiet ''op'' rate_1 (oracle_at rate_1 1000000)"
  by (simp add: quiet_def oracle_inv_def oracle_state_ok_def oracle_at_def oracle_0_def rate_1_def)

text \<open>
  C11: Heartbeats keep the window open. On a quiet market every tick proposes the rate the
  contract has; whatever ticks went before, in any rhythm and with any delay between decision
  and block, the window accepts the state of the oracle as long as the last tick is no older
  than the maximal age less the four hours of the throttle.
\<close>

theorem heartbeats_keep_window_open:
  assumes "quiet operator rate s" and "sender info = operator" and "unat rate * 10200 < 2 ^ 128"
    and "ts \<noteq> []" and "\<forall>t\<in>set ts. 0 < fst t \<and> fst t \<le> block_seconds (snd t)"
    and "unat (block_seconds e) \<le> unat (fst (last ts)) + since"
    and "4 * 60 * 60 + since \<le> unat max_age"
  shows "\<exists>state. oracle_query_state (fold (tick_effect a info rate) ts s) = Ok state \<and>
    sr_rate state = rate \<and> ensure_oracle_usable e state max_age = Ok ()"
  using ticks_keep_fresh[OF assms(1-5)] fresh_usable[OF _ _ assms(6,7)] by blast

theorem heartbeats_keep_window_open_witness:
  "\<exists>state. oracle_query_state (fold (tick_effect plain_api (sent_by ''op'') rate_1)
       [(1003700, at_time 1003705), (1014500, at_time 1014505)] (oracle_at rate_1 1000000)) = Ok state \<and>
     sr_rate state = rate_1 \<and>
     ensure_oracle_usable (at_time 1021000) state DEFAULT_MAX_ORACLE_AGE_SECS = Ok ()"
  by (rule heartbeats_keep_window_open[OF plain_quiet, where since = 7200])
    (simp_all add: rate_1_def block_seconds_at word_le_nat_alt DEFAULT_MAX_ORACLE_AGE_SECS_def)

text \<open>
  C12: The oracle follows a market that moves. On a market whose rate never falls and rises by
  at most 2 percent within any two days, with ticks at most \<open>pause\<close> seconds apart whose
  updates reach a block within \<open>delay\<close> seconds, the daily cap never holds an update back:
  after any number of ticks the contract has a rate that the market has at a time later than
  four hours and a delay before the last tick, and the window accepts it as long as the last tick is no
  older than the maximal age less four hours.
\<close>

theorem oracle_follows_slow_market:
  assumes "slow_market m" and "follows operator delay m s" and "sender info = operator"
    and "pause + 2 * delay \<le> 20 * 60 * 60" and "ts \<noteq> []" and "paced pause ts"
    and "\<forall>t\<in>set ts. tick_timing delay t"
    and "last_update_of s \<noteq> 0 \<Longrightarrow>
      unat (block_seconds (snd (hd ts))) + delay \<le> last_update_of s + 24 * 60 * 60"
    and "unat (block_seconds e) \<le> unat (fst (last ts)) + since"
    and "4 * 60 * 60 + since \<le> unat max_age"
  shows "\<exists>state t. oracle_query_state (fold (market_tick a info m) ts s) = Ok state \<and>
    ensure_oracle_usable e state max_age = Ok () \<and>
    sr_rate state = m t \<and> unat (fst (last ts)) < t + 4 * 60 * 60 + delay"
proof -
  have "last_update_of s \<noteq> 0 \<Longrightarrow>
      unat (block_seconds (snd (hd ts))) + delay \<le> last_update_of s + 86400"
    using assms(8) by simp
  from market_ticks_follow[OF assms(1,3-7,2) this] follows_usable[OF _ _ assms(9,10)]
  show ?thesis by blast
qed

definition rising_market :: market where
  "rising_market t = (if t < 1010000 then rate_1 else rate_2)"

theorem oracle_follows_slow_market_witness:
  "\<exists>state t. oracle_query_state (fold (market_tick plain_api (sent_by ''op'') rising_market)
       [(1003700, at_time 1003705), (1014500, at_time 1014505)] (oracle_at rate_1 1000000)) = Ok state \<and>
     ensure_oracle_usable (at_time 1021000) state DEFAULT_MAX_ORACLE_AGE_SECS = Ok () \<and>
     sr_rate state = rising_market t \<and>
     unat (fst (last [(1003700 :: u64, at_time 1003705), (1014500, at_time 1014505)])) < t + 4 * 60 * 60 + 10"
proof (rule oracle_follows_slow_market[where pause = 10800 and since = 7200 and operator = "''op''"])
  show "slow_market rising_market"
    by (auto simp: slow_market_def rising_market_def rate_1_def rate_2_def word_le_nat_alt)
  have "follows_state 10 rising_market \<lparr>os_rate = rate_1, os_last_update_sec = 1000000,
      os_utc_day_id = 11, os_day_baseline_rate = rate_1\<rparr>"
    by (auto simp: follows_state_def rising_market_def intro!: exI[of _ 1000000])
  then show "follows ''op'' 10 rising_market (oracle_at rate_1 1000000)"
    using plain_quiet by (simp add: follows_def quiet_def oracle_at_def oracle_0_def rate_1_def)
qed (simp_all add: paced_def tick_timing_def block_seconds_at word_le_nat_alt last_update_of_def
    oracle_at_def DEFAULT_MAX_ORACLE_AGE_SECS_def)

text \<open>
  C29: A poll interval between three and four hours raises no timing warning, and yet lets the
  oracle expire in every cycle: the first tick after an update is throttled, and before the
  second one the state is older than the default maximal age, so the window refuses to swap.
\<close>

theorem unwarned_poll_lets_oracle_expire:
  assumes "quiet operator rate s" and "0 < last_update_of s"
    and "3 * 60 * 60 < unat poll" and "unat poll < 4 * 60 * 60"
    and "unat (fst t) = last_update_of s + unat poll"
    and "last_update_of s + 6 * 60 * 60 < unat (block_seconds e)"
    and "unat (block_seconds e) < last_update_of s + 2 * unat poll"
  shows "ops_timing_warnings poll DEFAULT_ORACLE_MAX_SILENCE_SECS = [] \<and>
    tick_effect a info rate t s = s \<and>
    (\<exists>state. oracle_query_state s = Ok state \<and>
       ensure_oracle_usable e state DEFAULT_MAX_ORACLE_AGE_SECS = Err OracleStale)"
proof (intro conjI)
  show "ops_timing_warnings poll DEFAULT_ORACLE_MAX_SILENCE_SECS = []"
    using assms(3,4) by (simp add: ops_timing_no_warning_iff DEFAULT_ORACLE_MAX_SILENCE_SECS_def
        DEFAULT_MAX_ORACLE_AGE_SECS_def)
  show "tick_effect a info rate t s = s"
    by (rule throttled_tick_skips[OF assms(1,2)]) (use assms(4,5) in simp)
  show "\<exists>state. oracle_query_state s = Ok state \<and>
      ensure_oracle_usable e state DEFAULT_MAX_ORACLE_AGE_SECS = Err OracleStale"
    by (rule old_state_stale[OF assms(1)]) (use assms(6) in \<open>simp add: DEFAULT_MAX_ORACLE_AGE_SECS_def\<close>)
qed

theorem unwarned_poll_lets_oracle_expire_witness:
  "ops_timing_warnings 14000 DEFAULT_ORACLE_MAX_SILENCE_SECS = [] \<and>
   tick_effect plain_api (sent_by ''op'') rate_1 (1014000, at_time 1014005) (oracle_at rate_1 1000000) =
     oracle_at rate_1 1000000 \<and>
   (\<exists>state. oracle_query_state (oracle_at rate_1 1000000) = Ok state \<and>
      ensure_oracle_usable (at_time 1025000) state DEFAULT_MAX_ORACLE_AGE_SECS = Err OracleStale)"
  by (rule unwarned_poll_lets_oracle_expire[OF plain_quiet])
    (simp_all add: last_update_of_def oracle_at_def block_seconds_at)

section \<open>The rate\<close>

text \<open>
  C13: The rate of a tick comes from two agreeing providers on an allowed chain. After a
  successful start and any run of the loop, a rate that a tick proposes is what one
  configured provider answered, at the configured depth below the latest block, for the
  configured token and scaled by the decimals of token and underlying; a second provider
  answered a rate within 0.01 percent of it; and every configured provider is known under an
  allowed chain id that it reported at the start.
\<close>

theorem tick_rate_provenance:
  assumes start: "start_service d cl W tcp = Ok st"
    and run: "(operator_step sv (st_config st) sg)\<^sup>*\<^sup>* x y"
    and x: "ss_chain_ids (op_service x) = st_chain_ids st"
    and bsc: "sv_bsc sv w = (ans, w1)" and pow: "\<And>k. pow_exact (ba_client ans k)"
    and rate: "proposed_rate sv (st_config st) (op_service y, w) = Some (Done (Ok R), z)"
  shows "(\<exists>i j v. i < j \<and> j < 3 \<and> j < length (sc_bsc_rpc_urls (st_config st)) \<and>
      (max (unat R) (unat v) - min (unat R) (unat v)) * 10000 \<le> max (unat R) (unat v) \<and>
      provider_rate (ba_client ans i) (st_config st) (sc_bsc_rpc_urls (st_config st) ! i) R \<and>
      provider_rate (ba_client ans j) (st_config st) (sc_bsc_rpc_urls (st_config st) ! j) v) \<and>
    (\<forall>url\<in>set (sc_bsc_rpc_urls (st_config st)). \<exists>i\<in>set (sc_allowed_bsc_chain_ids (st_config st)).
      ss_chain_ids (op_service y) url = Some i \<and>
      answered_chain_id cl (sc_bsc_rpc_timeout_secs (st_config st)) url i)"
proof (rule conjI)
  have "sv_bsc sv (snd (op_service y, w)) = (ans, w1)" using bsc by simp
  from proposed_rate_Ok[OF rate this pow] show "\<exists>i j v. i < j \<and> j < 3 \<and>
      j < length (sc_bsc_rpc_urls (st_config st)) \<and>
      (max (unat R) (unat v) - min (unat R) (unat v)) * 10000 \<le> max (unat R) (unat v) \<and>
      provider_rate (ba_client ans i) (st_config st) (sc_bsc_rpc_urls (st_config st) ! i) R \<and>
      provider_rate (ba_client ans j) (st_config st) (sc_bsc_rpc_urls (st_config st) ! j) v"
    unfolding agree_iff .
  have keep: "st_chain_ids st \<subseteq>\<^sub>m ss_chain_ids (op_service y)"
    using operator_run_cache[OF run] x by simp
  show "\<forall>url\<in>set (sc_bsc_rpc_urls (st_config st)). \<exists>i\<in>set (sc_allowed_bsc_chain_ids (st_config st)).
      ss_chain_ids (op_service y) url = Some i \<and>
      answered_chain_id cl (sc_bsc_rpc_timeout_secs (st_config st)) url i"
    using start_providers_known(1,3)[OF start] keep
    unfolding providers_known_def map_le_def by (metis domI)
qed

theorem tick_rate_provenance_witness:
  "\<exists>i j v. i < j \<and> j < 3 \<and> j < length (sc_bsc_rpc_urls plain_config) \<and>
     (max (unat rate_2) (unat v) - min (unat rate_2) (unat v)) * 10000 \<le> max (unat rate_2) (unat v) \<and>
     provider_rate plain_client plain_config (sc_bsc_rpc_urls plain_config ! i) rate_2 \<and>
     provider_rate plain_client plain_config (sc_bsc_rpc_urls plain_config ! j) v"
proof -
  have c: "st_config plain_started = plain_config" by (simp add: plain_started_def)
  have x: "ss_chain_ids (op_service (started_at 1000)) = st_chain_ids plain_started"
    by (simp add: started_at_def initial_service_state_def)
  have b: "sv_bsc plain_service (1000, False) = (plain_answers, (1000, False))"
    by (simp add: plain_service_def)
  have p: "pow_exact (ba_client plain_answers k)" for k by (simp add: plain_answers_def plain_pow)
  have r: "proposed_rate plain_service (st_config plain_started) (op_service (started_at 1000), (1000, False)) =
      Some (Done (Ok rate_2), (op_service (started_at 1000), (1000, False)))"
    unfolding c by (rule plain_rate) (simp add: x plain_started_def)
  show ?thesis
    using tick_rate_provenance[OF plain_start rtranclp.rtrancl_refl[of _ "started_at 1000"] x b p r]
    unfolding c by (simp add: plain_answers_def)
qed

text \<open>
  C23: One faulty provider of three is tolerated: whatever one of the three calls answers, a
  wrong rate or an error, the two others decide when they answer the same rate.
\<close>

theorem one_faulty_provider_tolerated:
  assumes "3 \<le> length urls" and "f < 3"
    and "\<And>k. k < 3 \<Longrightarrow> k \<noteq> f \<Longrightarrow> read k (urls ! k) = Ok R"
    and "read f (urls ! f) \<noteq> Panicked"
  shows "\<exists>r. run_with_evm_rpc_rate_consensus urls read = Ok r \<and>
     (max (unat r) (unat R) - min (unat r) (unat R)) * 10000 \<le> max (unat r) (unat R)"
  using consensus_one_faulty[where urls = urls and read = read and f = f and R = R, OF assms] unfolding agree_iff .

theorem one_faulty_provider_tolerated_witness:
  "\<exists>r. run_with_evm_rpc_rate_consensus [''a'', ''b'', ''c'']
      (\<lambda>k url. if k = 1 then Err ''down'' else Ok 1210000000000000000) = Ok r \<and>
     (max (unat r) (unat (1210000000000000000 :: u128)) - min (unat r) (unat (1210000000000000000 :: u128))) * 10000 \<le>
       max (unat r) (unat (1210000000000000000 :: u128))"
  by (rule one_faulty_provider_tolerated[where f = 1]) simp_all

text \<open>
  C30: What a start of the service establishes: at least two provider URLs, every URL
  encrypted or local by permission, a non-empty list of chain ids, an address that parses and
  is the canonical token where only the main net is allowed, a gas price that is not zero or
  negative, every provider verified, and no timing warning exactly when the intervals keep to
  the documented bounds.
\<close>

theorem start_establishes:
  assumes "start_service d cl W tcp = Ok st"
  shows "service_config_ok d (st_config st) \<and>
    providers_known (st_config st) (st_chain_ids st) \<and>
    cache_allowed (sc_allowed_bsc_chain_ids (st_config st)) (st_chain_ids st) \<and>
    (st_warnings st = [] \<longleftrightarrow>
       0 < unat (sc_poll_interval_secs (st_config st)) \<and>
       unat (sc_poll_interval_secs (st_config st)) < 21600 \<and>
       unat (sc_max_silence_since_broadcast_secs (st_config st)) \<le> 21600 \<and>
       unat (sc_max_silence_since_broadcast_secs (st_config st)) \<le>
         unat (sc_poll_interval_secs (st_config st)) * 8)"
  using config_from_env_ok[OF start_service_Ok(1)[OF assms]] start_providers_known(1,2)[OF assms]
    start_service_Ok(3)[OF assms] ops_timing_no_warning_iff by simp

theorem start_establishes_witness:
  "service_config_ok plain_env (st_config plain_started) \<and>
   providers_known (st_config plain_started) (st_chain_ids plain_started)"
  using start_establishes[OF plain_start] by blast

section \<open>Confirmation\<close>

definition rfc_lcd :: "string lcd_lib" where
  "rfc_lcd = plain_lcd\<lparr>base64_decode := base64_standard\<rparr>"

lemma rfc_base64: "standard_base64 rfc_lcd"
  by (simp add: standard_base64_def rfc_lcd_def base64_standard_Ok_iff)

text \<open>
  C20: From the contract to the confirmation: when the oracle contract executes an update, the
  wasm event of that call, among any other events, is matched as the proof of that update, and
  the state the contract then reports confirms it too, against the state it reported before.
  The node may show every text of the event in the clear or in base64, which the base64 crate
  decodes as RFC 4648 has it; only the rate has to be in base64 when the number of its digits
  is a multiple of four (a rate from 1 to less than 10 has 19 digits). The contract has an
  address of Terra.
\<close>

theorem contract_event_is_matched:
  assumes "oracle_execute a e info (UpdateRate rate) s = Ok (s', r)"
    and "standard_base64 L" and "contract = ''terra1'' @ d" and "visible d"
    and "\<And>x. enc x = x \<or> enc x = base64_text x"
    and "enc (show_nat (unat rate)) = base64_text (show_nat (unat rate)) \<or>
      \<not> 4 dvd length (show_nat (unat rate))"
    and "json_get ''events'' tx = Some (JArray evs)"
    and "wasm_event_json enc contract (attributes r) \<in> set evs"
    and "oracle_query_state s = Ok prior" and "0 < block_seconds e"
  shows "oracle_tx_events_match_update contract rate (parse_tx_events L tx) = Ok Matched \<and>
    (\<exists>st. oracle_query_state s' = Ok st \<and>
       oracle_state_matches_intended_update (sr_last_update_sec prior) st rate = Ok ())"
proof -
  from assms(1) have up: "execute_update_rate e info rate s = Ok (s', r)"
    by (simp add: oracle_execute_def)
  have "decode_tendermint_attr L (enc x) = x"
    if "x \<in> {contract, show_nat (unat rate), ''_contract_address'', ''action'', ''update_rate'', ''rate''}" for x
    using event_texts_read_back[OF assms(2,5,4,6)] that unfolding assms(3) by blast
  from update_event_matches[OF up this assms(7,8)] executed_update_state_matches[OF up assms(9,10)]
  show ?thesis ..
qed

definition base64_answer :: json where
  "base64_answer = JObject [(''events'',
     JArray [wasm_event_json base64_text ''terra1oracle'' update_attrs])]"

theorem contract_event_is_matched_witness:
  "oracle_tx_events_match_update ''terra1oracle'' rate_2 (parse_tx_events rfc_lcd base64_answer) = Ok Matched \<and>
   (\<exists>st. oracle_query_state (oracle_at rate_2 1014400) = Ok st \<and>
      oracle_state_matches_intended_update (sr_last_update_sec state_before) st rate_2 = Ok ())"
proof -
  obtain r where up: "oracle_execute plain_api (at_time 1014400) (sent_by ''op'') (UpdateRate rate_2)
      (oracle_at rate_1 1000000) = Ok (oracle_at rate_2 1014400, r)"
    using oracle_second_update by (auto simp: oracle_step_def update_call_def)
  then have r: "attributes r = update_attrs"
    by (auto simp: oracle_execute_def update_attrs_def dest: update_attributes)
  show ?thesis
  proof (rule contract_event_is_matched[OF up rfc_base64, where d = "''oracle''" and enc = base64_text])
    show "visible ''oracle''" by (simp add: visible_def byte_of_def)
    show "json_get ''events'' base64_answer =
        Some (JArray [wasm_event_json base64_text ''terra1oracle'' update_attrs])"
      by (simp add: base64_answer_def)
    show "wasm_event_json base64_text ''terra1oracle'' (attributes r) \<in>
        set [wasm_event_json base64_text ''terra1oracle'' update_attrs]"
      unfolding r by (rule list.set_intros(1))
    show "oracle_query_state (oracle_at rate_1 1000000) = Ok state_before"
      by (simp add: oracle_query_state_Ok_iff oracle_at_def oracle_0_def state_before_def)
    show "0 < block_seconds (at_time 1014400)"
      by (simp add: block_seconds_at)
  qed simp_all
qed

text \<open>
  C40: How an attribute is read. Base64 of any printable text, in UTF-8 and without control
  characters, is read back as that text; a visible text in the clear is read as it is unless it
  happens to be the base64 of a printable text. The rate 1500 does, and is misread.
\<close>

theorem attribute_read_back:
  assumes "standard_base64 L" and "printable x" and "visible t"
  shows "decode_tendermint_attr L (base64_text x) = x \<and>
    (decode_tendermint_attr L t = t \<longleftrightarrow> \<not> (\<exists>y. printable y \<and> base64_text y = t))"
  using base64_read_back[OF assms(1,2)] clear_read_iff[OF assms(1) trim_visible[OF assms(3)]] by blast

theorem attribute_read_back_witness:
  "decode_tendermint_attr rfc_lcd ''b3JhY2xl'' = ''oracle'' \<and>
   decode_tendermint_attr rfc_lcd ''1500'' \<noteq> ''1500''"
proof -
  have v: "visible ''oracle''" "visible ''1500''" by (simp_all add: visible_def byte_of_def)
  have "base64_text ''oracle'' = ''b3JhY2xl''"
    by (simp add: base64_digit_def byte_of_def char_of_def bit_0)
  moreover have "printable [CHR 0xD7, CHR 0x9D, CHR ''4'']"
    by (simp add: printable_def chars_of_def byte_of_def continuation_def is_control_def)
  moreover have "base64_text [CHR 0xD7, CHR 0x9D, CHR ''4''] = ''1500''"
    by (simp add: base64_digit_def byte_of_def char_of_def bit_0)
  ultimately show ?thesis
    using attribute_read_back[OF rfc_base64 visible_printable[OF v(1)] v(2)] by auto
qed

text \<open>
  C22: The events decide fail-closed. They match exactly when one group of wasm attributes
  names the contract, the action \<open>update_rate\<close> and only the proposed rate; they count as
  absent exactly when there is no such group at all; anything else is an error, never an
  abort.
\<close>

theorem events_decide_fail_closed:
  "case oracle_tx_events_match_update contract rate evs of
     Inr Matched \<Rightarrow> (\<exists>g\<in>set (wasm_attr_groups evs). proves_update contract rate g)
   | Inr EventsAbsent \<Rightarrow> wasm_attr_groups evs = []
   | Inl (Fail _) \<Rightarrow> wasm_attr_groups evs \<noteq> [] \<and>
       \<not> (\<exists>g\<in>set (wasm_attr_groups evs). proves_update contract rate g)
   | Inl Panic \<Rightarrow> False"
proof -
  have "v \<noteq> []" if "proves_update contract rate g" "v \<in> set (values_of ''rate'' g)" for g v
  proof
    assume "v = []"
    with that have "(parse_uint (trim []) :: u128 option) = Some rate" unfolding proves_update_def by blast
    then show False by (simp add: trim_visible visible_def parse_uint_def)
  qed
  then have "judge_group contract rate g = RateMatches \<longleftrightarrow> proves_update contract rate g" for g
    using judge_matchesI judge_matchesD by blast
  then show ?thesis
    using match_iff[of contract rate evs] events_absent_iff[of contract rate evs]
      match_no_panic[of contract rate evs]
    by (cases "oracle_tx_events_match_update contract rate evs")
      (auto split: fault.splits oracle_tx_event_match.splits)
qed

section \<open>The Terra client\<close>

text \<open>
  C19: What a successful broadcast means. The returned hash is that of a transaction with one
  call of the contract and no funds, signed for the sequence and account number in the answer
  of the node to the account query, at a fee for the price that follows from its answer to the
  probe of its configuration, the network's minimum if it named one above the configured price
  and the configured price otherwise, which the node then admitted with code 0. It was the
  first attempt, or the only other one after an error about the account sequence.
\<close>

theorem broadcast_outcome:
  assumes "sign_and_broadcast_execute L W io to_vec sg contract msg w = Some (Done (Ok h), w')"
  shows "admitted L W io to_vec sg contract msg h w w' \<or>
    (\<exists>e w1. sign_and_broadcast_execute_inner L W io to_vec sg contract msg w = Some (Done (Err e), w1) \<and>
       is_account_sequence_mismatch e \<and> admitted L W io to_vec sg contract msg h w1 w')"
  using broadcast_Ok[OF assms] .

theorem broadcast_outcome_witness:
  "admitted plain_lcd plain_wallet plain_io (\<lambda>_. Ok ''update'') plain_signer ''oracle'' (UpdateRate rate_2)
     ''AB12'' (0, False) (3000000, True) \<or>
   (\<exists>e w1. sign_and_broadcast_execute_inner plain_lcd plain_wallet plain_io (\<lambda>_. Ok ''update'') plain_signer
        ''oracle'' (UpdateRate rate_2) (0, False) = Some (Done (Err e), w1))"
  using broadcast_outcome[of plain_lcd plain_wallet plain_io "\<lambda>_. Ok ''update''" plain_signer "''oracle''"
      "UpdateRate rate_2" "(0, False)" "''AB12''" "(3000000, True)"] plain_broadcast[of _ 0]
  by auto

text \<open>
  C36: The account is found through any nesting of the account types the source lists, and
  its sequence and number are read back as the node wrote them.
\<close>

theorem account_found_through_wrappers:
  assumes "set ks \<subseteq> set account_wrappers"
  shows "parse_account_info L (account_answer (wrap_account ks (account_object i))) = Ok i"
  using parse_account_wrapped[OF assms] .

theorem account_found_through_wrappers_witness:
  "parse_account_info plain_lcd (account_answer
     (wrap_account [''base_vesting_account'', ''base_account''] (account_object account_7))) = Ok account_7"
  by (rule account_found_through_wrappers) (simp add: account_wrappers_def)

text \<open>
  C37: The fee at the effective gas price covers the fee at the configured price and the fee
  at the network's minimum, rounding of the floating point numbers included.
\<close>

theorem effective_fee_covers_both:
  assumes "f64_le (Finite 0) configured"
  shows "compute_fee_amount g configured \<le> compute_fee_amount g (effective_gas_price configured n) \<and>
    (case n of None \<Rightarrow> True
     | Some network \<Rightarrow> compute_fee_amount g network \<le> compute_fee_amount g (effective_gas_price configured n))"
  using effective_fee_covers[OF assms] by (auto split: option.splits)

theorem effective_fee_covers_both_witness:
  "7500 \<le> compute_fee_amount DEFAULT_GAS_LIMIT (effective_gas_price DEFAULT_GAS_PRICE (Some (Finite 1)))"
  using effective_fee_covers_both[of DEFAULT_GAS_PRICE DEFAULT_GAS_LIMIT "Some (Finite 1)"] default_fee
  by (simp add: default_gas_price)

text \<open>
  C38: Reading the answer about a transaction aborts exactly when an error status comes with
  a body whose text is longer than 256 bytes and has a character across the byte 256.
\<close>

theorem tx_query_aborts_iff:
  "parse_tx_query_body L st body = Panicked \<longleftrightarrow>
     \<not> http_status_is_not_found st \<and> \<not> tx_body_looks_not_found L body \<and> \<not> is_success st \<and>
     256 < length (json_to_string L body) \<and> continuation (byte_of (json_to_string L body ! 256))"
  using truncate_panics_iff[of L body]
  by (auto simp: parse_tx_query_body_def and_then_Panic_iff Let_def)

end
