(* ===== verification/Test_Lib.thy ===== *)
theory Test_Lib
  imports Prelude
begin

text \<open>
  The tests of the repository as functions of the model. A test returns, or it aborts: a failed
  assertion and an \<open>unwrap\<close> of the other variant are panics. That a test passes says that the
  model gives what the code is known to give on its inputs.
\<close>

type_synonym test = "(unit, unit) result"

definition unwrap :: "('a, 'e) result \<Rightarrow> ('a, unit) result" where
  "unwrap r = (case r of Inr x \<Rightarrow> Ok x | Inl _ \<Rightarrow> Panicked)"

definition unwrap_err :: "('a, 'e) result \<Rightarrow> ('e, unit) result" where
  "unwrap_err r = (case r of Inl (Fail e) \<Rightarrow> Ok e | _ \<Rightarrow> Panicked)"

definition unwrap_some :: "'a option \<Rightarrow> ('a, unit) result" where
  "unwrap_some r = (case r of Some x \<Rightarrow> Ok x | None \<Rightarrow> Panicked)"

definition verify :: "bool \<Rightarrow> test" where
  "verify b = (if b then Ok () else Panicked)"

fun for_all :: "'c list \<Rightarrow> ('c \<Rightarrow> test) \<Rightarrow> test" where
  "for_all [] t = Ok ()"
| "for_all (c # cs) t = and_then (t c) (\<lambda>_. for_all cs t)"

definition is_ok :: "('a, 'e) result \<Rightarrow> bool" where
  "is_ok r = (case r of Inr x \<Rightarrow> True | Inl _ \<Rightarrow> False)"

definition passes :: "test \<Rightarrow> bool" where
  "passes t \<longleftrightarrow> t = Ok ()"

named_theorems test_simps \<open>when the steps of a test go on\<close>

lemma unwrap_simps [test_simps]:
  "unwrap r = Ok x \<longleftrightarrow> r = Ok x" "unwrap (Ok x) = Ok x"
  by (auto simp: unwrap_def split: sum.splits)

lemma unwrap_err_simps [test_simps]:
  "unwrap_err r = Ok e \<longleftrightarrow> r = Err e" "unwrap_err (Err e) = Ok e"
  by (auto simp: unwrap_err_def split: sum.splits fault.splits)

lemma unwrap_some_simps [test_simps]: "unwrap_some (Some x) = Ok x"
  by (simp add: unwrap_some_def)

lemma verify_simps [test_simps]: "verify True = Ok ()" "verify b = Ok () \<longleftrightarrow> b"
  by (auto simp: verify_def)

lemma is_ok_simps [test_simps]: "is_ok (Ok x)" "\<not> is_ok (Inl e)"
  by (auto simp: is_ok_def)

lemma passes_simps [test_simps]: "passes (Ok x)" "passes (verify b) \<longleftrightarrow> b"
  by (auto simp: passes_def verify_def)

lemma passes_and_then: "passes (and_then m k) \<longleftrightarrow> (\<exists>x. m = Ok x \<and> passes (k x))"
  by (auto simp: passes_def and_then_Ok_iff)

lemma passes_for_all: "passes (for_all cs t) \<longleftrightarrow> (\<forall>c\<in>set cs. passes (t c))"
  by (induction cs) (auto simp: passes_def and_then_Ok_iff)

end
