(* ===== verification/Test_Common.thy ===== *)
theory Test_Common
  imports Test_Lib Swap_Math Oracle_Policy
begin

text \<open>
  The tests of \<open>ust1-common\<close>: those of \<open>math.rs\<close> and \<open>oracle_policy.rs\<close>, and those of
  \<open>smartcontracts-terraclassic/tests/src/oracle_policy_tests.rs\<close>.
\<close>

section \<open>Tests of math.rs\<close>

definition inv_math_001_one_to_one_rate :: test where
  "inv_math_001_one_to_one_rate =
     (let r = RATE_SCALE in
      and_then (unwrap (vfdusd_to_ust1_before_fee 1000000 r)) (\<lambda>out.
      verify (out = 1000000)))"

definition inv_swap_001_fee_reduces_output :: test where
  "inv_swap_001_fee_reduces_output =
     (let rate = RATE_SCALE; x = 10000000 in
      and_then (unwrap (deposit_vfdusd_to_ust1 x rate 50)) (\<lambda>out.
      verify (out < x)))"

definition inv_fee_event_001_withheld_ust1_vectors :: test where
  "inv_fee_event_001_withheld_ust1_vectors =
     for_all [(1000000, 100, 10000), (1000000, 0, 0), (1000000, 10000, 1000000),
              (990000, 100, 9900), (9, 9999, 9)] (\<lambda>(amount, fee_bps, expected).
       and_then (unwrap (fee_amount_ust1 amount fee_bps)) (\<lambda>withheld.
       and_then (unwrap (apply_fee_ust1 amount fee_bps)) (\<lambda>after.
       and_then (verify (withheld = expected)) (\<lambda>_.
       and_then (unwrap (checked_add after withheld)) (\<lambda>s.
       verify (s = amount))))))"

definition inv_swap_002_reverse_fee_applies_vectors :: test where
  "inv_swap_002_reverse_fee_applies_vectors =
     (let r_one = RATE_SCALE; r_double = RATE_SCALE * 2; r_triple = RATE_SCALE * 3 in
      for_all [((10000000, 0, r_one), 10000000), ((10000000, 50, r_one), 9950000),
               ((1, 0, r_one), 1), ((9, 9999, r_one), 0), ((1000000, 10000, r_one), 0),
               ((2000000, 0, r_double), 1000000), ((100, 0, r_triple), 33)]
        (\<lambda>((gross, fee_bps, rate), expected_v).
        and_then (unwrap (withdraw_gross_ust1_to_vfdusd gross rate fee_bps)) (\<lambda>out.
        verify (out = expected_v))))"

definition inv_swap_002_after_fee_to_vfdusd_vectors :: test where
  "inv_swap_002_after_fee_to_vfdusd_vectors =
     (let r_one = RATE_SCALE in
      for_all [((9950000, r_one), 9950000), ((1, r_one), 1), ((100, RATE_SCALE * 3), 33)]
        (\<lambda>((after_fee, rate), expected_v).
        and_then (unwrap (ust1_after_fee_to_vfdusd after_fee rate)) (\<lambda>out.
        verify (out = expected_v))))"

definition edge_forward_max_at_one_to_one_rate :: test where
  "edge_forward_max_at_one_to_one_rate =
     (let rate = RATE_SCALE; m = - 1 in
      and_then (unwrap (vfdusd_to_ust1_before_fee m rate)) (\<lambda>out.
      verify (out = m)))"

definition edge_forward_product_overflows_u128 :: test where
  "edge_forward_product_overflows_u128 =
     (let m = - 1 in
      and_then (unwrap_err (vfdusd_to_ust1_before_fee m m)) (\<lambda>err.
      verify (err = TooLarge)))"

definition edge_reverse_zero_rate_division_by_zero :: test where
  "edge_reverse_zero_rate_division_by_zero =
     and_then (unwrap_err (ust1_after_fee_to_vfdusd 1 0)) (\<lambda>err.
     verify (err = DivisionByZero))"

definition edge_reverse_scale_overflows_u128 :: test where
  "edge_reverse_scale_overflows_u128 =
     (let m = - 1 in
      and_then (unwrap_err (ust1_after_fee_to_vfdusd m 1)) (\<lambda>err.
      verify (err = TooLarge)))"

definition edge_reverse_floor_to_zero_at_huge_rate :: test where
  "edge_reverse_floor_to_zero_at_huge_rate =
     (let huge_rate = - 1 in
      and_then (unwrap (ust1_after_fee_to_vfdusd 1 huge_rate)) (\<lambda>out.
      verify (out = 0)))"

definition edge_withdraw_max_gross_zero_fee_overflows_bps_mul :: test where
  "edge_withdraw_max_gross_zero_fee_overflows_bps_mul =
     (let m = - 1; rate = RATE_SCALE in
      and_then (unwrap_err (withdraw_gross_ust1_to_vfdusd m rate 0)) (\<lambda>err.
      verify (case err of Overflow _ \<Rightarrow> True | _ \<Rightarrow> False)))"

definition edge_withdraw_near_max_gross_one_to_one_zero_fee :: test where
  "edge_withdraw_near_max_gross_one_to_one_zero_fee =
     (let gross = (- 1) div BPS_DENOM; rate = RATE_SCALE in
      and_then (unwrap (withdraw_gross_ust1_to_vfdusd gross rate 0)) (\<lambda>out.
      verify (out = gross)))"

definition edge_forward_near_max_rate_too_large :: test where
  "edge_forward_near_max_rate_too_large =
     (let m = - 1; near_max_rate = - 1 - 1 in
      and_then (unwrap_err (vfdusd_to_ust1_before_fee m near_max_rate)) (\<lambda>err.
      verify (err = TooLarge)))"

text \<open>The tests on generated inputs, as functions of these.\<close>

definition prop_fee_never_inverts :: "u128 \<Rightarrow> u16 \<Rightarrow> test" where
  "prop_fee_never_inverts amount fee =
     and_then (unwrap (apply_fee_ust1 amount fee)) (\<lambda>out.
     verify (out \<le> amount))"

definition prop_monotonic_rate_forward :: "u128 \<Rightarrow> u128 \<Rightarrow> test" where
  "prop_monotonic_rate_forward amount rate =
     and_then (unwrap (vfdusd_to_ust1_before_fee amount rate)) (\<lambda>out.
     verify (0 \<le> out))"

text \<open>\<open>prop_assume\<close> discards the inputs whose product does not fit.\<close>

definition prop_extreme_forward_ok :: "u128 \<Rightarrow> u128 \<Rightarrow> test" where
  "prop_extreme_forward_ok amount rate =
     (if \<not> is_ok (checked_mul (ucast amount :: u256) (ucast rate)) then Ok ()
      else
        and_then (unwrap (vfdusd_to_ust1_before_fee amount rate)) (\<lambda>out.
        if rate \<le> RATE_SCALE then verify (out \<le> amount) else verify (amount \<le> out)))"

definition prop_extreme_reverse_ok_or_too_large :: "u128 \<Rightarrow> u128 \<Rightarrow> test" where
  "prop_extreme_reverse_ok_or_too_large after_fee rate =
     and_then (unwrap (checked_mul (ucast after_fee :: u256) (ucast RATE_SCALE))) (\<lambda>product.
     and_then (unwrap (checked_div product (ucast rate))) (\<lambda>quotient.
     case u256_try_into_u128 quotient of
       Some expected \<Rightarrow>
         and_then (unwrap (ust1_after_fee_to_vfdusd after_fee rate)) (\<lambda>out.
         verify (out = expected))
     | None \<Rightarrow>
         and_then (unwrap_err (ust1_after_fee_to_vfdusd after_fee rate)) (\<lambda>err.
         verify (err = TooLarge))))"

definition prop_reverse_zero_rate_always_err :: "u128 \<Rightarrow> test" where
  "prop_reverse_zero_rate_always_err after =
     and_then (unwrap_err (ust1_after_fee_to_vfdusd after 0)) (\<lambda>err.
     verify (err = DivisionByZero))"

lemmas math_test_defs =
  inv_math_001_one_to_one_rate_def inv_swap_001_fee_reduces_output_def
  inv_fee_event_001_withheld_ust1_vectors_def inv_swap_002_reverse_fee_applies_vectors_def
  inv_swap_002_after_fee_to_vfdusd_vectors_def edge_forward_max_at_one_to_one_rate_def
  edge_forward_product_overflows_u128_def edge_reverse_zero_rate_division_by_zero_def
  edge_reverse_scale_overflows_u128_def edge_reverse_floor_to_zero_at_huge_rate_def
  edge_withdraw_max_gross_zero_fee_overflows_bps_mul_def
  edge_withdraw_near_max_gross_one_to_one_zero_fee_def edge_forward_near_max_rate_too_large_def

definition math_tests :: "test list" where
  "math_tests =
     [inv_math_001_one_to_one_rate, inv_swap_001_fee_reduces_output,
      inv_fee_event_001_withheld_ust1_vectors, inv_swap_002_reverse_fee_applies_vectors,
      inv_swap_002_after_fee_to_vfdusd_vectors, edge_forward_max_at_one_to_one_rate,
      edge_forward_product_overflows_u128, edge_reverse_zero_rate_division_by_zero,
      edge_reverse_scale_overflows_u128, edge_reverse_floor_to_zero_at_huge_rate,
      edge_withdraw_max_gross_zero_fee_overflows_bps_mul,
      edge_withdraw_near_max_gross_one_to_one_zero_fee, edge_forward_near_max_rate_too_large]"

lemmas test_steps = test_simps passes_and_then passes_for_all Let_def

text \<open>A word is determined by its value.\<close>

lemma unat_eq_literal:
  "numeral k < (2 :: nat) ^ LENGTH('a) \<Longrightarrow> unat (x :: 'a::len word) = numeral k \<longleftrightarrow> x = numeral k"
  "unat (x :: 'a::len word) = Suc 0 \<longleftrightarrow> x = 1" "unat x = 0 \<longleftrightarrow> x = 0"
  by (auto simp: word_eq_iff_unat_eq unsigned_numeral take_bit_nat_eq_self)

lemma max_words: "(- 1 :: u128) = 340282366920938463463374607431768211455"
  "(- 2 :: u128) = 340282366920938463463374607431768211454"
  "340282366920938463463374607431768211455 div BPS_DENOM = 34028236692093846346337460743176821"
  by (simp_all add: BPS_DENOM_def)

lemma rate_multiples: "unat (RATE_SCALE * 2) = 2 * 10 ^ 18" "unat (RATE_SCALE * 3) = 3 * 10 ^ 18"
  by (simp_all add: RATE_SCALE_def)

lemma math_tests_pass: "list_all passes math_tests"
  unfolding math_tests_def math_test_defs
  by (simp add: test_steps result_simps deposit_vfdusd_to_ust1_def withdraw_gross_ust1_to_vfdusd_def
     withdraw_ust1_after_fee_def unat_eq_literal rate_multiples max_words
     vfdusd_to_ust1_before_fee_TooLarge ust1_after_fee_to_vfdusd_TooLarge apply_fee_ust1_Overflow
     ust1_after_fee_to_vfdusd_def[of _ 0])


text \<open>The generated inputs, in the ranges of the tests.\<close>

lemma u128_exists: "n < 2 ^ 128 \<Longrightarrow> \<exists>x :: u128. unat x = n"
  by (rule exI[of _ "of_nat n"]) (simp add: unsigned_of_nat take_bit_nat_eq_self)

lemma prop_fee_never_inverts_passes:
  assumes "amount < 1000000000000" and "fee < 10000"
  shows "passes (prop_fee_never_inverts amount fee)"
proof -
  have a: "unat amount < 1000000000000" "unat fee < 10000"
    using assms by (simp_all add: word_less_nat_alt)
  have "unat amount * (10000 - unat fee) \<le> 1000000000000 * 10000" using a by (intro mult_le_mono) simp_all
  then have b: "unat amount * (10000 - unat fee) < 2 ^ 128" by simp
  then obtain out :: u128 where "unat out = unat amount * (10000 - unat fee) div 10000"
    using u128_exists[OF div_less_pow] by blast
  with a b have "apply_fee_ust1 amount fee = Ok out" by (simp add: apply_fee_ust1_Ok_iff)
  then show ?thesis by (simp add: prop_fee_never_inverts_def test_steps apply_fee_ust1_le)
qed

lemma conversion_exists:
  assumes "unat x * unat rate div 10 ^ 18 < 2 ^ 128"
  shows "\<exists>out. vfdusd_to_ust1_before_fee x rate = Ok out \<and> unat out = unat x * unat rate div 10 ^ 18"
  using u128_exists[OF assms] assms by (auto simp: vfdusd_to_ust1_before_fee_Ok_iff)

lemma prop_monotonic_rate_forward_passes:
  assumes "amount < 1000000000" and "rate < RATE_SCALE * 2"
  shows "passes (prop_monotonic_rate_forward amount rate)"
proof -
  have "unat amount < 10 ^ 9" "unat rate < 2 * 10 ^ 18"
    using assms by (simp_all add: word_less_nat_alt rate_multiples)
  then have "unat amount * unat rate \<le> 10 ^ 9 * (2 * 10 ^ 18)" by (intro mult_le_mono) simp_all
  then have "unat amount * unat rate < 2 ^ 128" by simp
  from conversion_exists[OF div_less_pow[OF this]] show ?thesis
    by (auto simp: prop_monotonic_rate_forward_def test_steps)
qed

lemma prop_extreme_forward_ok_passes:
  assumes "amount \<le> max ((- 1) div RATE_SCALE) 1" and "rate \<le> RATE_SCALE * 2"
  shows "passes (prop_extreme_forward_ok amount rate)"
proof -
  have m: "max ((- 1 :: u128) div RATE_SCALE) 1 = 340282366920938463463"
    by (simp add: RATE_SCALE_def max_words)
  have a: "unat amount \<le> 340282366920938463463" "unat rate \<le> 2 * 10 ^ 18"
    using assms by (simp_all add: m word_le_nat_alt rate_multiples)
  then have "unat amount * unat rate \<le> 340282366920938463463 * (2 * 10 ^ 18)" by (intro mult_le_mono)
  then have "unat amount * unat rate div 10 ^ 18 < 2 ^ 128" by (simp add: div_less_iff_less_mult)
  from conversion_exists[OF this] obtain out where out: "vfdusd_to_ust1_before_fee amount rate = Ok out"
    "unat out = unat amount * unat rate div 10 ^ 18" by blast
  have "out \<le> amount" if "rate \<le> RATE_SCALE"
  proof -
    from that have "unat rate \<le> 10 ^ 18" by (simp add: word_le_nat_alt)
    then have "unat amount * unat rate div 10 ^ 18 \<le> unat amount * 10 ^ 18 div 10 ^ 18"
      by (intro div_le_mono mult_le_mono2)
    with out(2) show ?thesis by (simp add: word_le_nat_alt)
  qed
  moreover have "amount \<le> out" if "\<not> rate \<le> RATE_SCALE"
  proof -
    from that have "10 ^ 18 \<le> unat rate" by (simp add: word_le_nat_alt)
    then have "unat amount * 10 ^ 18 div 10 ^ 18 \<le> unat amount * unat rate div 10 ^ 18"
      by (intro div_le_mono mult_le_mono2)
    with out(2) show ?thesis by (simp add: word_le_nat_alt)
  qed
  ultimately show ?thesis by (simp add: prop_extreme_forward_ok_def test_steps out(1))
qed

lemma prop_extreme_reverse_passes:
  assumes "0 < rate"
  shows "passes (prop_extreme_reverse_ok_or_too_large after rate)"
proof -
  have "(ucast rate :: u256) \<noteq> 0" "rate \<noteq> 0" using assms by (auto simp: word_eq_iff_unat_eq word_less_nat_alt)
  moreover have "unat after * 10 ^ 18 < 2 ^ 256" using u128_product_less[of after RATE_SCALE] by simp
  ultimately show ?thesis
    unfolding prop_extreme_reverse_ok_or_too_large_def
    by (simp add: checked_mul_def checked_div_def test_steps ust1_after_fee_to_vfdusd_eq split: option.split)
qed

lemma prop_reverse_zero_rate_passes: "passes (prop_reverse_zero_rate_always_err after)"
  by (simp add: prop_reverse_zero_rate_always_err_def test_steps ust1_after_fee_to_vfdusd_def)

section \<open>Tests of oracle_policy.rs\<close>

definition inv_oracle_throttle_blocks_quick_updates :: test where
  "inv_oracle_throttle_blocks_quick_updates =
     (let r = RATE_SCALE in
      and_then (unwrap_err (check_rate_update 100 50 r r 0 r)) (\<lambda>err.
      verify (case err of UpdateTooSoon _ \<Rightarrow> True | _ \<Rightarrow> False)))"

definition first_update_skips_throttle :: test where
  "first_update_skips_throttle =
     (let r = RATE_SCALE; res = check_rate_update 100 0 r r 0 r in
      verify (is_ok res))"

definition same_rate_after_throttle_is_ok :: test where
  "same_rate_after_throttle_is_ok =
     (let r = RATE_SCALE; last = 1700000000; now = last + MIN_ORACLE_UPDATE_INTERVAL_SECS in
      and_then (unwrap (check_rate_update now last r r (last div 86400) r)) (\<lambda>_. Ok ()))"

definition same_rate_one_second_before_throttle_is_too_soon :: test where
  "same_rate_one_second_before_throttle_is_too_soon =
     (let r = RATE_SCALE; last = 1700000000; now = last + MIN_ORACLE_UPDATE_INTERVAL_SECS - 1 in
      and_then (unwrap_err (check_rate_update now last r r (last div 86400) r)) (\<lambda>err.
      verify (case err of UpdateTooSoon _ \<Rightarrow> True | _ \<Rightarrow> False)))"

definition first_update_skips_daily_cap_and_seeds_baseline :: test where
  "first_update_skips_daily_cap_and_seeds_baseline =
     (let old = RATE_SCALE; new = 1225104516022056627 in
      and_then (unwrap (check_rate_update 1700000000 0 old new 0 old)) (\<lambda>(day_id, baseline).
      and_then (verify (baseline = new)) (\<lambda>_.
      and_then (verify (day_id = 1700000000 div 86400)) (\<lambda>_.
      and_then (unwrap (checked_mul baseline 103)) (\<lambda>m.
      and_then (unwrap (checked_div m 100)) (\<lambda>too_high.
      and_then (unwrap_err (check_rate_update (1700000000 + MIN_ORACLE_UPDATE_INTERVAL_SECS + 1)
                  1700000000 new too_high day_id baseline)) (\<lambda>err.
      verify (err = DailyCapExceeded))))))))"

definition prop_monotonic_required :: "u128 \<Rightarrow> u128 \<Rightarrow> test" where
  "prop_monotonic_required old new =
     (if new < old then
        let day = 1 in
        and_then (unwrap_err (check_rate_update (86400 * day) 0 old new day old)) (\<lambda>err.
        verify (err = RateDecreased))
      else Ok ())"

section \<open>oracle_policy_tests.rs\<close>

definition day_ts :: "u64 \<Rightarrow> u64" where
  "day_ts day = day * 86400 + 100"

definition inv_oracle_daily_cap_blocks_large_jump :: test where
  "inv_oracle_daily_cap_blocks_large_jump =
     (let old = RATE_SCALE; baseline = old; day = 10 in
      and_then (unwrap (checked_mul old 103)) (\<lambda>m.
      and_then (unwrap (checked_div m 100)) (\<lambda>new.
      let last = day * 86400; now = last + MIN_ORACLE_UPDATE_INTERVAL_SECS + 100 in
      and_then (unwrap_err (check_rate_update now last old new day baseline)) (\<lambda>err.
      verify (err = DailyCapExceeded)))))"

definition same_rate_after_throttle_on_day_10 :: test where
  "same_rate_after_throttle_on_day_10 =
     (let r = RATE_SCALE; last = day_ts 10; now = last + MIN_ORACLE_UPDATE_INTERVAL_SECS in
      and_then (unwrap (check_rate_update now last r r 10 r)) (\<lambda>_. Ok ()))"

definition first_update_bootstrap_allows_venus_seed_jump :: test where
  "first_update_bootstrap_allows_venus_seed_jump =
     (let old = RATE_SCALE; new = 1225104516022056627 in
      and_then (unwrap (check_rate_update (day_ts 10) 0 old new 0 old)) (\<lambda>(day_id, baseline).
      and_then (verify (baseline = new)) (\<lambda>_.
      verify (0 < day_id))))"

definition prop_daily_cap_allows_flat_rate :: "u64 \<Rightarrow> test" where
  "prop_daily_cap_allows_flat_rate day =
     (let r = RATE_SCALE; res = check_rate_update (day * 86400 + 50) 0 r r day r in
      verify (is_ok res))"

lemmas policy_test_defs =
  inv_oracle_throttle_blocks_quick_updates_def first_update_skips_throttle_def
  same_rate_after_throttle_is_ok_def same_rate_one_second_before_throttle_is_too_soon_def
  first_update_skips_daily_cap_and_seeds_baseline_def inv_oracle_daily_cap_blocks_large_jump_def
  same_rate_after_throttle_on_day_10_def first_update_bootstrap_allows_venus_seed_jump_def

definition policy_tests :: "test list" where
  "policy_tests =
     [inv_oracle_throttle_blocks_quick_updates, first_update_skips_throttle,
      same_rate_after_throttle_is_ok, same_rate_one_second_before_throttle_is_too_soon,
      first_update_skips_daily_cap_and_seeds_baseline, inv_oracle_daily_cap_blocks_large_jump,
      same_rate_after_throttle_on_day_10, first_update_bootstrap_allows_venus_seed_jump]"

lemma policy_tests_pass: "list_all passes policy_tests"
  unfolding policy_tests_def policy_test_defs
  by (simp add: test_steps result_simps check_rate_update_eq roll_utc_day_def throttled_def
      within_daily_cap_def RATE_SCALE_def MIN_ORACLE_UPDATE_INTERVAL_SECS_def day_ts_def
      word_less_nat_alt word_le_nat_alt unat_eq_literal)

lemma prop_monotonic_required_passes:
  assumes "0 < new" shows "passes (prop_monotonic_required old new)"
  using assms
  by (auto simp: prop_monotonic_required_def test_steps check_rate_update_eq roll_utc_day_def throttled_def)

lemma prop_daily_cap_allows_flat_rate_passes: "passes (prop_daily_cap_allows_flat_rate day)"
  by (simp add: prop_daily_cap_allows_flat_rate_def test_steps check_rate_update_eq roll_utc_day_def
      throttled_def)

end
