(* ===== verification/Test_Oracle.thy ===== *)
theory Test_Oracle
  imports Test_Lib Oracle_Safety
begin

text \<open>
  The tests of the oracle contract (\<open>ust1-oracle/src/multitest.rs\<close>): each deploys the contract
  in a simulated chain, moves the block time, calls and queries it.
\<close>

section \<open>The simulated chain\<close>

text \<open>
  The simulated chain is third-party code. What the tests use of it is what every host does:
  it keeps the storage of the contract, a failed call leaves it alone, and a call sees the
  current block. Address validation, the texts of \<open>StdError\<close> and the first block are
  parameters; \<open>version\<close> is the version of the crate.
\<close>

record test_chain =
  tc_api :: "unit api"
  tc_std_text :: "std_error \<Rightarrow> string"
  tc_block :: env
  tc_version :: string

record oracle_app =
  app_store :: oracle_storage
  app_block :: env

text \<open>The height of the block moves as well, which no contract reads.\<close>

definition set_time :: "u64 \<Rightarrow> oracle_app \<Rightarrow> oracle_app" where
  "set_time secs app = app\<lparr>app_block := (app_block app)\<lparr>block_nanos := secs * 1000000000\<rparr>\<rparr>"

definition deploy :: "test_chain \<Rightarrow> addr \<Rightarrow> addr \<Rightarrow> u128 \<Rightarrow> (oracle_app, unit) result" where
  "deploy tc gov the_bot initial =
     and_then (unwrap (oracle_instantiate (tc_api tc) (tc_version tc) (tc_block tc)
         \<lparr>sender = gov, funds = []\<rparr>
         \<lparr>oi_governance = gov, oi_oracle_operator = the_bot, oi_initial_rate = initial\<rparr> oracle_empty)) (\<lambda>(s, r).
     Ok \<lparr>app_store = s, app_block = tc_block tc\<rparr>)"

definition app_execute ::
  "test_chain \<Rightarrow> addr \<Rightarrow> oracle_execute_msg \<Rightarrow> oracle_app \<Rightarrow>
   (oracle_app \<times> unit response, oracle_error) result" where
  "app_execute tc caller msg app =
     and_then (oracle_execute (tc_api tc) (app_block app) \<lparr>sender = caller, funds = []\<rparr> msg
                 (app_store app)) (\<lambda>(s, r).
     Ok (app\<lparr>app_store := s\<rparr>, r))"

definition app_state :: "oracle_app \<Rightarrow> (state_response, unit) result" where
  "app_state app = unwrap (oracle_query_state (app_store app))"

definition app_config :: "oracle_app \<Rightarrow> (oracle_config_response, unit) result" where
  "app_config app = unwrap (oracle_query_config (app_store app))"

text \<open>The display of an error (\<open>error.rs\<close>).\<close>

definition oracle_error_text :: "(std_error \<Rightarrow> string) \<Rightarrow> oracle_error \<Rightarrow> string" where
  "oracle_error_text std_text e = (case e of
       Std e \<Rightarrow> std_text e
     | Unauthorized \<Rightarrow> ''unauthorized''
     | Paused \<Rightarrow> ''contract is paused''
     | ZeroRate \<Rightarrow> ''rate must be strictly positive''
     | RateDecreased \<Rightarrow> ''rate cannot decrease (monotonic oracle)''
     | DailyCapExceeded \<Rightarrow> ''rate exceeds UTC daily increase cap''
     | UpdateTooSoon min_interval \<Rightarrow>
         ''oracle update too soon (min interval '' @ show_nat (unat min_interval) @ ''s)''
     | NoPendingGovernance \<Rightarrow> ''no pending governance proposal''
     | InvalidGovernanceProposal \<Rightarrow> ''invalid governance proposal'')"

text \<open>A call is expected to fail with an error whose text has the given words.\<close>

definition expect_err :: "test_chain \<Rightarrow> addr \<Rightarrow> oracle_execute_msg \<Rightarrow> string \<Rightarrow> oracle_app \<Rightarrow> test" where
  "expect_err tc caller msg words app =
     and_then (unwrap_err (app_execute tc caller msg app)) (\<lambda>err.
     verify (str_contains (oracle_error_text (tc_std_text tc) err) words))"

text \<open>\<open>checked_mul(n).unwrap().checked_div(100).unwrap()\<close>.\<close>

definition percent :: "u128 \<Rightarrow> u128 \<Rightarrow> (u128, unit) result" where
  "percent rate n = and_then (unwrap (checked_mul rate n)) (\<lambda>m. unwrap (checked_div m 100))"

section \<open>The tests\<close>

definition inv_oracle_mono_update_success_within_cap :: "test_chain \<Rightarrow> test" where
  "inv_oracle_mono_update_success_within_cap tc =
     (let gov = ''gov''; the_bot = ''bot''; initial = RATE_SCALE in
      and_then (deploy tc gov the_bot initial) (\<lambda>app.
      let app = set_time (86400 + 500) app in
      and_then (percent initial 101) (\<lambda>bump.
      and_then (unwrap (app_execute tc the_bot (UpdateRate bump) app)) (\<lambda>(app, _).
      and_then (app_state app) (\<lambda>st.
      and_then (verify (sr_rate st = bump)) (\<lambda>_.
      verify (\<not> sr_paused st)))))))"

definition state_surfaces_paused_flag_for_circuit_breaker :: "test_chain \<Rightarrow> test" where
  "state_surfaces_paused_flag_for_circuit_breaker tc =
     (let gov = ''gov''; the_bot = ''bot''; initial = RATE_SCALE in
      and_then (deploy tc gov the_bot initial) (\<lambda>app.
      and_then (app_state app) (\<lambda>st0.
      and_then (verify (\<not> sr_paused st0)) (\<lambda>_.
      and_then (unwrap (app_execute tc gov (SetPaused True) app)) (\<lambda>(app, _).
      and_then (app_state app) (\<lambda>st1.
      and_then (verify (sr_paused st1)) (\<lambda>_.
      and_then (expect_err tc ''stranger'' (SetPaused False) ''unauthorized'' app) (\<lambda>_.
      and_then (expect_err tc the_bot (SetPaused False) ''unauthorized'' app) (\<lambda>_.
      and_then (unwrap (app_execute tc gov (SetPaused False) app)) (\<lambda>(app, _).
      and_then (app_state app) (\<lambda>st2.
      verify (\<not> sr_paused st2))))))))))))"

definition inv_oracle_throttle_second_update_too_soon :: "test_chain \<Rightarrow> test" where
  "inv_oracle_throttle_second_update_too_soon tc =
     (let gov = ''gov''; the_bot = ''bot''; initial = RATE_SCALE in
      and_then (deploy tc gov the_bot initial) (\<lambda>app.
      let app = set_time 10000 app in
      and_then (percent initial 101) (\<lambda>bump.
      and_then (unwrap (app_execute tc the_bot (UpdateRate bump) app)) (\<lambda>(app, _).
      expect_err tc the_bot (UpdateRate initial) ''too soon'' app))))"

text \<open>The first attribute of that key in the wasm event, which starts with the contract.\<close>

definition wasm_attribute :: "oracle_app \<Rightarrow> unit response \<Rightarrow> string \<Rightarrow> (string, unit) result" where
  "wasm_attribute app res k =
     unwrap_some (map_of ((''_contract_address'', contract_address (app_block app)) # attributes res) k)"

definition same_rate_update_after_throttle_advances_last_update_and_emits :: "test_chain \<Rightarrow> test" where
  "same_rate_update_after_throttle_advances_last_update_and_emits tc =
     (let gov = ''gov''; the_bot = ''bot''; initial = RATE_SCALE in
      and_then (deploy tc gov the_bot initial) (\<lambda>app.
      let first_ts = 10000; app = set_time first_ts app in
      and_then (unwrap (app_execute tc the_bot (UpdateRate initial) app)) (\<lambda>(app, _).
      and_then (app_state app) (\<lambda>st0.
      and_then (verify (sr_rate st0 = initial)) (\<lambda>_.
      and_then (verify (sr_last_update_sec st0 = first_ts)) (\<lambda>_.
      let heartbeat_ts = first_ts + MIN_ORACLE_UPDATE_INTERVAL_SECS; app = set_time heartbeat_ts app in
      and_then (unwrap (app_execute tc the_bot (UpdateRate initial) app)) (\<lambda>(app, res).
      and_then (wasm_attribute app res ''action'') (\<lambda>action.
      and_then (verify (action = ''update_rate'')) (\<lambda>_.
      and_then (wasm_attribute app res ''rate'') (\<lambda>rate.
      and_then (verify (rate = show_nat (unat initial))) (\<lambda>_.
      and_then (app_state app) (\<lambda>st1.
      and_then (verify (sr_rate st1 = initial)) (\<lambda>_.
      and_then (verify (sr_last_update_sec st1 = heartbeat_ts)) (\<lambda>_.
      verify (sr_last_update_sec st0 < sr_last_update_sec st1)))))))))))))))"

definition inv_oracle_mono_decrease_rejected :: "test_chain \<Rightarrow> test" where
  "inv_oracle_mono_decrease_rejected tc =
     (let gov = ''gov''; the_bot = ''bot''; initial = RATE_SCALE in
      and_then (deploy tc gov the_bot initial) (\<lambda>app.
      let app = set_time 10000 app in
      and_then (percent initial 102) (\<lambda>higher.
      and_then (unwrap (app_execute tc the_bot (UpdateRate higher) app)) (\<lambda>(app, _).
      let app = set_time (10000 + MIN_ORACLE_UPDATE_INTERVAL_SECS) app in
      expect_err tc the_bot (UpdateRate initial) ''decrease'' app))))"

definition inv_oracle_daily_cap_exceeded_same_utc_day :: "test_chain \<Rightarrow> test" where
  "inv_oracle_daily_cap_exceeded_same_utc_day tc =
     (let gov = ''gov''; the_bot = ''bot''; initial = RATE_SCALE in
      and_then (deploy tc gov the_bot initial) (\<lambda>app.
      let day_start = 86400 * 10; app = set_time (day_start + 100) app in
      and_then (unwrap (app_execute tc the_bot (UpdateRate initial) app)) (\<lambda>(app, _).
      let app = set_time (day_start + 100 + MIN_ORACLE_UPDATE_INTERVAL_SECS + 1) app in
      and_then (unwrap (max_rate_after_daily_cap initial)) (\<lambda>max_r.
      and_then (unwrap (checked_add max_r 1)) (\<lambda>too_high.
      expect_err tc the_bot (UpdateRate too_high) ''daily'' app)))))"

definition inv_oracle_pause_blocks_operator_update :: "test_chain \<Rightarrow> test" where
  "inv_oracle_pause_blocks_operator_update tc =
     (let gov = ''gov''; the_bot = ''bot''; initial = RATE_SCALE in
      and_then (deploy tc gov the_bot initial) (\<lambda>app.
      and_then (unwrap (app_execute tc gov (SetPaused True) app)) (\<lambda>(app, _).
      let app = set_time 50000 app in
      and_then (percent initial 101) (\<lambda>bump.
      expect_err tc the_bot (UpdateRate bump) ''paused'' app))))"

definition inv_oracle_unauthorized_update_not_operator :: "test_chain \<Rightarrow> test" where
  "inv_oracle_unauthorized_update_not_operator tc =
     (let gov = ''gov''; the_bot = ''bot''; initial = RATE_SCALE in
      and_then (deploy tc gov the_bot initial) (\<lambda>app.
      let app = set_time 12000 app; stranger = ''stranger'' in
      expect_err tc stranger (UpdateRate initial) ''unauthorized'' app))"

definition governance_rotates_oracle_operator :: "test_chain \<Rightarrow> test" where
  "governance_rotates_oracle_operator tc =
     (let gov = ''gov''; the_bot = ''bot''; bot2 = ''bot2''; initial = RATE_SCALE in
      and_then (deploy tc gov the_bot initial) (\<lambda>app.
      and_then (unwrap (app_execute tc gov (SetOracleOperator bot2) app)) (\<lambda>(app, _).
      let app = set_time 20000 app in
      and_then (percent initial 101) (\<lambda>bump.
      and_then (expect_err tc the_bot (UpdateRate bump) ''unauthorized'' app) (\<lambda>_.
      and_then (unwrap (app_execute tc bot2 (UpdateRate bump) app)) (\<lambda>_. Ok ()))))))"

definition governance_two_step_transfer :: "test_chain \<Rightarrow> test" where
  "governance_two_step_transfer tc =
     (let gov = ''gov''; the_bot = ''bot''; next_gov = ''next_gov''; initial = RATE_SCALE in
      and_then (deploy tc gov the_bot initial) (\<lambda>app.
      and_then (unwrap (app_execute tc gov (ProposeGovernance next_gov) app)) (\<lambda>(app, _).
      and_then (expect_err tc the_bot AcceptGovernance ''governance'' app) (\<lambda>_.
      and_then (unwrap (app_execute tc next_gov AcceptGovernance app)) (\<lambda>(app, _).
      and_then (app_config app) (\<lambda>cfg.
      and_then (verify (ocr_governance cfg = next_gov)) (\<lambda>_.
      expect_err tc gov (SetPaused True) ''unauthorized'' app)))))))"

definition oracle_multitests :: "(test_chain \<Rightarrow> test) list" where
  "oracle_multitests =
     [inv_oracle_mono_update_success_within_cap, state_surfaces_paused_flag_for_circuit_breaker,
      inv_oracle_throttle_second_update_too_soon,
      same_rate_update_after_throttle_advances_last_update_and_emits,
      inv_oracle_mono_decrease_rejected, inv_oracle_daily_cap_exceeded_same_utc_day,
      inv_oracle_pause_blocks_operator_update, inv_oracle_unauthorized_update_not_operator,
      governance_rotates_oracle_operator, governance_two_step_transfer]"

section \<open>They pass\<close>

text \<open>The chain takes the addresses that the tests use.\<close>

definition takes_addresses :: "test_chain \<Rightarrow> bool" where
  "takes_addresses tc \<longleftrightarrow>
     list_all (\<lambda>x. addr_validate (tc_api tc) x = Ok x) [''gov'', ''bot'', ''bot2'', ''next_gov'']"

lemma error_words:
  "str_contains (oracle_error_text t Unauthorized) ''unauthorized''"
  "str_contains (oracle_error_text t Paused) ''paused''"
  "str_contains (oracle_error_text t RateDecreased) ''decrease''"
  "str_contains (oracle_error_text t DailyCapExceeded) ''daily''"
  "str_contains (oracle_error_text t InvalidGovernanceProposal) ''governance''"
  "str_contains (oracle_error_text t (UpdateTooSoon 14400)) ''too soon''"
  by (simp_all add: oracle_error_text_def str_contains_def sublist_Cons_right)

definition deployed :: "test_chain \<Rightarrow> oracle_app" where
  "deployed tc = \<lparr>app_store = \<lparr>o_contract_info = Some (ORACLE_CONTRACT_NAME, tc_version tc),
       o_config = Some \<lparr>oc_governance = ''gov'', oc_oracle_operator = ''bot'', oc_paused = False\<rparr>,
       o_oracle_state = Some \<lparr>os_rate = RATE_SCALE, os_last_update_sec = 0,
         os_utc_day_id = block_seconds (tc_block tc) div 86400, os_day_baseline_rate = RATE_SCALE\<rparr>,
       o_pending_governance = None\<rparr>, app_block = tc_block tc\<rparr>"

lemma deploy_eq:
  "takes_addresses tc \<Longrightarrow> deploy tc ''gov'' ''bot'' RATE_SCALE = Ok (deployed tc)"
  by (simp add: takes_addresses_def deploy_def oracle_instantiate_def oracle_set_contract_version_def
      oracle_empty_def deployed_def test_simps Let_def)

lemma percent_eq:
  "percent RATE_SCALE 101 = Ok 1010000000000000000" "percent RATE_SCALE 102 = Ok 1020000000000000000"
  by (simp_all add: percent_def test_simps checked_mul_def checked_div_def RATE_SCALE_def)

lemma first_update:
  "check_rate_update now 0 old new day base =
     (if new = 0 then Err oracle_policy_error.ZeroRate
      else if new < old then Err oracle_policy_error.RateDecreased else Ok (now div 86400, new))"
  by (simp add: check_rate_update_eq roll_utc_day_def throttled_def Let_def)

lemmas app_defs = app_execute_def app_state_def app_config_def expect_err_def set_time_def
  deployed_def oracle_execute_def execute_update_rate_def execute_set_operator_def
  execute_set_paused_def execute_propose_gov_def execute_accept_gov_def oracle_query_state_def
  oracle_query_config_def block_seconds_def item_load_def policy_err_def

lemmas app_steps = Let_def deploy_eq percent_eq and_then_simps

lemmas app_eval = test_simps app_defs Let_def first_update error_words check_rate_update_eq
  roll_utc_day_def throttled_def within_daily_cap_def word_less_nat_alt RATE_SCALE_def
  MIN_ORACLE_UPDATE_INTERVAL_SECS_def takes_addresses_def

lemma cap_of_scale: "max_rate_after_daily_cap RATE_SCALE = Ok 1020000000000000000"
  by (simp add: max_rate_after_daily_cap_Ok_iff)

lemma inv_oracle_mono_update_success_within_cap_passes:
  "takes_addresses tc \<Longrightarrow> passes (inv_oracle_mono_update_success_within_cap tc)"
  unfolding inv_oracle_mono_update_success_within_cap_def
  by (simp only: app_steps) (simp add: app_eval)

lemma state_surfaces_paused_flag_for_circuit_breaker_passes:
  "takes_addresses tc \<Longrightarrow> passes (state_surfaces_paused_flag_for_circuit_breaker tc)"
  unfolding state_surfaces_paused_flag_for_circuit_breaker_def
  by (simp only: app_steps) (simp add: app_eval)

lemma inv_oracle_throttle_second_update_too_soon_passes:
  "takes_addresses tc \<Longrightarrow> passes (inv_oracle_throttle_second_update_too_soon tc)"
  unfolding inv_oracle_throttle_second_update_too_soon_def
  by (simp only: app_steps) (simp add: app_eval)

lemma same_rate_update_after_throttle_advances_last_update_and_emits_passes:
  "takes_addresses tc \<Longrightarrow> passes (same_rate_update_after_throttle_advances_last_update_and_emits tc)"
  unfolding same_rate_update_after_throttle_advances_last_update_and_emits_def
  by (simp only: app_steps) (simp add: app_eval wasm_attribute_def add_attribute_def new_response_def)

lemma inv_oracle_mono_decrease_rejected_passes:
  "takes_addresses tc \<Longrightarrow> passes (inv_oracle_mono_decrease_rejected tc)"
  unfolding inv_oracle_mono_decrease_rejected_def
  by (simp only: app_steps) (simp add: app_eval)

lemma inv_oracle_daily_cap_exceeded_same_utc_day_passes:
  "takes_addresses tc \<Longrightarrow> passes (inv_oracle_daily_cap_exceeded_same_utc_day tc)"
  unfolding inv_oracle_daily_cap_exceeded_same_utc_day_def
  by (simp only: app_steps cap_of_scale) (simp add: app_eval checked_add_def)

lemma inv_oracle_pause_blocks_operator_update_passes:
  "takes_addresses tc \<Longrightarrow> passes (inv_oracle_pause_blocks_operator_update tc)"
  unfolding inv_oracle_pause_blocks_operator_update_def
  by (simp only: app_steps) (simp add: app_eval)

lemma inv_oracle_unauthorized_update_not_operator_passes:
  "takes_addresses tc \<Longrightarrow> passes (inv_oracle_unauthorized_update_not_operator tc)"
  unfolding inv_oracle_unauthorized_update_not_operator_def
  by (simp only: app_steps) (simp add: app_eval)

lemma governance_rotates_oracle_operator_passes:
  "takes_addresses tc \<Longrightarrow> passes (governance_rotates_oracle_operator tc)"
  unfolding governance_rotates_oracle_operator_def
  by (simp only: app_steps) (simp add: app_eval)

lemma governance_two_step_transfer_passes:
  "takes_addresses tc \<Longrightarrow> passes (governance_two_step_transfer tc)"
  unfolding governance_two_step_transfer_def
  by (simp only: app_steps) (simp add: app_eval)

lemmas oracle_multitest_passes = inv_oracle_mono_update_success_within_cap_passes
  state_surfaces_paused_flag_for_circuit_breaker_passes
  inv_oracle_throttle_second_update_too_soon_passes
  same_rate_update_after_throttle_advances_last_update_and_emits_passes
  inv_oracle_mono_decrease_rejected_passes
  inv_oracle_daily_cap_exceeded_same_utc_day_passes
  inv_oracle_pause_blocks_operator_update_passes
  inv_oracle_unauthorized_update_not_operator_passes
  governance_rotates_oracle_operator_passes
  governance_two_step_transfer_passes

end
