(* ===== verification/Test_Rates.thy ===== *)
theory Test_Rates
  imports Test_Lib Service_Rates
begin

text \<open>
  The tests of \<open>oracle-service/src/evm_rpc.rs\<close>, and those of \<open>bsc.rs\<close> that need no mock
  server, with the display of the errors they look at.
\<close>

section \<open>The texts of the errors\<close>

text \<open>
  \<open>text_of\<close> is the display of the error of a read. A wrapped error displays the text it was
  wrapped with.
\<close>

definition consensus_error_text :: "('e \<Rightarrow> string) \<Rightarrow> 'e consensus_error \<Rightarrow> string" where
  "consensus_error_text text_of err = (case err of
       NeedTwoUrls \<Rightarrow> ''BSC RPC consensus requires at least two URLs in BSC_RPC_URLS''
     | FirstTwoDisagree a b \<Rightarrow>
         ''EVM RPC mismatch: first two providers disagree beyond 0.01% ('' @ show_nat (unat a) @
         '' vs '' @ show_nat (unat b) @ ''); configure a third URL to break ties''
     | ThirdReadFailed e \<Rightarrow> text_of e
     | NoTwoOfThreeAgree a b c \<Rightarrow>
         ''EVM RPC mismatch: no two of three providers agree within 0.01% ('' @ show_nat (unat a) @
         '' vs '' @ show_nat (unat b) @ '' vs '' @ show_nat (unat c) @ '')''
     | OnlyFirstSuccessful a e \<Rightarrow>
         ''EVM RPC: only one successful provider (need 2 agreeing within 0.01%); first rate was '' @
         show_nat (unat a)
     | OnlySecondSuccessful b e \<Rightarrow>
         ''EVM RPC: only one successful provider (need 2 agreeing within 0.01%); second rate was '' @
         show_nat (unat b)
     | FirstThirdDisagree a c \<Rightarrow>
         ''EVM RPC: first and third providers disagree beyond 0.01% ('' @ show_nat (unat a) @
         '' vs '' @ show_nat (unat c) @ '')''
     | SecondThirdDisagree b c \<Rightarrow>
         ''EVM RPC: second and third providers disagree beyond 0.01% ('' @ show_nat (unat b) @
         '' vs '' @ show_nat (unat c) @ '')''
     | SecondAndThirdFailed a e \<Rightarrow>
         ''EVM RPC: first succeeded ('' @ show_nat (unat a) @ '') but second and third failed''
     | FirstAndThirdFailed b e \<Rightarrow>
         ''EVM RPC: second succeeded ('' @ show_nat (unat b) @ '') but first and third failed''
     | FirstBothFailed e0 e1 \<Rightarrow> ''EVM RPC: both first endpoints failed ('' @ text_of e1 @ '')''
     | OnlyThirdResponded \<Rightarrow>
         ''EVM RPC: need two successful providers agreeing within 0.01%; only the third endpoint responded''
     | AllThreeFailed e1 e2 \<Rightarrow>
         ''EVM RPC: all of first three endpoints failed ('' @ text_of e1 @ '')'')"

definition venus_error_text :: "venus_error \<Rightarrow> string" where
  "venus_error_text err = (case err of
       UnderlyingDecimalsTooFew u v \<Rightarrow>
         ''underlying decimals ('' @ show_nat (unat u) @ '') < vToken decimals ('' @
         show_nat (unat v) @ '')''
     | ZeroDivisor \<Rightarrow> ''internal: zero divisor normalizing Venus rate''
     | RateDoesNotFit r \<Rightarrow> ''normalized rate does not fit Uint128: '' @ show_nat (unat r))"

section \<open>Tests of evm\_rpc.rs\<close>

definition identical_rates_agree :: test where
  "identical_rates_agree =
     (let x = 1000000 in verify (rates_agree_within_point_zero_one_percent x x))"

definition zero_pair :: test where
  "zero_pair =
     and_then (verify (rates_agree_within_point_zero_one_percent 0 0)) (\<lambda>_.
     verify (\<not> rates_agree_within_point_zero_one_percent 0 1))"

definition within_point_zero_one_percent :: test where
  "within_point_zero_one_percent =
     (let a = 1000000; b = 1000100; c = 1000101 in
      and_then (verify (rates_agree_within_point_zero_one_percent a b)) (\<lambda>_.
      verify (\<not> rates_agree_within_point_zero_one_percent a c)))"

definition symmetric :: test where
  "symmetric =
     (let a = 100; b = 100 in
      and_then (verify (rates_agree_within_point_zero_one_percent a b)) (\<lambda>_.
      verify (rates_agree_within_point_zero_one_percent b a)))"

definition consensus_two_agreeing_providers :: test where
  "consensus_two_agreeing_providers =
     (let rate = 1000000; urls = [''http://rpc-a'', ''http://rpc-b''];
          read = (\<lambda>_ _. Ok rate) :: nat \<Rightarrow> string \<Rightarrow> (u128, string) result in
      and_then (unwrap (run_with_evm_rpc_rate_consensus urls read)) (\<lambda>got.
      verify (got = rate)))"

definition consensus_mismatch_without_third_fails :: test where
  "consensus_mismatch_without_third_fails =
     (let urls = [''http://rpc-a'', ''http://rpc-b''];
          read = (\<lambda>_ url. if str_contains url ''rpc-a'' then Ok 1000000 else Ok 2000000)
            :: nat \<Rightarrow> string \<Rightarrow> (u128, string) result in
      and_then (unwrap_err (run_with_evm_rpc_rate_consensus urls read)) (\<lambda>err.
      verify (str_contains (consensus_error_text (\<lambda>e. e) err) ''disagree'')))"

definition consensus_tests :: "test list" where
  "consensus_tests = [identical_rates_agree, zero_pair, within_point_zero_one_percent, symmetric,
     consensus_two_agreeing_providers, consensus_mismatch_without_third_fails]"

section \<open>Tests of bsc.rs\<close>

text \<open>The power function of the third-party 256 bit type is a parameter.\<close>

definition normalizes_live_vfdusd_mantissa_to_rate_scale :: "(u256 \<Rightarrow> u256 \<Rightarrow> u256) \<Rightarrow> test" where
  "normalizes_live_vfdusd_mantissa_to_rate_scale pow =
     (let er = 12251045160220566270827151269 in
      and_then (unwrap (venus_exchange_rate_to_oracle_r pow er 18 8)) (\<lambda>r.
      verify (r = 1225104516022056627)))"

definition rejects_underlying_decimals_lt_vtoken :: "(u256 \<Rightarrow> u256 \<Rightarrow> u256) \<Rightarrow> test" where
  "rejects_underlying_decimals_lt_vtoken pow =
     and_then (unwrap_err (venus_exchange_rate_to_oracle_r pow 1 6 8)) (\<lambda>err.
     verify (str_contains (venus_error_text err) ''underlying decimals''))"

definition venus_tests :: "(u256 \<Rightarrow> u256 \<Rightarrow> u256) \<Rightarrow> test list" where
  "venus_tests pow = [normalizes_live_vfdusd_mantissa_to_rate_scale pow,
     rejects_underlying_decimals_lt_vtoken pow]"

section \<open>They pass\<close>

text \<open>A text that begins with the words contains them, whatever follows.\<close>

lemma str_contains_prefix: "str_contains (w @ s) w"
  by (auto simp: str_contains_def sublist_def)

lemma consensus_mismatch_passes: "passes consensus_mismatch_without_third_fails"
proof -
  have "str_contains (consensus_error_text (\<lambda>e. e) (FirstTwoDisagree a b)) ''disagree''" for a b
    by (simp add: consensus_error_text_def str_contains_def sublist_Cons_right)
  moreover have "\<not> rates_agree_within_point_zero_one_percent 1000000 2000000"
    by (simp add: agree_iff)
  moreover have "str_contains ''http://rpc-a'' ''rpc-a''" "\<not> str_contains ''http://rpc-b'' ''rpc-a''"
    by (simp_all add: str_contains_def sublist_Cons_right)
  ultimately show ?thesis
    unfolding consensus_mismatch_without_third_fails_def Let_def
    by (simp add: run_with_evm_rpc_rate_consensus_def passes_and_then test_simps)
qed

lemma consensus_tests_pass: "list_all passes consensus_tests"
  by (simp add: consensus_tests_def consensus_mismatch_passes identical_rates_agree_def zero_pair_def
      within_point_zero_one_percent_def symmetric_def consensus_two_agreeing_providers_def
      passes_and_then test_simps agree_iff run_with_evm_rpc_rate_consensus_def Let_def)

lemma venus_tests_pass:
  assumes pow: "unat (pow 10 10) = 10 ^ 10"
  shows "list_all passes (venus_tests pow)"
proof -
  have "venus_exchange_rate_to_oracle_r pow 12251045160220566270827151269 18 8 =
      Ok 1225104516022056627"
    using pow by (subst venus_rate_Ok_iff) simp_all
  moreover have "venus_exchange_rate_to_oracle_r pow 1 6 8 = Err (UnderlyingDecimalsTooFew 6 8)"
    by (simp add: venus_exchange_rate_to_oracle_r_def)
  moreover have "str_contains (venus_error_text (UnderlyingDecimalsTooFew a b)) ''underlying decimals''" for a b
    by (simp add: venus_error_text_def str_contains_def sublist_Cons_right)
  ultimately show ?thesis
    by (simp add: venus_tests_def normalizes_live_vfdusd_mantissa_to_rate_scale_def
        rejects_underlying_decimals_lt_vtoken_def passes_and_then test_simps)
qed

end
