(* ===== verification/Test_Config.thy ===== *)
theory Test_Config
  imports Test_Lib Service_Config Service_Loop
begin

text \<open>
  The tests of \<open>oracle-service/src/config.rs\<close> and \<open>liveness.rs\<close>. The test of the debug
  output of the mnemonic is about the third-party type that holds it and is left out, and so is
  the one that forces a thread to abort while it holds the lock.
\<close>

section \<open>The address of the Venus token\<close>

text \<open>The texts of the errors of \<open>validate_venus_vtoken_address\<close>.\<close>

definition venus_address_error_text :: "config_error \<Rightarrow> string" where
  "venus_address_error_text err = (case err of
       VTokenInvalid e \<Rightarrow> ''VENUS_VTOKEN_ADDRESS is not a valid EVM address: '' @ e
     | CanonicalInvalid \<Rightarrow> ''internal error: canonical Venus vFDUSD address failed to parse''
     | VTokenNotCanonical got \<Rightarrow>
         ''VENUS_VTOKEN_ADDRESS must be canonical Venus vFDUSD on BSC mainnet ('' @
         CANONICAL_VENUS_VFDUSD_BSC_MAINNET @ ''); got '' @ got
     | _ \<Rightarrow> [])"

definition validate_accepts_canonical_checksummed :: "('a, 'u) config_deps \<Rightarrow> test" where
  "validate_accepts_canonical_checksummed d =
     unwrap (validate_venus_vtoken_address d CANONICAL_VENUS_VFDUSD_BSC_MAINNET [56])"

definition validate_accepts_canonical_lowercase :: "('a, 'u) config_deps \<Rightarrow> test" where
  "validate_accepts_canonical_lowercase d =
     unwrap (validate_venus_vtoken_address d ''0xc4ef4229fec74ccfe17b2bdef7715fac740ba0ba'' [56])"

definition validate_accepts_non_canonical_on_testnet_allowlist :: "('a, 'u) config_deps \<Rightarrow> test" where
  "validate_accepts_non_canonical_on_testnet_allowlist d =
     unwrap (validate_venus_vtoken_address d ''0x2170Ed0880ac9A755fd29B2688956BD959F933F8'' [97])"

definition validate_rejects_wrong_token :: "('a, 'u) config_deps \<Rightarrow> test" where
  "validate_rejects_wrong_token d =
     and_then (unwrap_err
       (validate_venus_vtoken_address d ''0x2170Ed0880ac9A755fd29B2688956BD959F933F8'' [56])) (\<lambda>err.
     verify (str_contains (venus_address_error_text err) ''canonical Venus vFDUSD''))"

definition address_tests :: "('a, 'u) config_deps \<Rightarrow> test list" where
  "address_tests d = [validate_accepts_canonical_checksummed d, validate_accepts_canonical_lowercase d,
     validate_accepts_non_canonical_on_testnet_allowlist d, validate_rejects_wrong_token d]"

section \<open>Timing\<close>

definition timing_warning_text :: "timing_warning \<Rightarrow> string" where
  "timing_warning_text w = (case w of
       PollZero \<Rightarrow> ''POLL_INTERVAL_SECS=0 tight-loops LCD/RPC; use a positive interval (default 3600)''
     | PollNotBelowMaxAge p m \<Rightarrow>
         ''POLL_INTERVAL_SECS ('' @ show_nat (unat p) @ '') >= DEFAULT_MAX_ORACLE_AGE_SECS ('' @
         show_nat (unat m) @ ''): one missed tick can halt window swaps (INV-ORACLE-OPS-POLL-001)''
     | SilenceAboveMaxAge s m \<Rightarrow>
         ''ORACLE_MAX_SILENCE_SECS ('' @ show_nat (unat s) @ '') > DEFAULT_MAX_ORACLE_AGE_SECS ('' @
         show_nat (unat m) @
         ''): liveness alert fires after the window already rejects swaps (INV-ORACLE-OPS-SILENCE-001)''
     | SilenceLoose s p \<Rightarrow>
         ''ORACLE_MAX_SILENCE_SECS ('' @ show_nat (unat s) @ '') > 8'' @ [CHR 0xC3, CHR 0x97] @
         '' POLL_INTERVAL_SECS ('' @ show_nat (unat p) @
         ''): silence threshold is unusually loose relative to poll cadence'')"

definition default_poll_and_silence_aligned_with_window_budget :: test where
  "default_poll_and_silence_aligned_with_window_budget =
     and_then (verify (DEFAULT_POLL_INTERVAL_SECS \<le> 3600)) (\<lambda>_.
     and_then (verify (DEFAULT_POLL_INTERVAL_SECS < DEFAULT_MAX_ORACLE_AGE_SECS)) (\<lambda>_.
     and_then (verify (DEFAULT_ORACLE_MAX_SILENCE_SECS = DEFAULT_MAX_ORACLE_AGE_SECS)) (\<lambda>_.
     and_then (verify (DEFAULT_ORACLE_MAX_SILENCE_SECS \<le> DEFAULT_MAX_ORACLE_AGE_SECS)) (\<lambda>_.
     verify (DEFAULT_ORACLE_MAX_SILENCE_SECS < 28800)))))"

definition resolve_poll_defaults_and_overrides :: test where
  "resolve_poll_defaults_and_overrides =
     and_then (verify (resolve_poll_interval_secs None = DEFAULT_POLL_INTERVAL_SECS)) (\<lambda>_.
     and_then (verify (resolve_poll_interval_secs (Some []) = DEFAULT_POLL_INTERVAL_SECS)) (\<lambda>_.
     and_then (verify (resolve_poll_interval_secs (Some ''not-a-number'') = DEFAULT_POLL_INTERVAL_SECS)) (\<lambda>_.
     verify (resolve_poll_interval_secs (Some ''1800'') = 1800))))"

definition resolve_silence_defaults_and_overrides :: test where
  "resolve_silence_defaults_and_overrides =
     and_then (verify (resolve_max_silence_secs None = DEFAULT_ORACLE_MAX_SILENCE_SECS)) (\<lambda>_.
     and_then (verify (resolve_max_silence_secs (Some ''7200'') = 7200)) (\<lambda>_.
     verify (resolve_max_silence_secs (Some ''bogus'') = DEFAULT_ORACLE_MAX_SILENCE_SECS)))"

definition warns_of :: "timing_warning list \<Rightarrow> string \<Rightarrow> test" where
  "warns_of w words = verify (list_ex (\<lambda>s. str_contains (timing_warning_text s) words) w)"

definition ops_timing_warnings_clean_for_defaults :: test where
  "ops_timing_warnings_clean_for_defaults =
     verify (ops_timing_warnings DEFAULT_POLL_INTERVAL_SECS DEFAULT_ORACLE_MAX_SILENCE_SECS = [])"

definition ops_timing_warnings_flag_legacy_misconfig :: test where
  "ops_timing_warnings_flag_legacy_misconfig =
     (let w = ops_timing_warnings 21600 28800 in
      and_then (warns_of w ''INV-ORACLE-OPS-POLL-001'') (\<lambda>_.
      warns_of w ''INV-ORACLE-OPS-SILENCE-001''))"

definition ops_timing_warnings_flag_zero_poll :: test where
  "ops_timing_warnings_flag_zero_poll =
     (let w = ops_timing_warnings 0 DEFAULT_ORACLE_MAX_SILENCE_SECS in warns_of w ''tight-loops'')"

definition timing_tests :: "test list" where
  "timing_tests = [default_poll_and_silence_aligned_with_window_budget,
     resolve_poll_defaults_and_overrides, resolve_silence_defaults_and_overrides,
     ops_timing_warnings_clean_for_defaults, ops_timing_warnings_flag_legacy_misconfig,
     ops_timing_warnings_flag_zero_poll]"

section \<open>Liveness\<close>

text \<open>
  A test of \<open>liveness.rs\<close> reads the clock at the start (\<open>t0\<close>) and at later instants, which
  are its arguments; \<open>thread::sleep\<close> lets at least the given time pass.
\<close>

definition has_recorded_success :: "liveness_tracker \<Rightarrow> bool" where
  "has_recorded_success t = (last_successful_broadcast t \<noteq> None)"

definition fresh_tracker_does_not_alert_at_default_silence :: "nat \<Rightarrow> nat \<Rightarrow> test" where
  "fresh_tracker_does_not_alert_at_default_silence t0 t1 =
     (let t = liveness_new t0 in
      verify (\<not> should_alert t1 (duration_from_secs DEFAULT_ORACLE_MAX_SILENCE_SECS) t))"

definition should_alert_when_silence_exceeds_threshold :: "nat \<Rightarrow> nat \<Rightarrow> nat \<Rightarrow> test" where
  "should_alert_when_silence_exceeds_threshold t0 t1 t2 =
     (let t = liveness_new t0 in
      and_then (verify (should_alert t1 0 t)) (\<lambda>_.
      verify (\<not> should_alert t2 (duration_from_secs DEFAULT_ORACLE_MAX_SILENCE_SECS) t)))"

definition record_successful_broadcast_resets_silence_for_alert ::
  "nat \<Rightarrow> nat \<Rightarrow> nat \<Rightarrow> nat \<Rightarrow> test" where
  "record_successful_broadcast_resets_silence_for_alert t0 t1 t2 t3 =
     (let t = liveness_new t0 in
      and_then (verify (should_alert t1 0 t)) (\<lambda>_.
      let t = record_successful_broadcast t2 t in
      verify (\<not> should_alert t3 (duration_from_millis 50) t)))"

definition default_silence_threshold_is_six_hours_not_eight :: "nat \<Rightarrow> nat \<Rightarrow> test" where
  "default_silence_threshold_is_six_hours_not_eight t0 t1 =
     and_then (verify (DEFAULT_ORACLE_MAX_SILENCE_SECS = 21600)) (\<lambda>_.
     let t = liveness_new t0 in
     verify (\<not> should_alert t1 (duration_from_secs 21600) t))"

definition no_success_until_recorded :: "nat \<Rightarrow> nat \<Rightarrow> test" where
  "no_success_until_recorded t0 t1 =
     (let t = liveness_new t0 in
      and_then (verify (\<not> has_recorded_success t)) (\<lambda>_.
      verify (should_alert t1 (duration_from_secs 0) t)))"

definition record_clears_alert_for_large_threshold :: "nat \<Rightarrow> nat \<Rightarrow> nat \<Rightarrow> test" where
  "record_clears_alert_for_large_threshold t0 t1 t2 =
     (let t = liveness_new t0; t = record_successful_broadcast t1 t in
      and_then (verify (has_recorded_success t)) (\<lambda>_.
      verify (\<not> should_alert t2 (duration_from_secs 3600) t)))"

definition should_alert_after_silence :: "nat \<Rightarrow> nat \<Rightarrow> test" where
  "should_alert_after_silence t0 t1 =
     (let tracker = liveness_new t0 in verify (\<not> should_alert t1 (duration_from_secs 3600) tracker))"

definition liveness_tests :: "nat \<Rightarrow> nat \<Rightarrow> nat \<Rightarrow> nat \<Rightarrow> test list" where
  "liveness_tests t0 t1 t2 t3 =
     [fresh_tracker_does_not_alert_at_default_silence t0 t1,
      should_alert_when_silence_exceeds_threshold t0 t1 t2,
      record_successful_broadcast_resets_silence_for_alert t0 t1 t2 t3,
      default_silence_threshold_is_six_hours_not_eight t0 t1,
      no_success_until_recorded t0 t1, record_clears_alert_for_large_threshold t0 t1 t2,
      should_alert_after_silence t0 t1]"

section \<open>They pass\<close>

lemma canonical_texts:
  "trim CANONICAL_VENUS_VFDUSD_BSC_MAINNET = CANONICAL_VENUS_VFDUSD_BSC_MAINNET"
  "trim ''0xc4ef4229fec74ccfe17b2bdef7715fac740ba0ba'' = ''0xc4ef4229fec74ccfe17b2bdef7715fac740ba0ba''"
  "trim ''0x2170Ed0880ac9A755fd29B2688956BD959F933F8'' = ''0x2170Ed0880ac9A755fd29B2688956BD959F933F8''"
  by (rule trim_visible, simp add: visible_def byte_of_def CANONICAL_VENUS_VFDUSD_BSC_MAINNET_def)+

text \<open>An address parser ignores the case of the digits and tells different addresses apart.\<close>

definition reads_addresses :: "('a, 'u) config_deps \<Rightarrow> bool" where
  "reads_addresses d \<longleftrightarrow>
     (\<exists>a b. address_from_str d CANONICAL_VENUS_VFDUSD_BSC_MAINNET = Ok a \<and>
        address_from_str d ''0xc4ef4229fec74ccfe17b2bdef7715fac740ba0ba'' = Ok a \<and>
        address_from_str d ''0x2170Ed0880ac9A755fd29B2688956BD959F933F8'' = Ok b \<and> a \<noteq> b)"

lemma address_tests_pass:
  assumes "reads_addresses d"
  shows "list_all passes (address_tests d)"
proof -
  have shown: "str_contains (venus_address_error_text (VTokenNotCanonical got)) ''canonical Venus vFDUSD''" for got
    by (simp add: venus_address_error_text_def str_contains_def sublist_Cons_right)
  obtain a b where "address_from_str d CANONICAL_VENUS_VFDUSD_BSC_MAINNET = Ok a"
    "address_from_str d ''0xc4ef4229fec74ccfe17b2bdef7715fac740ba0ba'' = Ok a"
    "address_from_str d ''0x2170Ed0880ac9A755fd29B2688956BD959F933F8'' = Ok b" "a \<noteq> b"
    using assms unfolding reads_addresses_def by (elim exE conjE)
  then show ?thesis
    by (simp add: address_tests_def validate_accepts_canonical_checksummed_def
        validate_accepts_canonical_lowercase_def validate_accepts_non_canonical_on_testnet_allowlist_def
        validate_rejects_wrong_token_def validate_venus_vtoken_address_def canonical_texts Let_def
        shown test_simps)
qed

lemma str_contains_right: "str_contains t w \<Longrightarrow> str_contains (s @ t) w"
  by (simp add: str_contains_def sublist_append)

lemma timing_tests_pass: "list_all passes timing_tests"
proof -
  have "ops_timing_warnings 3600 21600 = []" by (simp add: ops_timing_no_warning_iff)
  moreover have "ops_timing_warnings 21600 28800 =
      [PollNotBelowMaxAge 21600 21600, SilenceAboveMaxAge 28800 21600]"
    by (simp add: ops_timing_warnings_def saturating_mul_def Let_def DEFAULT_MAX_ORACLE_AGE_SECS_def)
  moreover have "ops_timing_warnings 0 21600 = [PollZero]"
    by (simp add: ops_timing_warnings_def DEFAULT_MAX_ORACLE_AGE_SECS_def)
  moreover have "str_contains (timing_warning_text (PollNotBelowMaxAge p m)) ''INV-ORACLE-OPS-POLL-001''"
    "str_contains (timing_warning_text (SilenceAboveMaxAge s m)) ''INV-ORACLE-OPS-SILENCE-001''"
    "str_contains (timing_warning_text PollZero) ''tight-loops''" for p s m
    unfolding timing_warning_text_def timing_warning.case
    by ((rule str_contains_right)+, simp add: str_contains_def sublist_Cons_right)+
       (simp add: str_contains_def sublist_Cons_right)
  ultimately show ?thesis
    by (simp add: timing_tests_def default_poll_and_silence_aligned_with_window_budget_def
        resolve_poll_defaults_and_overrides_def resolve_silence_defaults_and_overrides_def
        ops_timing_warnings_clean_for_defaults_def ops_timing_warnings_flag_legacy_misconfig_def
        ops_timing_warnings_flag_zero_poll_def warns_of_def passes_and_then test_simps Let_def
        resolve_poll_interval_secs_def resolve_max_silence_secs_def parse_or_def parse_uint_def
        is_digit_def byte_of_def DEFAULT_POLL_INTERVAL_SECS_def DEFAULT_ORACLE_MAX_SILENCE_SECS_def DEFAULT_MAX_ORACLE_AGE_SECS_def)
qed

text \<open>The clock has moved before the first check, and the last follows the record closely.\<close>

definition test_clock :: "nat \<Rightarrow> nat \<Rightarrow> nat \<Rightarrow> nat \<Rightarrow> bool" where
  "test_clock t0 t1 t2 t3 \<longleftrightarrow> t0 < t1 \<and> t1 \<le> t2 \<and> t2 \<le> t3 \<and> t3 - t2 \<le> 50000000 \<and>
     t3 - t0 \<le> 3600000000000"

lemma liveness_tests_pass:
  assumes "test_clock t0 t1 t2 t3"
  shows "list_all passes (liveness_tests t0 t1 t2 t3)"
proof -
  from assms have "t1 - t0 \<le> 3600000000000" "t2 - t0 \<le> 3600000000000" "t2 - t1 \<le> 3600000000000"
    unfolding test_clock_def by linarith+
  with assms[unfolded test_clock_def] show ?thesis
  by (simp add: liveness_tests_def fresh_tracker_does_not_alert_at_default_silence_def
      should_alert_when_silence_exceeds_threshold_def default_silence_threshold_is_six_hours_not_eight_def
      record_successful_broadcast_resets_silence_for_alert_def no_success_until_recorded_def
      record_clears_alert_for_large_threshold_def should_alert_after_silence_def
      has_recorded_success_def passes_and_then test_simps Let_def should_alert_def liveness_new_def
      silence_since_last_broadcast_def record_successful_broadcast_def duration_from_secs_def
      duration_from_millis_def DEFAULT_ORACLE_MAX_SILENCE_SECS_def DEFAULT_MAX_ORACLE_AGE_SECS_def)
qed

end
