(* ===== verification/Test_Terra.thy ===== *)
theory Test_Terra
  imports Test_Lib Service_Fee
begin

text \<open>
  The tests of the pure part of \<open>oracle-service/src/terra_tx.rs\<close>: the answers of an LCD node
  to queries of transactions and accounts, and the gas price. \<open>serde_json\<close> and the base64
  library are parameters.
\<close>

section \<open>The text of a JSON value\<close>

text \<open>
  What \<open>serde_json\<close> prints for a value without escapes, signs and fractions: no spaces, and
  the keys in their order, which is that of the alphabet.
\<close>

fun join_commas :: "string list \<Rightarrow> string" where
  "join_commas [] = []"
| "join_commas [s] = s"
| "join_commas (s # ss) = s @ '','' @ join_commas ss"

definition quoted :: "string \<Rightarrow> string" where
  "quoted s = [CHR 34] @ s @ [CHR 34]"

function compact_json :: "json \<Rightarrow> string" where
  "compact_json JNull = ''null''"
| "compact_json (JBool b) = (if b then ''true'' else ''false'')"
| "compact_json (JNumber (PosInt n)) = show_nat (unat n)"
| "compact_json (JNumber (NegInt n)) = []"
| "compact_json (JNumber (FloatNum x)) = []"
| "compact_json (JString s) = quoted s"
| "compact_json (JArray js) = ''['' @ join_commas (map compact_json js) @ '']''"
| "compact_json (JObject kvs) =
     ''{'' @ join_commas (map (\<lambda>kv. quoted (fst kv) @ '':'' @ compact_json (snd kv)) kvs) @ ''}''"
  by pat_completeness auto
termination
proof (relation "measure size")
  fix kvs :: "(string \<times> json) list" and kv assume "kv \<in> set kvs"
  then have "size (snd kv) \<le> size_list (size_prod (\<lambda>_. 0) size) kvs"
    by (induction kvs) (auto simp: size_prod_def)
  then show "(snd kv, JObject kvs) \<in> measure size" by simp
qed (auto simp: less_Suc_eq_le size_list_estimation')

declare compact_json.simps [simp del]

section \<open>Transactions\<close>

definition parse_wasm_smart_data_rejects_array :: "'u lcd_lib \<Rightarrow> state_response deserializer \<Rightarrow> test" where
  "parse_wasm_smart_data_rejects_array L de =
     and_then (unwrap_err (parse_wasm_smart_query_data L de (JArray []))) (\<lambda>err.
     verify (str_contains err ''expected base64 string or JSON object''))"

definition sequence_mismatch_detection :: test where
  "sequence_mismatch_detection =
     and_then (verify (is_account_sequence_mismatch
       ''broadcast tx failed code 32: account sequence mismatch, expected 5, got 4'')) (\<lambda>_.
     and_then (verify (is_account_sequence_mismatch ''incorrect account sequence'')) (\<lambda>_.
     verify (\<not> is_account_sequence_mismatch ''out of gas'')))"

definition is_none :: "'a option \<Rightarrow> bool" where
  "is_none r = (case r of None \<Rightarrow> True | Some x \<Rightarrow> False)"

definition parse_tx_not_found_variants :: "'u lcd_lib \<Rightarrow> test" where
  "parse_tx_not_found_variants L =
     (let body = JObject [(''message'', JString ''tx not found'')] in
      and_then (unwrap (parse_tx_query_body L 404 body)) (\<lambda>r.
      and_then (verify (is_none r)) (\<lambda>_.
      and_then (unwrap (parse_tx_query_body L 200 body)) (\<lambda>r.
      verify (is_none r)))))"

definition tx_body :: "u64 \<Rightarrow> string \<Rightarrow> json" where
  "tx_body c l = JObject [(''tx_response'', JObject [(''code'', JNumber (PosInt c)),
     (''raw_log'', JString l), (''txhash'', JString ''ABC'')])]"

definition parse_tx_deliver_success_and_failure :: "'u lcd_lib \<Rightarrow> test" where
  "parse_tx_deliver_success_and_failure L =
     and_then (unwrap (parse_tx_query_body L 200 (tx_body 0 ''ok''))) (\<lambda>r.
     and_then (unwrap_some r) (\<lambda>success.
     and_then (verify (code success = 0)) (\<lambda>_.
     and_then (verify (txhash success = ''ABC'')) (\<lambda>_.
     and_then (verify (events success = [])) (\<lambda>_.
     and_then (unwrap (parse_tx_query_body L 200 (tx_body 5 ''failed''))) (\<lambda>r.
     and_then (unwrap_some r) (\<lambda>failure.
     verify (code failure = 5))))))))"

definition json_attr :: "string \<Rightarrow> string \<Rightarrow> json" where
  "json_attr k v = JObject [(''key'', JString k), (''value'', JString v)]"

definition json_wasm_event :: "json list \<Rightarrow> json" where
  "json_wasm_event attrs = JObject [(''attributes'', JArray attrs), (''type'', JString ''wasm'')]"

text \<open>\<open>xs[i]\<close>: out of bounds it aborts.\<close>

definition at_index :: "'a list \<Rightarrow> nat \<Rightarrow> ('a, unit) result" where
  "at_index xs i = (if i < length xs then Ok (xs ! i) else Panicked)"

definition event_body :: json where
  "event_body = JObject [(''tx_response'', JObject [(''code'', JNumber (PosInt 0)),
     (''events'', JArray [json_wasm_event [json_attr ''_contract_address'' ''terra1oracle'',
        json_attr ''action'' ''update_rate'', json_attr ''rate'' ''1225553374561294951'']]),
     (''raw_log'', JString []), (''txhash'', JString ''ABC'')])]"

definition parse_tx_events_from_tx_response_events :: "'u lcd_lib \<Rightarrow> test" where
  "parse_tx_events_from_tx_response_events L =
     and_then (unwrap (parse_tx_query_body L 200 event_body)) (\<lambda>r.
     and_then (unwrap_some r) (\<lambda>summary.
     and_then (verify (length (events summary) = 1)) (\<lambda>_.
     and_then (at_index (events summary) 0) (\<lambda>ev.
     and_then (verify (ty ev = ''wasm'')) (\<lambda>_.
     and_then (at_index (ev_attributes ev) 1) (\<lambda>a1.
     and_then (verify (attr_value a1 = ''update_rate'')) (\<lambda>_.
     and_then (at_index (ev_attributes ev) 2) (\<lambda>a2.
     verify (attr_value a2 = ''1225553374561294951'')))))))))"

definition parse_tx_events_decodes_base64_attrs :: "'u lcd_lib \<Rightarrow> test" where
  "parse_tx_events_decodes_base64_attrs L =
     (let tx_response = JObject [(''code'', JNumber (PosInt 0)),
            (''events'', JArray [json_wasm_event [json_attr ''X2NvbnRyYWN0X2FkZHJlc3M='' ''terra1oracle'',
               json_attr ''YWN0aW9u'' ''update_rate'', json_attr ''cmF0ZQ=='' ''2000'']]),
            (''txhash'', JString ''ABC'')];
          evs = parse_tx_events L tx_response in
      and_then (at_index evs 0) (\<lambda>ev.
      and_then (at_index (ev_attributes ev) 0) (\<lambda>a0.
      and_then (verify (key a0 = ''_contract_address'')) (\<lambda>_.
      and_then (at_index (ev_attributes ev) 1) (\<lambda>a1.
      and_then (verify (key a1 = ''action'')) (\<lambda>_.
      and_then (at_index (ev_attributes ev) 2) (\<lambda>a2.
      and_then (verify (key a2 = ''rate'')) (\<lambda>_.
      verify (attr_value a2 = ''2000'')))))))))"

definition parse_tx_events_falls_back_to_logs :: "'u lcd_lib \<Rightarrow> test" where
  "parse_tx_events_falls_back_to_logs L =
     (let tx_response = JObject [(''logs'', JArray [JObject [(''events'',
            JArray [json_wasm_event [json_attr ''_contract_address'' ''terra1oracle'',
              json_attr ''action'' ''update_rate'', json_attr ''rate'' ''7'']])]])];
          evs = parse_tx_events L tx_response in
      and_then (verify (length evs = 1)) (\<lambda>_.
      and_then (at_index evs 0) (\<lambda>ev.
      and_then (at_index (ev_attributes ev) 2) (\<lambda>a2.
      verify (attr_value a2 = ''7'')))))"

definition transaction_tests :: "'u lcd_lib \<Rightarrow> state_response deserializer \<Rightarrow> test list" where
  "transaction_tests L de = [parse_wasm_smart_data_rejects_array L de, sequence_mismatch_detection,
     parse_tx_not_found_variants L, parse_tx_deliver_success_and_failure L,
     parse_tx_events_from_tx_response_events L, parse_tx_events_decodes_base64_attrs L,
     parse_tx_events_falls_back_to_logs L]"

section \<open>Accounts\<close>

definition account_is :: "'u lcd_lib \<Rightarrow> json \<Rightarrow> account_info \<Rightarrow> test" where
  "account_is L body expected =
     and_then (unwrap (parse_account_info L body)) (\<lambda>info. verify (info = expected))"

definition BASE_ACCOUNT :: "string \<times> json" where
  "BASE_ACCOUNT = (''@type'', JString ''/cosmos.auth.v1beta1.BaseAccount'')"

definition parse_base_account_top_level :: "'u lcd_lib \<Rightarrow> test" where
  "parse_base_account_top_level L =
     account_is L (JObject [(''account'', JObject [BASE_ACCOUNT,
         (''account_number'', JString ''42''), (''sequence'', JString ''7'')])])
       \<lparr>ai_sequence = 7, ai_account_number = 42\<rparr>"

definition parse_base_account_numeric_fields :: "'u lcd_lib \<Rightarrow> test" where
  "parse_base_account_numeric_fields L =
     account_is L (JObject [(''account'', JObject [BASE_ACCOUNT,
         (''account_number'', JNumber (PosInt 99)), (''sequence'', JNumber (PosInt 3))])])
       \<lparr>ai_sequence = 3, ai_account_number = 99\<rparr>"

definition parse_vesting_wrapper :: "'u lcd_lib \<Rightarrow> test" where
  "parse_vesting_wrapper L =
     account_is L (JObject [(''account'', JObject [
         (''@type'', JString ''/cosmos.vesting.v1beta1.ContinuousVestingAccount''),
         (''base_vesting_account'', JObject [(''base_account'', JObject [
            (''account_number'', JString ''100''), (''sequence'', JString ''5'')])])])])
       \<lparr>ai_sequence = 5, ai_account_number = 100\<rparr>"

definition parse_missing_sequence_errors :: "'u lcd_lib \<Rightarrow> test" where
  "parse_missing_sequence_errors L =
     (let body = JObject [(''account'', JObject [BASE_ACCOUNT, (''account_number'', JString ''1'')])] in
      and_then (unwrap_err (parse_account_info L body)) (\<lambda>err.
      verify (str_contains err ''sequence'')))"

definition parse_missing_account_field_errors :: "'u lcd_lib \<Rightarrow> test" where
  "parse_missing_account_field_errors L =
     (let body = JObject [(''foo'', JString ''bar'')] in
      and_then (unwrap_err (parse_account_info L body)) (\<lambda>err.
      verify (str_contains err ''missing account'')))"

definition account_tests :: "'u lcd_lib \<Rightarrow> test list" where
  "account_tests L = [parse_base_account_top_level L, parse_base_account_numeric_fields L,
     parse_vesting_wrapper L, parse_missing_sequence_errors L, parse_missing_account_field_errors L]"

section \<open>Gas price and fee\<close>

text \<open>A literal of the test is the nearest number.\<close>

definition lit :: "rat \<Rightarrow> f64" where
  "lit x = f64_round x"

definition effective_gas_price_uses_max :: test where
  "effective_gas_price_uses_max =
     and_then (verify (effective_gas_price (lit (15 / 1000)) (Some (lit (2 / 100))) = lit (2 / 100))) (\<lambda>_.
     and_then (verify (effective_gas_price (lit (15 / 1000)) (Some (lit (1 / 100))) = lit (15 / 1000))) (\<lambda>_.
     verify (effective_gas_price (lit (15 / 1000)) None = lit (15 / 1000))))"

definition compute_fee_amount_ceils :: test where
  "compute_fee_amount_ceils =
     and_then (verify (compute_fee_amount 500000 (lit (15 / 1000)) = 7500)) (\<lambda>_.
     verify (compute_fee_amount 1 (lit (15 / 1000)) = 1))"

definition parse_minimum_gas_price_uluna :: test where
  "parse_minimum_gas_price_uluna =
     (let body = JObject [(''config'', JObject [(''minimum_gas_price'', JString ''0.015uluna'')])] in
      verify (parse_minimum_gas_price body = Some (lit (15 / 1000))))"

definition parse_minimum_gas_price_missing :: test where
  "parse_minimum_gas_price_missing = verify (parse_minimum_gas_price (JObject []) = None)"

definition gas_tests :: "test list" where
  "gas_tests = [effective_gas_price_uses_max, compute_fee_amount_ceils, parse_minimum_gas_price_uluna,
     parse_minimum_gas_price_missing]"

section \<open>They pass\<close>

lemma account_tests_pass: "list_all passes (account_tests L)"
  unfolding account_tests_def list.pred_inject simp_thms
  apply (intro conjI)
      apply (simp_all add: parse_base_account_top_level_def parse_base_account_numeric_fields_def
        parse_vesting_wrapper_def parse_missing_sequence_errors_def parse_missing_account_field_errors_def
        account_is_def BASE_ACCOUNT_def parse_account_info_def extract_u64_field_def parse_json_u64_def
        resolve_account_object.simps account_wrappers_def passes_and_then test_simps parse_uint_def is_digit_def
        byte_of_def str_contains_def sublist_Cons_right)
  done


text \<open>The other prices of the tests, rounded to 53 bits.\<close>

lemma cent_prices:
  "lit (1 / 100) = Finite (5764607523034235 / 576460752303423488)"
  "lit (2 / 100) = Finite (5764607523034235 / 288230376151711744)"
proof -
  have "rat_log2 (1 / 100) = - 7" by (rule rat_log2_eqI) (simp_all add: power_int_def power_one_over)
  then have u: "f64_ulp (1 / 100) = 1 / 576460752303423488" by (simp add: f64_ulp_def power_int_def power_one_over)
  have "\<lfloor>(144115188075855872 / 25 :: rat)\<rfloor> = 5764607523034234" by (simp add: floor_eq_iff)
  then have r: "round_half_even (144115188075855872 / 25) = 5764607523034235"
    unfolding round_half_even_def by simp
  then have "round_positive (1 / 100) = 5764607523034235 / 576460752303423488"
    unfolding round_positive_def u by simp
  then show "lit (1 / 100) = Finite (5764607523034235 / 576460752303423488)"
    by (simp add: lit_def f64_round_def)
  have "rat_log2 (1 / 50) = - 6" by (rule rat_log2_eqI) (simp_all add: power_int_def power_one_over)
  then have v: "f64_ulp (1 / 50) = 1 / 288230376151711744" by (simp add: f64_ulp_def power_int_def power_one_over)
  from r have "round_positive (1 / 50) = 5764607523034235 / 288230376151711744"
    unfolding round_positive_def v by simp
  then show "lit (2 / 100) = Finite (5764607523034235 / 288230376151711744)"
    by (simp add: lit_def f64_round_def)
qed

lemma unit_fee: "compute_fee_amount 1 DEFAULT_GAS_PRICE = 1"
proof -
  have "rat_log2 1 = 0" by (rule rat_log2_eqI) (simp_all add: power_int_def)
  then have u: "f64_ulp 1 = 1 / 4503599627370496" by (simp add: f64_ulp_def power_int_def power_one_over)
  have "round_positive 1 = 1"
    using round_half_even_of_int[of 4503599627370496] unfolding round_positive_def u by simp
  then have one: "f64_of_u64 1 = Finite 1" by (simp add: f64_of_u64_def f64_round_def)
  let ?p = "8646911284551352 / 576460752303423488 :: rat"
  have "rat_log2 ?p = - 7" by (rule rat_log2_eqI) (simp_all add: power_int_def power_one_over)
  then have u: "f64_ulp ?p = 1 / 576460752303423488" by (simp add: f64_ulp_def power_int_def power_one_over)
  have "round_half_even 8646911284551352 = 8646911284551352"
    using round_half_even_of_int[of 8646911284551352] by simp
  then have "round_positive ?p = ?p" unfolding round_positive_def u by simp
  then have "f64_mul (Finite 1) DEFAULT_GAS_PRICE = Finite ?p"
    unfolding default_gas_price f64_mul.simps f64_round_def Let_def by simp
  moreover have "\<lceil>?p\<rceil> = 1" by (simp add: ceiling_eq_iff)
  ultimately show ?thesis by (simp add: compute_fee_amount_def one)
qed

lemma default_price: "lit (15 / 1000) = DEFAULT_GAS_PRICE" "lit (3 / 200) = DEFAULT_GAS_PRICE"
  by (simp_all add: lit_def DEFAULT_GAS_PRICE_def)

lemma parsed_price: "parse_gas_price_denom ''0.015uluna'' = Some DEFAULT_GAS_PRICE"
proof -
  have t: "trim ''0.015uluna'' = ''0.015uluna''"
    by (rule trim_visible) (simp add: visible_def byte_of_def)
  have f: "str_find ''0.015uluna'' ''uluna'' = Some 5" by (simp add: str_find.simps)
  have "f64_parse ''0.015'' = Some DEFAULT_GAS_PRICE"
    by (simp add: f64_parse_def split_sign_def parse_decimal_def parse_exponent_def to_ascii_lowercase_def
        to_lower_char_def is_upper_def is_digit_def byte_of_def DEFAULT_GAS_PRICE_def power_int_def
        power_one_over Let_def)
  then show ?thesis by (simp add: parse_gas_price_denom_def t f)
qed

lemma gas_tests_pass: "list_all passes gas_tests"
proof -
  have "\<not> f64_less DEFAULT_GAS_PRICE (lit (1 / 100))" "f64_less DEFAULT_GAS_PRICE (lit (2 / 100))"
    unfolding cent_prices default_gas_price by simp_all
  moreover have "compute_fee_amount 500000 DEFAULT_GAS_PRICE = 7500"
    using default_fee by (simp add: DEFAULT_GAS_LIMIT_def)
  moreover have "parse_minimum_gas_price (JObject [(''config'',
       JObject [(''minimum_gas_price'', JString ''0.015uluna'')])]) = Some DEFAULT_GAS_PRICE"
    by (simp add: parse_minimum_gas_price_def parsed_price)
  moreover have "parse_minimum_gas_price (JObject []) = None"
    by (simp add: parse_minimum_gas_price_def)
  ultimately show ?thesis
    by (simp add: gas_tests_def effective_gas_price_uses_max_def compute_fee_amount_ceils_def
        parse_minimum_gas_price_uluna_def parse_minimum_gas_price_missing_def effective_gas_price_def
        default_price unit_fee passes_and_then test_simps Let_def del: f64_less.simps)
qed

text \<open>The texts and the base64 the tests need.\<close>

definition plain_texts :: "'u lcd_lib \<Rightarrow> bool" where
  "plain_texts L \<longleftrightarrow>
     (\<forall>body \<in> {JObject [(''message'', JString ''tx not found'')], tx_body 0 ''ok'',
        tx_body 5 ''failed'', event_body}. json_to_string L body = compact_json body)"

definition decodes_keys :: "'u lcd_lib \<Rightarrow> bool" where
  "decodes_keys L \<longleftrightarrow>
     base64_decode L ''X2NvbnRyYWN0X2FkZHJlc3M='' = Ok ''_contract_address'' \<and>
     base64_decode L ''YWN0aW9u'' = Ok ''action'' \<and> base64_decode L ''cmF0ZQ=='' = Ok ''rate'' \<and>
     base64_decode L ''2000'' = Ok [CHR 0xDB, CHR 0x4D, CHR 0x34] \<and>
     (\<exists>e. base64_decode L ''7'' = Err e) \<and> (\<exists>e. base64_decode L ''1225553374561294951'' = Err e)"

lemma smart_data_passes: "passes (parse_wasm_smart_data_rejects_array L de)"
  by (simp add: parse_wasm_smart_data_rejects_array_def parse_wasm_smart_query_data_def passes_and_then
      test_simps str_contains_def sublist_Cons_right)

lemma sequence_mismatch_passes: "passes sequence_mismatch_detection"
  by (simp add: sequence_mismatch_detection_def is_account_sequence_mismatch_def passes_and_then
      test_simps str_contains_def sublist_Cons_right to_ascii_lowercase_def to_lower_char_def
      is_upper_def byte_of_def)

text \<open>The words that \<open>tx_body_looks_not_found\<close> looks for, in the texts of the tests.\<close>

definition says_not_found :: "string \<Rightarrow> bool" where
  "says_not_found s \<longleftrightarrow> (let blob = to_ascii_lowercase s in str_contains blob ''not found'' \<or>
     str_contains blob ''tx not found'' \<or> str_contains blob ''not_found'')"

lemma says_not_found_texts:
  "says_not_found (compact_json (JObject [(''message'', JString ''tx not found'')]))"
  "\<not> says_not_found (compact_json (tx_body 0 ''ok''))" "\<not> says_not_found (compact_json (tx_body 5 ''failed''))"
  "\<not> says_not_found (compact_json event_body)"
  by (simp_all add: says_not_found_def tx_body_def event_body_def json_wasm_event_def json_attr_def quoted_def
      to_ascii_lowercase_def to_lower_char_def is_upper_def byte_of_def str_contains_def sublist_Cons_right
      show_nat.simps digit_char_def compact_json.simps)

lemma looks_not_found_iff: "tx_body_looks_not_found L body \<longleftrightarrow> says_not_found (json_to_string L body)"
  by (simp add: tx_body_looks_not_found_def says_not_found_def)

lemma not_found_passes:
  assumes "plain_texts L" shows "passes (parse_tx_not_found_variants L)"
proof -
  have "tx_body_looks_not_found L (JObject [(''message'', JString ''tx not found'')])"
    using assms by (simp add: looks_not_found_iff plain_texts_def says_not_found_texts)
  then show ?thesis
    by (simp add: parse_tx_not_found_variants_def parse_tx_query_body_def is_none_def passes_and_then
        test_simps Let_def)
qed

lemma found_bodies:
  assumes "plain_texts L"
  shows "\<not> tx_body_looks_not_found L (tx_body 0 ''ok'')" "\<not> tx_body_looks_not_found L (tx_body 5 ''failed'')"
    "\<not> tx_body_looks_not_found L event_body"
  using assms by (simp_all add: looks_not_found_iff plain_texts_def says_not_found_texts)

lemma tx_body_summary:
  assumes "\<not> tx_body_looks_not_found L (tx_body c l)"
  shows "parse_tx_query_body L 200 (tx_body c l) =
    Ok (Some \<lparr>txhash = ''ABC'', code = c, raw_log = l, events = []\<rparr>)"
  using assms by (simp add: parse_tx_query_body_def tx_body_def http_status_is_not_found_def is_success_def
      get_str_or_empty_def parse_tx_events_def events_of_def Let_def)

lemma deliver_passes:
  assumes "plain_texts L" shows "passes (parse_tx_deliver_success_and_failure L)"
  by (simp add: parse_tx_deliver_success_and_failure_def tx_body_summary found_bodies[OF assms]
      passes_and_then test_simps)

text \<open>Known keys and actions stay; the others are tried as base64.\<close>

lemma trim_keys: "trim ''_contract_address'' = ''_contract_address''" "trim ''action'' = ''action''"
  "trim ''rate'' = ''rate''" "trim ''update_rate'' = ''update_rate''" "trim ''2000'' = ''2000''"
  "trim ''7'' = ''7''" "trim ''1225553374561294951'' = ''1225553374561294951''"
  "trim ''X2NvbnRyYWN0X2FkZHJlc3M='' = ''X2NvbnRyYWN0X2FkZHJlc3M=''" "trim ''YWN0aW9u'' = ''YWN0aW9u''"
  "trim ''cmF0ZQ=='' = ''cmF0ZQ==''"
  by (rule trim_visible, simp add: visible_def byte_of_def)+

lemma known_attrs:
  "decode_tendermint_attr L ''_contract_address'' = ''_contract_address''"
  "decode_tendermint_attr L ''action'' = ''action''" "decode_tendermint_attr L ''rate'' = ''rate''"
  "decode_tendermint_attr L ''update_rate'' = ''update_rate''"
  by (simp_all add: decode_tendermint_attr_def trim_keys KNOWN_def List.member_iff)

lemma number_attrs:
  assumes "decodes_keys L"
  shows "decode_tendermint_attr L ''2000'' = ''2000''" "decode_tendermint_attr L ''7'' = ''7''"
    "decode_tendermint_attr L ''1225553374561294951'' = ''1225553374561294951''"
  using assms by (auto simp add: decode_tendermint_attr_def trim_keys KNOWN_def List.member_iff decodes_keys_def
      chars_of_def byte_of_def continuation_def is_ascii_alphanumeric_def is_digit_def Let_def)

lemma encoded_attrs:
  assumes "decodes_keys L"
  shows "decode_tendermint_attr L ''X2NvbnRyYWN0X2FkZHJlc3M='' = ''_contract_address''"
    "decode_tendermint_attr L ''YWN0aW9u'' = ''action''" "decode_tendermint_attr L ''cmF0ZQ=='' = ''rate''"
  using assms by (simp_all add: decode_tendermint_attr_def trim_keys KNOWN_def List.member_iff decodes_keys_def
      chars_of_def byte_of_def is_ascii_alphanumeric_def is_control_def is_digit_def is_lower_def is_upper_def)

lemma parsed_attr: "parse_event_attribute L (json_attr k v) =
    Some \<lparr>key = decode_tendermint_attr L k, attr_value = decode_tendermint_attr L v\<rparr>"
  by (simp add: parse_event_attribute_def json_attr_def get_str_or_empty_def)

lemma parsed_event: "parse_event L (json_wasm_event attrs) =
    Some \<lparr>ty = ''wasm'', ev_attributes = parse_event_attributes L attrs\<rparr>"
  by (simp add: parse_event_def json_wasm_event_def)

lemmas event_parsing = parse_tx_events_def events_of_def parse_events_array_def parse_event_attributes_def
  parsed_attr parsed_event List.map_filter_simps known_attrs at_index_def

lemma event_answer_passes:
  assumes "plain_texts L" "decodes_keys L"
  shows "passes (parse_tx_events_from_tx_response_events L)"
proof -
  have "parse_tx_query_body L 200 event_body = Ok (Some \<lparr>txhash = ''ABC'', code = 0, raw_log = [],
      events = [\<lparr>ty = ''wasm'', ev_attributes =
        [\<lparr>key = ''_contract_address'', attr_value = decode_tendermint_attr L ''terra1oracle''\<rparr>,
         \<lparr>key = ''action'', attr_value = ''update_rate''\<rparr>,
         \<lparr>key = ''rate'', attr_value = ''1225553374561294951''\<rparr>]\<rparr>]\<rparr>)"
    unfolding parse_tx_query_body_def using found_bodies(3)[OF assms(1)] number_attrs[OF assms(2)]
    by (simp add: event_body_def http_status_is_not_found_def is_success_def get_str_or_empty_def
        event_parsing Let_def)
  then show ?thesis
    by (simp add: parse_tx_events_from_tx_response_events_def at_index_def passes_and_then test_simps)
qed

lemma base64_passes:
  assumes "decodes_keys L" shows "passes (parse_tx_events_decodes_base64_attrs L)"
  by (simp add: parse_tx_events_decodes_base64_attrs_def event_parsing encoded_attrs[OF assms]
      number_attrs[OF assms] passes_and_then test_simps)

lemma logs_passes:
  assumes "decodes_keys L" shows "passes (parse_tx_events_falls_back_to_logs L)"
  by (simp add: parse_tx_events_falls_back_to_logs_def event_parsing number_attrs[OF assms]
      passes_and_then test_simps)

lemma transaction_tests_pass:
  assumes "plain_texts L" "decodes_keys L"
  shows "list_all passes (transaction_tests L de)"
  using assms by (simp add: transaction_tests_def smart_data_passes sequence_mismatch_passes
      not_found_passes deliver_passes event_answer_passes base64_passes logs_passes)

end
