(* ===== verification/Test_Confirm.thy ===== *)
theory Test_Confirm
  imports Test_Lib Service_Confirm
begin

text \<open>The tests of \<open>oracle-service/src/confirm.rs\<close>.\<close>

section \<open>Helpers of the tests\<close>

definition confirm_state :: "u128 \<Rightarrow> u64 \<Rightarrow> state_response" where
  "confirm_state rate last_update_sec = \<lparr>sr_rate = rate, sr_last_update_sec = last_update_sec,
     sr_utc_day_id = 1, sr_day_baseline_rate = rate, sr_paused = False\<rparr>"

definition attr :: "string \<Rightarrow> string \<Rightarrow> tx_event_attribute" where
  "attr k v = \<lparr>key = k, attr_value = v\<rparr>"

definition wasm_event :: "tx_event_attribute list \<Rightarrow> tx_event" where
  "wasm_event attrs = \<lparr>ty = ''wasm'', ev_attributes = attrs\<rparr>"

definition ORACLE :: string where
  "ORACLE = ''terra1fmht0t6svq3n24zx03nkfja0m40zhfyyxkdcvlrkl6u7gfe6aagq4gch8n''"

definition OTHER :: string where
  "OTHER = ''terra1zxwpzpzpleatqn39r00grau4yt29sld8pw78s7ktvjafnj5nsaxq0h3rh2''"

text \<open>\<open>to_ascii_uppercase\<close> of the standard library.\<close>

definition to_ascii_uppercase :: "string \<Rightarrow> string" where
  "to_ascii_uppercase s = map (\<lambda>c. if is_lower c then char_of (byte_of c - 32) else c) s"

definition error_contains :: "('a, string) result \<Rightarrow> string \<Rightarrow> test" where
  "error_contains r words = and_then (unwrap_err r) (\<lambda>err. verify (str_contains err words))"

definition returns_ok :: "('a, 'e) result \<Rightarrow> test" where
  "returns_ok r = and_then (unwrap r) (\<lambda>_. Ok ())"

definition returns_value :: "('a, 'e) result \<Rightarrow> 'a \<Rightarrow> test" where
  "returns_value r v = and_then (unwrap r) (\<lambda>x. verify (x = v))"

section \<open>The state\<close>

definition accepts_advanced_update_with_matching_rate :: test where
  "accepts_advanced_update_with_matching_rate =
     returns_ok (oracle_state_matches_intended_update 100 (confirm_state 2000 200) 2000)"

definition rejects_rate_mismatch_even_if_timestamp_advanced :: test where
  "rejects_rate_mismatch_even_if_timestamp_advanced =
     error_contains (oracle_state_matches_intended_update 100 (confirm_state 1999 200) 2000) ''rate mismatch''"

definition rejects_unchanged_last_update_sec :: test where
  "rejects_unchanged_last_update_sec =
     error_contains (oracle_state_matches_intended_update 100 (confirm_state 2000 100) 2000) ''did not advance''"

definition rejects_stale_last_update_sec :: test where
  "rejects_stale_last_update_sec =
     error_contains (oracle_state_matches_intended_update 100 (confirm_state 2000 50) 2000) ''did not advance''"

section \<open>The events\<close>

definition events_absent_when_empty :: test where
  "events_absent_when_empty = returns_value (oracle_tx_events_match_update ORACLE 1 []) EventsAbsent"

definition events_absent_when_only_non_wasm :: test where
  "events_absent_when_only_non_wasm =
     (let evs = [\<lparr>ty = ''message'', ev_attributes = [attr ''action'' ''update_rate'', attr ''rate'' ''1'']\<rparr>] in
      returns_value (oracle_tx_events_match_update ORACLE 1 evs) EventsAbsent)"

definition events_match_update_rate_on_oracle_contract :: test where
  "events_match_update_rate_on_oracle_contract =
     (let evs = [wasm_event [attr ''_contract_address'' ORACLE, attr ''action'' ''update_rate'',
                   attr ''rate'' ''1225553374561294951'']] in
      returns_value (oracle_tx_events_match_update ORACLE 1225553374561294951 evs) Matched)"

definition events_ignore_other_contract_in_same_tx :: test where
  "events_ignore_other_contract_in_same_tx =
     (let evs = [wasm_event [attr ''_contract_address'' OTHER, attr ''action'' ''update_rate'',
                   attr ''rate'' ''99'', attr ''_contract_address'' ORACLE,
                   attr ''action'' ''update_rate'', attr ''rate'' ''2000'']] in
      returns_value (oracle_tx_events_match_update ORACLE 2000 evs) Matched)"

definition events_wrong_contract_is_error_even_if_rate_matches :: test where
  "events_wrong_contract_is_error_even_if_rate_matches =
     (let evs = [wasm_event [attr ''_contract_address'' OTHER, attr ''action'' ''update_rate'',
                   attr ''rate'' ''2000'']] in
      error_contains (oracle_tx_events_match_update ORACLE 2000 evs) ''_contract_address'')"

definition events_missing_action_is_error :: test where
  "events_missing_action_is_error =
     (let evs = [wasm_event [attr ''_contract_address'' ORACLE, attr ''rate'' ''2000'']] in
      error_contains (oracle_tx_events_match_update ORACLE 2000 evs) ''action=update_rate'')"

definition events_rate_mismatch_is_error :: test where
  "events_rate_mismatch_is_error =
     (let evs = [wasm_event [attr ''_contract_address'' ORACLE, attr ''action'' ''update_rate'',
                   attr ''rate'' ''1999'']] in
      error_contains (oracle_tx_events_match_update ORACLE 2000 evs) ''rate does not match'')"

definition events_empty_rate_is_error :: test where
  "events_empty_rate_is_error =
     (let evs = [wasm_event [attr ''_contract_address'' ORACLE, attr ''action'' ''update_rate'',
                   attr ''rate'' []]] in
      and_then (unwrap_err (oracle_tx_events_match_update ORACLE 2000 evs)) (\<lambda>err.
      verify (str_contains err ''unparseable'' \<or> str_contains err ''missing'')))"

definition events_ambiguous_conflicting_rates_in_same_group_is_error :: test where
  "events_ambiguous_conflicting_rates_in_same_group_is_error =
     (let evs = [wasm_event [attr ''_contract_address'' ORACLE, attr ''action'' ''update_rate'',
                   attr ''rate'' ''2000'', attr ''rate'' ''1999'']] in
      and_then (unwrap_err (oracle_tx_events_match_update ORACLE 2000 evs)) (\<lambda>err.
      verify (str_contains err ''unparseable'' \<or> str_contains err ''fail-closed'')))"

definition events_contract_match_is_case_insensitive :: test where
  "events_contract_match_is_case_insensitive =
     (let upper = to_ascii_uppercase ORACLE;
          evs = [wasm_event [attr ''_contract_address'' upper, attr ''action'' ''update_rate'',
                   attr ''rate'' ''7'']] in
      returns_value (oracle_tx_events_match_update ORACLE 7 evs) Matched)"

section \<open>They pass\<close>

lemma test_shapes:
  "passes (returns_ok r) \<longleftrightarrow> (\<exists>x. r = Ok x)" "passes (returns_value r v) \<longleftrightarrow> r = Ok v"
  "passes (error_contains r words) \<longleftrightarrow> (\<exists>e. r = Err e \<and> str_contains e words)"
  by (auto simp: returns_ok_def returns_value_def error_contains_def passes_and_then test_simps)

definition state_tests :: "test list" where
  "state_tests = [accepts_advanced_update_with_matching_rate,
     rejects_rate_mismatch_even_if_timestamp_advanced, rejects_unchanged_last_update_sec,
     rejects_stale_last_update_sec]"

lemma state_tests_pass: "list_all passes state_tests"
  by (simp add: state_tests_def accepts_advanced_update_with_matching_rate_def
     rejects_rate_mismatch_even_if_timestamp_advanced_def rejects_unchanged_last_update_sec_def
     rejects_stale_last_update_sec_def test_shapes oracle_state_matches_intended_update_def
     confirm_state_def str_contains_def sublist_Cons_right)


definition event_tests :: "test list" where
  "event_tests = [events_absent_when_empty, events_absent_when_only_non_wasm,
     events_match_update_rate_on_oracle_contract, events_ignore_other_contract_in_same_tx,
     events_wrong_contract_is_error_even_if_rate_matches, events_missing_action_is_error,
     events_rate_mismatch_is_error, events_empty_rate_is_error,
     events_ambiguous_conflicting_rates_in_same_group_is_error,
     events_contract_match_is_case_insensitive]"

lemma number_texts:
  "parse_uint (trim ''2000'') = Some (2000 :: u128)" "parse_uint (trim ''1999'') = Some (1999 :: u128)"
  "parse_uint (trim ''99'') = Some (99 :: u128)" "parse_uint (trim ''7'') = Some (7 :: u128)"
  "parse_uint (trim ''1225553374561294951'') = Some (1225553374561294951 :: u128)"
  by (subst trim_visible, simp add: visible_def byte_of_def,
      simp add: parse_uint_def is_digit_def byte_of_def)+

lemma lower_upper_char:
  "to_lower_char (if is_lower c then char_of (byte_of c - 32) else c) = to_lower_char c"
proof (cases "is_lower c")
  case True
  then have b: "97 \<le> byte_of c" "byte_of c \<le> 122" by (simp_all add: is_lower_def)
  define n where "n = byte_of c - 32"
  have n: "byte_of (char_of n) = n" "65 \<le> n" "n \<le> 90" "n + 32 = byte_of c"
    using b by (simp_all add: n_def byte_of_def)
  have "to_lower_char (char_of n) = char_of (byte_of c)"
    unfolding to_lower_char_def is_upper_def n(1) using n by simp
  moreover have "to_lower_char c = c" using b by (simp add: to_lower_char_def is_upper_def)
  ultimately show ?thesis using True by (simp add: n_def byte_of_def)
qed simp

lemma upper_same: "eq_ignore_ascii_case (to_ascii_uppercase s) s"
  by (simp add: eq_ignore_ascii_case_def to_ascii_lowercase_def to_ascii_uppercase_def lower_upper_char)

lemma other_differs: "\<not> eq_ignore_ascii_case OTHER ORACLE"
  by (simp add: eq_ignore_ascii_case_def to_ascii_lowercase_def OTHER_def ORACLE_def to_lower_char_def
      is_upper_def byte_of_def)

lemma wasm_texts: "eq_ignore_ascii_case ''wasm'' ''wasm''" "\<not> eq_ignore_ascii_case ''message'' ''wasm''"
  by (simp_all add: eq_ignore_ascii_case_def to_ascii_lowercase_def)

lemma groups_of_wasm_event:
  "wasm_attr_groups [wasm_event attrs] = split_groups attrs None" "wasm_attr_groups [] = []"
  "wasm_attr_groups [\<lparr>ty = ''message'', ev_attributes = attrs\<rparr>] = []"
  by (simp_all add: wasm_attr_groups_def wasm_event_def wasm_texts)

lemmas event_eval = oracle_tx_events_match_update_def Let_def groups_of_wasm_event attr_def
  finish_group_def judge_group_def other_differs upper_same number_texts values_of_def
  note_verdict_def List.member_iff str_contains_def sublist_Cons_right

lemma events_absent_when_empty_passes: "passes events_absent_when_empty"
  unfolding events_absent_when_empty_def Let_def test_shapes
  by (simp add: event_eval passes_and_then test_simps)

lemma events_absent_when_only_non_wasm_passes: "passes events_absent_when_only_non_wasm"
  unfolding events_absent_when_only_non_wasm_def Let_def test_shapes
  by (simp add: event_eval passes_and_then test_simps)

lemma events_match_update_rate_on_oracle_contract_passes: "passes events_match_update_rate_on_oracle_contract"
  unfolding events_match_update_rate_on_oracle_contract_def Let_def test_shapes
  by (simp add: event_eval passes_and_then test_simps)

lemma events_ignore_other_contract_in_same_tx_passes: "passes events_ignore_other_contract_in_same_tx"
  unfolding events_ignore_other_contract_in_same_tx_def Let_def test_shapes
  by (simp add: event_eval passes_and_then test_simps)

lemma events_wrong_contract_is_error_even_if_rate_matches_passes: "passes events_wrong_contract_is_error_even_if_rate_matches"
  unfolding events_wrong_contract_is_error_even_if_rate_matches_def Let_def test_shapes
  by (simp add: event_eval passes_and_then test_simps)

lemma events_missing_action_is_error_passes: "passes events_missing_action_is_error"
  unfolding events_missing_action_is_error_def Let_def test_shapes
  by (simp add: event_eval passes_and_then test_simps)

lemma events_rate_mismatch_is_error_passes: "passes events_rate_mismatch_is_error"
  unfolding events_rate_mismatch_is_error_def Let_def test_shapes
  by (simp add: event_eval passes_and_then test_simps)

lemma events_empty_rate_is_error_passes: "passes events_empty_rate_is_error"
  unfolding events_empty_rate_is_error_def Let_def test_shapes
  by (simp add: event_eval passes_and_then test_simps)

lemma events_ambiguous_conflicting_rates_in_same_group_is_error_passes: "passes events_ambiguous_conflicting_rates_in_same_group_is_error"
  unfolding events_ambiguous_conflicting_rates_in_same_group_is_error_def Let_def test_shapes
  by (simp add: event_eval passes_and_then test_simps)

lemma events_contract_match_is_case_insensitive_passes: "passes events_contract_match_is_case_insensitive"
  unfolding events_contract_match_is_case_insensitive_def Let_def test_shapes
  by (simp add: event_eval passes_and_then test_simps)

lemma event_tests_pass: "list_all passes event_tests"
  by (simp add: event_tests_def events_absent_when_empty_passes events_absent_when_only_non_wasm_passes events_match_update_rate_on_oracle_contract_passes events_ignore_other_contract_in_same_tx_passes events_wrong_contract_is_error_even_if_rate_matches_passes events_missing_action_is_error_passes events_rate_mismatch_is_error_passes events_empty_rate_is_error_passes events_ambiguous_conflicting_rates_in_same_group_is_error_passes events_contract_match_is_case_insensitive_passes)

end
