(* ===== verification/Test_Ticks.thy ===== *)
theory Test_Ticks
  imports Test_Lib Service_Loop
begin

text \<open>The tests of the decision of a tick (\<open>oracle-service/src/main.rs\<close>).\<close>

definition reported :: "u128 \<Rightarrow> u64 \<Rightarrow> u64 \<Rightarrow> bool \<Rightarrow> state_response" where
  "reported rate last_sec day paused_now = \<lparr>sr_rate = rate, sr_last_update_sec = last_sec,
     sr_utc_day_id = day, sr_day_baseline_rate = rate, sr_paused = paused_now\<rparr>"

definition decides :: "u128 \<Rightarrow> state_response \<Rightarrow> u64 \<Rightarrow> tick_action \<Rightarrow> test" where
  "decides proposed state now action =
     and_then (unwrap (decide_tick_action proposed state now :: (tick_action, tick_error) result)) (\<lambda>a.
     verify (a = action))"

definition decide_tick_action_equal_rate_inside_throttle_skips :: test where
  "decide_tick_action_equal_rate_inside_throttle_skips =
     (let rate = 1000000; now = 100000; state = reported rate (now - 100) 1 False in
      decides rate state now SkipEqualRate)"

definition decide_tick_action_equal_rate_one_second_before_throttle_skips :: test where
  "decide_tick_action_equal_rate_one_second_before_throttle_skips =
     (let rate = 1000000; last_sec = 100000; now = last_sec + MIN_ORACLE_UPDATE_INTERVAL_SECS - 1;
          state = reported rate last_sec (last_sec div 86400) False in
      decides rate state now SkipEqualRate)"

definition decide_tick_action_equal_rate_after_throttle_is_heartbeat :: test where
  "decide_tick_action_equal_rate_after_throttle_is_heartbeat =
     (let rate = 1000000; last_sec = 100000; now = last_sec + MIN_ORACLE_UPDATE_INTERVAL_SECS;
          state = reported rate last_sec (last_sec div 86400) False in
      decides rate state now (Submit (now div 86400) rate True))"

definition decide_tick_action_rate_change_after_throttle_is_not_heartbeat :: test where
  "decide_tick_action_rate_change_after_throttle_is_not_heartbeat =
     (let rate = 1000000; proposed = 1000001; last_sec = 100000; now = last_sec + MIN_ORACLE_UPDATE_INTERVAL_SECS;
          state = reported rate last_sec (last_sec div 86400) False in
      and_then (unwrap (decide_tick_action proposed state now :: (tick_action, tick_error) result)) (\<lambda>a.
      case a of Submit _ _ heartbeat \<Rightarrow> verify (\<not> heartbeat) | _ \<Rightarrow> Panicked))"

definition decide_tick_action_first_update_equal_rate_submits_heartbeat :: test where
  "decide_tick_action_first_update_equal_rate_submits_heartbeat =
     (let rate = 1000000; state = reported rate 0 0 False in
      and_then (unwrap (decide_tick_action rate state 200 :: (tick_action, tick_error) result)) (\<lambda>a.
      case a of Submit _ _ heartbeat \<Rightarrow> (if heartbeat then Ok () else Panicked) | _ \<Rightarrow> Panicked))"

definition decide_tick_action_paused_equal_rate_skips :: test where
  "decide_tick_action_paused_equal_rate_skips =
     (let rate = 1000000; now = 100000; state = reported rate (now - MIN_ORACLE_UPDATE_INTERVAL_SECS - 10) 1 True in
      decides rate state now SkipPaused)"

definition decide_tick_action_equal_rate_skips :: test where
  "decide_tick_action_equal_rate_skips =
     (let rate = 1000000; state = reported rate 100 1 False in decides rate state 200 SkipEqualRate)"

definition decide_tick_action_paused_skips :: test where
  "decide_tick_action_paused_skips =
     (let rate = 1000000; state = reported rate 100 1 True in decides 2000000 state 200 SkipPaused)"

definition decide_tick_action_update_too_soon :: test where
  "decide_tick_action_update_too_soon =
     (let rate = 1000000; now = 100000; state = reported rate (now - 100) 1 False in
      decides 1000001 state now (SkipPolicy (oracle_policy_error.UpdateTooSoon MIN_ORACLE_UPDATE_INTERVAL_SECS)))"

definition decide_tick_action_rate_decreased :: test where
  "decide_tick_action_rate_decreased =
     (let rate = 1000000; now = 100000; state = reported rate (now - MIN_ORACLE_UPDATE_INTERVAL_SECS - 10) 1 False in
      decides 999000 state now (SkipPolicy oracle_policy_error.RateDecreased))"

definition decide_tick_action_daily_cap_exceeded :: test where
  "decide_tick_action_daily_cap_exceeded =
     (let rate = 1000000; now = 100000; state = reported rate (now - MIN_ORACLE_UPDATE_INTERVAL_SECS - 10) 1 False in
      decides 1030000 state now (SkipPolicy oracle_policy_error.DailyCapExceeded))"

definition tick_tests :: "test list" where
  "tick_tests = [decide_tick_action_equal_rate_inside_throttle_skips,
     decide_tick_action_equal_rate_one_second_before_throttle_skips,
     decide_tick_action_equal_rate_after_throttle_is_heartbeat,
     decide_tick_action_rate_change_after_throttle_is_not_heartbeat,
     decide_tick_action_first_update_equal_rate_submits_heartbeat,
     decide_tick_action_paused_equal_rate_skips,
     decide_tick_action_equal_rate_skips,
     decide_tick_action_paused_skips,
     decide_tick_action_update_too_soon,
     decide_tick_action_rate_decreased,
     decide_tick_action_daily_cap_exceeded]"

section \<open>They pass\<close>

lemma passes_decides:
  "passes (decides proposed state now action) \<longleftrightarrow>
     decide_tick_action proposed state now = (Ok action :: (tick_action, tick_error) result)"
  by (simp add: decides_def passes_and_then test_simps)

lemmas tick_steps = decide_tick_action_def check_rate_update_eq reported_def roll_utc_day_def
  throttled_def within_daily_cap_def MIN_ORACLE_UPDATE_INTERVAL_SECS_def Let_def

lemma equal_rate_inside_throttle_skips_passes: "passes decide_tick_action_equal_rate_inside_throttle_skips"
  unfolding decide_tick_action_equal_rate_inside_throttle_skips_def Let_def passes_decides
  by (simp add: tick_steps passes_and_then test_simps)

lemma equal_rate_one_second_before_throttle_skips_passes: "passes decide_tick_action_equal_rate_one_second_before_throttle_skips"
  unfolding decide_tick_action_equal_rate_one_second_before_throttle_skips_def Let_def passes_decides
  by (simp add: tick_steps passes_and_then test_simps)

lemma equal_rate_after_throttle_is_heartbeat_passes: "passes decide_tick_action_equal_rate_after_throttle_is_heartbeat"
  unfolding decide_tick_action_equal_rate_after_throttle_is_heartbeat_def Let_def passes_decides
  by (simp add: tick_steps passes_and_then test_simps)

lemma rate_change_after_throttle_is_not_heartbeat_passes: "passes decide_tick_action_rate_change_after_throttle_is_not_heartbeat"
  unfolding decide_tick_action_rate_change_after_throttle_is_not_heartbeat_def Let_def passes_decides
  by (simp add: tick_steps passes_and_then test_simps)

lemma first_update_equal_rate_submits_heartbeat_passes: "passes decide_tick_action_first_update_equal_rate_submits_heartbeat"
  unfolding decide_tick_action_first_update_equal_rate_submits_heartbeat_def Let_def passes_decides
  by (simp add: tick_steps passes_and_then test_simps)

lemma paused_equal_rate_skips_passes: "passes decide_tick_action_paused_equal_rate_skips"
  unfolding decide_tick_action_paused_equal_rate_skips_def Let_def passes_decides
  by (simp add: tick_steps passes_and_then test_simps)

lemma equal_rate_skips_passes: "passes decide_tick_action_equal_rate_skips"
  unfolding decide_tick_action_equal_rate_skips_def Let_def passes_decides
  by (simp add: tick_steps passes_and_then test_simps)

lemma paused_skips_passes: "passes decide_tick_action_paused_skips"
  unfolding decide_tick_action_paused_skips_def Let_def passes_decides
  by (simp add: tick_steps passes_and_then test_simps)

lemma update_too_soon_passes: "passes decide_tick_action_update_too_soon"
  unfolding decide_tick_action_update_too_soon_def Let_def passes_decides
  by (simp add: tick_steps passes_and_then test_simps)

lemma rate_decreased_passes: "passes decide_tick_action_rate_decreased"
  unfolding decide_tick_action_rate_decreased_def Let_def passes_decides
  by (simp add: tick_steps passes_and_then test_simps)

lemma daily_cap_exceeded_passes: "passes decide_tick_action_daily_cap_exceeded"
  unfolding decide_tick_action_daily_cap_exceeded_def Let_def passes_decides
  by (simp add: tick_steps passes_and_then test_simps)

lemma tick_tests_pass: "list_all passes tick_tests"
  by (simp add: tick_tests_def equal_rate_inside_throttle_skips_passes equal_rate_one_second_before_throttle_skips_passes equal_rate_after_throttle_is_heartbeat_passes rate_change_after_throttle_is_not_heartbeat_passes first_update_equal_rate_submits_heartbeat_passes paused_equal_rate_skips_passes equal_rate_skips_passes paused_skips_passes update_too_soon_passes rate_decreased_passes daily_cap_exceeded_passes)

end
