(* ===== verification/Cw20_Tokens.thy ===== *)
theory Cw20_Tokens
  imports CosmWasm
begin

text \<open>
  The cw20 tokens the contracts talk to. The token contract is third-party code, so its
  operations are a parameter, over a storage of any type. What the cw20 specification
  documents of it is said with ledgers: \<open>behaves_as_cw20\<close> holds of an implementation whose
  storages stand for ledgers, such that every operation that the ledger allows succeeds and
  leaves the storage of the ledger it should.
\<close>

section \<open>The interface\<close>

text \<open>
  The first argument of an operation is the caller. \<open>cw20_send\<close> is the message \<open>Send\<close>: with
  the new storage it gives the message that the token then passes to the receiving contract.
\<close>

record 'c cw20_lib =
  cw20_instantiate :: "addr \<Rightarrow> u8 \<Rightarrow> ('c, string) result"
  cw20_add_minter :: "addr \<Rightarrow> addr \<Rightarrow> 'c \<Rightarrow> ('c, string) result"
  cw20_execute :: "addr \<Rightarrow> cw20_execute_msg \<Rightarrow> 'c \<Rightarrow> ('c, string) result"
  cw20_send :: "addr \<Rightarrow> addr \<Rightarrow> u128 \<Rightarrow> binary \<Rightarrow> 'c \<Rightarrow> ('c \<times> cw20_receive_msg, string) result"
  cw20_balance :: "'c \<Rightarrow> addr \<Rightarrow> u128"
  cw20_allowance :: "'c \<Rightarrow> addr \<Rightarrow> addr \<Rightarrow> u128"
  cw20_decimals :: "'c \<Rightarrow> u8"

section \<open>Ledgers\<close>

record ledger =
  lg_decimals :: u8
  lg_admin :: addr
  lg_minters :: "addr set"
  lg_balance :: "addr \<Rightarrow> u128"
  lg_supply :: nat

definition new_ledger :: "addr \<Rightarrow> u8 \<Rightarrow> ledger" where
  "new_ledger minter decimals = \<lparr>lg_decimals = decimals, lg_admin = minter, lg_minters = {minter},
     lg_balance = (\<lambda>_. 0), lg_supply = 0\<rparr>"

definition allow_minter :: "addr \<Rightarrow> ledger \<Rightarrow> ledger" where
  "allow_minter minter l = l\<lparr>lg_minters := insert minter (lg_minters l)\<rparr>"

definition mint :: "addr \<Rightarrow> u128 \<Rightarrow> ledger \<Rightarrow> ledger" where
  "mint recipient amount l = l\<lparr>lg_balance := (lg_balance l)(recipient := lg_balance l recipient + amount),
     lg_supply := lg_supply l + unat amount\<rparr>"

definition burn :: "addr \<Rightarrow> u128 \<Rightarrow> ledger \<Rightarrow> ledger" where
  "burn holder amount l = l\<lparr>lg_balance := (lg_balance l)(holder := lg_balance l holder - amount),
     lg_supply := lg_supply l - unat amount\<rparr>"

definition transfer :: "addr \<Rightarrow> addr \<Rightarrow> u128 \<Rightarrow> ledger \<Rightarrow> ledger" where
  "transfer payer recipient amount l =
     (let b = (lg_balance l)(payer := lg_balance l payer - amount) in
      l\<lparr>lg_balance := b(recipient := b recipient + amount)\<rparr>)"

text \<open>When the ledger allows an operation; amounts are positive, and no balance overflows.\<close>

definition can_mint :: "addr \<Rightarrow> addr \<Rightarrow> u128 \<Rightarrow> ledger \<Rightarrow> bool" where
  "can_mint minter recipient amount l \<longleftrightarrow> minter \<in> lg_minters l \<and> 0 < amount \<and>
     lg_supply l + unat amount < 2 ^ 128 \<and> unat (lg_balance l recipient) + unat amount < 2 ^ 128"

definition can_burn :: "addr \<Rightarrow> u128 \<Rightarrow> ledger \<Rightarrow> bool" where
  "can_burn holder amount l \<longleftrightarrow> 0 < amount \<and> amount \<le> lg_balance l holder \<and> unat amount \<le> lg_supply l"

definition can_pay :: "addr \<Rightarrow> addr \<Rightarrow> u128 \<Rightarrow> ledger \<Rightarrow> bool" where
  "can_pay payer recipient amount l \<longleftrightarrow> 0 < amount \<and> amount \<le> lg_balance l payer \<and>
     (payer \<noteq> recipient \<longrightarrow> unat (lg_balance l recipient) + unat amount < 2 ^ 128)"

definition behaves_as_cw20 :: "'c cw20_lib \<Rightarrow> (ledger \<Rightarrow> 'c) \<Rightarrow> bool" where
  "behaves_as_cw20 L stored \<longleftrightarrow>
     (\<forall>minter decimals. cw20_instantiate L minter decimals = Ok (stored (new_ledger minter decimals))) \<and>
     (\<forall>l minter. cw20_add_minter L (lg_admin l) minter (stored l) = Ok (stored (allow_minter minter l))) \<and>
     (\<forall>l minter recipient amount. can_mint minter recipient amount l \<longrightarrow>
        cw20_execute L minter (Cw20Mint recipient amount) (stored l) = Ok (stored (mint recipient amount l))) \<and>
     (\<forall>l holder amount. can_burn holder amount l \<longrightarrow>
        cw20_execute L holder (Cw20Burn amount) (stored l) = Ok (stored (burn holder amount l))) \<and>
     (\<forall>l payer recipient amount. can_pay payer recipient amount l \<longrightarrow>
        cw20_execute L payer (Cw20Transfer recipient amount) (stored l) =
          Ok (stored (transfer payer recipient amount l))) \<and>
     (\<forall>l payer contract amount msg. can_pay payer contract amount l \<longrightarrow>
        cw20_send L payer contract amount msg (stored l) = Ok (stored (transfer payer contract amount l),
          \<lparr>cw20_sender = payer, cw20_amount = amount, cw20_msg = msg\<rparr>)) \<and>
     (\<forall>l holder. cw20_balance L (stored l) holder = lg_balance l holder) \<and>
     (\<forall>l owner spender. cw20_allowance L (stored l) owner spender = 0) \<and>
     (\<forall>l. cw20_decimals L (stored l) = lg_decimals l)"

lemma cw20_operations:
  assumes "behaves_as_cw20 L stored"
  shows "cw20_instantiate L minter decimals = Ok (stored (new_ledger minter decimals))"
    and "lg_admin l = owner \<Longrightarrow> cw20_add_minter L owner minter (stored l) = Ok (stored (allow_minter minter l))"
    and "can_mint minter recipient amount l \<Longrightarrow>
      cw20_execute L minter (Cw20Mint recipient amount) (stored l) = Ok (stored (mint recipient amount l))"
    and "can_burn holder amount l \<Longrightarrow>
      cw20_execute L holder (Cw20Burn amount) (stored l) = Ok (stored (burn holder amount l))"
    and "can_pay payer recipient amount l \<Longrightarrow> cw20_execute L payer (Cw20Transfer recipient amount) (stored l) =
      Ok (stored (transfer payer recipient amount l))"
    and "can_pay payer contract amount l \<Longrightarrow> cw20_send L payer contract amount msg (stored l) =
      Ok (stored (transfer payer contract amount l),
        \<lparr>cw20_sender = payer, cw20_amount = amount, cw20_msg = msg\<rparr>)"
    and "cw20_balance L (stored l) holder = lg_balance l holder"
    and "cw20_allowance L (stored l) owner spender = 0"
    and "cw20_decimals L (stored l) = lg_decimals l"
  using assms by (auto simp: behaves_as_cw20_def)

section \<open>A token that one user holds\<close>

text \<open>The ledger of a token that a contract mints and burns, and that one user of it holds.\<close>

definition user_ledger :: "addr \<Rightarrow> nat \<Rightarrow> u128 \<Rightarrow> ledger" where
  "user_ledger contract supply user = \<lparr>lg_decimals = 6, lg_admin = ''owner'', lg_minters = {contract, ''owner''},
     lg_balance = (\<lambda>_. 0)(''user'' := user), lg_supply = supply\<rparr>"

lemma user_ledger_moves:
  assumes "contract \<noteq> ''user''"
  shows "allow_minter contract (new_ledger ''owner'' 6) = user_ledger contract 0 0"
    and "mint ''user'' x (user_ledger contract s b) = user_ledger contract (s + unat x) (b + x)"
    and "burn contract x (transfer ''user'' contract x (user_ledger contract s b)) =
      user_ledger contract (s - unat x) (b - x)"
    and "lg_balance (user_ledger contract s b) ''user'' = b"
  using assms assms[symmetric]
  by (auto simp: user_ledger_def new_ledger_def mint_def burn_def transfer_def allow_minter_def Let_def fun_eq_iff)

lemma user_ledger_allows:
  assumes "contract \<noteq> ''user''"
  shows "can_mint minter ''user'' x (user_ledger contract s b) \<longleftrightarrow> minter \<in> {contract, ''owner''} \<and>
      0 < x \<and> s + unat x < 2 ^ 128 \<and> unat b + unat x < 2 ^ 128"
    and "can_pay ''user'' contract x (user_ledger contract s b) \<longleftrightarrow> 0 < x \<and> x \<le> b"
    and "can_burn contract x (transfer ''user'' contract x (user_ledger contract s b)) \<longleftrightarrow>
      0 < x \<and> unat x \<le> s"
  using assms assms[symmetric] unat_less_size[of x]
  by (auto simp: user_ledger_def can_mint_def can_pay_def can_burn_def transfer_def Let_def)

end
