(* ===== verification/Test_Chain.thy ===== *)
theory Test_Chain
  imports Cw20_Tokens Test_Oracle Window_Safety
begin

text \<open>
  The simulated chain of the window's tests (\<open>ust1-window/src/multitest.rs\<close>): an oracle, a
  window, two cw20 tokens and the stub of a treasury, and the delivery of the messages that
  the contracts answer with. A call either succeeds with all of its messages or leaves the
  chain as it was, so a failed call carries no state; its error is the text of the root cause.
\<close>

section \<open>The stub treasury\<close>

datatype stub_treasury_msg = StubInstantWithdrawCw20 addr addr u128 | SetRejectPulls bool

definition stub_treasury_execute ::
  "window_payload api \<Rightarrow> stub_treasury_msg \<Rightarrow> bool \<Rightarrow> (bool \<times> window_payload response, std_error) result" where
  "stub_treasury_execute a msg reject_pulls = (case msg of
       SetRejectPulls reject \<Rightarrow> Ok (reject, add_attribute ''action'' ''set_reject_pulls'' new_response)
     | StubInstantWithdrawCw20 recipient token amount \<Rightarrow>
         if reject_pulls then
           Err (GenericErr ''stub treasury: InstantWithdrawCw20 rejected (unregistered or paused)'')
         else and_then (to_json_binary a (Cw20Payload (Cw20Transfer recipient amount))) (\<lambda>m.
           Ok (reject_pulls, add_attribute ''action'' ''instant_withdraw_cw20''
             (add_message (WasmExecute token m []) new_response))))"

text \<open>The window's message and the stub's have the same JSON.\<close>

definition decoded_by_stub :: "treasury_execute_msg \<Rightarrow> stub_treasury_msg" where
  "decoded_by_stub m = (case m of
     InstantWithdrawCw20 recipient token amount \<Rightarrow> StubInstantWithdrawCw20 recipient token amount)"

section \<open>The texts of errors\<close>

text \<open>
  The tests read the text of the root cause of an error. A variant declared with \<open>#[from]\<close> has
  the wrapped error as its source, so the root cause is that error, or the cause of that one.
\<close>

definition math_error_text :: "(overflow_error \<Rightarrow> string) \<Rightarrow> math_error \<Rightarrow> string" where
  "math_error_text overflow_text e = (case e of
       math_error.Overflow e \<Rightarrow> overflow_text e
     | DivisionByZero \<Rightarrow> ''division by zero''
     | InvalidFeeBps \<Rightarrow> ''fee bps must be <= 10000''
     | TooLarge \<Rightarrow> ''amount does not fit in Uint128'')"

definition window_error_text ::
  "(std_error \<Rightarrow> string) \<Rightarrow> (overflow_error \<Rightarrow> string) \<Rightarrow> window_error \<Rightarrow> string" where
  "window_error_text std_text overflow_text e = (case e of
       window_error.Std e \<Rightarrow> std_text e
     | window_error.Unauthorized \<Rightarrow> ''unauthorized''
     | window_error.Paused \<Rightarrow> ''contract is paused''
     | InvalidCw20Hook \<Rightarrow> ''unknown or disallowed cw20 hook''
     | PerTxLimit \<Rightarrow> ''UST1 per-tx limit exceeded''
     | RollingLimit \<Rightarrow> ''UST1 rolling 24h limit exceeded''
     | InsufficientVfdusd \<Rightarrow> ''vFDUSD balance too low on CMM treasury for withdrawal''
     | BelowMinimum \<Rightarrow> ''below minimum vFDUSD receive''
     | ZeroOutput \<Rightarrow> ''zero output amount (dust)''
     | InvalidTokenDecimals v u \<Rightarrow>
         ''vFDUSD decimals ('' @ show_nat (unat v) @ '') must be >= UST1 decimals ('' @ show_nat (unat u) @ '')''
     | OracleStale \<Rightarrow> ''oracle rate is stale or not yet committed on-chain (run at least one UpdateRate)''
     | OraclePaused \<Rightarrow> ''oracle is paused (circuit breaker)''
     | MaxOracleAgeTooShort m \<Rightarrow>
         ''max oracle age must be at least '' @ show_nat (unat m) @ ''s (oracle min update interval)''
     | Math e \<Rightarrow> math_error_text overflow_text e
     | window_error.NoPendingGovernance \<Rightarrow> ''no pending governance proposal''
     | window_error.InvalidGovernanceProposal \<Rightarrow> ''invalid governance proposal''
     | window_error.Overflow e \<Rightarrow> overflow_text e)"

section \<open>The chain\<close>

text \<open>The third-party code: the host, JSON, the texts of library errors, cw20, addresses.\<close>

record 'c window_host =
  wh_api :: "window_payload api"
  wh_oracle_api :: "unit api"
  wh_json :: window_from_json
  wh_hook :: "window_hook_msg \<Rightarrow> binary"
  wh_std_text :: "std_error \<Rightarrow> string"
  wh_overflow_text :: "overflow_error \<Rightarrow> string"
  wh_cw20 :: "'c cw20_lib"
  wh_start :: u64
  wh_version :: string
  wh_address :: "nat \<Rightarrow> addr"

text \<open>Contracts get their addresses in the order in which the set-up creates them.\<close>

definition oracle_addr :: "'c window_host \<Rightarrow> addr" where "oracle_addr h = wh_address h 0"
definition vfdusd_addr :: "'c window_host \<Rightarrow> addr" where "vfdusd_addr h = wh_address h 1"
definition ust1_addr :: "'c window_host \<Rightarrow> addr" where "ust1_addr h = wh_address h 2"
definition treasury_addr :: "'c window_host \<Rightarrow> addr" where "treasury_addr h = wh_address h 3"
definition window_addr :: "'c window_host \<Rightarrow> addr" where "window_addr h = wh_address h 4"
definition fake_addr :: "'c window_host \<Rightarrow> addr" where "fake_addr h = wh_address h 5"

record 'c window_app =
  wa_time :: u64
  wa_oracle :: oracle_storage
  wa_window :: window_storage
  wa_reject :: bool
  wa_tokens :: "addr \<Rightarrow> 'c option"

definition env_of :: "addr \<Rightarrow> 'c window_app \<Rightarrow> env" where
  "env_of contract app = \<lparr>block_nanos = wa_time app, contract_address = contract\<rparr>"

definition from_caller :: "addr \<Rightarrow> message_info" where
  "from_caller caller = \<lparr>sender = caller, funds = []\<rparr>"

text \<open>Queries between contracts.\<close>

definition app_querier :: "'c window_host \<Rightarrow> 'c window_app \<Rightarrow> window_querier" where
  "app_querier h app = \<lparr>
     wq_oracle_state = (\<lambda>a.
       if a = oracle_addr h then and_then (oracle_query_state (wa_oracle app)) (\<lambda>r. Ok (state_response_to_wire r))
       else Err (GenericErr ''no such contract'')),
     wq_cw20_balance = (\<lambda>token holder. case wa_tokens app token of
         Some c \<Rightarrow> Ok (cw20_balance (wh_cw20 h) c holder) | None \<Rightarrow> Err (GenericErr ''no such contract'')),
     wq_cw20_decimals = (\<lambda>token. case wa_tokens app token of
         Some c \<Rightarrow> Ok (cw20_decimals (wh_cw20 h) c) | None \<Rightarrow> Err (GenericErr ''no such contract''))\<rparr>"

definition on_token ::
  "addr \<Rightarrow> ('c \<Rightarrow> ('c \<times> 'r, string) result) \<Rightarrow> 'c window_app \<Rightarrow> ('c window_app \<times> 'r, string) result" where
  "on_token token f app = (case wa_tokens app token of
       None \<Rightarrow> Err ''no such contract''
     | Some c \<Rightarrow> and_then (f c) (\<lambda>(c, r). Ok (app\<lparr>wa_tokens := (wa_tokens app)(token \<mapsto> c)\<rparr>, r)))"

definition token_call ::
  "addr \<Rightarrow> ('c \<Rightarrow> ('c, string) result) \<Rightarrow> 'c window_app \<Rightarrow> ('c window_app, string) result" where
  "token_call token f app =
     and_then (on_token token (\<lambda>c. and_then (f c) (\<lambda>c. Ok (c, ()))) app) (\<lambda>(app, _). Ok app)"

text \<open>The delivery of a list of messages: the first failure fails the call.\<close>

fun deliver_all ::
  "('m \<Rightarrow> 'a \<Rightarrow> ('a, string) result) \<Rightarrow> 'm list \<Rightarrow> 'a \<Rightarrow> ('a, string) result" where
  "deliver_all deliver [] app = Ok app"
| "deliver_all deliver (m # ms) app = and_then (deliver m app) (deliver_all deliver ms)"

definition deliver_to_token ::
  "'c window_host \<Rightarrow> addr \<Rightarrow> window_payload cosmos_msg \<Rightarrow> 'c window_app \<Rightarrow> ('c window_app, string) result" where
  "deliver_to_token h from m app = (case m of
       WasmExecute contract (Cw20Payload c) _ \<Rightarrow> token_call contract (cw20_execute (wh_cw20 h) from c) app
     | _ \<Rightarrow> Err ''unknown message'')"

definition treasury_call ::
  "'c window_host \<Rightarrow> stub_treasury_msg \<Rightarrow> 'c window_app \<Rightarrow> ('c window_app, string) result" where
  "treasury_call h msg app =
     and_then (map_err (wh_std_text h) (stub_treasury_execute (wh_api h) msg (wa_reject app))) (\<lambda>(reject, r).
     deliver_all (deliver_to_token h (treasury_addr h)) (messages r) (app\<lparr>wa_reject := reject\<rparr>))"

definition deliver_from_window ::
  "'c window_host \<Rightarrow> window_payload cosmos_msg \<Rightarrow> 'c window_app \<Rightarrow> ('c window_app, string) result" where
  "deliver_from_window h m app = (case m of
       WasmExecute contract (TreasuryPayload t) _ \<Rightarrow>
         if contract = treasury_addr h then treasury_call h (decoded_by_stub t) app
         else Err ''unknown message''
     | _ \<Rightarrow> deliver_to_token h (window_addr h) m app)"

definition window_call ::
  "'c window_host \<Rightarrow> addr \<Rightarrow> window_execute_msg \<Rightarrow> 'c window_app \<Rightarrow>
   ('c window_app \<times> window_payload response, string) result" where
  "window_call h caller msg app =
     and_then (map_err (window_error_text (wh_std_text h) (wh_overflow_text h))
       (window_execute (wh_api h) (wh_json h) (app_querier h app) (env_of (window_addr h) app)
          (from_caller caller) msg (wa_window app))) (\<lambda>(s, r).
     and_then (deliver_all (deliver_from_window h) (messages r) (app\<lparr>wa_window := s\<rparr>)) (\<lambda>app.
     Ok (app, r)))"

definition oracle_call ::
  "'c window_host \<Rightarrow> addr \<Rightarrow> oracle_execute_msg \<Rightarrow> 'c window_app \<Rightarrow> ('c window_app, string) result" where
  "oracle_call h caller msg app =
     and_then (map_err (oracle_error_text (wh_std_text h))
       (oracle_execute (wh_oracle_api h) (env_of (oracle_addr h) app) (from_caller caller) msg (wa_oracle app)))
       (\<lambda>(s, r). Ok (app\<lparr>wa_oracle := s\<rparr>))"

definition mint_to ::
  "'c window_host \<Rightarrow> addr \<Rightarrow> addr \<Rightarrow> addr \<Rightarrow> u128 \<Rightarrow> 'c window_app \<Rightarrow> ('c window_app, string) result" where
  "mint_to h caller token recipient amount app =
     token_call token (cw20_execute (wh_cw20 h) caller (Cw20Mint recipient amount)) app"

text \<open>A token sent to the window: the token moves it and calls the window's receive hook.\<close>

definition send_to_window ::
  "'c window_host \<Rightarrow> addr \<Rightarrow> addr \<Rightarrow> u128 \<Rightarrow> window_hook_msg \<Rightarrow> 'c window_app \<Rightarrow>
   ('c window_app \<times> window_payload response, string) result" where
  "send_to_window h token user amount hook app =
     and_then (on_token token (cw20_send (wh_cw20 h) user (window_addr h) amount (wh_hook h hook)) app)
       (\<lambda>(app, m). window_call h token (Receive m) app)"

definition token_balance :: "'c window_host \<Rightarrow> addr \<Rightarrow> addr \<Rightarrow> 'c window_app \<Rightarrow> (u128, unit) result" where
  "token_balance h token holder app =
     and_then (unwrap_some (wa_tokens app token)) (\<lambda>c. Ok (cw20_balance (wh_cw20 h) c holder))"

section \<open>The set-up\<close>

definition window_msg_of :: "'c window_host \<Rightarrow> window_instantiate_msg" where
  "window_msg_of h = \<lparr>wi_governance = ''owner'', wi_oracle = oracle_addr h, wi_vfdusd_token = vfdusd_addr h,
     wi_cmm_treasury = Some (treasury_addr h), wi_ust1_token = ust1_addr h, wi_fee_bps = DEFAULT_FEE_BPS,
     wi_per_tx_ust1_limit = DEFAULT_PER_TX_UST1_LIMIT,
     wi_rolling_24h_ust1_limit = DEFAULT_ROLLING_24H_UST1_LIMIT, wi_max_oracle_age_sec = None\<rparr>"

text \<open>The contracts before the window, with the decimals of the vFDUSD token.\<close>

definition setup_contracts :: "'c window_host \<Rightarrow> u8 \<Rightarrow> bool \<Rightarrow> ('c window_app, unit) result" where
  "setup_contracts h v_decimals reject_pulls =
     and_then (unwrap (oracle_instantiate (wh_oracle_api h) (wh_version h)
         \<lparr>block_nanos = wh_start h, contract_address = oracle_addr h\<rparr> (from_caller ''owner'')
         \<lparr>oi_governance = ''owner'', oi_oracle_operator = ''bot'', oi_initial_rate = RATE_SCALE\<rparr>
         oracle_empty)) (\<lambda>(oracle, _).
     and_then (unwrap (cw20_instantiate (wh_cw20 h) ''owner'' v_decimals)) (\<lambda>vfdusd.
     and_then (unwrap (cw20_instantiate (wh_cw20 h) ''owner'' 6)) (\<lambda>ust1.
     Ok \<lparr>wa_time = wh_start h, wa_oracle = oracle, wa_window = window_empty, wa_reject = reject_pulls,
         wa_tokens = [vfdusd_addr h \<mapsto> vfdusd, ust1_addr h \<mapsto> ust1]\<rparr>)))"

definition instantiate_window ::
  "'c window_host \<Rightarrow> 'c window_app \<Rightarrow> ('c window_app, string) result" where
  "instantiate_window h app =
     and_then (map_err (window_error_text (wh_std_text h) (wh_overflow_text h))
       (window_instantiate (wh_api h) (app_querier h app) (wh_version h) (env_of (window_addr h) app)
          (from_caller ''owner'') (window_msg_of h) (wa_window app))) (\<lambda>(s, r).
     Ok (app\<lparr>wa_window := s\<rparr>))"

definition setup_with_treasury :: "'c window_host \<Rightarrow> bool \<Rightarrow> ('c window_app, unit) result" where
  "setup_with_treasury h reject_pulls =
     and_then (setup_contracts h 6 reject_pulls) (\<lambda>app.
     and_then (unwrap (instantiate_window h app)) (\<lambda>app.
     and_then (unwrap (oracle_query_state (wa_oracle app))) (\<lambda>st.
     and_then (unwrap (oracle_call h ''bot'' (UpdateRate (sr_rate st)) app)) (\<lambda>app.
     unwrap (token_call (ust1_addr h) (cw20_add_minter (wh_cw20 h) ''owner'' (window_addr h)) app)))))"

definition window_setup :: "'c window_host \<Rightarrow> ('c window_app, unit) result" where
  "window_setup h = setup_with_treasury h False"

end
