(* ===== verification/Test_Delivery.thy ===== *)
theory Test_Delivery
  imports Test_Chain
begin

text \<open>
  What the calls of the simulated chain do, when the third-party code behaves as documented:
  a mint, a call of governance, and the two swaps with every message they lead to.
\<close>

section \<open>A chain that behaves as documented\<close>

text \<open>
  The token contract is a cw20 token, messages can be encoded, a hook is decoded as it was
  encoded, and different contracts have different addresses.
\<close>

definition well_hosted :: "'c window_host \<Rightarrow> (ledger \<Rightarrow> 'c) \<Rightarrow> bool" where
  "well_hosted h stored \<longleftrightarrow>
     behaves_as_cw20 (wh_cw20 h) stored \<and> json_error (wh_api h) = (\<lambda>_. None) \<and>
     (\<forall>m. wh_json h (wh_hook h m) = Ok m) \<and>
     distinct [oracle_addr h, vfdusd_addr h, ust1_addr h, treasury_addr h, window_addr h, fake_addr h]"

lemma hosting:
  assumes "well_hosted h stored"
  shows "behaves_as_cw20 (wh_cw20 h) stored"
    and "to_json_binary (wh_api h) p = Ok p" and "json_error (wh_api h) p = None"
    and "wh_json h (wh_hook h m) = Ok m"
    and "distinct [oracle_addr h, vfdusd_addr h, ust1_addr h, treasury_addr h, window_addr h, fake_addr h]"
    and "distinct [fake_addr h, window_addr h, treasury_addr h, ust1_addr h, vfdusd_addr h, oracle_addr h]"
  using assms by (auto simp: well_hosted_def to_json_binary_def)

text \<open>The chain of the tests: who uses it, and the second of its first block.\<close>

definition users :: "addr list" where
  "users = [''owner'', ''bot'', ''user'', ''new_gov'', ''stranger'']"

definition contracts :: "'c window_host \<Rightarrow> addr list" where
  "contracts h = [oracle_addr h, vfdusd_addr h, ust1_addr h, treasury_addr h, window_addr h, fake_addr h]"

definition simulates :: "'c window_host \<Rightarrow> (ledger \<Rightarrow> 'c) \<Rightarrow> bool" where
  "simulates h stored \<longleftrightarrow> well_hosted h stored \<and>
     (\<forall>x\<in>set (users @ contracts h). addr_validate (wh_api h) x = Ok x) \<and>
     (\<forall>x\<in>set users. addr_validate (wh_oracle_api h) x = Ok x) \<and>
     set users \<inter> set (contracts h) = {} \<and> visible (treasury_addr h) \<and> treasury_addr h \<noteq> [] \<and>
     wh_start h div 1000000000 = 1571797419 \<and>
     (\<forall>m. wh_std_text h (GenericErr m) = ''Generic error: '' @ m)"

lemma host_api:
  assumes "simulates h stored"
  shows "well_hosted h stored"
    and "x \<in> set users \<Longrightarrow> addr_validate (wh_api h) x = Ok x"
    and "addr_validate (wh_api h) (oracle_addr h) = Ok (oracle_addr h)"
    and "addr_validate (wh_api h) (vfdusd_addr h) = Ok (vfdusd_addr h)"
    and "addr_validate (wh_api h) (ust1_addr h) = Ok (ust1_addr h)"
    and "addr_validate (wh_api h) (treasury_addr h) = Ok (treasury_addr h)"
    and "x \<in> set users \<Longrightarrow> addr_validate (wh_oracle_api h) x = Ok x"
    and "trim (treasury_addr h) = treasury_addr h"
    and "treasury_addr h \<noteq> []" and "wh_start h div 1000000000 = 1571797419"
    and "c \<in> set (contracts h) \<Longrightarrow> c \<notin> set users"
    and "wh_std_text h (GenericErr m) = ''Generic error: '' @ m"
  using assms by (auto simp: simulates_def contracts_def intro: trim_visible)

section \<open>The states of the chain\<close>

definition chain_at ::
  "'c window_host \<Rightarrow> (ledger \<Rightarrow> 'c) \<Rightarrow> u64 \<Rightarrow> oracle_storage \<Rightarrow> window_storage \<Rightarrow> bool \<Rightarrow>
   ledger \<Rightarrow> ledger \<Rightarrow> 'c window_app" where
  "chain_at h stored t orc w reject v u = \<lparr>wa_time = t, wa_oracle = orc, wa_window = w, wa_reject = reject,
     wa_tokens = [vfdusd_addr h \<mapsto> stored v, ust1_addr h \<mapsto> stored u]\<rparr>"

lemma chain_at_simps [simp]:
  "wa_time (chain_at h stored t orc w reject v u) = t"
  "wa_oracle (chain_at h stored t orc w reject v u) = orc"
  "wa_window (chain_at h stored t orc w reject v u) = w"
  "wa_reject (chain_at h stored t orc w reject v u) = reject"
  "chain_at h stored t orc w reject v u\<lparr>wa_time := t'\<rparr> = chain_at h stored t' orc w reject v u"
  "chain_at h stored t orc w reject v u\<lparr>wa_oracle := orc'\<rparr> = chain_at h stored t orc' w reject v u"
  "chain_at h stored t orc w reject v u\<lparr>wa_window := w'\<rparr> = chain_at h stored t orc w' reject v u"
  "chain_at h stored t orc w reject v u\<lparr>wa_reject := reject'\<rparr> = chain_at h stored t orc w reject' v u"
  by (simp_all add: chain_at_def)

lemma tokens_at:
  assumes "well_hosted h stored"
  shows "wa_tokens (chain_at h stored t orc w reject v u) (vfdusd_addr h) = Some (stored v)"
    and "wa_tokens (chain_at h stored t orc w reject v u) (ust1_addr h) = Some (stored u)"
    and "chain_at h stored t orc w reject v u\<lparr>wa_tokens :=
       (wa_tokens (chain_at h stored t orc w reject v u))(vfdusd_addr h \<mapsto> stored v')\<rparr> =
       chain_at h stored t orc w reject v' u"
    and "chain_at h stored t orc w reject v u\<lparr>wa_tokens :=
       (wa_tokens (chain_at h stored t orc w reject v u))(ust1_addr h \<mapsto> stored u')\<rparr> =
       chain_at h stored t orc w reject v u'"
  using hosting(5)[OF assms] by (auto simp: chain_at_def fun_upd_twist)

lemma on_token_at:
  assumes "well_hosted h stored"
  shows "f (stored v) = Ok (stored v', r) \<Longrightarrow> on_token (vfdusd_addr h) f (chain_at h stored t orc w reject v u) =
      Ok (chain_at h stored t orc w reject v' u, r)"
    and "f (stored u) = Ok (stored u', r) \<Longrightarrow> on_token (ust1_addr h) f (chain_at h stored t orc w reject v u) =
      Ok (chain_at h stored t orc w reject v u', r)"
  by (simp_all add: on_token_def tokens_at[OF assms])

lemma token_call_at:
  assumes "well_hosted h stored"
  shows "f (stored v) = Ok (stored v') \<Longrightarrow> token_call (vfdusd_addr h) f (chain_at h stored t orc w reject v u) =
      Ok (chain_at h stored t orc w reject v' u)"
    and "f (stored u) = Ok (stored u') \<Longrightarrow> token_call (ust1_addr h) f (chain_at h stored t orc w reject v u) =
      Ok (chain_at h stored t orc w reject v u')"
  by (simp_all add: token_call_def on_token_at[OF assms, where r = "()"])

lemma mint_at:
  assumes "well_hosted h stored"
  shows "can_mint caller recipient amount v \<Longrightarrow>
      mint_to h caller (vfdusd_addr h) recipient amount (chain_at h stored t orc w reject v u) =
      Ok (chain_at h stored t orc w reject (mint recipient amount v) u)"
    and "can_mint caller recipient amount u \<Longrightarrow>
      mint_to h caller (ust1_addr h) recipient amount (chain_at h stored t orc w reject v u) =
      Ok (chain_at h stored t orc w reject v (mint recipient amount u))"
  using assms by (simp_all add: mint_to_def token_call_at cw20_operations[of "wh_cw20 h" stored] well_hosted_def)

lemma balance_at:
  assumes "well_hosted h stored"
  shows "token_balance h (vfdusd_addr h) a (chain_at h stored t orc w reject v u) = Ok (lg_balance v a)"
    and "token_balance h (ust1_addr h) a (chain_at h stored t orc w reject v u) = Ok (lg_balance u a)"
  using assms by (simp_all add: token_balance_def tokens_at test_simps cw20_operations[of "wh_cw20 h" stored] well_hosted_def)

section \<open>Swaps\<close>

definition wired_to :: "'c window_host \<Rightarrow> window_config \<Rightarrow> bool" where
  "wired_to h cfg \<longleftrightarrow> wc_oracle cfg = oracle_addr h \<and> wc_vfdusd_token cfg = vfdusd_addr h \<and>
     wc_ust1_token cfg = ust1_addr h \<and> wc_cmm_treasury cfg = treasury_addr h"

lemma oracle_answer:
  assumes "wired_to h cfg"
  shows "query_oracle_state (app_querier h (chain_at h stored t orc w reject v u)) (wc_oracle cfg) =
    oracle_query_state orc"
proof -
  have "and_then (and_then r (\<lambda>x. Ok (f x))) (\<lambda>x. Ok (g x)) = r" if "\<And>x. g (f x) = x"
    for r :: "(state_response, std_error) result" and f :: "state_response \<Rightarrow> state_response_wire" and g
    using that by (cases r) auto
  with assms show ?thesis by (simp add: query_oracle_state_def app_querier_def wired_to_def)
qed

lemma treasury_answer:
  assumes "well_hosted h stored" "wired_to h cfg"
  shows "query_cw20_balance (app_querier h (chain_at h stored t orc w reject v u)) (wc_vfdusd_token cfg)
    (wc_cmm_treasury cfg) = Ok (lg_balance v (treasury_addr h))"
  using assms by (simp add: query_cw20_balance_def app_querier_def wired_to_def tokens_at
      cw20_operations[of "wh_cw20 h" stored] well_hosted_def)

text \<open>The token moves the amount, and the window's hook runs on what it finds then.\<close>

lemma send_at:
  assumes sim: "well_hosted h stored"
  shows "can_pay user (window_addr h) x v \<Longrightarrow>
      send_to_window h (vfdusd_addr h) user x hook (chain_at h stored t orc w reject v u) =
      window_call h (vfdusd_addr h) (Receive \<lparr>cw20_sender = user, cw20_amount = x, cw20_msg = wh_hook h hook\<rparr>)
        (chain_at h stored t orc w reject (transfer user (window_addr h) x v) u)"
    and "can_pay user (window_addr h) x u \<Longrightarrow>
      send_to_window h (ust1_addr h) user x hook (chain_at h stored t orc w reject v u) =
      window_call h (ust1_addr h) (Receive \<lparr>cw20_sender = user, cw20_amount = x, cw20_msg = wh_hook h hook\<rparr>)
        (chain_at h stored t orc w reject v (transfer user (window_addr h) x u))"
  using sim by (simp_all add: send_to_window_def on_token_at[OF sim] cw20_operations[of "wh_cw20 h" stored]
      well_hosted_def)

lemma deposit_at:
  assumes sim: "well_hosted h stored" and cfg: "w_config w = Some cfg" "wired_to h cfg" "\<not> wc_paused cfg"
    and user: "addr_validate (wh_api h) user = Ok user"
    and pay: "can_pay user (window_addr h) x v"
      "can_pay (window_addr h) (treasury_addr h) x (transfer user (window_addr h) x v)"
    and mint: "can_mint (window_addr h) user out u"
    and swap: "deposit_swap (wh_api h)
      (app_querier h (chain_at h stored t orc w reject (transfer user (window_addr h) x v) u))
      \<lparr>block_nanos = t, contract_address = window_addr h\<rparr> cfg user x w w' r os before out fee"
  shows "send_to_window h (vfdusd_addr h) user x Deposit (chain_at h stored t orc w reject v u) =
    Ok (chain_at h stored t orc w' reject
          (transfer (window_addr h) (treasury_addr h) x (transfer user (window_addr h) x v))
          (Cw20_Tokens.mint user out u), r)"
proof -
  have ops: "behaves_as_cw20 (wh_cw20 h) stored" using sim by (simp add: well_hosted_def)
  have "deposit (wh_api h)
      (app_querier h (chain_at h stored t orc w reject (transfer user (window_addr h) x v) u))
      \<lparr>block_nanos = t, contract_address = window_addr h\<rparr> cfg user x Deposit w = Ok (w', r)"
    using swap by (auto simp: deposit_Ok_iff)
  moreover have "messages r =
       [WasmExecute (ust1_addr h) (Cw20Payload (Cw20Mint user out)) [],
        WasmExecute (vfdusd_addr h) (Cw20Payload (Cw20Transfer (treasury_addr h) x)) []]"
    using swap cfg(2) by (simp add: deposit_swap_def wired_to_def)
  ultimately show ?thesis
    using cfg user pay mint hosting(5,6)[OF sim]
    by (simp add: send_at[OF sim] window_call_def window_execute_def receive_cw20_def hosting[OF sim]
        wired_to_def from_caller_def env_of_def deliver_from_window_def deliver_to_token_def
        token_call_at[OF sim] cw20_operations[OF ops])
qed

lemma withdraw_at:
  assumes sim: "well_hosted h stored" and cfg: "w_config w = Some cfg" "wired_to h cfg" "\<not> wc_paused cfg"
    and user: "addr_validate (wh_api h) user = Ok user"
    and pay: "can_pay user (window_addr h) g u" "can_burn (window_addr h) g (transfer user (window_addr h) g u)"
      "can_pay (treasury_addr h) user v_out v"
    and swap: "withdraw_swap (wh_api h)
      (app_querier h (chain_at h stored t orc w reject v (transfer user (window_addr h) g u)))
      \<lparr>block_nanos = t, contract_address = window_addr h\<rparr> cfg user g min_out w w' r os after v_out fee bal"
  shows "send_to_window h (ust1_addr h) user g (Withdraw min_out) (chain_at h stored t orc w reject v u) =
    (if reject then Err (wh_std_text h
       (GenericErr ''stub treasury: InstantWithdrawCw20 rejected (unregistered or paused)''))
     else Ok (chain_at h stored t orc w' False (transfer (treasury_addr h) user v_out v)
          (burn (window_addr h) g (transfer user (window_addr h) g u)), r))"
proof -
  have ops: "behaves_as_cw20 (wh_cw20 h) stored" using sim by (simp add: well_hosted_def)
  have "withdraw (wh_api h)
      (app_querier h (chain_at h stored t orc w reject v (transfer user (window_addr h) g u)))
      \<lparr>block_nanos = t, contract_address = window_addr h\<rparr> cfg user g (Withdraw min_out) w = Ok (w', r)"
    using swap unfolding withdraw_Ok_iff by blast
  moreover have "messages r =
       [WasmExecute (ust1_addr h) (Cw20Payload (Cw20Burn g)) [],
        WasmExecute (treasury_addr h) (TreasuryPayload (InstantWithdrawCw20 user (vfdusd_addr h) v_out)) []]"
    using swap cfg(2) by (simp add: withdraw_swap_def wired_to_def)
  ultimately show ?thesis
    using cfg user pay hosting(5,6)[OF sim]
    by (simp add: send_at[OF sim] window_call_def window_execute_def receive_cw20_def hosting[OF sim]
        wired_to_def from_caller_def env_of_def deliver_from_window_def deliver_to_token_def
        treasury_call_def stub_treasury_execute_def decoded_by_stub_def
        token_call_at[OF sim] cw20_operations[OF ops])
qed

section \<open>An accepted swap is carried out\<close>

text \<open>Balances never add up to more than the supply.\<close>

definition ledger_ok :: "ledger \<Rightarrow> bool" where
  "ledger_ok l \<longleftrightarrow> lg_supply l < 2 ^ 128 \<and>
     (\<forall>a b. a \<noteq> b \<longrightarrow> unat (lg_balance l a) + unat (lg_balance l b) \<le> lg_supply l)"

lemma ledger_okD:
  assumes "ledger_ok l"
  shows "unat (lg_balance l a) \<le> lg_supply l" and "lg_supply l < 2 ^ 128"
    and "a \<noteq> b \<Longrightarrow> unat (lg_balance l a) + unat (lg_balance l b) \<le> lg_supply l"
proof -
  have "\<exists>b. a \<noteq> b" by (rule exI[of _ "CHR ''x'' # a"]) simp
  then obtain b where "a \<noteq> b" by blast
  with assms have "unat (lg_balance l a) + unat (lg_balance l b) \<le> lg_supply l" by (simp add: ledger_ok_def)
  then show "unat (lg_balance l a) \<le> lg_supply l" by simp
qed (use assms in \<open>auto simp: ledger_ok_def\<close>)

lemma can_pay_ok:
  assumes "ledger_ok l" and "0 < x" "x \<le> lg_balance l a"
  shows "can_pay a b x l"
  using assms ledger_okD(2,3)[OF assms(1)] by (fastforce simp: can_pay_def word_le_nat_alt)

lemma paid_back:
  assumes "ledger_ok l" and "x \<le> lg_balance l a" and "a \<noteq> b"
  shows "x \<le> lg_balance (transfer a b x l) b" "lg_supply (transfer a b x l) = lg_supply l"
    and "unat (lg_balance (transfer a b x l) b) = unat (lg_balance l b) + unat x"
proof -
  have "unat (lg_balance l b) + unat x < 2 ^ 128"
    using ledger_okD(2,3)[OF assms(1)] assms(2,3) by (fastforce simp: word_le_nat_alt)
  then show "unat (lg_balance (transfer a b x l) b) = unat (lg_balance l b) + unat x"
    using assms(3) by (simp add: transfer_def unat_add_lem[symmetric] del: unat_add_lem)
  then show "x \<le> lg_balance (transfer a b x l) b" by (simp add: word_le_nat_alt)
  show "lg_supply (transfer a b x l) = lg_supply l" by (simp add: transfer_def Let_def)
qed

lemma pass_on:
  assumes "ledger_ok l" and "0 < x" "x \<le> lg_balance l a" and "a \<noteq> b" "b \<noteq> c"
  shows "can_pay b c x (transfer a b x l)"
proof -
  have "lg_balance (transfer a b x l) c = (if c = a then lg_balance l a - x else lg_balance l c)"
    using assms(4,5) by (auto simp: transfer_def)
  moreover have "unat (lg_balance l a - x) + unat x = unat (lg_balance l a)"
    using assms(3) by (simp add: unat_sub word_le_nat_alt)
  moreover have "unat (lg_balance l a) < 2 ^ 128" using ledger_okD(1,2)[OF assms(1)] by (rule le_less_trans)
  moreover have "unat (lg_balance l c) + unat x < 2 ^ 128" if "c \<noteq> a"
    using ledger_okD(2,3)[OF assms(1)] assms(3) that by (fastforce simp: word_le_nat_alt)
  ultimately show ?thesis
    using assms(2) paid_back(1)[OF assms(1,3,4)] by (auto simp: can_pay_def)
qed

text \<open>What the hook of the window answers when the token has moved the amount.\<close>

definition hook_answer ::
  "'c window_host \<Rightarrow> addr \<Rightarrow> addr \<Rightarrow> u128 \<Rightarrow> window_hook_msg \<Rightarrow> 'c window_app \<Rightarrow> window_result" where
  "hook_answer h token user amount hook app =
     receive_cw20 (wh_api h) (wh_json h) (app_querier h app) (env_of (window_addr h) app)
       (from_caller token) \<lparr>cw20_sender = user, cw20_amount = amount, cw20_msg = wh_hook h hook\<rparr>
       (wa_window app)"

end
