(* ===== verification/Test_Window.thy ===== *)
theory Test_Window
  imports Test_Delivery
begin

text \<open>The tests of the window (\<open>ust1-window/src/multitest.rs\<close>), on the simulated chain.\<close>

section \<open>The chain after the set-up\<close>

definition set_up_config :: "'c window_host \<Rightarrow> window_config" where
  "set_up_config h = \<lparr>wc_governance = ''owner'', wc_oracle = oracle_addr h, wc_vfdusd_token = vfdusd_addr h,
     wc_cmm_treasury = treasury_addr h, wc_ust1_token = ust1_addr h, wc_fee_bps = 100,
     wc_per_tx_ust1_limit = 1000000000, wc_rolling_24h_ust1_limit = 10000000000, wc_paused = False,
     wc_max_oracle_age_sec = 21600\<rparr>"

definition window_with :: "'c window_host \<Rightarrow> window_config \<Rightarrow> u64 \<Rightarrow> u128 \<Rightarrow> window_storage" where
  "window_with h cfg start volume = \<lparr>w_contract_info = Some (WINDOW_CONTRACT_NAME, wh_version h),
     w_config = Some cfg, w_rolling = Some \<lparr>rv_window_start_sec = start, rv_volume_ust1 = volume\<rparr>,
     w_pending_governance = None\<rparr>"

definition oracle_with :: "'c window_host \<Rightarrow> bool \<Rightarrow> u64 \<Rightarrow> oracle_storage" where
  "oracle_with h paused_now last_sec = \<lparr>o_contract_info = Some (ORACLE_CONTRACT_NAME, wh_version h),
     o_config = Some \<lparr>oc_governance = ''owner'', oc_oracle_operator = ''bot'', oc_paused = paused_now\<rparr>,
     o_oracle_state = Some \<lparr>os_rate = RATE_SCALE, os_last_update_sec = last_sec,
       os_utc_day_id = last_sec div 86400, os_day_baseline_rate = RATE_SCALE\<rparr>,
     o_pending_governance = None\<rparr>"

lemma set_up_contracts:
  assumes sim: "simulates h stored"
  shows "setup_contracts h v_decimals reject = Ok (chain_at h stored (wh_start h)
    ((oracle_with h False 1571797419)\<lparr>o_oracle_state := Some \<lparr>os_rate = RATE_SCALE, os_last_update_sec = 0,
       os_utc_day_id = 18192, os_day_baseline_rate = RATE_SCALE\<rparr>\<rparr>)
    window_empty reject (new_ledger ''owner'' v_decimals) (new_ledger ''owner'' 6))"
proof -
  have "RATE_SCALE \<noteq> 0" by (simp add: RATE_SCALE_def)
  then show ?thesis
    using hosting(1)[OF host_api(1)[OF sim]]
    by (simp add: setup_contracts_def oracle_instantiate_def oracle_set_contract_version_def oracle_empty_def
        host_api[OF sim] users_def test_simps Let_def block_seconds_def cw20_operations chain_at_def
        oracle_with_def from_caller_def)
qed

lemma set_up_window:
  assumes sim: "simulates h stored"
  shows "instantiate_window h (chain_at h stored t orc window_empty reject v u) =
    (if lg_decimals v < lg_decimals u
     then Err (window_error_text (wh_std_text h) (wh_overflow_text h)
                 (InvalidTokenDecimals (lg_decimals v) (lg_decimals u)))
     else Ok (chain_at h stored t orc (window_with h (set_up_config h) 0 0) reject v u))"
proof -
  note host = host_api(1)[OF sim]
  have raw: "cmm_treasury_raw (window_msg_of h) = treasury_addr h"
    by (simp add: cmm_treasury_raw_def window_msg_of_def host_api[OF sim])
  have decimals: "validate_token_decimals (app_querier h (chain_at h stored t orc window_empty reject v u))
      (vfdusd_addr h) (ust1_addr h) =
    (if lg_decimals v < lg_decimals u then Err (InvalidTokenDecimals (lg_decimals v) (lg_decimals u)) else Ok ())"
    by (simp add: validate_token_decimals_def query_cw20_token_info_def app_querier_def tokens_at[OF host]
        cw20_operations[OF hosting(1)[OF host]])
  have msg: "wi_governance (window_msg_of h) = ''owner''" "wi_oracle (window_msg_of h) = oracle_addr h"
    "wi_vfdusd_token (window_msg_of h) = vfdusd_addr h" "wi_ust1_token (window_msg_of h) = ust1_addr h"
    "wi_fee_bps (window_msg_of h) = 100" "wi_per_tx_ust1_limit (window_msg_of h) = 1000000000"
    "wi_rolling_24h_ust1_limit (window_msg_of h) = 10000000000" "wi_max_oracle_age_sec (window_msg_of h) = None"
    by (simp_all add: window_msg_of_def DEFAULT_FEE_BPS_def DEFAULT_PER_TX_UST1_LIMIT_def
        DEFAULT_ROLLING_24H_UST1_LIMIT_def)
  have owner: "addr_validate (wh_api h) ''owner'' = Ok ''owner''" by (simp add: host_api[OF sim] users_def)
  show ?thesis
    unfolding instantiate_window_def window_instantiate_def Let_def msg raw window_config.select_convs
    by (simp add: decimals owner host_api[OF sim] window_set_contract_version_def window_with_def window_empty_def
        set_up_config_def validate_max_oracle_age_sec_def BPS_DENOM_def MIN_ORACLE_UPDATE_INTERVAL_SECS_def
        DEFAULT_MAX_ORACLE_AGE_SECS_def decimals[unfolded window_empty_def])
qed

lemma set_up_chain:
  assumes sim: "simulates h stored"
  shows "setup_with_treasury h reject = Ok (chain_at h stored (wh_start h) (oracle_with h False 1571797419)
    (window_with h (set_up_config h) 0 0) reject (new_ledger ''owner'' 6)
    (allow_minter (window_addr h) (new_ledger ''owner'' 6)))"
proof -
  note host = host_api(1)[OF sim]
  let ?at = "\<lambda>orc. chain_at h stored (wh_start h) orc (window_with h (set_up_config h) 0 0) reject
    (new_ledger ''owner'' 6) (new_ledger ''owner'' 6)"
  let ?orc = "(oracle_with h False 1571797419)\<lparr>o_oracle_state := Some \<lparr>os_rate = RATE_SCALE,
    os_last_update_sec = 0, os_utc_day_id = 18192, os_day_baseline_rate = RATE_SCALE\<rparr>\<rparr>"
  have update: "oracle_call h ''bot'' (UpdateRate RATE_SCALE) (?at ?orc) = Ok (?at (oracle_with h False 1571797419))"
  proof -
    have "check_rate_update 1571797419 0 RATE_SCALE RATE_SCALE 18192 RATE_SCALE = Ok (18192, RATE_SCALE)"
      by (simp add: check_rate_update_eq roll_utc_day_def throttled_def RATE_SCALE_def)
    then show ?thesis
      by (simp add: oracle_call_def oracle_execute_def execute_update_rate_def oracle_with_def env_of_def
          block_seconds_def host_api[OF sim] from_caller_def)
  qed
  have minter: "token_call (ust1_addr h) (cw20_add_minter (wh_cw20 h) ''owner'' (window_addr h))
      (?at (oracle_with h False 1571797419)) =
    Ok (chain_at h stored (wh_start h) (oracle_with h False 1571797419)
    (window_with h (set_up_config h) 0 0) reject (new_ledger ''owner'' 6)
    (allow_minter (window_addr h) (new_ledger ''owner'' 6)))"
    by (rule token_call_at[OF host], rule cw20_operations(2)[OF hosting(1)[OF host]]) (simp add: new_ledger_def)
  have state: "oracle_query_state ?orc = Ok \<lparr>sr_rate = RATE_SCALE, sr_last_update_sec = 0,
      sr_utc_day_id = 18192, sr_day_baseline_rate = RATE_SCALE, sr_paused = False\<rparr>"
    by (simp add: oracle_query_state_def oracle_with_def)
  show ?thesis
    unfolding setup_with_treasury_def set_up_contracts[OF sim]
    by (simp add: set_up_window[OF sim] state update minter test_simps)
qed

section \<open>What the tests do\<close>

definition update_time :: "u64 \<Rightarrow> 'c window_app \<Rightarrow> 'c window_app" where
  "update_time secs app = app\<lparr>wa_time := secs * 1000000000\<rparr>"

definition now_of :: "'c window_app \<Rightarrow> u64" where
  "now_of app = wa_time app div 1000000000"

definition fails :: "('a, string) result \<Rightarrow> string \<Rightarrow> test" where
  "fails r words = and_then (unwrap_err r) (\<lambda>err. verify (str_contains err words))"

text \<open>
  The attributes of the window's swap event, and the first of that key. The event has the
  address of the contract in front, which is no key that is asked for.
\<close>

definition window_swap_attrs :: "window_payload response \<Rightarrow> ((string \<times> string) list, unit) result" where
  "window_swap_attrs res =
     (if list_ex (\<lambda>(k, v). k = ''action'' \<and> (v = ''deposit'' \<or> v = ''withdraw'')) (attributes res)
      then Ok (attributes res) else Panicked)"

definition wasm_attr :: "window_payload response \<Rightarrow> string \<Rightarrow> (string, unit) result" where
  "wasm_attr res key = and_then (window_swap_attrs res) (\<lambda>attrs. unwrap_some (map_of attrs key))"

definition attr_is :: "window_payload response \<Rightarrow> string \<Rightarrow> string \<Rightarrow> test" where
  "attr_is r k v = and_then (wasm_attr r k) (\<lambda>x. verify (x = v))"

definition balance_is :: "'c window_host \<Rightarrow> addr \<Rightarrow> addr \<Rightarrow> 'c window_app \<Rightarrow> u128 \<Rightarrow> test" where
  "balance_is h token holder app n = and_then (token_balance h token holder app) (\<lambda>b. verify (b = n))"

definition app_swap :: "'c window_host \<Rightarrow> 'c window_app \<Rightarrow> (effective_swap_response, unit) result" where
  "app_swap h app = unwrap (query_effective_swap (app_querier h app) (wa_window app))"

definition app_window_config :: "'c window_app \<Rightarrow> (window_config_response, unit) result" where
  "app_window_config app = unwrap (window_query_config (wa_window app))"

definition app_oracle_state :: "'c window_app \<Rightarrow> (state_response, unit) result" where
  "app_oracle_state app = unwrap (oracle_query_state (wa_oracle app))"

definition migrate_window :: "'c window_host \<Rightarrow> 'c window_app \<Rightarrow> ('c window_app, string) result" where
  "migrate_window h app =
     and_then (map_err (window_error_text (wh_std_text h) (wh_overflow_text h))
       (window_migrate (app_querier h app) (wh_version h) (wa_window app))) (\<lambda>(s, r).
     Ok (app\<lparr>wa_window := s\<rparr>))"

section \<open>The tests\<close>

definition deposit_and_withdraw_via_instant_withdraw_cw20 :: "'c window_host \<Rightarrow> test" where
  "deposit_and_withdraw_via_instant_withdraw_cw20 h =
     and_then (window_setup h) (\<lambda>app.
     and_then (unwrap (mint_to h ''owner'' (vfdusd_addr h) ''user'' 10000000 app)) (\<lambda>app.
     let dep = 1000000 in
     and_then (unwrap (send_to_window h (vfdusd_addr h) ''user'' dep Deposit app)) (\<lambda>(app, _).
     and_then (balance_is h (vfdusd_addr h) (treasury_addr h) app dep) (\<lambda>_.
     and_then (unwrap_some (wa_tokens app (vfdusd_addr h))) (\<lambda>vfdusd.
     and_then (verify (cw20_allowance (wh_cw20 h) vfdusd (treasury_addr h) (window_addr h) = 0)) (\<lambda>_.
     and_then (token_balance h (ust1_addr h) ''user'' app) (\<lambda>ust1_bal.
     and_then (verify (0 < ust1_bal)) (\<lambda>_.
     and_then (unwrap (send_to_window h (ust1_addr h) ''user'' ust1_bal (Withdraw 0) app)) (\<lambda>(app, _).
     and_then (balance_is h (ust1_addr h) ''user'' app 0) (\<lambda>_.
     and_then (token_balance h (vfdusd_addr h) ''user'' app) (\<lambda>v.
     and_then (verify (0 < v)) (\<lambda>_.
     and_then (token_balance h (vfdusd_addr h) (treasury_addr h) app) (\<lambda>t.
     verify (t < dep))))))))))))))"

definition inv_limit_001_per_tx_exceeded :: "'c window_host \<Rightarrow> test" where
  "inv_limit_001_per_tx_exceeded h =
     and_then (window_setup h) (\<lambda>app.
     and_then (unwrap (window_call h ''owner'' (SetLimits 100 500000000) app)) (\<lambda>(app, _).
     and_then (unwrap (mint_to h ''owner'' (vfdusd_addr h) ''user'' 10000000 app)) (\<lambda>app.
     fails (send_to_window h (vfdusd_addr h) ''user'' 200000 Deposit app) ''per-tx'')))"

definition inv_limit_001_rolling_24h_exceeded :: "'c window_host \<Rightarrow> test" where
  "inv_limit_001_rolling_24h_exceeded h =
     and_then (window_setup h) (\<lambda>app.
     and_then (unwrap (window_call h ''owner'' (SetLimits 400000000 500000000) app)) (\<lambda>(app, _).
     and_then (unwrap (mint_to h ''owner'' (vfdusd_addr h) ''user'' 1000000000 app)) (\<lambda>app.
     let dep_amt = 300000000 in
     and_then (unwrap (send_to_window h (vfdusd_addr h) ''user'' dep_amt Deposit app)) (\<lambda>(app, _).
     fails (send_to_window h (vfdusd_addr h) ''user'' dep_amt Deposit app) ''rolling''))))"

definition paused_blocks_cw20_flow :: "'c window_host \<Rightarrow> test" where
  "paused_blocks_cw20_flow h =
     and_then (window_setup h) (\<lambda>app.
     and_then (unwrap (window_call h ''owner'' (SetPaused True) app)) (\<lambda>(app, _).
     and_then (unwrap (mint_to h ''owner'' (vfdusd_addr h) ''user'' 1000000 app)) (\<lambda>app.
     fails (send_to_window h (vfdusd_addr h) ''user'' 100000 Deposit app) ''paused'')))"

definition invalid_cw20_sender_rejected :: "'c window_host \<Rightarrow> test" where
  "invalid_cw20_sender_rejected h =
     and_then (window_setup h) (\<lambda>app.
     and_then (unwrap (cw20_instantiate (wh_cw20 h) ''owner'' 6)) (\<lambda>fake.
     let app = app\<lparr>wa_tokens := (wa_tokens app)(fake_addr h \<mapsto> fake)\<rparr> in
     and_then (unwrap (mint_to h ''owner'' (fake_addr h) ''user'' 1000000 app)) (\<lambda>app.
     fails (send_to_window h (fake_addr h) ''user'' 100 Deposit app) ''cw20'')))"

definition withdraw_below_min_vfdusd_out_rejected :: "'c window_host \<Rightarrow> test" where
  "withdraw_below_min_vfdusd_out_rejected h =
     and_then (window_setup h) (\<lambda>app.
     and_then (unwrap (mint_to h ''owner'' (vfdusd_addr h) ''user'' 10000000 app)) (\<lambda>app.
     and_then (unwrap (send_to_window h (vfdusd_addr h) ''user'' 500000 Deposit app)) (\<lambda>(app, _).
     and_then (token_balance h (ust1_addr h) ''user'' app) (\<lambda>bal.
     fails (send_to_window h (ust1_addr h) ''user'' bal (Withdraw (- 1)) app) ''minimum''))))"

definition withdraw_insufficient_vfdusd_in_treasury :: "'c window_host \<Rightarrow> test" where
  "withdraw_insufficient_vfdusd_in_treasury h =
     and_then (window_setup h) (\<lambda>app.
     and_then (unwrap (mint_to h ''owner'' (ust1_addr h) ''user'' 5000000 app)) (\<lambda>app.
     and_then (fails (send_to_window h (ust1_addr h) ''user'' 1000000 (Withdraw 0) app) ''vFDUSD'') (\<lambda>_.
     balance_is h (vfdusd_addr h) ''user'' app 0)))"

definition withdraw_treasury_reject_is_atomic_no_ust1_burn :: "'c window_host \<Rightarrow> test" where
  "withdraw_treasury_reject_is_atomic_no_ust1_burn h =
     and_then (setup_with_treasury h False) (\<lambda>app.
     and_then (unwrap (mint_to h ''owner'' (vfdusd_addr h) ''user'' 10000000 app)) (\<lambda>app.
     and_then (unwrap (send_to_window h (vfdusd_addr h) ''user'' 1000000 Deposit app)) (\<lambda>(app, _).
     and_then (token_balance h (ust1_addr h) ''user'' app) (\<lambda>ust1_before.
     and_then (token_balance h (vfdusd_addr h) (treasury_addr h) app) (\<lambda>treasury_before.
     and_then (unwrap (treasury_call h (SetRejectPulls True) app)) (\<lambda>app.
     and_then (unwrap_err (send_to_window h (ust1_addr h) ''user'' ust1_before (Withdraw 0) app)) (\<lambda>err.
     and_then (verify (str_contains (to_ascii_lowercase err) ''rejected'' \<or>
                       str_contains (to_ascii_lowercase err) ''unregistered'')) (\<lambda>_.
     and_then (balance_is h (ust1_addr h) ''user'' app ust1_before) (\<lambda>_.
     balance_is h (vfdusd_addr h) (treasury_addr h) app treasury_before)))))))))"

definition stale_oracle_blocks_deposit :: "'c window_host \<Rightarrow> test" where
  "stale_oracle_blocks_deposit h =
     and_then (window_setup h) (\<lambda>app.
     let app = update_time (now_of app + DEFAULT_MAX_ORACLE_AGE_SECS + 1) app in
     and_then (unwrap (mint_to h ''owner'' (vfdusd_addr h) ''user'' 1000000 app)) (\<lambda>app.
     fails (send_to_window h (vfdusd_addr h) ''user'' 100000 Deposit app) ''stale''))"

definition oracle_paused_blocks_deposit_and_withdraw_while_rate_fresh :: "'c window_host \<Rightarrow> test" where
  "oracle_paused_blocks_deposit_and_withdraw_while_rate_fresh h =
     and_then (window_setup h) (\<lambda>app.
     and_then (unwrap (mint_to h ''owner'' (vfdusd_addr h) ''user'' 10000000 app)) (\<lambda>app.
     and_then (unwrap (send_to_window h (vfdusd_addr h) ''user'' 1000000 Deposit app)) (\<lambda>(app, _).
     and_then (token_balance h (ust1_addr h) ''user'' app) (\<lambda>ust1_bal.
     and_then (verify (0 < ust1_bal)) (\<lambda>_.
     and_then (token_balance h (vfdusd_addr h) (treasury_addr h) app) (\<lambda>t.
     and_then (verify (0 < t)) (\<lambda>_.
     and_then (app_oracle_state app) (\<lambda>st_before.
     and_then (verify (\<not> sr_paused st_before)) (\<lambda>_.
     and_then (verify (0 < sr_last_update_sec st_before)) (\<lambda>_.
     and_then (unwrap (oracle_call h ''owner'' (oracle_execute_msg.SetPaused True) app)) (\<lambda>app.
     and_then (app_oracle_state app) (\<lambda>st_paused.
     and_then (verify (sr_paused st_paused)) (\<lambda>_.
     and_then (verify (sr_last_update_sec st_paused = sr_last_update_sec st_before)) (\<lambda>_.
     and_then (fails (send_to_window h (vfdusd_addr h) ''user'' 100000 Deposit app) ''oracle is paused'') (\<lambda>_.
     and_then (fails (send_to_window h (ust1_addr h) ''user'' ust1_bal (Withdraw 0) app) ''oracle is paused'') (\<lambda>_.
     and_then (unwrap (oracle_call h ''owner'' (oracle_execute_msg.SetPaused False) app)) (\<lambda>app.
     and_then (unwrap (send_to_window h (vfdusd_addr h) ''user'' 100000 Deposit app)) (\<lambda>(app, _).
     and_then (token_balance h (ust1_addr h) ''user'' app) (\<lambda>ust1_after.
     and_then (unwrap (send_to_window h (ust1_addr h) ''user'' ust1_after (Withdraw 0) app)) (\<lambda>_.
     Ok ()))))))))))))))))))))"

definition oracle_unpaused_but_stale_still_oracle_stale :: "'c window_host \<Rightarrow> test" where
  "oracle_unpaused_but_stale_still_oracle_stale h =
     and_then (window_setup h) (\<lambda>app.
     and_then (unwrap (oracle_query_config (wa_oracle app))) (\<lambda>cfg.
     and_then (verify (\<not> ocr_paused cfg)) (\<lambda>_.
     let app = update_time (now_of app + DEFAULT_MAX_ORACLE_AGE_SECS + 1) app in
     and_then (unwrap (mint_to h ''owner'' (vfdusd_addr h) ''user'' 1000000 app)) (\<lambda>app.
     fails (send_to_window h (vfdusd_addr h) ''user'' 100000 Deposit app) ''stale''))))"

definition window_paused_still_blocks_when_oracle_unpaused :: "'c window_host \<Rightarrow> test" where
  "window_paused_still_blocks_when_oracle_unpaused h =
     and_then (window_setup h) (\<lambda>app.
     and_then (app_oracle_state app) (\<lambda>st.
     and_then (verify (\<not> sr_paused st)) (\<lambda>_.
     and_then (unwrap (window_call h ''owner'' (SetPaused True) app)) (\<lambda>(app, _).
     and_then (unwrap (mint_to h ''owner'' (vfdusd_addr h) ''user'' 1000000 app)) (\<lambda>app.
     fails (send_to_window h (vfdusd_addr h) ''user'' 100000 Deposit app) ''contract is paused'')))))"

definition oracle_set_paused_governance_only :: "'c window_host \<Rightarrow> test" where
  "oracle_set_paused_governance_only h =
     and_then (window_setup h) (\<lambda>app.
     fails (oracle_call h ''stranger'' (oracle_execute_msg.SetPaused True) app) ''unauthorized'')"

definition set_max_oracle_age_governance_only :: "'c window_host \<Rightarrow> test" where
  "set_max_oracle_age_governance_only h =
     and_then (window_setup h) (\<lambda>app.
     and_then (fails (window_call h ''stranger'' (SetMaxOracleAge (12 * 60 * 60)) app) ''unauthorized'') (\<lambda>_.
     and_then (unwrap (window_call h ''owner'' (SetMaxOracleAge (12 * 60 * 60)) app)) (\<lambda>(app, _).
     and_then (app_window_config app) (\<lambda>cfg.
     verify (wcr_max_oracle_age_sec cfg = 12 * 60 * 60)))))"

definition set_max_oracle_age_below_oracle_throttle_rejected :: "'c window_host \<Rightarrow> test" where
  "set_max_oracle_age_below_oracle_throttle_rejected h =
     and_then (window_setup h) (\<lambda>app.
     fails (window_call h ''owner'' (SetMaxOracleAge (MIN_ORACLE_UPDATE_INTERVAL_SECS - 1)) app) ''at least'')"

definition migrate_preserves_config :: "'c window_host \<Rightarrow> test" where
  "migrate_preserves_config h =
     and_then (window_setup h) (\<lambda>app.
     and_then (app_window_config app) (\<lambda>before.
     and_then (unwrap (migrate_window h app)) (\<lambda>app.
     and_then (app_window_config app) (\<lambda>after.
     and_then (verify (before = after)) (\<lambda>_.
     and_then (verify (wcr_cmm_treasury after = treasury_addr h)) (\<lambda>_.
     and_then (verify (wcr_vfdusd_token after = vfdusd_addr h)) (\<lambda>_.
     verify (wcr_ust1_token after = ust1_addr h))))))))"

definition dust_deposit_reverts_balances_unchanged :: "'c window_host \<Rightarrow> test" where
  "dust_deposit_reverts_balances_unchanged h =
     and_then (window_setup h) (\<lambda>app.
     and_then (unwrap (window_call h ''owner'' (SetFeeBps (ucast BPS_DENOM)) app)) (\<lambda>(app, _).
     and_then (unwrap (mint_to h ''owner'' (vfdusd_addr h) ''user'' 1000000 app)) (\<lambda>app.
     and_then (token_balance h (vfdusd_addr h) ''user'' app) (\<lambda>user_v_before.
     and_then (token_balance h (vfdusd_addr h) (treasury_addr h) app) (\<lambda>treasury_v_before.
     and_then (token_balance h (ust1_addr h) ''user'' app) (\<lambda>user_u_before.
     and_then (fails (send_to_window h (vfdusd_addr h) ''user'' 100000 Deposit app) ''zero output'') (\<lambda>_.
     and_then (balance_is h (vfdusd_addr h) ''user'' app user_v_before) (\<lambda>_.
     and_then (balance_is h (vfdusd_addr h) (treasury_addr h) app treasury_v_before) (\<lambda>_.
     balance_is h (ust1_addr h) ''user'' app user_u_before)))))))))"

definition dust_withdraw_reverts_no_burn :: "'c window_host \<Rightarrow> test" where
  "dust_withdraw_reverts_no_burn h =
     and_then (window_setup h) (\<lambda>app.
     and_then (unwrap (window_call h ''owner'' (SetFeeBps (ucast BPS_DENOM)) app)) (\<lambda>(app, _).
     and_then (unwrap (mint_to h ''owner'' (ust1_addr h) ''user'' 1000000 app)) (\<lambda>app.
     and_then (token_balance h (ust1_addr h) ''user'' app) (\<lambda>ust1_before.
     and_then (fails (send_to_window h (ust1_addr h) ''user'' 100000 (Withdraw 0) app) ''zero output'') (\<lambda>_.
     and_then (balance_is h (ust1_addr h) ''user'' app ust1_before) (\<lambda>_.
     balance_is h (vfdusd_addr h) ''user'' app 0))))))"

definition instantiate_rejects_decimal_inversion :: "'c window_host \<Rightarrow> test" where
  "instantiate_rejects_decimal_inversion h =
     and_then (setup_contracts h 4 False) (\<lambda>app.
     fails (instantiate_window h app) ''decimals'')"

definition six_decimal_tokens_happy_path :: "'c window_host \<Rightarrow> test" where
  "six_decimal_tokens_happy_path h =
     and_then (window_setup h) (\<lambda>app.
     and_then (unwrap_some (wa_tokens app (vfdusd_addr h))) (\<lambda>vfdusd.
     and_then (unwrap_some (wa_tokens app (ust1_addr h))) (\<lambda>ust1.
     let v_decimals = cw20_decimals (wh_cw20 h) vfdusd; u_decimals = cw20_decimals (wh_cw20 h) ust1 in
     and_then (verify (v_decimals = 6)) (\<lambda>_.
     and_then (verify (u_decimals = 6)) (\<lambda>_.
     and_then (verify (u_decimals \<le> v_decimals)) (\<lambda>_.
     balance_is h (ust1_addr h) ''user'' app 0))))))"

definition stale_oracle_blocks_withdraw :: "'c window_host \<Rightarrow> test" where
  "stale_oracle_blocks_withdraw h =
     and_then (window_setup h) (\<lambda>app.
     and_then (unwrap (mint_to h ''owner'' (ust1_addr h) ''user'' 1000000 app)) (\<lambda>app.
     let app = update_time (now_of app + DEFAULT_MAX_ORACLE_AGE_SECS + 1) app in
     fails (send_to_window h (ust1_addr h) ''user'' 100000 (Withdraw 0) app) ''stale''))"

definition rolling_window_resets_after_86400_sec :: "'c window_host \<Rightarrow> test" where
  "rolling_window_resets_after_86400_sec h =
     and_then (window_setup h) (\<lambda>app.
     and_then (unwrap (window_call h ''owner'' (SetLimits 500000000 500000000) app)) (\<lambda>(app, _).
     and_then (unwrap (mint_to h ''owner'' (vfdusd_addr h) ''user'' 1000000000 app)) (\<lambda>app.
     let dep_amt = 300000000 in
     and_then (unwrap (send_to_window h (vfdusd_addr h) ''user'' dep_amt Deposit app)) (\<lambda>(app, _).
     and_then (app_swap h app) (\<lambda>after_first.
     and_then (verify (0 < es_rolling_volume_ust1 after_first)) (\<lambda>_.
     let window_start = es_rolling_window_start_sec after_first;
         app = update_time (window_start + 86400) app in
     and_then (app_window_config app) (\<lambda>cfg.
     and_then (verify (wcr_oracle cfg = oracle_addr h)) (\<lambda>_.
     and_then (unwrap (oracle_call h ''bot'' (UpdateRate (sr_rate (es_oracle after_first))) app)) (\<lambda>app.
     and_then (unwrap (send_to_window h (vfdusd_addr h) ''user'' dep_amt Deposit app)) (\<lambda>(app, _).
     and_then (app_swap h app) (\<lambda>after_reset.
     and_then (verify (es_rolling_window_start_sec after_reset = window_start + 86400)) (\<lambda>_.
     verify (es_rolling_volume_ust1 after_reset = es_rolling_volume_ust1 after_first)))))))))))))"

definition governance_propose_and_accept :: "'c window_host \<Rightarrow> test" where
  "governance_propose_and_accept h =
     and_then (window_setup h) (\<lambda>app.
     and_then (unwrap (window_call h ''owner'' (ProposeGovernance ''new_gov'') app)) (\<lambda>(app, _).
     and_then (fails (window_call h ''owner'' AcceptGovernance app) ''invalid governance'') (\<lambda>_.
     and_then (unwrap (window_call h ''new_gov'' AcceptGovernance app)) (\<lambda>(app, _).
     and_then (app_window_config app) (\<lambda>cfg.
     verify (wcr_governance cfg = ''new_gov''))))))"

definition inv_fee_event_001_deposit_emits_ust1_fee_amount :: "'c window_host \<Rightarrow> test" where
  "inv_fee_event_001_deposit_emits_ust1_fee_amount h =
     and_then (window_setup h) (\<lambda>app.
     and_then (verify (DEFAULT_FEE_BPS = 100)) (\<lambda>_.
     and_then (unwrap (mint_to h ''owner'' (vfdusd_addr h) ''user'' 10000000 app)) (\<lambda>app.
     let dep = 1000000 in
     and_then (unwrap (send_to_window h (vfdusd_addr h) ''user'' dep Deposit app)) (\<lambda>(app, res).
     and_then (unwrap (vfdusd_to_ust1_before_fee dep RATE_SCALE)) (\<lambda>before.
     and_then (unwrap (apply_fee_ust1 before DEFAULT_FEE_BPS)) (\<lambda>expected_out.
     and_then (unwrap (fee_amount_ust1 before DEFAULT_FEE_BPS)) (\<lambda>expected_fee.
     and_then (verify (expected_fee = 10000)) (\<lambda>_.
     and_then (verify (expected_out = 990000)) (\<lambda>_.
     and_then (attr_is res ''action'' ''deposit'') (\<lambda>_.
     and_then (attr_is res ''ust1_out'' (show_nat (unat expected_out))) (\<lambda>_.
     and_then (attr_is res ''fee_total_bps'' (show_nat (unat DEFAULT_FEE_BPS))) (\<lambda>_.
     and_then (attr_is res ''fee_chain_tax_bps'' ''50'') (\<lambda>_.
     and_then (attr_is res ''fee_cmm_protocol_bps'' ''50'') (\<lambda>_.
     and_then (attr_is res ''vfdusd_to_treasury'' (show_nat (unat dep))) (\<lambda>_.
     and_then (attr_is res ''fee_amount'' (show_nat (unat expected_fee))) (\<lambda>_.
     and_then (attr_is res ''fee_asset'' (ust1_addr h)) (\<lambda>_.
     and_then (wasm_attr res ''fee_asset'') (\<lambda>asset.
     and_then (verify (asset \<noteq> vfdusd_addr h)) (\<lambda>_.
     balance_is h (ust1_addr h) ''user'' app expected_out)))))))))))))))))))"

definition inv_fee_event_001_withdraw_emits_ust1_fee_amount :: "'c window_host \<Rightarrow> test" where
  "inv_fee_event_001_withdraw_emits_ust1_fee_amount h =
     and_then (window_setup h) (\<lambda>app.
     and_then (unwrap (mint_to h ''owner'' (vfdusd_addr h) ''user'' 10000000 app)) (\<lambda>app.
     and_then (unwrap (send_to_window h (vfdusd_addr h) ''user'' 1000000 Deposit app)) (\<lambda>(app, _).
     and_then (token_balance h (ust1_addr h) ''user'' app) (\<lambda>gross.
     and_then (verify (gross = 990000)) (\<lambda>_.
     and_then (unwrap (fee_amount_ust1 gross DEFAULT_FEE_BPS)) (\<lambda>expected_fee.
     and_then (unwrap (withdraw_gross_ust1_to_vfdusd gross RATE_SCALE DEFAULT_FEE_BPS)) (\<lambda>expected_v.
     and_then (verify (expected_fee = 9900)) (\<lambda>_.
     and_then (verify (expected_fee \<noteq> expected_v)) (\<lambda>_.
     let min_out = 1 in
     and_then (unwrap (send_to_window h (ust1_addr h) ''user'' gross (Withdraw min_out) app)) (\<lambda>(app, res).
     and_then (attr_is res ''action'' ''withdraw'') (\<lambda>_.
     and_then (attr_is res ''vfdusd_out'' (show_nat (unat expected_v))) (\<lambda>_.
     and_then (attr_is res ''fee_total_bps'' (show_nat (unat DEFAULT_FEE_BPS))) (\<lambda>_.
     and_then (attr_is res ''fee_amount'' (show_nat (unat expected_fee))) (\<lambda>_.
     and_then (attr_is res ''fee_asset'' (ust1_addr h)) (\<lambda>_.
     and_then (wasm_attr res ''fee_asset'') (\<lambda>asset.
     and_then (verify (asset \<noteq> vfdusd_addr h)) (\<lambda>_.
     and_then (wasm_attr res ''fee_amount'') (\<lambda>fee.
     and_then (wasm_attr res ''vfdusd_out'') (\<lambda>out.
     and_then (verify (fee \<noteq> out)) (\<lambda>_.
     and_then (verify (fee \<noteq> show_nat (unat (min_out :: u128)))) (\<lambda>_.
     and_then (plain_add 9000000 expected_v) (\<lambda>total.
     balance_is h (vfdusd_addr h) ''user'' app total))))))))))))))))))))))"

definition inv_fee_event_001_zero_fee_emits_zero_amount :: "'c window_host \<Rightarrow> test" where
  "inv_fee_event_001_zero_fee_emits_zero_amount h =
     and_then (window_setup h) (\<lambda>app.
     and_then (unwrap (window_call h ''owner'' (SetFeeBps 0) app)) (\<lambda>(app, _).
     and_then (unwrap (mint_to h ''owner'' (vfdusd_addr h) ''user'' 10000000 app)) (\<lambda>app.
     let dep = 1000000 in
     and_then (unwrap (send_to_window h (vfdusd_addr h) ''user'' dep Deposit app)) (\<lambda>(app, dep_res).
     and_then (attr_is dep_res ''fee_amount'' ''0'') (\<lambda>_.
     and_then (attr_is dep_res ''ust1_out'' (show_nat (unat dep))) (\<lambda>_.
     and_then (attr_is dep_res ''fee_asset'' (ust1_addr h)) (\<lambda>_.
     and_then (unwrap (send_to_window h (ust1_addr h) ''user'' dep (Withdraw 0) app)) (\<lambda>(app, wd_res).
     and_then (attr_is wd_res ''fee_amount'' ''0'') (\<lambda>_.
     and_then (attr_is wd_res ''vfdusd_out'' (show_nat (unat dep))) (\<lambda>_.
     attr_is wd_res ''fee_asset'' (ust1_addr h)))))))))))"

end
