(* ===== verification/Test_Window_Runs.thy ===== *)
theory Test_Window_Runs
  imports Test_Window
begin

text \<open>
  The tests of the window pass: the chain is in a state of one shape, on which a mint, a call
  of governance and a swap are computed once.
\<close>

section \<open>The states the tests go through\<close>

text \<open>The vFDUSD of the user and of the treasury, and the UST1 of the user.\<close>

definition v_ledger :: "'c window_host \<Rightarrow> nat \<Rightarrow> u128 \<Rightarrow> u128 \<Rightarrow> ledger" where
  "v_ledger h supply user treasury = \<lparr>lg_decimals = 6, lg_admin = ''owner'', lg_minters = {''owner''},
     lg_balance = (\<lambda>_. 0)(''user'' := user, treasury_addr h := treasury), lg_supply = supply\<rparr>"

abbreviation u_ledger :: "'c window_host \<Rightarrow> nat \<Rightarrow> u128 \<Rightarrow> ledger" where
  "u_ledger h \<equiv> user_ledger (window_addr h)"

lemma apart:
  assumes "simulates h stored"
  shows "distinct [''user'', window_addr h, treasury_addr h, vfdusd_addr h, ust1_addr h, oracle_addr h, fake_addr h]"
    and "distinct [fake_addr h, oracle_addr h, ust1_addr h, vfdusd_addr h, treasury_addr h, window_addr h, ''user'']"
proof -
  have "c \<noteq> ''user'' \<and> ''user'' \<noteq> c" if "c \<in> set (contracts h)" for c
    using host_api(11)[OF assms that] by (auto simp: users_def)
  then show "distinct [''user'', window_addr h, treasury_addr h, vfdusd_addr h, ust1_addr h, oracle_addr h, fake_addr h]"
    "distinct [fake_addr h, oracle_addr h, ust1_addr h, vfdusd_addr h, treasury_addr h, window_addr h, ''user'']"
    using hosting(5,6)[OF host_api(1)[OF assms]] by (simp_all add: contracts_def)
qed

lemma v_ledger_moves:
  assumes "simulates h stored"
  shows "new_ledger ''owner'' 6 = v_ledger h 0 0 0"
    and "mint ''user'' x (v_ledger h s b t) = v_ledger h (s + unat x) (b + x) t"
    and "transfer (window_addr h) (treasury_addr h) x (transfer ''user'' (window_addr h) x (v_ledger h s b t)) =
      v_ledger h s (b - x) (t + x)"
    and "transfer (treasury_addr h) ''user'' x (v_ledger h s b t) = v_ledger h s (b + x) (t - x)"
    and "lg_balance (v_ledger h s b t) ''user'' = b"
    and "lg_balance (v_ledger h s b t) (treasury_addr h) = t"
    and "lg_balance (transfer ''user'' (window_addr h) x (v_ledger h s b t)) (treasury_addr h) = t"
  using apart[OF assms]
  by (auto simp: v_ledger_def new_ledger_def mint_def transfer_def Let_def fun_eq_iff)

lemma u_ledger_moves:
  assumes "simulates h stored"
  shows "allow_minter (window_addr h) (new_ledger ''owner'' 6) = u_ledger h 0 0"
    and "mint ''user'' x (u_ledger h s b) = u_ledger h (s + unat x) (b + x)"
    and "burn (window_addr h) x (transfer ''user'' (window_addr h) x (u_ledger h s b)) =
      u_ledger h (s - unat x) (b - x)"
    and "lg_balance (u_ledger h s b) ''user'' = b"
  using apart[OF assms] by (simp_all add: user_ledger_moves)

lemma v_ledger_allows:
  assumes "simulates h stored"
  shows "can_mint ''owner'' ''user'' x (v_ledger h s b t) \<longleftrightarrow>
      0 < x \<and> s + unat x < 2 ^ 128 \<and> unat b + unat x < 2 ^ 128"
    and "can_pay ''user'' (window_addr h) x (v_ledger h s b t) \<longleftrightarrow> 0 < x \<and> x \<le> b"
    and "can_pay (window_addr h) (treasury_addr h) x (transfer ''user'' (window_addr h) x (v_ledger h s b t))
      \<longleftrightarrow> 0 < x \<and> unat t + unat x < 2 ^ 128"
    and "can_pay (treasury_addr h) ''user'' x (v_ledger h s b t) \<longleftrightarrow>
      0 < x \<and> x \<le> t \<and> unat b + unat x < 2 ^ 128"
  using apart[OF assms] unat_less_size[of x]
  by (auto simp: v_ledger_def can_mint_def can_pay_def transfer_def Let_def)

lemma u_ledger_allows:
  assumes "simulates h stored"
  shows "can_mint ''owner'' ''user'' x (u_ledger h s b) \<longleftrightarrow>
      0 < x \<and> s + unat x < 2 ^ 128 \<and> unat b + unat x < 2 ^ 128"
    and "can_mint (window_addr h) ''user'' x (u_ledger h s b) \<longleftrightarrow>
      0 < x \<and> s + unat x < 2 ^ 128 \<and> unat b + unat x < 2 ^ 128"
    and "can_pay ''user'' (window_addr h) x (u_ledger h s b) \<longleftrightarrow> 0 < x \<and> x \<le> b"
    and "can_burn (window_addr h) x (transfer ''user'' (window_addr h) x (u_ledger h s b)) \<longleftrightarrow>
      0 < x \<and> unat x \<le> s"
  using apart[OF assms] by (simp_all add: user_ledger_allows)

section \<open>Swaps at the rate one\<close>

definition after_fee :: "u128 \<Rightarrow> u16 \<Rightarrow> u128" where
  "after_fee x f = word_of_nat (unat x * (10000 - unat f) div 10000)"

lemma after_fee_facts:
  assumes "unat f \<le> 10000" and "unat x < 2 ^ 64"
  shows "apply_fee_ust1 x f = Ok (after_fee x f)" and "after_fee x f \<le> x"
proof -
  have "unat x * (10000 - unat f) \<le> unat x * 10000" by simp
  moreover have "unat x * 10000 < 2 ^ 128" using assms(2) by simp
  ultimately have "unat x * (10000 - unat f) < 2 ^ 128" by (rule le_less_trans)
  then show "apply_fee_ust1 x f = Ok (after_fee x f)"
    using assms(1) div_le_dividend[of "unat x * (10000 - unat f)" 10000]
    by (simp add: apply_fee_ust1_Ok_iff after_fee_def unsigned_of_nat take_bit_nat_eq_self)
  then show "after_fee x f \<le> x" by (rule apply_fee_ust1_le)
qed

lemma at_par: "vfdusd_to_ust1_before_fee x RATE_SCALE = Ok x" "ust1_after_fee_to_vfdusd x RATE_SCALE = Ok x"
  using unat_less_size[of x]
  by (simp_all add: vfdusd_to_ust1_before_fee_Ok_iff ust1_after_fee_to_vfdusd_Ok_iff)


text \<open>The storage of the window as the tests leave it, with its two counters.\<close>

definition window_of :: "'c window_host \<Rightarrow> window_config \<Rightarrow> rolling_volume \<Rightarrow> window_storage" where
  "window_of h cfg roll = \<lparr>w_contract_info = Some (WINDOW_CONTRACT_NAME, wh_version h),
     w_config = Some cfg, w_rolling = Some roll, w_pending_governance = None\<rparr>"

definition trial ::
  "'c window_host \<Rightarrow> (ledger \<Rightarrow> 'c) \<Rightarrow> u64 \<Rightarrow> bool \<Rightarrow> u64 \<Rightarrow> window_config \<Rightarrow> rolling_volume \<Rightarrow> bool \<Rightarrow>
   nat \<times> u128 \<times> u128 \<Rightarrow> nat \<times> u128 \<Rightarrow> 'c window_app" where
  "trial h stored t oracle_paused last_sec cfg roll reject v u = (case (v, u) of ((vs, vb, vt), (us, ub)) \<Rightarrow>
     chain_at h stored t (oracle_with h oracle_paused last_sec) (window_of h cfg roll) reject
       (v_ledger h vs vb vt) (u_ledger h us ub))"

definition rate_answer :: "bool \<Rightarrow> u64 \<Rightarrow> state_response" where
  "rate_answer oracle_paused last_sec = \<lparr>sr_rate = RATE_SCALE, sr_last_update_sec = last_sec,
     sr_utc_day_id = last_sec div 86400, sr_day_baseline_rate = RATE_SCALE, sr_paused = oracle_paused\<rparr>"

text \<open>What the window decides, as a chain of its own guards; the answers of a success.\<close>

definition deposit_decision ::
  "env \<Rightarrow> bool \<Rightarrow> u64 \<Rightarrow> window_config \<Rightarrow> rolling_volume \<Rightarrow> u128 \<Rightarrow> (rolling_volume, window_error) result" where
  "deposit_decision e oracle_paused last_sec cfg roll x =
     (if wc_paused cfg then Err window_error.Paused
      else and_then (ensure_oracle_usable e (rate_answer oracle_paused last_sec) (wc_max_oracle_age_sec cfg)) (\<lambda>_.
        let out = after_fee x (wc_fee_bps cfg) in
        if out = 0 then Err ZeroOutput else window_ensure_limits e roll cfg out))"

definition deposit_answer :: "'c window_host \<Rightarrow> window_config \<Rightarrow> u128 \<Rightarrow> window_payload response" where
  "deposit_answer h cfg x = (let out = after_fee x (wc_fee_bps cfg) in
     with_fee_event_attrs
       (add_attribute ''vfdusd_to_treasury'' (show_nat (unat x))
       (add_attribute ''ust1_out'' (show_nat (unat out))
       (add_attribute ''action'' ''deposit''
       (add_message (WasmExecute (vfdusd_addr h) (Cw20Payload (Cw20Transfer (treasury_addr h) x)) [])
       (add_message (WasmExecute (ust1_addr h) (Cw20Payload (Cw20Mint ''user'' out)) []) new_response)))))
       cfg (x - out))"

definition withdraw_decision ::
  "env \<Rightarrow> bool \<Rightarrow> u64 \<Rightarrow> window_config \<Rightarrow> rolling_volume \<Rightarrow> u128 \<Rightarrow> u128 \<Rightarrow> u128 \<Rightarrow>
   (rolling_volume, window_error) result" where
  "withdraw_decision e oracle_paused last_sec cfg roll treasury g min_out =
     (if wc_paused cfg then Err window_error.Paused
      else and_then (ensure_oracle_usable e (rate_answer oracle_paused last_sec) (wc_max_oracle_age_sec cfg)) (\<lambda>_.
        let out = after_fee g (wc_fee_bps cfg) in
        if out = 0 then Err ZeroOutput
        else if out < min_out then Err BelowMinimum
        else if treasury < out then Err InsufficientVfdusd
        else window_ensure_limits e roll cfg g))"

definition withdraw_answer :: "'c window_host \<Rightarrow> window_config \<Rightarrow> u128 \<Rightarrow> window_payload response" where
  "withdraw_answer h cfg g = (let out = after_fee g (wc_fee_bps cfg) in
     with_fee_event_attrs
       (add_attribute ''vfdusd_out'' (show_nat (unat out))
       (add_attribute ''action'' ''withdraw''
       (add_message (WasmExecute (treasury_addr h)
          (TreasuryPayload (InstantWithdrawCw20 ''user'' (vfdusd_addr h) out)) [])
       (add_message (WasmExecute (ust1_addr h) (Cw20Payload (Cw20Burn g)) []) new_response))))
       cfg (g - out))"

text \<open>The text of the stub's refusal.\<close>

definition stub_refusal :: string where
  "stub_refusal = ''Generic error: stub treasury: InstantWithdrawCw20 rejected (unregistered or paused)''"

definition text_of :: "'c window_host \<Rightarrow> window_error \<Rightarrow> string" where
  "text_of h e = window_error_text (wh_std_text h) (wh_overflow_text h) e"

lemma user_valid: "simulates h stored \<Longrightarrow> addr_validate (wh_api h) ''user'' = Ok ''user''"
  by (simp add: host_api users_def)

lemma rate_at:
  "oracle_query_state (oracle_with h p l) = Ok (rate_answer p l)"
  by (simp add: oracle_query_state_def oracle_with_def rate_answer_def)

lemma bound_in_turn: "and_then (and_then m f) g = and_then m (\<lambda>x. and_then (f x) g)"
  by (simp add: and_then_def split: sum.splits)

lemma deposit_eq:
  assumes sim: "simulates h stored" and cfg: "wired_to h cfg" "unat (wc_fee_bps cfg) \<le> 10000"
    and x: "unat x < 2 ^ 64"
  shows "receive_cw20 (wh_api h) (wh_json h)
      (app_querier h (chain_at h stored t (oracle_with h p l) w reject v u)) e (from_caller (vfdusd_addr h))
      \<lparr>cw20_sender = ''user'', cw20_amount = x, cw20_msg = wh_hook h Deposit\<rparr> (window_of h cfg roll) =
    and_then (deposit_decision e p l cfg roll x) (\<lambda>roll. Ok (window_of h cfg roll, deposit_answer h cfg x))"
proof -
  note fee = after_fee_facts[OF cfg(2) x]
  have wired: "wc_vfdusd_token cfg = vfdusd_addr h" "wc_ust1_token cfg = ust1_addr h"
    "wc_cmm_treasury cfg = treasury_addr h" using cfg(1) by (simp_all add: wired_to_def)
  have sub: "checked_sub x (after_fee x (wc_fee_bps cfg)) = Ok (x - after_fee x (wc_fee_bps cfg))"
    using fee(2) by (simp add: checked_sub_Ok_iff_le)
  show ?thesis
    by (simp add: receive_cw20_def window_of_def hosting[OF host_api(1)[OF sim]] user_valid[OF sim]
        from_caller_def wired deposit_def deposit_decision_def oracle_answer[OF cfg(1)] rate_at at_par fee sub
        rate_answer_def[THEN arg_cong[where f = sr_rate]] Let_def deposit_answer_def chain_simps
        bound_in_turn)
qed


lemma withdraw_eq:
  assumes sim: "simulates h stored" and cfg: "wired_to h cfg" "unat (wc_fee_bps cfg) \<le> 10000"
    and g: "unat g < 2 ^ 64"
  shows "receive_cw20 (wh_api h) (wh_json h)
      (app_querier h (chain_at h stored t (oracle_with h p l) w reject v u)) e (from_caller (ust1_addr h))
      \<lparr>cw20_sender = ''user'', cw20_amount = g, cw20_msg = wh_hook h (Withdraw min_out)\<rparr> (window_of h cfg roll) =
    and_then (withdraw_decision e p l cfg roll (lg_balance v (treasury_addr h)) g min_out)
      (\<lambda>roll. Ok (window_of h cfg roll, withdraw_answer h cfg g))"
proof -
  note host = host_api(1)[OF sim]
  note fee = after_fee_facts[OF cfg(2) g]
  have wired: "wc_vfdusd_token cfg = vfdusd_addr h" "wc_ust1_token cfg = ust1_addr h"
    "wc_cmm_treasury cfg = treasury_addr h" using cfg(1) by (simp_all add: wired_to_def)
  have sub: "checked_sub g (after_fee g (wc_fee_bps cfg)) = Ok (g - after_fee g (wc_fee_bps cfg))"
    using fee(2) by (simp add: checked_sub_Ok_iff_le)
  show ?thesis
    using apart[OF sim] treasury_answer[OF host cfg(1)]
    by (simp add: receive_cw20_def window_of_def hosting[OF host] user_valid[OF sim] withdraw_ust1_after_fee_def
        from_caller_def wired withdraw_def withdraw_decision_def oracle_answer[OF cfg(1)] rate_at at_par fee sub
        rate_answer_def[THEN arg_cong[where f = sr_rate]] Let_def withdraw_answer_def chain_simps
        instant_withdraw_cw20_msg_def bound_in_turn)
qed

lemma answer_messages:
  "messages (deposit_answer h cfg x) =
     [WasmExecute (ust1_addr h) (Cw20Payload (Cw20Mint ''user'' (after_fee x (wc_fee_bps cfg)))) [],
      WasmExecute (vfdusd_addr h) (Cw20Payload (Cw20Transfer (treasury_addr h) x)) []]"
  "messages (withdraw_answer h cfg x) =
     [WasmExecute (ust1_addr h) (Cw20Payload (Cw20Burn x)) [],
      WasmExecute (treasury_addr h)
        (TreasuryPayload (InstantWithdrawCw20 ''user'' (vfdusd_addr h) (after_fee x (wc_fee_bps cfg)))) []]"
  by (simp_all add: deposit_answer_def withdraw_answer_def Let_def)


text \<open>A deposit and a withdrawal, from the token's transfer to the last message.\<close>

lemma trial_deposit:
  assumes sim: "simulates h stored" and cfg: "wired_to h cfg" "unat (wc_fee_bps cfg) \<le> 10000"
    and x: "0 < x" "unat x < 2 ^ 64" "x \<le> vb" and room: "unat vt < 2 ^ 64" "us < 2 ^ 64" "unat ub < 2 ^ 64"
  shows "send_to_window h (vfdusd_addr h) ''user'' x Deposit (trial h stored t p l cfg roll reject (vs, vb, vt) (us, ub)) =
    and_then (map_err (text_of h)
        (deposit_decision \<lparr>block_nanos = t, contract_address = window_addr h\<rparr> p l cfg roll x)) (\<lambda>roll.
      Ok (trial h stored t p l cfg roll reject (vs, vb - x, vt + x)
            (us + unat (after_fee x (wc_fee_bps cfg)), ub + after_fee x (wc_fee_bps cfg)), deposit_answer h cfg x))"
proof -
  note host = host_api(1)[OF sim]
  note ops = cw20_operations[OF hosting(1)[OF host]]
  let ?out = "after_fee x (wc_fee_bps cfg)"
  have out: "unat ?out < 2 ^ 64"
    using after_fee_facts(2)[OF cfg(2) x(2)] x(2) by (simp add: word_le_nat_alt)
  have can: "can_pay ''user'' (window_addr h) x (v_ledger h vs vb vt)"
    "can_pay (window_addr h) (treasury_addr h) x (transfer ''user'' (window_addr h) x (v_ledger h vs vb vt))"
    using x room by (simp_all add: v_ledger_allows[OF sim])
  have minted: "can_mint (window_addr h) ''user'' ?out (u_ledger h us ub)" if "?out \<noteq> 0"
    using that out room by (simp add: u_ledger_allows[OF sim] word_neq_0_conv)
  have positive: "?out \<noteq> 0" if "deposit_decision e p l cfg roll x = Ok roll'" for e roll'
    using that by (auto simp: deposit_decision_def Let_def chain_simps split: if_splits)
  let ?e = "\<lparr>block_nanos = t, contract_address = window_addr h\<rparr>"
  let ?sent = "\<lambda>w. chain_at h stored t (oracle_with h p l) w reject
    (transfer ''user'' (window_addr h) x (v_ledger h vs vb vt)) (u_ledger h us ub)"
  have "send_to_window h (vfdusd_addr h) ''user'' x Deposit (trial h stored t p l cfg roll reject (vs, vb, vt) (us, ub)) =
    and_then (map_err (text_of h) (and_then (deposit_decision ?e p l cfg roll x)
        (\<lambda>roll. Ok (window_of h cfg roll, deposit_answer h cfg x)))) (\<lambda>(s, r).
      and_then (deliver_all (deliver_from_window h) (messages r) (?sent s)) (\<lambda>app. Ok (app, r)))"
    by (simp add: trial_def send_at(1)[OF host can(1)] window_call_def window_execute_def
        deposit_eq[OF sim cfg x(2)] env_of_def text_of_def[abs_def])
  also have "\<dots> = and_then (map_err (text_of h) (deposit_decision ?e p l cfg roll x)) (\<lambda>roll.
      Ok (trial h stored t p l cfg roll reject (vs, vb - x, vt + x)
            (us + unat ?out, ub + ?out), deposit_answer h cfg x))"
  proof (cases "deposit_decision ?e p l cfg roll x")
    case (Inl f)
    then show ?thesis by (cases f) simp_all
  next
    case (Inr roll')
    show ?thesis
      using minted[OF positive[OF Inr]] can(2) apart[OF sim] Inr
      by (simp add: answer_messages deliver_from_window_def deliver_to_token_def token_call_at[OF host] ops
          v_ledger_moves[OF sim] u_ledger_moves[OF sim] trial_def)
  qed
  finally show ?thesis .
qed

lemma trial_withdraw:
  assumes sim: "simulates h stored" and cfg: "wired_to h cfg" "unat (wc_fee_bps cfg) \<le> 10000"
    and g: "0 < g" "unat g < 2 ^ 64" "g \<le> ub" "unat g \<le> us" and room: "unat vb < 2 ^ 64"
  shows "send_to_window h (ust1_addr h) ''user'' g (Withdraw min_out)
      (trial h stored t p l cfg roll reject (vs, vb, vt) (us, ub)) =
    and_then (map_err (text_of h)
        (withdraw_decision \<lparr>block_nanos = t, contract_address = window_addr h\<rparr> p l cfg roll vt g min_out)) (\<lambda>roll.
      if reject then Err stub_refusal
      else Ok (trial h stored t p l cfg roll reject
        (vs, vb + after_fee g (wc_fee_bps cfg), vt - after_fee g (wc_fee_bps cfg)) (us - unat g, ub - g),
        withdraw_answer h cfg g))"
proof -
  note host = host_api(1)[OF sim]
  note ops = cw20_operations[OF hosting(1)[OF host]]
  let ?out = "after_fee g (wc_fee_bps cfg)"
  have out: "unat ?out < 2 ^ 64"
    using after_fee_facts(2)[OF cfg(2) g(2)] g(2) by (simp add: word_le_nat_alt)
  have can: "can_pay ''user'' (window_addr h) g (u_ledger h us ub)"
    "can_burn (window_addr h) g (transfer ''user'' (window_addr h) g (u_ledger h us ub))"
    using g by (simp_all add: u_ledger_allows[OF sim])
  have pull: "can_pay (treasury_addr h) ''user'' ?out (v_ledger h vs vb vt)"
    if "withdraw_decision e p l cfg roll vt g min_out = Ok roll'" for e roll'
    using that out room
    by (auto simp: withdraw_decision_def Let_def chain_simps v_ledger_allows[OF sim] word_neq_0_conv not_less
        split: if_splits)
  let ?e = "\<lparr>block_nanos = t, contract_address = window_addr h\<rparr>"
  let ?sent = "\<lambda>w. chain_at h stored t (oracle_with h p l) w reject (v_ledger h vs vb vt)
    (transfer ''user'' (window_addr h) g (u_ledger h us ub))"
  have "send_to_window h (ust1_addr h) ''user'' g (Withdraw min_out)
      (trial h stored t p l cfg roll reject (vs, vb, vt) (us, ub)) =
    and_then (map_err (text_of h) (and_then (withdraw_decision ?e p l cfg roll vt g min_out)
        (\<lambda>roll. Ok (window_of h cfg roll, withdraw_answer h cfg g)))) (\<lambda>(s, r).
      and_then (deliver_all (deliver_from_window h) (messages r) (?sent s)) (\<lambda>app. Ok (app, r)))"
    by (simp add: trial_def send_at(2)[OF host can(1)] window_call_def window_execute_def
        withdraw_eq[OF sim cfg g(2)] env_of_def text_of_def[abs_def] v_ledger_moves[OF sim])
  also have "\<dots> = and_then (map_err (text_of h) (withdraw_decision ?e p l cfg roll vt g min_out)) (\<lambda>roll.
      if reject then Err stub_refusal
      else Ok (trial h stored t p l cfg roll reject (vs, vb + ?out, vt - ?out) (us - unat g, ub - g),
        withdraw_answer h cfg g))"
  proof (cases "withdraw_decision ?e p l cfg roll vt g min_out")
    case (Inl f)
    then show ?thesis by (cases f) simp_all
  next
    case (Inr roll')
    show ?thesis
      using pull[OF Inr] can(2) apart[OF sim] Inr
      by (simp add: answer_messages deliver_from_window_def deliver_to_token_def token_call_at[OF host] ops
          treasury_call_def stub_treasury_execute_def decoded_by_stub_def hosting[OF host] host_api(12)[OF sim] stub_refusal_def
          v_ledger_moves[OF sim] u_ledger_moves[OF sim] trial_def)
  qed
  finally show ?thesis .
qed

end
