(* ===== verification/Test_Window_Pass.thy ===== *)
theory Test_Window_Pass
  imports Test_Window_Runs Scenario_Host
begin

text \<open>Each test of the window, run on the simulated chain step by step.\<close>

section \<open>The other steps of the tests\<close>

lemma config_at_set_up [simp]:
  "wc_governance (set_up_config h) = ''owner''" "wc_oracle (set_up_config h) = oracle_addr h"
  "wc_vfdusd_token (set_up_config h) = vfdusd_addr h" "wc_cmm_treasury (set_up_config h) = treasury_addr h"
  "wc_ust1_token (set_up_config h) = ust1_addr h" "wc_fee_bps (set_up_config h) = 100"
  "wc_per_tx_ust1_limit (set_up_config h) = 1000000000"
  "wc_rolling_24h_ust1_limit (set_up_config h) = 10000000000" "\<not> wc_paused (set_up_config h)"
  "wc_max_oracle_age_sec (set_up_config h) = 21600"
  by (simp_all add: set_up_config_def)

lemma trial_setup:
  assumes "simulates h stored"
  shows "setup_with_treasury h reject = Ok (trial h stored (wh_start h) False 1571797419 (set_up_config h)
    \<lparr>rv_window_start_sec = 0, rv_volume_ust1 = 0\<rparr> reject (0, 0, 0) (0, 0))"
    and "window_setup h = Ok (trial h stored (wh_start h) False 1571797419 (set_up_config h)
    \<lparr>rv_window_start_sec = 0, rv_volume_ust1 = 0\<rparr> False (0, 0, 0) (0, 0))"
proof -
  have "allow_minter (window_addr h) (v_ledger h 0 0 0) = u_ledger h 0 0"
    using u_ledger_moves(1)[OF assms] v_ledger_moves(1)[OF assms] by simp
  with assms show "setup_with_treasury h reject = Ok (trial h stored (wh_start h) False 1571797419 (set_up_config h)
      \<lparr>rv_window_start_sec = 0, rv_volume_ust1 = 0\<rparr> reject (0, 0, 0) (0, 0))" for reject
    by (simp add: set_up_chain trial_def window_with_def window_of_def v_ledger_moves)
  then show "window_setup h = Ok (trial h stored (wh_start h) False 1571797419 (set_up_config h)
      \<lparr>rv_window_start_sec = 0, rv_volume_ust1 = 0\<rparr> False (0, 0, 0) (0, 0))"
    by (simp add: window_setup_def)
qed

lemma trial_mint:
  assumes sim: "simulates h stored" and x: "0 < x"
  shows "vs + unat x < 2 ^ 64 \<Longrightarrow> unat vb + unat x < 2 ^ 64 \<Longrightarrow>
      mint_to h ''owner'' (vfdusd_addr h) ''user'' x (trial h stored t p l cfg roll reject (vs, vb, vt) u) =
      Ok (trial h stored t p l cfg roll reject (vs + unat x, vb + x, vt) u)"
    and "us + unat x < 2 ^ 64 \<Longrightarrow> unat ub + unat x < 2 ^ 64 \<Longrightarrow>
      mint_to h ''owner'' (ust1_addr h) ''user'' x (trial h stored t p l cfg roll reject v (us, ub)) =
      Ok (trial h stored t p l cfg roll reject v (us + unat x, ub + x))"
  using x by (simp_all add: trial_def mint_at[OF host_api(1)[OF sim]] v_ledger_moves[OF sim] u_ledger_moves[OF sim]
      v_ledger_allows[OF sim] u_ledger_allows[OF sim] split: prod.splits)

lemma trial_balance:
  assumes sim: "simulates h stored"
  shows "token_balance h (vfdusd_addr h) ''user'' (trial h stored t p l cfg roll reject (vs, vb, vt) u) = Ok vb"
    and "token_balance h (vfdusd_addr h) (treasury_addr h) (trial h stored t p l cfg roll reject (vs, vb, vt) u) = Ok vt"
    and "token_balance h (ust1_addr h) ''user'' (trial h stored t p l cfg roll reject v (us, ub)) = Ok ub"
    and "wa_tokens (trial h stored t p l cfg roll reject (vs, vb, vt) u) (vfdusd_addr h) = Some (stored (v_ledger h vs vb vt))"
    and "wa_tokens (trial h stored t p l cfg roll reject v (us, ub)) (ust1_addr h) = Some (stored (u_ledger h us ub))"
  by (simp_all add: trial_def balance_at[OF host_api(1)[OF sim]] tokens_at[OF host_api(1)[OF sim]]
      v_ledger_moves[OF sim] u_ledger_moves[OF sim] split: prod.splits)

lemma trial_states:
  assumes "wc_oracle cfg = oracle_addr h"
  shows "app_window_config (trial h stored t p l cfg roll reject v u) =
      Ok \<lparr>wcr_governance = wc_governance cfg, wcr_oracle = wc_oracle cfg,
         wcr_vfdusd_token = wc_vfdusd_token cfg, wcr_cmm_treasury = wc_cmm_treasury cfg,
         wcr_ust1_token = wc_ust1_token cfg, wcr_fee_bps = wc_fee_bps cfg,
         wcr_per_tx_ust1_limit = wc_per_tx_ust1_limit cfg,
         wcr_rolling_24h_ust1_limit = wc_rolling_24h_ust1_limit cfg,
         wcr_paused = wc_paused cfg, wcr_max_oracle_age_sec = wc_max_oracle_age_sec cfg\<rparr>"
    and "app_oracle_state (trial h stored t p l cfg roll reject v u) = Ok (rate_answer p l)"
    and "oracle_query_config (wa_oracle (trial h stored t p l cfg roll reject v u)) =
      Ok \<lparr>ocr_governance = ''owner'', ocr_oracle_operator = ''bot'', ocr_paused = p\<rparr>"
    and "now_of (trial h stored t p l cfg roll reject v u) = t div 1000000000"
    and "update_time secs (trial h stored t p l cfg roll reject v u) =
      trial h stored (secs * 1000000000) p l cfg roll reject v u"
    and "app_swap h (trial h stored t p l cfg roll reject v u) = Ok \<lparr>es_fee_bps = wc_fee_bps cfg,
      es_fee_chain_tax_bps = wc_fee_bps cfg div 2, es_fee_cmm_protocol_bps = wc_fee_bps cfg - wc_fee_bps cfg div 2,
      es_per_tx_ust1_limit = wc_per_tx_ust1_limit cfg, es_rolling_24h_ust1_limit = wc_rolling_24h_ust1_limit cfg,
      es_paused = wc_paused cfg, es_rolling_window_start_sec = rv_window_start_sec roll,
      es_rolling_volume_ust1 = rv_volume_ust1 roll, es_oracle = rate_answer p l,
      es_max_oracle_age_sec = wc_max_oracle_age_sec cfg\<rparr>"
  using assms
  by (simp_all add: trial_def app_window_config_def window_query_config_def app_oracle_state_def rate_at test_simps oracle_query_config_def
      oracle_with_def now_of_def update_time_def app_swap_def query_effective_swap_def window_of_def
      query_oracle_state_def app_querier_def rate_at[unfolded oracle_with_def]
      chain_tax_and_cmm_protocol_def Let_def split: prod.splits)

lemma trial_governed:
  assumes "wc_governance cfg = ''owner''"
  shows "window_call h ''owner'' (SetLimits a b) (trial h stored t p l cfg roll reject v u) =
      Ok (trial h stored t p l (cfg\<lparr>wc_per_tx_ust1_limit := a, wc_rolling_24h_ust1_limit := b\<rparr>) roll reject v u,
          add_attribute ''action'' ''set_limits'' new_response)"
    and "window_call h ''owner'' (SetPaused b') (trial h stored t p l cfg roll reject v u) =
      Ok (trial h stored t p l (cfg\<lparr>wc_paused := b'\<rparr>) roll reject v u,
          add_attribute ''action'' ''set_paused'' new_response)"
    and "14400 \<le> unat age \<Longrightarrow> window_call h ''owner'' (SetMaxOracleAge age) (trial h stored t p l cfg roll reject v u) =
      Ok (trial h stored t p l (cfg\<lparr>wc_max_oracle_age_sec := age\<rparr>) roll reject v u,
          add_attribute ''action'' ''set_max_oracle_age'' new_response)"
    and "unat age < 14400 \<Longrightarrow> window_call h ''owner'' (SetMaxOracleAge age) (trial h stored t p l cfg roll reject v u) =
      Err (text_of h (MaxOracleAgeTooShort 14400))"
    and "14400 \<le> unat age \<Longrightarrow> window_call h ''stranger'' (SetMaxOracleAge age) (trial h stored t p l cfg roll reject v u) =
      Err (text_of h window_error.Unauthorized)"
  using assms
  by (simp_all add: window_call_def window_execute_def trial_def window_of_def exec_set_limits_def
      exec_set_paused_def exec_set_max_oracle_age_def from_caller_def text_of_def
      validate_max_oracle_age_sec_def MIN_ORACLE_UPDATE_INTERVAL_SECS_def word_less_nat_alt split: prod.splits)

lemma trial_fee:
  assumes "wc_governance cfg = ''owner''" and "unat f \<le> 10000"
  shows "window_call h ''owner'' (SetFeeBps f) (trial h stored t p l cfg roll reject v u) =
    Ok (trial h stored t p l (cfg\<lparr>wc_fee_bps := f\<rparr>) roll reject v u,
      add_attribute ''fee_cmm_protocol_bps'' (show_nat (unat (f - f div 2)))
        (add_attribute ''fee_chain_tax_bps'' (show_nat (unat (f div 2)))
        (add_attribute ''new_fee_bps'' (show_nat (unat f))
        (add_attribute ''old_fee_bps'' (show_nat (unat (wc_fee_bps cfg)))
        (add_attribute ''action'' ''set_fee_bps'' new_response)))))"
  using assms
  by (simp add: window_call_def window_execute_def trial_def window_of_def exec_set_fee_bps_def ucast_fee_le_iff
      from_caller_def Let_def chain_tax_and_cmm_protocol_def split: prod.splits)

lemma trial_oracle:
  shows "oracle_call h ''owner'' (oracle_execute_msg.SetPaused b) (trial h stored t p l cfg roll reject v u) =
      Ok (trial h stored t b l cfg roll reject v u)"
    and "oracle_call h ''stranger'' (oracle_execute_msg.SetPaused b) (trial h stored t p l cfg roll reject v u) =
      Err (oracle_error_text (wh_std_text h) oracle_error.Unauthorized)"
    and "treasury_call h (SetRejectPulls b) (trial h stored t p l cfg roll reject v u) =
      Ok (trial h stored t p l cfg roll b v u)"
  by (simp_all add: oracle_call_def oracle_execute_def execute_set_paused_def trial_def oracle_with_def
      from_caller_def treasury_call_def stub_treasury_execute_def split: prod.splits)


lemma trial_migrate:
  assumes sim: "simulates h stored" and cfg: "wired_to h cfg"
  shows "migrate_window h (trial h stored t p l cfg roll reject v u) = Ok (trial h stored t p l cfg roll reject v u)"
proof -
  have "validate_token_decimals (app_querier h (chain_at h stored t (oracle_with h p l) w reject
      (v_ledger h vs vb vt) (u_ledger h us ub))) (vfdusd_addr h) (ust1_addr h) = Ok ()" for w vs vb vt us ub
    by (simp add: validate_token_decimals_def query_cw20_token_info_def app_querier_def
        tokens_at[OF host_api(1)[OF sim]] cw20_operations[OF hosting(1)[OF host_api(1)[OF sim]]]
        v_ledger_def user_ledger_def)
  with cfg show ?thesis
    by (simp add: migrate_window_def window_migrate_def window_set_contract_version_def trial_def window_of_def
        wired_to_def split: prod.splits)
qed

section \<open>The tests\<close>

lemma window_error_words:
  "str_contains (text_of h PerTxLimit) ''per-tx''" "str_contains (text_of h RollingLimit) ''rolling''"
  "str_contains (text_of h window_error.Paused) ''paused''"
  "str_contains (text_of h window_error.Paused) ''contract is paused''"
  "str_contains (text_of h InvalidCw20Hook) ''cw20''" "str_contains (text_of h BelowMinimum) ''minimum''"
  "str_contains (text_of h InsufficientVfdusd) ''vFDUSD''" "str_contains (text_of h OracleStale) ''stale''"
  "str_contains (text_of h OraclePaused) ''oracle is paused''"
  "str_contains (text_of h window_error.Unauthorized) ''unauthorized''"
  "str_contains (text_of h (MaxOracleAgeTooShort m)) ''at least''"
  "str_contains (text_of h ZeroOutput) ''zero output''"
  "str_contains (text_of h (InvalidTokenDecimals a b)) ''decimals''"
  "str_contains (text_of h window_error.InvalidGovernanceProposal) ''invalid governance''"
  by (simp_all add: text_of_def window_error_text_def str_contains_def sublist_Cons_right)

lemma stub_words: "str_contains (to_ascii_lowercase stub_refusal) ''rejected''"
proof -
  have parts: "stub_refusal =
    ''Generic error: stub treasury: InstantWithdrawCw20 '' @ ''rejected'' @ '' (unregistered or paused)''"
    by (simp add: stub_refusal_def)
  have word: "to_ascii_lowercase ''rejected'' = ''rejected''" by code_simp
  have "str_contains (to_ascii_lowercase (a @ ''rejected'' @ b)) ''rejected''" for a b
    unfolding str_contains_def to_ascii_lowercase_def map_append word[unfolded to_ascii_lowercase_def]
    by (rule sublist_appendI)
  then show ?thesis unfolding parts .
qed

lemma wired_set_up [simp]:
  "wired_to h (set_up_config h)"
  "wired_to h (cfg\<lparr>wc_paused := b\<rparr>) = wired_to h cfg" "wired_to h (cfg\<lparr>wc_fee_bps := f\<rparr>) = wired_to h cfg"
  "wired_to h (cfg\<lparr>wc_per_tx_ust1_limit := a\<rparr>) = wired_to h cfg"
  "wired_to h (cfg\<lparr>wc_rolling_24h_ust1_limit := a\<rparr>) = wired_to h cfg"
  by (simp_all add: wired_to_def)

lemma block_at [simp]: "block_seconds \<lparr>block_nanos = t, contract_address = c\<rparr> = t div 1000000000"
  by (simp add: block_seconds_def)

lemma after_fee_values:
  "after_fee 1000000 100 = 990000" "after_fee 300000000 100 = 297000000" "after_fee 200000 100 = 198000"
  "after_fee 990000 100 = 980100" "after_fee 100000 100 = 99000" "after_fee 500000 100 = 495000"
  "after_fee 495000 100 = 490050" "after_fee 1089000 100 = 1078110"
  "after_fee x 0 = x" "after_fee x 10000 = 0"
  by (simp_all add: after_fee_def)

lemma max_u128: "unat (- 1 :: u128) = 2 ^ 128 - 1"
  by (simp add: unsigned_minus_1_eq_mask mask_eq_exp_minus_1)

lemmas run_eval = test_simps after_fee_values deposit_decision_def withdraw_decision_def
  ensure_oracle_usable_def window_ensure_limits_def rate_answer_def window_error_words Let_def balance_is_def fails_def
  plain_add_def checked_add_def checked_sub_def DEFAULT_MAX_ORACLE_AGE_SECS_def MIN_ORACLE_UPDATE_INTERVAL_SECS_def stub_words
  Test_Oracle.error_words max_u128 word_less_nat_alt word_le_nat_alt saturating_sub_def


lemma tokens_set_up:
  assumes "simulates h stored"
  shows "cw20_allowance (wh_cw20 h) (stored l) owner spender = 0"
    and "cw20_decimals (wh_cw20 h) (stored (v_ledger h vs vb vt)) = 6"
    and "cw20_decimals (wh_cw20 h) (stored (u_ledger h us ub)) = 6"
  using cw20_operations(8,9)[OF hosting(1)[OF host_api(1)[OF assms]]]
  by (simp_all add: v_ledger_def user_ledger_def)

text \<open>The steps of a test, on the chain at hand.\<close>

lemmas trial_steps = trial_setup trial_mint trial_balance trial_deposit trial_withdraw tokens_set_up host_api(10)

lemma deposit_and_withdraw_via_instant_withdraw_cw20_passes:
  assumes sim: "simulates h stored"
  shows "passes (deposit_and_withdraw_via_instant_withdraw_cw20 h)"
  unfolding deposit_and_withdraw_via_instant_withdraw_cw20_def
  by (simp add: trial_steps[OF sim] trial_governed trial_states trial_oracle run_eval)

lemma inv_limit_001_per_tx_exceeded_passes:
  assumes sim: "simulates h stored"
  shows "passes (inv_limit_001_per_tx_exceeded h)"
  unfolding inv_limit_001_per_tx_exceeded_def
  by (simp add: trial_steps[OF sim] trial_governed trial_states trial_oracle run_eval)

lemma inv_limit_001_rolling_24h_exceeded_passes:
  assumes sim: "simulates h stored"
  shows "passes (inv_limit_001_rolling_24h_exceeded h)"
  unfolding inv_limit_001_rolling_24h_exceeded_def
  by (simp add: trial_steps[OF sim] trial_governed trial_states trial_oracle run_eval)

lemma paused_blocks_cw20_flow_passes:
  assumes sim: "simulates h stored"
  shows "passes (paused_blocks_cw20_flow h)"
  unfolding paused_blocks_cw20_flow_def
  by (simp add: trial_steps[OF sim] trial_governed trial_states trial_oracle run_eval)

lemma withdraw_below_min_vfdusd_out_rejected_passes:
  assumes sim: "simulates h stored"
  shows "passes (withdraw_below_min_vfdusd_out_rejected h)"
  unfolding withdraw_below_min_vfdusd_out_rejected_def
  by (simp add: trial_steps[OF sim] trial_governed trial_states trial_oracle run_eval)

lemma withdraw_insufficient_vfdusd_in_treasury_passes:
  assumes sim: "simulates h stored"
  shows "passes (withdraw_insufficient_vfdusd_in_treasury h)"
  unfolding withdraw_insufficient_vfdusd_in_treasury_def
  by (simp add: trial_steps[OF sim] trial_governed trial_states trial_oracle run_eval)

lemma withdraw_treasury_reject_is_atomic_no_ust1_burn_passes:
  assumes sim: "simulates h stored"
  shows "passes (withdraw_treasury_reject_is_atomic_no_ust1_burn h)"
  unfolding withdraw_treasury_reject_is_atomic_no_ust1_burn_def
  by (simp add: trial_steps[OF sim] trial_governed trial_states trial_oracle run_eval)

lemma stale_oracle_blocks_deposit_passes:
  assumes sim: "simulates h stored"
  shows "passes (stale_oracle_blocks_deposit h)"
  unfolding stale_oracle_blocks_deposit_def
  by (simp add: trial_steps[OF sim] trial_governed trial_states trial_oracle run_eval)

lemma oracle_paused_blocks_deposit_and_withdraw_while_rate_fresh_passes:
  assumes sim: "simulates h stored"
  shows "passes (oracle_paused_blocks_deposit_and_withdraw_while_rate_fresh h)"
  unfolding oracle_paused_blocks_deposit_and_withdraw_while_rate_fresh_def
  by (simp add: trial_steps[OF sim] trial_governed trial_states trial_oracle run_eval)

lemma oracle_unpaused_but_stale_still_oracle_stale_passes:
  assumes sim: "simulates h stored"
  shows "passes (oracle_unpaused_but_stale_still_oracle_stale h)"
  unfolding oracle_unpaused_but_stale_still_oracle_stale_def
  by (simp add: trial_steps[OF sim] trial_governed trial_states trial_oracle run_eval)

lemma window_paused_still_blocks_when_oracle_unpaused_passes:
  assumes sim: "simulates h stored"
  shows "passes (window_paused_still_blocks_when_oracle_unpaused h)"
  unfolding window_paused_still_blocks_when_oracle_unpaused_def
  by (simp add: trial_steps[OF sim] trial_governed trial_states trial_oracle run_eval)

lemma oracle_set_paused_governance_only_passes:
  assumes sim: "simulates h stored"
  shows "passes (oracle_set_paused_governance_only h)"
  unfolding oracle_set_paused_governance_only_def
  by (simp add: trial_steps[OF sim] trial_governed trial_states trial_oracle run_eval)

lemma set_max_oracle_age_governance_only_passes:
  assumes sim: "simulates h stored"
  shows "passes (set_max_oracle_age_governance_only h)"
  unfolding set_max_oracle_age_governance_only_def
  by (simp add: trial_steps[OF sim] trial_governed trial_states trial_oracle run_eval)

lemma set_max_oracle_age_below_oracle_throttle_rejected_passes:
  assumes sim: "simulates h stored"
  shows "passes (set_max_oracle_age_below_oracle_throttle_rejected h)"
  unfolding set_max_oracle_age_below_oracle_throttle_rejected_def
  by (simp add: trial_steps[OF sim] trial_governed trial_states trial_oracle run_eval)

lemma six_decimal_tokens_happy_path_passes:
  assumes sim: "simulates h stored"
  shows "passes (six_decimal_tokens_happy_path h)"
  unfolding six_decimal_tokens_happy_path_def
  by (simp add: trial_steps[OF sim] trial_governed trial_states trial_oracle run_eval)

lemma stale_oracle_blocks_withdraw_passes:
  assumes sim: "simulates h stored"
  shows "passes (stale_oracle_blocks_withdraw h)"
  unfolding stale_oracle_blocks_withdraw_def
  by (simp add: trial_steps[OF sim] trial_governed trial_states trial_oracle run_eval)

lemma trial_update:
  assumes sim: "simulates h stored" and l: "l \<noteq> 0" "unat l + 14400 \<le> unat (t div 1000000000)"
  shows "oracle_call h ''bot'' (UpdateRate RATE_SCALE) (trial h stored t False l cfg roll reject v u) =
    Ok (trial h stored t False (t div 1000000000) cfg roll reject v u)"
proof -
  have "check_rate_update (t div 1000000000) l RATE_SCALE RATE_SCALE (l div 86400) RATE_SCALE =
    Ok (t div 1000000000 div 86400, RATE_SCALE)"
    using l by (simp add: check_rate_update_eq roll_utc_day_def throttled_def within_daily_cap_def RATE_SCALE_def Let_def)
  then show ?thesis
    by (simp add: oracle_call_def oracle_execute_def execute_update_rate_def oracle_with_def env_of_def
        block_seconds_def from_caller_def trial_def Let_def split: prod.splits)
qed

lemma rolling_window_resets_after_86400_sec_passes:
  assumes sim: "simulates h stored"
  shows "passes (rolling_window_resets_after_86400_sec h)"
  unfolding rolling_window_resets_after_86400_sec_def
  by (simp add: trial_steps[OF sim] trial_governed trial_states trial_update[OF sim] run_eval)

lemma migrate_preserves_config_passes:
  assumes sim: "simulates h stored"
  shows "passes (migrate_preserves_config h)"
  unfolding migrate_preserves_config_def
  by (simp add: trial_steps[OF sim] trial_states trial_migrate[OF sim] run_eval)

lemma dust_deposit_reverts_balances_unchanged_passes:
  assumes sim: "simulates h stored"
  shows "passes (dust_deposit_reverts_balances_unchanged h)"
  unfolding dust_deposit_reverts_balances_unchanged_def
  by (simp add: trial_steps[OF sim] trial_fee BPS_DENOM_def run_eval)

lemma dust_withdraw_reverts_no_burn_passes:
  assumes sim: "simulates h stored"
  shows "passes (dust_withdraw_reverts_no_burn h)"
  unfolding dust_withdraw_reverts_no_burn_def
  by (simp add: trial_steps[OF sim] trial_fee BPS_DENOM_def run_eval)

lemma instantiate_rejects_decimal_inversion_passes:
  assumes sim: "simulates h stored"
  shows "passes (instantiate_rejects_decimal_inversion h)"
  unfolding instantiate_rejects_decimal_inversion_def
  by (simp add: set_up_contracts[OF sim] set_up_window[OF sim] run_eval new_ledger_def flip: text_of_def)

lemma governance_propose_and_accept_passes:
  assumes sim: "simulates h stored"
  shows "passes (governance_propose_and_accept h)"
  unfolding governance_propose_and_accept_def
  by (simp add: trial_setup[OF sim] trial_def window_call_def window_execute_def window_of_def
      exec_propose_gov_def exec_accept_gov_def from_caller_def host_api(2)[OF sim] users_def test_simps fails_def
      window_error_words[unfolded text_of_def] app_window_config_def window_query_config_def)

lemma invalid_cw20_sender_rejected_passes:
  assumes sim: "simulates h stored"
  shows "passes (invalid_cw20_sender_rejected h)"
proof -
  note ops = cw20_operations[OF hosting(1)[OF host_api(1)[OF sim]]]
  have mint: "can_mint ''owner'' ''user'' 1000000 (new_ledger ''owner'' 6)"
    by (simp add: can_mint_def new_ledger_def)
  have pay: "can_pay ''user'' (window_addr h) 100 (mint ''user'' 1000000 (new_ledger ''owner'' 6))"
    using apart[OF sim] by (simp add: can_pay_def new_ledger_def mint_def word_le_nat_alt)
  show ?thesis
    unfolding invalid_cw20_sender_rejected_def
    using apart[OF sim]
    by (simp add: trial_setup[OF sim] ops mint pay test_simps Let_def mint_to_def token_call_def on_token_def
        send_to_window_def fails_def trial_def chain_at_def window_call_def window_execute_def receive_cw20_def
        window_of_def from_caller_def hosting[OF host_api(1)[OF sim]] user_valid[OF sim]
        window_error_words[unfolded text_of_def])
qed

section \<open>The fee in the event\<close>

lemma answer_attributes:
  "attributes (deposit_answer h cfg x) = (let out = after_fee x (wc_fee_bps cfg) in
     [(''action'', ''deposit''), (''ust1_out'', show_nat (unat out)), (''vfdusd_to_treasury'', show_nat (unat x)),
      (''fee_total_bps'', show_nat (unat (wc_fee_bps cfg))),
      (''fee_chain_tax_bps'', show_nat (unat (wc_fee_bps cfg div 2))),
      (''fee_cmm_protocol_bps'', show_nat (unat (wc_fee_bps cfg - wc_fee_bps cfg div 2))),
      (''fee_amount'', show_nat (unat (x - out))), (''fee_asset'', wc_ust1_token cfg)])"
  "attributes (withdraw_answer h cfg x) = (let out = after_fee x (wc_fee_bps cfg) in
     [(''action'', ''withdraw''), (''vfdusd_out'', show_nat (unat out)),
      (''fee_total_bps'', show_nat (unat (wc_fee_bps cfg))),
      (''fee_chain_tax_bps'', show_nat (unat (wc_fee_bps cfg div 2))),
      (''fee_cmm_protocol_bps'', show_nat (unat (wc_fee_bps cfg - wc_fee_bps cfg div 2))),
      (''fee_amount'', show_nat (unat (x - out))), (''fee_asset'', wc_ust1_token cfg)])"
  by (simp_all add: deposit_answer_def withdraw_answer_def Let_def with_fee_event_attrs_attributes)

lemma shown: "show_nat 50 = ''50''" "show_nat 0 = ''0''" "show_nat m = show_nat n \<longleftrightarrow> m = n"
proof -
  show "show_nat 50 = ''50''" "show_nat 0 = ''0''" by code_simp+
  show "show_nat m = show_nat n \<longleftrightarrow> m = n"
    by (metis digits_value_show_nat option.inject)
qed

lemma inv_fee_event_001_deposit_emits_ust1_fee_amount_passes:
  assumes sim: "simulates h stored"
  shows "passes (inv_fee_event_001_deposit_emits_ust1_fee_amount h)"
  unfolding inv_fee_event_001_deposit_emits_ust1_fee_amount_def
  using apart[OF sim]
  by (simp add: trial_steps[OF sim] run_eval at_par after_fee_facts fee_amount_ust1_def attr_is_def wasm_attr_def window_swap_attrs_def
      answer_attributes shown DEFAULT_FEE_BPS_def)

lemma inv_fee_event_001_withdraw_emits_ust1_fee_amount_passes:
  assumes sim: "simulates h stored"
  shows "passes (inv_fee_event_001_withdraw_emits_ust1_fee_amount h)"
  unfolding inv_fee_event_001_withdraw_emits_ust1_fee_amount_def
  using apart[OF sim]
  by (simp add: trial_steps[OF sim] run_eval at_par after_fee_facts fee_amount_ust1_def attr_is_def wasm_attr_def window_swap_attrs_def
      answer_attributes shown DEFAULT_FEE_BPS_def withdraw_gross_ust1_to_vfdusd_def withdraw_ust1_after_fee_def)

lemma inv_fee_event_001_zero_fee_emits_zero_amount_passes:
  assumes sim: "simulates h stored"
  shows "passes (inv_fee_event_001_zero_fee_emits_zero_amount h)"
  unfolding inv_fee_event_001_zero_fee_emits_zero_amount_def
  by (simp add: trial_steps[OF sim] trial_fee run_eval attr_is_def wasm_attr_def window_swap_attrs_def answer_attributes shown)

section \<open>All of them\<close>

definition window_multitests :: "('c window_host \<Rightarrow> test) list" where
  "window_multitests =
     [deposit_and_withdraw_via_instant_withdraw_cw20, inv_limit_001_per_tx_exceeded,
      inv_limit_001_rolling_24h_exceeded, paused_blocks_cw20_flow, invalid_cw20_sender_rejected,
      withdraw_below_min_vfdusd_out_rejected, withdraw_insufficient_vfdusd_in_treasury,
      withdraw_treasury_reject_is_atomic_no_ust1_burn, stale_oracle_blocks_deposit,
      oracle_paused_blocks_deposit_and_withdraw_while_rate_fresh,
      oracle_unpaused_but_stale_still_oracle_stale, window_paused_still_blocks_when_oracle_unpaused,
      oracle_set_paused_governance_only, set_max_oracle_age_governance_only,
      set_max_oracle_age_below_oracle_throttle_rejected, migrate_preserves_config,
      dust_deposit_reverts_balances_unchanged, dust_withdraw_reverts_no_burn,
      instantiate_rejects_decimal_inversion, six_decimal_tokens_happy_path, stale_oracle_blocks_withdraw,
      rolling_window_resets_after_86400_sec, governance_propose_and_accept,
      inv_fee_event_001_deposit_emits_ust1_fee_amount, inv_fee_event_001_withdraw_emits_ust1_fee_amount,
      inv_fee_event_001_zero_fee_emits_zero_amount]"

lemma window_multitest_passes:
  assumes sim: "simulates h stored"
  shows "list_all (\<lambda>t. passes (t h)) window_multitests"
  unfolding window_multitests_def list.pred_inject(2)
  by (intro conjI list.pred_inject(1)
      deposit_and_withdraw_via_instant_withdraw_cw20_passes[OF sim] inv_limit_001_per_tx_exceeded_passes[OF sim]
      inv_limit_001_rolling_24h_exceeded_passes[OF sim] paused_blocks_cw20_flow_passes[OF sim]
      invalid_cw20_sender_rejected_passes[OF sim] withdraw_below_min_vfdusd_out_rejected_passes[OF sim]
      withdraw_insufficient_vfdusd_in_treasury_passes[OF sim]
      withdraw_treasury_reject_is_atomic_no_ust1_burn_passes[OF sim] stale_oracle_blocks_deposit_passes[OF sim]
      oracle_paused_blocks_deposit_and_withdraw_while_rate_fresh_passes[OF sim]
      oracle_unpaused_but_stale_still_oracle_stale_passes[OF sim]
      window_paused_still_blocks_when_oracle_unpaused_passes[OF sim]
      oracle_set_paused_governance_only_passes[OF sim] set_max_oracle_age_governance_only_passes[OF sim]
      set_max_oracle_age_below_oracle_throttle_rejected_passes[OF sim] migrate_preserves_config_passes[OF sim]
      dust_deposit_reverts_balances_unchanged_passes[OF sim] dust_withdraw_reverts_no_burn_passes[OF sim]
      instantiate_rejects_decimal_inversion_passes[OF sim] six_decimal_tokens_happy_path_passes[OF sim]
      stale_oracle_blocks_withdraw_passes[OF sim] rolling_window_resets_after_86400_sec_passes[OF sim]
      governance_propose_and_accept_passes[OF sim] inv_fee_event_001_deposit_emits_ust1_fee_amount_passes[OF sim]
      inv_fee_event_001_withdraw_emits_ust1_fee_amount_passes[OF sim]
      inv_fee_event_001_zero_fee_emits_zero_amount_passes[OF sim])

section \<open>A host that behaves as documented\<close>

text \<open>Its token contract keeps the ledger itself, and its binaries are the messages in unary.\<close>

definition ledger_cw20 :: "ledger cw20_lib" where
  "ledger_cw20 = \<lparr>
     cw20_instantiate = (\<lambda>minter decimals. Ok (new_ledger minter decimals)),
     cw20_add_minter = (\<lambda>caller minter l. if caller = lg_admin l then Ok (allow_minter minter l) else Err ''unauthorized''),
     cw20_execute = (\<lambda>caller m l. case m of
         Cw20Mint recipient amount \<Rightarrow>
           if can_mint caller recipient amount l then Ok (mint recipient amount l) else Err ''refused''
       | Cw20Burn amount \<Rightarrow> if can_burn caller amount l then Ok (burn caller amount l) else Err ''refused''
       | Cw20Transfer recipient amount \<Rightarrow>
           if can_pay caller recipient amount l then Ok (transfer caller recipient amount l) else Err ''refused''),
     cw20_send = (\<lambda>caller contract amount msg l.
         if can_pay caller contract amount l
         then Ok (transfer caller contract amount l, \<lparr>cw20_sender = caller, cw20_amount = amount, cw20_msg = msg\<rparr>)
         else Err ''refused''),
     cw20_balance = lg_balance, cw20_allowance = (\<lambda>_ _ _. 0), cw20_decimals = lg_decimals\<rparr>"

lemma ledger_cw20_behaves: "behaves_as_cw20 ledger_cw20 (\<lambda>l. l)"
  by (simp add: behaves_as_cw20_def ledger_cw20_def)

text \<open>A hook as a binary, and back.\<close>

definition encode_hook :: "window_hook_msg \<Rightarrow> binary" where
  "encode_hook m = (case m of Deposit \<Rightarrow> ''deposit'' | Withdraw min_out \<Rightarrow> ''withdraw '' @ show_nat (unat min_out))"

definition decode_hook :: window_from_json where
  "decode_hook b = (if b = ''deposit'' then Ok Deposit
     else case parse_uint (drop 9 b) of Some n \<Rightarrow> Ok (Withdraw n) | None \<Rightarrow> Err (OtherStdErr ''no hook''))"

lemma hook_roundtrip: "decode_hook (encode_hook m) = Ok m"
  by (simp add: decode_hook_def encode_hook_def parse_uint_show_nat split: window_hook_msg.splits)

definition plain_window_host :: "ledger window_host" where
  "plain_window_host = \<lparr>wh_api = plain_api, wh_oracle_api = plain_api, wh_json = decode_hook, wh_hook = encode_hook,
     wh_std_text = (\<lambda>e. case e of GenericErr m \<Rightarrow> ''Generic error: '' @ m | _ \<Rightarrow> ''error''),
     wh_overflow_text = (\<lambda>_. ''overflow''), wh_cw20 = ledger_cw20, wh_start = 1571797419879305533,
     wh_version = ''0.1.0'', wh_address = (\<lambda>n. ''contract'' @ show_nat n)\<rparr>"

lemma plain_window_host_simulates: "simulates plain_window_host (\<lambda>l. l)"
proof -
  have "visible (''contract'' @ show_nat 3)" by code_simp
  then show ?thesis
    unfolding simulates_def well_hosted_def
    by (intro conjI) (simp_all add: plain_window_host_def ledger_cw20_behaves hook_roundtrip plain_api_def
        contracts_def users_def oracle_addr_def vfdusd_addr_def ust1_addr_def treasury_addr_def window_addr_def
        fake_addr_def shown(3))
qed

end
