(* ===== verification/Delivery_Properties.thy ===== *)
theory Delivery_Properties
  imports Test_Window_Pass
begin

text \<open>
  What the window answers is carried out: the properties of a swap together with the transfers,
  the minting and the burning that it leads to, on the chain of \<open>Test_Chain\<close> with tokens that
  behave as cw20 tokens.
\<close>

section \<open>A chain with money on it\<close>

text \<open>After a deposit of a million units of vFDUSD by a user who had ten million.\<close>

definition v_funds :: ledger where "v_funds = v_ledger plain_window_host 10000000 9000000 1000000"
definition u_funds :: ledger where "u_funds = u_ledger plain_window_host 990000 990000"

definition window_funded :: "u128 \<Rightarrow> window_storage" where
  "window_funded volume = window_of plain_window_host (set_up_config plain_window_host)
     \<lparr>rv_window_start_sec = 1571797419, rv_volume_ust1 = volume\<rparr>"

lemma funds_ok: "ledger_ok v_funds" "ledger_ok u_funds"
  using apart(1)[OF plain_window_host_simulates]
  by (auto simp: v_funds_def u_funds_def v_ledger_def user_ledger_def ledger_ok_def)

section \<open>Withdrawals\<close>

text \<open>
  C6: When the window's hook accepts a withdrawal, the transaction fails exactly if the
  treasury, the stub of the tests, refuses its message, and then with the treasury's error and
  without moving anything, although the burn comes first. Otherwise the whole transaction goes
  through, and it moves exactly this: the UST1 leaves the user and is burned, and the treasury
  pays the user vFDUSD, at least the minimum asked for and at most what it holds. No message
  to a token can fail, on ledgers whose balances are within their supply.
\<close>

theorem withdrawal_delivered:
  assumes host: "well_hosted h stored" and cfg: "w_config w = Some cfg" "wired_to h cfg"
    and ok: "ledger_ok v" "ledger_ok u"
    and user: "addr_validate (wh_api h) user = Ok user" "user \<noteq> window_addr h"
    and g: "0 < g" "g \<le> lg_balance u user"
    and answer: "hook_answer h (ust1_addr h) user g (Withdraw min_out)
      (chain_at h stored t orc w reject v (transfer user (window_addr h) g u)) = Ok (w', r)"
  shows "\<exists>os v_out. oracle_query_state orc = Ok os \<and>
    withdraw_gross_ust1_to_vfdusd g (sr_rate os) (wc_fee_bps cfg) = Ok v_out \<and> 0 < v_out \<and> min_out \<le> v_out \<and> v_out \<le> lg_balance v (treasury_addr h) \<and>
    send_to_window h (ust1_addr h) user g (Withdraw min_out) (chain_at h stored t orc w reject v u) =
      (if reject then Err (wh_std_text h
         (GenericErr ''stub treasury: InstantWithdrawCw20 rejected (unregistered or paused)''))
       else Ok (chain_at h stored t orc w' False (transfer (treasury_addr h) user v_out v)
            (burn (window_addr h) g (transfer user (window_addr h) g u)), r))"
proof -
  note answer' = answer[unfolded hook_answer_def receive_cw20_Ok_iff]
  from answer' cfg user(1) hosting[OF host] obtain os after v_out fee bal where
    live: "\<not> wc_paused cfg" and swap: "withdraw_swap (wh_api h)
      (app_querier h (chain_at h stored t orc w reject v (transfer user (window_addr h) g u)))
      \<lparr>block_nanos = t, contract_address = window_addr h\<rparr> cfg user g min_out w w' r os after v_out fee bal"
    by (auto simp: from_caller_def env_of_def wired_to_def withdraw_Ok_iff)
  from swap treasury_answer[OF host cfg(2)] oracle_answer[OF cfg(2)] have v_out: "0 < v_out" "min_out \<le> v_out"
    "v_out \<le> lg_balance v (treasury_addr h)" "oracle_query_state orc = Ok os"
    "withdraw_gross_ust1_to_vfdusd g (sr_rate os) (wc_fee_bps cfg) = Ok v_out"
    by (auto simp: withdraw_swap_def word_neq_0_conv withdraw_gross_ust1_to_vfdusd_def withdraw_ust1_after_fee_def)
  have "can_pay user (window_addr h) g u" by (rule can_pay_ok[OF ok(2) g])
  moreover have "can_burn (window_addr h) g (transfer user (window_addr h) g u)"
    using paid_back(1,2)[OF ok(2) g(2) user(2)] g ledger_okD(1)[OF ok(2), of user]
    by (simp add: can_burn_def word_le_nat_alt)
  moreover have "can_pay (treasury_addr h) user v_out v" by (rule can_pay_ok[OF ok(1) v_out(1,3)])
  ultimately show ?thesis using withdraw_at[OF host cfg live user(1) _ _ _ swap] v_out by blast
qed

theorem withdrawal_delivered_witness:
  "\<exists>os v_out. oracle_query_state (oracle_with plain_window_host False 1571797419) = Ok os \<and>
    withdraw_gross_ust1_to_vfdusd 990000 (sr_rate os) (wc_fee_bps (set_up_config plain_window_host)) = Ok v_out \<and>
    0 < v_out \<and> 900000 \<le> v_out \<and> v_out \<le> lg_balance v_funds (treasury_addr plain_window_host) \<and>
    send_to_window plain_window_host (ust1_addr plain_window_host) ''user'' 990000 (Withdraw 900000)
      (chain_at plain_window_host (\<lambda>l. l) 1571797419879305533 (oracle_with plain_window_host False 1571797419)
        (window_funded 990000) False v_funds u_funds) =
    Ok (chain_at plain_window_host (\<lambda>l. l) 1571797419879305533 (oracle_with plain_window_host False 1571797419)
        (window_funded 1980000) False (transfer (treasury_addr plain_window_host) ''user'' v_out v_funds)
        (burn (window_addr plain_window_host) 990000
          (transfer ''user'' (window_addr plain_window_host) 990000 u_funds)),
        withdraw_answer plain_window_host (set_up_config plain_window_host) 990000)"
proof (rule withdrawal_delivered[where reject = False, simplified if_False])
  note sim = plain_window_host_simulates
  show "well_hosted plain_window_host (\<lambda>l. l)" by (rule host_api(1)[OF sim])
  show "w_config (window_funded 990000) = Some (set_up_config plain_window_host)"
    by (simp add: window_funded_def window_of_def)
  show "ledger_ok v_funds" "ledger_ok u_funds" by (fact funds_ok)+
  show "addr_validate (wh_api plain_window_host) ''user'' = Ok ''user''" by (rule user_valid[OF sim])
  show "''user'' \<noteq> window_addr plain_window_host" using apart(1)[OF sim] by simp
  show "990000 \<le> lg_balance u_funds ''user''" by (simp add: u_funds_def u_ledger_moves[OF sim])
  show "hook_answer plain_window_host (ust1_addr plain_window_host) ''user'' 990000 (Withdraw 900000)
      (chain_at plain_window_host (\<lambda>l. l) 1571797419879305533 (oracle_with plain_window_host False 1571797419)
        (window_funded 990000) False v_funds
        (transfer ''user'' (window_addr plain_window_host) 990000 u_funds)) =
    Ok (window_funded 1980000, withdraw_answer plain_window_host (set_up_config plain_window_host) 990000)"
    unfolding hook_answer_def window_funded_def chain_at_simps
    by (subst withdraw_eq[OF sim]) (simp_all add: env_of_def v_funds_def v_ledger_moves[OF sim] run_eval)
qed simp_all

section \<open>Deposits\<close>

text \<open>
  C7: When the window's hook accepts a deposit, the window is a minter of UST1 and its supply
  has room for the new amount, the whole transaction goes through: the vFDUSD of the user ends
  with the treasury, the window keeps none, and the user gets new UST1.
\<close>

theorem deposit_delivered:
  assumes host: "well_hosted h stored" and cfg: "w_config w = Some cfg" "wired_to h cfg"
    and ok: "ledger_ok v" "ledger_ok u" and minter: "window_addr h \<in> lg_minters u"
    and user: "addr_validate (wh_api h) user = Ok user" "user \<noteq> window_addr h"
    and x: "0 < x" "x \<le> lg_balance v user"
    and answer: "hook_answer h (vfdusd_addr h) user x Deposit
      (chain_at h stored t orc w reject (transfer user (window_addr h) x v) u) = Ok (w', r)"
    and room: "\<And>out. WasmExecute (ust1_addr h) (Cw20Payload (Cw20Mint user out)) [] \<in> set (messages r) \<Longrightarrow>
      lg_supply u + unat out < 2 ^ 128"
  shows "\<exists>os out. oracle_query_state orc = Ok os \<and>
    deposit_vfdusd_to_ust1 x (sr_rate os) (wc_fee_bps cfg) = Ok out \<and> 0 < out \<and>
    send_to_window h (vfdusd_addr h) user x Deposit (chain_at h stored t orc w reject v u) =
      Ok (chain_at h stored t orc w' reject
            (transfer (window_addr h) (treasury_addr h) x (transfer user (window_addr h) x v))
            (Cw20_Tokens.mint user out u), r)"
proof -
  note answer' = answer[unfolded hook_answer_def receive_cw20_Ok_iff]
  from answer' cfg user(1) hosting[OF host] obtain os before out fee where
    live: "\<not> wc_paused cfg" and swap: "deposit_swap (wh_api h)
      (app_querier h (chain_at h stored t orc w reject (transfer user (window_addr h) x v) u))
      \<lparr>block_nanos = t, contract_address = window_addr h\<rparr> cfg user x w w' r os before out fee"
    by (auto simp: from_caller_def env_of_def wired_to_def deposit_Ok_iff)
  from swap cfg(2) oracle_answer[OF cfg(2)] have out: "out \<noteq> 0"
    "WasmExecute (ust1_addr h) (Cw20Payload (Cw20Mint user out)) [] \<in> set (messages r)"
    "oracle_query_state orc = Ok os" "deposit_vfdusd_to_ust1 x (sr_rate os) (wc_fee_bps cfg) = Ok out"
    by (simp_all add: deposit_swap_def wired_to_def deposit_vfdusd_to_ust1_def)
  have "can_pay user (window_addr h) x v" by (rule can_pay_ok[OF ok(1) x])
  moreover have "can_mint (window_addr h) user out u"
    using minter out(1) room[OF out(2)] ledger_okD(1)[OF ok(2), of user]
    by (simp add: can_mint_def word_neq_0_conv)
  moreover have "can_pay (window_addr h) (treasury_addr h) x (transfer user (window_addr h) x v)"
    using pass_on[OF ok(1) x user(2)] hosting(6)[OF host] by simp
  ultimately show ?thesis using deposit_at[OF host cfg live user(1) _ _ _ swap] out
    by (auto simp: word_neq_0_conv)
qed

theorem deposit_delivered_witness:
  "\<exists>os out. oracle_query_state (oracle_with plain_window_host False 1571797419) = Ok os \<and>
    deposit_vfdusd_to_ust1 1000000 (sr_rate os) (wc_fee_bps (set_up_config plain_window_host)) = Ok out \<and> 0 < out \<and>
    send_to_window plain_window_host (vfdusd_addr plain_window_host) ''user'' 1000000 Deposit
      (chain_at plain_window_host (\<lambda>l. l) 1571797419879305533 (oracle_with plain_window_host False 1571797419)
        (window_funded 990000) False v_funds u_funds) =
    Ok (chain_at plain_window_host (\<lambda>l. l) 1571797419879305533 (oracle_with plain_window_host False 1571797419)
        (window_funded 1980000) False
        (transfer (window_addr plain_window_host) (treasury_addr plain_window_host) 1000000
          (transfer ''user'' (window_addr plain_window_host) 1000000 v_funds))
        (mint ''user'' out u_funds),
        deposit_answer plain_window_host (set_up_config plain_window_host) 1000000)"
proof (rule deposit_delivered)
  note sim = plain_window_host_simulates
  show "well_hosted plain_window_host (\<lambda>l. l)" by (rule host_api(1)[OF sim])
  show "w_config (window_funded 990000) = Some (set_up_config plain_window_host)"
    by (simp add: window_funded_def window_of_def)
  show "ledger_ok v_funds" "ledger_ok u_funds" by (fact funds_ok)+
  show "window_addr plain_window_host \<in> lg_minters u_funds" by (simp add: u_funds_def user_ledger_def)
  show "addr_validate (wh_api plain_window_host) ''user'' = Ok ''user''" by (rule user_valid[OF sim])
  show "''user'' \<noteq> window_addr plain_window_host" using apart(1)[OF sim] by simp
  show "1000000 \<le> lg_balance v_funds ''user''" by (simp add: v_funds_def v_ledger_moves[OF sim] word_le_nat_alt)
  show "hook_answer plain_window_host (vfdusd_addr plain_window_host) ''user'' 1000000 Deposit
      (chain_at plain_window_host (\<lambda>l. l) 1571797419879305533 (oracle_with plain_window_host False 1571797419)
        (window_funded 990000) False (transfer ''user'' (window_addr plain_window_host) 1000000 v_funds) u_funds) =
    Ok (window_funded 1980000, deposit_answer plain_window_host (set_up_config plain_window_host) 1000000)"
    unfolding hook_answer_def window_funded_def chain_at_simps
    by (subst deposit_eq[OF sim]) (simp_all add: env_of_def run_eval)
  show "lg_supply u_funds + unat out < 2 ^ 128"
    if "WasmExecute (ust1_addr plain_window_host) (Cw20Payload (Cw20Mint ''user'' out)) []
      \<in> set (messages (deposit_answer plain_window_host (set_up_config plain_window_host) 1000000))" for out
    using that apart(1)[OF sim] by (auto simp: answer_messages after_fee_values u_funds_def user_ledger_def)
qed simp_all

end
