(* ===== verification/Test_Wrap_Chain.thy ===== *)
theory Test_Wrap_Chain
  imports Test_Chain Native_Wrap_Safety
begin

text \<open>
  The simulated chain of the wrap contract's tests (\<open>cmm-native-wrap/src/multitest.rs\<close>): the
  contract, two cw20 tokens and the bank that holds the native coins.
\<close>

section \<open>The bank\<close>

text \<open>The bank is third-party code as well: a parameter, over a storage of any type.\<close>

record 'b bank_lib =
  bank_init_balance :: "addr \<Rightarrow> coin list \<Rightarrow> ('b, string) result"
  bank_transfer :: "addr \<Rightarrow> addr \<Rightarrow> coin list \<Rightarrow> 'b \<Rightarrow> ('b, string) result"
  bank_balance :: "'b \<Rightarrow> addr \<Rightarrow> string \<Rightarrow> u128"

type_synonym purses = "addr \<Rightarrow> string \<Rightarrow> u128"

definition endowed :: "addr \<Rightarrow> coin list \<Rightarrow> purses" where
  "endowed holder coins a d = (if a = holder
     then case map_of (map (\<lambda>c. (coin_denom c, coin_amount c)) coins) d of Some n \<Rightarrow> n | None \<Rightarrow> 0 else 0)"

definition pay_coin :: "addr \<Rightarrow> addr \<Rightarrow> coin \<Rightarrow> purses \<Rightarrow> purses" where
  "pay_coin payer recipient c f =
     (let d = coin_denom c; f = f(payer := (f payer)(d := f payer d - coin_amount c)) in
      f(recipient := (f recipient)(d := f recipient d + coin_amount c)))"

definition can_pay_coin :: "addr \<Rightarrow> addr \<Rightarrow> coin \<Rightarrow> purses \<Rightarrow> bool" where
  "can_pay_coin payer recipient c f \<longleftrightarrow> 0 < coin_amount c \<and> coin_amount c \<le> f payer (coin_denom c) \<and>
     payer \<noteq> recipient \<and> unat (f recipient (coin_denom c)) + unat (coin_amount c) < 2 ^ 128"

fun pay_coins :: "addr \<Rightarrow> addr \<Rightarrow> coin list \<Rightarrow> purses \<Rightarrow> purses" where
  "pay_coins payer recipient [] f = f"
| "pay_coins payer recipient (c # cs) f = pay_coins payer recipient cs (pay_coin payer recipient c f)"

fun can_pay_coins :: "addr \<Rightarrow> addr \<Rightarrow> coin list \<Rightarrow> purses \<Rightarrow> bool" where
  "can_pay_coins payer recipient [] f = True"
| "can_pay_coins payer recipient (c # cs) f \<longleftrightarrow>
     can_pay_coin payer recipient c f \<and> can_pay_coins payer recipient cs (pay_coin payer recipient c f)"

definition behaves_as_bank :: "'b bank_lib \<Rightarrow> (purses \<Rightarrow> 'b) \<Rightarrow> bool" where
  "behaves_as_bank L kept \<longleftrightarrow>
     (\<forall>holder coins. distinct (map coin_denom coins) \<longrightarrow>
        bank_init_balance L holder coins = Ok (kept (endowed holder coins))) \<and>
     (\<forall>f payer recipient coins. coins \<noteq> [] \<and> can_pay_coins payer recipient coins f \<longrightarrow>
        bank_transfer L payer recipient coins (kept f) = Ok (kept (pay_coins payer recipient coins f))) \<and>
     (\<forall>f a d. bank_balance L (kept f) a d = f a d)"

lemma bank_operations:
  assumes "behaves_as_bank L kept"
  shows "distinct (map coin_denom coins) \<Longrightarrow>
      bank_init_balance L holder coins = Ok (kept (endowed holder coins))"
    and "coins \<noteq> [] \<Longrightarrow> can_pay_coins payer recipient coins f \<Longrightarrow>
      bank_transfer L payer recipient coins (kept f) = Ok (kept (pay_coins payer recipient coins f))"
    and "bank_balance L (kept f) a d = f a d"
  using assms by (auto simp: behaves_as_bank_def)

section \<open>The texts of errors\<close>

definition wrap_error_text ::
  "(std_error \<Rightarrow> string) \<Rightarrow> (overflow_error \<Rightarrow> string) \<Rightarrow> wrap_error \<Rightarrow> string" where
  "wrap_error_text std_text overflow_text e = (case e of
       wrap_error.Std e \<Rightarrow> std_text e
     | wrap_error.Unauthorized \<Rightarrow> ''unauthorized''
     | wrap_error.Paused \<Rightarrow> ''contract is paused''
     | wrap_error.InvalidCw20Hook \<Rightarrow> ''unknown or disallowed cw20 hook''
     | wrap_error.PerTxLimit \<Rightarrow> ''wrap per-tx limit exceeded''
     | wrap_error.RollingLimit \<Rightarrow> ''wrap rolling 24h limit exceeded''
     | InsufficientNative \<Rightarrow> ''native balance too low for unwrap''
     | wrap_error.BelowMinimum \<Rightarrow> ''below minimum native receive''
     | InvalidNativeFunds \<Rightarrow> ''invalid native funds: expected exactly one coin''
     | UnknownNativeDenom \<Rightarrow> ''unknown native denom for wrap''
     | UnknownWrappedToken \<Rightarrow> ''unknown cw20 token for unwrap''
     | InvalidPairCount n \<Rightarrow> ''instantiate must configure exactly '' @ show_nat n @ '' native pairs''
     | InvalidPairDenoms a b \<Rightarrow> ''instantiate pairs must be '' @ a @ '' and '' @ b @ '' exactly once each''
     | DuplicateWrappedToken \<Rightarrow> ''duplicate wrapped token address''
     | wrap_error.Math e \<Rightarrow> math_error_text overflow_text e
     | wrap_error.NoPendingGovernance \<Rightarrow> ''no pending governance proposal''
     | wrap_error.InvalidGovernanceProposal \<Rightarrow> ''invalid governance proposal''
     | wrap_error.Overflow e \<Rightarrow> overflow_text e)"

section \<open>The chain\<close>

record ('c, 'b) wrap_host =
  nh_api :: "cw20_execute_msg api"
  nh_json :: wrap_from_json
  nh_hook :: "wrap_hook_msg \<Rightarrow> binary"
  nh_std_text :: "std_error \<Rightarrow> string"
  nh_overflow_text :: "overflow_error \<Rightarrow> string"
  nh_cw20 :: "'c cw20_lib"
  nh_bank :: "'b bank_lib"
  nh_start :: u64
  nh_version :: string
  nh_address :: "nat \<Rightarrow> addr"

definition wlunc_addr :: "('c, 'b) wrap_host \<Rightarrow> addr" where "wlunc_addr h = nh_address h 0"
definition wustc_addr :: "('c, 'b) wrap_host \<Rightarrow> addr" where "wustc_addr h = nh_address h 1"
definition wrap_addr :: "('c, 'b) wrap_host \<Rightarrow> addr" where "wrap_addr h = nh_address h 2"
definition other_addr :: "('c, 'b) wrap_host \<Rightarrow> addr" where "other_addr h = nh_address h 3"

record ('c, 'b) wrap_app =
  na_time :: u64
  na_wrap :: wrap_storage
  na_tokens :: "addr \<Rightarrow> 'c option"
  na_bank :: 'b

definition token_does ::
  "addr \<Rightarrow> ('c \<Rightarrow> ('c \<times> 'r, string) result) \<Rightarrow> ('c, 'b) wrap_app \<Rightarrow> (('c, 'b) wrap_app \<times> 'r, string) result" where
  "token_does token f app = (case na_tokens app token of
       None \<Rightarrow> Err ''no such contract''
     | Some c \<Rightarrow> and_then (f c) (\<lambda>(c, r). Ok (app\<lparr>na_tokens := (na_tokens app)(token \<mapsto> c)\<rparr>, r)))"

definition token_executes ::
  "('c, 'b) wrap_host \<Rightarrow> addr \<Rightarrow> addr \<Rightarrow> cw20_execute_msg \<Rightarrow> ('c, 'b) wrap_app \<Rightarrow>
   (('c, 'b) wrap_app, string) result" where
  "token_executes h caller token m app =
     and_then (token_does token (\<lambda>c. and_then (cw20_execute (nh_cw20 h) caller m c) (\<lambda>c. Ok (c, ()))) app)
       (\<lambda>(app, _). Ok app)"

definition coins_move ::
  "('c, 'b) wrap_host \<Rightarrow> addr \<Rightarrow> addr \<Rightarrow> coin list \<Rightarrow> ('c, 'b) wrap_app \<Rightarrow>
   (('c, 'b) wrap_app, string) result" where
  "coins_move h payer recipient coins app =
     and_then (bank_transfer (nh_bank h) payer recipient coins (na_bank app)) (\<lambda>b. Ok (app\<lparr>na_bank := b\<rparr>))"

definition deliver_from_wrap ::
  "('c, 'b) wrap_host \<Rightarrow> cw20_execute_msg cosmos_msg \<Rightarrow> ('c, 'b) wrap_app \<Rightarrow>
   (('c, 'b) wrap_app, string) result" where
  "deliver_from_wrap h m app = (case m of
       WasmExecute token c _ \<Rightarrow> token_executes h (wrap_addr h) token c app
     | BankSend recipient coins \<Rightarrow> coins_move h (wrap_addr h) recipient coins app)"

text \<open>A call with native coins: they are with the contract when it runs.\<close>

definition wrap_call ::
  "('c, 'b) wrap_host \<Rightarrow> addr \<Rightarrow> coin list \<Rightarrow> wrap_execute_msg \<Rightarrow> ('c, 'b) wrap_app \<Rightarrow>
   (('c, 'b) wrap_app \<times> cw20_execute_msg response, string) result" where
  "wrap_call h caller coins msg app =
     and_then (if coins = [] then Ok app else coins_move h caller (wrap_addr h) coins app) (\<lambda>app.
     and_then (map_err (wrap_error_text (nh_std_text h) (nh_overflow_text h))
       (wrap_execute (nh_api h) (nh_json h) (\<lambda>a d. Ok (bank_balance (nh_bank h) (na_bank app) a d))
          \<lparr>block_nanos = na_time app, contract_address = wrap_addr h\<rparr> \<lparr>sender = caller, funds = coins\<rparr> msg
          (na_wrap app))) (\<lambda>(s, r).
     and_then (deliver_all (deliver_from_wrap h) (messages r) (app\<lparr>na_wrap := s\<rparr>)) (\<lambda>app.
     Ok (app, r))))"

definition send_to_wrap ::
  "('c, 'b) wrap_host \<Rightarrow> addr \<Rightarrow> addr \<Rightarrow> u128 \<Rightarrow> wrap_hook_msg \<Rightarrow> ('c, 'b) wrap_app \<Rightarrow>
   (('c, 'b) wrap_app \<times> cw20_execute_msg response, string) result" where
  "send_to_wrap h token user amount hook app =
     and_then (token_does token (cw20_send (nh_cw20 h) user (wrap_addr h) amount (nh_hook h hook)) app)
       (\<lambda>(app, m). wrap_call h token [] (Receive m) app)"

definition wrapped_balance :: "('c, 'b) wrap_host \<Rightarrow> addr \<Rightarrow> addr \<Rightarrow> ('c, 'b) wrap_app \<Rightarrow> (u128, unit) result" where
  "wrapped_balance h token holder app =
     and_then (unwrap_some (na_tokens app token)) (\<lambda>c. Ok (cw20_balance (nh_cw20 h) c holder))"

definition native_balance :: "('c, 'b) wrap_host \<Rightarrow> addr \<Rightarrow> string \<Rightarrow> ('c, 'b) wrap_app \<Rightarrow> u128" where
  "native_balance h holder denom app = bank_balance (nh_bank h) (na_bank app) holder denom"

section \<open>The set-up\<close>

definition native :: "u128 \<Rightarrow> string \<Rightarrow> coin" where
  "native amount denom = \<lparr>coin_denom = denom, coin_amount = amount\<rparr>"

definition wrap_msg_of :: "('c, 'b) wrap_host \<Rightarrow> wrap_instantiate_msg" where
  "wrap_msg_of h = \<lparr>ni_governance = ''owner'', ni_fee_bps = 50, ni_pairs =
     [\<lparr>pi_native_denom = LUNC_DENOM, pi_wrapped_token = wlunc_addr h,
       pi_per_tx_wrap_limit = 500000000, pi_rolling_24h_wrap_limit = 2500000000\<rparr>,
      \<lparr>pi_native_denom = USTC_DENOM, pi_wrapped_token = wustc_addr h,
       pi_per_tx_wrap_limit = 500000000, pi_rolling_24h_wrap_limit = 2500000000\<rparr>]\<rparr>"

definition instantiate_wrap ::
  "('c, 'b) wrap_host \<Rightarrow> wrap_instantiate_msg \<Rightarrow> u64 \<Rightarrow> (wrap_storage, string) result" where
  "instantiate_wrap h msg time =
     and_then (map_err (wrap_error_text (nh_std_text h) (nh_overflow_text h))
       (wrap_instantiate (nh_api h) (nh_version h) \<lparr>block_nanos = time, contract_address = wrap_addr h\<rparr>
          \<lparr>sender = ''owner'', funds = []\<rparr> msg wrap_empty)) (\<lambda>(s, _). Ok s)"

definition wrap_setup :: "('c, 'b) wrap_host \<Rightarrow> (('c, 'b) wrap_app, unit) result" where
  "wrap_setup h =
     and_then (unwrap (bank_init_balance (nh_bank h) ''user''
         [native 1000000000 LUNC_DENOM, native 1000000000 USTC_DENOM])) (\<lambda>b.
     and_then (unwrap (cw20_instantiate (nh_cw20 h) ''owner'' 6)) (\<lambda>wlunc.
     and_then (unwrap (cw20_instantiate (nh_cw20 h) ''owner'' 6)) (\<lambda>wustc.
     and_then (unwrap (instantiate_wrap h (wrap_msg_of h) (nh_start h))) (\<lambda>wrap.
     and_then (unwrap (cw20_add_minter (nh_cw20 h) ''owner'' (wrap_addr h) wlunc)) (\<lambda>wlunc.
     and_then (unwrap (cw20_add_minter (nh_cw20 h) ''owner'' (wrap_addr h) wustc)) (\<lambda>wustc.
     Ok \<lparr>na_time = nh_start h, na_wrap = wrap,
         na_tokens = [wlunc_addr h \<mapsto> wlunc, wustc_addr h \<mapsto> wustc], na_bank = b\<rparr>))))))"

end
