(* ===== verification/Test_Wrap.thy ===== *)
theory Test_Wrap
  imports Test_Wrap_Chain
begin

text \<open>The tests of the wrap contract (\<open>cmm-native-wrap/src/multitest.rs\<close>), on that chain.\<close>

definition wrap_fails :: "('a, string) result \<Rightarrow> string \<Rightarrow> test" where
  "wrap_fails r words = and_then (unwrap_err r) (\<lambda>err. verify (str_contains err words))"

definition wrap_lunc_mints_wlunc_after_fee :: "('c, 'b) wrap_host \<Rightarrow> test" where
  "wrap_lunc_mints_wlunc_after_fee h =
     and_then (wrap_setup h) (\<lambda>app.
     let in_amt = 1000000 in
     and_then (unwrap (wrap_call h ''user'' [native in_amt LUNC_DENOM] Wrap app)) (\<lambda>(app, _).
     and_then (wrapped_balance h (wlunc_addr h) ''user'' app) (\<lambda>bal.
     verify (bal = 995000))))"

text \<open>The first attribute of that key in the event of the contract.\<close>

definition event_attr :: "cw20_execute_msg response \<Rightarrow> string \<Rightarrow> (string, unit) result" where
  "event_attr res k = unwrap_some (map_of (attributes res) k)"

definition effective_wrap_and_wrap_events_expose_fee_split :: "('c, 'b) wrap_host \<Rightarrow> test" where
  "effective_wrap_and_wrap_events_expose_fee_split h =
     and_then (wrap_setup h) (\<lambda>app.
     and_then (unwrap (query_effective_wrap LUNC_DENOM (na_wrap app))) (\<lambda>eff.
     and_then (verify (ew_fee_bps eff = 50)) (\<lambda>_.
     and_then (verify (ew_fee_chain_tax_bps eff = 25)) (\<lambda>_.
     and_then (verify (ew_fee_cmm_protocol_bps eff = 25)) (\<lambda>_.
     and_then (unwrap (wrap_call h ''user'' [native 1000000 LUNC_DENOM] Wrap app)) (\<lambda>(app, res).
     and_then (event_attr res ''fee_total_bps'') (\<lambda>x.
     and_then (verify (x = ''50'')) (\<lambda>_.
     and_then (event_attr res ''fee_chain_tax_bps'') (\<lambda>x.
     and_then (verify (x = ''25'')) (\<lambda>_.
     and_then (event_attr res ''fee_cmm_protocol_bps'') (\<lambda>x.
     verify (x = ''25''))))))))))))"

definition unwrap_wustc_returns_uusd :: "('c, 'b) wrap_host \<Rightarrow> test" where
  "unwrap_wustc_returns_uusd h =
     and_then (wrap_setup h) (\<lambda>app.
     let in_amt = 2000000 in
     and_then (unwrap (wrap_call h ''user'' [native in_amt USTC_DENOM] Wrap app)) (\<lambda>(app, _).
     and_then (unwrap (send_to_wrap h (wustc_addr h) ''user'' 1000000 (Unwrap 0) app)) (\<lambda>(app, _).
     verify (native_balance h ''user'' USTC_DENOM app = 998995000))))"

definition per_tx_limit_blocks_wrap :: "('c, 'b) wrap_host \<Rightarrow> test" where
  "per_tx_limit_blocks_wrap h =
     and_then (wrap_setup h) (\<lambda>app.
     and_then (unwrap (wrap_call h ''owner'' [] (SetPairLimits LUNC_DENOM 100 500000000) app)) (\<lambda>(app, _).
     wrap_fails (wrap_call h ''user'' [native 1000000 LUNC_DENOM] Wrap app) ''per-tx''))"

definition rolling_limit_blocks_second_wrap :: "('c, 'b) wrap_host \<Rightarrow> test" where
  "rolling_limit_blocks_second_wrap h =
     and_then (wrap_setup h) (\<lambda>app.
     and_then (unwrap (wrap_call h ''owner'' [] (SetPairLimits LUNC_DENOM 400000000 500000000) app)) (\<lambda>(app, _).
     let dep = 300000000 in
     and_then (unwrap (wrap_call h ''user'' [native dep LUNC_DENOM] Wrap app)) (\<lambda>(app, _).
     wrap_fails (wrap_call h ''user'' [native dep LUNC_DENOM] Wrap app) ''rolling'')))"

definition paused_blocks_wrap :: "('c, 'b) wrap_host \<Rightarrow> test" where
  "paused_blocks_wrap h =
     and_then (wrap_setup h) (\<lambda>app.
     and_then (unwrap (wrap_call h ''owner'' [] (wrap_execute_msg.SetPaused True) app)) (\<lambda>(app, _).
     wrap_fails (wrap_call h ''user'' [native 100000 LUNC_DENOM] Wrap app) ''paused''))"

definition unknown_cw20_rejected :: "('c, 'b) wrap_host \<Rightarrow> test" where
  "unknown_cw20_rejected h =
     and_then (wrap_setup h) (\<lambda>app.
     and_then (unwrap (cw20_instantiate (nh_cw20 h) ''owner'' 6)) (\<lambda>fake.
     let app = app\<lparr>na_tokens := (na_tokens app)(other_addr h \<mapsto> fake)\<rparr> in
     and_then (unwrap (token_executes h ''owner'' (other_addr h) (Cw20Mint ''user'' 1000000) app)) (\<lambda>app.
     wrap_fails (send_to_wrap h (other_addr h) ''user'' 100 (Unwrap 0) app) ''cw20'')))"

definition unwrap_below_min_native_rejected :: "('c, 'b) wrap_host \<Rightarrow> test" where
  "unwrap_below_min_native_rejected h =
     and_then (wrap_setup h) (\<lambda>app.
     and_then (unwrap (wrap_call h ''user'' [native 5000000 LUNC_DENOM] Wrap app)) (\<lambda>(app, _).
     and_then (wrapped_balance h (wlunc_addr h) ''user'' app) (\<lambda>bal.
     wrap_fails (send_to_wrap h (wlunc_addr h) ''user'' bal (Unwrap (- 1)) app) ''minimum'')))"

definition unwrap_insufficient_native_in_contract :: "('c, 'b) wrap_host \<Rightarrow> test" where
  "unwrap_insufficient_native_in_contract h =
     and_then (wrap_setup h) (\<lambda>app.
     and_then (unwrap (token_executes h ''owner'' (wlunc_addr h) (Cw20Mint ''user'' 5000000) app)) (\<lambda>app.
     and_then (wrap_fails (send_to_wrap h (wlunc_addr h) ''user'' 1000000 (Unwrap 0) app) ''native'') (\<lambda>_.
     verify (native_balance h ''user'' LUNC_DENOM app = 1000000000))))"

definition two_native_coins_rejected :: "('c, 'b) wrap_host \<Rightarrow> test" where
  "two_native_coins_rejected h =
     and_then (wrap_setup h) (\<lambda>app.
     and_then (unwrap_err (wrap_call h ''user'' [native 100 LUNC_DENOM, native 100 USTC_DENOM] Wrap app)) (\<lambda>err.
     verify (str_contains err ''native'' \<or> str_contains err ''funds'')))"

text \<open>The tokens of the last test are at the first two addresses.\<close>

definition instantiate_wrong_denom_set_rejected :: "('c, 'b) wrap_host \<Rightarrow> test" where
  "instantiate_wrong_denom_set_rejected h =
     and_then (unwrap (cw20_instantiate (nh_cw20 h) ''owner'' 6)) (\<lambda>_.
     and_then (unwrap (cw20_instantiate (nh_cw20 h) ''owner'' 6)) (\<lambda>_.
     and_then (unwrap_err (instantiate_wrap h \<lparr>ni_governance = ''gov'', ni_fee_bps = 0, ni_pairs =
         [\<lparr>pi_native_denom = ''uatom'', pi_wrapped_token = nh_address h 0,
           pi_per_tx_wrap_limit = - 1, pi_rolling_24h_wrap_limit = - 1\<rparr>,
          \<lparr>pi_native_denom = ''uosmo'', pi_wrapped_token = nh_address h 1,
           pi_per_tx_wrap_limit = - 1, pi_rolling_24h_wrap_limit = - 1\<rparr>]\<rparr> (nh_start h))) (\<lambda>err.
     verify (str_contains err ''uluna'' \<or> str_contains err ''instantiate''))))"

definition rolling_window_resets_after_24h :: "('c, 'b) wrap_host \<Rightarrow> test" where
  "rolling_window_resets_after_24h h =
     and_then (wrap_setup h) (\<lambda>app.
     and_then (unwrap (wrap_call h ''owner'' [] (SetPairLimits LUNC_DENOM 400000000 500000000) app)) (\<lambda>(app, _).
     let dep = 300000000 in
     and_then (unwrap (wrap_call h ''user'' [native dep LUNC_DENOM] Wrap app)) (\<lambda>(app, _).
     let t = na_time app div 1000000000; app = app\<lparr>na_time := (t + 86400 + 1) * 1000000000\<rparr> in
     and_then (unwrap (wrap_call h ''user'' [native dep LUNC_DENOM] Wrap app)) (\<lambda>_. Ok ()))))"

definition wrap_multitests :: "(('c, 'b) wrap_host \<Rightarrow> test) list" where
  "wrap_multitests =
     [wrap_lunc_mints_wlunc_after_fee, effective_wrap_and_wrap_events_expose_fee_split,
      unwrap_wustc_returns_uusd, per_tx_limit_blocks_wrap, rolling_limit_blocks_second_wrap,
      paused_blocks_wrap, unknown_cw20_rejected, unwrap_below_min_native_rejected,
      unwrap_insufficient_native_in_contract, two_native_coins_rejected,
      instantiate_wrong_denom_set_rejected, rolling_window_resets_after_24h]"

end
