(* ===== verification/Test_Wrap_Runs.thy ===== *)
theory Test_Wrap_Runs
  imports Test_Wrap Test_Window_Runs
begin

text \<open>
  The tests of the wrap contract pass: its chain too is in a state of one shape, on which a
  wrap and an unwrap are computed once, for either denom.
\<close>

section \<open>A chain that behaves as documented\<close>

definition wraps :: "('c, 'b) wrap_host \<Rightarrow> (ledger \<Rightarrow> 'c) \<Rightarrow> (purses \<Rightarrow> 'b) \<Rightarrow> bool" where
  "wraps h stored kept \<longleftrightarrow>
     behaves_as_cw20 (nh_cw20 h) stored \<and> behaves_as_bank (nh_bank h) kept \<and>
     json_error (nh_api h) = (\<lambda>_. None) \<and> (\<forall>m. nh_json h (nh_hook h m) = Ok m) \<and>
     distinct [''user'', wlunc_addr h, wustc_addr h, wrap_addr h, other_addr h] \<and>
     (\<forall>x\<in>{''user'', ''owner'', ''gov'', wlunc_addr h, wustc_addr h}. addr_validate (nh_api h) x = Ok x) \<and>
     nh_start h div 1000000000 = 1571797419"

lemma wrap_host_facts:
  assumes "wraps h stored kept"
  shows "behaves_as_cw20 (nh_cw20 h) stored" and "behaves_as_bank (nh_bank h) kept"
    and "to_json_binary (nh_api h) p = Ok p" and "nh_json h (nh_hook h m) = Ok m"
    and "distinct [''user'', wlunc_addr h, wustc_addr h, wrap_addr h, other_addr h]"
    and "distinct [other_addr h, wrap_addr h, wustc_addr h, wlunc_addr h, ''user'']"
    and "addr_validate (nh_api h) ''user'' = Ok ''user''" "addr_validate (nh_api h) ''owner'' = Ok ''owner''"
    and "addr_validate (nh_api h) ''gov'' = Ok ''gov''"
    and "addr_validate (nh_api h) (wlunc_addr h) = Ok (wlunc_addr h)"
    and "addr_validate (nh_api h) (wustc_addr h) = Ok (wustc_addr h)"
    and "nh_start h div 1000000000 = 1571797419"
  using assms by (auto simp: wraps_def to_json_binary_def)

section \<open>The states\<close>

definition token_of :: "('c, 'b) wrap_host \<Rightarrow> string \<Rightarrow> addr" where
  "token_of h d = (if d = LUNC_DENOM then wlunc_addr h else wustc_addr h)"

definition pair_for :: "('c, 'b) wrap_host \<Rightarrow> (string \<Rightarrow> u128 \<times> u128) \<Rightarrow> string \<Rightarrow> denom_pair" where
  "pair_for h lims d = \<lparr>dp_native_denom = d, dp_wrapped_token = token_of h d,
     dp_per_tx_wrap_limit = fst (lims d), dp_rolling_24h_wrap_limit = snd (lims d)\<rparr>"

definition wrap_config_at :: "('c, 'b) wrap_host \<Rightarrow> bool \<Rightarrow> (string \<Rightarrow> u128 \<times> u128) \<Rightarrow> wrap_config" where
  "wrap_config_at h stop lims = \<lparr>nc_governance = ''owner'', nc_fee_bps = 50, nc_paused = stop,
     nc_pairs = [pair_for h lims LUNC_DENOM, pair_for h lims USTC_DENOM]\<rparr>"

definition purses_at :: "('c, 'b) wrap_host \<Rightarrow> (string \<Rightarrow> u128) \<Rightarrow> (string \<Rightarrow> u128) \<Rightarrow> purses" where
  "purses_at h user wrap = (\<lambda>_ _. 0)(''user'' := user, wrap_addr h := wrap)"

text \<open>The supply of a wrapped token and what the user has of it.\<close>

definition wrapped_ledger :: "('c, 'b) wrap_host \<Rightarrow> nat \<times> u128 \<Rightarrow> ledger" where
  "wrapped_ledger h p = user_ledger (wrap_addr h) (fst p) (snd p)"

definition wrap_state ::
  "('c, 'b) wrap_host \<Rightarrow> (ledger \<Rightarrow> 'c) \<Rightarrow> (purses \<Rightarrow> 'b) \<Rightarrow> u64 \<Rightarrow> bool \<Rightarrow> (string \<Rightarrow> u128 \<times> u128) \<Rightarrow>
   (string \<Rightarrow> wrap_rolling option) \<Rightarrow> (string \<Rightarrow> u128) \<Rightarrow> (string \<Rightarrow> u128) \<Rightarrow> (string \<Rightarrow> nat \<times> u128) \<Rightarrow>
   ('c, 'b) wrap_app" where
  "wrap_state h stored kept t stop lims rolls user wrap l = \<lparr>na_time = t,
     na_wrap = \<lparr>n_contract_info = Some (WRAP_CONTRACT_NAME, nh_version h),
       n_config = Some (wrap_config_at h stop lims), n_rolling = rolls, n_pending_governance = None\<rparr>,
     na_tokens = [wlunc_addr h \<mapsto> stored (wrapped_ledger h (l LUNC_DENOM)),
                  wustc_addr h \<mapsto> stored (wrapped_ledger h (l USTC_DENOM))],
     na_bank = kept (purses_at h user wrap)\<rparr>"

lemma denoms_apart [simp]: "LUNC_DENOM \<noteq> USTC_DENOM" "USTC_DENOM \<noteq> LUNC_DENOM"
  by (simp_all add: LUNC_DENOM_def USTC_DENOM_def)

lemma wrap_state_simps [simp]:
  "na_time (wrap_state h stored kept t stop lims rolls user wrap l) = t"
  "(wrap_state h stored kept t stop lims rolls user wrap l)\<lparr>na_time := t'\<rparr> =
     wrap_state h stored kept t' stop lims rolls user wrap l"
  "na_bank (wrap_state h stored kept t stop lims rolls user wrap l) = kept (purses_at h user wrap)"
  "(wrap_state h stored kept t stop lims rolls user wrap l)\<lparr>na_wrap := (na_wrap (wrap_state h stored kept t stop
     lims rolls user wrap l))\<lparr>n_rolling := rolls'\<rparr>\<rparr> = wrap_state h stored kept t stop lims rolls' user wrap l"
  "n_config (na_wrap (wrap_state h stored kept t stop lims rolls user wrap l)) = Some (wrap_config_at h stop lims)"
  "n_rolling (na_wrap (wrap_state h stored kept t stop lims rolls user wrap l)) = rolls"
  by (simp_all add: wrap_state_def)

lemma coins_move_in:
  assumes "wraps h stored kept" "0 < x" "x \<le> user d" "unat (wrap d) + unat x < 2 ^ 128"
  shows "coins_move h ''user'' (wrap_addr h) [native x d] (wrap_state h stored kept t stop lims rolls user wrap l) =
    Ok (wrap_state h stored kept t stop lims rolls (user(d := user d - x)) (wrap(d := wrap d + x)) l)"
proof -
  note apart = wrap_host_facts(5,6)[OF assms(1)]
  have "can_pay_coins ''user'' (wrap_addr h) [native x d] (purses_at h user wrap)"
    using assms apart by (simp add: can_pay_coin_def purses_at_def native_def)
  moreover have "pay_coins ''user'' (wrap_addr h) [native x d] (purses_at h user wrap) =
      purses_at h (user(d := user d - x)) (wrap(d := wrap d + x))"
    using apart by (auto simp: pay_coin_def purses_at_def native_def Let_def fun_eq_iff)
  ultimately show ?thesis
    by (simp add: coins_move_def bank_operations(2)[OF wrap_host_facts(2)[OF assms(1)]] wrap_state_def
        del: pay_coins.simps can_pay_coins.simps)
qed

lemma coins_move_out:
  assumes "wraps h stored kept" "0 < x" "x \<le> wrap d" "unat (user d) + unat x < 2 ^ 128"
  shows "coins_move h (wrap_addr h) ''user'' [native x d] (wrap_state h stored kept t stop lims rolls user wrap l) =
    Ok (wrap_state h stored kept t stop lims rolls (user(d := user d + x)) (wrap(d := wrap d - x)) l)"
proof -
  note apart = wrap_host_facts(5,6)[OF assms(1)]
  have "can_pay_coins (wrap_addr h) ''user'' [native x d] (purses_at h user wrap)"
    using assms apart by (simp add: can_pay_coin_def purses_at_def native_def)
  moreover have "pay_coins (wrap_addr h) ''user'' [native x d] (purses_at h user wrap) =
      purses_at h (user(d := user d + x)) (wrap(d := wrap d - x))"
    using apart by (auto simp: pay_coin_def purses_at_def native_def Let_def fun_eq_iff)
  ultimately show ?thesis
    by (simp add: coins_move_def bank_operations(2)[OF wrap_host_facts(2)[OF assms(1)]] wrap_state_def
        del: pay_coins.simps can_pay_coins.simps)
qed

lemma token_does_at:
  assumes "wraps h stored kept" and "d \<in> {LUNC_DENOM, USTC_DENOM}"
    and "f (stored (wrapped_ledger h (l d))) = Ok (stored v, r)"
    and "v = wrapped_ledger h sb"
  shows "token_does (token_of h d) f (wrap_state h stored kept t stop lims rolls user wrap l) =
    Ok (wrap_state h stored kept t stop lims rolls user wrap (l(d := sb)), r)"
  using assms(2-) wrap_host_facts(5,6)[OF assms(1)]
  by (auto simp: token_does_def wrap_state_def token_of_def fun_upd_twist)

lemma token_holds:
  assumes "wraps h stored kept" and "d \<in> {LUNC_DENOM, USTC_DENOM}"
  shows "na_tokens (wrap_state h stored kept t stop lims rolls user wrap l) (token_of h d) =
    Some (stored (wrapped_ledger h (l d)))"
  using assms(2-) wrap_host_facts(5,6)[OF assms(1)] by (auto simp: wrap_state_def token_of_def)

lemma find_pair:
  assumes "wraps h stored kept" and "d \<in> {LUNC_DENOM, USTC_DENOM}"
  shows "List.find (\<lambda>p. dp_native_denom p = d) (nc_pairs (wrap_config_at h stop lims)) = Some (pair_for h lims d)"
    and "List.find (\<lambda>p. dp_wrapped_token p = token_of h d) (nc_pairs (wrap_config_at h stop lims)) =
      Some (pair_for h lims d)"
  using assms(2) wrap_host_facts(5,6)[OF assms(1)] by (auto simp: wrap_config_at_def pair_for_def token_of_def)

section \<open>Wrap and unwrap\<close>

definition wrap_text :: "('c, 'b) wrap_host \<Rightarrow> wrap_error \<Rightarrow> string" where
  "wrap_text h e = wrap_error_text (nh_std_text h) (nh_overflow_text h) e"

definition rolling_of :: "wrap_rolling option \<Rightarrow> wrap_rolling" where
  "rolling_of r = (case r of None \<Rightarrow> \<lparr>wr_window_start_sec = 0, wr_volume_wrap = 0\<rparr> | Some r \<Rightarrow> r)"

lemma config_fields [simp]:
  "nc_fee_bps (wrap_config_at h stop lims) = 50" "nc_paused (wrap_config_at h stop lims) = stop"
  "dp_native_denom (pair_for h lims d) = d" "dp_wrapped_token (pair_for h lims d) = token_of h d"
  "load_rolling (na_wrap (wrap_state h stored kept t stop lims rolls user wrap l)) d = rolling_of (rolls d)"
  by (simp_all add: wrap_config_at_def pair_for_def load_rolling_def rolling_of_def)

definition wrap_answer :: "('c, 'b) wrap_host \<Rightarrow> string \<Rightarrow> u128 \<Rightarrow> cw20_execute_msg response" where
  "wrap_answer h d out =
     with_fee_split_attributes
       (add_attribute ''wrapped_out'' (show_nat (unat out))
       (add_attribute ''denom'' d
       (add_attribute ''action'' ''wrap''
       (add_message (WasmExecute (token_of h d) (Cw20Mint ''user'' out) []) new_response)))) 50"

definition unwrap_answer :: "('c, 'b) wrap_host \<Rightarrow> string \<Rightarrow> u128 \<Rightarrow> u128 \<Rightarrow> cw20_execute_msg response" where
  "unwrap_answer h d g out =
     with_fee_split_attributes
       (add_attribute ''native_out'' (show_nat (unat out))
       (add_attribute ''denom'' d
       (add_attribute ''action'' ''unwrap''
       (add_message (BankSend ''user'' [native out d])
       (add_message (WasmExecute (token_of h d) (Cw20Burn g) []) new_response))))) 50"

lemma fee_messages: "messages (with_fee_split_attributes r f) = messages r"
  by (simp add: with_fee_split_attributes_def Let_def chain_tax_and_cmm_protocol_def)

lemma swap_messages:
  "messages (wrap_answer h d out) = [WasmExecute (token_of h d) (Cw20Mint ''user'' out) []]"
  "messages (unwrap_answer h d g out) =
     [WasmExecute (token_of h d) (Cw20Burn g) [], BankSend ''user'' [native out d]]"
  by (simp_all add: wrap_answer_def unwrap_answer_def fee_messages)

lemma wrapped:
  assumes host: "wraps h stored kept" and d: "d \<in> {LUNC_DENOM, USTC_DENOM}"
    and x: "0 < x" "unat x < 2 ^ 64" "x \<le> user d" "0 < after_fee x 50"
    and room: "unat (wrap d) < 2 ^ 64" "fst (l d) < 2 ^ 64" "unat (snd (l d)) < 2 ^ 64"
  shows "wrap_call h ''user'' [native x d] Wrap (wrap_state h stored kept t stop lims rolls user wrap l) =
    and_then (map_err (wrap_text h) (if stop then Err wrap_error.Paused
        else wrap_ensure_limits \<lparr>block_nanos = t, contract_address = wrap_addr h\<rparr> (rolling_of (rolls d))
          (pair_for h lims d) (after_fee x 50))) (\<lambda>r.
      Ok (wrap_state h stored kept t stop lims (rolls(d := Some r)) (user(d := user d - x)) (wrap(d := wrap d + x))
        (l(d := (fst (l d) + unat (after_fee x 50), snd (l d) + after_fee x 50))),
        wrap_answer h d (after_fee x 50)))"
proof -
  let ?out = "after_fee x 50"
  let ?e = "\<lparr>block_nanos = t, contract_address = wrap_addr h\<rparr>"
  let ?paid = "wrap_state h stored kept t stop lims rolls (user(d := user d - x)) (wrap(d := wrap d + x)) l"
  let ?limits = "wrap_ensure_limits ?e (rolling_of (rolls d)) (pair_for h lims d) ?out"
  note ops = cw20_operations[OF wrap_host_facts(1)[OF host]]
  note apart = wrap_host_facts(5,6)[OF host]
  have fee: "apply_fee_ust1 x 50 = Ok ?out" "?out \<le> x" using after_fee_facts[of 50 x] x(2) by simp_all
  then have out: "unat ?out < 2 ^ 64" using x(2) by (simp add: word_le_nat_alt)
  have pay: "coins_move h ''user'' (wrap_addr h) [native x d] (wrap_state h stored kept t stop lims rolls user wrap l) = Ok ?paid"
    by (rule coins_move_in[OF host x(1), where user = user and wrap = wrap and d = d]) (use room x in simp_all)
  have "execute_wrap (nh_api h) ?e \<lparr>sender = ''user'', funds = [native x d]\<rparr> (na_wrap ?paid) =
    and_then (if stop then Err wrap_error.Paused else ?limits) (\<lambda>r.
      Ok ((na_wrap ?paid)\<lparr>n_rolling := rolls(d := Some r)\<rparr>, wrap_answer h d ?out))"
  proof (cases stop)
    case True
    then show ?thesis by (simp add: execute_wrap_def wrap_config_at_def)
  next
    case False
    have coin: "coin_amount (native x d) = x" "coin_denom (native x d) = d" by (simp_all add: native_def)
    have "x \<noteq> 0" using x(1) by auto
    then show ?thesis
      using False
      by (simp add: execute_wrap_def coin find_pair(1)[OF host d] fee(1) wrap_host_facts[OF host]
          Let_def wrap_answer_def)
  qed
  note answer = this
  have mint: "can_mint (wrap_addr h) ''user'' ?out (wrapped_ledger h (l d))"
    using x(4) out room apart by (simp add: wrapped_ledger_def user_ledger_allows)
  have minted: "cw20_execute (nh_cw20 h) (wrap_addr h) (Cw20Mint ''user'' ?out)
      (stored (wrapped_ledger h (l d))) =
    Ok (stored (wrapped_ledger h (fst (l d) + unat ?out, snd (l d) + ?out)))"
    using apart by (simp add: ops(3)[OF mint], simp add: wrapped_ledger_def user_ledger_moves)
  have deliver: "deliver_all (deliver_from_wrap h) (messages (wrap_answer h d ?out))
      (wrap_state h stored kept t stop lims rolls' user' wrap' l) =
    Ok (wrap_state h stored kept t stop lims rolls' user' wrap'
      (l(d := (fst (l d) + unat ?out, snd (l d) + ?out))))" for rolls' user' wrap'
    by (simp add: swap_messages deliver_from_wrap_def token_executes_def minted
        token_does_at[OF host d, of _ l _ "()" "(fst (l d) + unat ?out, snd (l d) + ?out)", OF _ refl])
  show ?thesis
  proof (cases "if stop then Err wrap_error.Paused else ?limits")
    case (Inl f)
    then show ?thesis
      by (cases f) (simp_all add: wrap_call_def pay wrap_execute_def answer wrap_text_def[abs_def])
  next
    case (Inr r)
    then show ?thesis
      by (simp add: wrap_call_def pay wrap_execute_def answer deliver)
  qed
qed

lemma unwrapped:
  assumes host: "wraps h stored kept" and d: "d \<in> {LUNC_DENOM, USTC_DENOM}"
    and g: "0 < g" "unat g < 2 ^ 64" "g \<le> snd (l d)" "unat g \<le> fst (l d)" "0 < after_fee g 50"
    and room: "unat (user d) < 2 ^ 64"
  shows "send_to_wrap h (token_of h d) ''user'' g (Unwrap min_out)
      (wrap_state h stored kept t stop lims rolls user wrap l) =
    and_then (map_err (wrap_text h) (if stop then Err wrap_error.Paused
        else if after_fee g 50 < min_out then Err wrap_error.BelowMinimum
        else if wrap d < after_fee g 50 then Err InsufficientNative
        else wrap_ensure_limits \<lparr>block_nanos = t, contract_address = wrap_addr h\<rparr> (rolling_of (rolls d))
          (pair_for h lims d) g)) (\<lambda>r.
      Ok (wrap_state h stored kept t stop lims (rolls(d := Some r)) (user(d := user d + after_fee g 50))
        (wrap(d := wrap d - after_fee g 50)) (l(d := (fst (l d) - unat g, snd (l d) - g))),
        unwrap_answer h d g (after_fee g 50)))"
  (is "_ = and_then (map_err _ ?decision) _")
proof -
  let ?out = "after_fee g 50"
  let ?e = "\<lparr>block_nanos = t, contract_address = wrap_addr h\<rparr>"
  let ?L = "wrapped_ledger h"
  note ops = cw20_operations[OF wrap_host_facts(1)[OF host]]
  note apart = wrap_host_facts(5,6)[OF host]
  have fee: "apply_fee_ust1 g 50 = Ok ?out" "?out \<le> g" using after_fee_facts[of 50 g] g(2) by simp_all
  then have out: "unat ?out < 2 ^ 64" using g(2) by (simp add: word_le_nat_alt)
  have pay: "can_pay ''user'' (wrap_addr h) g (?L (l d))"
    and burn: "can_burn (wrap_addr h) g (transfer ''user'' (wrap_addr h) g (?L (l d)))"
    using g apart by (simp_all add: wrapped_ledger_def user_ledger_allows)
  let ?moved = "\<lambda>w l'. \<lparr>na_time = t, na_wrap = w, na_tokens = (\<lambda>a. if a = token_of h d then Some (stored l')
      else na_tokens (wrap_state h stored kept t stop lims rolls user wrap l) a), na_bank = kept (purses_at h user wrap)\<rparr>"
  let ?w = "na_wrap (wrap_state h stored kept t stop lims rolls user wrap l)"
  have sent: "token_does (token_of h d) (cw20_send (nh_cw20 h) ''user'' (wrap_addr h) g (nh_hook h (Unwrap min_out)))
      (wrap_state h stored kept t stop lims rolls user wrap l) =
    Ok (?moved ?w (transfer ''user'' (wrap_addr h) g (?L (l d))),
      \<lparr>cw20_sender = ''user'', cw20_amount = g, cw20_msg = nh_hook h (Unwrap min_out)\<rparr>)"
    by (simp add: token_does_def token_holds[OF host d] ops(6)[OF pay] fun_eq_iff)
  have balance: "bank_balance (nh_bank h) (kept (purses_at h user wrap)) (wrap_addr h) d = wrap d"
    using apart by (simp add: bank_operations(3)[OF wrap_host_facts(2)[OF host]] purses_at_def)
  have answer: "wrap_receive_cw20 (nh_api h) (nh_json h)
      (\<lambda>a d. Ok (bank_balance (nh_bank h) (kept (purses_at h user wrap)) a d)) ?e
      \<lparr>sender = token_of h d, funds = []\<rparr>
      \<lparr>cw20_sender = ''user'', cw20_amount = g, cw20_msg = nh_hook h (Unwrap min_out)\<rparr> ?w =
    and_then ?decision (\<lambda>r. Ok (?w\<lparr>n_rolling := rolls(d := Some r)\<rparr>, unwrap_answer h d g ?out))"
    by (simp add: wrap_receive_cw20_def find_pair(2)[OF host d] fee(1) wrap_host_facts[OF host] balance
        Let_def unwrap_answer_def native_def)
  have shape: "?moved w (?L sb) = (wrap_state h stored kept t stop lims rolls user wrap (l(d := sb)))\<lparr>na_wrap := w\<rparr>" for w sb
    using d apart by (auto simp: wrap_state_def token_of_def fun_eq_iff)
  have burned: "?moved w (burn (wrap_addr h) g (transfer ''user'' (wrap_addr h) g (?L (l d)))) =
    (wrap_state h stored kept t stop lims rolls user wrap (l(d := (fst (l d) - unat g, snd (l d) - g))))\<lparr>na_wrap := w\<rparr>" for w
  proof -
    have "burn (wrap_addr h) g (transfer ''user'' (wrap_addr h) g (?L (l d))) = ?L (fst (l d) - unat g, snd (l d) - g)"
      using apart by (simp add: wrapped_ledger_def user_ledger_moves)
    then show ?thesis by (simp only: shape)
  qed
  have burn_done: "cw20_execute (nh_cw20 h) (wrap_addr h) (Cw20Burn g)
      (stored (transfer ''user'' (wrap_addr h) g (?L (l d)))) =
    Ok (stored (burn (wrap_addr h) g (transfer ''user'' (wrap_addr h) g (?L (l d)))))"
    by (rule ops(4)[OF burn])
  let ?after = "\<lambda>r. wrap_state h stored kept t stop lims (rolls(d := Some r)) user wrap
    (l(d := (fst (l d) - unat g, snd (l d) - g)))"
  have burned_to: "token_executes h (wrap_addr h) (token_of h d) (Cw20Burn g)
      (?moved (?w\<lparr>n_rolling := rolls(d := Some r)\<rparr>) (transfer ''user'' (wrap_addr h) g (?L (l d)))) = Ok (?after r)" for r
  proof -
    have "token_executes h (wrap_addr h) (token_of h d) (Cw20Burn g)
        (?moved w (transfer ''user'' (wrap_addr h) g (?L (l d)))) =
      Ok (?moved w (burn (wrap_addr h) g (transfer ''user'' (wrap_addr h) g (?L (l d)))))" for w
      by (simp add: token_executes_def token_does_def burn_done fun_upd_def if_distrib cong: if_cong)
    then show ?thesis unfolding burned by (simp add: wrap_state_def)
  qed
  have paid: "coins_move h (wrap_addr h) ''user'' [native ?out d] (?after r) =
      Ok (wrap_state h stored kept t stop lims (rolls(d := Some r)) (user(d := user d + ?out))
        (wrap(d := wrap d - ?out)) (l(d := (fst (l d) - unat g, snd (l d) - g))))" if "?out \<le> wrap d" for r
    by (rule coins_move_out[OF host g(5), where user = user and wrap = wrap and d = d]) (use that out room in simp_all)
  show ?thesis
  proof (cases "?decision")
    case (Inl f)
    then show ?thesis
      by (cases f) (simp_all add: send_to_wrap_def sent wrap_call_def wrap_execute_def answer wrap_text_def[abs_def])
  next
    case (Inr r)
    then have "?out \<le> wrap d" by (auto simp: not_less split: if_splits)
    with Inr show ?thesis
      by (simp add: send_to_wrap_def sent wrap_call_def wrap_execute_def answer swap_messages deliver_from_wrap_def
          burned_to paid)
  qed
qed

end
