(* ===== verification/Test_Wrap_Pass.thy ===== *)
theory Test_Wrap_Pass
  imports Test_Wrap_Runs Test_Window_Pass
begin

text \<open>Each test of the wrap contract, run on the simulated chain step by step.\<close>

section \<open>The other steps of the tests\<close>

text \<open>After the set-up: the coins of the user, no wrapped token yet.\<close>

definition first_limits :: "string \<Rightarrow> u128 \<times> u128" where
  "first_limits d = (500000000, 2500000000)"

definition first_purse :: "string \<Rightarrow> u128" where
  "first_purse d = (if d = LUNC_DENOM \<or> d = USTC_DENOM then 1000000000 else 0)"

lemma instantiated:
  assumes host: "wraps h stored kept"
  shows "instantiate_wrap h (wrap_msg_of h) t = Ok \<lparr>n_contract_info = Some (WRAP_CONTRACT_NAME, nh_version h),
    n_config = Some (wrap_config_at h False first_limits), n_rolling = (\<lambda>_. None), n_pending_governance = None\<rparr>"
proof -
  have "read_pairs (nh_api h) (ni_pairs (wrap_msg_of h)) = Ok [pair_for h first_limits LUNC_DENOM, pair_for h first_limits USTC_DENOM]"
    by (simp add: wrap_msg_of_def wrap_host_facts[OF host] pair_for_def token_of_def first_limits_def)
  moreover have "validate_pairs [pair_for h first_limits LUNC_DENOM, pair_for h first_limits USTC_DENOM] = Ok ()"
    using wrap_host_facts(5)[OF host] by (simp add: validate_pairs_def token_of_def)
  ultimately show ?thesis
    by (simp add: instantiate_wrap_def wrap_instantiate_def wrap_set_contract_version_def wrap_empty_def
        wrap_host_facts[OF host] wrap_config_at_def Let_def BPS_DENOM_def wrap_msg_of_def)
qed

lemma set_up_wrap:
  assumes host: "wraps h stored kept"
  shows "wrap_setup h = Ok (wrap_state h stored kept (nh_start h) False first_limits (\<lambda>_. None) first_purse
    (\<lambda>_. 0) (\<lambda>_. (0, 0)))"
proof -
  note ops = cw20_operations[OF wrap_host_facts(1)[OF host]]
  have endow: "endowed ''user'' [native 1000000000 LUNC_DENOM, native 1000000000 USTC_DENOM] =
      purses_at h first_purse (\<lambda>_. 0)"
    using wrap_host_facts(5,6)[OF host]
    by (auto simp: endowed_def purses_at_def first_purse_def native_def fun_eq_iff)
  have denoms: "distinct (map coin_denom [native 1000000000 LUNC_DENOM, native 1000000000 USTC_DENOM])"
    by (simp add: native_def)
  have minter: "cw20_add_minter (nh_cw20 h) ''owner'' (wrap_addr h) (stored (new_ledger ''owner'' 6)) =
      Ok (stored (wrapped_ledger h (0, 0)))"
    using wrap_host_facts(5,6)[OF host]
    by (subst ops(2)) (simp_all add: new_ledger_def[THEN arg_cong[where f = lg_admin]] wrapped_ledger_def user_ledger_moves)
  show ?thesis
    by (simp add: wrap_setup_def bank_operations(1)[OF wrap_host_facts(2)[OF host] denoms] endow ops(1) minter
        instantiated[OF host] test_simps wrap_state_def)
qed

lemma wrap_governed:
  shows "d \<in> {LUNC_DENOM, USTC_DENOM} \<Longrightarrow>
      wrap_call h ''owner'' [] (SetPairLimits d a b) (wrap_state h stored kept t stop lims rolls user wrap l) =
      Ok (wrap_state h stored kept t stop (lims(d := (a, b))) rolls user wrap l,
        add_attribute ''action'' ''set_pair_limits'' new_response)"
    and "wrap_call h ''owner'' [] (wrap_execute_msg.SetPaused stop') (wrap_state h stored kept t stop lims rolls user wrap l) =
      Ok (wrap_state h stored kept t stop' lims rolls user wrap l, add_attribute ''action'' ''set_paused'' new_response)"
  by (auto simp: wrap_call_def wrap_execute_def exec_set_pair_limits_def wrap_set_paused_def wrap_state_def
      wrap_config_at_def pair_for_def)

lemma wrapped_minted:
  assumes host: "wraps h stored kept" and x: "0 < x" "fst (l LUNC_DENOM) + unat x < 2 ^ 64"
    "unat (snd (l LUNC_DENOM)) + unat x < 2 ^ 64"
  shows "token_executes h ''owner'' (wlunc_addr h) (Cw20Mint ''user'' x)
      (wrap_state h stored kept t stop lims rolls user wrap l) =
    Ok (wrap_state h stored kept t stop lims rolls user wrap
      (l(LUNC_DENOM := (fst (l LUNC_DENOM) + unat x, snd (l LUNC_DENOM) + x))))"
proof -
  note ops = cw20_operations[OF wrap_host_facts(1)[OF host]]
  have can: "can_mint ''owner'' ''user'' x (wrapped_ledger h (l LUNC_DENOM))"
    using x wrap_host_facts(5,6)[OF host] by (simp add: wrapped_ledger_def user_ledger_allows)
  have "mint ''user'' x (wrapped_ledger h (l LUNC_DENOM)) = wrapped_ledger h (fst (l LUNC_DENOM) + unat x, snd (l LUNC_DENOM) + x)"
    using wrap_host_facts(5,6)[OF host] by (simp add: wrapped_ledger_def user_ledger_moves)
  then have "token_does (token_of h LUNC_DENOM) (\<lambda>c. and_then (cw20_execute (nh_cw20 h) ''owner'' (Cw20Mint ''user'' x) c)
      (\<lambda>c. Ok (c, ()))) (wrap_state h stored kept t stop lims rolls user wrap l) =
    Ok (wrap_state h stored kept t stop lims rolls user wrap
      (l(LUNC_DENOM := (fst (l LUNC_DENOM) + unat x, snd (l LUNC_DENOM) + x))), ())"
    by (intro token_does_at[OF host, OF _ _ refl]) (simp_all add: ops(3)[OF can])
  then show ?thesis by (simp add: token_executes_def token_of_def)
qed

lemma wrap_balances:
  assumes host: "wraps h stored kept"
  shows "wrapped_balance h (wlunc_addr h) ''user'' (wrap_state h stored kept t stop lims rolls user wrap l) =
      Ok (snd (l LUNC_DENOM))"
    and "native_balance h ''user'' d (wrap_state h stored kept t stop lims rolls user wrap l) = user d"
  using token_holds[OF host, of LUNC_DENOM] wrap_host_facts(5,6)[OF host]
  by (simp_all add: wrapped_balance_def native_balance_def token_of_def test_simps
      cw20_operations[OF wrap_host_facts(1)[OF host]] wrapped_ledger_def user_ledger_moves
      bank_operations[OF wrap_host_facts(2)[OF host]] purses_at_def)

section \<open>The tests\<close>

lemma wrap_error_words:
  "str_contains (wrap_text h wrap_error.PerTxLimit) ''per-tx''" "str_contains (wrap_text h wrap_error.RollingLimit) ''rolling''"
  "str_contains (wrap_text h wrap_error.Paused) ''paused''"
  "str_contains (wrap_text h UnknownWrappedToken) ''cw20''"
  "str_contains (wrap_text h wrap_error.BelowMinimum) ''minimum''"
  "str_contains (wrap_text h InsufficientNative) ''native''"
  "str_contains (wrap_text h InvalidNativeFunds) ''native''"
  "str_contains (wrap_text h (InvalidPairDenoms a b)) ''instantiate''"
  by (simp_all add: wrap_text_def wrap_error_text_def str_contains_def sublist_Cons_right)

lemma after_fee_50:
  "after_fee 1000000 50 = 995000" "after_fee 2000000 50 = 1990000" "after_fee 300000000 50 = 298500000"
  "after_fee 100000 50 = 99500" "after_fee 5000000 50 = 4975000" "after_fee 4975000 50 = 4950125"
  by (simp_all add: after_fee_def)

lemma token_of_denoms [simp]: "token_of h LUNC_DENOM = wlunc_addr h" "token_of h USTC_DENOM = wustc_addr h"
  by (simp_all add: token_of_def)

lemmas unwrapped_tokens = unwrapped[where d = LUNC_DENOM, unfolded token_of_denoms, OF _ insertI1]
  unwrapped[where d = USTC_DENOM, unfolded token_of_denoms, OF _ insertI2, OF _ insertI1]

lemmas wrap_eval = test_simps after_fee_50 wrap_error_words wrap_fails_def wrap_ensure_limits_def rolling_of_def
  pair_for_def first_limits_def first_purse_def Let_def plain_add_def checked_add_def word_less_nat_alt
  word_le_nat_alt max_u128

lemmas wrap_steps = set_up_wrap wrapped unwrapped_tokens wrap_balances wrapped_minted wrap_host_facts(12)

lemma wrap_lunc_mints_wlunc_after_fee_passes:
  assumes host: "wraps h stored kept"
  shows "passes (wrap_lunc_mints_wlunc_after_fee h)"
  unfolding wrap_lunc_mints_wlunc_after_fee_def
  by (simp add: wrap_steps[OF host] wrap_governed wrap_eval)

lemma unwrap_wustc_returns_uusd_passes:
  assumes host: "wraps h stored kept"
  shows "passes (unwrap_wustc_returns_uusd h)"
  unfolding unwrap_wustc_returns_uusd_def
  by (simp add: wrap_steps[OF host] wrap_governed wrap_eval)

lemma per_tx_limit_blocks_wrap_passes:
  assumes host: "wraps h stored kept"
  shows "passes (per_tx_limit_blocks_wrap h)"
  unfolding per_tx_limit_blocks_wrap_def
  by (simp add: wrap_steps[OF host] wrap_governed wrap_eval)

lemma rolling_limit_blocks_second_wrap_passes:
  assumes host: "wraps h stored kept"
  shows "passes (rolling_limit_blocks_second_wrap h)"
  unfolding rolling_limit_blocks_second_wrap_def
  by (simp add: wrap_steps[OF host] wrap_governed wrap_eval)

lemma paused_blocks_wrap_passes:
  assumes host: "wraps h stored kept"
  shows "passes (paused_blocks_wrap h)"
  unfolding paused_blocks_wrap_def
  by (simp add: wrap_steps[OF host] wrap_governed wrap_eval)

lemma unwrap_below_min_native_rejected_passes:
  assumes host: "wraps h stored kept"
  shows "passes (unwrap_below_min_native_rejected h)"
  unfolding unwrap_below_min_native_rejected_def
  by (simp add: wrap_steps[OF host] wrap_governed wrap_eval)

lemma unwrap_insufficient_native_in_contract_passes:
  assumes host: "wraps h stored kept"
  shows "passes (unwrap_insufficient_native_in_contract h)"
  unfolding unwrap_insufficient_native_in_contract_def
  by (simp add: wrap_steps[OF host] wrap_governed wrap_eval)

lemma rolling_window_resets_after_24h_passes:
  assumes host: "wraps h stored kept"
  shows "passes (rolling_window_resets_after_24h h)"
  unfolding rolling_window_resets_after_24h_def
  by (simp add: wrap_steps[OF host] wrap_governed wrap_eval)

lemma wrap_answer_attributes:
  "attributes (wrap_answer h d out) = [(''action'', ''wrap''), (''denom'', d), (''wrapped_out'', show_nat (unat out)),
     (''fee_total_bps'', show_nat 50), (''fee_chain_tax_bps'', show_nat 25), (''fee_cmm_protocol_bps'', show_nat 25)]"
  by (simp add: wrap_answer_def with_fee_split_attributes_def chain_tax_and_cmm_protocol_def Let_def)

lemma effective_wrap_and_wrap_events_expose_fee_split_passes:
  assumes host: "wraps h stored kept"
  shows "passes (effective_wrap_and_wrap_events_expose_fee_split h)"
proof -
  have digits: "show_nat 25 = ''25''" by code_simp
  have find: "List.find (\<lambda>p. dp_native_denom p = LUNC_DENOM) (nc_pairs (wrap_config_at h False first_limits)) =
      Some (pair_for h first_limits LUNC_DENOM)"
    by (rule find_pair(1)[OF host]) simp
  show ?thesis
    unfolding effective_wrap_and_wrap_events_expose_fee_split_def
    by (simp add: wrap_steps[OF host] query_effective_wrap_def find wrap_eval chain_tax_and_cmm_protocol_def event_attr_def
        wrap_answer_attributes shown digits)
qed

lemma unknown_cw20_rejected_passes:
  assumes host: "wraps h stored kept"
  shows "passes (unknown_cw20_rejected h)"
proof -
  note ops = cw20_operations[OF wrap_host_facts(1)[OF host]]
  note apart = wrap_host_facts(5,6)[OF host]
  have mint: "can_mint ''owner'' ''user'' 1000000 (new_ledger ''owner'' 6)"
    by (simp add: can_mint_def new_ledger_def)
  have pay: "can_pay ''user'' (wrap_addr h) 100 (mint ''user'' 1000000 (new_ledger ''owner'' 6))"
    using apart by (simp add: can_pay_def new_ledger_def mint_def word_le_nat_alt)
  show ?thesis
    unfolding unknown_cw20_rejected_def
    using apart
    by (simp add: set_up_wrap[OF host] ops mint pay test_simps Let_def token_executes_def token_does_def
        send_to_wrap_def wrap_fails_def wrap_state_def wrap_call_def wrap_execute_def wrap_receive_cw20_def
        wrap_config_at_def pair_for_def wrap_error_words[unfolded wrap_text_def])
qed

lemma two_native_coins_rejected_passes:
  assumes host: "wraps h stored kept"
  shows "passes (two_native_coins_rejected h)"
proof -
  have "can_pay_coins ''user'' (wrap_addr h) [native 100 LUNC_DENOM, native 100 USTC_DENOM]
      (purses_at h first_purse (\<lambda>_. 0))"
    using wrap_host_facts(5,6)[OF host]
    by (simp add: can_pay_coin_def pay_coin_def native_def purses_at_def first_purse_def word_le_nat_alt Let_def)
  then show ?thesis
    unfolding two_native_coins_rejected_def
    by (simp add: set_up_wrap[OF host] wrap_call_def coins_move_def test_simps
        bank_operations(2)[OF wrap_host_facts(2)[OF host]] wrap_execute_def execute_wrap_def wrap_state_def
        wrap_error_words[unfolded wrap_text_def] del: can_pay_coins.simps pay_coins.simps)
qed

lemma instantiate_wrong_denom_set_rejected_passes:
  assumes host: "wraps h stored kept"
  shows "passes (instantiate_wrong_denom_set_rejected h)"
proof -
  have addrs: "nh_address h 0 = wlunc_addr h" "nh_address h 1 = wustc_addr h"
    by (simp_all add: wlunc_addr_def wustc_addr_def)
  show ?thesis
    unfolding instantiate_wrong_denom_set_rejected_def addrs
    by (simp add: cw20_operations(1)[OF wrap_host_facts(1)[OF host]] instantiate_wrap_def wrap_instantiate_def
        wrap_host_facts[OF host] validate_pairs_def test_simps BPS_DENOM_def Let_def
        wrap_error_words[unfolded wrap_text_def])
      (simp add: LUNC_DENOM_def USTC_DENOM_def test_simps wrap_error_words[unfolded wrap_text_def])
qed

lemma wrap_multitest_passes:
  assumes host: "wraps h stored kept"
  shows "list_all (\<lambda>t. passes (t h)) wrap_multitests"
  unfolding wrap_multitests_def list.pred_inject(2)
  by (intro conjI list.pred_inject(1)
      wrap_lunc_mints_wlunc_after_fee_passes[OF host]
      effective_wrap_and_wrap_events_expose_fee_split_passes[OF host]
      unwrap_wustc_returns_uusd_passes[OF host]
      per_tx_limit_blocks_wrap_passes[OF host]
      rolling_limit_blocks_second_wrap_passes[OF host]
      paused_blocks_wrap_passes[OF host]
      unknown_cw20_rejected_passes[OF host]
      unwrap_below_min_native_rejected_passes[OF host]
      unwrap_insufficient_native_in_contract_passes[OF host]
      two_native_coins_rejected_passes[OF host]
      instantiate_wrong_denom_set_rejected_passes[OF host]
      rolling_window_resets_after_24h_passes[OF host])

section \<open>A host that behaves as documented\<close>

text \<open>Its bank keeps the purses themselves.\<close>

definition purse_bank :: "purses bank_lib" where
  "purse_bank = \<lparr>
     bank_init_balance = (\<lambda>holder coins. if distinct (map coin_denom coins) then Ok (endowed holder coins) else Err ''refused''),
     bank_transfer = (\<lambda>payer recipient coins f. if coins \<noteq> [] \<and> can_pay_coins payer recipient coins f
        then Ok (pay_coins payer recipient coins f) else Err ''refused''),
     bank_balance = (\<lambda>f. f)\<rparr>"

lemma purse_bank_behaves: "behaves_as_bank purse_bank (\<lambda>f. f)"
  by (simp add: behaves_as_bank_def purse_bank_def)

definition encode_unwrap :: "wrap_hook_msg \<Rightarrow> binary" where
  "encode_unwrap m = (case m of Unwrap min_out \<Rightarrow> show_nat (unat min_out))"

definition decode_unwrap :: wrap_from_json where
  "decode_unwrap b = (case parse_uint b of Some n \<Rightarrow> Ok (Unwrap n) | None \<Rightarrow> Err (OtherStdErr ''no hook''))"

lemma unwrap_roundtrip: "decode_unwrap (encode_unwrap m) = Ok m"
  by (simp add: decode_unwrap_def encode_unwrap_def parse_uint_show_nat split: wrap_hook_msg.splits)

definition plain_wrap_host :: "(ledger, purses) wrap_host" where
  "plain_wrap_host = \<lparr>nh_api = plain_api, nh_json = decode_unwrap, nh_hook = encode_unwrap,
     nh_std_text = (\<lambda>_. ''error''), nh_overflow_text = (\<lambda>_. ''overflow''), nh_cw20 = ledger_cw20,
     nh_bank = purse_bank, nh_start = 1571797419879305533, nh_version = ''0.1.0'',
     nh_address = (\<lambda>n. ''contract'' @ show_nat n)\<rparr>"

lemma plain_wrap_host_wraps: "wraps plain_wrap_host (\<lambda>l. l) (\<lambda>f. f)"
  unfolding wraps_def
  by (intro conjI) (simp_all add: plain_wrap_host_def ledger_cw20_behaves purse_bank_behaves unwrap_roundtrip
      plain_api_def wlunc_addr_def wustc_addr_def wrap_addr_def other_addr_def shown(3))

end
