(* ===== verification/Test_Server.thy ===== *)
theory Test_Server
  imports Test_Terra Test_Confirm Test_Rates Test_Config Service_Loop_Safety
begin

text \<open>
  The mock HTTP server of the tests of the oracle service, and what the service is run
  against there: a clock, the server behind the LCD URL, and the BSC providers behind their
  URLs. \<open>wiremock\<close>, \<open>serde_json\<close>, base64, the wallet and the BSC client are third-party code.
\<close>

section \<open>The server\<close>

text \<open>
  The matchers the tests use: \<open>path\<close>, and \<open>path_regex\<close> with \<open>^p.*\<close>, \<open>^p.*s.*\<close> and \<open>s.*\<close>.
  A path has no line break, so \<open>.*\<close> matches whatever follows.
\<close>

datatype path_matcher = Exactly string | Begins string | BeginsThen string string | Contains string

fun path_matches :: "path_matcher \<Rightarrow> string \<Rightarrow> bool" where
  "path_matches (Exactly p) u = (u = p)"
| "path_matches (Begins p) u = prefix p u"
| "path_matches (BeginsThen p s) u = (prefix p u \<and> str_contains (drop (length p) u) s)"
| "path_matches (Contains s) u = str_contains u s"

text \<open>
  A mock answers while it is below its limit (\<open>up_to_n_times\<close>), counts its answers, and when
  the server is dropped the count must be the expected one (\<open>expect\<close>).
\<close>

record mock =
  mk_method :: string
  mk_path :: path_matcher
  mk_response :: http_response
  mk_limit :: "nat option"
  mk_expected :: "nat option"
  mk_hits :: nat

definition respond :: "string \<Rightarrow> path_matcher \<Rightarrow> http_response \<Rightarrow> mock" where
  "respond meth p r = \<lparr>mk_method = meth, mk_path = p, mk_response = r, mk_limit = None,
     mk_expected = None, mk_hits = 0\<rparr>"

definition up_to_n_times :: "nat \<Rightarrow> mock \<Rightarrow> mock" where
  "up_to_n_times n m = m\<lparr>mk_limit := Some n\<rparr>"

definition expect_times :: "nat \<Rightarrow> mock \<Rightarrow> mock" where
  "expect_times n m = m\<lparr>mk_expected := Some n\<rparr>"

definition json_response :: "u16 \<Rightarrow> json \<Rightarrow> http_response" where
  "json_response c body = \<lparr>status = c, body_json = Ok body\<rparr>"

text \<open>A response with no body: its JSON cannot be read.\<close>

definition empty_response :: "u16 \<Rightarrow> http_response" where
  "empty_response c = \<lparr>status = c, body_json = Err ''error decoding response body''\<rparr>"

definition answers_request :: "string \<Rightarrow> string \<Rightarrow> mock \<Rightarrow> bool" where
  "answers_request meth u m \<longleftrightarrow> mk_method m = meth \<and> path_matches (mk_path m) u \<and>
     (case mk_limit m of None \<Rightarrow> True | Some n \<Rightarrow> mk_hits m < n)"

text \<open>The first mock that matches answers; where none does the answer is 404.\<close>

fun serve :: "string \<Rightarrow> string \<Rightarrow> mock list \<Rightarrow> http_response \<times> mock list" where
  "serve meth u [] = (empty_response 404, [])"
| "serve meth u (m # ms) =
     (if answers_request meth u m then (mk_response m, m\<lparr>mk_hits := Suc (mk_hits m)\<rparr> # ms)
      else let (r, ms) = serve meth u ms in (r, m # ms))"

definition expectations_met :: "mock list \<Rightarrow> bool" where
  "expectations_met ms \<longleftrightarrow>
     list_all (\<lambda>m. case mk_expected m of None \<Rightarrow> True | Some n \<Rightarrow> mk_hits m = n) ms"

section \<open>The BSC providers\<close>

text \<open>A JSON-RPC mock: the words the body of the request contains, and the number it returns.\<close>

type_synonym rpc_mock = "string list \<times> u256"

definition mount_bsc_rpc :: "u128 \<Rightarrow> rpc_mock list" where
  "mount_bsc_rpc rate =
     [([''eth_chainId''], 0x7a69), ([''eth_blockNumber''], 0x64),
      ([''eth_call'', ''182df0f5''], ucast rate), ([''eth_call'', ''6f307dc3''], 1),
      ([''eth_call'', ''313ce567''], 18)]"

text \<open>The answer to a request whose body holds the words of \<open>call\<close>.\<close>

definition rpc_answer :: "rpc_mock list \<Rightarrow> string list \<Rightarrow> u256 option" where
  "rpc_answer ms call =
     map_option snd (find (\<lambda>m. list_all (\<lambda>needle. List.member call needle) (fst m)) ms)"

section \<open>What a test runs against\<close>

text \<open>
  \<open>sh_bsc\<close> is the BSC client where the given URLs are served by the given mocks. A request
  takes \<open>sh_latency\<close> nanoseconds; the test starts at the instant \<open>sh_started\<close>, when the wall
  clock shows \<open>sh_unix\<close>.
\<close>

record ('a, 'u, 'k) server_host =
  sh_lcd :: "'u lcd_lib"
  sh_wallet :: "'k wallet_lib"
  sh_bsc :: "(string \<times> rpc_mock list) list \<Rightarrow> 'a bsc_client"
  sh_bsc_text :: "bsc_error \<Rightarrow> string"
  sh_uri :: string
  sh_bsc_uri :: "nat \<Rightarrow> string"
  sh_latency :: nat
  sh_started :: nat
  sh_unix :: u64
  sh_instant_limit :: nat
  sh_query_to_vec :: "oracle_query_msg \<Rightarrow> (string, string) result"
  sh_execute_to_vec :: "oracle_execute_msg \<Rightarrow> (string, string) result"
  sh_state_to_vec :: "state_response \<Rightarrow> (string, string) result"
  sh_state_de :: "state_response deserializer"

record mock_world =
  mw_now :: nat
  mw_mocks :: "mock list"

definition request ::
  "('a, 'u, 'k) server_host \<Rightarrow> string \<Rightarrow> string \<Rightarrow> (http_response, string, mock_world) io" where
  "request h meth u w =
     (if prefix (sh_uri h) u then
        let (r, ms) = serve meth (drop (length (sh_uri h)) u) (mw_mocks w)
        in Some (Done (Ok r), \<lparr>mw_now = mw_now w + sh_latency h, mw_mocks = ms\<rparr>)
      else Some (Done (Err ''error sending request''), w\<lparr>mw_now := mw_now w + sh_latency h\<rparr>))"

definition unix_at :: "('a, 'u, 'k) server_host \<Rightarrow> mock_world \<Rightarrow> u64" where
  "unix_at h w = sh_unix h + of_nat ((mw_now w - sh_started h) div 1000000000)"

definition mock_io :: "('a, 'u, 'k) server_host \<Rightarrow> mock_world service_io" where
  "mock_io h = \<lparr>http_get = request h ''GET'', http_post = (\<lambda>u body. request h ''POST'' u),
     clock = (\<lambda>w. (mw_now w, w)), instant_limit = sh_instant_limit h,
     sleep_for = (\<lambda>d w. (True, w\<lparr>mw_now := mw_now w + d\<rparr>)),
     unix_time = (\<lambda>w. (Some (unix_at h w), w))\<rparr>"

definition mock_service ::
  "('a, 'u, 'k) server_host \<Rightarrow> (string \<times> rpc_mock list) list \<Rightarrow> ('a, 'u, 'k, mock_world) service" where
  "mock_service h bsc =
     \<lparr>sv_lcd = sh_lcd h, sv_wallet = sh_wallet h, sv_io = mock_io h,
      sv_bsc = (\<lambda>w. (\<lparr>ba_client = (\<lambda>_. sh_bsc h bsc), ba_overlap = True, ba_dropped = None\<rparr>, w)),
      sv_query_to_vec = sh_query_to_vec h, sv_execute_to_vec = sh_execute_to_vec h,
      sv_state_de = sh_state_de h\<rparr>"

definition mounted :: "('a, 'u, 'k) server_host \<Rightarrow> mock list \<Rightarrow> mock_world" where
  "mounted h ms = \<lparr>mw_now = sh_started h, mw_mocks = ms\<rparr>"

text \<open>A test awaits a future: one that never returns, or is dropped, does not let it pass.\<close>

definition awaited ::
  "(('a, 'e) outcome \<times> 'w) option \<Rightarrow> (('a, 'e) result \<Rightarrow> 'w \<Rightarrow> test) \<Rightarrow> test" where
  "awaited m k = (case m of Some (Done r, w) \<Rightarrow> k r w | _ \<Rightarrow> Panicked)"

text \<open>The end of a test: the servers are dropped.\<close>

definition server_dropped :: "mock_world \<Rightarrow> test" where
  "server_dropped w = verify (expectations_met (mw_mocks w))"

section \<open>Bodies and mocks the tests share\<close>

definition TEST_MNEMONIC :: string where
  "TEST_MNEMONIC = concat (replicate 11 ''abandon '') @ ''about''"

definition account_json :: "u64 \<Rightarrow> json" where
  "account_json s = JObject [(''account'', JObject [BASE_ACCOUNT, (''account_number'', JString ''1''),
     (''sequence'', JString (show_nat (unat s)))])]"

definition mount_account :: "u64 \<Rightarrow> mock" where
  "mount_account s =
     respond ''GET'' (Begins ''/cosmos/auth/v1beta1/accounts/'') (json_response 200 (account_json s))"

definition wasm_update_rate_events :: "string \<Rightarrow> u128 \<Rightarrow> json" where
  "wasm_update_rate_events contract rate = JArray [json_wasm_event [json_attr ''_contract_address'' contract,
     json_attr ''action'' ''update_rate'', json_attr ''rate'' (show_nat (unat rate))]]"

text \<open>The body of a broadcast, or of a query of a transaction.\<close>

definition tx_response_json :: "string \<Rightarrow> u64 \<Rightarrow> string \<Rightarrow> json option \<Rightarrow> json" where
  "tx_response_json h c l evs = JObject [(''tx_response'', JObject ([(''code'', JNumber (PosInt c))] @
     (case evs of None \<Rightarrow> [] | Some e \<Rightarrow> [(''events'', e)]) @
     [(''raw_log'', JString l), (''txhash'', JString h)]))]"

definition broadcast_answers :: "string \<Rightarrow> u64 \<Rightarrow> string \<Rightarrow> mock" where
  "broadcast_answers h c l = respond ''POST'' (Exactly ''/cosmos/tx/v1beta1/txs'')
     (json_response 200 (tx_response_json h c l None))"

definition tx_answers :: "string \<Rightarrow> http_response \<Rightarrow> mock" where
  "tx_answers h r = respond ''GET'' (Exactly (''/cosmos/tx/v1beta1/txs/'' @ h)) r"

definition NOT_FOUND :: http_response where
  "NOT_FOUND = json_response 404 (JObject [(''message'', JString ''tx not found'')])"

text \<open>A state, as the LCD node wraps it: the base64 of its JSON text.\<close>

definition state_lcd_body :: "('a, 'u, 'k) server_host \<Rightarrow> state_response \<Rightarrow> (json, unit) result" where
  "state_lcd_body h st =
     and_then (unwrap (sh_state_to_vec h st)) (\<lambda>raw.
     Ok (JObject [(''data'', JString (base64_encode (sh_lcd h) raw))]))"

definition SMART :: path_matcher where
  "SMART = BeginsThen ''/cosmwasm/wasm/v1/contract/'' ''/smart/''"

definition state_answers :: "json \<Rightarrow> mock" where
  "state_answers body = respond ''GET'' SMART (json_response 200 body)"

definition node_config_answers :: "http_response \<Rightarrow> mock" where
  "node_config_answers r = respond ''GET'' (Exactly ''/cosmos/base/node/v1beta1/config'') r"

end
