(* ===== verification/Test_Submit.thy ===== *)
theory Test_Submit
  imports Test_Server
begin

text \<open>
  The tests of the submission and confirmation of an update (\<open>submit_confirm_tests\<close> of
  \<open>oracle-service/src/main.rs\<close>) against the mock server.
\<close>

section \<open>Fixtures\<close>

definition test_cfg :: "string \<Rightarrow> service_config" where
  "test_cfg lcd = \<lparr>sc_bsc_rpc_urls = [''http://127.0.0.1:8545'', ''http://127.0.0.1:8546''],
     sc_bsc_confirmation_blocks = 1, sc_bsc_rpc_timeout_secs = 30, sc_allowed_bsc_chain_ids = [31337],
     sc_venus_vtoken_address = ''0xC4eF4229FEc74Ccfe17B2bdeF7715fAC740BA0ba'',
     sc_terra_lcd_url = lcd, sc_terra_chain_id = ''localterra'', sc_terra_mnemonic = TEST_MNEMONIC,
     sc_terra_gas_price = DEFAULT_GAS_PRICE, sc_oracle_contract = ORACLE,
     sc_poll_interval_secs = 60, sc_tick_timeout_secs = 120,
     sc_max_silence_since_broadcast_secs = 28800, sc_tx_confirm_timeout_secs = 2,
     sc_tx_confirm_poll_interval_ms = 20, sc_healthz_bind = []\<rparr>"

definition signer_for :: "('a, 'u, 'k) server_host \<Rightarrow> service_config \<Rightarrow> ('k terra_signer, unit) result" where
  "signer_for h cfg = unwrap (terra_signer_new (sh_wallet h)
     \<lparr>tsc_lcd_url = sh_uri h, tsc_chain_id = ''localterra'', tsc_mnemonic = sc_terra_mnemonic cfg,
      tsc_gas_limit = Some 200000, tsc_gas_price = sc_terra_gas_price cfg\<rparr>)"

definition prior_state :: state_response where
  "prior_state = \<lparr>sr_rate = 1000, sr_last_update_sec = 100, sr_utc_day_id = 1,
     sr_day_baseline_rate = 1000, sr_paused = False\<rparr>"

text \<open>
  The common steps: the servers are mounted, the update to 2000 is submitted with the given
  settings, and the result and the tracker are looked at.
\<close>

definition submitting ::
  "('a, 'u, 'k) server_host \<Rightarrow> (service_config \<Rightarrow> service_config) \<Rightarrow> mock list \<Rightarrow>
   ((string, string) result \<Rightarrow> nat \<Rightarrow> liveness_tracker \<Rightarrow> test) \<Rightarrow> test" where
  "submitting h settings server check =
     (let cfg = settings (test_cfg (sh_uri h)); liveness = liveness_new (sh_started h) in
      and_then (signer_for h cfg) (\<lambda>signer.
      awaited (submit_and_confirm_oracle_update (mock_service h []) cfg signer 2000 prior_state (mounted h server))
        (\<lambda>r w. and_then (check r (mw_now w) liveness) (\<lambda>_. server_dropped w))))"

definition fails_without_liveness ::
  "string \<Rightarrow> (string, string) result \<Rightarrow> nat \<Rightarrow> liveness_tracker \<Rightarrow> test" where
  "fails_without_liveness words r now liveness =
     and_then (error_contains r words) (\<lambda>_. verify (\<not> has_recorded_success liveness))"

definition records_after_confirm ::
  "string \<Rightarrow> (string, string) result \<Rightarrow> nat \<Rightarrow> liveness_tracker \<Rightarrow> test" where
  "records_after_confirm hash r now liveness =
     and_then (returns_value r hash) (\<lambda>_.
     verify (has_recorded_success (record_successful_broadcast now liveness)))"

section \<open>The tests\<close>

definition happy_path_records_liveness_only_after_confirm :: "('a, 'u, 'k) server_host \<Rightarrow> test" where
  "happy_path_records_liveness_only_after_confirm h =
     (let hash = ''HAPPYTX01'' in
      and_then (state_lcd_body h (confirm_state 2000 200)) (\<lambda>body.
      submitting h id
        [mount_account 1, broadcast_answers hash 0 [],
         tx_answers hash (json_response 200 (tx_response_json hash 0 [] None)), state_answers body]
        (\<lambda>r now liveness. and_then (verify (\<not> has_recorded_success liveness)) (\<lambda>_.
           records_after_confirm hash r now liveness))))"

definition deliver_tx_failure_does_not_allow_liveness :: "('a, 'u, 'k) server_host \<Rightarrow> test" where
  "deliver_tx_failure_does_not_allow_liveness h =
     (let hash = ''DELIVERFAIL'' in
      submitting h id
        [mount_account 1, broadcast_answers hash 0 [],
         tx_answers hash (json_response 200 (tx_response_json hash 9 ''policy rejected'' None))]
        (fails_without_liveness ''DeliverTx failed''))"

definition state_mismatch_does_not_allow_liveness :: "('a, 'u, 'k) server_host \<Rightarrow> test" where
  "state_mismatch_does_not_allow_liveness h =
     (let hash = ''STATEMISMATCH'' in
      and_then (state_lcd_body h (confirm_state 1500 200)) (\<lambda>body.
      submitting h id
        [mount_account 1, broadcast_answers hash 0 [],
         tx_answers hash (json_response 200 (tx_response_json hash 0 [] None)), state_answers body]
        (fails_without_liveness ''rate mismatch'')))"

definition confirmation_timeout_does_not_allow_liveness :: "('a, 'u, 'k) server_host \<Rightarrow> test" where
  "confirmation_timeout_does_not_allow_liveness h =
     (let hash = ''TIMEOUTTX'' in
      submitting h (\<lambda>cfg. cfg\<lparr>sc_tx_confirm_poll_interval_ms := 10, sc_tx_confirm_timeout_secs := 1\<rparr>)
        [mount_account 1, broadcast_answers hash 0 [], tx_answers hash NOT_FOUND]
        (fails_without_liveness ''confirmation timeout''))"

text \<open>The state the node shows lags behind.\<close>

definition matching_events_and_lagged_state_records_ok :: "('a, 'u, 'k) server_host \<Rightarrow> test" where
  "matching_events_and_lagged_state_records_ok h =
     (let hash = ''EVENTLAG01'' in
      and_then (state_lcd_body h (confirm_state 1000 100)) (\<lambda>body.
      submitting h id
        [mount_account 1, broadcast_answers hash 0 [],
         tx_answers hash (json_response 200
           (tx_response_json hash 0 [] (Some (wasm_update_rate_events ORACLE 2000)))),
         state_answers body]
        (records_after_confirm hash)))"

definition matching_events_and_matching_state_ok :: "('a, 'u, 'k) server_host \<Rightarrow> test" where
  "matching_events_and_matching_state_ok h =
     (let hash = ''EVENTOK01'' in
      and_then (state_lcd_body h (confirm_state 2000 200)) (\<lambda>body.
      submitting h id
        [mount_account 1, broadcast_answers hash 0 [],
         tx_answers hash (json_response 200
           (tx_response_json hash 0 [] (Some (wasm_update_rate_events ORACLE 2000)))),
         state_answers body]
        (\<lambda>r now liveness. returns_ok r)))"

definition events_missing_state_match_after_retry_ok :: "('a, 'u, 'k) server_host \<Rightarrow> test" where
  "events_missing_state_match_after_retry_ok h =
     (let hash = ''STATERETRY'' in
      and_then (state_lcd_body h (confirm_state 1000 100)) (\<lambda>lagged.
      and_then (state_lcd_body h (confirm_state 2000 200)) (\<lambda>body.
      submitting h id
        [mount_account 1, broadcast_answers hash 0 [],
         tx_answers hash (json_response 200 (tx_response_json hash 0 [] None)),
         up_to_n_times 1 (state_answers lagged), state_answers body]
        (\<lambda>r now liveness. returns_ok r))))"

definition wrong_contract_events_do_not_allow_liveness :: "('a, 'u, 'k) server_host \<Rightarrow> test" where
  "wrong_contract_events_do_not_allow_liveness h =
     (let hash = ''WRONGCTR'' in
      submitting h id
        [mount_account 1, broadcast_answers hash 0 [],
         tx_answers hash (json_response 200
           (tx_response_json hash 0 [] (Some (wasm_update_rate_events OTHER 2000))))]
        (fails_without_liveness ''_contract_address''))"

definition event_rate_mismatch_does_not_allow_liveness :: "('a, 'u, 'k) server_host \<Rightarrow> test" where
  "event_rate_mismatch_does_not_allow_liveness h =
     (let hash = ''WRONGRATE'' in
      submitting h id
        [mount_account 1, broadcast_answers hash 0 [],
         tx_answers hash (json_response 200
           (tx_response_json hash 0 [] (Some (wasm_update_rate_events ORACLE 1999))))]
        (fails_without_liveness ''rate does not match''))"

definition submit_tests :: "(('a, 'u, 'k) server_host \<Rightarrow> test) list" where
  "submit_tests = [happy_path_records_liveness_only_after_confirm,
     deliver_tx_failure_does_not_allow_liveness, state_mismatch_does_not_allow_liveness,
     confirmation_timeout_does_not_allow_liveness, matching_events_and_lagged_state_records_ok,
     matching_events_and_matching_state_ok, events_missing_state_match_after_retry_ok,
     wrong_contract_events_do_not_allow_liveness, event_rate_mismatch_does_not_allow_liveness]"

end
