(* ===== verification/Test_Client.thy ===== *)
theory Test_Client
  imports Test_Server
begin

text \<open>
  The tests of \<open>oracle-service/src/terra_tx.rs\<close> that ask a mock server: the wait for
  inclusion, the broadcast with its retry, the account and the gas price; and those of the
  data of a smart query.
\<close>

section \<open>Fixtures\<close>

definition test_signer :: "('a, 'u, 'k) server_host \<Rightarrow> ('k terra_signer, unit) result" where
  "test_signer h = unwrap (terra_signer_new (sh_wallet h)
     \<lparr>tsc_lcd_url = sh_uri h, tsc_chain_id = ''localterra'', tsc_mnemonic = TEST_MNEMONIC,
      tsc_gas_limit = Some 200000, tsc_gas_price = DEFAULT_GAS_PRICE\<rparr>)"

text \<open>The account with the members the client does not read.\<close>

definition client_account_json :: "u64 \<Rightarrow> json" where
  "client_account_json s = JObject [(''account'', JObject [BASE_ACCOUNT,
     (''account_number'', JString ''1''), (''address'', JString ''terra1...''), (''pub_key'', JNull),
     (''sequence'', JString (show_nat (unat s)))])]"

definition client_account :: "u64 \<Rightarrow> mock" where
  "client_account s =
     respond ''GET'' (Begins ''/cosmos/auth/v1beta1/accounts/'') (json_response 200 (client_account_json s))"

definition is_state :: "state_response \<Rightarrow> u128 \<Rightarrow> u64 \<Rightarrow> test" where
  "is_state parsed rate last_update_sec =
     and_then (verify (sr_rate parsed = rate)) (\<lambda>_. verify (sr_last_update_sec parsed = last_update_sec))"

section \<open>The data of a smart query\<close>

definition parse_wasm_smart_data_accepts_base64_string :: "('a, 'u, 'k) server_host \<Rightarrow> test" where
  "parse_wasm_smart_data_accepts_base64_string h =
     (let st = confirm_state 1000000000000000000 42 in
      and_then (state_lcd_body h (confirm_state 1000000000000000000 42)) (\<lambda>body.
      and_then (unwrap_some (json_get ''data'' body)) (\<lambda>data.
      and_then (unwrap (parse_wasm_smart_query_data (sh_lcd h) (sh_state_de h) data)) (\<lambda>parsed.
      is_state parsed (sr_rate st) 42))))"

text \<open>The JSON of a state, and the one of the first code on the main net, without \<open>paused\<close>.\<close>

definition state_members :: "state_response \<Rightarrow> (string \<times> json) list" where
  "state_members st = [(''rate'', JString (show_nat (unat (sr_rate st)))),
     (''last_update_sec'', JNumber (PosInt (sr_last_update_sec st))),
     (''utc_day_id'', JNumber (PosInt (sr_utc_day_id st))),
     (''day_baseline_rate'', JString (show_nat (unat (sr_day_baseline_rate st))))]"

definition parse_wasm_smart_data_accepts_json_object :: "('a, 'u, 'k) server_host \<Rightarrow> test" where
  "parse_wasm_smart_data_accepts_json_object h =
     (let st = confirm_state 1000000000000000000 0;
          data = JObject (state_members st @ [(''paused'', JBool (sr_paused st))]) in
      and_then (unwrap (parse_wasm_smart_query_data (sh_lcd h) (sh_state_de h) data)) (\<lambda>parsed.
      and_then (is_state parsed (sr_rate st) 0) (\<lambda>_.
      verify (\<not> sr_paused parsed))))"

definition parse_wasm_smart_data_accepts_mainnet_11549_state_without_paused ::
  "('a, 'u, 'k) server_host \<Rightarrow> test" where
  "parse_wasm_smart_data_accepts_mainnet_11549_state_without_paused h =
     (let data = JObject [(''rate'', JString ''1000000000000000000''), (''last_update_sec'', JNumber (PosInt 0)),
            (''utc_day_id'', JNumber (PosInt 20664)), (''day_baseline_rate'', JString ''1000000000000000000'')] in
      and_then (unwrap (parse_wasm_smart_query_data (sh_lcd h) (sh_state_de h) data)) (\<lambda>parsed.
      and_then (is_state parsed 1000000000000000000 0) (\<lambda>_.
      verify (\<not> sr_paused parsed))))"

section \<open>Waiting for inclusion\<close>

definition waits_for ::
  "('a, 'u, 'k) server_host \<Rightarrow> mock list \<Rightarrow> string \<Rightarrow> confirm_config \<Rightarrow>
   ((tx_response_summary, string) result \<Rightarrow> test) \<Rightarrow> test" where
  "waits_for h server hash confirm check =
     and_then (test_signer h) (\<lambda>signer.
     awaited (wait_for_deliver_tx_success (sh_lcd h) (mock_io h) signer hash confirm (mounted h server))
       (\<lambda>r w. and_then (check r) (\<lambda>_. server_dropped w)))"

definition confirm_success_after_inclusion :: "('a, 'u, 'k) server_host \<Rightarrow> test" where
  "confirm_success_after_inclusion h =
     (let hash = ''DEADBEEF'' in
      waits_for h [tx_answers hash (json_response 200 (tx_response_json hash 0 [] None))]
        hash (from_secs_and_ms 5 10) returns_ok)"

definition confirm_deliver_tx_failure_is_error :: "('a, 'u, 'k) server_host \<Rightarrow> test" where
  "confirm_deliver_tx_failure_is_error h =
     (let hash = ''FAILTX01'' in
      waits_for h [tx_answers hash (json_response 200 (tx_response_json hash 7 ''wasm error'' None))]
        hash (from_secs_and_ms 5 10) (\<lambda>r. error_contains r ''DeliverTx failed''))"

definition confirm_timeout_when_never_included :: "('a, 'u, 'k) server_host \<Rightarrow> test" where
  "confirm_timeout_when_never_included h =
     (let hash = ''MISSING1'' in
      waits_for h [tx_answers hash NOT_FOUND] hash (from_secs_and_ms 1 50)
        (\<lambda>r. error_contains r ''confirmation timeout''))"

definition confirm_rejects_wrong_hash_in_response :: "('a, 'u, 'k) server_host \<Rightarrow> test" where
  "confirm_rejects_wrong_hash_in_response h =
     waits_for h [tx_answers ''EXPECTEDHASH'' (json_response 200 (tx_response_json ''OTHERHASH'' 0 [] None))]
       ''EXPECTEDHASH'' (from_secs_and_ms 5 10) (\<lambda>r. error_contains r ''hash mismatch'')"

section \<open>Broadcasting\<close>

definition sequence_mismatch_retries_once_then_check_tx_ok :: "('a, 'u, 'k) server_host \<Rightarrow> test" where
  "sequence_mismatch_retries_once_then_check_tx_ok h =
     (let server = [client_account 1,
            expect_times 1 (up_to_n_times 1
              (broadcast_answers [] 32 ''account sequence mismatch, expected 2, got 1'')),
            expect_times 1 (broadcast_answers ''RETRYHASH01'' 0 [])] in
      and_then (test_signer h) (\<lambda>signer.
      awaited (sign_and_broadcast_execute (sh_lcd h) (sh_wallet h) (mock_io h) (sh_execute_to_vec h) signer
          ORACLE (UpdateRate 1000000000000000000) (mounted h server))
        (\<lambda>r w. and_then (returns_value r ''RETRYHASH01'') (\<lambda>_. server_dropped w))))"

definition end_to_end_check_tx_ok_then_state_confirm :: "('a, 'u, 'k) server_host \<Rightarrow> test" where
  "end_to_end_check_tx_ok_then_state_confirm h =
     (let hash = ''E2EHASH01''; proposed = 2000000000000000000 in
      and_then (state_lcd_body h (confirm_state 2000000000000000000 1700000100)) (\<lambda>body.
      let server = [client_account 3, broadcast_answers hash 0 [],
            tx_answers hash (json_response 200 (tx_response_json hash 0 [] None)),
            respond ''GET'' (Begins (''/cosmwasm/wasm/v1/contract/'' @ ORACLE @ ''/smart/'')) (json_response 200 body)]
      in
      and_then (test_signer h) (\<lambda>signer.
      awaited (sign_and_broadcast_execute (sh_lcd h) (sh_wallet h) (mock_io h) (sh_execute_to_vec h) signer
          ORACLE (UpdateRate proposed) (mounted h server)) (\<lambda>r w.
      and_then (returns_value r hash) (\<lambda>_.
      awaited (wait_for_deliver_tx_success (sh_lcd h) (mock_io h) signer hash (from_secs_and_ms 5 10) w) (\<lambda>r w.
      and_then (returns_ok r) (\<lambda>_.
      awaited (query_wasm_smart (sh_lcd h) (mock_io h) (sh_query_to_vec h) (sh_state_de h) signer ORACLE State w) (\<lambda>r w.
      and_then (unwrap r) (\<lambda>st.
      and_then (returns_ok (oracle_state_matches_intended_update 1700000000 st proposed)) (\<lambda>_.
      server_dropped w)))))))))) "

section \<open>Accounts and the gas price\<close>

definition default_signer :: "('a, 'u, 'k) server_host \<Rightarrow> f64 \<Rightarrow> ('k terra_signer, unit) result" where
  "default_signer h price = unwrap (terra_signer_new (sh_wallet h)
     \<lparr>tsc_lcd_url = sh_uri h, tsc_chain_id = ''columbus-5'', tsc_mnemonic = TEST_MNEMONIC,
      tsc_gas_limit = None, tsc_gas_price = price\<rparr>)"

definition asking ::
  "('a, 'u, 'k) server_host \<Rightarrow> f64 \<Rightarrow> mock list \<Rightarrow>
   ('k terra_signer \<Rightarrow> ('b, 'e, mock_world) io) \<Rightarrow> (('b, 'e) result \<Rightarrow> test) \<Rightarrow> test" where
  "asking h price server call check =
     and_then (default_signer h price) (\<lambda>signer.
     awaited (call signer (mounted h server)) (\<lambda>r w. and_then (check r) (\<lambda>_. server_dropped w)))"

definition ACCOUNTS :: path_matcher where
  "ACCOUNTS = Contains ''/cosmos/auth/v1beta1/accounts/terra1''"

definition get_account_info_wiremock_base_account :: "('a, 'u, 'k) server_host \<Rightarrow> test" where
  "get_account_info_wiremock_base_account h =
     asking h DEFAULT_GAS_PRICE [respond ''GET'' ACCOUNTS (json_response 200 (JObject [(''account'',
         JObject [BASE_ACCOUNT, (''account_number'', JString ''12''), (''sequence'', JString ''4'')])]))]
       (get_account_info (sh_lcd h) (mock_io h))
       (\<lambda>r. returns_value r \<lparr>ai_sequence = 4, ai_account_number = 12\<rparr>)"

definition get_account_info_wiremock_missing_sequence_errors :: "('a, 'u, 'k) server_host \<Rightarrow> test" where
  "get_account_info_wiremock_missing_sequence_errors h =
     asking h DEFAULT_GAS_PRICE [respond ''GET'' ACCOUNTS (json_response 200 (JObject [(''account'',
         JObject [BASE_ACCOUNT, (''account_number'', JString ''1'')])]))]
       (get_account_info (sh_lcd h) (mock_io h)) (\<lambda>r. error_contains r ''sequence'')"

definition node_config_json :: json where
  "node_config_json = JObject [(''config'', JObject [(''minimum_gas_price'', JString ''0.02uluna'')])]"

definition resolve_gas_price_uses_network_max :: "('a, 'u, 'k) server_host \<Rightarrow> test" where
  "resolve_gas_price_uses_network_max h =
     asking h (lit (15 / 1000)) [node_config_answers (json_response 200 node_config_json)]
       (resolve_gas_price (sh_lcd h) (mock_io h)) (\<lambda>r. returns_value r (lit (2 / 100)))"

definition resolve_gas_price_probe_failure_uses_configured :: "('a, 'u, 'k) server_host \<Rightarrow> test" where
  "resolve_gas_price_probe_failure_uses_configured h =
     asking h (lit (15 / 1000)) [node_config_answers (empty_response 404)]
       (resolve_gas_price (sh_lcd h) (mock_io h)) (\<lambda>r. returns_value r (lit (15 / 1000)))"

definition query_network_min_gas_price_wiremock :: "('a, 'u, 'k) server_host \<Rightarrow> test" where
  "query_network_min_gas_price_wiremock h =
     asking h DEFAULT_GAS_PRICE [node_config_answers (json_response 200 node_config_json)]
       (query_network_min_gas_price (sh_lcd h) (mock_io h)) (\<lambda>r. returns_value r (Some (lit (2 / 100))))"

definition client_tests :: "(('a, 'u, 'k) server_host \<Rightarrow> test) list" where
  "client_tests = [parse_wasm_smart_data_accepts_base64_string, parse_wasm_smart_data_accepts_json_object,
     parse_wasm_smart_data_accepts_mainnet_11549_state_without_paused, confirm_success_after_inclusion,
     confirm_deliver_tx_failure_is_error, confirm_timeout_when_never_included,
     confirm_rejects_wrong_hash_in_response, sequence_mismatch_retries_once_then_check_tx_ok,
     end_to_end_check_tx_ok_then_state_confirm, get_account_info_wiremock_base_account,
     get_account_info_wiremock_missing_sequence_errors, resolve_gas_price_uses_network_max,
     resolve_gas_price_probe_failure_uses_configured, query_network_min_gas_price_wiremock]"

end
