(* ===== verification/Test_Run_Once.thy ===== *)
theory Test_Run_Once
  imports Test_Submit
begin

text \<open>
  The tests of a whole tick (\<open>run_once_tests\<close> of \<open>oracle-service/src/main.rs\<close>): two BSC
  providers and the LCD node are mock servers.
\<close>

section \<open>Fixtures\<close>

definition run_once_cfg :: "string list \<Rightarrow> string \<Rightarrow> service_config" where
  "run_once_cfg bsc_urls lcd = \<lparr>sc_bsc_rpc_urls = bsc_urls,
     sc_bsc_confirmation_blocks = 0, sc_bsc_rpc_timeout_secs = 5, sc_allowed_bsc_chain_ids = [31337],
     sc_venus_vtoken_address = ''0xC4eF4229FEc74Ccfe17B2bdeF7715fAC740BA0ba'',
     sc_terra_lcd_url = lcd, sc_terra_chain_id = ''localterra'', sc_terra_mnemonic = TEST_MNEMONIC,
     sc_terra_gas_price = DEFAULT_GAS_PRICE, sc_oracle_contract = ORACLE,
     sc_poll_interval_secs = 60, sc_tick_timeout_secs = 120,
     sc_max_silence_since_broadcast_secs = 28800, sc_tx_confirm_timeout_secs = 2,
     sc_tx_confirm_poll_interval_ms = 20, sc_healthz_bind = []\<rparr>"

definition lcd_state :: "u128 \<Rightarrow> u64 \<Rightarrow> bool \<Rightarrow> state_response" where
  "lcd_state rate last_update_sec is_paused = \<lparr>sr_rate = rate, sr_last_update_sec = last_update_sec,
     sr_utc_day_id = 1, sr_day_baseline_rate = rate, sr_paused = is_paused\<rparr>"

definition mount_lcd_state :: "('a, 'u, 'k) server_host \<Rightarrow> u128 \<Rightarrow> u64 \<Rightarrow> (mock, unit) result" where
  "mount_lcd_state h rate last_update_sec =
     and_then (state_lcd_body h (lcd_state rate last_update_sec False)) (\<lambda>body. Ok (state_answers body))"

definition mount_no_broadcast :: mock where
  "mount_no_broadcast =
     expect_times 0 (respond ''POST'' (Exactly ''/cosmos/tx/v1beta1/txs'') (empty_response 200))"

definition mount_account_and_broadcast_ok :: "string \<Rightarrow> u128 \<Rightarrow> mock list" where
  "mount_account_and_broadcast_ok hash rate =
     [mount_account 1, broadcast_answers hash 0 [],
      tx_answers hash (json_response 200
        (tx_response_json hash 0 [] (Some (wasm_update_rate_events ORACLE rate))))]"

text \<open>The display of the error of a tick: that of the report inside.\<close>

definition tick_error_text :: "('a, 'u, 'k) server_host \<Rightarrow> tick_error \<Rightarrow> string" where
  "tick_error_text h err = (case err of
       RateError e \<Rightarrow> consensus_error_text (sh_bsc_text h) e
     | LcdError e \<Rightarrow> e)"

text \<open>
  The common steps: the two providers serve the rates, the LCD node the given mocks; the tick
  runs, and its result and the tracker are looked at.
\<close>

definition ticking ::
  "('a, 'u, 'k) server_host \<Rightarrow> u128 \<Rightarrow> u128 \<Rightarrow> mock list \<Rightarrow>
   ((unit, tick_error) result \<Rightarrow> liveness_tracker \<Rightarrow> test) \<Rightarrow> test" where
  "ticking h rate0 rate1 server check =
     (let bsc = [(sh_bsc_uri h 0, mount_bsc_rpc rate0), (sh_bsc_uri h 1, mount_bsc_rpc rate1)];
          cfg = run_once_cfg [sh_bsc_uri h 0, sh_bsc_uri h 1] (sh_uri h);
          s = initial_service_state Map.empty (sh_started h) in
      and_then (signer_for h cfg) (\<lambda>signer.
      awaited (run_once (mock_service h bsc) cfg signer (s, mounted h server)) (\<lambda>r (s, w).
      and_then (check r (lock_liveness (ss_liveness s))) (\<lambda>_. server_dropped w))))"

definition skips :: "(unit, tick_error) result \<Rightarrow> liveness_tracker \<Rightarrow> test" where
  "skips r liveness = and_then (returns_ok r) (\<lambda>_. verify (\<not> has_recorded_success liveness))"

section \<open>The tests\<close>

definition run_once_equal_rate_does_not_record_liveness :: "('a, 'u, 'k) server_host \<Rightarrow> test" where
  "run_once_equal_rate_does_not_record_liveness h =
     (let rate = 1000000; now = unix_at h (mounted h []) in
      and_then (mount_lcd_state h rate (saturating_sub now 100)) (\<lambda>state.
      ticking h rate rate [state, mount_no_broadcast] skips))"

definition run_once_equal_rate_heartbeat_records_liveness_on_events :: "('a, 'u, 'k) server_host \<Rightarrow> test" where
  "run_once_equal_rate_heartbeat_records_liveness_on_events h =
     (let rate = 1000000; hash = ''HEARTBEAT1''; now = unix_at h (mounted h []);
          last = saturating_sub now (MIN_ORACLE_UPDATE_INTERVAL_SECS + 10) in
      and_then (mount_lcd_state h rate last) (\<lambda>state.
      ticking h rate rate (state # mount_account_and_broadcast_ok hash rate) (\<lambda>r liveness.
      and_then (returns_ok r) (\<lambda>_. verify (has_recorded_success liveness)))))"

definition run_once_paused_equal_rate_does_not_broadcast :: "('a, 'u, 'k) server_host \<Rightarrow> test" where
  "run_once_paused_equal_rate_does_not_broadcast h =
     (let rate = 1000000; now = unix_at h (mounted h []);
          last = saturating_sub now (MIN_ORACLE_UPDATE_INTERVAL_SECS + 10) in
      and_then (state_lcd_body h (lcd_state rate last True)) (\<lambda>body.
      ticking h rate rate [state_answers body, mount_no_broadcast] skips))"

definition run_once_evm_disagreement_does_not_heartbeat :: "('a, 'u, 'k) server_host \<Rightarrow> test" where
  "run_once_evm_disagreement_does_not_heartbeat h =
     (let rate = 1000000; now = unix_at h (mounted h []);
          last = saturating_sub now (MIN_ORACLE_UPDATE_INTERVAL_SECS + 10) in
      and_then (mount_lcd_state h rate last) (\<lambda>state.
      ticking h rate (rate + 10000) [state, mount_no_broadcast] (\<lambda>r liveness.
      and_then (unwrap_err r) (\<lambda>err.
      and_then (verify (str_contains (tick_error_text h err) ''mismatch'' \<or>
          str_contains (tick_error_text h err) ''disagree'')) (\<lambda>_.
      verify (\<not> has_recorded_success liveness))))))"

definition run_once_policy_throttle_does_not_record_liveness :: "('a, 'u, 'k) server_host \<Rightarrow> test" where
  "run_once_policy_throttle_does_not_record_liveness h =
     (let rate = 1000000; proposed = rate + 1; now = unix_at h (mounted h []) in
      and_then (unwrap (checked_sub now 100)) (\<lambda>last.
      and_then (mount_lcd_state h rate last) (\<lambda>state.
      ticking h proposed proposed [state, mount_no_broadcast] skips)))"

definition run_once_mono_decrease_does_not_record_liveness :: "('a, 'u, 'k) server_host \<Rightarrow> test" where
  "run_once_mono_decrease_does_not_record_liveness h =
     (let rate = 1000000; proposed = rate - 1; now = unix_at h (mounted h []) in
      and_then (unwrap (checked_sub now MIN_ORACLE_UPDATE_INTERVAL_SECS)) (\<lambda>t.
      and_then (unwrap (checked_sub t 10)) (\<lambda>last.
      and_then (mount_lcd_state h rate last) (\<lambda>state.
      ticking h proposed proposed [state, mount_no_broadcast] skips))))"

definition run_once_tests :: "(('a, 'u, 'k) server_host \<Rightarrow> test) list" where
  "run_once_tests = [run_once_equal_rate_does_not_record_liveness,
     run_once_equal_rate_heartbeat_records_liveness_on_events,
     run_once_paused_equal_rate_does_not_broadcast, run_once_evm_disagreement_does_not_heartbeat,
     run_once_policy_throttle_does_not_record_liveness,
     run_once_mono_decrease_does_not_record_liveness]"

end
