(* ===== verification/Test_Server_Runs.thy ===== *)
theory Test_Server_Runs
  imports Test_Submit Test_Client Test_Run_Once
begin

text \<open>
  What the third-party code is relied on for in the tests against a mock server, and what one
  call of the service does there, by the answers of the server.
\<close>

section \<open>The third-party code\<close>

text \<open>The wallet takes the mnemonic, the path, the names and the messages of the tests.\<close>

definition wallet_signs :: "'k wallet_lib \<Rightarrow> bool" where
  "wallet_signs W \<longleftrightarrow> build_client W 30000000000 = Ok () \<and>
     (\<exists>m p k a. mnemonic_parse W TEST_MNEMONIC = Ok m \<and> path_parse W TERRA_DERIVATION_PATH = Ok p \<and>
        derive_from_path W (to_seed W m []) p = Ok k \<and> account_id W (public_key W k) ''terra'' = Ok (''terra1'' @ a)) \<and>
     (\<exists>i. account_id_parse W ORACLE = Ok i) \<and> (\<exists>d. denom_parse W ''uluna'' = Ok d) \<and>
     (\<exists>c. chain_id_parse W ''localterra'' = Ok c) \<and> (\<forall>m. \<exists>y. to_any W m = Ok y) \<and>
     (\<forall>b a c n. \<exists>y. sign_doc_new W b a c n = Ok y) \<and> (\<forall>d k. \<exists>y. sign_doc_sign W d k = Ok y) \<and>
     (\<forall>t. \<exists>y. tx_to_bytes W t = Ok y)"

text \<open>The bodies of the transactions the servers of the tests answer with.\<close>

definition served_bodies :: "json list" where
  "served_bodies =
     map (\<lambda>h. tx_response_json h 0 [] None) [''HAPPYTX01'', ''STATEMISMATCH'', ''STATERETRY'', ''DEADBEEF'',
       ''OTHERHASH'', ''E2EHASH01''] @
     [tx_response_json ''DELIVERFAIL'' 9 ''policy rejected'' None,
      tx_response_json ''FAILTX01'' 7 ''wasm error'' None] @
     map (\<lambda>(h, contract, rate). tx_response_json h 0 [] (Some (wasm_update_rate_events contract rate)))
       [(''EVENTLAG01'', ORACLE, 2000), (''EVENTOK01'', ORACLE, 2000), (''WRONGCTR'', OTHER, 2000),
        (''WRONGRATE'', ORACLE, 1999), (''HEARTBEAT1'', ORACLE, 1000000)]"

text \<open>
  The base64 decoder on the values of the events: an address and a number of four digits are
  base64 of bytes that are no text, seven digits are no base64.
\<close>

definition decodes_values :: "'u lcd_lib \<Rightarrow> bool" where
  "decodes_values L \<longleftrightarrow>
     (\<exists>s. base64_decode L ORACLE = Ok (CHR 0xB5 # CHR 0xEA # s)) \<and>
     (\<exists>s. base64_decode L OTHER = Ok (CHR 0xB5 # CHR 0xEA # s)) \<and>
     base64_decode L ''2000'' = Ok [CHR 0xDB, CHR 0x4D, CHR 0x34] \<and>
     base64_decode L ''1999'' = Ok [CHR 0xD7, CHR 0xDF, CHR 0x7D] \<and>
     (\<exists>e. base64_decode L ''1000000'' = Err e)"

text \<open>A state goes through JSON and base64, or through a JSON value; \<open>paused\<close> may be missing.\<close>

definition carries_states :: "('a, 'u, 'k) server_host \<Rightarrow> bool" where
  "carries_states h \<longleftrightarrow>
     (\<forall>st. \<exists>raw. sh_state_to_vec h st = Ok raw \<and>
        base64_decode (sh_lcd h) (trim (base64_encode (sh_lcd h) raw)) = Ok raw \<and>
        from_slice (sh_state_de h) raw = Ok st \<and>
        from_value (sh_state_de h) (JObject (state_members st @ [(''paused'', JBool (sr_paused st))])) = Ok st \<and>
        from_value (sh_state_de h) (JObject (state_members st)) = Ok (st\<lparr>sr_paused := False\<rparr>)) \<and>
     (\<exists>q. sh_query_to_vec h State = Ok q) \<and> (\<forall>r. \<exists>m. sh_execute_to_vec h (UpdateRate r) = Ok m)"

text \<open>The BSC client reads what the JSON-RPC mocks of a URL answer.\<close>

definition reads_mocks :: "'a bsc_client \<Rightarrow> (string \<times> rpc_mock list) list \<Rightarrow> bool" where
  "reads_mocks cl servers \<longleftrightarrow> unat (u256_pow cl 10 0) = 1 \<and>
     (\<exists>v. parse_address cl ''0xC4eF4229FEc74Ccfe17B2bdeF7715fAC740BA0ba'' = Ok v) \<and>
     (\<forall>(u, ms)\<in>set servers. \<forall>t. \<exists>p. build_http_provider cl u t = Ok p \<and>
        (\<forall>n. rpc_answer ms [''eth_chainId''] = Some n \<longrightarrow> get_chain_id p = Ok (ucast n)) \<and>
        (\<forall>n. rpc_answer ms [''eth_blockNumber''] = Some n \<longrightarrow> get_block_number p = Ok (ucast n)) \<and>
        (\<forall>a b. \<forall>n. rpc_answer ms [''eth_call'', ''182df0f5''] = Some n \<longrightarrow> exchange_rate_stored_at p a b = Ok n) \<and>
        (\<forall>a b. rpc_answer ms [''eth_call'', ''6f307dc3''] \<noteq> None \<longrightarrow> (\<exists>u. underlying_at p a b = Ok u)) \<and>
        (\<forall>a b. \<forall>n. rpc_answer ms [''eth_call'', ''313ce567''] = Some n \<longrightarrow> decimals_at p a b = Ok (ucast n)))"

text \<open>
  The times: an HTTP request of the service ends within the 30 seconds of its client, and the
  test runs after 1970, before the clocks end.
\<close>

definition serves :: "('a, 'u, 'k) server_host \<Rightarrow> bool" where
  "serves h \<longleftrightarrow> wallet_signs (sh_wallet h) \<and>
     (\<forall>body\<in>set served_bodies. json_to_string (sh_lcd h) body = compact_json body) \<and>
     decodes_values (sh_lcd h) \<and> carries_states h \<and>
     (\<forall>r0 r1. reads_mocks (sh_bsc h [(sh_bsc_uri h 0, mount_bsc_rpc r0), (sh_bsc_uri h 1, mount_bsc_rpc r1)])
        [(sh_bsc_uri h 0, mount_bsc_rpc r0), (sh_bsc_uri h 1, mount_bsc_rpc r1)]) \<and>
     trim_end_slashes (sh_uri h) = sh_uri h \<and> sh_latency h \<le> 30000000000 \<and>
     sh_started h + 1000000000000 \<le> sh_instant_limit h \<and>
     1000000 \<le> unat (sh_unix h) \<and> unat (sh_unix h) < 2 ^ 62"

section \<open>The signer\<close>

definition signs_for :: "('a, 'u, 'k) server_host \<Rightarrow> 'k terra_signer \<Rightarrow> bool" where
  "signs_for h sg \<longleftrightarrow> ts_lcd_url sg = sh_uri h \<and> prefix ''terra1'' (ts_address sg)"

lemma signer_new:
  assumes "serves h"
  obtains sg where "terra_signer_new (sh_wallet h) \<lparr>tsc_lcd_url = sh_uri h, tsc_chain_id = c,
      tsc_mnemonic = TEST_MNEMONIC, tsc_gas_limit = g, tsc_gas_price = p\<rparr> = Ok sg"
    "signs_for h sg" "ts_chain_id sg = c" "ts_gas_price sg = p"
  using assms by (fastforce simp: serves_def wallet_signs_def terra_signer_new_def signs_for_def)

lemma signer_for_Ok:
  assumes "serves h" "sc_terra_mnemonic cfg = TEST_MNEMONIC"
  obtains sg where "signer_for h cfg = Ok sg" "signs_for h sg" "ts_chain_id sg = ''localterra''"
  using signer_new[OF assms(1)] assms(2) by (metis signer_for_def unwrap_simps(2))

lemma test_signer_Ok:
  assumes "serves h"
  obtains sg where "test_signer h = Ok sg" "signs_for h sg" "ts_chain_id sg = ''localterra''"
  using signer_new[OF assms(1)] by (metis test_signer_def unwrap_simps(2))

lemma default_signer_Ok:
  assumes "serves h"
  obtains sg where "default_signer h p = Ok sg" "signs_for h sg" "ts_gas_price sg = p"
  using signer_new[OF assms(1)] by (metis default_signer_def unwrap_simps(2))

lemma test_tx_signed:
  assumes "serves h" "ts_chain_id sg = ''localterra''"
  obtains tx where "signed_tx (sh_lcd h) (sh_wallet h) sg info price ORACLE (sh_execute_to_vec h (UpdateRate r)) = Ok tx"
proof -
  have W: "wallet_signs (sh_wallet h)" and c: "carries_states h" using assms(1) by (simp_all add: serves_def)
  from W obtain i d c where n: "account_id_parse (sh_wallet h) ORACLE = Ok i" "denom_parse (sh_wallet h) ''uluna'' = Ok d"
    "chain_id_parse (sh_wallet h) ''localterra'' = Ok c" by (auto simp: wallet_signs_def)
  from W have ex: "\<And>m. \<exists>y. to_any (sh_wallet h) m = Ok y" "\<And>b a c n. \<exists>y. sign_doc_new (sh_wallet h) b a c n = Ok y"
    "\<And>d k. \<exists>y. sign_doc_sign (sh_wallet h) d k = Ok y" "\<And>t. \<exists>y. tx_to_bytes (sh_wallet h) t = Ok y"
    by (simp_all add: wallet_signs_def)
  from ex(1) obtain f1 where f1: "\<And>m. to_any (sh_wallet h) m = Ok (f1 m)" by metis
  from ex(2) obtain f2 where f2: "\<And>b a c n. sign_doc_new (sh_wallet h) b a c n = Ok (f2 b a c n)" by metis
  from ex(3) obtain f3 where f3: "\<And>d k. sign_doc_sign (sh_wallet h) d k = Ok (f3 d k)" by metis
  from ex(4) obtain f4 where f4: "\<And>t. tx_to_bytes (sh_wallet h) t = Ok (f4 t)" by metis
  from c obtain m where "sh_execute_to_vec h (UpdateRate r) = Ok m" by (auto simp: carries_states_def)
  then show ?thesis using that by (simp add: signed_tx_def n f1 f2 f3 f4 assms(2) Let_def)
qed

section \<open>Requests\<close>

lemma request_at:
  "serve meth p ms = (r, ms') \<Longrightarrow> request h meth (sh_uri h @ p) \<lparr>mw_now = t, mw_mocks = ms\<rparr> =
     Some (Done (Ok r), \<lparr>mw_now = t + sh_latency h, mw_mocks = ms'\<rparr>)"
  by (simp add: request_def)

lemma mock_io_simps:
  "http_get (mock_io h) = request h ''GET''" "http_post (mock_io h) u b = request h ''POST'' u"
  "clock (mock_io h) w = (mw_now w, w)" "instant_limit (mock_io h) = sh_instant_limit h"
  "sleep_for (mock_io h) d w = (True, w\<lparr>mw_now := mw_now w + d\<rparr>)"
  "unix_time (mock_io h) w = (Some (unix_at h w), w)"
  by (simp_all add: mock_io_def)

lemma success_codes: "is_success 200" "\<not> is_success 404"
  by (simp_all add: is_success_def word_le_nat_alt word_less_nat_alt)

lemma responses [simp]:
  "status (json_response c b) = c" "body_json (json_response c b) = Ok b" "status (empty_response c) = c"
  by (simp_all add: json_response_def empty_response_def)

lemma mock_time: "time_advances (mock_io h) mw_now"
  by (auto simp: time_advances_def mock_io_simps request_def split: prod.split)

lemma account_answered:
  assumes "signs_for h sg"
    and "serve ''GET'' (''/cosmos/auth/v1beta1/accounts/'' @ ts_address sg) ms = (json_response 200 j, ms')"
    and "parse_account_info (sh_lcd h) j = r"
  shows "get_account_info (sh_lcd h) (mock_io h) sg \<lparr>mw_now = t, mw_mocks = ms\<rparr> =
    Some (Done r, \<lparr>mw_now = t + sh_latency h, mw_mocks = ms'\<rparr>)"
  using assms request_at[OF assms(2), of h t]
  by (simp add: get_account_info_def signs_for_def mock_io_simps io_then_def io_await_def io_return_def success_codes)

lemma min_price_answered:
  assumes "signs_for h sg" and "serve ''GET'' ''/cosmos/base/node/v1beta1/config'' ms = (json_response 200 j, ms')"
  shows "query_network_min_gas_price (sh_lcd h) (mock_io h) sg \<lparr>mw_now = t, mw_mocks = ms\<rparr> =
    Some (Done (Ok (parse_minimum_gas_price j)), \<lparr>mw_now = t + sh_latency h, mw_mocks = ms'\<rparr>)"
  using assms request_at[OF assms(2), of h t]
  by (simp add: query_network_min_gas_price_def signs_for_def mock_io_simps io_then_def io_await_def io_return_def success_codes)

lemma price_answered:
  assumes "signs_for h sg" and "serve ''GET'' ''/cosmos/base/node/v1beta1/config'' ms = (json_response 200 j, ms')"
  shows "resolve_gas_price (sh_lcd h) (mock_io h) sg \<lparr>mw_now = t, mw_mocks = ms\<rparr> =
    Some (Done (Ok (effective_gas_price (ts_gas_price sg) (parse_minimum_gas_price j))),
      \<lparr>mw_now = t + sh_latency h, mw_mocks = ms'\<rparr>)"
  by (simp add: resolve_gas_price_def io_await_def io_return_def min_price_answered[OF assms])

lemma price_refused:
  assumes "signs_for h sg" and "serve ''GET'' ''/cosmos/base/node/v1beta1/config'' ms = (r, ms')" "status r = 404"
  shows "resolve_gas_price (sh_lcd h) (mock_io h) sg \<lparr>mw_now = t, mw_mocks = ms\<rparr> =
    Some (Done (Ok (ts_gas_price sg)), \<lparr>mw_now = t + sh_latency h, mw_mocks = ms'\<rparr>)"
  using assms request_at[OF assms(2), of h t]
  by (simp add: resolve_gas_price_def query_network_min_gas_price_def signs_for_def mock_io_simps io_then_def
      io_await_def io_return_def success_codes)


lemma parse_one: "parse_uint ''1'' = Some (1 :: u64)"
  by (simp add: parse_uint_def is_digit_def byte_of_def)

lemma parse_account_json: "parse_account_info L (account_json s) = Ok \<lparr>ai_sequence = s, ai_account_number = 1\<rparr>"
  by (simp add: parse_account_info_def account_json_def BASE_ACCOUNT_def resolve_account_object.simps
      extract_u64_field_def parse_json_u64_def parse_uint_show_nat parse_one)

lemma parse_client_account: "parse_account_info L (client_account_json s) = Ok \<lparr>ai_sequence = s, ai_account_number = 1\<rparr>"
  by (simp add: parse_account_info_def client_account_json_def BASE_ACCOUNT_def resolve_account_object.simps
      extract_u64_field_def parse_json_u64_def parse_uint_show_nat parse_one)

section \<open>The broadcast\<close>

text \<open>The four requests of a broadcast: account, gas price (refused), and the transaction.\<close>

lemma inner_answered:
  assumes "serves h" "signs_for h sg" "ts_chain_id sg = ''localterra''"
    and "serve ''GET'' (''/cosmos/auth/v1beta1/accounts/'' @ ts_address sg) ms = (json_response 200 j, ms1)"
    and "parse_account_info (sh_lcd h) j = Ok info"
    and "serve ''GET'' ''/cosmos/base/node/v1beta1/config'' ms1 = (r, ms2)" "status r = 404"
    and "serve ''POST'' ''/cosmos/tx/v1beta1/txs'' ms2 = (resp, ms3)"
  shows "sign_and_broadcast_execute_inner (sh_lcd h) (sh_wallet h) (mock_io h) (sh_execute_to_vec h) sg ORACLE
      (UpdateRate rate) \<lparr>mw_now = t, mw_mocks = ms\<rparr> =
    Some (Done (check_tx_hash (sh_lcd h) resp), \<lparr>mw_now = t + 3 * sh_latency h, mw_mocks = ms3\<rparr>)"
proof -
  obtain tx where tx: "signed_tx (sh_lcd h) (sh_wallet h) sg info (ts_gas_price sg) ORACLE (sh_execute_to_vec h (UpdateRate rate)) = Ok tx"
    using test_tx_signed[OF assms(1,3)] by blast
  have u: "ts_lcd_url sg = sh_uri h" using assms(2) by (simp add: signs_for_def)
  have a: "io_then (get_account_info (sh_lcd h) (mock_io h) sg) k \<lparr>mw_now = t, mw_mocks = ms\<rparr> =
      k info \<lparr>mw_now = t + sh_latency h, mw_mocks = ms1\<rparr>" for k :: "account_info \<Rightarrow> (string, string, mock_world) io" and t
    by (simp add: io_then_def io_await_def account_answered[OF assms(2,4,5)])
  have p: "io_then (resolve_gas_price (sh_lcd h) (mock_io h) sg) k \<lparr>mw_now = t, mw_mocks = ms1\<rparr> =
      k (ts_gas_price sg) \<lparr>mw_now = t + sh_latency h, mw_mocks = ms2\<rparr>" for k :: "f64 \<Rightarrow> (string, string, mock_world) io" and t
    by (simp add: io_then_def io_await_def price_refused[OF assms(2,6,7)])
  show ?thesis
    unfolding sign_and_broadcast_execute_inner_def a p tx
    using request_at[OF assms(8), of h]
    by (simp add: io_then_def io_map_err_def io_await_def io_return_def mock_io_simps u algebra_simps)
qed

lemma check_hash_answer:
  "check_tx_hash L (json_response 200 (tx_response_json h c l None)) =
     (if c \<noteq> 0 then Err (''broadcast tx failed code '' @ show_nat (unat c) @ '': '' @ l)
      else if h = [] then Err ''broadcast succeeded CheckTx but missing txhash'' else Ok h)"
  by (simp add: check_tx_hash_def success_codes tx_response_json_def get_str_or_empty_def Let_def)

lemma broadcast_answered:
  assumes "serves h" "signs_for h sg" "ts_chain_id sg = ''localterra''"
    and "serve ''GET'' (''/cosmos/auth/v1beta1/accounts/'' @ ts_address sg) ms = (json_response 200 j, ms1)"
    and "parse_account_info (sh_lcd h) j = Ok info"
    and "serve ''GET'' ''/cosmos/base/node/v1beta1/config'' ms1 = (r, ms2)" "status r = 404"
    and "serve ''POST'' ''/cosmos/tx/v1beta1/txs'' ms2 = (json_response 200 (tx_response_json hash 0 l None), ms3)"
      "hash \<noteq> []"
  shows "sign_and_broadcast_execute (sh_lcd h) (sh_wallet h) (mock_io h) (sh_execute_to_vec h) sg ORACLE
      (UpdateRate rate) \<lparr>mw_now = t, mw_mocks = ms\<rparr> =
    Some (Done (Ok hash), \<lparr>mw_now = t + 3 * sh_latency h, mw_mocks = ms3\<rparr>)"
  using inner_answered[OF assms(1-8), of rate t] assms(9)
  by (simp add: sign_and_broadcast_execute_def io_await_def io_return_def check_hash_answer)

section \<open>Transactions\<close>

text \<open>No text the servers send holds the letters \<open>no\<close> next to each other.\<close>

fun has_no :: "string \<Rightarrow> bool" where
  "has_no (a # b # s) = (a \<in> {CHR ''n'', CHR ''N''} \<and> b \<in> {CHR ''o'', CHR ''O''} \<or> has_no (b # s))"
| "has_no s = False"

lemma has_no_append: "has_no t \<Longrightarrow> has_no (s @ t)"
proof (induction s)
  case (Cons a s)
  then have "has_no (s @ t)" by simp
  then show ?case by (cases "s @ t") auto
qed simp

lemma contains_no: "str_contains s (CHR ''n'' # CHR ''o'' # w) \<Longrightarrow> has_no s"
  by (auto simp: str_contains_def sublist_def intro!: has_no_append)

lemma contains_tx_no: "str_contains s (CHR ''t'' # CHR ''x'' # CHR '' '' # CHR ''n'' # CHR ''o'' # w) \<Longrightarrow> has_no s"
  by (auto simp: str_contains_def sublist_def intro!: has_no_append)

lemma lower_char_upper:
  assumes "to_lower_char c = d" "is_upper c" shows "c = char_of (byte_of d - 32)"
proof -
  from assms(2) have "byte_of c + 32 < 256" by (simp add: is_upper_def)
  with assms have "byte_of d = byte_of c + 32" by (auto simp: to_lower_char_def byte_of_def)
  then show ?thesis by (simp add: byte_of_def)
qed

lemma lower_letters:
  "to_lower_char c \<in> {CHR ''n'', CHR ''N''} \<Longrightarrow> c \<in> {CHR ''n'', CHR ''N''}"
  "to_lower_char c \<in> {CHR ''o'', CHR ''O''} \<Longrightarrow> c \<in> {CHR ''o'', CHR ''O''}"
proof -
  have l: "to_lower_char c = c" if "\<not> is_upper c" using that by (simp add: to_lower_char_def)
  have u: "is_upper c \<Longrightarrow> \<not> is_upper (to_lower_char c)"
    by (auto simp: to_lower_char_def is_upper_def byte_of_def)
  have "is_upper (CHR ''N'')" "is_upper (CHR ''O'')" by (simp_all add: is_upper_def byte_of_def)
  moreover have letters: "char_of (byte_of (CHR ''n'') - 32) = CHR ''N''" "char_of (byte_of (CHR ''o'') - 32) = CHR ''O''"
    by (simp_all add: byte_of_def char_of_def bit_0)
  ultimately show "to_lower_char c \<in> {CHR ''n'', CHR ''N''} \<Longrightarrow> c \<in> {CHR ''n'', CHR ''N''}"
    "to_lower_char c \<in> {CHR ''o'', CHR ''O''} \<Longrightarrow> c \<in> {CHR ''o'', CHR ''O''}"
    using l u lower_char_upper[of c] by - (cases "is_upper c"; auto simp: letters)+
qed

lemma has_no_lower: "has_no (to_ascii_lowercase s) \<Longrightarrow> has_no s"
  by (induction s rule: has_no.induct)
    (use lower_letters in \<open>auto simp: to_ascii_lowercase_def simp del: insert_iff\<close>)

lemma not_found_has_no: "says_not_found s \<Longrightarrow> has_no s"
  by (auto simp: says_not_found_def Let_def dest!: contains_no contains_tx_no has_no_lower)

lemma rate_texts: "show_nat 2000 = ''2000''" "show_nat 1999 = ''1999''" "show_nat 1000000 = ''1000000''"
  by (simp_all add: show_nat.simps digit_char_def char_of_def bit_0)

lemma code_texts: "show_nat 0 = ''0''" "show_nat 7 = ''7''" "show_nat 9 = ''9''"
  by (simp_all add: show_nat.simps digit_char_def char_of_def bit_0)

lemma served_texts: "body \<in> set served_bodies \<Longrightarrow> \<not> has_no (compact_json body)"
  by (auto simp: served_bodies_def tx_response_json_def wasm_update_rate_events_def json_wasm_event_def
      json_attr_def quoted_def ORACLE_def OTHER_def
      rate_texts code_texts compact_json.simps)

lemma served_body_found:
  assumes "serves h" "body \<in> set served_bodies"
  shows "\<not> tx_body_looks_not_found (sh_lcd h) body"
proof -
  have "json_to_string (sh_lcd h) body = compact_json body" using assms by (simp add: serves_def)
  with served_texts[OF assms(2)] show ?thesis by (auto simp: looks_not_found_iff dest!: not_found_has_no)
qed

end
