(* ===== verification/Test_Server_Waits.thy ===== *)
theory Test_Server_Waits
  imports Test_Server_Runs
begin

text \<open>
  The wait for inclusion, the query of the state and the confirmation of an update against a
  mock server, by the answers of the server.
\<close>

section \<open>Transactions\<close>

lemma tx_answered:
  assumes "signs_for h sg" "serve ''GET'' (''/cosmos/tx/v1beta1/txs/'' @ hash) ms = (json_response c body, ms')"
  shows "query_tx_by_hash (sh_lcd h) (mock_io h) sg hash \<lparr>mw_now = t, mw_mocks = ms\<rparr> =
    Some (Done (parse_tx_query_body (sh_lcd h) c body), \<lparr>mw_now = t + sh_latency h, mw_mocks = ms'\<rparr>)"
  using assms request_at[OF assms(2), of h t]
  by (simp add: query_tx_by_hash_def signs_for_def mock_io_simps io_then_def io_map_err_def io_await_def io_return_def)

text \<open>The summary of a transaction without events.\<close>

definition summary_of :: "string \<Rightarrow> u64 \<Rightarrow> string \<Rightarrow> tx_event list \<Rightarrow> tx_response_summary" where
  "summary_of h c l evs = \<lparr>txhash = h, code = c, raw_log = l, events = evs\<rparr>"

lemma parse_plain_tx:
  assumes "serves h" "tx_response_json hash c l None \<in> set served_bodies" "hash \<noteq> []"
  shows "parse_tx_query_body (sh_lcd h) 200 (tx_response_json hash c l None) = Ok (Some (summary_of hash c l []))"
  using served_body_found[OF assms(1,2)] assms(3)
  by (simp add: parse_tx_query_body_def http_status_is_not_found_def success_codes tx_response_json_def
      get_str_or_empty_def summary_of_def parse_tx_events_def events_of_def Let_def)

definition update_event :: "string \<Rightarrow> u128 \<Rightarrow> tx_event" where
  "update_event contract rate = wasm_event [attr ''_contract_address'' contract, attr ''action'' ''update_rate'',
     attr ''rate'' (show_nat (unat rate))]"

lemma address_texts: "trim ORACLE = ORACLE" "trim OTHER = OTHER"
  unfolding ORACLE_def OTHER_def by (rule trim_visible, simp add: visible_def byte_of_def)+

lemma number_visible: "trim ''1999'' = ''1999''" "trim ''1000000'' = ''1000000''"
  by (rule trim_visible, simp add: visible_def byte_of_def)+

lemma no_text: "chars_of (CHR 0xB5 # CHR 0xEA # s) = None" "chars_of [CHR 0xDB, CHR 0x4D, CHR 0x34] = None"
  "chars_of [CHR 0xD7, CHR 0xDF, CHR 0x7D] = None"
  by (simp_all add: chars_of_def byte_of_def continuation_def)

lemma base64_undone:
  assumes "trim x = x" "\<And>b. base64_decode L x = Ok b \<Longrightarrow> chars_of b = None" "base64_decode L x \<noteq> Panicked"
  shows "decode_tendermint_attr L x = x"
  using assms(2,3) unfolding decode_tendermint_attr_def assms(1) Let_def
  by (auto split: sum.splits option.splits)

lemma decoded_values:
  assumes "decodes_values L"
  shows "decode_tendermint_attr L ORACLE = ORACLE" "decode_tendermint_attr L OTHER = OTHER"
    "decode_tendermint_attr L ''2000'' = ''2000''" "decode_tendermint_attr L ''1999'' = ''1999''"
    "decode_tendermint_attr L ''1000000'' = ''1000000''"
proof -
  note d = assms[unfolded decodes_values_def]
  show "decode_tendermint_attr L ORACLE = ORACLE" by (rule base64_undone) (use d in \<open>auto simp: address_texts no_text\<close>)
  show "decode_tendermint_attr L OTHER = OTHER" by (rule base64_undone) (use d in \<open>auto simp: address_texts no_text\<close>)
  show "decode_tendermint_attr L ''2000'' = ''2000''" by (rule base64_undone) (use d in \<open>auto simp: trim_keys no_text\<close>)
  show "decode_tendermint_attr L ''1999'' = ''1999''" by (rule base64_undone) (use d in \<open>auto simp: number_visible no_text\<close>)
  show "decode_tendermint_attr L ''1000000'' = ''1000000''" by (rule base64_undone) (use d in \<open>auto simp: number_visible\<close>)
qed

lemma decoded_rates:
  assumes "decodes_values L" "rate \<in> {2000, 1999, 1000000 :: u128}"
  shows "decode_tendermint_attr L (show_nat (unat rate)) = show_nat (unat rate)"
  using assms(2) decoded_values[OF assms(1)] by (auto simp: rate_texts)

lemma parse_event_tx:
  assumes "serves h" "tx_response_json hash 0 [] (Some (wasm_update_rate_events contract rate)) \<in> set served_bodies"
    and "hash \<noteq> []" "contract \<in> {ORACLE, OTHER}" "rate \<in> {2000, 1999, 1000000}"
  shows "parse_tx_query_body (sh_lcd h) 200 (tx_response_json hash 0 [] (Some (wasm_update_rate_events contract rate))) =
    Ok (Some (summary_of hash 0 [] [update_event contract rate]))"
proof -
  have d: "decodes_values (sh_lcd h)" using assms(1) by (simp add: serves_def)
  have c: "decode_tendermint_attr (sh_lcd h) contract = contract" using assms(4) decoded_values[OF d] by auto
  show ?thesis
    using served_body_found[OF assms(1,2)] assms(3)
    by (simp add: parse_tx_query_body_def http_status_is_not_found_def success_codes tx_response_json_def
        get_str_or_empty_def summary_of_def wasm_update_rate_events_def event_parsing Let_def c
        decoded_rates[OF d assms(5)] update_event_def wasm_event_def attr_def)
qed

section \<open>The wait\<close>

lemma wait_answered:
  assumes "signs_for h sg" "serve ''GET'' (''/cosmos/tx/v1beta1/txs/'' @ hash) ms = (json_response c body, ms')"
    and "confirm_verdict hash (parse_tx_query_body (sh_lcd h) c body) = Some v" "hash \<noteq> []"
    and "t + timeout confirm \<le> sh_instant_limit h"
  shows "wait_for_deliver_tx_success (sh_lcd h) (mock_io h) sg hash confirm \<lparr>mw_now = t, mw_mocks = ms\<rparr> =
    Some (Done v, \<lparr>mw_now = t + sh_latency h, mw_mocks = ms'\<rparr>)"
proof -
  have "confirm_loop (sh_lcd h) (mock_io h) sg hash confirm d 0 \<lparr>mw_now = t, mw_mocks = ms\<rparr> =
      Some (Done v, \<lparr>mw_now = t + sh_latency h, mw_mocks = ms'\<rparr>)" for d
    by (subst confirm_loop.simps) (simp add: tx_answered[OF assms(1,2)] assms(3) Let_def)
  then show ?thesis using assms(4,5) by (simp add: wait_for_deliver_tx_success_def mock_io_simps Let_def)
qed

text \<open>A server that never knows the transaction: the wait ends with the timeout.\<close>

lemma loop_times_out:
  assumes sg: "signs_for h sg"
    and never: "\<And>ms. P ms \<Longrightarrow> \<exists>ms'. serve ''GET'' (''/cosmos/tx/v1beta1/txs/'' @ hash) ms = (NOT_FOUND, ms') \<and> P ms'"
  shows "P (mw_mocks w) \<Longrightarrow> \<exists>w'. confirm_loop (sh_lcd h) (mock_io h) sg hash confirm deadline attempt w =
      Some (Done (Err (confirm_timeout_error confirm hash)), w') \<and> P (mw_mocks w')"
proof (induction "deadline - mw_now w" arbitrary: w attempt rule: less_induct)
  case less
  obtain t ms where w: "w = \<lparr>mw_now = t, mw_mocks = ms\<rparr>" by (cases w) auto
  from less.prems w never obtain ms' where s: "serve ''GET'' (''/cosmos/tx/v1beta1/txs/'' @ hash) ms = (NOT_FOUND, ms')"
    and P: "P ms'" by auto
  let ?t = "t + sh_latency h"
  let ?d = "confirm_pause confirm (saturating_add attempt 1) (deadline - ?t)"
  have q: "query_tx_by_hash (sh_lcd h) (mock_io h) sg hash w = Some (Done (Ok None), \<lparr>mw_now = ?t, mw_mocks = ms'\<rparr>)"
    using tx_answered[OF sg s[unfolded NOT_FOUND_def], of t]
    by (simp add: w parse_tx_query_body_def http_status_is_not_found_def)
  have unfold: "confirm_loop (sh_lcd h) (mock_io h) sg hash confirm deadline attempt w =
      (if deadline \<le> ?t then Some (Done (Err (confirm_timeout_error confirm hash)), \<lparr>mw_now = ?t, mw_mocks = ms'\<rparr>)
       else confirm_loop (sh_lcd h) (mock_io h) sg hash confirm deadline (saturating_add attempt 1)
         \<lparr>mw_now = ?t + ?d, mw_mocks = ms'\<rparr>)"
    by (subst confirm_loop.simps) (simp add: q confirm_verdict_def mock_io_simps Let_def)
  show ?case
  proof (cases "deadline \<le> ?t")
    case False
    have "deadline - (?t + ?d) < deadline - t" using False confirm_pause_ge[of confirm "saturating_add attempt 1" "deadline - ?t"]
      by linarith
    with less.hyps[of "\<lparr>mw_now = ?t + ?d, mw_mocks = ms'\<rparr>"] P False w show ?thesis unfolding unfold by simp
  qed (simp add: unfold P)
qed

lemma wait_times_out:
  assumes "signs_for h sg" "hash \<noteq> []" "t + timeout confirm \<le> sh_instant_limit h" "P ms"
    and "\<And>ms. P ms \<Longrightarrow> \<exists>ms'. serve ''GET'' (''/cosmos/tx/v1beta1/txs/'' @ hash) ms = (NOT_FOUND, ms') \<and> P ms'"
  obtains w' where "wait_for_deliver_tx_success (sh_lcd h) (mock_io h) sg hash confirm \<lparr>mw_now = t, mw_mocks = ms\<rparr> =
    Some (Done (Err (confirm_timeout_error confirm hash)), w')" "P (mw_mocks w')"
  using loop_times_out[of h sg P hash "\<lparr>mw_now = t, mw_mocks = ms\<rparr>" confirm "t + timeout confirm" 0] assms
  by (auto simp: wait_for_deliver_tx_success_def mock_io_simps Let_def)

section \<open>The state\<close>

lemma state_body_Ok:
  assumes "serves h"
  obtains raw where "state_lcd_body h st = Ok (JObject [(''data'', JString raw)])"
    "parse_wasm_smart_query_data (sh_lcd h) (sh_state_de h) (JString raw) = Ok st"
proof -
  from assms obtain raw where "sh_state_to_vec h st = Ok raw"
    "base64_decode (sh_lcd h) (trim (base64_encode (sh_lcd h) raw)) = Ok raw" "from_slice (sh_state_de h) raw = Ok st"
    unfolding serves_def carries_states_def by meson
  then show ?thesis
    using that[of "base64_encode (sh_lcd h) raw"]
    by (simp add: state_lcd_body_def parse_wasm_smart_query_data_def unwrap_def)
qed

definition shows_state :: "('a, 'u, 'k) server_host \<Rightarrow> state_response \<Rightarrow> json \<Rightarrow> bool" where
  "shows_state h st body \<longleftrightarrow> (\<exists>raw. body = JObject [(''data'', JString raw)] \<and>
     parse_wasm_smart_query_data (sh_lcd h) (sh_state_de h) (JString raw) = Ok st)"

lemma state_body_shown:
  assumes "serves h" obtains body where "state_lcd_body h st = Ok body" "shows_state h st body"
  using state_body_Ok[OF assms] by (metis shows_state_def)

abbreviation smart_path :: "string \<Rightarrow> string" where
  "smart_path q \<equiv> ''/cosmwasm/wasm/v1/contract/'' @ ORACLE @ ''/smart/'' @ q"

lemma state_answered:
  assumes "serves h" "signs_for h sg" "shows_state h st body"
    and "\<And>q. serve ''GET'' (smart_path q) ms = (json_response 200 body, ms')"
  shows "query_wasm_smart (sh_lcd h) (mock_io h) (sh_query_to_vec h) (sh_state_de h) sg ORACLE State
      \<lparr>mw_now = t, mw_mocks = ms\<rparr> = Some (Done (Ok st), \<lparr>mw_now = t + sh_latency h, mw_mocks = ms'\<rparr>)"
proof -
  obtain q where q: "sh_query_to_vec h State = Ok q" using assms(1) by (auto simp: serves_def carries_states_def)
  from assms(3) obtain raw where b: "body = JObject [(''data'', JString raw)]"
    "parse_wasm_smart_query_data (sh_lcd h) (sh_state_de h) (JString raw) = Ok st" by (auto simp: shows_state_def)
  have u: "ts_lcd_url sg = sh_uri h" using assms(2) by (simp add: signs_for_def)
  show ?thesis
    using request_at[OF assms(4), of h "base64_encode (sh_lcd h) q" t]
    by (simp add: query_wasm_smart_def q io_then_def io_await_def io_return_def mock_io_simps u success_codes b)
qed

section \<open>The events\<close>

lemma event_matches:
  "oracle_tx_events_match_update ORACLE rate [update_event ORACLE rate] = Ok Matched"
  by (simp add: update_event_def event_eval parse_uint_show_nat trim_show_nat show_nat_nonempty[symmetric])

lemma event_of_other_contract:
  "oracle_tx_events_match_update ORACLE rate [update_event OTHER rate'] =
     Err (''DeliverTx wasm events did not include _contract_address='' @ ORACLE @ '' (fail-closed)'')"
  by (simp add: update_event_def event_eval)

lemma event_of_other_rate:
  assumes "rate' \<noteq> rate"
  shows "oracle_tx_events_match_update ORACLE rate [update_event ORACLE rate'] =
     Err (''DeliverTx wasm event rate does not match proposed '' @ show_nat (unat rate) @ '' (fail-closed)'')"
  using assms by (simp add: update_event_def event_eval parse_uint_show_nat trim_show_nat show_nat_nonempty[symmetric])

lemma no_events: "oracle_tx_events_match_update ORACLE rate [] = Ok EventsAbsent"
  by (simp add: oracle_tx_events_match_update_def wasm_attr_groups_def)

end
