(* ===== verification/Test_Submit_Pass.thy ===== *)
theory Test_Submit_Pass
  imports Test_Server_Waits
begin

text \<open>The tests of \<open>submit_confirm_tests\<close> pass, for every host that \<open>serves\<close>.\<close>

section \<open>The server of the tests\<close>

text \<open>
  The three mocks every test mounts, with how often each has answered, and the mocks of the
  state behind them.
\<close>

definition hit :: "nat \<Rightarrow> mock \<Rightarrow> mock" where
  "hit n m = m\<lparr>mk_hits := n\<rparr>"

definition submit_server :: "string \<Rightarrow> http_response \<Rightarrow> nat \<Rightarrow> nat \<Rightarrow> nat \<Rightarrow> mock list \<Rightarrow> mock list" where
  "submit_server hash r a b c states =
     hit a (mount_account 1) # hit b (broadcast_answers hash 0 []) # hit c (tx_answers hash r) # states"

lemma submit_server_start:
  "mount_account 1 # broadcast_answers hash 0 [] # tx_answers hash r # states = submit_server hash r 0 0 0 states"
  by (simp add: submit_server_def hit_def mount_account_def broadcast_answers_def tx_answers_def respond_def)

definition state_mocks :: "mock list \<Rightarrow> bool" where
  "state_mocks ms \<longleftrightarrow> list_all (\<lambda>m. mk_method m = ''GET'' \<and> mk_path m = SMART) ms"

lemma mocks_apart:
  "\<not> answers_request ''GET'' ''/cosmos/base/node/v1beta1/config'' (hit n (mount_account s))"
  "\<not> answers_request ''GET'' ''/cosmos/base/node/v1beta1/config'' (hit n (broadcast_answers hash c l))"
  "\<not> answers_request ''GET'' ''/cosmos/base/node/v1beta1/config'' (hit n (tx_answers hash r))"
  "\<not> answers_request ''POST'' u (hit n (mount_account s))"
  "\<not> answers_request ''GET'' u (hit n (broadcast_answers hash c l))"
  "\<not> answers_request ''GET'' (''/cosmos/tx/v1beta1/txs/'' @ x) (hit n (mount_account s))"
  "\<not> answers_request ''GET'' (''/cosmwasm/wasm/v1/contract/'' @ x) (hit n (mount_account s))"
  "\<not> answers_request ''GET'' (''/cosmwasm/wasm/v1/contract/'' @ x) (hit n (tx_answers hash r))"
  by (simp_all add: answers_request_def hit_def mount_account_def broadcast_answers_def tx_answers_def respond_def)

lemma mocks_answer:
  "answers_request ''GET'' (''/cosmos/auth/v1beta1/accounts/'' @ x) (hit n (mount_account s))"
  "answers_request ''POST'' ''/cosmos/tx/v1beta1/txs'' (hit n (broadcast_answers hash c l))"
  "answers_request ''GET'' (''/cosmos/tx/v1beta1/txs/'' @ hash) (hit n (tx_answers hash r))"
  by (simp_all add: answers_request_def hit_def mount_account_def broadcast_answers_def tx_answers_def respond_def)

lemma hit_simps:
  "(hit n m)\<lparr>mk_hits := Suc (mk_hits (hit n m))\<rparr> = hit (Suc n) m"
  "mk_response (hit n (mount_account s)) = json_response 200 (account_json s)"
  "mk_response (hit n (broadcast_answers hash c l)) = json_response 200 (tx_response_json hash c l None)"
  "mk_response (hit n (tx_answers hash r)) = r"
  by (simp_all add: hit_def mount_account_def broadcast_answers_def tx_answers_def respond_def)

lemma serve_states:
  "state_mocks ms \<Longrightarrow> serve ''GET'' ''/cosmos/base/node/v1beta1/config'' ms = (empty_response 404, ms)"
  by (induction ms) (auto simp: state_mocks_def answers_request_def SMART_def)

lemma serve_submit:
  "serve ''GET'' (''/cosmos/auth/v1beta1/accounts/'' @ x) (submit_server hash r a b c states) =
     (json_response 200 (account_json 1), submit_server hash r (Suc a) b c states)"
  "state_mocks states \<Longrightarrow> serve ''GET'' ''/cosmos/base/node/v1beta1/config'' (submit_server hash r a b c states) =
     (empty_response 404, submit_server hash r a b c states)"
  "serve ''POST'' ''/cosmos/tx/v1beta1/txs'' (submit_server hash r a b c states) =
     (json_response 200 (tx_response_json hash 0 [] None), submit_server hash r a (Suc b) c states)"
  "serve ''GET'' (''/cosmos/tx/v1beta1/txs/'' @ hash) (submit_server hash r a b c states) =
     (r, submit_server hash r a b (Suc c) states)"
  "serve ''GET'' (''/cosmwasm/wasm/v1/contract/'' @ x) (submit_server hash r a b c states) =
     (let (resp, states) = serve ''GET'' (''/cosmwasm/wasm/v1/contract/'' @ x) states
      in (resp, submit_server hash r a b c states))"
  by (simp_all add: submit_server_def mocks_apart mocks_answer hit_simps serve_states split: prod.split
      del: append.simps)

lemma smart_matches: "path_matches SMART (smart_path q)"
  by (simp add: SMART_def str_contains_def sublist_def) (metis append_Cons append_assoc)

lemma serve_state:
  "serve ''GET'' (smart_path q) (hit n (state_answers body) # ms) =
     (json_response 200 body, hit (Suc n) (state_answers body) # ms)"
  using smart_matches[of q]
  by (simp add: answers_request_def hit_def state_answers_def respond_def)

lemma serve_state_once:
  "serve ''GET'' (smart_path q) (hit 0 (up_to_n_times 1 (state_answers body)) # ms) =
     (json_response 200 body, hit 1 (up_to_n_times 1 (state_answers body)) # ms)"
  "serve ''GET'' (smart_path q) (hit 1 (up_to_n_times 1 (state_answers body)) # ms) =
     (let (r, ms) = serve ''GET'' (smart_path q) ms in (r, hit 1 (up_to_n_times 1 (state_answers body)) # ms))"
  using smart_matches[of q]
  by (simp_all add: answers_request_def hit_def state_answers_def respond_def up_to_n_times_def)

lemma expectations_submit:
  "expectations_met (submit_server hash r a b c states) \<longleftrightarrow> expectations_met states" "expectations_met []"
  "expectations_met (hit n (state_answers body) # ms) \<longleftrightarrow> expectations_met ms"
  "expectations_met (hit n (up_to_n_times k (state_answers body)) # ms) \<longleftrightarrow> expectations_met ms"
  by (simp_all add: expectations_met_def submit_server_def hit_def mount_account_def broadcast_answers_def
      tx_answers_def respond_def state_answers_def up_to_n_times_def)

section \<open>A submission\<close>

text \<open>What the submission does once the transaction was waited for.\<close>

definition after_wait ::
  "('a, 'u, 'k, 'w) service \<Rightarrow> service_config \<Rightarrow> 'k terra_signer \<Rightarrow> u128 \<Rightarrow> state_response \<Rightarrow> string \<Rightarrow>
   tx_response_summary \<Rightarrow> (string, string, 'w) io" where
  "after_wait sv cfg sg proposed prior txh summary =
     io_then (io_return (oracle_tx_events_match_update (sc_oracle_contract cfg) proposed (events summary)))
       (\<lambda>m. case m of
          Matched \<Rightarrow> io_then (observe_state_after_event_ok sv cfg sg) (\<lambda>_. io_return (Ok txh))
        | EventsAbsent \<Rightarrow> io_then (confirm_state_with_retry sv cfg sg prior proposed) (\<lambda>_. io_return (Ok txh)))"

lemma submit_waits:
  assumes "serves h" "signs_for h sg" "ts_chain_id sg = ''localterra''" "sc_oracle_contract cfg = ORACLE"
    and "serve ''GET'' (''/cosmos/auth/v1beta1/accounts/'' @ ts_address sg) ms = (json_response 200 (account_json 1), ms1)"
    and "serve ''GET'' ''/cosmos/base/node/v1beta1/config'' ms1 = (resp, ms2)" "status resp = 404"
    and "serve ''POST'' ''/cosmos/tx/v1beta1/txs'' ms2 = (json_response 200 (tx_response_json hash 0 [] None), ms3)"
      "hash \<noteq> []"
    and "wait_for_deliver_tx_success (sh_lcd h) (mock_io h) sg hash
        (from_secs_and_ms (sc_tx_confirm_timeout_secs cfg) (sc_tx_confirm_poll_interval_ms cfg))
        \<lparr>mw_now = t + 3 * sh_latency h, mw_mocks = ms3\<rparr> = Some (Done v, w)" "v \<noteq> Panicked"
  shows "submit_and_confirm_oracle_update (mock_service h bsc) cfg sg rate prior \<lparr>mw_now = t, mw_mocks = ms\<rparr> =
     (case v of Inr s \<Rightarrow> after_wait (mock_service h bsc) cfg sg rate prior hash s w
      | Inl e \<Rightarrow> Some (Done (Inl e), w))"
proof -
  have b: "sign_and_broadcast_execute (sh_lcd h) (sh_wallet h) (mock_io h) (sh_execute_to_vec h) sg ORACLE
      (UpdateRate rate) \<lparr>mw_now = t, mw_mocks = ms\<rparr> = Some (Done (Ok hash), \<lparr>mw_now = t + 3 * sh_latency h, mw_mocks = ms3\<rparr>)"
    by (rule broadcast_answered[OF assms(1-3,5) parse_account_json assms(6-9)])
  have s: "sv_lcd (mock_service h bsc) = sh_lcd h" "sv_wallet (mock_service h bsc) = sh_wallet h"
    "sv_io (mock_service h bsc) = mock_io h" "sv_execute_to_vec (mock_service h bsc) = sh_execute_to_vec h"
    by (simp_all add: mock_service_def)
  have "(\<exists>s. v = Ok s) \<or> (\<exists>e. v = Err e)" using assms(11) by (cases v) (metis fault.exhaust, blast)
  moreover have first: "io_then (sign_and_broadcast_execute (sh_lcd h) (sh_wallet h) (mock_io h) (sh_execute_to_vec h) sg ORACLE
      (UpdateRate rate)) k \<lparr>mw_now = t, mw_mocks = ms\<rparr> = k hash \<lparr>mw_now = t + 3 * sh_latency h, mw_mocks = ms3\<rparr>"
    for k :: "string \<Rightarrow> (string, string, mock_world) io"
    by (simp add: io_then_def io_await_def b)
  moreover have "io_then (wait_for_deliver_tx_success (sh_lcd h) (mock_io h) sg hash
        (from_secs_and_ms (sc_tx_confirm_timeout_secs cfg) (sc_tx_confirm_poll_interval_ms cfg))) k
        \<lparr>mw_now = t + 3 * sh_latency h, mw_mocks = ms3\<rparr> = (case v of Inr s \<Rightarrow> k s w | Inl e \<Rightarrow> Some (Done (Inl e), w))"
    for k :: "tx_response_summary \<Rightarrow> (string, string, mock_world) io"
    using calculation by (auto simp: io_then_def io_await_def assms(10) io_return_def)
  ultimately show ?thesis
    unfolding submit_and_confirm_oracle_update_def s assms(4) Let_def first after_wait_def by simp
qed

text \<open>A transaction the server knows.\<close>

lemma submit_included:
  assumes "serves h" "signs_for h sg" "ts_chain_id sg = ''localterra''" "sc_oracle_contract cfg = ORACLE"
    and "state_mocks states" "hash \<noteq> []"
    and "parse_tx_query_body (sh_lcd h) 200 body = Ok (Some (summary_of hash c l evs))"
    and "sc_tx_confirm_timeout_secs cfg = 2"
  shows "submit_and_confirm_oracle_update (mock_service h bsc) cfg sg rate prior
      (mounted h (submit_server hash (json_response 200 body) 0 0 0 states)) =
    (let w = \<lparr>mw_now = sh_started h + 4 * sh_latency h, mw_mocks = submit_server hash (json_response 200 body) 1 1 1 states\<rparr>
     in if c = 0 then after_wait (mock_service h bsc) cfg sg rate prior hash (summary_of hash c l evs) w
        else Some (Done (Err (''DeliverTx failed code '' @ show_nat (unat c) @ '': '' @ l)), w))"
proof -
  let ?v = "if c = 0 then Ok (summary_of hash c l evs) else Err (''DeliverTx failed code '' @ show_nat (unat c) @ '': '' @ l)"
  have v: "confirm_verdict hash (parse_tx_query_body (sh_lcd h) 200 body) = Some ?v"
    by (simp add: confirm_verdict_def assms(7) summary_of_def eq_ignore_ascii_case_def)
  have t: "sh_started h + 3 * sh_latency h + timeout (from_secs_and_ms (sc_tx_confirm_timeout_secs cfg)
      (sc_tx_confirm_poll_interval_ms cfg)) \<le> sh_instant_limit h"
    using assms(1) by (simp add: assms(8) serves_def from_secs_and_ms_def duration_from_secs_def)
  from submit_waits[OF assms(1-4) serve_submit(1) serve_submit(2)[OF assms(5)] _ serve_submit(3) assms(6)
      wait_answered[OF assms(2) serve_submit(4) v assms(6) t]]
  show ?thesis by (simp add: mounted_def Let_def algebra_simps numeral_2_eq_2)
qed

lemma query_state_mock:
  "sc_oracle_contract cfg = ORACLE \<Longrightarrow> query_state (mock_service h bsc) cfg sg =
     query_wasm_smart (sh_lcd h) (mock_io h) (sh_query_to_vec h) (sh_state_de h) sg ORACLE State"
  by (simp add: query_state_def mock_service_def)

lemma test_cfg_simps: "sc_oracle_contract (test_cfg lcd) = ORACLE" "sc_terra_mnemonic (test_cfg lcd) = TEST_MNEMONIC"
  "sc_tx_confirm_timeout_secs (test_cfg lcd) = 2"
  by (simp_all add: test_cfg_def)

text \<open>A test passes when, whatever the signer, its submission ends as the check asks.\<close>

lemma submitting_passes:
  assumes "serves h" "sc_terra_mnemonic (settings (test_cfg (sh_uri h))) = TEST_MNEMONIC"
    and "\<And>sg. signs_for h sg \<Longrightarrow> ts_chain_id sg = ''localterra'' \<Longrightarrow>
      \<exists>r w. submit_and_confirm_oracle_update (mock_service h []) (settings (test_cfg (sh_uri h))) sg 2000 prior_state
          (mounted h (submit_server hash resp 0 0 0 states)) = Some (Done r, w) \<and>
        passes (check r (mw_now w) (liveness_new (sh_started h))) \<and> expectations_met (mw_mocks w)"
  shows "passes (submitting h settings (mount_account 1 # broadcast_answers hash 0 [] # tx_answers hash resp # states) check)"
proof -
  obtain sg where sg: "signer_for h (settings (test_cfg (sh_uri h))) = Ok sg" "signs_for h sg" "ts_chain_id sg = ''localterra''"
    using signer_for_Ok[OF assms(1,2)] by blast
  from assms(3)[OF sg(2,3)] show ?thesis
    unfolding submitting_def submit_server_start
    by (auto simp: Let_def sg(1) awaited_def server_dropped_def passes_and_then test_simps passes_def)
qed

lemma contains_words:
  "str_contains (''DeliverTx failed code '' @ s) ''DeliverTx failed''"
  "str_contains (''oracle state rate mismatch after inclusion: expected '' @ s) ''rate mismatch''"
  "str_contains (''DeliverTx wasm events did not include _contract_address='' @ s) ''_contract_address''"
  "str_contains (''DeliverTx wasm event rate does not match proposed '' @ s) ''rate does not match''"
  "str_contains (''tx confirmation timeout after '' @ s) ''confirmation timeout''"
  by (simp_all add: str_contains_def sublist_Cons_right)

section \<open>After the wait\<close>

text \<open>The state after the transaction.\<close>

lemma state_of_server:
  assumes "serves h" "signs_for h sg" "sc_oracle_contract cfg = ORACLE" "shows_state h st body"
  shows "query_state (mock_service h bsc) cfg sg
      \<lparr>mw_now = t, mw_mocks = submit_server hash r a b c (hit n (state_answers body) # ms)\<rparr> =
    Some (Done (Ok st), \<lparr>mw_now = t + sh_latency h, mw_mocks = submit_server hash r a b c (hit (Suc n) (state_answers body) # ms)\<rparr>)"
  unfolding query_state_mock[OF assms(3)]
  by (rule state_answered[OF assms(1,2,4)]) (simp only: serve_submit(5) serve_state Let_def split_conv)

lemma state_of_limited_server:
  assumes "serves h" "signs_for h sg" "sc_oracle_contract cfg = ORACLE" "shows_state h st body"
  shows "query_state (mock_service h bsc) cfg sg
      \<lparr>mw_now = t, mw_mocks = submit_server hash r a b c (hit 0 (up_to_n_times 1 (state_answers body)) # ms)\<rparr> =
    Some (Done (Ok st), \<lparr>mw_now = t + sh_latency h,
      mw_mocks = submit_server hash r a b c (hit 1 (up_to_n_times 1 (state_answers body)) # ms)\<rparr>)"
    "query_state (mock_service h bsc) cfg sg
      \<lparr>mw_now = t, mw_mocks = submit_server hash r a b c (hit 1 (up_to_n_times 1 (state_answers b')) # hit n (state_answers body) # ms)\<rparr> =
    Some (Done (Ok st), \<lparr>mw_now = t + sh_latency h,
      mw_mocks = submit_server hash r a b c (hit 1 (up_to_n_times 1 (state_answers b')) # hit (Suc n) (state_answers body) # ms)\<rparr>)"
  unfolding query_state_mock[OF assms(3)]
  by (rule state_answered[OF assms(1,2,4)],
      simp only: serve_submit(5) serve_state_once serve_state Let_def split_conv)+

lemma after_matching_event:
  assumes "serves h" "signs_for h sg" "sc_oracle_contract cfg = ORACLE" "shows_state h st body"
    and "events s = [update_event ORACLE rate]"
  shows "after_wait (mock_service h bsc) cfg sg rate prior hash s
      \<lparr>mw_now = t, mw_mocks = submit_server hash r a b c (hit n (state_answers body) # ms)\<rparr> =
    Some (Done (Ok hash), \<lparr>mw_now = t + sh_latency h, mw_mocks = submit_server hash r a b c (hit (Suc n) (state_answers body) # ms)\<rparr>)"
  unfolding after_wait_def assms(3,5) event_matches observe_state_after_event_ok_def
  by (simp add: io_then_def io_await_def io_return_def state_of_server[OF assms(1-4)])

lemma after_wrong_event:
  assumes "sc_oracle_contract cfg = ORACLE" "oracle_tx_events_match_update ORACLE rate (events s) = Err e"
  shows "after_wait sv cfg sg rate prior hash s w = Some (Done (Err e), w)"
  by (simp add: after_wait_def assms io_then_def io_await_def io_return_def)

lemma after_no_event:
  assumes "sc_oracle_contract cfg = ORACLE" "events s = []"
    and "confirm_state_attempts sv cfg sg prior rate 3 None w = Some (Done r, w')" "r \<noteq> Panicked"
  shows "after_wait sv cfg sg rate prior hash s w =
    Some (Done (case r of Inr _ \<Rightarrow> Ok hash | Inl e \<Rightarrow> Inl e), w')"
  using assms(4) by (cases r)
    (auto simp: after_wait_def assms no_events io_then_def io_await_def io_return_def confirm_state_with_retry_def
      STATE_CONFIRM_RETRY_ATTEMPTS_def split: fault.splits)

lemma attempt_confirms:
  assumes "query_state sv cfg sg w = Some (Done (Ok st), w')"
    and "oracle_state_matches_intended_update (sr_last_update_sec prior) st rate = Ok ()"
  shows "confirm_state_attempts sv cfg sg prior rate (Suc n) le w = Some (Done (Ok ()), w')"
  by (simp add: io_await_def assms io_return_def)

lemma attempt_fails:
  assumes "query_state (mock_service h bsc) cfg sg w = Some (Done (Ok st), \<lparr>mw_now = t, mw_mocks = ms\<rparr>)"
    and "oracle_state_matches_intended_update (sr_last_update_sec prior) st rate = Err e"
  shows "confirm_state_attempts (mock_service h bsc) cfg sg prior rate (Suc (Suc n)) le w =
    confirm_state_attempts (mock_service h bsc) cfg sg prior rate (Suc n) (Some e) \<lparr>mw_now = t + 100000000, mw_mocks = ms\<rparr>"
proof -
  have s: "io_sleep (sv_io (mock_service h bsc)) (duration_from_millis STATE_CONFIRM_RETRY_INTERVAL_MS)
      \<lparr>mw_now = t, mw_mocks = ms\<rparr> = Some (Done (Ok () :: (unit, string) result), \<lparr>mw_now = t + 100000000, mw_mocks = ms\<rparr>)"
    by (simp add: mock_service_def io_sleep_def mock_io_simps duration_from_millis_def STATE_CONFIRM_RETRY_INTERVAL_MS_def)
  show ?thesis
    by (subst confirm_state_attempts.simps(2))
      (simp add: io_await_def assms io_then_def s del: confirm_state_attempts.simps)
qed

lemma last_attempt_fails:
  assumes "query_state sv cfg sg w = Some (Done (Ok st), w')"
    and "oracle_state_matches_intended_update (sr_last_update_sec prior) st rate = Err e"
  shows "confirm_state_attempts sv cfg sg prior rate (Suc 0) le w = Some (Done (Err e), w')"
  by (simp add: io_await_def assms io_return_def)

lemma state_mocks_simps: "state_mocks []" "state_mocks (hit n (state_answers body) # ms) = state_mocks ms"
  "state_mocks (hit n (up_to_n_times k (state_answers body)) # ms) = state_mocks ms"
  by (simp_all add: state_mocks_def hit_def state_answers_def respond_def up_to_n_times_def)

lemma fresh_mock: "state_answers body = hit 0 (state_answers body)"
  "up_to_n_times k (state_answers body) = hit 0 (up_to_n_times k (state_answers body))"
  by (simp_all add: hit_def state_answers_def respond_def up_to_n_times_def)

lemma check_failure:
  assumes "str_contains e words"
  shows "passes (fails_without_liveness words (Err e) now (liveness_new t))"
  using assms by (simp add: fails_without_liveness_def error_contains_def passes_and_then test_simps
      has_recorded_success_def liveness_new_def)

lemma fresh_tracker: "\<not> has_recorded_success (liveness_new t)"
  by (simp add: has_recorded_success_def liveness_new_def)

lemma check_record: "passes (records_after_confirm hash (Ok hash) now (liveness_new t))"
  by (simp add: records_after_confirm_def returns_value_def passes_and_then test_simps has_recorded_success_def
      liveness_new_def record_successful_broadcast_def)

text \<open>Events of the update, then any state; events that prove no update.\<close>

lemma submit_with_event:
  assumes "serves h" "signs_for h sg" "ts_chain_id sg = ''localterra''" "sc_oracle_contract cfg = ORACLE"
    and "sc_tx_confirm_timeout_secs cfg = 2" "hash \<noteq> []" "rate \<in> {2000, 1999, 1000000}"
    and "tx_response_json hash 0 [] (Some (wasm_update_rate_events ORACLE rate)) \<in> set served_bodies"
    and "shows_state h st body"
  shows "\<exists>t. submit_and_confirm_oracle_update (mock_service h bsc) cfg sg rate prior
      (mounted h (submit_server hash (json_response 200 (tx_response_json hash 0 [] (Some (wasm_update_rate_events ORACLE rate))))
        0 0 0 [hit 0 (state_answers body)])) =
    Some (Done (Ok hash), \<lparr>mw_now = t, mw_mocks = submit_server hash (json_response 200
      (tx_response_json hash 0 [] (Some (wasm_update_rate_events ORACLE rate)))) 1 1 1 [hit 1 (state_answers body)]\<rparr>)"
  using submit_included[OF assms(1-4) _ assms(6) parse_event_tx[OF assms(1,8,6) _ assms(7)] assms(5),
      of "[hit 0 (state_answers body)]" bsc rate prior]
  by (simp add: state_mocks_simps after_matching_event[OF assms(1,2,4,9)] summary_of_def Let_def)

lemma submit_with_wrong_event:
  assumes "serves h" "signs_for h sg" "ts_chain_id sg = ''localterra''" "sc_oracle_contract cfg = ORACLE"
    and "sc_tx_confirm_timeout_secs cfg = 2" "hash \<noteq> []" "contract \<in> {ORACLE, OTHER}" "rate \<in> {2000, 1999, 1000000}"
    and "tx_response_json hash 0 [] (Some (wasm_update_rate_events contract rate)) \<in> set served_bodies"
    and "oracle_tx_events_match_update ORACLE rate' [update_event contract rate] = Err e"
  shows "\<exists>t. submit_and_confirm_oracle_update (mock_service h bsc) cfg sg rate' prior
      (mounted h (submit_server hash (json_response 200 (tx_response_json hash 0 [] (Some (wasm_update_rate_events contract rate))))
        0 0 0 [])) =
    Some (Done (Err e), \<lparr>mw_now = t, mw_mocks = submit_server hash (json_response 200
      (tx_response_json hash 0 [] (Some (wasm_update_rate_events contract rate)))) 1 1 1 []\<rparr>)"
  using submit_included[OF assms(1-4) _ assms(6) parse_event_tx[OF assms(1,9,6,7,8)] assms(5), of "[]" bsc rate' prior]
    after_wrong_event[OF assms(4), of rate' "summary_of hash 0 [] [update_event contract rate]" e "mock_service h bsc"]
    assms(10)
  by (simp add: state_mocks_simps summary_of_def Let_def)

text \<open>No events: the state decides.\<close>

lemma submit_without_events:
  assumes "serves h" "signs_for h sg" "ts_chain_id sg = ''localterra''" "sc_oracle_contract cfg = ORACLE"
    and "sc_tx_confirm_timeout_secs cfg = 2" "hash \<noteq> []" "state_mocks states"
    and "tx_response_json hash 0 [] None \<in> set served_bodies"
    and "\<And>t. \<exists>w. confirm_state_attempts (mock_service h bsc) cfg sg prior rate 3 None
        \<lparr>mw_now = t, mw_mocks = submit_server hash (json_response 200 (tx_response_json hash 0 [] None)) 1 1 1 states\<rparr> =
      Some (Done r, w) \<and> expectations_met (mw_mocks w)"
    and "r \<noteq> Panicked"
  shows "\<exists>w. submit_and_confirm_oracle_update (mock_service h bsc) cfg sg rate prior
      (mounted h (submit_server hash (json_response 200 (tx_response_json hash 0 [] None)) 0 0 0 states)) =
    Some (Done (case r of Inr _ \<Rightarrow> Ok hash | Inl e \<Rightarrow> Inl e), w) \<and> expectations_met (mw_mocks w)"
proof -
  let ?s = "summary_of hash 0 [] []"
  have e: "events ?s = []" by (simp add: summary_of_def)
  obtain w where c: "confirm_state_attempts (mock_service h bsc) cfg sg prior rate 3 None
        \<lparr>mw_now = sh_started h + 4 * sh_latency h, mw_mocks = submit_server hash (json_response 200 (tx_response_json hash 0 [] None)) 1 1 1 states\<rparr> =
      Some (Done r, w)" "expectations_met (mw_mocks w)"
    using assms(9) by blast
  from submit_included[OF assms(1-4,7,6) parse_plain_tx[OF assms(1,8,6)] assms(5), of bsc rate prior]
    after_no_event[OF assms(4) e c(1) assms(10), of hash] c(2)
  show ?thesis by (simp add: Let_def expectations_submit)
qed

section \<open>The tests\<close>

lemma deliver_tx_failure_passes:
  assumes "serves h" shows "passes (deliver_tx_failure_does_not_allow_liveness h)"
  unfolding deliver_tx_failure_does_not_allow_liveness_def Let_def
proof (rule submitting_passes[OF assms])
  fix sg assume sg: "signs_for h sg" "ts_chain_id sg = ''localterra''"
  have "parse_tx_query_body (sh_lcd h) 200 (tx_response_json ''DELIVERFAIL'' 9 ''policy rejected'' None) =
      Ok (Some (summary_of ''DELIVERFAIL'' 9 ''policy rejected'' []))"
    by (rule parse_plain_tx[OF assms]) (simp_all add: served_bodies_def)
  from submit_included[OF assms sg _ state_mocks_simps(1) _ this]
  show "\<exists>r w. submit_and_confirm_oracle_update (mock_service h []) (id (test_cfg (sh_uri h))) sg 2000 prior_state
      (mounted h (submit_server ''DELIVERFAIL'' (json_response 200 (tx_response_json ''DELIVERFAIL'' 9 ''policy rejected'' None)) 0 0 0 [])) = Some (Done r, w) \<and>
      passes (fails_without_liveness ''DeliverTx failed'' r (mw_now w) (liveness_new (sh_started h))) \<and> expectations_met (mw_mocks w)"
    by (simp add: test_cfg_simps check_failure contains_words expectations_submit Let_def del: append.simps)
qed (simp add: test_cfg_simps)

lemma matching_events_and_lagged_state_passes:
  assumes "serves h" shows "passes (matching_events_and_lagged_state_records_ok h)"
proof -
  obtain body where b: "state_lcd_body h (confirm_state 1000 100) = Ok body" "shows_state h (confirm_state 1000 100) body"
    using state_body_shown[OF assms] by blast
  show ?thesis
    unfolding matching_events_and_lagged_state_records_ok_def Let_def b(1) and_then_simps
  proof (subst fresh_mock(1), rule submitting_passes[OF assms])
    fix sg assume sg: "signs_for h sg" "ts_chain_id sg = ''localterra''"
    have "(tx_response_json ''EVENTLAG01'' 0 [] (Some (wasm_update_rate_events ORACLE 2000))) \<in> set served_bodies"
      by (simp add: served_bodies_def)
    from submit_with_event[OF assms sg _ _ _ _ this b(2),
        where cfg = "id (test_cfg (sh_uri h))" and bsc = "[]" and prior = prior_state]
    show "\<exists>r w. submit_and_confirm_oracle_update (mock_service h []) (id (test_cfg (sh_uri h))) sg 2000 prior_state
      (mounted h (submit_server ''EVENTLAG01'' (json_response 200 (tx_response_json ''EVENTLAG01'' 0 [] (Some (wasm_update_rate_events ORACLE 2000)))) 0 0 0 [hit 0 (state_answers body)])) = Some (Done r, w) \<and>
      passes (records_after_confirm ''EVENTLAG01'' r (mw_now w) (liveness_new (sh_started h))) \<and> expectations_met (mw_mocks w)"
      by (auto simp: test_cfg_simps expectations_submit check_record)
  qed (simp add: test_cfg_simps)
qed

lemma matching_events_and_matching_state_passes:
  assumes "serves h" shows "passes (matching_events_and_matching_state_ok h)"
proof -
  obtain body where b: "state_lcd_body h (confirm_state 2000 200) = Ok body" "shows_state h (confirm_state 2000 200) body"
    using state_body_shown[OF assms] by blast
  show ?thesis
    unfolding matching_events_and_matching_state_ok_def Let_def b(1) and_then_simps
  proof (subst fresh_mock(1), rule submitting_passes[OF assms])
    fix sg assume sg: "signs_for h sg" "ts_chain_id sg = ''localterra''"
    have "(tx_response_json ''EVENTOK01'' 0 [] (Some (wasm_update_rate_events ORACLE 2000))) \<in> set served_bodies"
      by (simp add: served_bodies_def)
    from submit_with_event[OF assms sg _ _ _ _ this b(2),
        where cfg = "id (test_cfg (sh_uri h))" and bsc = "[]" and prior = prior_state]
    show "\<exists>r w. submit_and_confirm_oracle_update (mock_service h []) (id (test_cfg (sh_uri h))) sg 2000 prior_state
      (mounted h (submit_server ''EVENTOK01'' (json_response 200 (tx_response_json ''EVENTOK01'' 0 [] (Some (wasm_update_rate_events ORACLE 2000)))) 0 0 0 [hit 0 (state_answers body)])) = Some (Done r, w) \<and>
      passes ((\<lambda>r now liveness. returns_ok r) r (mw_now w) (liveness_new (sh_started h))) \<and> expectations_met (mw_mocks w)"
      by (auto simp: test_cfg_simps expectations_submit returns_ok_def passes_and_then test_simps)
  qed (simp add: test_cfg_simps)
qed

lemma wrong_contract_passes:
  assumes "serves h" shows "passes (wrong_contract_events_do_not_allow_liveness h)"
  unfolding wrong_contract_events_do_not_allow_liveness_def Let_def
proof (rule submitting_passes[OF assms])
  fix sg assume sg: "signs_for h sg" "ts_chain_id sg = ''localterra''"
  have "(tx_response_json ''WRONGCTR'' 0 [] (Some (wasm_update_rate_events OTHER 2000))) \<in> set served_bodies"
    by (simp add: served_bodies_def)
  from submit_with_wrong_event[OF assms sg _ _ _ _ _ this event_of_other_contract[of 2000], of "id (test_cfg (sh_uri h))" "[]" prior_state]
  show "\<exists>r w. submit_and_confirm_oracle_update (mock_service h []) (id (test_cfg (sh_uri h))) sg 2000 prior_state
      (mounted h (submit_server ''WRONGCTR'' (json_response 200 (tx_response_json ''WRONGCTR'' 0 [] (Some (wasm_update_rate_events OTHER 2000)))) 0 0 0 [])) = Some (Done r, w) \<and>
      passes (fails_without_liveness ''_contract_address'' r (mw_now w) (liveness_new (sh_started h))) \<and> expectations_met (mw_mocks w)"
    by (auto simp: test_cfg_simps expectations_submit simp del: append.simps intro!: check_failure contains_words)
qed (simp add: test_cfg_simps)

lemma wrong_rate: "(1999 :: u128) \<noteq> 2000" by simp

lemma event_rate_mismatch_passes:
  assumes "serves h" shows "passes (event_rate_mismatch_does_not_allow_liveness h)"
  unfolding event_rate_mismatch_does_not_allow_liveness_def Let_def
proof (rule submitting_passes[OF assms])
  fix sg assume sg: "signs_for h sg" "ts_chain_id sg = ''localterra''"
  have "(tx_response_json ''WRONGRATE'' 0 [] (Some (wasm_update_rate_events ORACLE 1999))) \<in> set served_bodies"
    by (simp add: served_bodies_def)
  from submit_with_wrong_event[OF assms sg _ _ _ _ _ this event_of_other_rate[OF wrong_rate], of "id (test_cfg (sh_uri h))" "[]" prior_state]
  show "\<exists>r w. submit_and_confirm_oracle_update (mock_service h []) (id (test_cfg (sh_uri h))) sg 2000 prior_state
      (mounted h (submit_server ''WRONGRATE'' (json_response 200 (tx_response_json ''WRONGRATE'' 0 [] (Some (wasm_update_rate_events ORACLE 1999)))) 0 0 0 [])) = Some (Done r, w) \<and>
      passes (fails_without_liveness ''rate does not match'' r (mw_now w) (liveness_new (sh_started h))) \<and> expectations_met (mw_mocks w)"
    by (auto simp: test_cfg_simps expectations_submit simp del: append.simps intro!: check_failure contains_words)
qed (simp add: test_cfg_simps)

lemma states_of_tests:
  "oracle_state_matches_intended_update (sr_last_update_sec prior_state) (confirm_state 2000 200) 2000 = Ok ()"
  "\<exists>s. oracle_state_matches_intended_update (sr_last_update_sec prior_state) (confirm_state 1500 200) 2000 =
     Err (''oracle state rate mismatch after inclusion: expected '' @ s)"
  "\<exists>e. oracle_state_matches_intended_update (sr_last_update_sec prior_state) (confirm_state 1000 100) 2000 = Err e"
  by (simp_all add: oracle_state_matches_intended_update_def prior_state_def confirm_state_def)

lemma happy_path_passes:
  assumes "serves h" shows "passes (happy_path_records_liveness_only_after_confirm h)"
proof -
  obtain body where b: "state_lcd_body h (confirm_state 2000 200) = Ok body" "shows_state h (confirm_state 2000 200) body"
    using state_body_shown[OF assms] by blast
  show ?thesis
    unfolding happy_path_records_liveness_only_after_confirm_def Let_def b(1) and_then_simps
  proof (subst fresh_mock(1), rule submitting_passes[OF assms])
    fix sg assume sg: "signs_for h sg" "ts_chain_id sg = ''localterra''"
    let ?cfg = "id (test_cfg (sh_uri h))"
    have c: "sc_oracle_contract ?cfg = ORACLE" by (simp add: test_cfg_simps)
    note step = attempt_confirms[OF state_of_server[OF assms sg(1) c b(2)] states_of_tests(1)]
    have "\<exists>w. confirm_state_attempts (mock_service h []) ?cfg sg prior_state 2000 3 None
        \<lparr>mw_now = t, mw_mocks = submit_server hash r 1 1 1 [hit 0 (state_answers body)]\<rparr> =
      Some (Done (Ok ()), w) \<and> expectations_met (mw_mocks w)" for t hash r
      by (simp add: numeral_3_eq_3 step expectations_submit del: confirm_state_attempts.simps(2) id_apply)
    moreover have "tx_response_json ''HAPPYTX01'' 0 [] None \<in> set served_bodies" by (simp add: served_bodies_def)
    ultimately obtain w where "submit_and_confirm_oracle_update (mock_service h []) ?cfg sg 2000 prior_state
        (mounted h (submit_server ''HAPPYTX01'' (json_response 200 (tx_response_json ''HAPPYTX01'' 0 [] None)) 0 0 0
          [hit 0 (state_answers body)])) = Some (Done (Ok ''HAPPYTX01''), w)" "expectations_met (mw_mocks w)"
      using submit_without_events[OF assms sg c, where hash = "''HAPPYTX01''" and states = "[hit 0 (state_answers body)]"
          and bsc = "[]" and prior = prior_state and rate = 2000 and r = "Ok ()"]
      by (auto simp: test_cfg_simps state_mocks_simps simp del: One_nat_def confirm_state_attempts.simps)
    then
    show "\<exists>r w. submit_and_confirm_oracle_update (mock_service h []) (id (test_cfg (sh_uri h))) sg 2000 prior_state
      (mounted h (submit_server ''HAPPYTX01'' (json_response 200 (tx_response_json ''HAPPYTX01'' 0 [] None)) 0 0 0 [hit 0 (state_answers body)])) = Some (Done r, w) \<and>
      passes ((\<lambda>r now liveness. and_then (verify (\<not> has_recorded_success liveness)) (\<lambda>_.
        records_after_confirm ''HAPPYTX01'' r now liveness)) r (mw_now w) (liveness_new (sh_started h))) \<and> expectations_met (mw_mocks w)"
      by (simp add: check_record passes_and_then test_simps fresh_tracker)
  qed (simp add: test_cfg_simps)
qed

lemma state_mismatch_passes:
  assumes "serves h" shows "passes (state_mismatch_does_not_allow_liveness h)"
proof -
  obtain body where b: "state_lcd_body h (confirm_state 1500 200) = Ok body" "shows_state h (confirm_state 1500 200) body"
    using state_body_shown[OF assms] by blast
  show ?thesis
    unfolding state_mismatch_does_not_allow_liveness_def Let_def b(1) and_then_simps
  proof (subst fresh_mock(1), rule submitting_passes[OF assms])
    fix sg assume sg: "signs_for h sg" "ts_chain_id sg = ''localterra''"
    let ?cfg = "id (test_cfg (sh_uri h))"
    have c: "sc_oracle_contract ?cfg = ORACLE" by (simp add: test_cfg_simps)
    obtain e s where e: "oracle_state_matches_intended_update (sr_last_update_sec prior_state) (confirm_state 1500 200) 2000 = Err e"
      "e = ''oracle state rate mismatch after inclusion: expected '' @ s" using states_of_tests(2) by blast
    note step = attempt_fails[OF state_of_server[OF assms sg(1) c b(2)] e(1)]
      last_attempt_fails[OF state_of_server[OF assms sg(1) c b(2)] e(1)]
    have "\<exists>w. confirm_state_attempts (mock_service h []) ?cfg sg prior_state 2000 3 None
        \<lparr>mw_now = t, mw_mocks = submit_server hash r 1 1 1 [hit 0 (state_answers body)]\<rparr> =
      Some (Done (Err e), w) \<and> expectations_met (mw_mocks w)" for t hash r
      unfolding numeral_3_eq_3 step by (simp add: expectations_submit)
    moreover have "tx_response_json ''STATEMISMATCH'' 0 [] None \<in> set served_bodies" by (simp add: served_bodies_def)
    ultimately obtain w where "submit_and_confirm_oracle_update (mock_service h []) ?cfg sg 2000 prior_state
        (mounted h (submit_server ''STATEMISMATCH'' (json_response 200 (tx_response_json ''STATEMISMATCH'' 0 [] None)) 0 0 0
          [hit 0 (state_answers body)])) = Some (Done (Err e), w)" "expectations_met (mw_mocks w)"
      using submit_without_events[OF assms sg c, where hash = "''STATEMISMATCH''" and states = "[hit 0 (state_answers body)]"
          and bsc = "[]" and prior = prior_state and rate = 2000 and r = "Err e"]
      by (auto simp: test_cfg_simps state_mocks_simps simp del: One_nat_def confirm_state_attempts.simps)
    then
    show "\<exists>r w. submit_and_confirm_oracle_update (mock_service h []) (id (test_cfg (sh_uri h))) sg 2000 prior_state
      (mounted h (submit_server ''STATEMISMATCH'' (json_response 200 (tx_response_json ''STATEMISMATCH'' 0 [] None)) 0 0 0 [hit 0 (state_answers body)])) = Some (Done r, w) \<and>
      passes (fails_without_liveness ''rate mismatch'' r (mw_now w) (liveness_new (sh_started h))) \<and> expectations_met (mw_mocks w)"
      using contains_words(2)[of s] unfolding e(2)[symmetric] by (blast intro: check_failure)
  qed (simp add: test_cfg_simps)
qed

lemma state_retry_passes:
  assumes "serves h" shows "passes (events_missing_state_match_after_retry_ok h)"
proof -
  obtain lagged where l: "state_lcd_body h (confirm_state 1000 100) = Ok lagged" "shows_state h (confirm_state 1000 100) lagged"
    using state_body_shown[OF assms] by blast
  obtain body where b: "state_lcd_body h (confirm_state 2000 200) = Ok body" "shows_state h (confirm_state 2000 200) body"
    using state_body_shown[OF assms] by blast
  show ?thesis
    unfolding events_missing_state_match_after_retry_ok_def Let_def l(1) b(1) and_then_simps
  proof (subst fresh_mock(2), subst fresh_mock(1)[of body], rule submitting_passes[OF assms])
    fix sg assume sg: "signs_for h sg" "ts_chain_id sg = ''localterra''"
    let ?cfg = "id (test_cfg (sh_uri h))"
    let ?states = "[hit 0 (up_to_n_times 1 (state_answers lagged)), hit 0 (state_answers body)]"
    have c: "sc_oracle_contract ?cfg = ORACLE" by (simp add: test_cfg_simps)
    obtain e where e: "oracle_state_matches_intended_update (sr_last_update_sec prior_state) (confirm_state 1000 100) 2000 = Err e"
      using states_of_tests(3) by blast
    note step = attempt_fails[OF state_of_limited_server(1)[OF assms sg(1) c l(2)] e]
      attempt_confirms[OF state_of_limited_server(2)[OF assms sg(1) c b(2)] states_of_tests(1)]
    have "\<exists>w. confirm_state_attempts (mock_service h []) ?cfg sg prior_state 2000 3 None
        \<lparr>mw_now = t, mw_mocks = submit_server hash r 1 1 1 ?states\<rparr> =
      Some (Done (Ok ()), w) \<and> expectations_met (mw_mocks w)" for t hash r
      unfolding numeral_3_eq_3 step by (simp add: expectations_submit)
    moreover have "tx_response_json ''STATERETRY'' 0 [] None \<in> set served_bodies" by (simp add: served_bodies_def)
    ultimately obtain w where "submit_and_confirm_oracle_update (mock_service h []) ?cfg sg 2000 prior_state
        (mounted h (submit_server ''STATERETRY'' (json_response 200 (tx_response_json ''STATERETRY'' 0 [] None)) 0 0 0
          ?states)) = Some (Done (Ok ''STATERETRY''), w)" "expectations_met (mw_mocks w)"
      using submit_without_events[OF assms sg c, where hash = "''STATERETRY''" and states = ?states
          and bsc = "[]" and prior = prior_state and rate = 2000 and r = "Ok ()"]
      by (auto simp: test_cfg_simps state_mocks_simps simp del: One_nat_def confirm_state_attempts.simps)
    then show "\<exists>r w. submit_and_confirm_oracle_update (mock_service h []) ?cfg sg 2000 prior_state
        (mounted h (submit_server ''STATERETRY'' (json_response 200 (tx_response_json ''STATERETRY'' 0 [] None)) 0 0 0
          ?states)) = Some (Done r, w) \<and> passes (returns_ok r) \<and> expectations_met (mw_mocks w)"
      by (auto simp: returns_ok_def passes_and_then test_simps simp del: One_nat_def)
  qed (simp add: test_cfg_simps)
qed

text \<open>The transaction is never found: the wait ends with its timeout.\<close>

lemma submit_times_out:
  assumes "serves h" "signs_for h sg" "ts_chain_id sg = ''localterra''" "sc_oracle_contract cfg = ORACLE"
    and "sc_tx_confirm_timeout_secs cfg = 1" "hash \<noteq> []"
  obtains w confirm where "submit_and_confirm_oracle_update (mock_service h bsc) cfg sg rate prior
      (mounted h (submit_server hash NOT_FOUND 0 0 0 [])) = Some (Done (Err (confirm_timeout_error confirm hash)), w)"
    "expectations_met (mw_mocks w)"
proof -
  let ?confirm = "from_secs_and_ms (sc_tx_confirm_timeout_secs cfg) (sc_tx_confirm_poll_interval_ms cfg)"
  let ?P = "\<lambda>ms. \<exists>n. ms = submit_server hash NOT_FOUND (Suc 0) (Suc 0) n []"
  have t: "sh_started h + 3 * sh_latency h + timeout ?confirm \<le> sh_instant_limit h"
    using assms(1) by (simp add: assms(5) serves_def from_secs_and_ms_def duration_from_secs_def)
  have never: "?P ms \<Longrightarrow> \<exists>ms'. serve ''GET'' (''/cosmos/tx/v1beta1/txs/'' @ hash) ms = (NOT_FOUND, ms') \<and> ?P ms'" for ms
    using serve_submit(4) by blast
  have start: "?P (submit_server hash NOT_FOUND (Suc 0) (Suc 0) 0 [])" by blast
  obtain w where w: "wait_for_deliver_tx_success (sh_lcd h) (mock_io h) sg hash ?confirm
      \<lparr>mw_now = sh_started h + 3 * sh_latency h, mw_mocks = submit_server hash NOT_FOUND (Suc 0) (Suc 0) 0 []\<rparr> =
      Some (Done (Err (confirm_timeout_error ?confirm hash)), w)" "?P (mw_mocks w)"
    using wait_times_out[OF assms(2,6) t, of ?P, OF start never] by blast
  have "submit_and_confirm_oracle_update (mock_service h bsc) cfg sg rate prior
      (mounted h (submit_server hash NOT_FOUND 0 0 0 [])) = Some (Done (Err (confirm_timeout_error ?confirm hash)), w)"
    using submit_waits[OF assms(1-4) serve_submit(1) serve_submit(2)[OF state_mocks_simps(1)] _ serve_submit(3) assms(6) w(1)]
    by (simp add: mounted_def)
  with w(2) that show thesis by (auto simp: expectations_submit)
qed

lemma confirmation_timeout_passes:
  assumes "serves h" shows "passes (confirmation_timeout_does_not_allow_liveness h)"
  unfolding confirmation_timeout_does_not_allow_liveness_def Let_def
proof (rule submitting_passes[OF assms])
  let ?settings = "\<lambda>cfg. cfg\<lparr>sc_tx_confirm_poll_interval_ms := 10, sc_tx_confirm_timeout_secs := 1\<rparr>"
  fix sg assume sg: "signs_for h sg" "ts_chain_id sg = ''localterra''"
  obtain w confirm where "submit_and_confirm_oracle_update (mock_service h []) (?settings (test_cfg (sh_uri h))) sg 2000 prior_state
      (mounted h (submit_server ''TIMEOUTTX'' NOT_FOUND 0 0 0 [])) = Some (Done (Err (confirm_timeout_error confirm ''TIMEOUTTX'')), w)"
    "expectations_met (mw_mocks w)"
    by (rule submit_times_out[OF assms sg, of "?settings (test_cfg (sh_uri h))" "''TIMEOUTTX''"])
      (simp_all add: test_cfg_simps)
  then show "\<exists>r w. submit_and_confirm_oracle_update (mock_service h []) (?settings (test_cfg (sh_uri h))) sg 2000 prior_state
      (mounted h (submit_server ''TIMEOUTTX'' NOT_FOUND 0 0 0 [])) = Some (Done r, w) \<and>
      passes (fails_without_liveness ''confirmation timeout'' r (mw_now w) (liveness_new (sh_started h))) \<and> expectations_met (mw_mocks w)"
    unfolding confirm_timeout_error_def by (blast intro: check_failure contains_words)
qed (simp add: test_cfg_simps)

lemma submit_tests_pass: "serves h \<Longrightarrow> list_all (\<lambda>t. passes (t h)) submit_tests"
  by (simp add: submit_tests_def happy_path_passes deliver_tx_failure_passes state_mismatch_passes
      confirmation_timeout_passes matching_events_and_lagged_state_passes matching_events_and_matching_state_passes
      state_retry_passes wrong_contract_passes event_rate_mismatch_passes)

end
