(* ===== verification/Test_Client_Pass.thy ===== *)
theory Test_Client_Pass
  imports Test_Submit_Pass
begin

text \<open>The tests of \<open>terra_tx.rs\<close> against the mock server pass, for every host that \<open>serves\<close>.\<close>

section \<open>Smart query data\<close>

lemma smart_base64_passes:
  assumes "serves h" shows "passes (parse_wasm_smart_data_accepts_base64_string h)"
proof -
  obtain raw where "state_lcd_body h (confirm_state 1000000000000000000 42) = Ok (JObject [(''data'', JString raw)])"
    "parse_wasm_smart_query_data (sh_lcd h) (sh_state_de h) (JString raw) = Ok (confirm_state 1000000000000000000 42)"
    using state_body_Ok[OF assms] by blast
  then show ?thesis
    by (simp add: parse_wasm_smart_data_accepts_base64_string_def passes_and_then test_simps unwrap_some_def
        is_state_def confirm_state_def)
qed

lemma state_value_read:
  assumes "serves h"
  shows "from_value (sh_state_de h) (JObject (state_members st @ [(''paused'', JBool (sr_paused st))])) = Ok st"
    "from_value (sh_state_de h) (JObject (state_members st)) = Ok (st\<lparr>sr_paused := False\<rparr>)"
  using assms by (simp_all add: serves_def carries_states_def) blast+

lemma smart_object_passes:
  assumes "serves h" shows "passes (parse_wasm_smart_data_accepts_json_object h)"
  using state_value_read(1)[OF assms, of "confirm_state 1000000000000000000 0"]
  by (simp add: parse_wasm_smart_data_accepts_json_object_def parse_wasm_smart_query_data_def passes_and_then
      test_simps is_state_def confirm_state_def Let_def)

lemma first_code_state: "state_members \<lparr>sr_rate = 1000000000000000000, sr_last_update_sec = 0, sr_utc_day_id = 20664,
     sr_day_baseline_rate = 1000000000000000000, sr_paused = True\<rparr> =
   [(''rate'', JString ''1000000000000000000''), (''last_update_sec'', JNumber (PosInt 0)),
    (''utc_day_id'', JNumber (PosInt 20664)), (''day_baseline_rate'', JString ''1000000000000000000'')]"
proof -
  have "show_nat 1000000000000000000 = ''1000000000000000000''"
    by (simp add: show_nat.simps digit_char_def char_of_def bit_0)
  then show ?thesis by (simp add: state_members_def)
qed

lemma smart_first_code_passes:
  assumes "serves h" shows "passes (parse_wasm_smart_data_accepts_mainnet_11549_state_without_paused h)"
  using state_value_read(2)[OF assms, of "\<lparr>sr_rate = 1000000000000000000, sr_last_update_sec = 0, sr_utc_day_id = 20664,
      sr_day_baseline_rate = 1000000000000000000, sr_paused = True\<rparr>"] unfolding first_code_state
  by (simp add: parse_wasm_smart_data_accepts_mainnet_11549_state_without_paused_def parse_wasm_smart_query_data_def
      passes_and_then test_simps is_state_def Let_def)

section \<open>Waiting for inclusion\<close>

lemma fresh_tx: "tx_answers hash r = hit 0 (tx_answers hash r)"
  by (simp add: hit_def tx_answers_def respond_def)

lemma serve_tx:
  "serve ''GET'' (''/cosmos/tx/v1beta1/txs/'' @ hash) (hit n (tx_answers hash r) # ms) = (r, hit (Suc n) (tx_answers hash r) # ms)"
  by (simp add: mocks_answer hit_simps del: append.simps)

lemma tx_expectations: "expectations_met [hit n (tx_answers hash r)]"
  by (simp add: expectations_met_def hit_def tx_answers_def respond_def)

lemma waits_for_passes:
  assumes "serves h" "hash \<noteq> []"
    and "confirm_verdict hash (parse_tx_query_body (sh_lcd h) 200 body) = Some v" "passes (check v)"
  shows "passes (waits_for h [tx_answers hash (json_response 200 body)] hash (from_secs_and_ms 5 10) check)"
proof -
  obtain sg where sg: "test_signer h = Ok sg" "signs_for h sg" using test_signer_Ok[OF assms(1)] by blast
  have t: "sh_started h + timeout (from_secs_and_ms 5 10) \<le> sh_instant_limit h"
    using assms(1) by (simp add: serves_def from_secs_and_ms_def duration_from_secs_def)
  have s: "serve ''GET'' (''/cosmos/tx/v1beta1/txs/'' @ hash) [tx_answers hash (json_response 200 body)] =
      (json_response 200 body, [hit 1 (tx_answers hash (json_response 200 body))])"
    by (subst fresh_tx) (simp only: serve_tx One_nat_def)
  from wait_answered[OF sg(2) s assms(3,2) t] assms(4) show ?thesis
    by (simp add: waits_for_def sg(1) awaited_def mounted_def passes_and_then server_dropped_def tx_expectations
        test_simps) (simp add: passes_def)
qed

lemma confirm_success_passes:
  assumes "serves h" shows "passes (confirm_success_after_inclusion h)"
proof -
  have "parse_tx_query_body (sh_lcd h) 200 (tx_response_json ''DEADBEEF'' 0 [] None) =
      Ok (Some (summary_of ''DEADBEEF'' 0 [] []))"
    by (rule parse_plain_tx[OF assms]) (simp_all add: served_bodies_def)
  then show ?thesis
    unfolding confirm_success_after_inclusion_def Let_def
    by (intro waits_for_passes[OF assms, where v = "Ok (summary_of ''DEADBEEF'' 0 [] [])"])
      (simp_all add: confirm_verdict_def summary_of_def returns_ok_def passes_and_then test_simps)
qed

lemma confirm_failure_passes:
  assumes "serves h" shows "passes (confirm_deliver_tx_failure_is_error h)"
proof -
  have "parse_tx_query_body (sh_lcd h) 200 (tx_response_json ''FAILTX01'' 7 ''wasm error'' None) =
      Ok (Some (summary_of ''FAILTX01'' 7 ''wasm error'' []))"
    by (rule parse_plain_tx[OF assms]) (simp_all add: served_bodies_def)
  then show ?thesis
    unfolding confirm_deliver_tx_failure_is_error_def Let_def
    by (intro waits_for_passes[OF assms, where v = "Err (''DeliverTx failed code '' @ show_nat (unat (7 :: u64)) @ '': '' @ ''wasm error'')"])
      (simp_all add: confirm_verdict_def summary_of_def error_contains_def passes_and_then test_simps contains_words
        del: append.simps)
qed

lemma wrong_hash_passes:
  assumes "serves h" shows "passes (confirm_rejects_wrong_hash_in_response h)"
proof -
  have p: "parse_tx_query_body (sh_lcd h) 200 (tx_response_json ''OTHERHASH'' 0 [] None) =
      Ok (Some (summary_of ''OTHERHASH'' 0 [] []))"
    by (rule parse_plain_tx[OF assms]) (simp_all add: served_bodies_def)
  have "\<not> eq_ignore_ascii_case ''OTHERHASH'' ''EXPECTEDHASH''"
    by (simp add: eq_ignore_ascii_case_def to_ascii_lowercase_def)
  moreover have "str_contains (''tx hash mismatch during confirmation: expected '' @ s) ''hash mismatch''" for s
    by (simp add: str_contains_def sublist_Cons_right)
  ultimately show ?thesis
    unfolding confirm_rejects_wrong_hash_in_response_def
    by (intro waits_for_passes[OF assms, where v = "Err (''tx hash mismatch during confirmation: expected '' @
          ''EXPECTEDHASH'' @ '', got '' @ ''OTHERHASH'' @ '' (fail-closed)'')"])
      (simp_all add: p confirm_verdict_def summary_of_def error_contains_def passes_and_then test_simps del: append.simps)
qed

lemma never_included_passes:
  assumes "serves h" shows "passes (confirm_timeout_when_never_included h)"
proof -
  obtain sg where sg: "test_signer h = Ok sg" "signs_for h sg" using test_signer_Ok[OF assms] by blast
  let ?P = "\<lambda>ms. \<exists>n. ms = [hit n (tx_answers ''MISSING1'' NOT_FOUND)]"
  have t: "sh_started h + timeout (from_secs_and_ms 1 50) \<le> sh_instant_limit h"
    using assms by (simp add: serves_def from_secs_and_ms_def duration_from_secs_def)
  have never: "?P ms \<Longrightarrow> \<exists>ms'. serve ''GET'' (''/cosmos/tx/v1beta1/txs/'' @ ''MISSING1'') ms = (NOT_FOUND, ms') \<and> ?P ms'" for ms
    using serve_tx by blast
  have start: "?P [tx_answers ''MISSING1'' NOT_FOUND]" using fresh_tx by blast
  obtain w where w: "wait_for_deliver_tx_success (sh_lcd h) (mock_io h) sg ''MISSING1'' (from_secs_and_ms 1 50)
      \<lparr>mw_now = sh_started h, mw_mocks = [tx_answers ''MISSING1'' NOT_FOUND]\<rparr> =
      Some (Done (Err (confirm_timeout_error (from_secs_and_ms 1 50) ''MISSING1'')), w)" "?P (mw_mocks w)"
    using wait_times_out[OF sg(2) _ t, of "''MISSING1''" ?P, OF _ start never] by blast
  have "str_contains (confirm_timeout_error c x) ''confirmation timeout''" for c x
    unfolding confirm_timeout_error_def by (rule contains_words)
  with w show ?thesis
    by (auto simp: confirm_timeout_when_never_included_def waits_for_def sg(1) awaited_def mounted_def passes_and_then
        server_dropped_def tx_expectations error_contains_def test_simps)
qed

section \<open>Broadcasting\<close>

lemma client_mocks:
  "answers_request ''GET'' (''/cosmos/auth/v1beta1/accounts/'' @ x) (hit n (client_account s))"
  "\<not> answers_request ''GET'' ''/cosmos/base/node/v1beta1/config'' (hit n (client_account s))"
  "\<not> answers_request ''GET'' (''/cosmos/tx/v1beta1/txs/'' @ x) (hit n (client_account s))"
  "\<not> answers_request ''GET'' (''/cosmwasm/wasm/v1/contract/'' @ x) (hit n (client_account s))"
  "\<not> answers_request ''POST'' u (hit n (client_account s))"
  "mk_response (hit n (client_account s)) = json_response 200 (client_account_json s)"
  by (simp_all add: answers_request_def hit_def client_account_def respond_def)

text \<open>The server of the retry: a broadcast that is refused once, and then one that is admitted.\<close>

definition refused :: mock where
  "refused = expect_times 1 (up_to_n_times 1
     (broadcast_answers [] 32 ''account sequence mismatch, expected 2, got 1''))"

definition admitted :: mock where
  "admitted = expect_times 1 (broadcast_answers ''RETRYHASH01'' 0 [])"

lemma retry_mocks:
  "\<not> answers_request ''GET'' u (hit n refused)" "\<not> answers_request ''GET'' u (hit n admitted)"
  "answers_request ''POST'' ''/cosmos/tx/v1beta1/txs'' (hit n refused) \<longleftrightarrow> n = 0"
  "answers_request ''POST'' ''/cosmos/tx/v1beta1/txs'' (hit n admitted)"
  "mk_response (hit n refused) =
     json_response 200 (tx_response_json [] 32 ''account sequence mismatch, expected 2, got 1'' None)"
  "mk_response (hit n admitted) = json_response 200 (tx_response_json ''RETRYHASH01'' 0 [] None)"
  by (simp_all add: answers_request_def hit_def refused_def admitted_def expect_times_def up_to_n_times_def
      broadcast_answers_def respond_def)

definition retry_server :: "nat \<Rightarrow> nat \<Rightarrow> nat \<Rightarrow> mock list" where
  "retry_server a b c = [hit a (client_account 1), hit b refused, hit c admitted]"

lemma retry_server_start: "[client_account 1, refused, admitted] = retry_server 0 0 0"
  by (simp add: retry_server_def hit_def refused_def admitted_def client_account_def expect_times_def
      up_to_n_times_def broadcast_answers_def respond_def)

lemma serve_retry:
  "serve ''GET'' (''/cosmos/auth/v1beta1/accounts/'' @ x) (retry_server a b c) =
     (json_response 200 (client_account_json 1), retry_server (Suc a) b c)"
  "serve ''GET'' ''/cosmos/base/node/v1beta1/config'' (retry_server a b c) = (empty_response 404, retry_server a b c)"
  "serve ''POST'' ''/cosmos/tx/v1beta1/txs'' (retry_server a 0 c) =
     (json_response 200 (tx_response_json [] 32 ''account sequence mismatch, expected 2, got 1'' None), retry_server a 1 c)"
  "serve ''POST'' ''/cosmos/tx/v1beta1/txs'' (retry_server a (Suc 0) c) =
     (json_response 200 (tx_response_json ''RETRYHASH01'' 0 [] None), retry_server a (Suc 0) (Suc c))"
  by (simp_all add: retry_server_def client_mocks retry_mocks hit_simps del: append.simps)

lemma retry_expectations: "expectations_met (retry_server a 1 1)"
  by (simp add: expectations_met_def retry_server_def hit_def refused_def admitted_def client_account_def
      expect_times_def up_to_n_times_def broadcast_answers_def respond_def)

lemma lower_append: "to_ascii_lowercase (s @ t) = to_ascii_lowercase s @ to_ascii_lowercase t"
  by (simp add: to_ascii_lowercase_def)

lemma sequence_error:
  "is_account_sequence_mismatch (''broadcast tx failed code '' @ s @ '': '' @ ''account sequence mismatch, expected 2, got 1'')"
proof -
  have "str_contains (to_ascii_lowercase (p @ ''account sequence mismatch, expected 2, got 1'')) ''account sequence mismatch''" for p
  proof -
    have "to_ascii_lowercase ''account sequence mismatch, expected 2, got 1'' = ''account sequence mismatch'' @ '', expected 2, got 1''"
      by (simp add: to_ascii_lowercase_def to_lower_char_def is_upper_def byte_of_def)
    then show ?thesis unfolding lower_append str_contains_def sublist_def by blast
  qed
  from this[of "''broadcast tx failed code '' @ s @ '': ''"] show ?thesis
    by (simp add: is_account_sequence_mismatch_def Let_def del: append.simps)
qed

lemma retry_passes:
  assumes "serves h" shows "passes (sequence_mismatch_retries_once_then_check_tx_ok h)"
proof -
  obtain sg where sg: "test_signer h = Ok sg" "signs_for h sg" "ts_chain_id sg = ''localterra''"
    using test_signer_Ok[OF assms] by blast
  let ?inner = "sign_and_broadcast_execute_inner (sh_lcd h) (sh_wallet h) (mock_io h) (sh_execute_to_vec h) sg ORACLE"
  have first: "?inner (UpdateRate r) \<lparr>mw_now = t, mw_mocks = retry_server 0 0 0\<rparr> =
      Some (Done (Err (''broadcast tx failed code '' @ show_nat (unat (32 :: u64)) @ '': '' @
        ''account sequence mismatch, expected 2, got 1'')), \<lparr>mw_now = t + 3 * sh_latency h, mw_mocks = retry_server (Suc 0) (Suc 0) 0\<rparr>)" for r t
    using inner_answered[OF assms sg(2,3) serve_retry(1) parse_client_account serve_retry(2) _ serve_retry(3), of r t 0 0]
    by (simp add: check_hash_answer del: append.simps)
  have second: "?inner (UpdateRate r) \<lparr>mw_now = t, mw_mocks = retry_server (Suc 0) (Suc 0) 0\<rparr> =
      Some (Done (Ok ''RETRYHASH01''), \<lparr>mw_now = t + 3 * sh_latency h, mw_mocks = retry_server (Suc (Suc 0)) 1 1\<rparr>)" for r t
    using inner_answered[OF assms sg(2,3) serve_retry(1) parse_client_account serve_retry(2) _ serve_retry(4), of r t "Suc 0" 0]
    by (simp add: check_hash_answer)
  show ?thesis
    unfolding sequence_mismatch_retries_once_then_check_tx_ok_def refused_def[symmetric] admitted_def[symmetric]
      retry_server_start Let_def sg(1) and_then_simps mounted_def sign_and_broadcast_execute_def
    by (simp add: io_await_def io_return_def first second sequence_error awaited_def returns_value_def
        passes_and_then server_dropped_def retry_expectations test_simps del: append.simps One_nat_def)
qed

text \<open>The server of the whole update: account, broadcast, transaction, and the state of the contract.\<close>

definition whole_server :: "json \<Rightarrow> nat \<Rightarrow> nat \<Rightarrow> nat \<Rightarrow> nat \<Rightarrow> mock list" where
  "whole_server body a b c d = [hit a (client_account 3), hit b (broadcast_answers ''E2EHASH01'' 0 []),
     hit c (tx_answers ''E2EHASH01'' (json_response 200 (tx_response_json ''E2EHASH01'' 0 [] None))),
     hit d (respond ''GET'' (Begins (''/cosmwasm/wasm/v1/contract/'' @ ORACLE @ ''/smart/'')) (json_response 200 body))]"

lemma whole_server_start:
  "[client_account 3, broadcast_answers ''E2EHASH01'' 0 [],
     tx_answers ''E2EHASH01'' (json_response 200 (tx_response_json ''E2EHASH01'' 0 [] None)),
     respond ''GET'' (Begins (''/cosmwasm/wasm/v1/contract/'' @ ORACLE @ ''/smart/'')) (json_response 200 body)] =
   whole_server body 0 0 0 0"
  by (simp add: whole_server_def hit_def client_account_def tx_answers_def broadcast_answers_def respond_def)

lemma contract_mock:
  "\<not> answers_request ''GET'' ''/cosmos/base/node/v1beta1/config'' (hit n (respond ''GET'' (Begins (''/cosmwasm/wasm/v1/contract/'' @ x)) r))"
  "answers_request ''GET'' (smart_path q) (hit n (respond ''GET'' (Begins (''/cosmwasm/wasm/v1/contract/'' @ ORACLE @ ''/smart/'')) r))"
  "(hit n (respond m p r))\<lparr>mk_hits := Suc (mk_hits (hit n (respond m p r)))\<rparr> = hit (Suc n) (respond m p r)"
  "mk_response (hit n (respond m p r)) = r"
  by (simp_all add: answers_request_def hit_def respond_def)

lemma serve_whole:
  "serve ''GET'' (''/cosmos/auth/v1beta1/accounts/'' @ x) (whole_server body a b c d) =
     (json_response 200 (client_account_json 3), whole_server body (Suc a) b c d)"
  "serve ''GET'' ''/cosmos/base/node/v1beta1/config'' (whole_server body a b c d) =
     (empty_response 404, whole_server body a b c d)"
  "serve ''POST'' ''/cosmos/tx/v1beta1/txs'' (whole_server body a b c d) =
     (json_response 200 (tx_response_json ''E2EHASH01'' 0 [] None), whole_server body a (Suc b) c d)"
  "serve ''GET'' (''/cosmos/tx/v1beta1/txs/'' @ ''E2EHASH01'') (whole_server body a b c d) =
     (json_response 200 (tx_response_json ''E2EHASH01'' 0 [] None), whole_server body a b (Suc c) d)"
  "serve ''GET'' (smart_path q) (whole_server body a b c d) = (json_response 200 body, whole_server body a b c (Suc d))"
  by (simp_all add: whole_server_def client_mocks mocks_apart mocks_answer hit_simps contract_mock del: append.simps)

lemma whole_expectations: "expectations_met (whole_server body a b c d)"
  by (simp add: expectations_met_def whole_server_def hit_def client_account_def tx_answers_def
      broadcast_answers_def respond_def)

lemma end_to_end_passes:
  assumes "serves h" shows "passes (end_to_end_check_tx_ok_then_state_confirm h)"
proof -
  let ?st = "confirm_state 2000000000000000000 1700000100"
  obtain body where b: "state_lcd_body h ?st = Ok body" "shows_state h ?st body"
    using state_body_shown[OF assms] by blast
  obtain sg where sg: "test_signer h = Ok sg" "signs_for h sg" "ts_chain_id sg = ''localterra''"
    using test_signer_Ok[OF assms] by blast
  have sent: "sign_and_broadcast_execute (sh_lcd h) (sh_wallet h) (mock_io h) (sh_execute_to_vec h) sg ORACLE
      (UpdateRate r) \<lparr>mw_now = t, mw_mocks = whole_server body 0 0 0 0\<rparr> =
    Some (Done (Ok ''E2EHASH01''), \<lparr>mw_now = t + 3 * sh_latency h, mw_mocks = whole_server body (Suc 0) (Suc 0) 0 0\<rparr>)" for r t
    by (rule broadcast_answered[OF assms sg(2,3) serve_whole(1) parse_client_account serve_whole(2) _ serve_whole(3)]) simp_all
  have p: "parse_tx_query_body (sh_lcd h) 200 (tx_response_json ''E2EHASH01'' 0 [] None) =
      Ok (Some (summary_of ''E2EHASH01'' 0 [] []))"
    by (rule parse_plain_tx[OF assms]) (simp_all add: served_bodies_def)
  have waited: "wait_for_deliver_tx_success (sh_lcd h) (mock_io h) sg ''E2EHASH01'' (from_secs_and_ms 5 10)
      \<lparr>mw_now = sh_started h + 3 * sh_latency h, mw_mocks = whole_server body (Suc 0) (Suc 0) 0 0\<rparr> =
    Some (Done (Ok (summary_of ''E2EHASH01'' 0 [] [])),
      \<lparr>mw_now = sh_started h + 3 * sh_latency h + sh_latency h, mw_mocks = whole_server body (Suc 0) (Suc 0) (Suc 0) 0\<rparr>)"
    by (rule wait_answered[OF sg(2) serve_whole(4)])
      (use assms in \<open>simp_all add: p confirm_verdict_def summary_of_def serves_def from_secs_and_ms_def duration_from_secs_def\<close>)
  have seen: "query_wasm_smart (sh_lcd h) (mock_io h) (sh_query_to_vec h) (sh_state_de h) sg ORACLE State
      \<lparr>mw_now = t, mw_mocks = whole_server body a b c d\<rparr> =
    Some (Done (Ok ?st), \<lparr>mw_now = t + sh_latency h, mw_mocks = whole_server body a b c (Suc d)\<rparr>)" for t a b c d
    by (rule state_answered[OF assms sg(2) b(2) serve_whole(5)])
  have conf: "oracle_state_matches_intended_update 1700000000 ?st 2000000000000000000 = Ok ()"
    by (simp add: oracle_state_matches_intended_update_def confirm_state_def)
  show ?thesis
    unfolding end_to_end_check_tx_ok_then_state_confirm_def Let_def b(1) sg(1) and_then_simps whole_server_start mounted_def
    by (simp add: awaited_def sent waited seen conf returns_value_def returns_ok_def unwrap_def passes_and_then
        server_dropped_def whole_expectations test_simps del: append.simps)
qed

section \<open>Accounts and the gas price\<close>

lemma asking_passes:
  assumes "serves h"
    and "\<And>sg. signs_for h sg \<Longrightarrow> ts_gas_price sg = price \<Longrightarrow> \<exists>r t ms. call sg \<lparr>mw_now = sh_started h, mw_mocks = server\<rparr> =
      Some (Done r, \<lparr>mw_now = t, mw_mocks = ms\<rparr>) \<and> passes (check r) \<and> expectations_met ms"
  shows "passes (asking h price server call check)"
proof -
  obtain sg where sg: "default_signer h price = Ok sg" "signs_for h sg" "ts_gas_price sg = price"
    using default_signer_Ok[OF assms(1)] by blast
  from assms(2)[OF sg(2,3)] show ?thesis
    by (auto simp: asking_def sg(1) mounted_def awaited_def server_dropped_def passes_and_then test_simps passes_def)
qed

lemma serve_single:
  "answers_request m u (respond m p r) \<Longrightarrow> serve m u [respond m p r] = (r, [(respond m p r)\<lparr>mk_hits := 1\<rparr>])"
  "expectations_met [(respond m p r)\<lparr>mk_hits := 1\<rparr>]"
  by (simp_all add: respond_def expectations_met_def)

lemma accounts_match:
  assumes "signs_for h sg"
  shows "answers_request ''GET'' (''/cosmos/auth/v1beta1/accounts/'' @ ts_address sg) (respond ''GET'' ACCOUNTS r)"
proof -
  obtain x where "ts_address sg = ''terra1'' @ x" using assms by (auto simp: signs_for_def prefix_def)
  then have "''/cosmos/auth/v1beta1/accounts/'' @ ts_address sg = [] @ ''/cosmos/auth/v1beta1/accounts/terra1'' @ x" by simp
  then have "str_contains (''/cosmos/auth/v1beta1/accounts/'' @ ts_address sg) ''/cosmos/auth/v1beta1/accounts/terra1''"
    unfolding str_contains_def sublist_def by metis
  then show ?thesis by (simp add: answers_request_def respond_def ACCOUNTS_def)
qed

lemma account_info_passes:
  assumes "serves h" shows "passes (get_account_info_wiremock_base_account h)"
  unfolding get_account_info_wiremock_base_account_def
proof (rule asking_passes[OF assms])
  fix sg assume sg: "signs_for h sg" "ts_gas_price sg = DEFAULT_GAS_PRICE"
  let ?j = "JObject [(''account'', JObject [BASE_ACCOUNT, (''account_number'', JString ''12''), (''sequence'', JString ''4'')])]"
  have "parse_account_info (sh_lcd h) ?j = Ok \<lparr>ai_sequence = 4, ai_account_number = 12\<rparr>"
    by (simp add: BASE_ACCOUNT_def parse_account_info_def extract_u64_field_def parse_json_u64_def
        resolve_account_object.simps parse_uint_def is_digit_def byte_of_def)
  from account_answered[OF sg(1) serve_single(1)[OF accounts_match[OF sg(1)]] this]
  show "\<exists>r t ms. get_account_info (sh_lcd h) (mock_io h) sg \<lparr>mw_now = sh_started h,
        mw_mocks = [respond ''GET'' ACCOUNTS (json_response 200 ?j)]\<rparr> = Some (Done r, \<lparr>mw_now = t, mw_mocks = ms\<rparr>) \<and>
      passes (returns_value r \<lparr>ai_sequence = 4, ai_account_number = 12\<rparr>) \<and> expectations_met ms"
    by (simp add: returns_value_def passes_and_then test_simps serve_single(2)[unfolded One_nat_def])
qed

lemma missing_sequence_passes:
  assumes "serves h" shows "passes (get_account_info_wiremock_missing_sequence_errors h)"
  unfolding get_account_info_wiremock_missing_sequence_errors_def
proof (rule asking_passes[OF assms])
  fix sg assume sg: "signs_for h sg" "ts_gas_price sg = DEFAULT_GAS_PRICE"
  let ?j = "JObject [(''account'', JObject [BASE_ACCOUNT, (''account_number'', JString ''1'')])]"
  have "parse_account_info (sh_lcd h) ?j = Err ''missing account field sequence''"
    by (simp add: BASE_ACCOUNT_def parse_account_info_def extract_u64_field_def resolve_account_object.simps)
  from account_answered[OF sg(1) serve_single(1)[OF accounts_match[OF sg(1)]] this]
  show "\<exists>r t ms. get_account_info (sh_lcd h) (mock_io h) sg \<lparr>mw_now = sh_started h,
        mw_mocks = [respond ''GET'' ACCOUNTS (json_response 200 ?j)]\<rparr> = Some (Done r, \<lparr>mw_now = t, mw_mocks = ms\<rparr>) \<and>
      passes (error_contains r ''sequence'') \<and> expectations_met ms"
    by (simp add: error_contains_def passes_and_then test_simps serve_single(2)[unfolded One_nat_def]
        str_contains_def sublist_Cons_right)
qed

lemma node_price: "parse_minimum_gas_price node_config_json = Some (lit (2 / 100))"
proof -
  have t: "trim ''0.02uluna'' = ''0.02uluna''"
    by (rule trim_visible) (simp add: visible_def byte_of_def)
  have f: "str_find ''0.02uluna'' ''uluna'' = Some 4" by (simp add: str_find.simps)
  have "f64_parse ''0.02'' = Some (lit (2 / 100))"
    by (simp add: f64_parse_def split_sign_def parse_decimal_def parse_exponent_def to_ascii_lowercase_def
        to_lower_char_def is_upper_def is_digit_def byte_of_def lit_def power_int_def power_one_over Let_def)
  then show ?thesis by (simp add: parse_minimum_gas_price_def node_config_json_def parse_gas_price_denom_def t f)
qed

lemma config_match:
  "answers_request ''GET'' ''/cosmos/base/node/v1beta1/config'' (respond ''GET'' (Exactly ''/cosmos/base/node/v1beta1/config'') r)"
  by (simp add: answers_request_def respond_def)

lemma network_max_passes:
  assumes "serves h" shows "passes (resolve_gas_price_uses_network_max h)"
  unfolding resolve_gas_price_uses_network_max_def node_config_answers_def
proof (rule asking_passes[OF assms])
  fix sg assume sg: "signs_for h sg" "ts_gas_price sg = lit (15 / 1000)"
  have "f64_less (lit (15 / 1000)) (lit (2 / 100))"
    unfolding default_price cent_prices default_gas_price by simp
  then have "effective_gas_price (ts_gas_price sg) (parse_minimum_gas_price node_config_json) = lit (2 / 100)"
    by (simp add: effective_gas_price_def node_price sg(2) del: f64_less.simps)
  with price_answered[OF sg(1) serve_single(1)[OF config_match], where j = node_config_json and t = "sh_started h"]
  show "\<exists>r t ms. resolve_gas_price (sh_lcd h) (mock_io h) sg \<lparr>mw_now = sh_started h,
        mw_mocks = [respond ''GET'' (Exactly ''/cosmos/base/node/v1beta1/config'') (json_response 200 node_config_json)]\<rparr> =
        Some (Done r, \<lparr>mw_now = t, mw_mocks = ms\<rparr>) \<and>
      passes (returns_value r (lit (2 / 100))) \<and> expectations_met ms"
    by (simp add: returns_value_def passes_and_then test_simps serve_single(2)[unfolded One_nat_def])
qed

lemma probe_failure_passes:
  assumes "serves h" shows "passes (resolve_gas_price_probe_failure_uses_configured h)"
  unfolding resolve_gas_price_probe_failure_uses_configured_def node_config_answers_def
proof (rule asking_passes[OF assms])
  fix sg assume sg: "signs_for h sg" "ts_gas_price sg = lit (15 / 1000)"
  show "\<exists>r t ms. resolve_gas_price (sh_lcd h) (mock_io h) sg \<lparr>mw_now = sh_started h,
        mw_mocks = [respond ''GET'' (Exactly ''/cosmos/base/node/v1beta1/config'') (empty_response 404)]\<rparr> =
        Some (Done r, \<lparr>mw_now = t, mw_mocks = ms\<rparr>) \<and>
      passes (returns_value r (lit (15 / 1000))) \<and> expectations_met ms"
    using price_refused[OF sg(1) serve_single(1)[OF config_match], where r = "empty_response 404" and t = "sh_started h"]
    by (simp add: sg(2) returns_value_def passes_and_then test_simps serve_single(2)[unfolded One_nat_def])
qed

lemma query_price_passes:
  assumes "serves h" shows "passes (query_network_min_gas_price_wiremock h)"
  unfolding query_network_min_gas_price_wiremock_def node_config_answers_def
proof (rule asking_passes[OF assms])
  fix sg assume sg: "signs_for h sg" "ts_gas_price sg = DEFAULT_GAS_PRICE"
  show "\<exists>r t ms. query_network_min_gas_price (sh_lcd h) (mock_io h) sg \<lparr>mw_now = sh_started h,
        mw_mocks = [respond ''GET'' (Exactly ''/cosmos/base/node/v1beta1/config'') (json_response 200 node_config_json)]\<rparr> =
        Some (Done r, \<lparr>mw_now = t, mw_mocks = ms\<rparr>) \<and>
      passes (returns_value r (Some (lit (2 / 100)))) \<and> expectations_met ms"
    using min_price_answered[OF sg(1) serve_single(1)[OF config_match], where j = node_config_json and t = "sh_started h"]
    by (simp add: node_price returns_value_def passes_and_then test_simps serve_single(2)[unfolded One_nat_def])
qed

lemma client_tests_pass: "serves h \<Longrightarrow> list_all (\<lambda>t. passes (t h)) client_tests"
  by (simp add: client_tests_def smart_base64_passes smart_object_passes smart_first_code_passes confirm_success_passes
      confirm_failure_passes never_included_passes wrong_hash_passes retry_passes end_to_end_passes account_info_passes
      missing_sequence_passes network_max_passes probe_failure_passes query_price_passes)

end
