(* ===== verification/Test_Run_Once_Pass.thy ===== *)
theory Test_Run_Once_Pass
  imports Test_Submit_Pass
begin

text \<open>The tests of a whole tick pass, for every host that \<open>serves\<close>.\<close>

section \<open>The rate\<close>

lemma mount_answers:
  "rpc_answer (mount_bsc_rpc rate) [''eth_chainId''] = Some 31337"
  "rpc_answer (mount_bsc_rpc rate) [''eth_blockNumber''] = Some 100"
  "rpc_answer (mount_bsc_rpc rate) [''eth_call'', ''182df0f5''] = Some (ucast rate)"
  "rpc_answer (mount_bsc_rpc rate) [''eth_call'', ''6f307dc3''] = Some 1"
  "rpc_answer (mount_bsc_rpc rate) [''eth_call'', ''313ce567''] = Some 18"
  by (simp_all add: rpc_answer_def mount_bsc_rpc_def List.member_iff)

lemma bsc_read_mounted:
  assumes "reads_mocks cl servers" "(u, mount_bsc_rpc rate) \<in> set servers" "cache u = None"
  shows "bsc_read (run_once_cfg urls lcd) cl u cache = (Ok rate, cache(u \<mapsto> 31337))"
proof -
  from assms(1) have pow: "unat (u256_pow cl 10 0) = 1"
    and "\<exists>v. parse_address cl ''0xC4eF4229FEc74Ccfe17B2bdeF7715fAC740BA0ba'' = Ok v" by (simp_all add: reads_mocks_def)
  then obtain v where v: "parse_address cl ''0xC4eF4229FEc74Ccfe17B2bdeF7715fAC740BA0ba'' = Ok v" by blast
  from assms(1,2) obtain p where p: "build_http_provider cl u 5 = Ok p"
    "get_chain_id p = Ok 31337" "get_block_number p = Ok 100" "\<And>a b. exchange_rate_stored_at p a b = Ok (ucast rate)"
    "\<And>a b. \<exists>x. underlying_at p a b = Ok x" "\<And>a b. decimals_at p a b = Ok 18"
    unfolding reads_mocks_def by (fastforce simp: mount_answers)
  from p(5) obtain f where f: "\<And>a b. underlying_at p a b = Ok (f a b)" by metis
  have "unat rate < 2 ^ 128" using unat_less_size[of rate] by simp
  then have wide: "unat (ucast rate :: u256) = unat rate" by (simp add: unsigned_ucast_eq take_bit_nat_eq_self)
  have "venus_exchange_rate_to_oracle_r (u256_pow cl) (ucast rate) 18 18 = Ok rate"
    by (subst venus_rate_Ok_iff) (simp_all add: pow wide)
  then have "read_rate_at_block cl p ''0xC4eF4229FEc74Ccfe17B2bdeF7715fAC740BA0ba'' 0 = Ok rate"
    unfolding read_rate_Ok_iff by (simp add: p v f)
  then show ?thesis
    using assms(3) by (simp add: bsc_read_def read_exchange_rate_stored_def run_once_cfg_def p(1,2)
        verify_bsc_rpc_chain_id_def List.member_iff)
qed

abbreviation bsc_servers :: "('a, 'u, 'k) server_host \<Rightarrow> u128 \<Rightarrow> u128 \<Rightarrow> (string \<times> rpc_mock list) list" where
  "bsc_servers h r0 r1 \<equiv> [(sh_bsc_uri h 0, mount_bsc_rpc r0), (sh_bsc_uri h 1, mount_bsc_rpc r1)]"

abbreviation bsc_urls :: "('a, 'u, 'k) server_host \<Rightarrow> string list" where
  "bsc_urls h \<equiv> [sh_bsc_uri h 0, sh_bsc_uri h 1]"

lemma proposed_mounted:
  assumes "serves h" "ss_chain_ids s = Map.empty"
  obtains s' where "proposed_rate (mock_service h (bsc_servers h r0 r1)) (run_once_cfg (bsc_urls h) lcd) (s, w) =
      Some (Done (if rates_agree_within_point_zero_one_percent r0 r1 then Ok r0 else Err (FirstTwoDisagree r0 r1)), (s', w))"
    "ss_liveness s' = ss_liveness s"
proof -
  let ?cfg = "run_once_cfg (bsc_urls h) lcd"
  define ans where "ans = \<lparr>ba_client = (\<lambda>_ :: nat. sh_bsc h (bsc_servers h r0 r1)), ba_overlap = True, ba_dropped = None\<rparr>"
  have m: "reads_mocks (sh_bsc h (bsc_servers h r0 r1)) (bsc_servers h r0 r1)" using assms(1) by (simp add: serves_def)
  have u: "sc_bsc_rpc_urls (run_once_cfg urls lcd) = urls" for urls by (simp add: run_once_cfg_def)
  have "first_reads ?cfg ans Map.empty =
      ((Ok r0, [sh_bsc_uri h 0 \<mapsto> 31337]), (Ok r1, [sh_bsc_uri h 1 \<mapsto> 31337]))"
    using bsc_read_mounted[OF m, of "sh_bsc_uri h 0" r0 Map.empty] bsc_read_mounted[OF m, of "sh_bsc_uri h 1" r1 Map.empty]
    by (simp add: first_reads_def u ans_def)
  then have r: "fst (read_of_call ?cfg ans Map.empty 0) = Ok r0" "fst (read_of_call ?cfg ans Map.empty (Suc 0)) = Ok r1"
    by (simp_all add: read_of_call_def)
  have "run_with_evm_rpc_rate_consensus (bsc_urls h) (\<lambda>k url. fst (read_of_call ?cfg ans Map.empty k)) =
      (if rates_agree_within_point_zero_one_percent r0 r1 then Ok r0 else Err (FirstTwoDisagree r0 r1))"
    by (simp add: run_with_evm_rpc_rate_consensus_def r[unfolded One_nat_def])
  then have "proposed_rate (mock_service h (bsc_servers h r0 r1)) ?cfg (s, w) =
      Some (Done (if rates_agree_within_point_zero_one_percent r0 r1 then Ok r0 else Err (FirstTwoDisagree r0 r1)),
        (s\<lparr>ss_chain_ids := cache_after_calls ?cfg ans Map.empty 3\<rparr>, w))"
    by (simp add: proposed_rate_def mock_service_def ans_def[symmetric] assms(2) u) (simp add: ans_def)
  then show thesis using that by simp
qed

section \<open>The clock\<close>

text \<open>The decision is taken one request after the start of the test, at most 30 seconds later.\<close>

lemma later:
  assumes "serves h"
  obtains d where "unix_at h \<lparr>mw_now = sh_started h + sh_latency h, mw_mocks = ms\<rparr> = sh_unix h + of_nat d"
    "unat (sh_unix h + of_nat d) = unat (sh_unix h) + d" "d \<le> 30"
proof
  let ?d = "sh_latency h div 1000000000"
  have b: "sh_latency h \<le> 30000000000" "unat (sh_unix h) < 2 ^ 62" using assms by (simp_all add: serves_def)
  then show "?d \<le> 30" by simp
  then show "unat (sh_unix h + of_nat ?d) = unat (sh_unix h) + ?d"
    using b(2) by (subst unat_plus_if_fits) (simp_all add: unsigned_of_nat take_bit_nat_eq_self)
  show "unix_at h \<lparr>mw_now = sh_started h + sh_latency h, mw_mocks = ms\<rparr> = sh_unix h + of_nat ?d"
    by (simp add: unix_at_def)
qed

lemma now_at_start: "unix_at h (mounted h ms) = sh_unix h"
  by (simp add: unix_at_def mounted_def)

section \<open>A tick\<close>

lemma run_cfg_simps: "sc_oracle_contract (run_once_cfg urls lcd) = ORACLE"
  "sc_terra_mnemonic (run_once_cfg urls lcd) = TEST_MNEMONIC" "sc_tx_confirm_timeout_secs (run_once_cfg urls lcd) = 2"
  by (simp_all add: run_once_cfg_def)

lemma tick_decides:
  assumes "serves h" "signs_for h sg" "ss_chain_ids s = Map.empty" "shows_state h st body"
    and "rates_agree_within_point_zero_one_percent r0 r1"
    and "\<And>q. serve ''GET'' (smart_path q) ms = (json_response 200 body, ms')"
  obtains s' where "ss_liveness s' = ss_liveness s"
    "run_once (mock_service h (bsc_servers h r0 r1)) (run_once_cfg (bsc_urls h) lcd) sg (s, mounted h ms) =
     (let w = \<lparr>mw_now = sh_started h + sh_latency h, mw_mocks = ms'\<rparr> in
      case decide_tick_action r0 st (unix_at h w) of
        Inr (Submit d b hb) \<Rightarrow>
          io_then (io_map_err LcdError (io_lift (submit_and_confirm_oracle_update (mock_service h (bsc_servers h r0 r1))
            (run_once_cfg (bsc_urls h) lcd) sg r0 st))) (\<lambda>txh. record_liveness (mock_io h)) (s', w)
      | Inr _ \<Rightarrow> io_return (Ok ()) (s', w)
      | Inl e \<Rightarrow> io_return (Inl e) (s', w))"
proof -
  let ?sv = "mock_service h (bsc_servers h r0 r1)" and ?cfg = "run_once_cfg (bsc_urls h) lcd"
  let ?w = "\<lparr>mw_now = sh_started h + sh_latency h, mw_mocks = ms'\<rparr>"
  obtain s' where p: "proposed_rate ?sv ?cfg (s, mounted h ms) = Some (Done (Ok r0), (s', mounted h ms))"
    and l: "ss_liveness s' = ss_liveness s"
    using proposed_mounted[OF assms(1,3), of r0 r1 lcd "mounted h ms"] assms(5) by auto
  have q: "query_state ?sv ?cfg sg (mounted h ms) = Some (Done (Ok st), ?w)"
    unfolding query_state_mock[OF run_cfg_simps(1)] mounted_def by (rule state_answered[OF assms(1,2,4,6)])
  have n: "now_unix (mock_io h) w = (unix_at h w, w)" "sv_io ?sv = mock_io h" for w
    by (simp_all add: now_unix_def mock_service_def mock_io_simps)
  have a: "io_then (io_map_err RateError (proposed_rate ?sv ?cfg)) k (s, mounted h ms) = k r0 (s', mounted h ms)"
    for k :: "u128 \<Rightarrow> (unit, tick_error, service_state \<times> mock_world) io"
    by (simp add: io_then_def io_map_err_def io_await_def p[unfolded One_nat_def] io_return_def)
  have b: "io_then (io_map_err LcdError (io_lift (query_state ?sv ?cfg sg))) k (s', mounted h ms) = k st (s', ?w)"
    for k :: "state_response \<Rightarrow> (unit, tick_error, service_state \<times> mock_world) io"
    by (simp add: io_then_def io_map_err_def io_await_def io_lift_def q[unfolded One_nat_def] io_return_def)
  show thesis by (rule that[OF l]) (simp only: run_once_def a b split_conv n Let_def)
qed

text \<open>The server of a tick that must not broadcast.\<close>

lemma quiet_server:
  "serve ''GET'' (smart_path q) [state_answers body, mount_no_broadcast] =
     (json_response 200 body, [hit 1 (state_answers body), mount_no_broadcast])"
  "expectations_met [hit 1 (state_answers body), mount_no_broadcast]"
  "expectations_met [state_answers body, mount_no_broadcast]"
  by (subst fresh_mock(1), simp only: serve_state One_nat_def)
    (simp_all add: expectations_met_def hit_def state_answers_def respond_def mount_no_broadcast_def expect_times_def)

lemma quiet_tick_passes:
  assumes "serves h" "state_lcd_body h st = Ok body" "shows_state h st body"
    and "\<And>d. d \<le> 30 \<Longrightarrow> unat (sh_unix h + of_nat d) = unat (sh_unix h) + d \<Longrightarrow>
      \<exists>a. decide_tick_action p st (sh_unix h + of_nat d) = (Ok a :: (tick_action, tick_error) result) \<and> (\<forall>x y z. a \<noteq> Submit x y z)"
  shows "passes (ticking h p p [state_answers body, mount_no_broadcast] skips)"
proof -
  obtain sg where sg: "signer_for h (run_once_cfg (bsc_urls h) (sh_uri h)) = Ok sg" "signs_for h sg"
    using signer_for_Ok[OF assms(1) run_cfg_simps(2)] by blast
  let ?s = "initial_service_state Map.empty (sh_started h)"
  have c: "ss_chain_ids ?s = Map.empty" by (simp add: initial_service_state_def)
  let ?w = "\<lparr>mw_now = sh_started h + sh_latency h, mw_mocks = [hit 1 (state_answers body), mount_no_broadcast]\<rparr>"
  obtain s' where l: "ss_liveness s' = ss_liveness ?s" and r:
    "run_once (mock_service h (bsc_servers h p p)) (run_once_cfg (bsc_urls h) (sh_uri h)) sg (?s, mounted h [state_answers body, mount_no_broadcast]) =
     (case decide_tick_action p st (unix_at h ?w) of
        Inr (Submit d b hb) \<Rightarrow>
          io_then (io_map_err LcdError (io_lift (submit_and_confirm_oracle_update (mock_service h (bsc_servers h p p))
            (run_once_cfg (bsc_urls h) (sh_uri h)) sg p st))) (\<lambda>txh. record_liveness (mock_io h)) (s', ?w)
      | Inr _ \<Rightarrow> io_return (Ok ()) (s', ?w)
      | Inl e \<Rightarrow> io_return (Inl e) (s', ?w))"
    using tick_decides[OF assms(1) sg(2) c assms(3) agree_refl quiet_server(1), of p "sh_uri h"] unfolding Let_def by metis
  obtain d where d: "unix_at h ?w = sh_unix h + of_nat d" "d \<le> 30" "unat (sh_unix h + of_nat d) = unat (sh_unix h) + d"
    using later[OF assms(1)] by metis
  obtain a where a: "decide_tick_action p st (unix_at h ?w) = (Ok a :: (tick_action, tick_error) result)" "\<forall>x y z. a \<noteq> Submit x y z"
    using assms(4)[OF d(2,3)] unfolding d(1) by blast
  have skip: "a = SkipPaused \<or> a = SkipEqualRate \<or> (\<exists>e. a = SkipPolicy e)" using a(2) by (cases a) blast+
  have "run_once (mock_service h (bsc_servers h p p)) (run_once_cfg (bsc_urls h) (sh_uri h)) sg
      (?s, mounted h [state_answers body, mount_no_broadcast]) = Some (Done (Ok ()), (s', ?w))"
    unfolding r a(1) using skip by (auto simp: io_return_def)
  from this[unfolded One_nat_def] show ?thesis
    by (simp add: ticking_def sg(1)[unfolded One_nat_def] awaited_def skips_def returns_ok_def passes_and_then server_dropped_def
        quiet_server(2)[unfolded One_nat_def] test_simps l initial_service_state_def lock_liveness_def mutex_lock_def
        has_recorded_success_def liveness_new_def)
qed

section \<open>Ticks that do not broadcast\<close>

lemma lasts:
  assumes "serves h"
  shows "unat (saturating_sub (sh_unix h) 100) = unat (sh_unix h) - 100"
    "unat (saturating_sub (sh_unix h) (MIN_ORACLE_UPDATE_INTERVAL_SECS + 10)) = unat (sh_unix h) - 14410"
    "checked_sub (sh_unix h) 100 = Ok (saturating_sub (sh_unix h) 100)"
    "checked_sub (sh_unix h) MIN_ORACLE_UPDATE_INTERVAL_SECS = Ok (sh_unix h - 14400)"
    "checked_sub (sh_unix h - 14400) 10 = Ok (saturating_sub (sh_unix h) (MIN_ORACLE_UPDATE_INTERVAL_SECS + 10))"
proof -
  have u: "1000000 \<le> unat (sh_unix h)" using assms by (simp add: serves_def)
  have le: "100 \<le> sh_unix h" "14400 \<le> sh_unix h" "14410 \<le> sh_unix h"
    using u by (simp_all add: word_le_nat_alt)
  have d: "unat (sh_unix h - 14400) = unat (sh_unix h) - 14400" using le by (simp add: unat_minus_if_le)
  then have le10: "10 \<le> sh_unix h - 14400" using u by (simp add: word_le_nat_alt)
  show "unat (saturating_sub (sh_unix h) 100) = unat (sh_unix h) - 100"
    "unat (saturating_sub (sh_unix h) (MIN_ORACLE_UPDATE_INTERVAL_SECS + 10)) = unat (sh_unix h) - 14410"
    using le by (simp_all add: saturating_sub_def MIN_ORACLE_UPDATE_INTERVAL_SECS_def unat_minus_if_le)
  show "checked_sub (sh_unix h) 100 = Ok (saturating_sub (sh_unix h) 100)"
    "checked_sub (sh_unix h) MIN_ORACLE_UPDATE_INTERVAL_SECS = Ok (sh_unix h - 14400)"
    "checked_sub (sh_unix h - 14400) 10 = Ok (saturating_sub (sh_unix h) (MIN_ORACLE_UPDATE_INTERVAL_SECS + 10))"
    using le le10 by (simp_all add: checked_sub_def saturating_sub_def MIN_ORACLE_UPDATE_INTERVAL_SECS_def)
qed

lemma throttled_early:
  assumes "serves h" "unat (sh_unix h + of_nat d) = unat (sh_unix h) + d" "d \<le> 30"
  shows "throttled (sh_unix h + of_nat d) (saturating_sub (sh_unix h) 100)"
    "\<not> throttled (sh_unix h + of_nat d) (saturating_sub (sh_unix h) (MIN_ORACLE_UPDATE_INTERVAL_SECS + 10))"
    "saturating_sub (sh_unix h) (MIN_ORACLE_UPDATE_INTERVAL_SECS + 10) \<noteq> 0"
proof -
  have u: "1000000 \<le> unat (sh_unix h)" using assms(1) by (simp add: serves_def)
  show "throttled (sh_unix h + of_nat d) (saturating_sub (sh_unix h) 100)"
    "\<not> throttled (sh_unix h + of_nat d) (saturating_sub (sh_unix h) (MIN_ORACLE_UPDATE_INTERVAL_SECS + 10))"
    unfolding throttled_def lasts(1,2)[OF assms(1)] assms(2) using u assms(3) by simp_all
  have "unat (saturating_sub (sh_unix h) (MIN_ORACLE_UPDATE_INTERVAL_SECS + 10)) \<noteq> 0"
    unfolding lasts(2)[OF assms(1)] using u by simp
  then show "saturating_sub (sh_unix h) (MIN_ORACLE_UPDATE_INTERVAL_SECS + 10) \<noteq> 0" by (metis unat_0)
qed

lemma quiet_test:
  assumes "serves h"
    and "\<And>d. d \<le> 30 \<Longrightarrow> unat (sh_unix h + of_nat d) = unat (sh_unix h) + d \<Longrightarrow>
      \<exists>a. decide_tick_action p st (sh_unix h + of_nat d) = (Ok a :: (tick_action, tick_error) result) \<and> (\<forall>x y z. a \<noteq> Submit x y z)"
  shows "passes (and_then (state_lcd_body h st) (\<lambda>body. ticking h p p [state_answers body, mount_no_broadcast] skips))"
proof -
  obtain body where b: "state_lcd_body h st = Ok body" "shows_state h st body" using state_body_shown[OF assms(1)] by blast
  from quiet_tick_passes[OF assms(1) this assms(2)] show ?thesis by (simp add: b(1))
qed

lemma mount_lcd_state_then:
  "and_then (mount_lcd_state h r l) k = and_then (state_lcd_body h (lcd_state r l False)) (\<lambda>body. k (state_answers body))"
  by (simp add: mount_lcd_state_def and_then_def split: sum.split fault.split)

lemma equal_rate_tick_passes:
  assumes "serves h" shows "passes (run_once_equal_rate_does_not_record_liveness h)"
  unfolding run_once_equal_rate_does_not_record_liveness_def Let_def now_at_start mount_lcd_state_then
  by (rule quiet_test[OF assms])
    (simp add: decide_tick_action_def check_rate_update_eq lcd_state_def throttled_early[OF assms] split: prod.split)

lemma paused_tick_passes:
  assumes "serves h" shows "passes (run_once_paused_equal_rate_does_not_broadcast h)"
  unfolding run_once_paused_equal_rate_does_not_broadcast_def Let_def now_at_start
  by (rule quiet_test[OF assms]) (simp add: decide_tick_action_def lcd_state_def)

lemma throttled_tick_passes:
  assumes "serves h" shows "passes (run_once_policy_throttle_does_not_record_liveness h)"
  unfolding run_once_policy_throttle_does_not_record_liveness_def Let_def now_at_start mount_lcd_state_then
    lasts(3)[OF assms] unwrap_simps(2) and_then_simps
  by (rule quiet_test[OF assms])
    (simp add: decide_tick_action_def check_rate_update_eq lcd_state_def throttled_early[OF assms] split: prod.split)

lemma decreased_tick_passes:
  assumes "serves h" shows "passes (run_once_mono_decrease_does_not_record_liveness h)"
  unfolding run_once_mono_decrease_does_not_record_liveness_def Let_def now_at_start mount_lcd_state_then
    lasts(4,5)[OF assms] unwrap_simps(2) and_then_simps
  by (rule quiet_test[OF assms])
    (simp add: decide_tick_action_def check_rate_update_eq lcd_state_def throttled_early[OF assms] split: prod.split)

section \<open>Providers that disagree\<close>

lemma disagreement_passes:
  assumes "serves h" shows "passes (run_once_evm_disagreement_does_not_heartbeat h)"
proof -
  let ?st = "lcd_state 1000000 (saturating_sub (sh_unix h) (MIN_ORACLE_UPDATE_INTERVAL_SECS + 10)) False"
  obtain body where b: "state_lcd_body h ?st = Ok body" using state_body_shown[OF assms] by blast
  let ?cfg = "run_once_cfg (bsc_urls h) (sh_uri h)" and ?s = "initial_service_state Map.empty (sh_started h)"
  obtain sg where sg: "signer_for h ?cfg = Ok sg" using signer_for_Ok[OF assms run_cfg_simps(2)] by blast
  let ?w = "mounted h [state_answers body, mount_no_broadcast]"
  have "\<not> rates_agree_within_point_zero_one_percent 1000000 (1000000 + 10000)"
    by (simp add: agree_iff)
  then obtain s' where p: "proposed_rate (mock_service h (bsc_servers h 1000000 (1000000 + 10000))) ?cfg (?s, ?w) =
      Some (Done (Err (FirstTwoDisagree 1000000 (1000000 + 10000))), (s', ?w))" "ss_liveness s' = ss_liveness ?s"
    using proposed_mounted[OF assms, of ?s 1000000 "1000000 + 10000" "sh_uri h" ?w]
    by (auto simp: initial_service_state_def)
  have "run_once (mock_service h (bsc_servers h 1000000 (1000000 + 10000))) ?cfg sg (?s, ?w) =
      Some (Done (Err (RateError (FirstTwoDisagree 1000000 (1000000 + 10000)))), (s', ?w))"
    unfolding run_once_def io_then_def io_map_err_def io_await_def p(1) by (simp add: io_return_def)
  moreover have "str_contains (tick_error_text h (RateError (FirstTwoDisagree a b))) ''mismatch''" for a b
    by (simp add: tick_error_text_def consensus_error_text_def str_contains_def sublist_Cons_right)
  ultimately show ?thesis
    unfolding run_once_evm_disagreement_does_not_heartbeat_def Let_def now_at_start mount_lcd_state_then b and_then_simps
      ticking_def sg
    by (simp add: awaited_def passes_and_then server_dropped_def quiet_server(3) test_simps p(2) initial_service_state_def
        lock_liveness_def mutex_lock_def has_recorded_success_def liveness_new_def mounted_def)
qed

section \<open>The heartbeat\<close>

definition tick_server :: "json \<Rightarrow> nat \<Rightarrow> string \<Rightarrow> http_response \<Rightarrow> nat \<Rightarrow> nat \<Rightarrow> nat \<Rightarrow> mock list" where
  "tick_server body n hash r a b c = hit n (state_answers body) # submit_server hash r a b c []"

lemma tick_server_start:
  "state_answers body # mount_account_and_broadcast_ok hash rate = tick_server body 0 hash
     (json_response 200 (tx_response_json hash 0 [] (Some (wasm_update_rate_events ORACLE rate)))) 0 0 0"
  unfolding mount_account_and_broadcast_ok_def submit_server_start tick_server_def
  by (simp add: fresh_mock(1)[symmetric])

lemma state_mock_apart:
  "\<not> answers_request ''GET'' (''/cosmos/auth/v1beta1/accounts/'' @ x) (hit n (state_answers body))"
  "\<not> answers_request ''GET'' ''/cosmos/base/node/v1beta1/config'' (hit n (state_answers body))"
  "\<not> answers_request ''GET'' (''/cosmos/tx/v1beta1/txs/'' @ x) (hit n (state_answers body))"
  "\<not> answers_request ''POST'' x (hit n (state_answers body))"
  by (simp_all add: answers_request_def hit_def state_answers_def respond_def SMART_def)

lemma serve_tick:
  "serve ''GET'' (''/cosmos/auth/v1beta1/accounts/'' @ x) (tick_server body n hash r a b c) =
     (json_response 200 (account_json 1), tick_server body n hash r (Suc a) b c)"
  "serve ''GET'' ''/cosmos/base/node/v1beta1/config'' (tick_server body n hash r a b c) =
     (empty_response 404, tick_server body n hash r a b c)"
  "serve ''POST'' ''/cosmos/tx/v1beta1/txs'' (tick_server body n hash r a b c) =
     (json_response 200 (tx_response_json hash 0 [] None), tick_server body n hash r a (Suc b) c)"
  "serve ''GET'' (''/cosmos/tx/v1beta1/txs/'' @ hash) (tick_server body n hash r a b c) =
     (r, tick_server body n hash r a b (Suc c))"
  "serve ''GET'' (smart_path q) (tick_server body n hash r a b c) =
     (json_response 200 body, tick_server body (Suc n) hash r a b c)"
  by (simp_all only: tick_server_def serve_state)
    (simp_all add: state_mock_apart serve_submit state_mocks_simps del: append.simps)

lemma tick_expectations: "expectations_met (tick_server body n hash r a b c)"
  by (simp add: tick_server_def expectations_submit)

abbreviation heartbeat_tx :: json where
  "heartbeat_tx \<equiv> tx_response_json ''HEARTBEAT1'' 0 [] (Some (wasm_update_rate_events ORACLE 1000000))"

abbreviation heartbeat_server :: "json \<Rightarrow> nat \<Rightarrow> nat \<Rightarrow> nat \<Rightarrow> nat \<Rightarrow> mock list" where
  "heartbeat_server body n \<equiv> tick_server body n ''HEARTBEAT1'' (json_response 200 heartbeat_tx)"

lemma heartbeat_confirms:
  assumes "serves h" "signs_for h sg" "ts_chain_id sg = ''localterra''" "shows_state h st body"
    and cfg: "sc_oracle_contract cfg = ORACLE" "sc_tx_confirm_timeout_secs cfg = 2"
  shows "\<exists>t. submit_and_confirm_oracle_update (mock_service h bsc) cfg sg 1000000 prior
      \<lparr>mw_now = sh_started h + sh_latency h, mw_mocks = heartbeat_server body (Suc 0) 0 0 0\<rparr> =
    Some (Done (Ok ''HEARTBEAT1''), \<lparr>mw_now = t, mw_mocks = heartbeat_server body (Suc (Suc 0)) (Suc 0) (Suc 0) (Suc 0)\<rparr>)"
proof -
  have m: "heartbeat_tx \<in> set served_bodies" by (simp add: served_bodies_def)
  have parse: "parse_tx_query_body (sh_lcd h) 200 heartbeat_tx =
      Ok (Some (summary_of ''HEARTBEAT1'' 0 [] [update_event ORACLE 1000000]))"
    by (rule parse_event_tx[OF assms(1) m]) simp_all
  have v: "confirm_verdict ''HEARTBEAT1'' (parse_tx_query_body (sh_lcd h) 200 heartbeat_tx) =
      Some (Ok (summary_of ''HEARTBEAT1'' 0 [] [update_event ORACLE 1000000]))"
    by (simp add: confirm_verdict_def parse summary_of_def)
  let ?t = "sh_started h + sh_latency h + 3 * sh_latency h"
  have t: "?t + timeout (from_secs_and_ms (sc_tx_confirm_timeout_secs cfg) (sc_tx_confirm_poll_interval_ms cfg)) \<le> sh_instant_limit h"
    using assms(1) by (simp add: cfg serves_def from_secs_and_ms_def duration_from_secs_def)
  have wait: "wait_for_deliver_tx_success (sh_lcd h) (mock_io h) sg ''HEARTBEAT1''
        (from_secs_and_ms (sc_tx_confirm_timeout_secs cfg) (sc_tx_confirm_poll_interval_ms cfg))
        \<lparr>mw_now = ?t, mw_mocks = heartbeat_server body (Suc 0) (Suc 0) (Suc 0) 0\<rparr> =
      Some (Done (Ok (summary_of ''HEARTBEAT1'' 0 [] [update_event ORACLE 1000000])),
        \<lparr>mw_now = ?t + sh_latency h, mw_mocks = heartbeat_server body (Suc 0) (Suc 0) (Suc 0) (Suc 0)\<rparr>)"
    by (rule wait_answered[OF assms(2) serve_tick(4) v _ t]) simp
  have seen: "query_state (mock_service h bsc) cfg sg \<lparr>mw_now = t, mw_mocks = heartbeat_server body n a b c\<rparr> =
      Some (Done (Ok st), \<lparr>mw_now = t + sh_latency h, mw_mocks = heartbeat_server body (Suc n) a b c\<rparr>)" for t n a b c
    unfolding query_state_mock[OF cfg(1)] by (rule state_answered[OF assms(1,2,4) serve_tick(5)])
  show ?thesis
    using submit_waits[OF assms(1-3) cfg(1) serve_tick(1) serve_tick(2) _ serve_tick(3) _ wait, where prior = prior and bsc = bsc and rate = 1000000]
    by (simp add: after_wait_def cfg summary_of_def event_matches observe_state_after_event_ok_def io_then_def
        io_await_def io_return_def seen)
qed

lemma heartbeat_decided:
  assumes "serves h"
  shows "\<exists>x y z. decide_tick_action 1000000
      (lcd_state 1000000 (saturating_sub (sh_unix h) (MIN_ORACLE_UPDATE_INTERVAL_SECS + 10)) False)
      (unix_at h \<lparr>mw_now = sh_started h + sh_latency h, mw_mocks = ms\<rparr>) = (Ok (Submit x y z) :: (tick_action, tick_error) result)"
proof -
  let ?now = "unix_at h \<lparr>mw_now = sh_started h + sh_latency h, mw_mocks = ms\<rparr>"
  obtain d where d: "?now = sh_unix h + of_nat d" "unat (sh_unix h + of_nat d) = unat (sh_unix h) + d" "d \<le> 30"
    using later[OF assms] by metis
  show ?thesis
    unfolding d(1) decide_Submit_iff check_rate_update_Ok_iff using throttled_early[OF assms d(2,3)]
    by (auto simp: lcd_state_def within_daily_cap_def Let_def)
qed

lemma heartbeat_passes:
  assumes "serves h" shows "passes (run_once_equal_rate_heartbeat_records_liveness_on_events h)"
proof -
  let ?st = "lcd_state 1000000 (saturating_sub (sh_unix h) (MIN_ORACLE_UPDATE_INTERVAL_SECS + 10)) False"
  let ?cfg = "run_once_cfg (bsc_urls h) (sh_uri h)" and ?s = "initial_service_state Map.empty (sh_started h)"
  let ?sv = "mock_service h (bsc_servers h 1000000 1000000)"
  obtain body where b: "state_lcd_body h ?st = Ok body" "shows_state h ?st body" using state_body_shown[OF assms] by blast
  obtain sg where sg: "signer_for h ?cfg = Ok sg" "signs_for h sg" "ts_chain_id sg = ''localterra''"
    using signer_for_Ok[OF assms run_cfg_simps(2)] by blast
  let ?w1 = "\<lparr>mw_now = sh_started h + sh_latency h, mw_mocks = heartbeat_server body (Suc 0) 0 0 0\<rparr>"
  have c: "ss_chain_ids ?s = Map.empty" by (simp add: initial_service_state_def)
  obtain s' where l: "ss_liveness s' = ss_liveness ?s" and r:
    "run_once ?sv ?cfg sg (?s, mounted h (heartbeat_server body 0 0 0 0)) =
     (case decide_tick_action 1000000 ?st (unix_at h ?w1) of
        Inr (Submit d b hb) \<Rightarrow>
          io_then (io_map_err LcdError (io_lift (submit_and_confirm_oracle_update ?sv ?cfg sg 1000000 ?st)))
            (\<lambda>txh. record_liveness (mock_io h)) (s', ?w1)
      | Inr _ \<Rightarrow> io_return (Ok ()) (s', ?w1)
      | Inl e \<Rightarrow> io_return (Inl e) (s', ?w1))"
    using tick_decides[OF assms sg(2) c b(2) agree_refl serve_tick(5), of 1000000 "sh_uri h"] unfolding Let_def by metis
  obtain x y z where dec: "decide_tick_action 1000000 ?st (unix_at h ?w1) = (Ok (Submit x y z) :: (tick_action, tick_error) result)"
    using heartbeat_decided[OF assms] by blast
  obtain t where "submit_and_confirm_oracle_update ?sv ?cfg sg 1000000 ?st ?w1 =
      Some (Done (Ok ''HEARTBEAT1''), \<lparr>mw_now = t, mw_mocks = heartbeat_server body (Suc (Suc 0)) (Suc 0) (Suc 0) (Suc 0)\<rparr>)"
    using heartbeat_confirms[OF assms sg(2,3) b(2) run_cfg_simps(1,3)] by blast
  then have "run_once ?sv ?cfg sg (?s, mounted h (heartbeat_server body 0 0 0 0)) = record_liveness (mock_io h)
      (s', \<lparr>mw_now = t, mw_mocks = heartbeat_server body (Suc (Suc 0)) (Suc 0) (Suc 0) (Suc 0)\<rparr>)"
    unfolding r dec by (simp add: io_then_def io_map_err_def io_await_def io_lift_def io_return_def)
  then show ?thesis
    unfolding run_once_equal_rate_heartbeat_records_liveness_on_events_def Let_def now_at_start mount_lcd_state_then b
      and_then_simps tick_server_start ticking_def sg
    by (simp add: awaited_def record_liveness_def mock_io_simps passes_and_then returns_ok_def server_dropped_def
        tick_expectations test_simps l initial_service_state_def lock_liveness_def mutex_lock_def has_recorded_success_def
        record_successful_broadcast_def)
qed

lemma run_once_tests_pass: "serves h \<Longrightarrow> list_all (\<lambda>t. passes (t h)) run_once_tests"
  by (simp add: run_once_tests_def equal_rate_tick_passes heartbeat_passes paused_tick_passes disagreement_passes
      throttled_tick_passes decreased_tick_passes)

end
