(* ===== verification/Test_Server_Host.thy ===== *)
theory Test_Server_Host
  imports Test_Client_Pass Test_Run_Once_Pass Service_Scenario
begin

text \<open>
  A host of the mock server tests whose third-party code is concrete: a wallet that takes
  everything, a JSON-RPC client that reads the mocks, and a text for each state.
\<close>

section \<open>States as text\<close>

text \<open>The five members with commas between them, after a sign that no base64 word has.\<close>

definition state_text :: "state_response \<Rightarrow> string" where
  "state_text st = show_nat (unat (sr_rate st)) @ '','' @ show_nat (unat (sr_last_update_sec st)) @ '','' @
     show_nat (unat (sr_utc_day_id st)) @ '','' @ show_nat (unat (sr_day_baseline_rate st)) @ '','' @
     (if sr_paused st then ''1'' else ''0'')"

definition before_comma :: "string \<Rightarrow> string" where
  "before_comma s = takeWhile (\<lambda>c. c \<noteq> CHR '','') s"

definition after_comma :: "string \<Rightarrow> string" where
  "after_comma s = tl (dropWhile (\<lambda>c. c \<noteq> CHR '','') s)"

definition read_state_text :: "string \<Rightarrow> (state_response, string) result" where
  "read_state_text s =
     (let a = after_comma s; b = after_comma a; c = after_comma b; d = after_comma c in
      case (parse_uint (before_comma s), parse_uint (before_comma a), parse_uint (before_comma b), parse_uint (before_comma c)) of
        (Some r, Some l, Some u, Some y) \<Rightarrow> Ok \<lparr>sr_rate = r, sr_last_update_sec = l, sr_utc_day_id = u,
           sr_day_baseline_rate = y, sr_paused = (d = ''1'')\<rparr>
      | _ \<Rightarrow> Err ''no state'')"

lemma comma_split:
  assumes "CHR '','' \<notin> set p"
  shows "before_comma (p @ CHR '','' # s) = p" "after_comma (p @ CHR '','' # s) = s"
  using assms by (induction p) (auto simp: before_comma_def after_comma_def)

lemma number_no_comma: "CHR '','' \<notin> set (show_nat n)"
  using set_show_nat[of "CHR '',''" n] by (auto simp: is_digit_def byte_of_def)

lemma read_state: "read_state_text (state_text st) = Ok st"
  by (simp add: read_state_text_def state_text_def comma_split[OF number_no_comma] parse_uint_show_nat Let_def)

lemma digit_visible: "is_digit c \<Longrightarrow> 32 < byte_of c \<and> byte_of c < 127"
  by (simp add: is_digit_def)

lemma number_visible_chars: "list_all (\<lambda>c. 32 < byte_of c \<and> byte_of c < 127) (show_nat n)"
  unfolding list_all_iff using set_show_nat digit_visible by blast

lemma state_text_visible: "trim (CHR ''$'' # state_text st) = CHR ''$'' # state_text st"
  by (rule trim_visible) (simp add: visible_def state_text_def number_visible_chars[unfolded byte_of_def] byte_of_def)

section \<open>States as JSON values\<close>

definition uint_member :: "string \<Rightarrow> json \<Rightarrow> 'n::len word option" where
  "uint_member k j = Option.bind (Option.bind (json_get k j) as_str) parse_uint"

definition state_of_json :: "json \<Rightarrow> (state_response, string) result" where
  "state_of_json j =
     (case (uint_member ''rate'' j, Option.bind (json_get ''last_update_sec'' j) as_u64,
            Option.bind (json_get ''utc_day_id'' j) as_u64, uint_member ''day_baseline_rate'' j) of
        (Some r, Some l, Some u, Some y) \<Rightarrow> Ok \<lparr>sr_rate = r, sr_last_update_sec = l, sr_utc_day_id = u,
           sr_day_baseline_rate = y, sr_paused = (json_get ''paused'' j = Some (JBool True))\<rparr>
      | _ \<Rightarrow> Err ''no state'')"

lemma state_of_members:
  "state_of_json (JObject (state_members st @ [(''paused'', JBool (sr_paused st))])) = Ok st"
  "state_of_json (JObject (state_members st)) = Ok (st\<lparr>sr_paused := False\<rparr>)"
  by (simp_all add: state_of_json_def uint_member_def state_members_def parse_uint_show_nat)

section \<open>The host\<close>

definition decode_marked :: "string \<Rightarrow> (string, string) result" where
  "decode_marked s = (if take 1 s = ''$'' then Ok (drop 1 s)
     else if s = ORACLE \<or> s = OTHER then Ok [CHR 0xB5, CHR 0xEA]
     else if s = ''2000'' then Ok [CHR 0xDB, CHR 0x4D, CHR 0x34]
     else if s = ''1999'' then Ok [CHR 0xD7, CHR 0xDF, CHR 0x7D]
     else Err ''invalid'')"

definition rpc_value :: "(u256 \<Rightarrow> 'b) \<Rightarrow> rpc_mock list \<Rightarrow> string list \<Rightarrow> ('b, string) result" where
  "rpc_value f ms call = (case rpc_answer ms call of Some n \<Rightarrow> Ok (f n) | None \<Rightarrow> Err ''404'')"

definition mock_provider :: "rpc_mock list \<Rightarrow> string provider" where
  "mock_provider ms = \<lparr>get_chain_id = rpc_value ucast ms [''eth_chainId''],
     get_block_number = rpc_value ucast ms [''eth_blockNumber''],
     exchange_rate_stored_at = (\<lambda>_ _. rpc_value id ms [''eth_call'', ''182df0f5'']),
     underlying_at = (\<lambda>_ _. rpc_value (\<lambda>_. ''underlying'') ms [''eth_call'', ''6f307dc3'']),
     decimals_at = (\<lambda>_ _. rpc_value ucast ms [''eth_call'', ''313ce567''])\<rparr>"

definition mock_client :: "(string \<times> rpc_mock list) list \<Rightarrow> string bsc_client" where
  "mock_client servers = \<lparr>build_http_provider = (\<lambda>u _. case map_of servers u of
       Some ms \<Rightarrow> Ok (mock_provider ms) | None \<Rightarrow> Err ''no server''),
     parse_address = (\<lambda>s. Ok s), u256_pow = (\<lambda>b e. b ^ unat e)\<rparr>"

definition plain_server_host :: "(string, string, string) server_host" where
  "plain_server_host = \<lparr>sh_lcd = \<lparr>base64_decode = decode_marked, base64_encode = (\<lambda>s. CHR ''$'' # s),
       json_to_string = compact_json, str_debug = (\<lambda>s. s), lcd_urls = plain_urls, status_text = (\<lambda>_. [])\<rparr>,
     sh_wallet = plain_wallet, sh_bsc = mock_client, sh_bsc_text = (\<lambda>_. []), sh_uri = ''http://127.0.0.1:9000'',
     sh_bsc_uri = (\<lambda>n. if n = 0 then ''http://127.0.0.1:9001'' else ''http://127.0.0.1:9002''),
     sh_latency = 1000000, sh_started = 5000000000, sh_unix = 1700000000, sh_instant_limit = 2 ^ 93,
     sh_query_to_vec = (\<lambda>_. Ok ''state''), sh_execute_to_vec = (\<lambda>_. Ok ''update''),
     sh_state_to_vec = (\<lambda>st. Ok (state_text st)),
     sh_state_de = \<lparr>from_slice = read_state_text, from_value = state_of_json\<rparr>\<rparr>"

lemma plain_host_signs: "wallet_signs plain_wallet"
  by (simp add: wallet_signs_def plain_wallet_def)

lemma plain_host_decodes: "decodes_values (sh_lcd plain_server_host)"
  by (simp add: decodes_values_def plain_server_host_def decode_marked_def ORACLE_def OTHER_def)

lemma plain_host_carries: "carries_states plain_server_host"
  by (simp add: carries_states_def plain_server_host_def decode_marked_def read_state state_text_visible state_of_members)

lemma plain_host_reads:
  "u0 \<noteq> u1 \<Longrightarrow> reads_mocks (mock_client [(u0, ms0), (u1, ms1)]) [(u0, ms0), (u1, ms1)]"
  by (auto simp: reads_mocks_def mock_client_def mock_provider_def rpc_value_def split: option.splits)

lemma plain_server_host_serves: "serves plain_server_host"
proof -
  have "trim_end_slashes (sh_uri plain_server_host) = sh_uri plain_server_host"
    by (simp add: plain_server_host_def trim_end_slashes_def)
  moreover have "json_to_string (sh_lcd plain_server_host) body = compact_json body" for body
    by (simp add: plain_server_host_def)
  moreover have "reads_mocks (sh_bsc plain_server_host [(sh_bsc_uri plain_server_host 0, m0), (sh_bsc_uri plain_server_host 1, m1)])
      [(sh_bsc_uri plain_server_host 0, m0), (sh_bsc_uri plain_server_host 1, m1)]" for m0 m1
    by (simp add: plain_server_host_def plain_host_reads)
  ultimately show ?thesis
    unfolding serves_def using plain_host_decodes plain_host_carries plain_host_signs
    by (simp add: plain_server_host_def)
qed

end
