(* ===== verification/Test_Properties.thy ===== *)
theory Test_Properties
  imports Test_Common Test_Oracle Test_Rates Test_Config Test_Terra Test_Confirm Test_Ticks Delivery_Properties Test_Wrap_Pass Test_Server_Host
begin

text \<open>
  The tests of the repository that are modelled pass on the model: those of the shared
  arithmetic and of the contracts, and those of the service, with a mock HTTP server where they
  use one. They are a check of the definitions on the inputs whose answer the authors wrote
  down, beside the properties, which hold for all inputs.
\<close>

section \<open>The contracts\<close>

text \<open>
  The tests of the swap arithmetic, of the rules of an update, of the oracle contract, of
  the window and of the wrap contract pass on the model, for every chain whose address
  validation takes the addresses they use and whose JSON, cw20 tokens and bank behave as
  documented.
\<close>

theorem contract_tests_pass:
  assumes "takes_addresses tc" and "simulates h stored" and "wraps k held kept"
  shows "list_all passes (math_tests @ policy_tests @ map (\<lambda>t. t tc) oracle_multitests @
     map (\<lambda>t. t h) window_multitests @ map (\<lambda>t. t k) wrap_multitests)"
  using math_tests_pass policy_tests_pass oracle_multitest_passes[OF assms(1)]
    window_multitest_passes[OF assms(2)] wrap_multitest_passes[OF assms(3)]
  by (simp add: oracle_multitests_def list.pred_map comp_def)

theorem contract_tests_pass_witness:
  "list_all passes (math_tests @ policy_tests @ map (\<lambda>t. t \<lparr>tc_api = plain_api, tc_std_text = (\<lambda>_. []),
     tc_block = at_time 1000, tc_version = ''0.1.0''\<rparr>) oracle_multitests @
     map (\<lambda>t. t plain_window_host) window_multitests @ map (\<lambda>t. t plain_wrap_host) wrap_multitests)"
  by (rule contract_tests_pass[OF _ plain_window_host_simulates plain_wrap_host_wraps])
    (simp add: takes_addresses_def plain_api_def)

section \<open>The service\<close>

text \<open>A base64 decoder that knows the words of the tests, and refuses the others.\<close>

definition decode_words :: "string \<Rightarrow> (string, string) result" where
  "decode_words s =
     (case map_of [(''X2NvbnRyYWN0X2FkZHJlc3M='', ''_contract_address''), (''YWN0aW9u'', ''action''),
            (''cmF0ZQ=='', ''rate''), (''2000'', [CHR 0xDB, CHR 0x4D, CHR 0x34])] s of
        Some t \<Rightarrow> Ok t | None \<Rightarrow> Err ''invalid'')"

definition words_lcd :: "string lcd_lib" where
  "words_lcd = \<lparr>base64_decode = decode_words, base64_encode = (\<lambda>s. s), json_to_string = compact_json,
     str_debug = (\<lambda>s. s), lcd_urls = plain_urls, status_text = (\<lambda>_. [])\<rparr>"

text \<open>
  The tests of the service pass on the model: agreement of providers, the conversion of the
  Venus rate, the address of the token, the confirmation by state and by events, the decision
  of a tick, timing, liveness, gas, accounts and transactions; and against a mock HTTP server
  the Terra client, the submission of an update with its confirmation, its retries and its
  timeout, and whole ticks. What they ask of the clock, of the JSON, base64, wallet and address
  libraries, of the BSC client and of the power function is stated.
\<close>

theorem service_tests_pass:
  assumes "plain_texts L" and "decodes_keys L" and "unat (pow 10 10) = 10 ^ 10"
    and "reads_addresses d" and "test_clock t0 t1 t2 t3" and "serves h"
  shows "list_all passes (consensus_tests @ venus_tests pow @ state_tests @ event_tests @ tick_tests @
     timing_tests @ gas_tests @ account_tests L @ transaction_tests L de @
     address_tests d @ liveness_tests t0 t1 t2 t3 @
     map (\<lambda>t. t h) (submit_tests @ client_tests @ run_once_tests))"
  using consensus_tests_pass venus_tests_pass[where pow = pow, OF assms(3)] state_tests_pass event_tests_pass tick_tests_pass
    timing_tests_pass gas_tests_pass account_tests_pass transaction_tests_pass[OF assms(1,2)]
    address_tests_pass[OF assms(4)] liveness_tests_pass[OF assms(5)] submit_tests_pass[OF assms(6)]
    client_tests_pass[OF assms(6)] run_once_tests_pass[OF assms(6)]
  by (simp add: list.pred_map comp_def)

theorem service_tests_pass_witness:
  "list_all passes (consensus_tests @ venus_tests (\<lambda>b e. b ^ unat e) @ state_tests @ event_tests @
     tick_tests @ timing_tests @ gas_tests @ account_tests words_lcd @
     transaction_tests words_lcd \<lparr>from_slice = (\<lambda>_. Err []), from_value = (\<lambda>_. Err [])\<rparr> @
     address_tests (plain_env\<lparr>address_from_str := (\<lambda>s. Ok (if s = ''0x2170Ed0880ac9A755fd29B2688956BD959F933F8'' then s else []))\<rparr>) @
     liveness_tests 0 5000000 5000001 5000002 @
     map (\<lambda>t. t plain_server_host) (submit_tests @ client_tests @ run_once_tests))"
  by (rule service_tests_pass[where pow = "\<lambda>b e. b ^ unat e", OF _ _ _ _ _ plain_server_host_serves])
    (simp_all add: plain_texts_def decodes_keys_def words_lcd_def decode_words_def test_clock_def
      reads_addresses_def CANONICAL_VENUS_VFDUSD_BSC_MAINNET_def)

end
