(* ===== verification/Spec2Isabelle.thy ===== *)
theory Spec2Isabelle
  imports Oracle_Properties Window_Properties Wrap_Properties Service_Properties Test_Properties
begin

text \<open>
  A verification of the UST1 window: three CosmWasm contracts that swap vFDUSD and UST1 at an
  oracle rate and wrap native coins, and the service that feeds the oracle from a chain where
  the rate is defined. The theories model the Rust sources under \<open>src/\<close>; all of the code
  has a definition here, and a good part of its tests, but for what the last section of this
  text lists.

  The parts of the program and how they interact.

  \<^item> \<open>ust1-common\<close> (\<open>smartcontracts-terraclassic/packages/ust1-common\<close>) is the arithmetic of the
    swaps and the rules of a rate update. The contracts and the service share it.
  \<^item> \<open>ust1-oracle\<close> stores a rate. Its operator updates it under those rules; governance names
    the operator, pauses, and hands itself over in two steps.
  \<^item> \<open>ust1-window\<close> takes vFDUSD or UST1 through the receive hook of a cw20 token, asks the
    oracle for its state, and answers with messages that mint or burn UST1 and move vFDUSD to
    or from the treasury. It limits each swap and the volume of a window of 24 hours.
  \<^item> \<open>cmm-native-wrap\<close> mints a token for each native coin it receives and pays it out again.
  \<^item> \<open>oracle-service\<close> reads the rate from several providers, decides with the same rules
    whether the contract would take it, broadcasts the update, and counts it as done only when
    the transaction is included and proves the update.

  Shared theories.

  \<^item> \<open>Prelude\<close>: machine words, the \<open>Result\<close> type as a sum with an extra value for an abort (a
    panic of the Rust code), the early return of the question mark operator as \<open>and_then\<close>,
    checked, saturating and plain arithmetic. \<open>Rust_Str\<close>: the operations on \<open>str\<close> and the
    decimal printing and parsing of integers; a string is its list of UTF-8 bytes. \<open>Rust_F64\<close>:
    \<open>f64\<close> as rational numbers rounded to 53 bits, with infinities and NaN. \<open>CosmWasm\<close>: blocks,
    senders, storage items, responses, and the host's functions as parameters.
  \<^item> \<open>Transitions\<close>: runs of a labelled step relation (one label is one successful call; a
    failed call changes nothing, since the host reverts it), and three locales that state
    contracts of behaviour: \<open>two_step_governance\<close>, \<open>rolling_limited\<close> and \<open>simulation\<close>. Each is
    interpreted on the definitions of every component that provides it.
    \<open>Rolling_Window\<close> holds what the two volume counters share, \<open>counted\<close> what a notional does to
    one. \<open>Addresses\<close>: which addresses are
    known (validated by the host, or of a caller), and the locale \<open>address_typing\<close>: a contract
    that stores and sends to known addresses only does so over any run. \<open>Window_Addresses\<close> and
    \<open>Wrap_Addresses\<close> interpret it on the three contracts.

  The contracts.

  \<^item> \<open>Swap_Math\<close> (\<open>lib.rs\<close>, \<open>error.rs\<close>, \<open>math.rs\<close>, \<open>fee_split.rs\<close>) and \<open>Oracle_Policy\<close>
    (\<open>oracle_policy.rs\<close>): one function for each of the code, on 128 and 256 bit words, with the
    condition under which each succeeds and the value it then has. \<open>Swap_Economics\<close>: rounding,
    round trips and splits in terms of money.
  \<^item> \<open>Oracle_Contract\<close>: \<open>state.rs\<close>, \<open>msg.rs\<close>, \<open>error.rs\<close> and every entry point of
    \<open>contract.rs\<close>. \<open>Oracle_Safety\<close>: when each operation succeeds and what it does, the invariant
    of reachable storages, runs (monotone rate, throttle, growth), governance. \<open>Oracle_Feed\<close>: an
    abstract feed of published rates whose state is the whole history, and the proof that the
    four stored fields refine it.
  \<^item> \<open>Window_Contract\<close>: \<open>state.rs\<close>, \<open>msg.rs\<close>, \<open>error.rs\<close>, \<open>treasury.rs\<close>, \<open>contract.rs\<close> of the
    window. \<open>Window_Safety\<close>: outcomes of deposit and withdraw, invariant, absence of aborts,
    limits over runs, governance. \<open>Window_System\<close>: oracle and window together with the UST1 and
    vFDUSD they move; \<open>solvent\<close> says that the treasury covers the UST1 outstanding.
  \<^item> \<open>Native_Wrap\<close>, \<open>Native_Wrap_Safety\<close>, \<open>Native_Wrap_Runs\<close>: the same for
    \<open>cmm-native-wrap\<close>, with the backing of the wrapped tokens over runs.

  The service (\<open>oracle-service/src\<close>).

  \<^item> \<open>Service_Lib\<close>: JSON values, UTF-8, URLs, and the effects of the code. An \<open>async\<close> function is
    a function of the outside world that answers every request: it returns a result, or the
    value \<open>Dropped\<close> when the future is cancelled at a request (a timeout, a shutdown), or \<open>None\<close>
    when it does not return.
  \<^item> \<open>Service_Rates\<close> (\<open>evm_rpc.rs\<close>, \<open>bsc.rs\<close>): consensus of providers, one provider's reads at
    one block, the cache of chain ids. \<open>Service_Config\<close> (\<open>config.rs\<close>). \<open>Service_Terra\<close> and
    \<open>Service_Signer\<close> (\<open>terra_tx.rs\<close>): parsing, queries, broadcast, and the loop that waits for
    inclusion, a \<open>partial_function\<close>. \<open>Service_Confirm\<close> (\<open>confirm.rs\<close>): what the wasm events of a
    transaction, or the state of the contract, prove.
  \<^item> \<open>Service_Loop\<close> (\<open>main.rs\<close>, \<open>liveness.rs\<close>, \<open>healthz.rs\<close>): the decision of a tick, the tick,
    the start-up, and the operator loop as the step relation \<open>operator_step\<close>.
  \<^item> \<open>Service_Fee\<close>, \<open>Service_Attributes\<close>, \<open>Service_Broadcast\<close>, \<open>Service_Wait\<close>, \<open>Service_Loop_Safety\<close>,
    \<open>Service_Provenance\<close>, \<open>Service_Authentic\<close>, \<open>Service_Freshness\<close>, \<open>Service_Market\<close>: what these
    guarantee: fees, how the texts of a node are read on top of base64 as RFC 4648 has it, what
    an admitted broadcast signed, what a wait that succeeds saw and that
    every wait ends, agreement of the tick with the contract, what moves the liveness record,
    where a rate comes from, what a proof of an update says of the chain when the node reports
    truly, whether the ticks keep the oracle fresh enough for the window, and that they follow
    a market that moves slowly.

  The tests. \<open>Test_Lib\<close>: a test is a value that returns or aborts, \<open>unwrap\<close> and assertions.
  \<open>Test_Common\<close>, \<open>Test_Oracle\<close>, \<open>Test_Rates\<close>, \<open>Test_Config\<close>, \<open>Test_Terra\<close>, \<open>Test_Confirm\<close>,
  \<open>Test_Ticks\<close>, \<open>Test_Window\<close> and \<open>Test_Wrap\<close> hold the tests of the files they are named after,
  each with the name it has there; here or in \<open>Test_Window_Pass\<close> and \<open>Test_Wrap_Pass\<close> it is shown
  that they pass: on the inputs whose answer the authors wrote down, the model gives that
  answer. \<open>Test_Properties\<close> collects them; they check the model against the code and are not
  among the properties. What a test asks of a third-party library is a hypothesis.

  The mock HTTP server. \<open>Test_Server\<close>: the mocks with their limits, counts and expectations, the
  world of a test (its clock and the mocks), and the service over it. \<open>Test_Client\<close> (the Terra
  client), \<open>Test_Submit\<close> (an update and its confirmation) and \<open>Test_Run_Once\<close> (whole ticks) are the
  tests; \<open>Test_Server_Runs\<close> and \<open>Test_Server_Waits\<close> say, by the answers of the server, what one
  call of the service does, and \<open>serves\<close> what the third-party code is relied on for; the tests
  pass in \<open>Test_Submit_Pass\<close>, \<open>Test_Client_Pass\<close> and \<open>Test_Run_Once_Pass\<close>. The wait for a
  transaction that is never found is shown to end with its timeout, whatever time a request takes.
  \<open>Test_Server_Host\<close> is a host that \<open>serves\<close>.

  The simulated chain. The tests of the window and of the wrap contract run the contracts
  together with cw20 tokens, a stub of the treasury and the bank. \<open>Cw20_Tokens\<close> says with ledgers
  what a cw20 token does, and \<open>Test_Wrap_Chain\<close> with purses what the bank does; an
  implementation of either is a parameter that behaves as its ledger or purses do.
  \<open>Test_Chain\<close> and \<open>Test_Wrap_Chain\<close>: calls, queries between contracts, the delivery of the
  messages of an answer, and the set-up of the tests; a call that fails anywhere leaves the
  chain as it was. \<open>Test_Delivery\<close>, \<open>Test_Window_Runs\<close> and \<open>Test_Wrap_Runs\<close> compute what a call
  does to the balances. \<open>Delivery_Properties\<close> shows for every state, not only those of the
  tests, that a swap which the window accepts is carried out with all its messages.

  The properties are in \<open>Oracle_Properties\<close>, \<open>Window_Properties\<close>, \<open>Wrap_Properties\<close>,
  \<open>Service_Properties\<close>, \<open>Delivery_Properties\<close> and, where they span the contracts, below. Each that has a hypothesis has a witness on the host of the tests or on the deployment of \<open>Window_Scenario\<close>, \<open>Wrap_Scenario\<close> or \<open>Service_Scenario\<close>, whose
  steps are values of the model's own functions on the host of \<open>Scenario_Host\<close>.

  Loops and termination. There is no fuel: loops of the code are structural recursions, one
  recursion on nested JSON with a measure, and the wait for inclusion. The wait has no bound in
  the model, since the clock is the world's; \<open>time_advances\<close> says that requests come back and
  that a sleep lasts as long as asked, and under it the wait and the tick are shown to return.

  What is a parameter. Code that is not under \<open>src/\<close> is an argument of the definitions that
  use it: address validation and JSON encoding of the host, the answers of other contracts and
  of the bank, the JSON-RPC client and its contract calls, URL and address parsing, base64, the
  text of a JSON value, HTTP, the wallet library, sockets, the clock and sleeping. Where a
  property relies on such code, the hypothesis says on what.

  Not modelled: log lines other than the two the operator acts on (the liveness alert and the
  failed tick), the set-up of tracing, the registration of OS signals, the HTTP server that
  answers the health probe once it runs, the entry-point modules of the contracts, which only
  forward, the tests of the service that measure how a transport timeout, \<open>tokio\<close> or the router
  behave (hanging JSON-RPC servers, a slow tick, the shutdown hook, the probe) or how a URL is
  printed, two tests of the window that compare the JSON text of a message, and the scripts and
  documentation. The two reads that run at the same time
  are modelled by the order in which they look at the cache. The treasury contract and the cw20
  tokens are not in the repository; \<open>Window_System\<close> takes the effect of the messages sent to
  them as their documented one.
\<close>

section \<open>Oracle, window and treasury together\<close>

text \<open>
  C1: The UST1 the window issued stays covered. When the treasury's vFDUSD covers the UST1
  outstanding at the rate of the oracle, it does so after any run of calls to the oracle and
  to the window, in any order, by anybody, with rate updates in between.
\<close>

theorem issued_ust1_stays_covered:
  assumes "run (system_step ao aw fj) y es y'" and "solvent y"
  shows "sy_supply y' * 10 ^ 18 \<le> sy_treasury y' * rate_of (sy_oracle y')"
  using system_run_solvent[OF assms] unfolding solvent_def .

theorem issued_ust1_stays_covered_witness:
  "sy_supply (system_at (window_at 1014500 2207800) 207800 188525) * 10 ^ 18 \<le>
   sy_treasury (system_at (window_at 1014500 2207800) 207800 188525) *
     rate_of (sy_oracle (system_at (window_at 1014500 2207800) 207800 188525))"
  by (rule issued_ust1_stays_covered[OF system_scenario]) (simp add: solvent_def)

text \<open>
  C2: While the UST1 outstanding is covered, no transfer of UST1 or vFDUSD to the window is
  refused because the treasury holds too little, whoever sends it and however large it is, up
  to the UST1 outstanding.
\<close>

theorem covered_withdrawal_is_paid:
  assumes "solvent y" and "w_config (sy_window y) = Some cfg" and "answers q cfg y"
    and "unat (cw20_amount m) \<le> sy_supply y"
  shows "receive_cw20 a fj q e info m (sy_window y) \<noteq> Err InsufficientVfdusd"
  using receive_not_Insufficient[OF assms] .

theorem covered_withdrawal_is_paid_witness:
  "receive_cw20 plain_api hook_json (system_querier (oracle_at rate_2 1014400) 1000000)
     (at_time 1014600) (sent_by ''ust1'')
     \<lparr>cw20_sender = ''alice'', cw20_amount = 1207800, cw20_msg = ''withdraw''\<rparr>
     (window_at 1014500 1207800) \<noteq> Err InsufficientVfdusd"
proof -
  have "solvent (system_at (window_at 1014500 1207800) 1207800 1000000)"
    by (simp add: solvent_def rate_2_def)
  from covered_withdrawal_is_paid[OF this, of window_cfg
      "system_querier (oracle_at rate_2 1014400) 1000000"
      "\<lparr>cw20_sender = ''alice'', cw20_amount = 1207800, cw20_msg = ''withdraw''\<rparr>"]
  show ?thesis by (simp add: system_querier_answers)
qed

end
